(* ===== verification/Prelude.thy ===== *)
theory Prelude
  imports Main "HOL-Library.List_Lexorder" "HOL-Library.Char_ord" "HOL-Library.AList"
begin

text \<open>
  Shared vocabulary of the development: the error monad in which every exception of the
  source is a value, plain JavaScript objects and maps as association lists, the code-unit
  order on strings, and the canonical (sorted, duplicate free) lists and records that the
  kernel stores.  The lemmas are the automation that every component theory uses.
\<close>

section \<open>Collections of facts\<close>

named_theorems run_ok
  \<open>rules that turn "this computation returned normally" into what its checks established\<close>
named_theorems run_cases
  \<open>the same for case distinctions with one branch that does not throw\<close>
named_theorems canon
  \<open>facts about sorted, duplicate free lists and records\<close>

section \<open>Computations that may throw\<close>

definition bindE :: "'e + 'a \<Rightarrow> ('a \<Rightarrow> 'e + 'b) \<Rightarrow> 'e + 'b" where
  "bindE m f = (case m of Inl e \<Rightarrow> Inl e | Inr x \<Rightarrow> f x)"

fun mapE :: "('a \<Rightarrow> 'e + 'b) \<Rightarrow> 'a list \<Rightarrow> 'e + 'b list" where
  "mapE f [] = Inr []"
| "mapE f (x # xs) = bindE (f x) (\<lambda>y. bindE (mapE f xs) (\<lambda>ys. Inr (y # ys)))"

fun forE :: "('a \<Rightarrow> 'e + unit) \<Rightarrow> 'a list \<Rightarrow> 'e + unit" where
  "forE f [] = Inr ()"
| "forE f (x # xs) = bindE (f x) (\<lambda>_. forE f xs)"

text \<open>The index-carrying variants of \<open>Array.prototype.map\<close> and of a loop over \<open>entries()\<close>.\<close>

fun mapiE :: "(nat \<Rightarrow> 'a \<Rightarrow> 'e + 'b) \<Rightarrow> nat \<Rightarrow> 'a list \<Rightarrow> 'e + 'b list" where
  "mapiE f i [] = Inr []"
| "mapiE f i (x # xs) = bindE (f i x) (\<lambda>y. bindE (mapiE f (Suc i) xs) (\<lambda>ys. Inr (y # ys)))"

definition is_ok :: "'e + 'a \<Rightarrow> bool" where
  "is_ok m = (case m of Inl _ \<Rightarrow> False | Inr _ \<Rightarrow> True)"

lemma bindE_simps [simp]:
  "bindE (Inl e) f = Inl e"
  "bindE (Inr x) f = f x"
  by (simp_all add: bindE_def)

lemma is_ok_simps [simp]: "\<not> is_ok (Inl e)" "is_ok (Inr x)"
  by (simp_all add: is_ok_def)

lemma is_ok_iff: "is_ok m \<longleftrightarrow> (\<exists>x. m = Inr x)"
  by (cases m) auto

lemma not_ok_iff: "\<not> is_ok m \<longleftrightarrow> (\<exists>e. m = Inl e)"
  by (cases m) auto

lemma bindE_eq_Inr [run_ok]: "bindE m f = Inr y \<longleftrightarrow> (\<exists>x. m = Inr x \<and> f x = Inr y)"
  by (cases m) auto

lemma bindE_eq_Inl: "bindE m f = Inl e \<longleftrightarrow> m = Inl e \<or> (\<exists>x. m = Inr x \<and> f x = Inl e)"
  by (cases m) auto

lemma bindE_unit_eq_Inr [run_ok]:
  "bindE m (\<lambda>_. k) = Inr y \<longleftrightarrow> is_ok m \<and> k = Inr y"
  by (cases m) auto

lemma if_throw_eq_Inr [run_ok]:
  "(if c then Inl e else k) = Inr y \<longleftrightarrow> \<not> c \<and> k = Inr y"
  "(if c then k else Inl e) = Inr y \<longleftrightarrow> c \<and> k = Inr y"
  by auto

lemma case_option_eq_Inr [run_cases]:
  "(case x of None \<Rightarrow> Inl e | Some v \<Rightarrow> f v) = Inr y \<longleftrightarrow> (\<exists>v. x = Some v \<and> f v = Inr y)"
  "(case x of None \<Rightarrow> k | Some v \<Rightarrow> Inl (g v)) = Inr y \<longleftrightarrow> x = None \<and> k = Inr y"
  by (cases x; simp)+

lemma is_ok_if_throw [run_ok]:
  "is_ok (if c then Inl e else k) \<longleftrightarrow> \<not> c \<and> is_ok k"
  "is_ok (if c then k else Inl e) \<longleftrightarrow> c \<and> is_ok k"
  by auto

lemma is_ok_bindE: "is_ok (bindE m f) \<longleftrightarrow> (\<exists>x. m = Inr x \<and> is_ok (f x))"
  by (cases m) auto

lemma is_ok_bindE_unit [run_ok]: "is_ok (bindE m (\<lambda>_. k)) \<longleftrightarrow> is_ok m \<and> is_ok k"
  by (cases m) auto

lemma bindE_assoc: "bindE (bindE m f) g = bindE m (\<lambda>x. bindE (f x) g)"
  by (cases m) auto

lemma bindE_cong [fundef_cong]:
  "m = m' \<Longrightarrow> (\<And>x. m' = Inr x \<Longrightarrow> f x = f' x) \<Longrightarrow> bindE m f = bindE m' f'"
  by (cases m') auto

text \<open>Evaluating a long sequence: the rest is simplified only once its first step has a value.\<close>

lemma bindE_weak_cong: "m = m' \<Longrightarrow> bindE m f = bindE m' f"
  by simp

text \<open>Naming the value of an evaluation.\<close>

lemma projr_case: "(case m of Inl _ \<Rightarrow> False | Inr b \<Rightarrow> P b) \<Longrightarrow> m = Inr (projr m) \<and> P (projr m)"
  by (cases m) simp_all

lemma mapE_eq_Inr: "mapE f xs = Inr ys \<longleftrightarrow> list_all2 (\<lambda>x y. f x = Inr y) xs ys"
proof (induction xs arbitrary: ys)
  case Nil
  then show ?case by auto
next
  case (Cons x xs)
  then show ?case by (cases ys) (auto simp: bindE_eq_Inr)
qed

lemma mapE_pure:
  assumes "\<And>x y. x \<in> set xs \<Longrightarrow> f x = Inr y \<longleftrightarrow> y = g x \<and> P x"
  shows "mapE f xs = Inr ys \<longleftrightarrow> ys = map g xs \<and> (\<forall>x \<in> set xs. P x)"
  using assms by (induction xs arbitrary: ys) (auto simp: bindE_eq_Inr)

lemma mapE_cong [fundef_cong]:
  "xs = ys \<Longrightarrow> (\<And>x. x \<in> set ys \<Longrightarrow> f x = g x) \<Longrightarrow> mapE f xs = mapE g ys"
  by (induction ys arbitrary: xs) auto

lemma mapiE_cong [fundef_cong]:
  "i = j \<Longrightarrow> xs = ys \<Longrightarrow> (\<And>k x. x \<in> set ys \<Longrightarrow> f k x = g k x) \<Longrightarrow> mapiE f i xs = mapiE g j ys"
  by (induction ys arbitrary: xs i j) auto

lemma mapE_identity:
  assumes "mapE f xs = Inr ys" and "\<And>x y. x \<in> set xs \<Longrightarrow> f x = Inr y \<Longrightarrow> y = x"
  shows "ys = xs"
  using assms by (induction xs arbitrary: ys) (auto simp: bindE_eq_Inr)

lemma mapiE_identity:
  assumes "mapiE f i xs = Inr ys" and "\<And>k x y. x \<in> set xs \<Longrightarrow> f k x = Inr y \<Longrightarrow> y = x"
  shows "ys = xs"
  using assms by (induction xs arbitrary: ys i) (auto simp: bindE_eq_Inr)

lemma mapiE_length: "mapiE f i xs = Inr ys \<Longrightarrow> length ys = length xs"
  by (induction xs arbitrary: ys i) (auto simp: bindE_eq_Inr)

lemma mapiE_nth:
  assumes "mapiE f i xs = Inr ys" and "k < length xs"
  shows "f (i + k) (xs ! k) = Inr (ys ! k)"
  using assms
proof (induction xs arbitrary: ys i k)
  case Nil
  then show ?case by simp
next
  case (Cons x xs)
  then show ?case by (cases k) (fastforce simp: bindE_eq_Inr)+
qed

lemma mapiE_set:
  assumes "mapiE f i xs = Inr ys" and "y \<in> set ys"
  shows "\<exists>k x. x \<in> set xs \<and> f k x = Inr y"
proof -
  from assms(2) obtain k where k: "k < length ys" "y = ys ! k"
    by (auto simp: in_set_conv_nth)
  with assms(1) have "k < length xs" by (simp add: mapiE_length)
  with assms(1) k have "f (i + k) (xs ! k) = Inr y" by (simp add: mapiE_nth)
  moreover have "xs ! k \<in> set xs" using \<open>k < length xs\<close> by simp
  ultimately show ?thesis by blast
qed

lemma forE_ok [run_ok]: "is_ok (forE f xs) \<longleftrightarrow> (\<forall>x \<in> set xs. is_ok (f x))"
  by (induction xs) (auto simp: bindE_unit_eq_Inr is_ok_bindE is_ok_iff)

lemma forE_eq_Inr [run_ok]: "forE f xs = Inr u \<longleftrightarrow> (\<forall>x \<in> set xs. is_ok (f x))"
  using forE_ok [of f xs] by (cases "forE f xs") auto

section \<open>Strings in code-unit order\<close>

text \<open>
  A JavaScript string is its list of code units; \<open>compareCodeUnits\<close> of
  \<open>contracts/src/canonical.ts\<close> is the lexicographic order of those lists, which is the
  order \<open><\<close> that the library puts on \<^typ>\<open>string\<close>.  Sorting an array with that
  comparator is the stable \<open>sort_key\<close>.
\<close>

definition compareCodeUnits :: "string \<Rightarrow> string \<Rightarrow> int" where
  "compareCodeUnits left right = (if left < right then -1 else if left > right then 1 else 0)"

lemma compareCodeUnits_le: "compareCodeUnits a b \<le> 0 \<longleftrightarrow> a \<le> b"
  by (auto simp: compareCodeUnits_def)

lemma compareCodeUnits_eq: "compareCodeUnits a b = 0 \<longleftrightarrow> a = b"
  by (auto simp: compareCodeUnits_def)

text \<open>The truth value of a string that may be \<open>undefined\<close> or \<open>null\<close>: the empty string is false.\<close>

definition truthy :: "string option \<Rightarrow> bool" where
  "truthy v = (case v of None \<Rightarrow> False | Some s \<Rightarrow> s \<noteq> [])"

lemma truthy_iff: "truthy v \<longleftrightarrow> (\<exists>s. v = Some s \<and> s \<noteq> [])"
  by (cases v) (auto simp: truthy_def)

lemma truthy_simps [simp]: "\<not> truthy None" "truthy (Some s) \<longleftrightarrow> s \<noteq> []"
  by (simp_all add: truthy_def)

section \<open>Objects and maps as association lists\<close>

type_synonym 'v dict = "(string \<times> 'v) list"

abbreviation keys :: "'v dict \<Rightarrow> string list" where
  "keys d \<equiv> map fst d"

abbreviation dict_ok :: "'v dict \<Rightarrow> bool" where
  "dict_ok d \<equiv> distinct (keys d)"

text \<open>
  \<open>sortedRecord\<close> and \<open>sortedUnique\<close> of \<open>reducer-support.ts\<close>.  The entries of a
  dictionary stay in the order of their keys; JavaScript lists integer-like keys before the others.  The
  order shows only where the reducer writes one terminal state per active attempt: with attempt IDs that are
  numerals it gives those writes in another order.  Everywhere else the keys are sorted again.
\<close>

definition sortedRecord :: "'v dict \<Rightarrow> 'v dict" where
  "sortedRecord input = sort_key fst input"

definition sortedUnique :: "string list \<Rightarrow> string list" where
  "sortedUnique values = sort (remdups values)"

lemma set_sortedRecord [simp]: "set (sortedRecord d) = set d"
  by (simp add: sortedRecord_def)

lemma map_sort_key: "map f (sort_key f xs) = sort (map f xs)"
proof -
  have "map f (insort_key f x ys) = insort (f x) (map f ys)" for x ys
    by (induction ys) auto
  then show ?thesis by (induction xs) auto
qed

lemma distinct_map_sort_key [canon]: "distinct (map f (sort_key f xs)) \<longleftrightarrow> distinct (map f xs)"
  by (simp add: map_sort_key)

lemma keys_sortedRecord: "keys (sortedRecord d) = sort (keys d)"
  by (simp add: sortedRecord_def map_sort_key)

lemma dict_ok_sortedRecord [simp, canon]: "dict_ok (sortedRecord d) = dict_ok d"
  by (simp add: keys_sortedRecord)

lemma map_of_sortedRecord [simp]:
  assumes "dict_ok d"
  shows "map_of (sortedRecord d) = map_of d"
  using assms by (intro map_of_eqI) (auto simp: keys_sortedRecord map_of_eq_Some_iff)

lemma set_sortedUnique [simp]: "set (sortedUnique xs) = set xs"
  by (simp add: sortedUnique_def)

lemma distinct_sortedUnique [simp]: "distinct (sortedUnique xs)"
  by (simp add: sortedUnique_def)

lemma sorted_sortedUnique [simp]: "sorted (sortedUnique xs)"
  by (simp add: sortedUnique_def)

lemma sortedUnique_eq_sorted_list_of_set: "sortedUnique xs = sorted_list_of_set (set xs)"
  by (simp add: sortedUnique_def sorted_list_of_set_sort_remdups)

lemma sortedUnique_eq_iff [canon]: "sortedUnique xs = sortedUnique ys \<longleftrightarrow> set xs = set ys"
  by (metis set_sortedUnique sortedUnique_eq_sorted_list_of_set)

lemma sortedUnique_fixed: "sorted xs \<Longrightarrow> distinct xs \<Longrightarrow> sortedUnique xs = xs"
  by (simp add: sortedUnique_def sorted_sort_id distinct_remdups_id)

lemma sortedUnique_fixed_iff [canon]: "sortedUnique xs = xs \<longleftrightarrow> sorted xs \<and> distinct xs"
  by (metis sortedUnique_fixed sorted_sortedUnique distinct_sortedUnique)

lemma sortedUnique_fixed_sym [canon]: "xs = sortedUnique xs \<longleftrightarrow> sorted xs \<and> distinct xs"
  using sortedUnique_fixed_iff [of xs] by metis

lemma sortedUnique_idem [simp]: "sortedUnique (sortedUnique xs) = sortedUnique xs"
  by (simp add: sortedUnique_fixed)

lemma length_sortedUnique: "length (sortedUnique xs) = length xs \<longleftrightarrow> distinct xs"
  by (simp add: sortedUnique_def length_remdups_eq)

lemma sort_eq_sortedUnique:
  assumes "distinct xs"
  shows "sort xs = sortedUnique ys \<longleftrightarrow> set xs = set ys"
  using assms by (metis distinct_remdups_id set_sort set_sortedUnique sortedUnique_def sortedUnique_eq_iff)

lemma sort_fixed_sym [canon]: "xs = sort xs \<longleftrightarrow> sorted xs" for xs :: "string list"
  by (metis sorted_sort sorted_sort_id)

lemma set_eq_sort_eq: "distinct xs \<Longrightarrow> distinct ys \<Longrightarrow> sort xs = sort ys \<longleftrightarrow> set xs = set ys"
  by (metis distinct_sort set_sort sorted_distinct_set_unique sorted_sort)

lemma in_keys_map_of: "map_of d k \<noteq> None \<longleftrightarrow> k \<in> set (keys d)"
  by (simp add: map_of_eq_None_iff)

lemma map_of_in_set: "map_of d k = Some v \<Longrightarrow> (k, v) \<in> set d"
  by (rule map_of_SomeD)

lemma set_keys_update [simp]: "set (keys (AList.update k v d)) = insert k (set (keys d))"
  by (induction d) auto

lemma dict_ok_update [simp, canon]: "dict_ok d \<Longrightarrow> dict_ok (AList.update k v d)"
  by (rule AList.distinct_update)

lemma map_of_update [simp]: "map_of (AList.update k v d) = (map_of d)(k \<mapsto> v)"
  by (simp add: AList.update_conv')

lemma set_keys_delete [simp]: "set (keys (AList.delete k d)) = set (keys d) - {k}"
  by (auto simp: AList.delete_eq)

lemma dict_ok_delete [simp, canon]: "dict_ok d \<Longrightarrow> dict_ok (AList.delete k d)"
  by (auto simp: AList.delete_eq distinct_map_filter)

lemma map_of_delete [simp]: "map_of (AList.delete k d) = (map_of d)(k := None)"
  by (rule AList.delete_conv')

end
