(* ===== verification/Errors.thy ===== *)
theory Errors
  imports Prelude
begin

text \<open>
  The exceptions of the program as values.  A \<open>ContractValidationError\<close> carries its path and a
  constructor for its message; every other constructor stands for one \<open>throw new Error\<close> of the
  module its datatype is named after, or for one of the error classes that callers tell apart.  \<open>Message\<close> and \<open>Thrown\<close> carry the text itself.
\<close>

datatype (plugins only: code size) contract_detail =
    MustBeObject | UnknownField | MustBeNonEmptyString | AtMostCharacters int | InvalidFormat
  | MustBeIntegerBetween int int | MustBeBoolean | MustBeOneOf "string list" | MustBeArray
  | EntriesBetween int int | MustNotContainDuplicates | AtMostEntries int | KeyTooLong int
  | InvalidKey | ExceedsJsonDepth int | MustUseLf | AtMostFields int | MustBeJsonValue
  | MustBeTimestamp | CreatesCycle | MustBeSchema string | IsRequired | Message string

datatype (plugins only: code size) pipeline_detail =
    ToOrTerminal | ReentriesTogether | TerminalCannotReenter | BadSegments | BodyOrFile
  | NeedsTransition | NotForAgentStage | EngineOnlyCompiled | EntrySkillNotInSkills
  | OnlyForAgentStage | NotForCommandStage | NotForEffectStage | NotForWaitStage
  | DuplicateStageIds | UnknownStage | UnreachableStage string | UnboundedCycle string
  | ReservedStageId

datatype (plugins only: code size) record_detail =
    InlineOrBlob | BlobSchemaMismatch | InlineTooLarge | NotRegistered
  | RegisteredFor string | EffectPayloadTooLarge | KeyDoesNotMatchEffect | MutatedEffect
  | ConflictsWithEffect

datatype (plugins only: code size) support_error =
    ExactMapMismatch string "string list" | UnknownManifestStage string
  | AttemptOfOtherRun string | AttemptOfOtherBundle string | AttemptNotActive string int
  | AttemptOutsideCursor string | AttemptAlreadyTerminal string
  | TooManyContextIds | InvalidContextId | ContextIdsNotCanonical
  | NeedsAllBarrier | FrontierNotCanonicalOrder | FrontierDuplicateScopes
  | FrontierDuplicateAttempts | MemberNotCanonical string | DependencyUnavailable string
  | MemberDependenciesNotCanonical string | CompletedNotCanonical | BarrierMismatch
  | ActiveAttemptsMismatch | AttemptAbsentFromFrontier string | SelectedBeforeDependencies string
  | ManifestOfOtherPipeline | ManifestOfOtherBundle | NegativeVersions | InvalidBundleHash
  | InvalidRunSubject | RunAlreadyTerminal string | OutcomeOnNonTerminal | NoActiveStage
  | RecordKeyMismatch string | RecordOfOtherRun string | CheckpointKeyMismatch string
  | CheckpointOfOtherRun string | AttemptAuthorityMismatch string | AttemptSubjectMismatch string
  | NotCurrentAttempt string
  | EmptyFrontier | DuplicateMemberKeys | DuplicateLogicalScopes | UnknownDependencyOwner string
  | MemberOfOtherStage string | SelfDependency string | CyclicDependencies

datatype (plugins only: code size) evidence_error =
    ForensicsOtherSchema | InvalidResultOtherSchema | InvalidResultEvidenceMismatch
  | EffectOwnerNotDecision | EffectDecisionOfOtherRun | EffectOfOtherRun | EffectNotOwned
  | ObservationOtherIdentity | UnknownNeedsRetryAt | ObservationNotDelivery
  | DeliveryOfOtherRun | DeliveryOfOtherEffect | DeliveryOtherKey | DeliveryOtherIdentity

datatype (plugins only: code size) runtime_error =
    PoolSizeOutOfRange | ResourceOtherProvider string | ResourceNoResult string
  | ResourceNoIdentity string | ResourceNoSandbox string | NotOneCreateStartPair
  | PairDifferentSandboxes | PoolTooLarge | SandboxInTwoSlots | PoolSizeUnsealed
  | InvalidMemberIndex | ScopeRequired | CleanupPoolTooLarge | NotOneCreate
  | StartWithoutCreate | CleanupSandboxTwice | AbsenceNoCreate | AbsenceDuplicate
  | AbsenceNotRejected | AbsenceNotSingleton

datatype (plugins only: code size) recovery_error =
    MultipleRecoveries | MultipleAbsenceDeliveries | FrontierRecordMalformed
  | FrontierRecordReclassified | FrontierRecordBadEvidence | FrontierDependenciesNotCanonical
  | FrontierDuplicateAttemptIds

datatype (plugins only: code size) ancestry_error =
    AncestryTooLong | AncestryDuplicateId | AncestryFork | AncestryCycle | AncestryGap
  | AncestryDisconnected

datatype (plugins only: code size) work_error =
    CyclicDecisions | CheckpointIdentityMismatch string | SessionNotBound string
  | CheckpointChangesSession string | CheckpointBindsSession | VersionFence string
  | IdentityFence | RetryOrdinalFence | LeaseFence | NeedsStartedWorkLease
  | AlreadyBound string | InvalidNativeSession | MissingCheckpoint string
  | NotDecisionRecord string | DecisionCitesItself string | DecisionReferencesUnavailable string string
  | StartLeaseFence string | LeaseAlreadyStarted string | CannotStartFrom string
  | WorkLeaseNotCompleted string | CheckpointOwned string | EditNeedsSubject
  | InspectCannotAdvance | NotResultRecord string | ResultIdentityMismatch string
  | OtherAuthoritativeResult string | EditResultNeedsSubject | InspectResultAdvances
  | WaitResultAdvances | CannotEnterResultPending string | InvalidCandidateHash
  | NoNativeSession string | InvalidDeadline | DeadlineChanged | NoInvalidEvidence
  | NoDiagnostics | DiagnosticIncomplete | CannotRecordFrom string | NoVerifiedCheckpoint string
  | CannotRetryFrom string | RetriesExhausted string | InvalidForensics

datatype (plugins only: code size) external_error =
    NotExternalStage string | NotStartedWorkLease string | CannotScheduleFrom string
  | WaitMustPreserve | CheckpointSubjectMismatch | LaterPhaseChangesSubject
  | InvalidPhaseIdentity | WrongSemanticKey | FirstPhaseCites | LaterPhaseMustCite
  | EffectCount | DuplicateEffectIds | DuplicateEffectKeys | EffectAlreadyActive string
  | EffectOtherSubject string | NotOrdinalZeroEvidence | NoPublicationParent
  | NotReadyForAdvance | NotOneSubjectAdvance | NoConfirmedDelivery | NoMaterializedResult
  | DeliveryChangedIdentity

datatype (plugins only: code size) terminal_error =
    QuarantineNotOwner | RecoveryNotExhausted string | QuarantineDiagnosticInvalid
  | QuarantineEvidenceChanged | TerminalOtherAttempt | RecoveryFrontierMismatch
  | RecoveryFrontierForeign | RecoveryFrontierUnexpected | CompletedWorkDiscarded
  | NoDisposition | PreProvisionUnproven | CleanupWithUnresolvedEffects
  | CleanupEvidenceMismatch | CleanupMissingDelivery string | CleanupUnproven
  | NoStopStage | CleanupAttemptContext | CleanupMissingDiagnostic string
  | QuarantineNeedsDecision

datatype (plugins only: code size) settle_error =
    NewAttemptOfOtherRun string | NewAttemptOfOtherBundle string | NewAttemptOtherStage string
  | NewAttemptOtherSubject string | NewAttemptBadHash string | NewAttemptNotPristine string
  | NewAttemptBadIndex string | NewAttemptAuthority string | PredecessorUnverified string
  | PredecessorMissing string | PredecessorMismatch string | NewAttemptIdsNotUnique
  | NewAttemptActive string | NewScopesNotUnique | NoTransition string string
  | DecisionOmitsResult | OutsideBarrier string | SiblingAdvances | NoVerifiedSubject
  | RecoveryUnproven | RecoveryBadEdge | TerminalSchedules | TerminalEffects
  | TerminalDependencies | TerminalStrandsEffects | BypassesCleanup | NoCleanupDelivery
  | NoAbsenceProof | MissingDestination | NoNextAttempt | RecoverySubjectsMismatch
  | SettleBeforeResult string | CannotCorrect string | NoPendingEvidence string
  | CorrectionUncited | CorrectionEvidenceMismatch

datatype (plugins only: code size) error =
    ContractValidationError string contract_detail
  | PipelineError string pipeline_detail
  | RecordError string record_detail
  | SupportError support_error
  | EvidenceError evidence_error
  | RuntimeError runtime_error
  | RecoveryError recovery_error
  | AncestryError ancestry_error
  | WorkError work_error
  | ExternalError external_error
  | TerminalError terminal_error
  | SettleError settle_error
  | StaleSnapshot string
  | BlobIntegrityError string string
  | InboxPayloadCorruption string string
  | OperatorRejectionConflict string
  | OperatorRejectionNotFound string
  | Thrown string

type_synonym 'a result = "error + 'a"

abbreviation fail :: "string \<Rightarrow> contract_detail \<Rightarrow> 'a result" where
  "fail path detail \<equiv> Inl (ContractValidationError path detail)"

abbreviation throwM :: "string \<Rightarrow> 'a result" where
  "throwM text \<equiv> Inl (Thrown text)"

end
