(* ===== verification/SqlTables.thy ===== *)
theory SqlTables
  imports Errors
begin

text \<open>
  The SQL that the store runs, as the source writes it: a table is the list of its rows, a query is a
  filter, a statement changes the rows that its \<open>WHERE\<close> clause selects and reports how many there
  were, and a constraint of the schema that does not hold aborts the statement.  A transaction that
  throws, or whose deferred constraints do not hold at its end, leaves the database as it was.
\<close>

section \<open>Queries\<close>

definition first_row :: "('r \<Rightarrow> bool) \<Rightarrow> 'r list \<Rightarrow> 'r option" where
  "first_row P rows = List.find P rows"

text \<open>\<open>ORDER BY\<close> the listed columns, \<open>LIMIT\<close> a number of rows; texts compare byte by byte.\<close>

definition ordered_rows :: "('r \<Rightarrow> 'k::linorder) \<Rightarrow> ('r \<Rightarrow> bool) \<Rightarrow> 'r list \<Rightarrow> 'r list" where
  "ordered_rows column P rows = sort_key column (filter P rows)"

text \<open>\<open>length(text)\<close> counts the characters before the first NUL.\<close>

definition sql_length :: "string \<Rightarrow> nat" where
  "sql_length t = length (takeWhile (\<lambda>c. c \<noteq> CHR 0x00) t)"

section \<open>Statements\<close>

text \<open>
  An \<open>UPDATE\<close> sets columns of the rows that satisfy \<open>P\<close>, with the values that \<open>f\<close> computes from the
  old row.  The schema is a condition on each written row and one on the table.
\<close>

record 'r table_schema =
  ts_check :: "'r \<Rightarrow> bool"
  ts_unique :: "'r list \<Rightarrow> bool"

definition updated_rows :: "('r \<Rightarrow> bool) \<Rightarrow> ('r \<Rightarrow> 'r) \<Rightarrow> 'r list \<Rightarrow> 'r list" where
  "updated_rows P f rows = map (\<lambda>r. if P r then f r else r) rows"

definition updateE :: "'r table_schema \<Rightarrow> ('r \<Rightarrow> bool) \<Rightarrow> ('r \<Rightarrow> 'r) \<Rightarrow> 'r list \<Rightarrow> ('r list \<times> nat) result" where
  "updateE schema P f rows =
     (let rows' = updated_rows P f rows in
      if list_all (\<lambda>r. P r \<longrightarrow> ts_check schema (f r)) rows \<and> ts_unique schema rows'
        then Inr (rows', length (filter P rows))
      else throwM ''constraint failed'')"

definition insertE :: "'r table_schema \<Rightarrow> 'r \<Rightarrow> 'r list \<Rightarrow> 'r list result" where
  "insertE schema row rows =
     (if ts_check schema row \<and> ts_unique schema (rows @ [row]) then Inr (rows @ [row])
      else throwM ''constraint failed'')"

section \<open>Transactions\<close>

definition transaction :: "('d \<Rightarrow> bool) \<Rightarrow> ('d \<Rightarrow> ('a \<times> 'd) result) \<Rightarrow> 'd \<Rightarrow> ('a \<times> 'd) result" where
  "transaction deferred body db =
     bindE (body db) (\<lambda>(x, db'). if deferred db' then Inr (x, db') else throwM ''FOREIGN KEY constraint failed'')"

definition database_after :: "('a \<times> 'd) result \<Rightarrow> 'd \<Rightarrow> 'd" where
  "database_after outcome db = (case outcome of Inl _ \<Rightarrow> db | Inr (_, db') \<Rightarrow> db')"

text \<open>A loop whose steps change the database and may throw.\<close>

fun foldE :: "('a \<Rightarrow> 's \<Rightarrow> 's result) \<Rightarrow> 'a list \<Rightarrow> 's \<Rightarrow> 's result" where
  "foldE f [] s = Inr s"
| "foldE f (x # xs) s = bindE (f x s) (foldE f xs)"

section \<open>Facts\<close>

lemma foldE_invariant:
  assumes "foldE f xs s = Inr s'" and "I s" and "\<And>x s s'. x \<in> set xs \<Longrightarrow> I s \<Longrightarrow> f x s = Inr s' \<Longrightarrow> I s'"
  shows "I s'"
  using assms
proof (induction xs arbitrary: s)
  case (Cons x xs)
  from Cons.prems(1) obtain s1 where s1: "f x s = Inr s1" "foldE f xs s1 = Inr s'" by (auto simp: run_ok)
  from Cons.prems(3) [OF _ Cons.prems(2) s1(1)] have s1': "I s1" by simp
  show ?case by (rule Cons.IH [OF s1(2) s1']) (rule Cons.prems(3), simp_all)
qed simp

lemma first_row_Some: "first_row P rows = Some r \<Longrightarrow> r \<in> set rows \<and> P r"
  by (auto simp: first_row_def find_Some_iff)

lemma first_row_None: "first_row P rows = None \<longleftrightarrow> (\<forall>r \<in> set rows. \<not> P r)"
  by (auto simp: first_row_def find_None_iff)

lemma first_row_unique:
  assumes "r \<in> set rows" and "P r" and "\<And>r'. r' \<in> set rows \<Longrightarrow> P r' \<Longrightarrow> r' = r"
  shows "first_row P rows = Some r"
proof (cases "first_row P rows")
  case None
  with assms(1,2) show ?thesis by (auto simp: first_row_None)
next
  case (Some r')
  with first_row_Some [OF Some] assms(3) show ?thesis by simp
qed

lemma by_key:
  assumes "distinct (map key rows)" and "r \<in> set rows" and "r' \<in> set rows" and "key r' = key r"
  shows "r' = r"
  using assms inj_on_eq_iff [of key "set rows"] by (simp add: distinct_map)

lemma first_row_key:
  assumes "distinct (map key rows)" and "r \<in> set rows" and "key r = k"
  shows "first_row (\<lambda>r. key r = k) rows = Some r"
  using assms by (intro first_row_unique) (auto dest: by_key)

lemma updated_rows_keys:
  assumes "\<And>r. key (f r) = key r"
  shows "map key (updated_rows P f rows) = map key rows"
  using assms by (simp add: updated_rows_def)

lemma in_updated_rows: "r' \<in> set (updated_rows P f rows) \<longleftrightarrow>
    (\<exists>r \<in> set rows. r' = (if P r then f r else r))"
  by (auto simp: updated_rows_def)

lemma updateE_ok [run_ok]:
  "updateE schema P f rows = Inr (rows', n) \<longleftrightarrow>
     rows' = updated_rows P f rows \<and> n = length (filter P rows) \<and>
     (\<forall>r \<in> set rows. P r \<longrightarrow> ts_check schema (f r)) \<and> ts_unique schema rows'"
  by (auto simp: updateE_def Let_def list_all_iff)

text \<open>A compare-and-set: the statement has to change exactly one row.\<close>

lemma compare_and_set:
  "bindE (updateE schema P f rows) (\<lambda>(rows', n). if n \<noteq> 1 then Inl e else k rows') = Inr y \<longleftrightarrow>
     (\<exists>rows'. updateE schema P f rows = Inr (rows', 1) \<and> k rows' = Inr y)"
  by (cases "updateE schema P f rows") (auto split: if_splits)

lemma bindE_snd_ok: "bindE m (\<lambda>(_, s). f s) = Inr y \<longleftrightarrow> (\<exists>x s. m = Inr (x, s) \<and> f s = Inr y)"
  by (cases m) auto

lemma insertE_ok [run_ok]:
  "insertE schema row rows = Inr rows' \<longleftrightarrow>
     rows' = rows @ [row] \<and> ts_check schema row \<and> ts_unique schema rows'"
  by (auto simp: insertE_def)

lemma transaction_ok [run_ok]:
  "transaction deferred body db = Inr (x, db') \<longleftrightarrow> body db = Inr (x, db') \<and> deferred db'"
  by (auto simp: transaction_def run_ok split: prod.splits)

lemma database_after_simps [simp]:
  "database_after (Inl e) db = db"
  "database_after (Inr (x, db')) db = db'"
  by (simp_all add: database_after_def)

text \<open>A statement that selects one row by its key and a condition changes that row alone.\<close>

lemma one_row_changed:
  assumes "distinct (map key rows)" and "length (filter (\<lambda>r. key r = k \<and> C r) rows) = 1"
  obtains r where "r \<in> set rows" "key r = k" "C r" "\<And>r'. r' \<in> set rows \<Longrightarrow> key r' = k \<Longrightarrow> r' = r"
proof -
  from assms(2) obtain r where r: "filter (\<lambda>r. key r = k \<and> C r) rows = [r]"
    by (auto simp: length_Suc_conv)
  then have "r \<in> set (filter (\<lambda>r. key r = k \<and> C r) rows)" by simp
  then have "r \<in> set rows \<and> key r = k \<and> C r" by simp
  with by_key [OF assms(1)] show thesis by (intro that [of r]) auto
qed

lemma changes_by_key:
  assumes "distinct (map key rows)" and "r \<in> set rows" and "key r = k" and "C r"
  shows "length (filter (\<lambda>r. key r = k \<and> C r) rows) = 1"
proof -
  have "filter (\<lambda>r. key r = k \<and> C r) rows = filter (\<lambda>x. x = r) rows"
    using assms by (intro filter_cong) (auto dest: by_key)
  also have "distinct rows" using assms(1) by (simp add: distinct_map)
  with assms(2) have "filter (\<lambda>x. x = r) rows = [r]" by (induction rows) (auto simp: filter_empty_conv)
  finally show ?thesis by simp
qed

end
