(* ===== verification/Strings.thy ===== *)
theory Strings
  imports Prelude
begin

text \<open>
  Characters, decimal text and the regular expressions of the contracts.  Each \<open>RegExp\<close>
  constant of the source is a boolean function on strings that accepts exactly the strings
  its anchored pattern matches.
\<close>

section \<open>Character classes\<close>

definition is_digit :: "char \<Rightarrow> bool" where
  "is_digit c \<longleftrightarrow> CHR ''0'' \<le> c \<and> c \<le> CHR ''9''"

definition is_lower :: "char \<Rightarrow> bool" where
  "is_lower c \<longleftrightarrow> CHR ''a'' \<le> c \<and> c \<le> CHR ''z''"

definition is_upper :: "char \<Rightarrow> bool" where
  "is_upper c \<longleftrightarrow> CHR ''A'' \<le> c \<and> c \<le> CHR ''Z''"

definition is_hex :: "char \<Rightarrow> bool" where
  "is_hex c \<longleftrightarrow> is_digit c \<or> (CHR ''a'' \<le> c \<and> c \<le> CHR ''f'')"

definition is_alnum :: "char \<Rightarrow> bool" where
  "is_alnum c \<longleftrightarrow> is_lower c \<or> is_upper c \<or> is_digit c"

definition is_lower_digit :: "char \<Rightarrow> bool" where
  "is_lower_digit c \<longleftrightarrow> is_lower c \<or> is_digit c"

section \<open>Decimal text\<close>

fun nat_digits :: "nat \<Rightarrow> nat list" where
  "nat_digits n = (if n < 10 then [n] else nat_digits (n div 10) @ [n mod 10])"

declare nat_digits.simps [simp del]

definition digit_char :: "nat \<Rightarrow> char" where
  "digit_char d = char_of (48 + d)"

definition char_digit :: "char \<Rightarrow> nat" where
  "char_digit c = of_char c - 48"

definition string_of_nat :: "nat \<Rightarrow> string" where
  "string_of_nat n = map digit_char (nat_digits n)"

text \<open>\<open>String(n)\<close> of an integer.\<close>

definition string_of_int :: "int \<Rightarrow> string" where
  "string_of_int i = (if i < 0 then CHR ''-'' # string_of_nat (nat (- i)) else string_of_nat (nat i))"

definition nat_of_string :: "string \<Rightarrow> nat" where
  "nat_of_string s = foldl (\<lambda>n c. 10 * n + char_digit c) 0 s"

definition padStart :: "nat \<Rightarrow> char \<Rightarrow> string \<Rightarrow> string" where
  "padStart n c s = replicate (n - length s) c @ s"

section \<open>Regular expressions\<close>

definition all_in :: "(char \<Rightarrow> bool) \<Rightarrow> string \<Rightarrow> bool" where
  "all_in p s = list_all p s"

text \<open>\<open>[a-z][a-z0-9]*(?:[seps][a-z0-9]+)*\<close>; the flag says that the last segment is not empty.\<close>

fun segments_rest :: "string \<Rightarrow> bool \<Rightarrow> string \<Rightarrow> bool" where
  "segments_rest seps open_ok [] = open_ok"
| "segments_rest seps open_ok (c # cs) =
     (if is_lower_digit c then segments_rest seps True cs
      else open_ok \<and> c \<in> set seps \<and> segments_rest seps False cs)"

fun segments :: "string \<Rightarrow> string \<Rightarrow> bool" where
  "segments seps [] = False"
| "segments seps (c # cs) = (is_lower c \<and> segments_rest seps True cs)"

text \<open>\<open>String.prototype.trim\<close> on Latin-1 text.\<close>

definition is_space :: "char \<Rightarrow> bool" where
  "is_space c \<longleftrightarrow> c \<in> set [CHR 0x09, CHR 0x0A, CHR 0x0B, CHR 0x0C, CHR 0x0D, CHR 0x20, CHR 0xA0]"

definition trim :: "string \<Rightarrow> string" where
  "trim s = rev (dropWhile is_space (rev (dropWhile is_space s)))"

definition IDENTIFIER :: "string \<Rightarrow> bool" where
  "IDENTIFIER s = segments ''._/-'' s"

definition COMMAND_NAME_PATTERN :: "string \<Rightarrow> bool" where
  "COMMAND_NAME_PATTERN s = segments ''._-'' s"

definition SHA256 :: "string \<Rightarrow> bool" where
  "SHA256 s \<longleftrightarrow> length s = 64 \<and> all_in is_hex s"

definition GIT_SUBJECT :: "string \<Rightarrow> bool" where
  "GIT_SUBJECT s \<longleftrightarrow> 40 \<le> length s \<and> length s \<le> 64 \<and> all_in is_hex s"

text \<open>\<open>[A-Za-z0-9][A-Za-z0-9<extra>]{0,rest}\<close>\<close>

fun token :: "string \<Rightarrow> nat \<Rightarrow> string \<Rightarrow> bool" where
  "token extra rest [] = False"
| "token extra rest (c # cs) =
     (is_alnum c \<and> length cs \<le> rest \<and> all_in (\<lambda>d. is_alnum d \<or> d \<in> set extra) cs)"

definition NATIVE_SESSION_ID :: "string \<Rightarrow> bool" where
  "NATIVE_SESSION_ID s = token ''._-'' 199 s"

definition RECORD_ID :: "string \<Rightarrow> bool" where
  "RECORD_ID s = token ''._:/-'' 199 s"

definition PAYLOAD_SCHEMA :: "string \<Rightarrow> bool" where
  "PAYLOAD_SCHEMA s = token ''._:/@-'' 199 s"

text \<open>\<open>MEDIA_TYPE\<close>: two non-empty halves, each a lower-case token, around the one slash.\<close>

fun media_half :: "string \<Rightarrow> bool" where
  "media_half [] = False"
| "media_half (c # cs) = (is_lower_digit c \<and> all_in (\<lambda>d. is_lower_digit d \<or> d \<in> set ''.+-'') cs)"

definition MEDIA_TYPE :: "string \<Rightarrow> bool" where
  "MEDIA_TYPE s =
     (media_half (takeWhile (\<lambda>c. c \<noteq> CHR ''/'') s) \<and>
      CHR ''/'' \<in> set s \<and>
      media_half (tl (dropWhile (\<lambda>c. c \<noteq> CHR ''/'') s)))"

text \<open>\<open><segments>@<digits>\<close>: versioned primitive references and effect kinds.\<close>

definition versioned :: "string \<Rightarrow> string \<Rightarrow> bool" where
  "versioned seps s =
     (let name = takeWhile (\<lambda>c. c \<noteq> CHR ''@'') s; rest = dropWhile (\<lambda>c. c \<noteq> CHR ''@'') s
      in segments seps name \<and> rest \<noteq> [] \<and> tl rest \<noteq> [] \<and> all_in is_digit (tl rest))"

definition EFFECT_KIND :: "string \<Rightarrow> bool" where
  "EFFECT_KIND s = versioned ''._:/-'' s"

definition EVALUATOR_PRIMITIVE_REFERENCE :: "string \<Rightarrow> bool" where
  "EVALUATOR_PRIMITIVE_REFERENCE s = versioned ''._/-'' s"

text \<open>\<open>[A-Za-z0-9][A-Za-z0-9._:/@-]{0,199}\<close> of \<open>pipeline.ts\<close>, and outcome names.\<close>

definition VERSION_REFERENCE :: "string \<Rightarrow> bool" where
  "VERSION_REFERENCE s = token ''._:/@-'' 199 s"

definition OUTCOME :: "string \<Rightarrow> bool" where
  "OUTCOME s = segments ''._/-'' s"

definition startsWith :: "string \<Rightarrow> string \<Rightarrow> bool" where
  "startsWith s p = (take (length p) s = p)"

section \<open>Facts\<close>

lemma nat_digits_lt: "d \<in> set (nat_digits n) \<Longrightarrow> d < 10"
proof (induction n rule: nat_digits.induct)
  case (1 n)
  then show ?case by (cases "n < 10") (auto simp: nat_digits.simps [of n])
qed

lemma nat_digits_nonempty [simp]: "nat_digits n \<noteq> []"
  by (subst nat_digits.simps) simp

lemma foldl_digits: "foldl (\<lambda>n d. 10 * n + d) 0 (nat_digits n) = n"
proof (induction n rule: nat_digits.induct)
  case (1 n)
  then show ?case by (cases "n < 10") (auto simp: nat_digits.simps [of n])
qed

lemma char_digit_digit_char [simp]: "d < 10 \<Longrightarrow> char_digit (digit_char d) = d"
  by (simp add: char_digit_def digit_char_def)

lemma nat_of_string_of_nat [simp]: "nat_of_string (string_of_nat n) = n"
proof -
  have "foldl (\<lambda>n c. 10 * n + char_digit c) m (map digit_char ds) = foldl (\<lambda>n d. 10 * n + d) m ds"
    if "\<forall>d \<in> set ds. d < 10" for m ds
    using that by (induction ds arbitrary: m) auto
  then show ?thesis
    by (simp add: nat_of_string_def string_of_nat_def nat_digits_lt foldl_digits)
qed

lemma string_of_nat_inj [simp]: "string_of_nat m = string_of_nat n \<longleftrightarrow> m = n"
  by (metis nat_of_string_of_nat)

lemma digit_char_is_digit: "d < 10 \<Longrightarrow> is_digit (digit_char d)"
  by (simp add: is_digit_def digit_char_def less_eq_char_def)

lemma string_of_nat_digits: "c \<in> set (string_of_nat n) \<Longrightarrow> is_digit c"
  by (auto simp: string_of_nat_def dest: nat_digits_lt intro: digit_char_is_digit)

lemma string_of_nat_nonempty [simp]: "string_of_nat n \<noteq> []"
  by (simp add: string_of_nat_def)

lemma not_digit_minus [simp]: "\<not> is_digit (CHR ''-'')" "\<not> is_digit (CHR '':'')"
  by (simp_all add: is_digit_def less_eq_char_def)

lemma string_of_int_inj [simp]: "string_of_int i = string_of_int j \<longleftrightarrow> i = j"
proof -
  have "string_of_nat m \<noteq> CHR ''-'' # s" for m s
    using string_of_nat_digits [of "CHR ''-''" m] by auto
  from this this [symmetric] show ?thesis
    by (auto simp: string_of_int_def)
qed

lemma startsWith_append [simp]: "startsWith (p @ s) p"
  by (simp add: startsWith_def)

lemma startsWith_iff: "startsWith s p \<longleftrightarrow> (\<exists>r. s = p @ r)"
  by (metis append_take_drop_id startsWith_append startsWith_def)

end
