(* ===== verification/Json.thy ===== *)
theory Json
  imports Strings "HOL-Library.Product_Lexorder"
begin

text \<open>
  JSON values, \<open>JSON.stringify\<close> and the canonical form of
  \<open>contracts/src/canonical.ts\<close>.  An object is the list of its entries in the order in which
  JavaScript enumerates them: integer-like keys first, in ascending order, then the other keys
  in the order of their insertion.
\<close>

section \<open>Values\<close>

text \<open>
  \<open>JInt\<close> is an integral number, \<open>JReal\<close> a finite non-integral one, given by its shortest
  decimal text, and \<open>JNonFinite\<close> stands for \<open>NaN\<close> and the infinities.
\<close>

datatype js_number = JInt int | JReal string | JNonFinite

datatype json =
    JNull
  | JBool bool
  | JNum js_number
  | JStr string
  | JArr "json list"
  | JObj "(string \<times> json) list"

text \<open>Property access on a value that may be no object: \<open>None\<close> is \<open>undefined\<close>.\<close>

fun jfield :: "json \<Rightarrow> string \<Rightarrow> json option" where
  "jfield (JObj es) k = map_of es k"
| "jfield _ k = None"

text \<open>\<open>value && typeof value === "object" && !Array.isArray(value)\<close>\<close>

fun is_obj :: "json \<Rightarrow> bool" where
  "is_obj (JObj _) = True"
| "is_obj _ = False"

fun obj_entries :: "json \<Rightarrow> (string \<times> json) list" where
  "obj_entries (JObj es) = es"
| "obj_entries _ = []"

section \<open>Enumeration order of object keys\<close>

definition is_index_key :: "string \<Rightarrow> bool" where
  "is_index_key k \<longleftrightarrow>
     k \<noteq> [] \<and> all_in is_digit k \<and> (length k = 1 \<or> hd k \<noteq> CHR ''0'') \<and>
     length k \<le> 10 \<and> (length k < 10 \<or> k < ''4294967295'')"

text \<open>
  \<open>Object.fromEntries(entries)\<close>, for entries with distinct keys.  An integer-like key is the
  decimal text of a number below \<open>2^32 - 1\<close>; two of them compare by length and then in
  code-unit order.
\<close>

definition fromEntries :: "(string \<times> 'v) list \<Rightarrow> (string \<times> 'v) list" where
  "fromEntries es =
     sort_key (\<lambda>e. (length (fst e), fst e)) (filter (is_index_key \<circ> fst) es) @
     filter (Not \<circ> is_index_key \<circ> fst) es"

section \<open>JSON.stringify\<close>

definition hex_char :: "nat \<Rightarrow> char" where
  "hex_char d = (if d < 10 then char_of (48 + d) else char_of (87 + d))"

definition escape_char :: "char \<Rightarrow> string" where
  "escape_char c =
     (if c = CHR 0x22 then [CHR 0x5C, CHR 0x22]
      else if c = CHR 0x5C then [CHR 0x5C, CHR 0x5C]
      else if c = CHR 0x08 then [CHR 0x5C, CHR ''b'']
      else if c = CHR 0x0C then [CHR 0x5C, CHR ''f'']
      else if c = CHR 0x0A then [CHR 0x5C, CHR ''n'']
      else if c = CHR 0x0D then [CHR 0x5C, CHR ''r'']
      else if c = CHR 0x09 then [CHR 0x5C, CHR ''t'']
      else if (of_char c :: nat) < 32
        then [CHR 0x5C, CHR ''u'', CHR ''0'', CHR ''0'',
              hex_char (of_char c div 16), hex_char (of_char c mod 16)]
      else [c])"

definition quote :: "string \<Rightarrow> string" where
  "quote s = CHR 0x22 # concat (map escape_char s) @ [CHR 0x22]"

fun stringify_number :: "js_number \<Rightarrow> string" where
  "stringify_number (JInt i) = string_of_int i"
| "stringify_number (JReal t) = t"
| "stringify_number JNonFinite = ''null''"

fun commas :: "string list \<Rightarrow> string" where
  "commas [] = []"
| "commas [x] = x"
| "commas (x # y # zs) = x @ CHR '','' # commas (y # zs)"

fun stringify :: "json \<Rightarrow> string" where
  "stringify JNull = ''null''"
| "stringify (JBool b) = (if b then ''true'' else ''false'')"
| "stringify (JNum n) = stringify_number n"
| "stringify (JStr s) = quote s"
| "stringify (JArr vs) = CHR ''['' # commas (map stringify vs) @ '']''"
| "stringify (JObj es) =
     CHR ''{'' # commas (map (\<lambda>(k, v). quote k @ CHR '':'' # stringify v) es) @ ''}''"

section \<open>Canonical form: canonical.ts\<close>

fun canonicalValue :: "json \<Rightarrow> json" where
  "canonicalValue (JArr vs) = JArr (map canonicalValue vs)"
| "canonicalValue (JObj es) =
     JObj (fromEntries (sort_key fst (map (\<lambda>(k, v). (k, canonicalValue v)) es)))"
| "canonicalValue v = v"

definition canonicalJson :: "json \<Rightarrow> string" where
  "canonicalJson v = stringify (canonicalValue v)"

text \<open>UTF-8 of code units below 256.\<close>

definition utf8_char :: "char \<Rightarrow> int list" where
  "utf8_char c =
     (let n = of_char c in if n < 128 then [n] else [192 + n div 64, 128 + n mod 64])"

definition utf8 :: "string \<Rightarrow> int list" where
  "utf8 s = concat (map utf8_char s)"

text \<open>\<open>Buffer.byteLength(s, "utf8")\<close> and \<open>canonicalBytes\<close>.\<close>

definition byteLength :: "string \<Rightarrow> int" where
  "byteLength s = int (length (utf8 s))"

definition canonicalBytes :: "json \<Rightarrow> int list" where
  "canonicalBytes v = utf8 (canonicalJson v)"

end
