(* ===== verification/Sha256.thy ===== *)
theory Sha256
  imports Json "HOL-Library.Word"
begin

unbundle bit_operations_syntax

text \<open>
  The runtime's \<open>createHash("sha256")\<close> (FIPS 180-4) on 32-bit words, and the digests of
  \<open>contracts/src/canonical.ts\<close> built on it.  Content addresses, record identities and
  attempt identities are all digests of canonical JSON.
\<close>

type_synonym u32 = "32 word"

section \<open>SHA-256\<close>

text \<open>
  The constants of the standard: the first 32 fractional bits of the cube roots of the first 64
  primes, and of the square roots of the first 8.
\<close>

fun root_bits :: "nat \<Rightarrow> int \<Rightarrow> nat \<Rightarrow> int \<Rightarrow> int" where
  "root_bits degree target 0 acc = acc"
| "root_bits degree target (Suc i) acc =
     (let candidate = acc + 2 ^ i in
      root_bits degree target i (if candidate ^ degree \<le> target then candidate else acc))"

definition sha_primes :: "int list" where
  "sha_primes = filter (\<lambda>n. list_all (\<lambda>d. n mod d \<noteq> 0) [2..n - 1]) [2..311]"

definition root_fraction :: "nat \<Rightarrow> int \<Rightarrow> u32" where
  "root_fraction degree p = word_of_int (root_bits degree (p * 2 ^ (32 * degree)) 37 0)"

definition sha_k :: "u32 list" where
  "sha_k = map (root_fraction 3) sha_primes"

definition sha_init :: "u32 list" where
  "sha_init = map (root_fraction 2) (take 8 sha_primes)"

definition rotr :: "nat \<Rightarrow> u32 \<Rightarrow> u32" where
  "rotr n x = (drop_bit n x OR push_bit (32 - n) x)"

definition big_sigma0 :: "u32 \<Rightarrow> u32" where
  "big_sigma0 x = (rotr 2 x XOR rotr 13 x XOR rotr 22 x)"

definition big_sigma1 :: "u32 \<Rightarrow> u32" where
  "big_sigma1 x = (rotr 6 x XOR rotr 11 x XOR rotr 25 x)"

definition small_sigma0 :: "u32 \<Rightarrow> u32" where
  "small_sigma0 x = (rotr 7 x XOR rotr 18 x XOR drop_bit 3 x)"

definition small_sigma1 :: "u32 \<Rightarrow> u32" where
  "small_sigma1 x = (rotr 17 x XOR rotr 19 x XOR drop_bit 10 x)"

text \<open>The schedule is built in reverse, so that \<open>w\<^sub>t\<^sub>-\<^sub>2\<close> is at index 1.\<close>

fun sha_schedule :: "nat \<Rightarrow> u32 list \<Rightarrow> u32 list" where
  "sha_schedule 0 ws = rev ws"
| "sha_schedule (Suc n) ws =
     sha_schedule n ((small_sigma1 (ws ! 1) + ws ! 6 + small_sigma0 (ws ! 14) + ws ! 15) # ws)"

fun sha_round :: "u32 list \<Rightarrow> u32 \<times> u32 \<Rightarrow> u32 list" where
  "sha_round [a, b, c, d, e, f, g, h] (k, w) =
     (let t1 = h + big_sigma1 e + ((e AND f) XOR (NOT e AND g)) + k + w;
          t2 = big_sigma0 a + ((a AND b) XOR (a AND c) XOR (b AND c))
      in [t1 + t2, a, b, c, d + t1, e, f, g])"
| "sha_round st _ = st"

definition sha_block :: "u32 list \<Rightarrow> u32 list \<Rightarrow> u32 list" where
  "sha_block st block =
     map2 (+) st (foldl sha_round st (zip sha_k (sha_schedule 48 (rev block))))"

fun words_of_bytes :: "int list \<Rightarrow> u32 list" where
  "words_of_bytes (a # b # c # d # rest) =
     word_of_int (((a * 256 + b) * 256 + c) * 256 + d) # words_of_bytes rest"
| "words_of_bytes _ = []"

definition bytes_be64 :: "int \<Rightarrow> int list" where
  "bytes_be64 n = map (\<lambda>i. (n div 256 ^ i) mod 256) [7, 6, 5, 4, 3, 2, 1, 0]"

definition sha_pad :: "int list \<Rightarrow> int list" where
  "sha_pad m =
     m @ [128] @ replicate ((119 - length m mod 64) mod 64) 0 @ bytes_be64 (8 * int (length m))"

fun sha_blocks :: "nat \<Rightarrow> u32 list \<Rightarrow> u32 list \<Rightarrow> u32 list" where
  "sha_blocks 0 st ws = st"
| "sha_blocks (Suc n) st ws = sha_blocks n (sha_block st (take 16 ws)) (drop 16 ws)"

definition hex_word :: "u32 \<Rightarrow> string" where
  "hex_word w = map (\<lambda>i. hex_char (nat (uint w div 16 ^ i mod 16))) [7, 6, 5, 4, 3, 2, 1, 0]"

definition sha256 :: "int list \<Rightarrow> string" where
  "sha256 m =
     (let ws = words_of_bytes (sha_pad m)
      in concat (map hex_word (sha_blocks (length ws div 16) sha_init ws)))"

section \<open>Digests: canonical.ts\<close>

definition digestNormalized :: "string \<Rightarrow> string" where
  "digestNormalized normalized = sha256 (utf8 normalized)"

definition digestCanonicalJson :: "json \<Rightarrow> string" where
  "digestCanonicalJson v = digestNormalized (canonicalJson v)"

end
