(* ===== verification/Validation.thy ===== *)
theory Validation
  imports Sha256 Errors
begin

text \<open>
  The field readers of \<open>contracts/src/validation.ts\<close>.  A reader takes an \<open>unknown\<close> value
  (\<open>None\<close> is \<open>undefined\<close>) and a path, and returns the typed value or throws a
  \<open>ContractValidationError\<close> at that path.
\<close>

section \<open>Readers\<close>

definition sub_path :: "string \<Rightarrow> string \<Rightarrow> string" where
  "sub_path path key = path @ ''.'' @ key"

definition idx_path :: "string \<Rightarrow> nat \<Rightarrow> string" where
  "idx_path path i = path @ ''['' @ string_of_nat i @ '']''"

definition objectAt :: "json option \<Rightarrow> string \<Rightarrow> string list \<Rightarrow> (json dict) result" where
  "objectAt value path allowed =
     (case value of
        Some (JObj es) \<Rightarrow>
          bindE (forE (\<lambda>key. if key \<in> set allowed then Inr () else fail (sub_path path key) UnknownField)
                   (keys es)) (\<lambda>_.
          Inr es)
      | _ \<Rightarrow> fail path MustBeObject)"

definition stringAt :: "json option \<Rightarrow> string \<Rightarrow> int \<Rightarrow> (string \<Rightarrow> bool) \<Rightarrow> string result" where
  "stringAt value path maximum pattern =
     (case value of
        Some (JStr s) \<Rightarrow>
          (if s = [] then fail path MustBeNonEmptyString
           else if int (length s) > maximum then fail path (AtMostCharacters maximum)
           else if \<not> pattern s then fail path InvalidFormat
           else Inr s)
      | _ \<Rightarrow> fail path MustBeNonEmptyString)"

text \<open>The readers' defaults: 512 characters and no pattern.\<close>

abbreviation default_max :: int where "default_max \<equiv> 512"
abbreviation any_format :: "string \<Rightarrow> bool" where "any_format \<equiv> \<lambda>_. True"

definition MAX_SAFE_INTEGER :: int where
  "MAX_SAFE_INTEGER = 9007199254740991"

definition isSafeInteger :: "int \<Rightarrow> bool" where
  "isSafeInteger i \<longleftrightarrow> - MAX_SAFE_INTEGER \<le> i \<and> i \<le> MAX_SAFE_INTEGER"

definition integerAt :: "json option \<Rightarrow> string \<Rightarrow> int \<Rightarrow> int \<Rightarrow> int result" where
  "integerAt value path lo hi =
     (case value of
        Some (JNum (JInt i)) \<Rightarrow>
          (if \<not> isSafeInteger i \<or> i < lo \<or> i > hi then fail path (MustBeIntegerBetween lo hi)
           else Inr i)
      | _ \<Rightarrow> fail path (MustBeIntegerBetween lo hi))"

definition booleanAt :: "json option \<Rightarrow> string \<Rightarrow> bool result" where
  "booleanAt value path =
     (case value of Some (JBool b) \<Rightarrow> Inr b | _ \<Rightarrow> fail path MustBeBoolean)"

definition enumAt :: "json option \<Rightarrow> string \<Rightarrow> string list \<Rightarrow> string result" where
  "enumAt value path allowed =
     (case value of
        Some (JStr s) \<Rightarrow> (if s \<in> set allowed then Inr s else fail path (MustBeOneOf allowed))
      | _ \<Rightarrow> fail path (MustBeOneOf allowed))"

definition arrayAt ::
  "json option \<Rightarrow> string \<Rightarrow> (json \<Rightarrow> string \<Rightarrow> 'a result) \<Rightarrow> int \<Rightarrow> int \<Rightarrow> ('a list) result" where
  "arrayAt value path parse lo hi =
     (case value of
        Some (JArr vs) \<Rightarrow>
          (if int (length vs) < lo \<or> int (length vs) > hi then fail path (EntriesBetween lo hi)
           else mapiE (\<lambda>i entry. parse entry (idx_path path i)) 0 vs)
      | _ \<Rightarrow> fail path MustBeArray)"

definition unique :: "string list \<Rightarrow> string \<Rightarrow> (string list) result" where
  "unique values path =
     (if length (remdups values) \<noteq> length values then fail path MustNotContainDuplicates
      else Inr values)"

definition nullable :: "json option \<Rightarrow> (json option \<Rightarrow> 'a result) \<Rightarrow> ('a option) result" where
  "nullable value parse =
     (if value = Some JNull then Inr None else bindE (parse value) (\<lambda>x. Inr (Some x)))"

text \<open>The loop of \<open>recordAt\<close>, with its running count.\<close>

fun recordEntries ::
  "(json \<Rightarrow> string \<Rightarrow> 'a result) \<Rightarrow> string \<Rightarrow> int \<Rightarrow> int option \<Rightarrow> (string \<Rightarrow> bool) \<Rightarrow> int \<Rightarrow>
     json dict \<Rightarrow> ('a dict) result" where
  "recordEntries parse path maximum keyMax keyPattern count [] = Inr []"
| "recordEntries parse path maximum keyMax keyPattern count ((key, entry) # es) =
     (if count + 1 > maximum then fail path (AtMostEntries maximum)
      else if (case keyMax of None \<Rightarrow> False | Some m \<Rightarrow> int (length key) > m)
        then fail (sub_path path key) (KeyTooLong (the keyMax))
      else if \<not> keyPattern key then fail (sub_path path key) InvalidKey
      else bindE (parse entry (sub_path path key)) (\<lambda>x.
           bindE (recordEntries parse path maximum keyMax keyPattern (count + 1) es) (\<lambda>xs.
           Inr ((key, x) # xs))))"

definition recordAt ::
  "json option \<Rightarrow> string \<Rightarrow> (json \<Rightarrow> string \<Rightarrow> 'a result) \<Rightarrow> int \<Rightarrow> int option \<Rightarrow> (string \<Rightarrow> bool) \<Rightarrow>
     ('a dict) result" where
  "recordAt value path parse maximum keyMax keyPattern =
     (case value of
        Some (JObj es) \<Rightarrow> recordEntries parse path maximum keyMax keyPattern 0 es
      | _ \<Rightarrow> fail path MustBeObject)"

record json_value_options =
  jo_maxDepth :: int
  jo_maxEntries :: int
  jo_maxKeyLength :: int
  jo_rejectCarriageReturns :: bool

definition default_json_options :: json_value_options where
  "default_json_options =
     \<lparr>jo_maxDepth = 16, jo_maxEntries = 1024, jo_maxKeyLength = 200, jo_rejectCarriageReturns = False\<rparr>"

fun jsonValueAt :: "json_value_options \<Rightarrow> int \<Rightarrow> string \<Rightarrow> json \<Rightarrow> json result" where
  "jsonValueAt opt depth path JNull =
     (if depth > jo_maxDepth opt then fail path (ExceedsJsonDepth (jo_maxDepth opt)) else Inr JNull)"
| "jsonValueAt opt depth path (JBool b) =
     (if depth > jo_maxDepth opt then fail path (ExceedsJsonDepth (jo_maxDepth opt)) else Inr (JBool b))"
| "jsonValueAt opt depth path (JStr s) =
     (if depth > jo_maxDepth opt then fail path (ExceedsJsonDepth (jo_maxDepth opt))
      else if jo_rejectCarriageReturns opt \<and> CHR 0x0D \<in> set s then fail path MustUseLf
      else Inr (JStr s))"
| "jsonValueAt opt depth path (JNum n) =
     (if depth > jo_maxDepth opt then fail path (ExceedsJsonDepth (jo_maxDepth opt))
      else if n = JNonFinite then fail path MustBeJsonValue
      else Inr (JNum n))"
| "jsonValueAt opt depth path (JArr vs) =
     (if depth > jo_maxDepth opt then fail path (ExceedsJsonDepth (jo_maxDepth opt))
      else if int (length vs) > jo_maxEntries opt then fail path (AtMostEntries (jo_maxEntries opt))
      else bindE (mapiE (\<lambda>i v. jsonValueAt opt (depth + 1) (idx_path path i) v) 0 vs) (\<lambda>ws.
           Inr (JArr ws)))"
| "jsonValueAt opt depth path (JObj es) =
     (if depth > jo_maxDepth opt then fail path (ExceedsJsonDepth (jo_maxDepth opt))
      else if int (length es) > jo_maxEntries opt then fail path (AtMostFields (jo_maxEntries opt))
      else bindE (mapE (\<lambda>(key, v).
                    if key = [] \<or> int (length key) > jo_maxKeyLength opt
                    then fail (sub_path path key) InvalidKey
                    else bindE (jsonValueAt opt (depth + 1) (sub_path path key) v) (\<lambda>w.
                         Inr (key, w))) es) (\<lambda>ws.
           Inr (JObj ws)))"

text \<open>The reader on a value that may be \<open>undefined\<close>.\<close>

definition jsonAt :: "json option \<Rightarrow> string \<Rightarrow> json result" where
  "jsonAt value path =
     (case value of None \<Rightarrow> fail path MustBeJsonValue
      | Some v \<Rightarrow> jsonValueAt default_json_options 0 path v)"

section \<open>Timestamps\<close>

text \<open>
  The grammar and the calendar check of \<open>normalizeIso8601Timestamp\<close>.  The contracts modelled
  here call it with \<open>normalize: false\<close>, which keeps the spelling of the input.
\<close>

definition take_digits :: "nat \<Rightarrow> string \<Rightarrow> (nat \<times> string) option" where
  "take_digits n s =
     (if length (take n s) = n \<and> all_in is_digit (take n s)
      then Some (nat_of_string (take n s), drop n s) else None)"

definition take_lit :: "char \<Rightarrow> string \<Rightarrow> string option" where
  "take_lit c s = (case s of [] \<Rightarrow> None | d # ds \<Rightarrow> if c = d then Some ds else None)"

definition take_fraction :: "string \<Rightarrow> string option" where
  "take_fraction s =
     (case s of
        c # cs \<Rightarrow>
          (if c = CHR ''.'' then
             let ds = takeWhile is_digit cs
             in if 1 \<le> length ds \<and> length ds \<le> 9 then Some (drop (length ds) cs) else None
           else Some s)
      | [] \<Rightarrow> Some s)"

definition take_offset :: "string \<Rightarrow> (nat \<times> nat) option" where
  "take_offset s =
     (case s of
        c # cs \<Rightarrow>
          (if c = CHR ''Z'' then (if cs = [] then Some (0, 0) else None)
           else if c = CHR ''+'' \<or> c = CHR ''-'' then
             Option.bind (take_digits 2 cs) (\<lambda>(h, r).
             Option.bind (take_digits 2 (if take 1 r = '':'' then drop 1 r else r)) (\<lambda>(m, r').
             if r' = [] then Some (h, m) else None))
           else None)
      | [] \<Rightarrow> None)"

definition parse_iso8601 :: "string \<Rightarrow> (nat \<times> nat \<times> nat \<times> nat \<times> nat \<times> nat \<times> nat \<times> nat) option" where
  "parse_iso8601 value =
     Option.bind (take_digits 4 value) (\<lambda>(year, s1).
     Option.bind (take_lit CHR ''-'' s1) (\<lambda>s2.
     Option.bind (take_digits 2 s2) (\<lambda>(month, s3).
     Option.bind (take_lit CHR ''-'' s3) (\<lambda>s4.
     Option.bind (take_digits 2 s4) (\<lambda>(day, s5).
     Option.bind (take_lit CHR ''T'' s5) (\<lambda>s6.
     Option.bind (take_digits 2 s6) (\<lambda>(hour, s7).
     Option.bind (take_lit CHR '':'' s7) (\<lambda>s8.
     Option.bind (take_digits 2 s8) (\<lambda>(minute, s9).
     Option.bind (take_lit CHR '':'' s9) (\<lambda>s10.
     Option.bind (take_digits 2 s10) (\<lambda>(second, s11).
     Option.bind (take_fraction s11) (\<lambda>s12.
     Option.bind (take_offset s12) (\<lambda>(offsetHour, offsetMinute).
     Some (year, month, day, hour, minute, second, offsetHour, offsetMinute))))))))))))))"

definition leapYear :: "nat \<Rightarrow> bool" where
  "leapYear year \<longleftrightarrow> year mod 4 = 0 \<and> (year mod 100 \<noteq> 0 \<or> year mod 400 = 0)"

definition daysInMonth :: "nat \<Rightarrow> nat list" where
  "daysInMonth year =
     [31, if leapYear year then 29 else 28, 31, 30, 31, 30, 31, 31, 30, 31, 30, 31]"

definition iso8601_valid :: "string \<Rightarrow> bool" where
  "iso8601_valid value =
     (case parse_iso8601 value of
        None \<Rightarrow> False
      | Some (year, month, day, hour, minute, second, offsetHour, offsetMinute) \<Rightarrow>
          \<not> (month < 1 \<or> month > 12 \<or> day < 1 \<or> day > daysInMonth year ! (month - 1) \<or>
             hour > 23 \<or> minute > 59 \<or> second > 59 \<or> offsetHour > 23 \<or> offsetMinute > 59))"

text \<open>
  With \<open>normalize: false\<close>, as every modelled caller passes it.  The source still asks whether \<open>Date.parse\<close>
  gives \<open>NaN\<close>.  It never does here: a text that passes \<open>iso8601_valid\<close> is in the date format of the language,
  with a year of four digits, so its time lies far inside the range of a \<open>Date\<close>.
\<close>

definition timestampAt :: "json option \<Rightarrow> string \<Rightarrow> string result" where
  "timestampAt value path =
     bindE (stringAt value path 64 any_format) (\<lambda>s.
     if \<not> iso8601_valid s then fail path MustBeTimestamp else Inr s)"

section \<open>Readers of plans\<close>

definition parseIdentifierList :: "json option \<Rightarrow> string \<Rightarrow> int \<Rightarrow> int \<Rightarrow> (string list) result" where
  "parseIdentifierList value path lo hi =
     bindE (arrayAt value path (\<lambda>entry p. stringAt (Some entry) p default_max IDENTIFIER) lo hi) (\<lambda>xs.
     unique xs path)"

record plan_command =
  pc_name :: string
  pc_unit :: "string option"

definition parsePlanCommand :: "json \<Rightarrow> string \<Rightarrow> plan_command result" where
  "parsePlanCommand value path =
     bindE (objectAt (Some value) path [''name'', ''unit'']) (\<lambda>input.
     if map_of input ''unit'' = None then fail (sub_path path ''unit'') IsRequired
     else
       bindE (stringAt (map_of input ''name'') (sub_path path ''name'') 80 COMMAND_NAME_PATTERN) (\<lambda>name.
       bindE (nullable (map_of input ''unit'')
                (\<lambda>v. stringAt v (sub_path path ''unit'') default_max IDENTIFIER)) (\<lambda>unit.
       Inr \<lparr>pc_name = name, pc_unit = unit\<rparr>)))"

section \<open>Facts\<close>

lemma objectAt_ok [run_ok]:
  "objectAt v path allowed = Inr es \<longleftrightarrow> v = Some (JObj es) \<and> set (keys es) \<subseteq> set allowed"
  by (auto simp: objectAt_def run_ok subset_iff split: option.splits json.splits)

lemma stringAt_ok [run_ok]:
  "stringAt v path maximum pat = Inr s \<longleftrightarrow>
     v = Some (JStr s) \<and> s \<noteq> [] \<and> int (length s) \<le> maximum \<and> pat s"
  by (auto simp: stringAt_def split: option.splits json.splits)

lemma integerAt_ok [run_ok]:
  "integerAt v path lo hi = Inr i \<longleftrightarrow>
     v = Some (JNum (JInt i)) \<and> isSafeInteger i \<and> lo \<le> i \<and> i \<le> hi"
  by (auto simp: integerAt_def split: option.splits json.splits js_number.splits)

lemma enumAt_ok [run_ok]:
  "enumAt v path allowed = Inr s \<longleftrightarrow> v = Some (JStr s) \<and> s \<in> set allowed"
  by (auto simp: enumAt_def split: option.splits json.splits)

lemma unique_ok [run_ok]: "unique xs path = Inr ys \<longleftrightarrow> ys = xs \<and> distinct xs"
  by (auto simp: unique_def length_remdups_eq)

lemma nullable_ok [run_ok]:
  "nullable v parse = Inr r \<longleftrightarrow>
     (v = Some JNull \<and> r = None) \<or> (v \<noteq> Some JNull \<and> (\<exists>x. parse v = Inr x \<and> r = Some x))"
  by (auto simp: nullable_def run_ok)

lemma timestampAt_ok [run_ok]:
  "timestampAt v path = Inr s \<longleftrightarrow>
     v = Some (JStr s) \<and> s \<noteq> [] \<and> length s \<le> 64 \<and> iso8601_valid s"
  by (auto simp: timestampAt_def run_ok)

lemma arrayAt_ok [run_ok]:
  "arrayAt v path parse lo hi = Inr xs \<longleftrightarrow>
     (\<exists>vs. v = Some (JArr vs) \<and> lo \<le> int (length vs) \<and> int (length vs) \<le> hi \<and>
        mapiE (\<lambda>i entry. parse entry (idx_path path i)) 0 vs = Inr xs)"
  by (auto simp: arrayAt_def run_ok split: option.splits json.splits)

lemma jsonValueAt_identity: "jsonValueAt opt depth path v = Inr w \<Longrightarrow> w = v"
proof (induction opt depth path v arbitrary: w rule: jsonValueAt.induct)
  case (5 opt depth path vs)
  from "5.prems" obtain ws where
    ws: "mapiE (\<lambda>i v. jsonValueAt opt (depth + 1) (idx_path path i) v) 0 vs = Inr ws" and "w = JArr ws"
    and g: "\<not> depth > jo_maxDepth opt" "\<not> int (length vs) > jo_maxEntries opt"
    by (auto simp: run_ok)
  from ws have "ws = vs"
    by (rule mapiE_identity) (use "5.IH" g in blast)
  with \<open>w = JArr ws\<close> show ?case by simp
next
  case (6 opt depth path es)
  from "6.prems" obtain ws where
    ws: "mapE (\<lambda>(key, v). if key = [] \<or> int (length key) > jo_maxKeyLength opt
           then fail (sub_path path key) InvalidKey
           else bindE (jsonValueAt opt (depth + 1) (sub_path path key) v) (\<lambda>w. Inr (key, w))) es = Inr ws"
    and "w = JObj ws"
    and g: "\<not> depth > jo_maxDepth opt" "\<not> int (length es) > jo_maxEntries opt"
    by (auto simp: run_ok)
  from ws have "ws = es"
    by (rule mapE_identity) (use "6.IH" g in \<open>fastforce simp: run_ok\<close>)
  with \<open>w = JObj ws\<close> show ?case by simp
qed (auto simp: run_ok)

lemma jsonAt_ok: "jsonAt v path = Inr w \<Longrightarrow> v = Some w"
  by (auto simp: jsonAt_def dest: jsonValueAt_identity split: option.splits)

end
