(* ===== verification/CycleSearch.thy ===== *)
theory CycleSearch
  imports Prelude
begin

text \<open>
  Depth-first cycle search.  Four routines of the program walk a graph with the same pair of
  sets, \<open>visiting\<close> (the stack of the walk) and \<open>visited\<close>: \<open>compileKernelCursor\<close>,
  \<open>validateStages\<close>, \<open>assertAcyclicDependencies\<close> and
  \<open>validateKernelCheckpointAncestryChain\<close>.  The walk is defined once; what its callers rely on
  is the interface \<open>cycle_check\<close>, which the walk satisfies.
\<close>

section \<open>The walk\<close>

text \<open>
  \<open>visit_all nodes succ err visiting visited ks\<close> runs \<open>visit\<close> on the keys \<open>ks\<close> in turn and
  returns the final \<open>visited\<close>.  A key outside \<open>nodes\<close> has no successors.  The walk ends because
  the stack holds pairwise different nodes.
\<close>

definition succs_in :: "'k list \<Rightarrow> ('k \<Rightarrow> 'k list) \<Rightarrow> 'k \<Rightarrow> 'k list" where
  "succs_in nodes succ k = (if k \<in> set nodes then succ k else [])"

function visit_all ::
  "'k list \<Rightarrow> ('k \<Rightarrow> 'k list) \<Rightarrow> ('k \<Rightarrow> 'e) \<Rightarrow> 'k list \<Rightarrow> 'k list \<Rightarrow> 'k list \<Rightarrow> 'e + 'k list" where
  "visit_all nodes succ err visiting visited [] = Inr visited"
| "visit_all nodes succ err visiting visited (k # ks) =
     (if k \<in> set visiting then Inl (err k)
      else if k \<in> set visited then visit_all nodes succ err visiting visited ks
      else bindE (visit_all nodes succ err (k # visiting) visited (succs_in nodes succ k)) (\<lambda>visited'.
           visit_all nodes succ err visiting (k # visited') ks))"
  by pat_completeness auto

termination
proof (relation "measures [\<lambda>(nodes, _, _, visiting, _, _). card (set nodes - set visiting),
                           \<lambda>(_, _, _, _, _, ks). length ks]")
  fix nodes :: "'k list" and succ :: "'k \<Rightarrow> 'k list" and err :: "'k \<Rightarrow> 'e"
    and visiting visited ks :: "'k list" and k :: 'k
  assume new: "k \<notin> set visiting"
  show "((nodes, succ, err, k # visiting, visited, succs_in nodes succ k),
         (nodes, succ, err, visiting, visited, k # ks))
        \<in> measures [\<lambda>(nodes, _, _, visiting, _, _). card (set nodes - set visiting),
                     \<lambda>(_, _, _, _, _, ks). length ks]"
  proof (cases "k \<in> set nodes")
    case True
    with new have "set nodes - insert k (set visiting) \<subset> set nodes - set visiting" by auto
    then have "card (set nodes - insert k (set visiting)) < card (set nodes - set visiting)"
      by (simp add: psubset_card_mono)
    then show ?thesis by simp
  next
    case False
    then have "set nodes - insert k (set visiting) = set nodes - set visiting" by auto
    with False show ?thesis by (simp add: succs_in_def)
  qed
qed simp_all

definition cycle_free :: "'k list \<Rightarrow> ('k \<Rightarrow> 'k list) \<Rightarrow> bool" where
  "cycle_free nodes succ = is_ok (visit_all nodes succ (\<lambda>k. k) [] [] nodes)"

section \<open>The graph\<close>

definition edges :: "'k list \<Rightarrow> ('k \<Rightarrow> 'k list) \<Rightarrow> ('k \<times> 'k) set" where
  "edges nodes succ = {(a, b). a \<in> set nodes \<and> b \<in> set (succ a)}"

lemma succs_in_edges: "b \<in> set (succs_in nodes succ a) \<longleftrightarrow> (a, b) \<in> edges nodes succ"
  by (simp add: succs_in_def edges_def)

lemma finite_edges: "finite (edges nodes succ)"
proof -
  have "edges nodes succ = (\<Union>a \<in> set nodes. (\<lambda>b. (a, b)) ` set (succ a))"
    by (auto simp: edges_def)
  then show ?thesis by simp
qed

section \<open>A reported key lies on a cycle\<close>

text \<open>The stack is a path: every key on it reaches each key that is about to be visited.\<close>

definition on_path :: "('k \<times> 'k) set \<Rightarrow> 'k list \<Rightarrow> 'k list \<Rightarrow> bool" where
  "on_path E visiting ks \<longleftrightarrow> (\<forall>v \<in> set visiting. \<forall>k \<in> set ks. (v, k) \<in> E\<^sup>+)"

lemma visit_all_reports_cycle:
  assumes "visit_all nodes succ err visiting visited ks = Inl e"
    and "on_path (edges nodes succ) visiting ks"
  shows "\<exists>k. (k, k) \<in> (edges nodes succ)\<^sup>+ \<and> e = err k"
  using assms
proof (induction nodes succ err visiting visited ks rule: visit_all.induct)
  case (1 nodes succ err visiting visited)
  then show ?case by simp
next
  case (2 nodes succ err visiting visited k ks)
  let ?E = "edges nodes succ"
  from "2.prems"(2) have path: "\<forall>v \<in> set visiting. (v, k) \<in> ?E\<^sup>+" and rest: "on_path ?E visiting ks"
    by (auto simp: on_path_def)
  consider (cycle) "k \<in> set visiting" | (seen) "k \<notin> set visiting" "k \<in> set visited"
    | (new) "k \<notin> set visiting" "k \<notin> set visited" by blast
  then show ?case
  proof cases
    case cycle
    with "2.prems"(1) path show ?thesis by auto
  next
    case seen
    with "2.prems"(1) have "visit_all nodes succ err visiting visited ks = Inl e" by simp
    from "2.IH"(1) [OF seen this rest] show ?thesis .
  next
    case new
    have "(v, b) \<in> ?E\<^sup>+" if "v \<in> set (k # visiting)" "b \<in> set (succs_in nodes succ k)" for v b
    proof -
      from that(2) have kb: "(k, b) \<in> ?E" by (simp add: succs_in_edges)
      with that(1) path show ?thesis by (auto intro: trancl_into_trancl)
    qed
    then have down: "on_path ?E (k # visiting) (succs_in nodes succ k)"
      by (simp add: on_path_def)
    show ?thesis
    proof (cases "visit_all nodes succ err (k # visiting) visited (succs_in nodes succ k)")
      case (Inl e')
      with new "2.prems"(1) have "e' = e" by simp
      with "2.IH"(2) [OF new _ down] Inl show ?thesis by simp
    next
      case (Inr visited')
      with new "2.prems"(1) have "visit_all nodes succ err visiting (k # visited') ks = Inl e" by simp
      from "2.IH"(3) [OF new Inr this rest] show ?thesis .
    qed
  qed
qed

section \<open>A finished walk leaves no cycle\<close>

definition settled_set :: "('k \<times> 'k) set \<Rightarrow> 'k set \<Rightarrow> bool" where
  "settled_set E V \<longleftrightarrow> E `` V \<subseteq> V \<and> (\<forall>v \<in> V. (v, v) \<notin> E\<^sup>+)"

lemma settled_set_closed:
  assumes "settled_set E V" and "v \<in> V" and "(v, w) \<in> E\<^sup>*"
  shows "w \<in> V"
  using assms(3,2) by (induction rule: rtrancl_induct) (use assms(1) in \<open>auto simp: settled_set_def\<close>)

lemma settled_set_insert:
  assumes "settled_set E V" and "E `` {k} \<subseteq> V" and "k \<notin> V"
  shows "settled_set E (insert k V)"
proof -
  have "(k, k) \<notin> E\<^sup>+"
  proof
    assume "(k, k) \<in> E\<^sup>+"
    then obtain s where "(k, s) \<in> E" and "(s, k) \<in> E\<^sup>*" by (meson tranclD)
    with assms(1,2) have "k \<in> V" by (auto intro: settled_set_closed)
    with assms(3) show False ..
  qed
  with assms show ?thesis by (auto simp: settled_set_def)
qed

lemma visit_all_settles:
  assumes "visit_all nodes succ err visiting visited ks = Inr visited'"
    and "settled_set (edges nodes succ) (set visited)"
    and "set visiting \<inter> set visited = {}"
  shows "settled_set (edges nodes succ) (set visited') \<and> set visiting \<inter> set visited' = {} \<and>
         set visited \<subseteq> set visited' \<and> set ks \<subseteq> set visited'"
  using assms
proof (induction nodes succ err visiting visited ks arbitrary: visited' rule: visit_all.induct)
  case (1 nodes succ err visiting visited)
  then show ?case by simp
next
  case (2 nodes succ err visiting visited k ks)
  let ?E = "edges nodes succ"
  from "2.prems"(1) have notin: "k \<notin> set visiting" by (auto split: if_splits)
  show ?case
  proof (cases "k \<in> set visited")
    case True
    with "2.prems"(1) notin have "visit_all nodes succ err visiting visited ks = Inr visited'" by simp
    from "2.IH"(1) [OF notin True this "2.prems"(2,3)] True show ?thesis by auto
  next
    case False
    with "2.prems"(1) notin obtain v1 where
      v1: "visit_all nodes succ err (k # visiting) visited (succs_in nodes succ k) = Inr v1"
      and rest: "visit_all nodes succ err visiting (k # v1) ks = Inr visited'"
      by (auto simp: bindE_eq_Inr)
    have "set (k # visiting) \<inter> set visited = {}" using False "2.prems"(3) by auto
    from "2.IH"(2) [OF notin False v1 "2.prems"(2) this]
    have h: "settled_set ?E (set v1)" "k \<notin> set v1" "set visiting \<inter> set v1 = {}"
      "set visited \<subseteq> set v1" "set (succs_in nodes succ k) \<subseteq> set v1" by auto
    have "?E `` {k} \<subseteq> set v1" using h(5) by (auto simp flip: succs_in_edges)
    with h have s: "settled_set ?E (set (k # v1))" by (simp add: settled_set_insert)
    have "set visiting \<inter> set (k # v1) = {}" using notin h(3) by auto
    from "2.IH"(3) [OF notin False v1 rest s this] h(4) show ?thesis by auto
  qed
qed

lemma visit_all_ok_iff:
  "is_ok (visit_all nodes succ err [] [] nodes) \<longleftrightarrow> acyclic (edges nodes succ)"
proof (cases "visit_all nodes succ err [] [] nodes")
  case (Inl e)
  then have "\<exists>k. (k, k) \<in> (edges nodes succ)\<^sup>+"
    using visit_all_reports_cycle [of nodes succ err "[]" "[]" nodes e] by (auto simp: on_path_def)
  with Inl show ?thesis by (auto simp: acyclic_def)
next
  case (Inr visited)
  then have s: "settled_set (edges nodes succ) (set visited)" and "set nodes \<subseteq> set visited"
    using visit_all_settles [of nodes succ err "[]" "[]" nodes visited]
    by (auto simp: settled_set_def)
  have "(k, k) \<notin> (edges nodes succ)\<^sup>+" for k
  proof
    assume c: "(k, k) \<in> (edges nodes succ)\<^sup>+"
    then have "k \<in> set nodes" by (auto dest!: tranclD simp: edges_def)
    with \<open>set nodes \<subseteq> set visited\<close> c s show False by (auto simp: settled_set_def)
  qed
  with Inr show ?thesis by (simp add: acyclic_def)
qed

section \<open>The interface of a cycle check\<close>

locale cycle_check =
  fixes check :: "'k list \<Rightarrow> ('k \<Rightarrow> 'k list) \<Rightarrow> bool"
  assumes check_iff: "check nodes succ \<longleftrightarrow> acyclic (edges nodes succ)"
begin

text \<open>What a scheduler needs: among unfinished nodes one waits for no unfinished node.\<close>

lemma ready_node:
  assumes "check nodes succ" and "k \<in> S" and "S \<subseteq> set nodes"
  shows "\<exists>r \<in> S. \<forall>d \<in> set (succ r). d \<notin> S"
proof -
  have "wf ((edges nodes succ)\<inverse>)"
    using assms(1) by (intro finite_acyclic_wf_converse finite_edges) (simp add: check_iff)
  from this assms(2) obtain r where "r \<in> S" and "\<forall>y. (y, r) \<in> (edges nodes succ)\<inverse> \<longrightarrow> y \<notin> S"
    by (auto elim!: wfE_min)
  with assms(3) show ?thesis by (auto simp: edges_def)
qed

lemma no_self_loop: "check nodes succ \<Longrightarrow> k \<in> set nodes \<Longrightarrow> k \<notin> set (succ k)"
  by (auto simp: check_iff acyclic_def edges_def)

lemma no_two_cycle:
  assumes "check nodes succ" and "a \<in> set nodes" and "b \<in> set (succ a)" and "b \<in> set nodes"
  shows "a \<notin> set (succ b)"
proof
  assume "a \<in> set (succ b)"
  with assms(2-4) have "(a, b) \<in> edges nodes succ" and "(b, a) \<in> edges nodes succ"
    by (auto simp: edges_def)
  then have "(a, a) \<in> (edges nodes succ)\<^sup>+" by auto
  with assms(1) show False by (simp add: check_iff acyclic_def)
qed

end

interpretation walk: cycle_check cycle_free
  by unfold_locales (simp add: cycle_free_def visit_all_ok_iff)

lemma visit_all_cycle_free: "is_ok (visit_all nodes succ err [] [] nodes) \<longleftrightarrow> cycle_free nodes succ"
  by (simp add: visit_all_ok_iff walk.check_iff)

end
