(* ===== verification/Pipeline.thy ===== *)
theory Pipeline
  imports Validation CycleSearch
begin

text \<open>
  Pipelines: \<open>contracts/src/pipeline.ts\<close>.  The data of authored and compiled pipelines, the
  parser of one stage, and the graph checks of \<open>validateStages\<close>.
\<close>

section \<open>Data\<close>

datatype repository_authority = InspectAuthority | EditAuthority

datatype terminal_outcome = Completed | NoChange | NeedsHuman | Failed | Canceled | Superseded

definition PIPELINE_TERMINAL_OUTCOMES :: "terminal_outcome list" where
  "PIPELINE_TERMINAL_OUTCOMES = [Completed, NoChange, NeedsHuman, Failed, Canceled, Superseded]"

fun outcome_name :: "terminal_outcome \<Rightarrow> string" where
  "outcome_name Completed = ''completed''"
| "outcome_name NoChange = ''no_change''"
| "outcome_name NeedsHuman = ''needs_human''"
| "outcome_name Failed = ''failed''"
| "outcome_name Canceled = ''canceled''"
| "outcome_name Superseded = ''superseded''"

fun authority_name :: "repository_authority \<Rightarrow> string" where
  "authority_name InspectAuthority = ''inspect''"
| "authority_name EditAuthority = ''edit''"

definition ENGINES :: "string list" where
  "ENGINES = [''claude'', ''codex'', ''opencode'']"

definition REPOSITORY_AUTHORITIES :: "string list" where
  "REPOSITORY_AUTHORITIES = [''inspect'', ''edit'']"

definition PIPELINE_STAGE_KINDS :: "string list" where
  "PIPELINE_STAGE_KINDS = [''agent'', ''command'', ''effect'', ''wait'']"

datatype exhausted = ExhaustNeedsHuman | ExhaustFailed

record transition =
  tr_to :: "string option"
  tr_terminal :: "terminal_outcome option"
  tr_max_reentries :: "int option"
  tr_on_exhausted :: "exhausted option"

record loop_binding =
  lb_over :: string
  lb_max_parallel :: int
  lb_max_rounds :: int
  lb_body :: "string list option"
  lb_file :: "string option"

record agent_fields =
  af_agent_id :: string
  af_repository_authority :: repository_authority
  af_skills :: "string list"
  af_entry_skill :: "string option"
  af_eval :: string
  af_engine :: "string option"

datatype stage_kind =
    AgentStage agent_fields
  | CommandStage string
  | EffectStage string
  | WaitStage string

record pipeline_stage =
  st_id :: string
  st_loop :: "loop_binding option"
  st_on :: "transition dict"
  st_kind :: stage_kind

record pipeline_definition =
  pd_id :: string
  pd_version :: int
  pd_entry :: string
  pd_stages :: "pipeline_stage list"

record compiled_manifest =
  cm_pipeline_id :: string
  cm_pipeline_version :: int
  cm_entry_stage :: string
  cm_definition_bundle_hash :: string
  cm_compiler_version :: string
  cm_runtime_capability_digest :: string
  cm_stages :: "pipeline_stage list"

section \<open>Parsing one stage\<close>

definition outcome_of_name :: "string \<Rightarrow> terminal_outcome" where
  "outcome_of_name s =
     (if s = ''completed'' then Completed else if s = ''no_change'' then NoChange
      else if s = ''needs_human'' then NeedsHuman else if s = ''failed'' then Failed
      else if s = ''canceled'' then Canceled else Superseded)"

definition exhausted_of_name :: "string \<Rightarrow> exhausted" where
  "exhausted_of_name s = (if s = ''needs_human'' then ExhaustNeedsHuman else ExhaustFailed)"

definition authority_of_name :: "string \<Rightarrow> repository_authority" where
  "authority_of_name s = (if s = ''edit'' then EditAuthority else InspectAuthority)"

text \<open>An optional field: absent is \<open>undefined\<close>, present is parsed.\<close>

definition optional :: "json option \<Rightarrow> (json option \<Rightarrow> 'a result) \<Rightarrow> ('a option) result" where
  "optional v parse = (if v = None then Inr None else bindE (parse v) (\<lambda>x. Inr (Some x)))"

definition parse_transition :: "json \<Rightarrow> string \<Rightarrow> transition result" where
  "parse_transition value path =
     bindE (objectAt (Some value) path [''to'', ''terminal'', ''max_reentries'', ''on_exhausted'']) (\<lambda>input.
     bindE (optional (map_of input ''to'')
              (\<lambda>v. stringAt v (sub_path path ''to'') default_max IDENTIFIER)) (\<lambda>dest.
     bindE (optional (map_of input ''terminal'')
              (\<lambda>v. enumAt v (sub_path path ''terminal'')
                     (map outcome_name PIPELINE_TERMINAL_OUTCOMES))) (\<lambda>terminal.
     if (dest = None) = (terminal = None) then Inl (PipelineError path ToOrTerminal)
     else
       bindE (optional (map_of input ''max_reentries'')
                (\<lambda>v. integerAt v (sub_path path ''max_reentries'') 1 100)) (\<lambda>maxReentries.
       bindE (optional (map_of input ''on_exhausted'')
                (\<lambda>v. enumAt v (sub_path path ''on_exhausted'') [''needs_human'', ''failed''])) (\<lambda>onExhausted.
       if (maxReentries = None) \<noteq> (onExhausted = None) then Inl (PipelineError path ReentriesTogether)
       else if terminal \<noteq> None \<and> maxReentries \<noteq> None
         then Inl (PipelineError path TerminalCannotReenter)
       else Inr \<lparr>tr_to = dest, tr_terminal = map_option outcome_of_name terminal,
                 tr_max_reentries = maxReentries,
                 tr_on_exhausted = map_option exhausted_of_name onExhausted\<rparr>)))))"

text \<open>\<open>file.split("/")\<close> and \<open>LOOP_FILE\<close>.\<close>

fun split_at :: "char \<Rightarrow> string \<Rightarrow> string list" where
  "split_at sep [] = [[]]"
| "split_at sep (c # cs) =
     (if c = sep then [] # split_at sep cs
      else case split_at sep cs of [] \<Rightarrow> [[c]] | w # ws \<Rightarrow> (c # w) # ws)"

fun has_infix :: "(string \<Rightarrow> bool) \<Rightarrow> string \<Rightarrow> bool" where
  "has_infix p [] = p []"
| "has_infix p (c # cs) = (p (c # cs) \<or> has_infix p cs)"

definition endsWith :: "string \<Rightarrow> string \<Rightarrow> bool" where
  "endsWith s p \<longleftrightarrow> length p \<le> length s \<and> drop (length s - length p) s = p"

definition LOOP_FILE :: "string \<Rightarrow> bool" where
  "LOOP_FILE s =
     (startsWith s ''loops/'' \<and>
      (let r = drop 6 s in
        \<not> has_infix (\<lambda>t. startsWith t ''/..'' \<and> (drop 3 t = [] \<or> startsWith (drop 3 t) ''/'')) r \<and>
        \<not> has_infix (\<lambda>t. startsWith t ''//'') r \<and>
        all_in (\<lambda>c. is_alnum c \<or> c \<in> set ''._/-'') r \<and>
        ((endsWith r ''.yml'' \<and> length r > 4) \<or> (endsWith r ''.yaml'' \<and> length r > 5))))"

definition loopBinding :: "json option \<Rightarrow> string \<Rightarrow> loop_binding result" where
  "loopBinding value path =
     bindE (objectAt value path [''over'', ''max_parallel'', ''max_rounds'', ''body'', ''file'']) (\<lambda>input.
     bindE (optional (map_of input ''body'')
              (\<lambda>v. bindE (arrayAt v (sub_path path ''body'')
                            (\<lambda>entry p. stringAt (Some entry) p default_max IDENTIFIER) 1 64)
                     (\<lambda>xs. unique xs (sub_path path ''body'')))) (\<lambda>body.
     bindE (optional (map_of input ''file'')
              (\<lambda>v. stringAt v (sub_path path ''file'') 300 LOOP_FILE)) (\<lambda>file.
     if (case file of None \<Rightarrow> False
         | Some f \<Rightarrow> list_ex (\<lambda>seg. seg = [] \<or> seg = ''.'' \<or> seg = ''..'') (split_at (CHR ''/'') f))
       then Inl (PipelineError (sub_path path ''file'') BadSegments)
     else if (body = None) = (file = None) then Inl (PipelineError path BodyOrFile)
     else
       bindE (stringAt (map_of input ''over'') (sub_path path ''over'') 300 any_format) (\<lambda>over.
       bindE (integerAt (map_of input ''max_parallel'') (sub_path path ''max_parallel'') 1 64) (\<lambda>par.
       bindE (integerAt (map_of input ''max_rounds'') (sub_path path ''max_rounds'') 1 100) (\<lambda>rounds.
       Inr \<lparr>lb_over = over, lb_max_parallel = par, lb_max_rounds = rounds,
            lb_body = body, lb_file = file\<rparr>))))))"

definition rejectFields ::
  "json dict \<Rightarrow> string \<Rightarrow> string list \<Rightarrow> pipeline_detail \<Rightarrow> unit result" where
  "rejectFields input path names detail =
     forE (\<lambda>field. if map_of input field \<noteq> None
                    then Inl (PipelineError (sub_path path field) detail) else Inr ()) names"

text \<open>The agent branch of \<open>parseStage\<close>.\<close>

definition parse_agent :: "json dict \<Rightarrow> string \<Rightarrow> bool \<Rightarrow> agent_fields result" where
  "parse_agent input path compiled =
     bindE (rejectFields input path [''command'', ''effect'', ''wait''] NotForAgentStage) (\<lambda>_.
     if \<not> compiled \<and> map_of input ''engine'' \<noteq> None
       then Inl (PipelineError (sub_path path ''engine'') EngineOnlyCompiled)
     else
       bindE (arrayAt (map_of input ''skills'') (sub_path path ''skills'')
                (\<lambda>entry p. stringAt (Some entry) p default_max IDENTIFIER) 0 32) (\<lambda>skills0.
       bindE (unique skills0 (sub_path path ''skills'')) (\<lambda>skills.
       bindE (optional (map_of input ''entry_skill'')
                (\<lambda>v. stringAt v (sub_path path ''entry_skill'') default_max IDENTIFIER)) (\<lambda>entrySkill.
       if (case entrySkill of None \<Rightarrow> False | Some e \<Rightarrow> e \<notin> set skills)
         then Inl (PipelineError (sub_path path ''entry_skill'') EntrySkillNotInSkills)
       else
         bindE (stringAt (map_of input ''agent_id'') (sub_path path ''agent_id'') default_max IDENTIFIER) (\<lambda>agent.
         bindE (enumAt (map_of input ''repository_authority'') (sub_path path ''repository_authority'')
                  REPOSITORY_AUTHORITIES) (\<lambda>authority.
         bindE (stringAt (map_of input ''eval'') (sub_path path ''eval'') default_max IDENTIFIER) (\<lambda>evalId.
         bindE (if compiled
                then bindE (enumAt (map_of input ''engine'') (sub_path path ''engine'') ENGINES)
                       (\<lambda>e. Inr (Some e))
                else Inr None) (\<lambda>engine.
         Inr \<lparr>af_agent_id = agent, af_repository_authority = authority_of_name authority,
              af_skills = skills, af_entry_skill = entrySkill, af_eval = evalId,
              af_engine = engine\<rparr>))))))))"

definition stage_fields :: "string list" where
  "stage_fields =
     [''id'', ''kind'', ''engine'', ''agent_id'', ''repository_authority'', ''skills'', ''entry_skill'',
      ''eval'', ''command'', ''effect'', ''wait'', ''loop'', ''on'']"

definition agent_only_fields :: "string list" where
  "agent_only_fields =
     [''engine'', ''agent_id'', ''repository_authority'', ''skills'', ''entry_skill'', ''eval'']"

definition parseStage :: "bool \<Rightarrow> json \<Rightarrow> string \<Rightarrow> pipeline_stage result" where
  "parseStage compiled value path =
     bindE (objectAt (Some value) path stage_fields) (\<lambda>input.
     bindE (enumAt (map_of input ''kind'') (sub_path path ''kind'') PIPELINE_STAGE_KINDS) (\<lambda>kind.
     bindE (stringAt (map_of input ''id'') (sub_path path ''id'') default_max IDENTIFIER) (\<lambda>ident.
     bindE (optional (map_of input ''loop'') (\<lambda>v. loopBinding v (sub_path path ''loop''))) (\<lambda>loopB.
     bindE (recordAt (map_of input ''on'') (sub_path path ''on'') parse_transition 32 (Some 80) OUTCOME) (\<lambda>on.
     if on = [] then Inl (PipelineError (sub_path path ''on'') NeedsTransition)
     else
       (let base = (\<lambda>k. \<lparr>st_id = ident, st_loop = loopB, st_on = on, st_kind = k\<rparr>) in
        if kind = ''agent'' then
          bindE (parse_agent input path compiled) (\<lambda>a. Inr (base (AgentStage a)))
        else
          bindE (rejectFields input path agent_only_fields OnlyForAgentStage) (\<lambda>_.
          if kind = ''command'' then
            bindE (rejectFields input path [''effect'', ''wait''] NotForCommandStage) (\<lambda>_.
            bindE (stringAt (map_of input ''command'') (sub_path path ''command'') 80 COMMAND_NAME_PATTERN) (\<lambda>c.
            Inr (base (CommandStage c))))
          else if kind = ''effect'' then
            bindE (rejectFields input path [''command'', ''wait''] NotForEffectStage) (\<lambda>_.
            bindE (stringAt (map_of input ''effect'') (sub_path path ''effect'') 200 VERSION_REFERENCE) (\<lambda>e.
            Inr (base (EffectStage e))))
          else
            bindE (rejectFields input path [''command'', ''effect''] NotForWaitStage) (\<lambda>_.
            bindE (stringAt (map_of input ''wait'') (sub_path path ''wait'') 200 VERSION_REFERENCE) (\<lambda>w.
            Inr (base (WaitStage w)))))))))))"

section \<open>Graph checks of a pipeline\<close>

definition stage_targets :: "pipeline_stage \<Rightarrow> string list" where
  "stage_targets stage = List.map_filter (\<lambda>(_, next). tr_to next) (st_on stage)"

definition stage_body :: "pipeline_stage \<Rightarrow> string list" where
  "stage_body stage =
     (case st_loop stage of None \<Rightarrow> [] | Some l \<Rightarrow> (case lb_body l of None \<Rightarrow> [] | Some b \<Rightarrow> b))"

text \<open>The edges that no re-entry bound limits.\<close>

definition unbounded_targets :: "pipeline_stage \<Rightarrow> string list" where
  "unbounded_targets stage =
     List.map_filter (\<lambda>(_, next). if tr_max_reentries next = None then tr_to next else None) (st_on stage)"

definition find_stage :: "pipeline_stage list \<Rightarrow> string \<Rightarrow> pipeline_stage option" where
  "find_stage stages i = find (\<lambda>stage. st_id stage = i) stages"

definition stage_succs :: "(pipeline_stage \<Rightarrow> string list) \<Rightarrow> pipeline_stage list \<Rightarrow> string \<Rightarrow> string list" where
  "stage_succs f stages i = (case find_stage stages i of None \<Rightarrow> [] | Some stage \<Rightarrow> f stage)"

text \<open>
  The work list of the reachability loop: \<open>pending.pop()\<close> takes the last element.  A stage is
  added to \<open>reachable\<close> at most once, and only stages of the pipeline are ever pending.
\<close>

function reach_loop :: "pipeline_stage list \<Rightarrow> string list \<Rightarrow> string list \<Rightarrow> string list" where
  "reach_loop stages reachable pending =
     (if pending = [] then reachable
      else let i = last pending; rest = butlast pending in
        if i \<in> set reachable then reach_loop stages reachable rest
        else if i \<in> set (map st_id stages) then
          reach_loop stages (i # reachable)
            (rest @ stage_succs (\<lambda>s. stage_targets s @ stage_body s) stages i)
        else reach_loop stages (i # reachable) rest)"
  by pat_completeness auto

termination
proof (relation "measures [\<lambda>(stages, reachable, _). card (set (map st_id stages) - set reachable),
                           \<lambda>(_, _, pending). length pending]", goal_cases)
  case 1
  then show ?case by simp
next
  case (2 stages reachable pending i rest)
  then show ?case by simp
next
  case (3 stages reachable pending i rest)
  then have "set (map st_id stages) - set (i # reachable) \<subset> set (map st_id stages) - set reachable"
    by auto
  then show ?case by (simp add: psubset_card_mono)
next
  case (4 stages reachable pending i rest)
  then have "set (map st_id stages) - set (i # reachable) = set (map st_id stages) - set reachable"
    by auto
  with 4 show ?case by simp
qed

declare reach_loop.simps [simp del]

text \<open>The checks of one stage's references, in the order of the two nested loops.\<close>

definition check_references :: "string list \<Rightarrow> string \<Rightarrow> nat \<Rightarrow> pipeline_stage \<Rightarrow> unit result" where
  "check_references known source index stage =
     bindE (forE (\<lambda>(outcome, next).
               case tr_to next of
                 None \<Rightarrow> Inr ()
               | Some t \<Rightarrow> if t \<in> set known then Inr ()
                   else Inl (PipelineError (idx_path (sub_path source ''stages'') index @ ''.on.'' @
                          outcome @ ''.to'') UnknownStage)) (st_on stage)) (\<lambda>_.
     bindE (mapiE (\<lambda>bodyIndex b. if b \<in> set known then Inr ()
                else Inl (PipelineError (idx_path (idx_path (sub_path source ''stages'') index @ ''.loop.body'')
                       bodyIndex) UnknownStage)) 0 (stage_body stage)) (\<lambda>_.
     Inr ()))"

definition validateStages ::
  "pipeline_stage list \<Rightarrow> string \<Rightarrow> string \<Rightarrow> bool \<Rightarrow> unit result" where
  "validateStages stages entry source deferExternalLoopReachability =
     (let ids = map st_id stages; p = sub_path source ''stages'' in
      if length (remdups ids) \<noteq> length ids then Inl (PipelineError p DuplicateStageIds)
      else if entry \<notin> set ids then Inl (PipelineError (sub_path source ''entry'') UnknownStage)
      else
        bindE (mapiE (check_references ids source) 0 stages) (\<lambda>_.
        let reachable = reach_loop stages [] [entry]; orphans = filter (\<lambda>s. st_id s \<notin> set reachable) stages in
        if \<not> deferExternalLoopReachability \<and> orphans \<noteq> []
          then Inl (PipelineError p (UnreachableStage (st_id (hd orphans))))
        else
          bindE (visit_all ids (stage_succs unbounded_targets stages)
                   (\<lambda>i. PipelineError p (UnboundedCycle i)) [] [] ids) (\<lambda>_.
          Inr ())))"

section \<open>Documents\<close>

definition PIPELINE_DEFINITION_SCHEMA :: string where
  "PIPELINE_DEFINITION_SCHEMA = ''openthrottle.pipeline-definition/v1''"

definition COMPILED_PIPELINE_MANIFEST_SCHEMA :: string where
  "COMPILED_PIPELINE_MANIFEST_SCHEMA = ''openthrottle.compiled-pipeline-manifest/v1''"

definition validatePipelineDefinition :: "json \<Rightarrow> string \<Rightarrow> pipeline_definition result" where
  "validatePipelineDefinition value source =
     bindE (objectAt (Some value) source [''schema'', ''id'', ''version'', ''entry'', ''stages'']) (\<lambda>input.
     if map_of input ''schema'' \<noteq> Some (JStr PIPELINE_DEFINITION_SCHEMA)
       then fail (sub_path source ''schema'') (MustBeSchema PIPELINE_DEFINITION_SCHEMA)
     else
       bindE (stringAt (map_of input ''entry'') (sub_path source ''entry'') default_max IDENTIFIER) (\<lambda>entry.
       bindE (arrayAt (map_of input ''stages'') (sub_path source ''stages'') (parseStage False) 1 256) (\<lambda>stages.
       bindE (validateStages stages entry source
                (list_ex (\<lambda>s. case st_loop s of None \<Rightarrow> False | Some l \<Rightarrow> lb_file l \<noteq> None) stages)) (\<lambda>_.
       bindE (stringAt (map_of input ''id'') (sub_path source ''id'') default_max IDENTIFIER) (\<lambda>ident.
       bindE (integerAt (map_of input ''version'') (sub_path source ''version'') 1 1000000) (\<lambda>version.
       Inr \<lparr>pd_id = ident, pd_version = version, pd_entry = entry, pd_stages = stages\<rparr>))))))"

definition PIPELINE_LOOP_DEFINITION_SCHEMA :: string where
  "PIPELINE_LOOP_DEFINITION_SCHEMA = ''openthrottle.pipeline-loop/v1''"

record pipeline_loop_definition =
  pl_id :: string
  pl_body :: "string list"

definition validatePipelineLoopDefinition :: "json \<Rightarrow> string \<Rightarrow> pipeline_loop_definition result" where
  "validatePipelineLoopDefinition value source =
     bindE (objectAt (Some value) source [''schema'', ''id'', ''body'']) (\<lambda>input.
     if map_of input ''schema'' \<noteq> Some (JStr PIPELINE_LOOP_DEFINITION_SCHEMA)
       then fail (sub_path source ''schema'') (MustBeSchema PIPELINE_LOOP_DEFINITION_SCHEMA)
     else
       bindE (stringAt (map_of input ''id'') (sub_path source ''id'') default_max IDENTIFIER) (\<lambda>ident.
       bindE (arrayAt (map_of input ''body'') (sub_path source ''body'')
                (\<lambda>entry p. stringAt (Some entry) p default_max IDENTIFIER) 1 64) (\<lambda>body0.
       bindE (unique body0 (sub_path source ''body'')) (\<lambda>body.
       Inr \<lparr>pl_id = ident, pl_body = body\<rparr>))))"

definition validateCompiledPipelineManifest :: "json \<Rightarrow> string \<Rightarrow> compiled_manifest result" where
  "validateCompiledPipelineManifest value source =
     bindE (objectAt (Some value) source
              [''schema'', ''pipeline_id'', ''pipeline_version'', ''entry_stage'', ''definition_bundle_hash'',
               ''compiler_version'', ''runtime_capability_digest'', ''stages'']) (\<lambda>input.
     if map_of input ''schema'' \<noteq> Some (JStr COMPILED_PIPELINE_MANIFEST_SCHEMA)
       then fail (sub_path source ''schema'') (MustBeSchema COMPILED_PIPELINE_MANIFEST_SCHEMA)
     else
       bindE (stringAt (map_of input ''entry_stage'') (sub_path source ''entry_stage'') default_max IDENTIFIER) (\<lambda>entry.
       bindE (arrayAt (map_of input ''stages'') (sub_path source ''stages'') (parseStage True) 1 256) (\<lambda>stages.
       bindE (validateStages stages entry source False) (\<lambda>_.
       bindE (stringAt (map_of input ''pipeline_id'') (sub_path source ''pipeline_id'') default_max IDENTIFIER) (\<lambda>pid.
       bindE (integerAt (map_of input ''pipeline_version'') (sub_path source ''pipeline_version'') 1 1000000) (\<lambda>version.
       bindE (stringAt (map_of input ''definition_bundle_hash'') (sub_path source ''definition_bundle_hash'')
                default_max SHA256) (\<lambda>bundle.
       bindE (stringAt (map_of input ''compiler_version'') (sub_path source ''compiler_version'') 200
                VERSION_REFERENCE) (\<lambda>compiler.
       bindE (stringAt (map_of input ''runtime_capability_digest'')
                (sub_path source ''runtime_capability_digest'') default_max SHA256) (\<lambda>digest.
       Inr \<lparr>cm_pipeline_id = pid, cm_pipeline_version = version, cm_entry_stage = entry,
            cm_definition_bundle_hash = bundle, cm_compiler_version = compiler,
            cm_runtime_capability_digest = digest, cm_stages = stages\<rparr>)))))))))"

end
