(* ===== verification/Lifecycle.thy ===== *)
theory Lifecycle
  imports Pipeline
begin

text \<open>
  The runtime lifecycle around an authored pipeline: \<open>contracts/src/runtime-lifecycle.ts\<close>, which
  adds the provisioning stage and one stop and one cleanup stage per terminal outcome, and
  \<open>supervisor/src/pipeline/kernel/runtime-lifecycle.ts\<close>, which recognises those stages.
\<close>

section \<open>Reserved stages\<close>

definition RUNTIME_PROVISION_STAGE_ID :: string where
  "RUNTIME_PROVISION_STAGE_ID = ''ot_runtime_provision''"

definition runtimeStopStageId :: "terminal_outcome \<Rightarrow> string" where
  "runtimeStopStageId outcome = ''ot_runtime_stop_'' @ outcome_name outcome"

definition runtimeCleanupStageId :: "terminal_outcome \<Rightarrow> string" where
  "runtimeCleanupStageId outcome = ''ot_runtime_cleanup_'' @ outcome_name outcome"

definition reserved_ids :: "string list" where
  "reserved_ids =
     RUNTIME_PROVISION_STAGE_ID #
     concat (map (\<lambda>outcome. [runtimeStopStageId outcome, runtimeCleanupStageId outcome])
               PIPELINE_TERMINAL_OUTCOMES)"

definition go_to :: "string \<Rightarrow> transition" where
  "go_to dest =
     \<lparr>tr_to = Some dest, tr_terminal = None, tr_max_reentries = None, tr_on_exhausted = None\<rparr>"

definition end_with :: "terminal_outcome \<Rightarrow> transition" where
  "end_with outcome =
     \<lparr>tr_to = None, tr_terminal = Some outcome, tr_max_reentries = None, tr_on_exhausted = None\<rparr>"

definition retry_at :: "string \<Rightarrow> transition" where
  "retry_at dest =
     \<lparr>tr_to = Some dest, tr_terminal = None, tr_max_reentries = Some 2,
      tr_on_exhausted = Some ExhaustFailed\<rparr>"

section \<open>Expansion of an authored pipeline\<close>

definition rewrite_transition :: "transition \<Rightarrow> transition" where
  "rewrite_transition t =
     (case tr_terminal t of None \<Rightarrow> t | Some outcome \<Rightarrow> go_to (runtimeStopStageId outcome))"

definition rewrite_stage :: "pipeline_stage \<Rightarrow> pipeline_stage" where
  "rewrite_stage stage = stage\<lparr>st_on := map (\<lambda>(outcome, t). (outcome, rewrite_transition t)) (st_on stage)\<rparr>"

definition provision_stage :: "string \<Rightarrow> pipeline_stage" where
  "provision_stage entry =
     \<lparr>st_id = RUNTIME_PROVISION_STAGE_ID, st_loop = None,
      st_on =
        map (\<lambda>outcome. (''runtime_terminal_'' @ outcome_name outcome, go_to (runtimeStopStageId outcome)))
          PIPELINE_TERMINAL_OUTCOMES @
        [(''success'', go_to entry),
         (''no_change'', go_to entry),
         (''retryable_infrastructure_failure'', retry_at RUNTIME_PROVISION_STAGE_ID),
         (''failure'', go_to (runtimeStopStageId Failed)),
         (''no_resource'', end_with Failed)],
      st_kind = EffectStage ''core/daytona-provision@1''\<rparr>"

definition stop_stage :: "terminal_outcome \<Rightarrow> pipeline_stage" where
  "stop_stage outcome =
     \<lparr>st_id = runtimeStopStageId outcome, st_loop = None,
      st_on =
        [(''success'', go_to (runtimeCleanupStageId outcome)),
         (''no_change'', go_to (runtimeCleanupStageId outcome)),
         (''retryable_infrastructure_failure'', retry_at (runtimeStopStageId outcome)),
         (''failure'', go_to (runtimeCleanupStageId outcome))],
      st_kind = EffectStage ''core/daytona-stop@1''\<rparr>"

definition cleanup_stage :: "terminal_outcome \<Rightarrow> pipeline_stage" where
  "cleanup_stage outcome =
     \<lparr>st_id = runtimeCleanupStageId outcome, st_loop = None,
      st_on =
        [(''success'', end_with outcome),
         (''no_change'', end_with outcome),
         (''retryable_infrastructure_failure'', retry_at (runtimeCleanupStageId outcome)),
         (''failure'', end_with Failed)],
      st_kind = EffectStage ''core/daytona-cleanup@1''\<rparr>"

definition lifecycle_stages :: "string \<Rightarrow> pipeline_stage list" where
  "lifecycle_stages entry =
     provision_stage entry #
     concat (map (\<lambda>outcome. [stop_stage outcome, cleanup_stage outcome]) PIPELINE_TERMINAL_OUTCOMES)"

definition expandCompiledRuntimeLifecycle ::
  "string \<Rightarrow> pipeline_stage list \<Rightarrow> (string \<times> pipeline_stage list) result" where
  "expandCompiledRuntimeLifecycle entry stages =
     (case find (\<lambda>s. st_id s \<in> set reserved_ids) stages of
        Some collision \<Rightarrow> Inl (PipelineError (sub_path ''pipeline.stages'' (st_id collision)) ReservedStageId)
      | None \<Rightarrow> Inr (RUNTIME_PROVISION_STAGE_ID, lifecycle_stages entry @ map rewrite_stage stages))"

section \<open>Recognising the reserved stages\<close>

definition matchingOutcome ::
  "pipeline_stage \<Rightarrow> (terminal_outcome \<Rightarrow> string) \<Rightarrow> string \<Rightarrow> terminal_outcome option" where
  "matchingOutcome stage idFor effect =
     (if st_kind stage \<noteq> EffectStage effect then None
      else find (\<lambda>outcome. st_id stage = idFor outcome) PIPELINE_TERMINAL_OUTCOMES)"

definition runtimeStopOutcome :: "pipeline_stage \<Rightarrow> terminal_outcome option" where
  "runtimeStopOutcome stage = matchingOutcome stage runtimeStopStageId ''core/daytona-stop@1''"

definition runtimeCleanupOutcome :: "pipeline_stage \<Rightarrow> terminal_outcome option" where
  "runtimeCleanupOutcome stage = matchingOutcome stage runtimeCleanupStageId ''core/daytona-cleanup@1''"

definition is_provision_stage :: "pipeline_stage \<Rightarrow> bool" where
  "is_provision_stage stage \<longleftrightarrow>
     st_id stage = RUNTIME_PROVISION_STAGE_ID \<and> st_kind stage = EffectStage ''core/daytona-provision@1''"

definition runtimeExhaustionDestination :: "pipeline_stage \<Rightarrow> string option" where
  "runtimeExhaustionDestination stage =
     (if is_provision_stage stage then Some (runtimeStopStageId Failed)
      else map_option runtimeCleanupStageId (runtimeStopOutcome stage))"

section \<open>Facts\<close>

lemma outcome_name_inj [simp]: "outcome_name a = outcome_name b \<longleftrightarrow> a = b"
  by (cases a; cases b) simp_all

lemma outcomes_complete [simp]: "outcome \<in> set PIPELINE_TERMINAL_OUTCOMES"
  by (cases outcome) (simp_all add: PIPELINE_TERMINAL_OUTCOMES_def)

lemma reserved_id_simps [simp]:
  "runtimeStopStageId a = runtimeStopStageId b \<longleftrightarrow> a = b"
  "runtimeCleanupStageId a = runtimeCleanupStageId b \<longleftrightarrow> a = b"
  "runtimeStopStageId a \<noteq> runtimeCleanupStageId b"
  "runtimeCleanupStageId b \<noteq> runtimeStopStageId a"
  "RUNTIME_PROVISION_STAGE_ID \<noteq> runtimeStopStageId a"
  "RUNTIME_PROVISION_STAGE_ID \<noteq> runtimeCleanupStageId a"
  "runtimeStopStageId a \<noteq> RUNTIME_PROVISION_STAGE_ID"
  "runtimeCleanupStageId a \<noteq> RUNTIME_PROVISION_STAGE_ID"
  by (simp_all add: runtimeStopStageId_def runtimeCleanupStageId_def RUNTIME_PROVISION_STAGE_ID_def)

lemma reserved_ids_iff:
  "i \<in> set reserved_ids \<longleftrightarrow>
     i = RUNTIME_PROVISION_STAGE_ID \<or> (\<exists>a. i = runtimeStopStageId a \<or> i = runtimeCleanupStageId a)"
  by (auto simp: reserved_ids_def)

lemma matchingOutcome_Some:
  "matchingOutcome stage idFor effect = Some a \<Longrightarrow>
     st_kind stage = EffectStage effect \<and> st_id stage = idFor a"
  by (auto simp: matchingOutcome_def find_Some_iff split: if_splits)

lemma find_eq_SomeI:
  assumes "\<And>x. x \<in> set xs \<Longrightarrow> P x \<longleftrightarrow> x = a" and "a \<in> set xs"
  shows "find P xs = Some a"
  using assms by (induction xs) auto

lemma runtimeStopOutcome_stop [simp]: "runtimeStopOutcome (stop_stage a) = Some a"
  by (auto simp: runtimeStopOutcome_def matchingOutcome_def stop_stage_def intro!: find_eq_SomeI)

lemma runtimeCleanupOutcome_cleanup [simp]: "runtimeCleanupOutcome (cleanup_stage a) = Some a"
  by (auto simp: runtimeCleanupOutcome_def matchingOutcome_def cleanup_stage_def intro!: find_eq_SomeI)

lemma cleanup_not_provision: "runtimeCleanupOutcome stage = Some a \<Longrightarrow> \<not> is_provision_stage stage"
  by (auto simp: runtimeCleanupOutcome_def is_provision_stage_def dest!: matchingOutcome_Some)

lemma cleanup_not_stop: "runtimeCleanupOutcome stage = Some a \<Longrightarrow> runtimeStopOutcome stage = None"
  by (auto simp: runtimeCleanupOutcome_def runtimeStopOutcome_def matchingOutcome_def
      dest!: matchingOutcome_Some)

lemma lifecycle_stages_iff:
  "s \<in> set (lifecycle_stages entry) \<longleftrightarrow>
     s = provision_stage entry \<or> (\<exists>a. s = stop_stage a \<or> s = cleanup_stage a)"
  by (auto simp: lifecycle_stages_def)

lemma st_id_simps [simp]:
  "st_id (provision_stage entry) = RUNTIME_PROVISION_STAGE_ID"
  "st_id (stop_stage a) = runtimeStopStageId a"
  "st_id (cleanup_stage a) = runtimeCleanupStageId a"
  "st_id (rewrite_stage s) = st_id s"
  "st_kind (rewrite_stage s) = st_kind s"
  "st_loop (rewrite_stage s) = st_loop s"
  by (simp_all add: provision_stage_def stop_stage_def cleanup_stage_def rewrite_stage_def)

end
