(* ===== verification/Records.thy ===== *)
theory Records
  imports Validation
begin

text \<open>
  Execution records, checkpoints and effect intents: \<open>contracts/src/records.ts\<close> and
  \<open>contracts/src/effects.ts\<close>.  The common fields of the three record kinds are a base record
  that each kind extends.
\<close>

section \<open>Data\<close>

datatype blob_encoding = Utf8 | Binary

record blob_pointer =
  bp_digest :: string
  bp_bytes :: int
  bp_encoding :: blob_encoding
  bp_media_type :: string
  bp_payload_schema :: string

datatype record_payload = Inline json | Blob blob_pointer

record execution_record_base =
  rb_id :: string
  rb_pipeline_run_id :: string
  rb_payload_schema :: string
  rb_payload :: record_payload
  rb_created_at :: string

record result_record = execution_record_base +
  rr_attempt_id :: string
  rr_request_hash :: string
  rr_definition_bundle_hash :: string
  rr_input_subject :: string
  rr_output_subject :: "string option"
  rr_original_candidate_hash :: string
  rr_normalized_candidate_hash :: string

record decision_record = execution_record_base +
  dr_reducer :: string
  dr_input_record_ids :: "string list"

datatype delivery_status = Confirmed | Rejected

record delivery_record = execution_record_base +
  dl_effect_id :: string
  dl_idempotency_key :: string
  dl_external_identity :: string
  dl_status :: delivery_status

datatype execution_record =
    ResultRec result_record
  | DecisionRec decision_record
  | DeliveryRec delivery_record

fun rec_id :: "execution_record \<Rightarrow> string" where
  "rec_id (ResultRec r) = rb_id r"
| "rec_id (DecisionRec d) = rb_id d"
| "rec_id (DeliveryRec d) = rb_id d"

fun rec_run :: "execution_record \<Rightarrow> string" where
  "rec_run (ResultRec r) = rb_pipeline_run_id r"
| "rec_run (DecisionRec d) = rb_pipeline_run_id d"
| "rec_run (DeliveryRec d) = rb_pipeline_run_id d"

lemma case_record_eq_Inr [run_cases]:
  "(case r of ResultRec x \<Rightarrow> f x | DecisionRec _ \<Rightarrow> Inl e | DeliveryRec _ \<Rightarrow> Inl e') = Inr y \<longleftrightarrow>
     (\<exists>x. r = ResultRec x \<and> f x = Inr y)"
  "(case r of ResultRec _ \<Rightarrow> Inl e | DecisionRec d \<Rightarrow> g d | DeliveryRec _ \<Rightarrow> Inl e') = Inr y \<longleftrightarrow>
     (\<exists>d. r = DecisionRec d \<and> g d = Inr y)"
  "(case r of ResultRec _ \<Rightarrow> Inl e | DecisionRec _ \<Rightarrow> Inl e' | DeliveryRec d \<Rightarrow> h d) = Inr y \<longleftrightarrow>
     (\<exists>d. r = DeliveryRec d \<and> h d = Inr y)"
  by (cases r; simp)+

record attempt_checkpoint =
  ck_id :: string
  ck_pipeline_run_id :: string
  ck_attempt_id :: string
  ck_request_hash :: string
  ck_definition_bundle_hash :: string
  ck_input_subject :: string
  ck_output_subject :: "string option"
  ck_native_session_id :: "string option"
  ck_payload_schema :: string
  ck_payload :: record_payload
  ck_captured_at :: string

record effect_intent =
  ei_id :: string
  ei_pipeline_run_id :: string
  ei_decision_record_id :: string
  ei_kind :: string
  ei_idempotency_key :: string
  ei_target :: string
  ei_subject :: "string option"
  ei_payload :: json

section \<open>As JSON\<close>

definition EXECUTION_RECORD_SCHEMA :: string where
  "EXECUTION_RECORD_SCHEMA = ''openthrottle.record/v1''"

definition ATTEMPT_CHECKPOINT_SCHEMA :: string where
  "ATTEMPT_CHECKPOINT_SCHEMA = ''openthrottle.attempt-checkpoint/v1''"

definition EFFECT_INTENT_SCHEMA :: string where
  "EFFECT_INTENT_SCHEMA = ''openthrottle.effect-intent/v1''"

fun json_opt :: "string option \<Rightarrow> json" where
  "json_opt None = JNull"
| "json_opt (Some s) = JStr s"

abbreviation json_strs :: "string list \<Rightarrow> json" where
  "json_strs xs \<equiv> JArr (map JStr xs)"

fun encoding_name :: "blob_encoding \<Rightarrow> string" where
  "encoding_name Utf8 = ''utf-8''"
| "encoding_name Binary = ''binary''"

fun status_name :: "delivery_status \<Rightarrow> string" where
  "status_name Confirmed = ''confirmed''"
| "status_name Rejected = ''rejected''"

definition json_of_blob :: "blob_pointer \<Rightarrow> json" where
  "json_of_blob b = JObj
     [(''algorithm'', JStr ''sha256''), (''digest'', JStr (bp_digest b)),
      (''bytes'', JNum (JInt (bp_bytes b))), (''encoding'', JStr (encoding_name (bp_encoding b))),
      (''media_type'', JStr (bp_media_type b)), (''payload_schema'', JStr (bp_payload_schema b))]"

fun json_of_payload :: "record_payload \<Rightarrow> json" where
  "json_of_payload (Inline v) = JObj [(''inline'', v)]"
| "json_of_payload (Blob b) = JObj [(''blob'', json_of_blob b)]"

definition base_fields :: "string \<Rightarrow> 'a execution_record_base_scheme \<Rightarrow> json dict" where
  "base_fields kind r =
     [(''schema'', JStr EXECUTION_RECORD_SCHEMA), (''id'', JStr (rb_id r)), (''kind'', JStr kind),
      (''pipeline_run_id'', JStr (rb_pipeline_run_id r)),
      (''payload_schema'', JStr (rb_payload_schema r)),
      (''payload'', json_of_payload (rb_payload r)), (''created_at'', JStr (rb_created_at r))]"

definition json_of_decision :: "decision_record \<Rightarrow> json" where
  "json_of_decision d = JObj (base_fields ''decision'' d @
     [(''reducer'', JStr (dr_reducer d)), (''input_record_ids'', json_strs (dr_input_record_ids d))])"

fun json_of_record :: "execution_record \<Rightarrow> json" where
  "json_of_record (ResultRec r) = JObj (base_fields ''result'' r @
     [(''attempt_id'', JStr (rr_attempt_id r)), (''request_hash'', JStr (rr_request_hash r)),
      (''definition_bundle_hash'', JStr (rr_definition_bundle_hash r)),
      (''input_subject'', JStr (rr_input_subject r)), (''output_subject'', json_opt (rr_output_subject r)),
      (''original_candidate_hash'', JStr (rr_original_candidate_hash r)),
      (''normalized_candidate_hash'', JStr (rr_normalized_candidate_hash r))])"
| "json_of_record (DecisionRec d) = json_of_decision d"
| "json_of_record (DeliveryRec d) = JObj (base_fields ''delivery'' d @
     [(''effect_id'', JStr (dl_effect_id d)), (''idempotency_key'', JStr (dl_idempotency_key d)),
      (''external_identity'', JStr (dl_external_identity d)),
      (''status'', JStr (status_name (dl_status d)))])"

definition json_of_checkpoint :: "attempt_checkpoint \<Rightarrow> json" where
  "json_of_checkpoint c = JObj
     [(''schema'', JStr ATTEMPT_CHECKPOINT_SCHEMA), (''id'', JStr (ck_id c)),
      (''pipeline_run_id'', JStr (ck_pipeline_run_id c)), (''attempt_id'', JStr (ck_attempt_id c)),
      (''request_hash'', JStr (ck_request_hash c)),
      (''definition_bundle_hash'', JStr (ck_definition_bundle_hash c)),
      (''input_subject'', JStr (ck_input_subject c)), (''output_subject'', json_opt (ck_output_subject c)),
      (''native_session_id'', json_opt (ck_native_session_id c)),
      (''payload_schema'', JStr (ck_payload_schema c)), (''payload'', json_of_payload (ck_payload c)),
      (''captured_at'', JStr (ck_captured_at c))]"

definition json_of_effect :: "effect_intent \<Rightarrow> json" where
  "json_of_effect e = JObj
     [(''schema'', JStr EFFECT_INTENT_SCHEMA), (''id'', JStr (ei_id e)),
      (''pipeline_run_id'', JStr (ei_pipeline_run_id e)),
      (''decision_record_id'', JStr (ei_decision_record_id e)), (''kind'', JStr (ei_kind e)),
      (''idempotency_key'', JStr (ei_idempotency_key e)), (''target'', JStr (ei_target e)),
      (''subject'', json_opt (ei_subject e)), (''payload'', ei_payload e)]"

section \<open>Reading effect intents\<close>

definition EFFECT_INTENT_PAYLOAD_MAX_BYTES :: int where
  "EFFECT_INTENT_PAYLOAD_MAX_BYTES = 65536"

definition INLINE_RECORD_PAYLOAD_MAX_BYTES :: int where
  "INLINE_RECORD_PAYLOAD_MAX_BYTES = 65536"

text \<open>The readers \<open>id\<close> and \<open>digest\<close> of both modules.\<close>

definition record_id_at :: "json option \<Rightarrow> string \<Rightarrow> string result" where
  "record_id_at v path = stringAt v path 200 RECORD_ID"

definition digest_at :: "json option \<Rightarrow> string \<Rightarrow> string result" where
  "digest_at v path = stringAt v path default_max SHA256"

definition subject_at :: "json option \<Rightarrow> string \<Rightarrow> string result" where
  "subject_at v path = stringAt v path default_max GIT_SUBJECT"

definition validateEffectIntent :: "json \<Rightarrow> string \<Rightarrow> effect_intent result" where
  "validateEffectIntent value source =
     bindE (objectAt (Some value) source
              [''schema'', ''id'', ''pipeline_run_id'', ''decision_record_id'', ''kind'',
               ''idempotency_key'', ''target'', ''subject'', ''payload'']) (\<lambda>input.
     if map_of input ''schema'' \<noteq> Some (JStr EFFECT_INTENT_SCHEMA)
       then fail (sub_path source ''schema'') (MustBeSchema EFFECT_INTENT_SCHEMA)
     else
       bindE (jsonAt (map_of input ''payload'') (sub_path source ''payload'')) (\<lambda>payload.
       if byteLength (canonicalJson payload) > EFFECT_INTENT_PAYLOAD_MAX_BYTES
         then Inl (RecordError (sub_path source ''payload'') EffectPayloadTooLarge)
       else
         bindE (record_id_at (map_of input ''id'') (sub_path source ''id'')) (\<lambda>ident.
         bindE (record_id_at (map_of input ''pipeline_run_id'') (sub_path source ''pipeline_run_id'')) (\<lambda>run.
         bindE (record_id_at (map_of input ''decision_record_id'') (sub_path source ''decision_record_id'')) (\<lambda>decision.
         bindE (stringAt (map_of input ''kind'') (sub_path source ''kind'') 200 EFFECT_KIND) (\<lambda>kind.
         bindE (stringAt (map_of input ''idempotency_key'') (sub_path source ''idempotency_key'') 500 any_format) (\<lambda>key.
         bindE (stringAt (map_of input ''target'') (sub_path source ''target'') 1000 any_format) (\<lambda>target.
         bindE (nullable (map_of input ''subject'') (\<lambda>v. subject_at v (sub_path source ''subject''))) (\<lambda>subject.
         Inr \<lparr>ei_id = ident, ei_pipeline_run_id = run, ei_decision_record_id = decision, ei_kind = kind,
              ei_idempotency_key = key, ei_target = target, ei_subject = subject,
              ei_payload = payload\<rparr>)))))))))"

text \<open>
  \<open>ValidatedContract\<close> keeps a value with its normal form and digest; \<open>assertSameIdempotentEffect\<close>
  compares two of them.
\<close>

record validated_effect =
  vc_value :: effect_intent
  vc_normalized :: string
  vc_digest :: string

definition normalizedEffect :: "effect_intent \<Rightarrow> validated_effect" where
  "normalizedEffect e =
     (let n = canonicalJson (json_of_effect e)
      in \<lparr>vc_value = e, vc_normalized = n, vc_digest = digestNormalized n\<rparr>)"

definition assertSameIdempotentEffect ::
  "validated_effect \<Rightarrow> validated_effect \<Rightarrow> string \<Rightarrow> unit result" where
  "assertSameIdempotentEffect existing replay path =
     (if ei_idempotency_key (vc_value existing) \<noteq> ei_idempotency_key (vc_value replay)
        then Inl (RecordError path KeyDoesNotMatchEffect)
      else
        bindE (validateEffectIntent (json_of_effect (vc_value existing)) ''existing_effect_intent'') (\<lambda>e.
        bindE (validateEffectIntent (json_of_effect (vc_value replay)) ''replay_effect_intent'') (\<lambda>r.
        let ec = normalizedEffect e; rc = normalizedEffect r in
        if vc_digest existing \<noteq> vc_digest ec \<or> vc_normalized existing \<noteq> vc_normalized ec \<or>
           vc_digest replay \<noteq> vc_digest rc \<or> vc_normalized replay \<noteq> vc_normalized rc
          then Inl (RecordError path MutatedEffect)
        else if vc_digest ec \<noteq> vc_digest rc then Inl (RecordError path ConflictsWithEffect)
        else Inr ())))"

section \<open>Reading records and checkpoints\<close>

definition parseBlobPointer :: "json \<Rightarrow> string \<Rightarrow> blob_pointer result" where
  "parseBlobPointer value path =
     bindE (objectAt (Some value) path
              [''algorithm'', ''digest'', ''bytes'', ''encoding'', ''media_type'', ''payload_schema'']) (\<lambda>input.
     bindE (enumAt (map_of input ''algorithm'') (sub_path path ''algorithm'') [''sha256'']) (\<lambda>_.
     bindE (digest_at (map_of input ''digest'') (sub_path path ''digest'')) (\<lambda>digest.
     bindE (integerAt (map_of input ''bytes'') (sub_path path ''bytes'') 1 MAX_SAFE_INTEGER) (\<lambda>bytes.
     bindE (enumAt (map_of input ''encoding'') (sub_path path ''encoding'') [''utf-8'', ''binary'']) (\<lambda>encoding.
     bindE (stringAt (map_of input ''media_type'') (sub_path path ''media_type'') 160 MEDIA_TYPE) (\<lambda>media.
     bindE (stringAt (map_of input ''payload_schema'') (sub_path path ''payload_schema'') 200
              PAYLOAD_SCHEMA) (\<lambda>schema.
     Inr \<lparr>bp_digest = digest, bp_bytes = bytes,
          bp_encoding = (if encoding = ''binary'' then Binary else Utf8),
          bp_media_type = media, bp_payload_schema = schema\<rparr>)))))))"

text \<open>
  The two payload readers differ in how they read an inline value: records run the registered
  payload contract first, checkpoints do not.
\<close>

definition parsePayload ::
  "json option \<Rightarrow> string \<Rightarrow> string \<Rightarrow> (json \<Rightarrow> string \<Rightarrow> json result) \<Rightarrow> record_payload result" where
  "parsePayload value path payloadSchema parseInline =
     bindE (objectAt value path [''inline'', ''blob'']) (\<lambda>input.
     case (map_of input ''inline'', map_of input ''blob'') of
       (None, Some b) \<Rightarrow>
         bindE (parseBlobPointer b (sub_path path ''blob'')) (\<lambda>blob.
         if bp_payload_schema blob \<noteq> payloadSchema
           then Inl (RecordError (sub_path path ''blob.payload_schema'') BlobSchemaMismatch)
         else Inr (Blob blob))
     | (Some v, None) \<Rightarrow>
         bindE (parseInline v (sub_path path ''inline'')) (\<lambda>parsed.
         bindE (jsonAt (Some parsed) (sub_path path ''inline'')) (\<lambda>inline.
         if byteLength (canonicalJson inline) > INLINE_RECORD_PAYLOAD_MAX_BYTES
           then Inl (RecordError (sub_path path ''inline'') InlineTooLarge)
         else Inr (Inline inline)))
     | _ \<Rightarrow> Inl (RecordError path InlineOrBlob))"

definition validateAttemptCheckpoint :: "json \<Rightarrow> string \<Rightarrow> attempt_checkpoint result" where
  "validateAttemptCheckpoint value source =
     bindE (objectAt (Some value) source
              [''schema'', ''id'', ''pipeline_run_id'', ''attempt_id'', ''request_hash'',
               ''definition_bundle_hash'', ''input_subject'', ''output_subject'', ''native_session_id'',
               ''payload_schema'', ''payload'', ''captured_at'']) (\<lambda>input.
     if map_of input ''schema'' \<noteq> Some (JStr ATTEMPT_CHECKPOINT_SCHEMA)
       then fail (sub_path source ''schema'') (MustBeSchema ATTEMPT_CHECKPOINT_SCHEMA)
     else
       bindE (stringAt (map_of input ''payload_schema'') (sub_path source ''payload_schema'') 200
                PAYLOAD_SCHEMA) (\<lambda>schema.
       bindE (parsePayload (map_of input ''payload'') (sub_path source ''payload'') schema
                (\<lambda>v _. Inr v)) (\<lambda>payload.
       bindE (record_id_at (map_of input ''id'') (sub_path source ''id'')) (\<lambda>ident.
       bindE (record_id_at (map_of input ''pipeline_run_id'') (sub_path source ''pipeline_run_id'')) (\<lambda>run.
       bindE (record_id_at (map_of input ''attempt_id'') (sub_path source ''attempt_id'')) (\<lambda>attempt.
       bindE (digest_at (map_of input ''request_hash'') (sub_path source ''request_hash'')) (\<lambda>request.
       bindE (digest_at (map_of input ''definition_bundle_hash'')
                (sub_path source ''definition_bundle_hash'')) (\<lambda>bundle.
       bindE (subject_at (map_of input ''input_subject'') (sub_path source ''input_subject'')) (\<lambda>isub.
       bindE (nullable (map_of input ''output_subject'')
                (\<lambda>v. subject_at v (sub_path source ''output_subject''))) (\<lambda>osub.
       bindE (nullable (map_of input ''native_session_id'')
                (\<lambda>v. stringAt v (sub_path source ''native_session_id'') default_max NATIVE_SESSION_ID)) (\<lambda>session.
       bindE (timestampAt (map_of input ''captured_at'') (sub_path source ''captured_at'')) (\<lambda>at.
       Inr \<lparr>ck_id = ident, ck_pipeline_run_id = run, ck_attempt_id = attempt, ck_request_hash = request,
            ck_definition_bundle_hash = bundle, ck_input_subject = isub, ck_output_subject = osub,
            ck_native_session_id = session, ck_payload_schema = schema, ck_payload = payload,
            ck_captured_at = at\<rparr>))))))))))))"

definition ATTEMPT_IDENTITY_SCHEMA :: string where
  "ATTEMPT_IDENTITY_SCHEMA = ''openthrottle.attempt-identity/v1''"

record attempt_identity =
  ai_pipeline_run_id :: string
  ai_attempt_id :: string
  ai_request_hash :: string
  ai_definition_bundle_hash :: string
  ai_input_subject :: string
  ai_native_session_id :: "string option"

definition validateAttemptIdentity :: "json \<Rightarrow> string \<Rightarrow> attempt_identity result" where
  "validateAttemptIdentity value source =
     bindE (objectAt (Some value) source
              [''schema'', ''pipeline_run_id'', ''attempt_id'', ''request_hash'',
               ''definition_bundle_hash'', ''input_subject'', ''native_session_id'']) (\<lambda>input.
     if map_of input ''schema'' \<noteq> Some (JStr ATTEMPT_IDENTITY_SCHEMA)
       then fail (sub_path source ''schema'') (MustBeSchema ATTEMPT_IDENTITY_SCHEMA)
     else
       bindE (record_id_at (map_of input ''pipeline_run_id'') (sub_path source ''pipeline_run_id'')) (\<lambda>run.
       bindE (record_id_at (map_of input ''attempt_id'') (sub_path source ''attempt_id'')) (\<lambda>attempt.
       bindE (digest_at (map_of input ''request_hash'') (sub_path source ''request_hash'')) (\<lambda>request.
       bindE (digest_at (map_of input ''definition_bundle_hash'')
                (sub_path source ''definition_bundle_hash'')) (\<lambda>bundle.
       bindE (subject_at (map_of input ''input_subject'') (sub_path source ''input_subject'')) (\<lambda>isub.
       bindE (nullable (map_of input ''native_session_id'')
                (\<lambda>v. stringAt v (sub_path source ''native_session_id'') default_max NATIVE_SESSION_ID)) (\<lambda>session.
       Inr \<lparr>ai_pipeline_run_id = run, ai_attempt_id = attempt, ai_request_hash = request,
            ai_definition_bundle_hash = bundle, ai_input_subject = isub,
            ai_native_session_id = session\<rparr>)))))))"

datatype record_kind = ResultKind | DecisionKind | DeliveryKind

fun kind_name :: "record_kind \<Rightarrow> string" where
  "kind_name ResultKind = ''result''"
| "kind_name DecisionKind = ''decision''"
| "kind_name DeliveryKind = ''delivery''"

text \<open>The payload registry: for each payload schema the kind it serves and its inline parser.\<close>

type_synonym payload_registry = "(record_kind \<times> (json \<Rightarrow> string \<Rightarrow> json result)) dict"

definition common_fields :: "string list" where
  "common_fields =
     [''schema'', ''id'', ''kind'', ''pipeline_run_id'', ''payload_schema'', ''payload'', ''created_at'']"

fun kind_fields :: "record_kind \<Rightarrow> string list" where
  "kind_fields ResultKind = common_fields @
     [''attempt_id'', ''request_hash'', ''definition_bundle_hash'', ''input_subject'',
      ''output_subject'', ''original_candidate_hash'', ''normalized_candidate_hash'']"
| "kind_fields DecisionKind = common_fields @ [''reducer'', ''input_record_ids'']"
| "kind_fields DeliveryKind = common_fields @
     [''effect_id'', ''idempotency_key'', ''external_identity'', ''status'']"

text \<open>The common part of a record, read from its fields.\<close>

definition parse_base ::
  "payload_registry \<Rightarrow> record_kind \<Rightarrow> json dict \<Rightarrow> string \<Rightarrow> execution_record_base result" where
  "parse_base registry kind input source =
     (if map_of input ''schema'' \<noteq> Some (JStr EXECUTION_RECORD_SCHEMA)
        then fail (sub_path source ''schema'') (MustBeSchema EXECUTION_RECORD_SCHEMA)
      else
        bindE (stringAt (map_of input ''payload_schema'') (sub_path source ''payload_schema'') 200
                 PAYLOAD_SCHEMA) (\<lambda>schema.
        case map_of registry schema of
          None \<Rightarrow> Inl (RecordError (sub_path source ''payload_schema'') NotRegistered)
        | Some (registered, parseInline) \<Rightarrow>
            if registered \<noteq> kind
              then Inl (RecordError (sub_path source ''payload_schema'') (RegisteredFor (kind_name registered)))
            else
              bindE (record_id_at (map_of input ''id'') (sub_path source ''id'')) (\<lambda>ident.
              bindE (record_id_at (map_of input ''pipeline_run_id'') (sub_path source ''pipeline_run_id'')) (\<lambda>run.
              bindE (parsePayload (map_of input ''payload'') (sub_path source ''payload'') schema
                       parseInline) (\<lambda>payload.
              bindE (timestampAt (map_of input ''created_at'') (sub_path source ''created_at'')) (\<lambda>at.
              Inr \<lparr>rb_id = ident, rb_pipeline_run_id = run, rb_payload_schema = schema,
                   rb_payload = payload, rb_created_at = at\<rparr>))))))"

fun kind_of_name :: "string \<Rightarrow> record_kind" where
  "kind_of_name s = (if s = ''result'' then ResultKind else if s = ''decision'' then DecisionKind else DeliveryKind)"

definition validateExecutionRecord ::
  "payload_registry \<Rightarrow> json \<Rightarrow> string \<Rightarrow> execution_record result" where
  "validateExecutionRecord registry value source =
     (if \<not> is_obj value then fail source MustBeObject
      else
        bindE (enumAt (jfield value ''kind'') (sub_path source ''kind'')
                 [''result'', ''decision'', ''delivery'']) (\<lambda>name.
        let kind = kind_of_name name in
        bindE (objectAt (Some value) source (kind_fields kind)) (\<lambda>input.
        bindE (parse_base registry kind input source) (\<lambda>base.
        case kind of
          ResultKind \<Rightarrow>
            bindE (record_id_at (map_of input ''attempt_id'') (sub_path source ''attempt_id'')) (\<lambda>attempt.
            bindE (digest_at (map_of input ''request_hash'') (sub_path source ''request_hash'')) (\<lambda>request.
            bindE (digest_at (map_of input ''definition_bundle_hash'')
                     (sub_path source ''definition_bundle_hash'')) (\<lambda>bundle.
            bindE (subject_at (map_of input ''input_subject'') (sub_path source ''input_subject'')) (\<lambda>isub.
            bindE (nullable (map_of input ''output_subject'')
                     (\<lambda>v. subject_at v (sub_path source ''output_subject''))) (\<lambda>osub.
            bindE (digest_at (map_of input ''original_candidate_hash'')
                     (sub_path source ''original_candidate_hash'')) (\<lambda>original.
            bindE (digest_at (map_of input ''normalized_candidate_hash'')
                     (sub_path source ''normalized_candidate_hash'')) (\<lambda>normalized.
            Inr (ResultRec \<lparr>rb_id = rb_id base, rb_pipeline_run_id = rb_pipeline_run_id base,
                   rb_payload_schema = rb_payload_schema base, rb_payload = rb_payload base,
                   rb_created_at = rb_created_at base, rr_attempt_id = attempt, rr_request_hash = request,
                   rr_definition_bundle_hash = bundle, rr_input_subject = isub, rr_output_subject = osub,
                   rr_original_candidate_hash = original,
                   rr_normalized_candidate_hash = normalized\<rparr>))))))))
        | DecisionKind \<Rightarrow>
            bindE (stringAt (map_of input ''reducer'') (sub_path source ''reducer'') 200 PAYLOAD_SCHEMA) (\<lambda>reducer.
            bindE (arrayAt (map_of input ''input_record_ids'') (sub_path source ''input_record_ids'')
                     (\<lambda>entry path. record_id_at (Some entry) path) 0 256) (\<lambda>ids0.
            bindE (unique ids0 (sub_path source ''input_record_ids'')) (\<lambda>ids.
            Inr (DecisionRec \<lparr>rb_id = rb_id base, rb_pipeline_run_id = rb_pipeline_run_id base,
                   rb_payload_schema = rb_payload_schema base, rb_payload = rb_payload base,
                   rb_created_at = rb_created_at base, dr_reducer = reducer,
                   dr_input_record_ids = ids\<rparr>))))
        | DeliveryKind \<Rightarrow>
            bindE (record_id_at (map_of input ''effect_id'') (sub_path source ''effect_id'')) (\<lambda>effect.
            bindE (stringAt (map_of input ''idempotency_key'') (sub_path source ''idempotency_key'') 500
                     any_format) (\<lambda>key.
            bindE (stringAt (map_of input ''external_identity'') (sub_path source ''external_identity'') 1000
                     any_format) (\<lambda>external.
            bindE (enumAt (map_of input ''status'') (sub_path source ''status'')
                     [''confirmed'', ''rejected'']) (\<lambda>status.
            Inr (DeliveryRec \<lparr>rb_id = rb_id base, rb_pipeline_run_id = rb_pipeline_run_id base,
                   rb_payload_schema = rb_payload_schema base, rb_payload = rb_payload base,
                   rb_created_at = rb_created_at base, dl_effect_id = effect, dl_idempotency_key = key,
                   dl_external_identity = external,
                   dl_status = (if status = ''confirmed'' then Confirmed else Rejected)\<rparr>)))))))))"

end
