(* ===== verification/KernelTypes.thy ===== *)
theory KernelTypes
  imports Lifecycle Records
begin

text \<open>
  The kernel's data: \<open>supervisor/src/pipeline/kernel/types.ts\<close>.  A run with its cursor, attempts
  with their scopes and leases, the commands of the reducer, and the atomic transition bundle that
  a reduction returns.
\<close>

section \<open>Runs and attempts\<close>

definition ATOMIC_TRANSITION_SCHEMA :: string where
  "ATOMIC_TRANSITION_SCHEMA = ''openthrottle.atomic-transition/v1''"

definition KERNEL_RUN_SCHEMA :: string where
  "KERNEL_RUN_SCHEMA = ''openthrottle.kernel-run/v1''"

definition KERNEL_ATTEMPT_SCHEMA :: string where
  "KERNEL_ATTEMPT_SCHEMA = ''openthrottle.kernel-attempt/v1''"

definition EXTERNAL_SCHEDULE_REDUCER :: string where
  "EXTERNAL_SCHEDULE_REDUCER = ''core/external-schedule@1''"

definition EXTERNAL_SCHEDULE_PAYLOAD_SCHEMA :: string where
  "EXTERNAL_SCHEDULE_PAYLOAD_SCHEMA = ''openthrottle.external-schedule/v1''"

definition MAX_EXTERNAL_EFFECTS_PER_PHASE :: int where
  "MAX_EXTERNAL_EFFECTS_PER_PHASE = 16"

datatype run_status = RunPending | RunRunning | RunEnded terminal_outcome

datatype attempt_scope =
    StageScope (scope_stage_id: string)
  | LoopItemScope (scope_stage_id: string) (parent_attempt_id: string) (loop_id: string)
      (item_id: string) (item_index: int)
  | FanoutMemberScope (scope_stage_id: string) (parent_attempt_id: string) (fanout_id: string)
      (member_id: string) (member_index: int)

record frontier_member =
  fm_scope_key :: string
  fm_attempt_id :: string
  fm_scope :: attempt_scope
  fm_depends_on :: "string list"

text \<open>A barrier has the single kind \<open>all\<close>; it is its list of member keys.\<close>

record kernel_cursor =
  cu_stage_id :: "string option"
  cu_version :: int
  cu_reentries :: "int dict"
  cu_frontier :: "frontier_member list"
  cu_completed_scope_keys :: "string list"
  cu_barrier :: "string list option"

record kernel_run =
  kr_id :: string
  kr_pipeline_id :: string
  kr_definition_bundle_hash :: string
  kr_current_subject :: string
  kr_status :: run_status
  kr_terminal_outcome :: "terminal_outcome option"
  kr_cursor :: kernel_cursor
  kr_version :: int
  kr_work_retry_limit :: int
  kr_result_correction_limit :: int
  kr_active_attempt_versions :: "int dict"
  kr_active_effect_versions :: "int dict"
  kr_checkpoint_ids :: "string dict"

datatype lease_purpose = WorkLease | CorrectionLease

record attempt_lease =
  le_id :: string
  le_generation :: int
  le_worker_id :: string
  le_purpose :: lease_purpose
  le_expires_at :: string
  le_started :: bool

record result_diagnostic =
  di_path :: string
  di_detail :: string

record result_pending_state =
  pe_candidate_hash :: "string option"
  pe_diagnostics :: "result_diagnostic list"
  pe_invalid_result_evidence :: "blob_pointer option"

datatype attempt_state =
    Pending | Running | WorkComplete | ResultPending | Recorded | Settled
  | AttemptNeedsHuman | AttemptFailed | AttemptCanceled | AttemptSuperseded

record kernel_attempt =
  ka_id :: string
  ka_pipeline_run_id :: string
  ka_scope :: attempt_scope
  ka_repository_authority :: repository_authority
  ka_request_hash :: string
  ka_definition_bundle_hash :: string
  ka_input_subject :: string
  ka_context_record_ids :: "string list"
  ka_context_checkpoint_ids :: "string list"
  ka_output_subject :: "string option"
  ka_native_session_id :: "string option"
  ka_status :: attempt_state
  ka_version :: int
  ka_work_retry_ordinal :: int
  ka_result_correction_count :: int
  ka_result_correction_deadline :: "string option"
  ka_lease :: "attempt_lease option"
  ka_checkpoint_id :: "string option"
  ka_result_record_id :: "string option"
  ka_decision_record_id :: "string option"
  ka_pending_result :: "result_pending_state option"

section \<open>Canonical context identifiers\<close>

definition MAX_CONTEXT_IDS :: int where
  "MAX_CONTEXT_IDS = 256"

definition canonicalAttemptContextIds :: "string list \<Rightarrow> (string list) result" where
  "canonicalAttemptContextIds values =
     (if int (length values) > MAX_CONTEXT_IDS then Inl (SupportError TooManyContextIds)
      else if list_ex (\<lambda>v. \<not> RECORD_ID v) values then Inl (SupportError InvalidContextId)
      else let sorted = sort values in
        if length (remdups sorted) \<noteq> length sorted \<or> sorted \<noteq> values
          then Inl (SupportError ContextIdsNotCanonical)
        else Inr sorted)"

section \<open>Commands\<close>

record bind_session_fields =
  bs_attempt_id :: string
  bs_expected_run_version :: int
  bs_expected_cursor_version :: int
  bs_expected_attempt_version :: int
  bs_request_hash :: string
  bs_definition_bundle_hash :: string
  bs_input_subject :: string
  bs_lease_id :: string
  bs_worker_id :: string
  bs_lease_purpose :: lease_purpose
  bs_expected_lease_expires_at :: string
  bs_expected_work_retry_ordinal :: int
  bs_expected_result_correction_count :: int
  bs_native_session_id :: string

record result_pending_fields =
  rp_attempt_id :: string
  rp_candidate_hash :: "string option"
  rp_diagnostics :: "result_diagnostic list"
  rp_correction_deadline :: string
  rp_invalid_result_evidence :: blob_pointer
  rp_invalid_result_evidence_record_id :: string

record schedule_fields =
  se_attempt_id :: string
  se_checkpoint_id :: string
  se_decision_record_id :: string
  se_phase :: string
  se_verified_output_subject :: "string option"
  se_effect_intents :: "effect_intent list"

record advance_fields =
  av_attempt_id :: string
  av_prior_checkpoint_id :: string
  av_checkpoint_id :: string
  av_delivery_record_id :: string
  av_verified_output_subject :: string

record sandbox_recovery_fields =
  sr_recovery_record_id :: string
  sr_target_stage_id :: string
  sr_input_subjects :: "string dict"

text \<open>Absent optional arrays and records of a settlement read as empty ones, as the code does.\<close>

record settlement_fields =
  sf_attempt_id :: string
  sf_decision_record_id :: string
  sf_outcome :: string
  sf_next_attempts :: "kernel_attempt list"
  sf_next_dependencies :: "string list dict"
  sf_effect_intents :: "effect_intent list"
  sf_sandbox_recovery :: "sandbox_recovery_fields option"

record quarantine_fields =
  qf_attempt_id :: string
  qf_decision_record_id :: string
  qf_reason :: string
  qf_lease_id :: string
  qf_lease_generation :: int
  qf_worker_id :: string
  qf_lease_purpose :: lease_purpose

record cleanup_fields =
  cf_runtime_delivery_record_ids :: "string list"
  cf_diagnostic_record_ids :: "string list"
  cf_new_diagnostic_record_ids :: "string list"
  cf_cleanup_attempt :: kernel_attempt

datatype resource_disposition = PreProvision | Cleanup cleanup_fields

record terminal_fields =
  tf_decision_record_id :: string
  tf_reason :: string
  tf_resource_disposition :: resource_disposition

datatype command_body =
    StartCommand string string
      \<comment> \<open>\<open>attempt_id\<close>, \<open>lease_id\<close>\<close>
  | BindRuntimeSession bind_session_fields
  | WorkCompleteCommand string string "string option" "string option"
      \<comment> \<open>\<open>attempt_id\<close>, \<open>checkpoint_id\<close>, \<open>verified_output_subject\<close>, \<open>result_record_id\<close>\<close>
  | ResultPendingCommand result_pending_fields
  | ScheduleExternal schedule_fields
  | AdvanceExternalSubject advance_fields
  | RecordResult string string
      \<comment> \<open>\<open>attempt_id\<close>, \<open>record_id\<close>\<close>
  | SettleAttempt settlement_fields
  | CorrectAndSettle string string settlement_fields
      \<comment> \<open>\<open>result_record_id\<close>, \<open>invalid_result_evidence_record_id\<close>\<close>
  | RetryAttempt string "string option"
      \<comment> \<open>\<open>attempt_id\<close>, \<open>forensics_record_id\<close>\<close>
  | QuarantineAttemptRecovery quarantine_fields
  | NeedsHumanCommand "string option" terminal_fields
  | FailCommand "string option" terminal_fields
  | StopCommand terminal_fields
  | SupersedeCommand terminal_fields

record kernel_command =
  cmd_id :: string
  cmd_body :: command_body

record reducer_input =
  ri_manifest :: compiled_manifest
  ri_run :: kernel_run
  ri_current_attempt :: "kernel_attempt option"
  ri_records :: "execution_record dict"
  ri_checkpoints :: "attempt_checkpoint dict"
  ri_command :: kernel_command

section \<open>Transition bundles\<close>

datatype attempt_write =
    TerminalWrite (tw_attempt_id: string) (tw_expected_version: int) (tw_next_version: int)
      (tw_status: attempt_state)
  | ReplaceWrite (rw_attempt: kernel_attempt)

fun write_id :: "attempt_write \<Rightarrow> string" where
  "write_id (TerminalWrite i _ _ _) = i"
| "write_id (ReplaceWrite a) = ka_id a"

record expected_state =
  ex_run_id :: string
  ex_run_version :: int
  ex_cursor_version :: int
  ex_attempt_versions :: "int dict"

record transition_content =
  tb_transition_id :: string
  tb_expected :: expected_state
  tb_run :: kernel_run
  tb_attempt_writes :: "attempt_write list"
  tb_create_attempts :: "kernel_attempt list"
  tb_append_records :: "execution_record list"
  tb_append_checkpoints :: "attempt_checkpoint list"
  tb_put_effects :: "effect_intent list"
  tb_cancel_effect_ids :: "string list"

record transition_bundle = transition_content +
  tb_content_hash :: string

record decision_authorization =
  da_decision :: decision_record
  da_exact_records :: "execution_record list"

section \<open>Facts\<close>

lemma canonicalAttemptContextIds_ok [run_ok]:
  "canonicalAttemptContextIds values = Inr ys \<longleftrightarrow>
     ys = values \<and> int (length values) \<le> 256 \<and> list_all RECORD_ID values \<and>
     sorted values \<and> distinct values"
proof -
  have s: "sort values = values \<longleftrightarrow> sorted values"
    by (metis sorted_sort sorted_sort_id)
  show ?thesis
    by (auto simp: canonicalAttemptContextIds_def MAX_CONTEXT_IDS_def Let_def s list_ex_iff
        list_all_iff run_ok length_remdups_eq)
qed

lemma canonicalAttemptContextIds_is_ok [run_ok]:
  "is_ok (canonicalAttemptContextIds values) \<longleftrightarrow>
     int (length values) \<le> 256 \<and> list_all RECORD_ID values \<and> sorted values \<and> distinct values"
  by (auto simp: is_ok_iff run_ok)

end
