(* ===== verification/KernelJson.thy ===== *)
theory KernelJson
  imports KernelTypes
begin

text \<open>
  The kernel's data as JSON, as the reducer hashes it: \<open>bundle\<close> of \<open>reducer.ts\<close> seals a transition
  with the digest of its canonical JSON.  Field order is irrelevant, the canonical form sorts it.
\<close>

abbreviation json_int :: "int \<Rightarrow> json" where
  "json_int i \<equiv> JNum (JInt i)"

definition json_of_dict :: "('v \<Rightarrow> json) \<Rightarrow> 'v dict \<Rightarrow> json" where
  "json_of_dict f d = JObj (map (\<lambda>(k, v). (k, f v)) d)"

fun json_option :: "('a \<Rightarrow> json) \<Rightarrow> 'a option \<Rightarrow> json" where
  "json_option f None = JNull"
| "json_option f (Some x) = f x"

fun run_status_name :: "run_status \<Rightarrow> string" where
  "run_status_name RunPending = ''pending''"
| "run_status_name RunRunning = ''running''"
| "run_status_name (RunEnded outcome) = outcome_name outcome"

fun attempt_state_name :: "attempt_state \<Rightarrow> string" where
  "attempt_state_name Pending = ''pending''"
| "attempt_state_name Running = ''running''"
| "attempt_state_name WorkComplete = ''work_complete''"
| "attempt_state_name ResultPending = ''result_pending''"
| "attempt_state_name Recorded = ''recorded''"
| "attempt_state_name Settled = ''settled''"
| "attempt_state_name AttemptNeedsHuman = ''needs_human''"
| "attempt_state_name AttemptFailed = ''failed''"
| "attempt_state_name AttemptCanceled = ''canceled''"
| "attempt_state_name AttemptSuperseded = ''superseded''"

fun purpose_name :: "lease_purpose \<Rightarrow> string" where
  "purpose_name WorkLease = ''work''"
| "purpose_name CorrectionLease = ''result_correction''"

fun json_of_scope :: "attempt_scope \<Rightarrow> json" where
  "json_of_scope (StageScope s) = JObj [(''kind'', JStr ''stage''), (''stage_id'', JStr s)]"
| "json_of_scope (LoopItemScope s p l i n) = JObj
     [(''kind'', JStr ''loop_item''), (''stage_id'', JStr s), (''parent_attempt_id'', JStr p),
      (''loop_id'', JStr l), (''item_id'', JStr i), (''item_index'', json_int n)]"
| "json_of_scope (FanoutMemberScope s p f m n) = JObj
     [(''kind'', JStr ''fanout_member''), (''stage_id'', JStr s), (''parent_attempt_id'', JStr p),
      (''fanout_id'', JStr f), (''member_id'', JStr m), (''member_index'', json_int n)]"

definition json_of_member :: "frontier_member \<Rightarrow> json" where
  "json_of_member m = JObj
     [(''scope_key'', JStr (fm_scope_key m)), (''attempt_id'', JStr (fm_attempt_id m)),
      (''scope'', json_of_scope (fm_scope m)), (''depends_on'', json_strs (fm_depends_on m))]"

definition json_of_barrier :: "string list \<Rightarrow> json" where
  "json_of_barrier b = JObj [(''kind'', JStr ''all''), (''member_scope_keys'', json_strs b)]"

definition json_of_cursor :: "kernel_cursor \<Rightarrow> json" where
  "json_of_cursor c = JObj
     [(''stage_id'', json_opt (cu_stage_id c)), (''version'', json_int (cu_version c)),
      (''reentries'', json_of_dict json_int (cu_reentries c)),
      (''frontier'', JArr (map json_of_member (cu_frontier c))),
      (''completed_scope_keys'', json_strs (cu_completed_scope_keys c)),
      (''barrier'', json_option json_of_barrier (cu_barrier c))]"

definition json_of_run :: "kernel_run \<Rightarrow> json" where
  "json_of_run r = JObj
     [(''schema'', JStr KERNEL_RUN_SCHEMA), (''id'', JStr (kr_id r)),
      (''pipeline_id'', JStr (kr_pipeline_id r)),
      (''definition_bundle_hash'', JStr (kr_definition_bundle_hash r)),
      (''current_subject'', JStr (kr_current_subject r)),
      (''status'', JStr (run_status_name (kr_status r))),
      (''terminal_outcome'', json_option (JStr \<circ> outcome_name) (kr_terminal_outcome r)),
      (''cursor'', json_of_cursor (kr_cursor r)), (''version'', json_int (kr_version r)),
      (''work_retry_limit'', json_int (kr_work_retry_limit r)),
      (''result_correction_limit'', json_int (kr_result_correction_limit r)),
      (''active_attempt_versions'', json_of_dict json_int (kr_active_attempt_versions r)),
      (''active_effect_versions'', json_of_dict json_int (kr_active_effect_versions r)),
      (''checkpoint_ids'', json_of_dict JStr (kr_checkpoint_ids r))]"

definition json_of_lease :: "attempt_lease \<Rightarrow> json" where
  "json_of_lease l = JObj
     [(''id'', JStr (le_id l)), (''generation'', json_int (le_generation l)),
      (''worker_id'', JStr (le_worker_id l)), (''purpose'', JStr (purpose_name (le_purpose l))),
      (''expires_at'', JStr (le_expires_at l)), (''started'', JBool (le_started l))]"

definition json_of_pending :: "result_pending_state \<Rightarrow> json" where
  "json_of_pending p = JObj
     [(''candidate_hash'', json_opt (pe_candidate_hash p)),
      (''diagnostics'', JArr (map (\<lambda>d. JObj [(''path'', JStr (di_path d)), (''detail'', JStr (di_detail d))])
         (pe_diagnostics p))),
      (''invalid_result_evidence'', json_option json_of_blob (pe_invalid_result_evidence p))]"

definition json_of_attempt :: "kernel_attempt \<Rightarrow> json" where
  "json_of_attempt a = JObj
     [(''schema'', JStr KERNEL_ATTEMPT_SCHEMA), (''id'', JStr (ka_id a)),
      (''pipeline_run_id'', JStr (ka_pipeline_run_id a)), (''scope'', json_of_scope (ka_scope a)),
      (''repository_authority'', JStr (authority_name (ka_repository_authority a))),
      (''request_hash'', JStr (ka_request_hash a)),
      (''definition_bundle_hash'', JStr (ka_definition_bundle_hash a)),
      (''input_subject'', JStr (ka_input_subject a)),
      (''context_record_ids'', json_strs (ka_context_record_ids a)),
      (''context_checkpoint_ids'', json_strs (ka_context_checkpoint_ids a)),
      (''output_subject'', json_opt (ka_output_subject a)),
      (''native_session_id'', json_opt (ka_native_session_id a)),
      (''status'', JStr (attempt_state_name (ka_status a))), (''version'', json_int (ka_version a)),
      (''work_retry_ordinal'', json_int (ka_work_retry_ordinal a)),
      (''result_correction_count'', json_int (ka_result_correction_count a)),
      (''result_correction_deadline'', json_opt (ka_result_correction_deadline a)),
      (''lease'', json_option json_of_lease (ka_lease a)),
      (''checkpoint_id'', json_opt (ka_checkpoint_id a)),
      (''result_record_id'', json_opt (ka_result_record_id a)),
      (''decision_record_id'', json_opt (ka_decision_record_id a)),
      (''pending_result'', json_option json_of_pending (ka_pending_result a))]"

fun json_of_write :: "attempt_write \<Rightarrow> json" where
  "json_of_write (TerminalWrite i e n s) = JObj
     [(''kind'', JStr ''terminal''), (''attempt_id'', JStr i), (''expected_version'', json_int e),
      (''next_version'', json_int n), (''status'', JStr (attempt_state_name s))]"
| "json_of_write (ReplaceWrite a) = JObj
     [(''kind'', JStr ''replace''), (''attempt'', json_of_attempt a)]"

definition json_of_expected :: "expected_state \<Rightarrow> json" where
  "json_of_expected e = JObj
     [(''run_id'', JStr (ex_run_id e)), (''run_version'', json_int (ex_run_version e)),
      (''cursor_version'', json_int (ex_cursor_version e)),
      (''attempt_versions'', json_of_dict json_int (ex_attempt_versions e))]"

definition json_of_content :: "'a transition_content_scheme \<Rightarrow> json" where
  "json_of_content c = JObj
     [(''schema'', JStr ATOMIC_TRANSITION_SCHEMA), (''transition_id'', JStr (tb_transition_id c)),
      (''expected'', json_of_expected (tb_expected c)), (''run'', json_of_run (tb_run c)),
      (''attempt_writes'', JArr (map json_of_write (tb_attempt_writes c))),
      (''create_attempts'', JArr (map json_of_attempt (tb_create_attempts c))),
      (''append_records'', JArr (map json_of_record (tb_append_records c))),
      (''append_checkpoints'', JArr (map json_of_checkpoint (tb_append_checkpoints c))),
      (''put_effects'', JArr (map json_of_effect (tb_put_effects c))),
      (''cancel_effect_ids'', json_strs (tb_cancel_effect_ids c))]"

definition seal_bundle :: "transition_content \<Rightarrow> transition_bundle" where
  "seal_bundle content =
     transition_content.extend content
       (transition_bundle.fields (digestCanonicalJson (json_of_content content)))"

lemma seal_bundle_simps [simp]:
  "tb_transition_id (seal_bundle c) = tb_transition_id c"
  "tb_expected (seal_bundle c) = tb_expected c"
  "tb_run (seal_bundle c) = tb_run c"
  "tb_attempt_writes (seal_bundle c) = tb_attempt_writes c"
  "tb_create_attempts (seal_bundle c) = tb_create_attempts c"
  "tb_append_records (seal_bundle c) = tb_append_records c"
  "tb_append_checkpoints (seal_bundle c) = tb_append_checkpoints c"
  "tb_put_effects (seal_bundle c) = tb_put_effects c"
  "tb_cancel_effect_ids (seal_bundle c) = tb_cancel_effect_ids c"
  "tb_content_hash (seal_bundle c) = digestCanonicalJson (json_of_content c)"
  by (simp_all add: seal_bundle_def transition_content.defs transition_bundle.defs)

end
