(* ===== verification/StoreRows.thy ===== *)
theory StoreRows
  imports SqlTables KernelJson JsonParse
begin

text \<open>
  The tables of the kernel store: the rows of \<open>persistence/kernel-store-codecs.ts\<close> with the columns that
  \<open>persistence/epoch-schema.ts\<close> gives them, and the constraints of that schema.  A column that may be
  \<open>NULL\<close> is an option, and a text column that its constraint restricts to a few words is a datatype.
\<close>

section \<open>Rows\<close>

record payload_columns =
  pc_inline :: "string option"
  pc_algorithm :: "string option"
  pc_digest :: "string option"
  pc_bytes :: "int option"
  pc_encoding :: "blob_encoding option"
  pc_media_type :: "string option"
  pc_payload_schema :: "string option"

record run_row =
  rw_id :: string
  rw_work_item_id :: string
  rw_pipeline_id :: string
  rw_bundle_hash :: string
  rw_bundle_bytes :: int
  rw_current_subject :: string
  rw_status :: run_status
  rw_terminal_outcome :: "terminal_outcome option"
  rw_cursor_stage_id :: "string option"
  rw_cursor_version :: int
  rw_cursor_reentries :: string
  rw_cursor_frontier :: string
  rw_cursor_completed :: string
  rw_cursor_barrier :: "string option"
  rw_version :: int
  rw_work_retry_limit :: int
  rw_result_correction_limit :: int
  rw_last_transition_id :: "string option"
  rw_last_transition_hash :: "string option"
  rw_created_at :: string
  rw_updated_at :: string

datatype scope_kind = StageKind | LoopItemKind | FanoutMemberKind

record attempt_row =
  aw_id :: string
  aw_run :: string
  aw_scope_kind :: scope_kind
  aw_stage_id :: string
  aw_parent :: "string option"
  aw_scope_group :: "string option"
  aw_scope_item :: "string option"
  aw_scope_index :: "int option"
  aw_authority :: repository_authority
  aw_request_hash :: string
  aw_bundle_hash :: string
  aw_input_subject :: string
  aw_context_records :: string
  aw_context_checkpoints :: string
  aw_output_subject :: "string option"
  aw_session :: "string option"
  aw_status :: attempt_state
  aw_version :: int
  aw_retry_ordinal :: int
  aw_correction_count :: int
  aw_correction_deadline :: "string option"
  aw_unmet :: int
  aw_lease_id :: "string option"
  aw_lease_generation :: "int option"
  aw_lease_worker :: "string option"
  aw_lease_purpose :: "lease_purpose option"
  aw_lease_expires :: "string option"
  aw_lease_started :: "int option"
  aw_checkpoint_id :: "string option"
  aw_result_id :: "string option"
  aw_decision_id :: "string option"
  aw_candidate_hash :: "string option"
  aw_diagnostics :: "string option"
  aw_created_at :: string
  aw_updated_at :: string

record record_row =
  cw_id :: string
  cw_run :: string
  cw_sequence :: int
  cw_hash :: string
  cw_kind :: record_kind
  cw_semantic_key :: "string option"
  cw_payload_schema :: string
  cw_payload :: payload_columns
  cw_attempt_id :: "string option"
  cw_request_hash :: "string option"
  cw_bundle_hash :: "string option"
  cw_input_subject :: "string option"
  cw_output_subject :: "string option"
  cw_original_hash :: "string option"
  cw_normalized_hash :: "string option"
  cw_reducer :: "string option"
  cw_input_ids :: "string option"
  cw_input_count :: "int option"
  cw_effect_id :: "string option"
  cw_key :: "string option"
  cw_external :: "string option"
  cw_delivery_status :: "delivery_status option"
  cw_created_at :: string

record checkpoint_row =
  kw_id :: string
  kw_run :: string
  kw_attempt_id :: string
  kw_ordinal :: int
  kw_hash :: string
  kw_semantic_key :: string
  kw_request_hash :: string
  kw_bundle_hash :: string
  kw_input_subject :: string
  kw_output_subject :: "string option"
  kw_session :: "string option"
  kw_payload_schema :: string
  kw_payload :: payload_columns
  kw_captured_at :: string

datatype effect_status =
    EffectPending | EffectProcessing | EffectUnknown | EffectAcknowledged | EffectRejected
  | EffectCanceled | EffectFailed

datatype execution_mode = DispatchOrReconcile | ReconcileOnly

record effect_row =
  ew_id :: string
  ew_run :: string
  ew_decision_id :: string
  ew_kind :: string
  ew_key :: string
  ew_target :: string
  ew_subject :: "string option"
  ew_payload_schema :: string
  ew_payload :: payload_columns
  ew_intent_hash :: string
  ew_status :: effect_status
  ew_version :: int
  ew_attempt_count :: int
  ew_available_at :: string
  ew_lease_id :: "string option"
  ew_lease_worker :: "string option"
  ew_lease_expires :: "string option"
  ew_mode :: "execution_mode option"
  ew_dispatch_lease :: "string option"
  ew_dispatch_worker :: "string option"
  ew_delivery_id :: "string option"
  ew_unknown_detail :: "string option"
  ew_last_error :: "string option"
  ew_created_at :: string
  ew_updated_at :: string

record database =
  db_runs :: "run_row list"
  db_attempts :: "attempt_row list"
  db_records :: "record_row list"
  db_effects :: "effect_row list"
  db_checkpoints :: "checkpoint_row list"

section \<open>Statuses that count as active\<close>

definition ACTIVE_ATTEMPT_STATUSES :: "attempt_state list" where
  "ACTIVE_ATTEMPT_STATUSES = [Pending, Running, WorkComplete, ResultPending, Recorded]"

definition ACTIVE_EFFECT_STATUSES :: "effect_status list" where
  "ACTIVE_EFFECT_STATUSES = [EffectPending, EffectProcessing, EffectUnknown]"

definition active_run_status :: "run_status \<Rightarrow> bool" where
  "active_run_status s \<longleftrightarrow> s \<in> set [RunPending, RunRunning]"

section \<open>Constraints\<close>

text \<open>
  A \<open>CHECK\<close> rejects a row only when its condition is false; a comparison with \<open>NULL\<close> is unknown and
  passes.  The conditions below are the ones that are not false.
\<close>

definition between :: "nat \<Rightarrow> string \<Rightarrow> nat \<Rightarrow> bool" where
  "between lo t hi \<longleftrightarrow> lo \<le> sql_length t \<and> sql_length t \<le> hi"

definition lower_hex :: "string \<Rightarrow> bool" where
  "lower_hex t \<longleftrightarrow> list_all (\<lambda>c. c \<in> set ''0123456789abcdef'') t"

definition hash_check :: "string \<Rightarrow> bool" where
  "hash_check t \<longleftrightarrow> sql_length t = 64 \<and> lower_hex t"

definition subject_check :: "string \<Rightarrow> bool" where
  "subject_check t \<longleftrightarrow> sql_length t \<in> {40, 64} \<and> lower_hex t"

definition time_check :: "string \<Rightarrow> bool" where
  "time_check t \<longleftrightarrow> 20 \<le> sql_length t"

definition json_valid :: "string \<Rightarrow> bool" where
  "json_valid t \<longleftrightarrow> json_parse t \<noteq> None"

definition id_array_check :: "string \<Rightarrow> bool" where
  "id_array_check t \<longleftrightarrow> (case json_parse t of Some (JArr vs) \<Rightarrow> length vs \<le> 256 | _ \<Rightarrow> False)"

definition payload_check :: "string \<Rightarrow> payload_columns \<Rightarrow> bool" where
  "payload_check schema p \<longleftrightarrow>
     pred_option (\<lambda>t. json_valid t \<and> byteLength t \<le> 65536) (pc_inline p) \<and>
     pc_algorithm p \<in> {None, Some ''sha256''} \<and> pred_option hash_check (pc_digest p) \<and>
     pred_option (\<lambda>n. n > 0) (pc_bytes p) \<and>
     (pc_inline p \<noteq> None \<and> pc_algorithm p = None \<and> pc_digest p = None \<and> pc_bytes p = None \<and>
        pc_encoding p = None \<and> pc_media_type p = None \<and> pc_payload_schema p = None \<or>
      pc_inline p = None \<and> pc_digest p \<noteq> None \<and> pc_encoding p \<noteq> None \<and> pc_media_type p \<noteq> None \<and>
        pc_payload_schema p \<in> {None, Some schema})"

definition run_check :: "run_row \<Rightarrow> bool" where
  "run_check r \<longleftrightarrow>
     between 1 (rw_id r) 200 \<and> between 1 (rw_pipeline_id r) 200 \<and> hash_check (rw_bundle_hash r) \<and>
     rw_bundle_bytes r > 0 \<and> subject_check (rw_current_subject r) \<and> rw_cursor_version r \<ge> 0 \<and>
     json_valid (rw_cursor_reentries r) \<and> json_valid (rw_cursor_frontier r) \<and>
     json_valid (rw_cursor_completed r) \<and> pred_option json_valid (rw_cursor_barrier r) \<and>
     rw_version r \<ge> 0 \<and> rw_work_retry_limit r \<ge> 0 \<and> rw_result_correction_limit r \<ge> 0 \<and>
     time_check (rw_created_at r) \<and> time_check (rw_updated_at r) \<and>
     (rw_last_transition_id r = None \<longleftrightarrow> rw_last_transition_hash r = None) \<and>
     pred_option hash_check (rw_last_transition_hash r) \<and>
     (active_run_status (rw_status r) \<and> rw_terminal_outcome r = None \<and> rw_cursor_stage_id r \<noteq> None \<or>
      \<not> active_run_status (rw_status r) \<and>
        pred_option (\<lambda>outcome. rw_status r = RunEnded outcome) (rw_terminal_outcome r) \<and> rw_cursor_stage_id r = None)"

definition attempt_check :: "attempt_row \<Rightarrow> bool" where
  "attempt_check a \<longleftrightarrow>
     between 1 (aw_id a) 200 \<and> between 1 (aw_stage_id a) 200 \<and> hash_check (aw_request_hash a) \<and>
     hash_check (aw_bundle_hash a) \<and> subject_check (aw_input_subject a) \<and>
     id_array_check (aw_context_records a) \<and> id_array_check (aw_context_checkpoints a) \<and>
     pred_option subject_check (aw_output_subject a) \<and> aw_version a \<ge> 0 \<and> aw_retry_ordinal a \<ge> 0 \<and>
     aw_correction_count a \<ge> 0 \<and> aw_unmet a \<ge> 0 \<and> pred_option (\<lambda>g. g \<ge> 0) (aw_lease_generation a) \<and>
     pred_option (\<lambda>s. s \<in> {0, 1}) (aw_lease_started a) \<and> pred_option hash_check (aw_candidate_hash a) \<and>
     pred_option json_valid (aw_diagnostics a) \<and> time_check (aw_created_at a) \<and> time_check (aw_updated_at a) \<and>
     (aw_scope_kind a = StageKind \<and> aw_parent a = None \<and> aw_scope_group a = None \<and> aw_scope_item a = None \<and>
        aw_scope_index a = None \<or>
      aw_scope_kind a \<noteq> StageKind \<and> aw_parent a \<noteq> None \<and> aw_scope_group a \<noteq> None \<and> aw_scope_item a \<noteq> None \<and>
        pred_option (\<lambda>i. i \<ge> 0) (aw_scope_index a)) \<and>
     (aw_lease_id a = None \<and> aw_lease_generation a = None \<and> aw_lease_worker a = None \<and>
        aw_lease_purpose a = None \<and> aw_lease_expires a = None \<and> aw_lease_started a = None \<or>
      aw_lease_id a \<noteq> None \<and> aw_lease_generation a \<noteq> None \<and> aw_lease_worker a \<noteq> None \<and>
        aw_lease_purpose a \<noteq> None \<and> aw_lease_expires a \<noteq> None \<and> aw_lease_started a \<noteq> None) \<and>
     (aw_diagnostics a = None \<longleftrightarrow> aw_status a \<noteq> ResultPending) \<and>
     (aw_correction_deadline a = None \<or> aw_session a \<noteq> None) \<and>
     (aw_status a \<noteq> ResultPending \<or> aw_correction_deadline a \<noteq> None) \<and>
     (aw_result_id a = None \<or> aw_status a \<in> {WorkComplete, Recorded, Settled}) \<and>
     (aw_decision_id a \<noteq> None \<longleftrightarrow> aw_status a = Settled)"

definition record_check :: "record_row \<Rightarrow> bool" where
  "record_check c \<longleftrightarrow>
     between 1 (cw_id c) 200 \<and> cw_sequence c > 0 \<and> hash_check (cw_hash c) \<and>
     pred_option (\<lambda>k. between 1 k 500) (cw_semantic_key c) \<and> between 1 (cw_payload_schema c) 200 \<and>
     payload_check (cw_payload_schema c) (cw_payload c) \<and> time_check (cw_created_at c) \<and>
     (let result_columns = [cw_attempt_id c, cw_request_hash c, cw_bundle_hash c, cw_input_subject c,
            cw_original_hash c, cw_normalized_hash c];
          delivery_columns = [cw_effect_id c, cw_key c, cw_external c];
          decided = cw_reducer c \<noteq> None \<and> cw_input_ids c \<noteq> None \<and> pred_option json_valid (cw_input_ids c) \<and>
            pred_option (\<lambda>n. n \<ge> 0) (cw_input_count c);
          undecided = cw_reducer c = None \<and> cw_input_ids c = None \<and> cw_input_count c = None in
      case cw_kind c of
        ResultKind \<Rightarrow> None \<notin> set result_columns \<and> undecided \<and> set delivery_columns = {None} \<and>
          cw_delivery_status c = None
      | DecisionKind \<Rightarrow> set result_columns = {None} \<and> cw_output_subject c = None \<and> decided \<and>
          set delivery_columns = {None} \<and> cw_delivery_status c = None
      | DeliveryKind \<Rightarrow> set result_columns = {None} \<and> cw_output_subject c = None \<and> undecided \<and>
          None \<notin> set delivery_columns)"

definition effect_check :: "effect_row \<Rightarrow> bool" where
  "effect_check e \<longleftrightarrow>
     between 1 (ew_id e) 200 \<and> between 3 (ew_kind e) 200 \<and> between 1 (ew_key e) 500 \<and>
     between 1 (ew_target e) 1000 \<and> between 1 (ew_payload_schema e) 200 \<and>
     payload_check (ew_payload_schema e) (ew_payload e) \<and> hash_check (ew_intent_hash e) \<and>
     ew_version e \<ge> 0 \<and> ew_attempt_count e \<ge> 0 \<and> time_check (ew_available_at e) \<and>
     time_check (ew_created_at e) \<and> time_check (ew_updated_at e) \<and>
     (ew_lease_id e = None \<and> ew_lease_worker e = None \<and> ew_lease_expires e = None \<and> ew_mode e = None \<or>
      ew_lease_id e \<noteq> None \<and> ew_lease_worker e \<noteq> None \<and> ew_lease_expires e \<noteq> None \<and> ew_mode e \<noteq> None) \<and>
     (ew_status e = EffectProcessing \<longleftrightarrow> ew_lease_id e \<noteq> None) \<and>
     (ew_dispatch_lease e = None \<longleftrightarrow> ew_dispatch_worker e = None) \<and>
     (ew_dispatch_lease e = None \<or> ew_mode e \<in> {None, Some ReconcileOnly} \<or>
      ew_status e \<in> {EffectUnknown, EffectAcknowledged, EffectRejected, EffectFailed, EffectCanceled}) \<and>
     (ew_status e \<in> {EffectAcknowledged, EffectRejected} \<longleftrightarrow> ew_delivery_id e \<noteq> None) \<and>
     (ew_status e = EffectUnknown \<longleftrightarrow> ew_unknown_detail e \<noteq> None)"

definition checkpoint_check :: "checkpoint_row \<Rightarrow> bool" where
  "checkpoint_check k \<longleftrightarrow>
     between 1 (kw_id k) 200 \<and> kw_ordinal k \<ge> 0 \<and> hash_check (kw_hash k) \<and>
     between 1 (kw_semantic_key k) 500 \<and> between 1 (kw_payload_schema k) 200 \<and>
     payload_check (kw_payload_schema k) (kw_payload k) \<and> time_check (kw_captured_at k)"

text \<open>Primary keys and unique indexes.  \<open>NULL\<close> is no duplicate of itself.\<close>

definition no_duplicates :: "('r \<Rightarrow> 'k option) \<Rightarrow> 'r list \<Rightarrow> bool" where
  "no_duplicates column rows \<longleftrightarrow> distinct (map (the \<circ> column) (filter (\<lambda>r. column r \<noteq> None) rows))"

definition effect_unique :: "effect_row list \<Rightarrow> bool" where
  "effect_unique rows \<longleftrightarrow>
     distinct (map ew_id rows) \<and> distinct (map ew_key rows) \<and> no_duplicates ew_lease_id rows"

definition attempt_unique :: "attempt_row list \<Rightarrow> bool" where
  "attempt_unique rows \<longleftrightarrow> distinct (map aw_id rows) \<and> no_duplicates aw_lease_id rows"

definition record_unique :: "record_row list \<Rightarrow> bool" where
  "record_unique rows \<longleftrightarrow>
     distinct (map cw_id rows) \<and> distinct (map (\<lambda>c. (cw_run c, cw_sequence c)) rows) \<and>
     no_duplicates (\<lambda>c. if cw_kind c = ResultKind then cw_attempt_id c else None) rows \<and>
     no_duplicates (\<lambda>c. if cw_kind c = DeliveryKind then cw_effect_id c else None) rows \<and>
     no_duplicates (\<lambda>c. if cw_kind c = DecisionKind then map_option (Pair (cw_run c)) (cw_semantic_key c)
       else None) rows"

definition checkpoint_unique :: "checkpoint_row list \<Rightarrow> bool" where
  "checkpoint_unique rows \<longleftrightarrow>
     distinct (map kw_id rows) \<and> distinct (map (\<lambda>k. (kw_attempt_id k, kw_ordinal k)) rows)"

definition run_schema :: "run_row table_schema" where
  "run_schema = \<lparr>ts_check = run_check, ts_unique = \<lambda>rows. distinct (map rw_id rows)\<rparr>"

definition attempt_schema :: "attempt_row table_schema" where
  "attempt_schema = \<lparr>ts_check = attempt_check, ts_unique = attempt_unique\<rparr>"

definition record_schema :: "record_row table_schema" where
  "record_schema = \<lparr>ts_check = record_check, ts_unique = record_unique\<rparr>"

definition effect_schema :: "effect_row table_schema" where
  "effect_schema = \<lparr>ts_check = effect_check, ts_unique = effect_unique\<rparr>"

definition checkpoint_schema :: "checkpoint_row table_schema" where
  "checkpoint_schema = \<lparr>ts_check = checkpoint_check, ts_unique = checkpoint_unique\<rparr>"

text \<open>Foreign keys: a reference with a \<open>NULL\<close> part is not checked.\<close>

definition references :: "'k option \<Rightarrow> 'k list \<Rightarrow> bool" where
  "references key targets \<longleftrightarrow> pred_option (\<lambda>k. k \<in> set targets) key"

fun both :: "'a option \<Rightarrow> 'b option \<Rightarrow> ('a \<times> 'b) option" where
  "both (Some a) (Some b) = Some (a, b)"
| "both _ _ = None"

definition attempt_foreign_keys :: "database \<Rightarrow> attempt_row \<Rightarrow> bool" where
  "attempt_foreign_keys db a \<longleftrightarrow>
     references (Some (aw_run a)) (map rw_id (db_runs db)) \<and>
     references (map_option (\<lambda>p. (p, aw_run a)) (aw_parent a)) (map (\<lambda>a. (aw_id a, aw_run a)) (db_attempts db)) \<and>
     references (map_option (\<lambda>k. (k, aw_run a, aw_id a)) (aw_checkpoint_id a))
       (map (\<lambda>k. (kw_id k, kw_run k, kw_attempt_id k)) (db_checkpoints db)) \<and>
     references (map_option (\<lambda>r. (r, aw_run a, ResultKind)) (aw_result_id a))
       (map (\<lambda>c. (cw_id c, cw_run c, cw_kind c)) (db_records db)) \<and>
     references (map_option (\<lambda>r. (r, aw_run a, Some (aw_id a))) (aw_result_id a))
       (map (\<lambda>c. (cw_id c, cw_run c, cw_attempt_id c)) (db_records db)) \<and>
     references (map_option (\<lambda>r. (r, aw_run a, DecisionKind)) (aw_decision_id a))
       (map (\<lambda>c. (cw_id c, cw_run c, cw_kind c)) (db_records db))"

definition attempt_identity_key :: "attempt_row \<Rightarrow> string \<times> string \<times> string \<times> string \<times> string" where
  "attempt_identity_key a = (aw_id a, aw_run a, aw_request_hash a, aw_bundle_hash a, aw_input_subject a)"

definition record_foreign_keys :: "database \<Rightarrow> record_row \<Rightarrow> bool" where
  "record_foreign_keys db c \<longleftrightarrow>
     references (Some (cw_run c)) (map rw_id (db_runs db)) \<and>
     references (map_option (\<lambda>(a, r, b, i). (a, cw_run c, r, b, i))
         (both (cw_attempt_id c) (both (cw_request_hash c) (both (cw_bundle_hash c) (cw_input_subject c)))))
       (map attempt_identity_key (db_attempts db)) \<and>
     references (map_option (\<lambda>(e, k, t). (e, cw_run c, k, t)) (both (cw_effect_id c) (both (cw_key c) (cw_external c))))
       (map (\<lambda>e. (ew_id e, ew_run e, ew_key e, ew_target e)) (db_effects db))"

definition effect_foreign_keys :: "database \<Rightarrow> effect_row \<Rightarrow> bool" where
  "effect_foreign_keys db e \<longleftrightarrow>
     references (Some (ew_run e)) (map rw_id (db_runs db)) \<and>
     references (Some (ew_decision_id e, ew_run e, DecisionKind))
       (map (\<lambda>c. (cw_id c, cw_run c, cw_kind c)) (db_records db)) \<and>
     references (map_option (\<lambda>d. (d, ew_run e, DeliveryKind)) (ew_delivery_id e))
       (map (\<lambda>c. (cw_id c, cw_run c, cw_kind c)) (db_records db)) \<and>
     references (map_option (\<lambda>d. (d, ew_run e, Some (ew_id e))) (ew_delivery_id e))
       (map (\<lambda>c. (cw_id c, cw_run c, cw_effect_id c)) (db_records db))"

definition checkpoint_foreign_keys :: "database \<Rightarrow> checkpoint_row \<Rightarrow> bool" where
  "checkpoint_foreign_keys db k \<longleftrightarrow>
     references (Some (kw_run k)) (map rw_id (db_runs db)) \<and>
     references (Some (kw_attempt_id k, kw_run k, kw_request_hash k, kw_bundle_hash k, kw_input_subject k))
       (map attempt_identity_key (db_attempts db))"

definition foreign_keys :: "database \<Rightarrow> bool" where
  "foreign_keys db \<longleftrightarrow>
     list_all (attempt_foreign_keys db) (db_attempts db) \<and> list_all (record_foreign_keys db) (db_records db) \<and>
     list_all (effect_foreign_keys db) (db_effects db) \<and> list_all (checkpoint_foreign_keys db) (db_checkpoints db)"

definition schema_ok :: "database \<Rightarrow> bool" where
  "schema_ok db \<longleftrightarrow>
     list_all run_check (db_runs db) \<and> distinct (map rw_id (db_runs db)) \<and>
     list_all attempt_check (db_attempts db) \<and> attempt_unique (db_attempts db) \<and>
     list_all record_check (db_records db) \<and> record_unique (db_records db) \<and>
     list_all effect_check (db_effects db) \<and> effect_unique (db_effects db) \<and>
     list_all checkpoint_check (db_checkpoints db) \<and> checkpoint_unique (db_checkpoints db)"

end
