(* ===== verification/StoreCodecs.thy ===== *)
theory StoreCodecs
  imports StoreRows
begin

text \<open>
  Reading rows back: \<open>persistence/kernel-store-codecs.ts\<close>.  The source casts the parsed text of a JSON
  column to its declared type without a check; here a text of another shape is an error of its own, since
  the typed model has no value for it.
\<close>

section \<open>JSON columns\<close>

definition parse_persisted :: "string \<Rightarrow> string \<Rightarrow> json result" where
  "parse_persisted t name =
     (case json_parse t of
        None \<Rightarrow> throwM (''persisted '' @ name @ '' is not valid JSON'')
      | Some v \<Rightarrow> Inr v)"

text \<open>\<open>JSON.parse(null)\<close> reads the text \<open>null\<close>.\<close>

definition parse_nullable :: "string option \<Rightarrow> string \<Rightarrow> json result" where
  "parse_nullable column name = (case column of None \<Rightarrow> Inr JNull | Some t \<Rightarrow> parse_persisted t name)"

definition ill_typed :: "string \<Rightarrow> 'a result" where
  "ill_typed name = throwM (''persisted '' @ name @ '' is of another type'')"

definition cast :: "string \<Rightarrow> 'a option \<Rightarrow> 'a result" where
  "cast name v = (case v of None \<Rightarrow> ill_typed name | Some x \<Rightarrow> Inr x)"

fun as_str :: "json \<Rightarrow> string option" where
  "as_str (JStr s) = Some s"
| "as_str _ = None"

fun as_int :: "json \<Rightarrow> int option" where
  "as_int (JNum (JInt i)) = Some i"
| "as_int _ = None"

fun as_list :: "(json \<Rightarrow> 'a option) \<Rightarrow> json \<Rightarrow> 'a list option" where
  "as_list f (JArr vs) = (if list_all (\<lambda>v. f v \<noteq> None) vs then Some (map (the \<circ> f) vs) else None)"
| "as_list f _ = None"

fun as_dict :: "(json \<Rightarrow> 'a option) \<Rightarrow> json \<Rightarrow> 'a dict option" where
  "as_dict f (JObj es) =
     (if list_all (\<lambda>(_, v). f v \<noteq> None) es then Some (map (\<lambda>(k, v). (k, the (f v))) es) else None)"
| "as_dict f _ = None"

definition field :: "json \<Rightarrow> string \<Rightarrow> (json \<Rightarrow> 'a option) \<Rightarrow> 'a option" where
  "field v k f = Option.bind (jfield v k) f"

definition as_scope :: "json \<Rightarrow> attempt_scope option" where
  "as_scope v =
     Option.bind (field v ''kind'' as_str) (\<lambda>kind.
     Option.bind (field v ''stage_id'' as_str) (\<lambda>stage.
     if kind = ''stage'' then Some (StageScope stage)
     else Option.bind (field v ''parent_attempt_id'' as_str) (\<lambda>parent.
       if kind = ''loop_item'' then
         Option.bind (field v ''loop_id'' as_str) (\<lambda>g. Option.bind (field v ''item_id'' as_str) (\<lambda>i.
         Option.bind (field v ''item_index'' as_int) (\<lambda>n. Some (LoopItemScope stage parent g i n))))
       else if kind = ''fanout_member'' then
         Option.bind (field v ''fanout_id'' as_str) (\<lambda>g. Option.bind (field v ''member_id'' as_str) (\<lambda>i.
         Option.bind (field v ''member_index'' as_int) (\<lambda>n. Some (FanoutMemberScope stage parent g i n))))
       else None)))"

definition as_member :: "json \<Rightarrow> frontier_member option" where
  "as_member v =
     Option.bind (field v ''scope_key'' as_str) (\<lambda>key.
     Option.bind (field v ''attempt_id'' as_str) (\<lambda>attempt.
     Option.bind (field v ''scope'' as_scope) (\<lambda>scope.
     Option.bind (field v ''depends_on'' (as_list as_str)) (\<lambda>deps.
     Some \<lparr>fm_scope_key = key, fm_attempt_id = attempt, fm_scope = scope, fm_depends_on = deps\<rparr>))))"

definition as_barrier :: "json \<Rightarrow> string list option" where
  "as_barrier v =
     (if jfield v ''kind'' = Some (JStr ''all'') then field v ''member_scope_keys'' (as_list as_str) else None)"

section \<open>Pending diagnostics\<close>

definition PENDING_RESULT_DIAGNOSTICS_SCHEMA :: string where
  "PENDING_RESULT_DIAGNOSTICS_SCHEMA = ''openthrottle.pending-result-diagnostics/v1''"

text \<open>\<open>Object.keys(value).sort().join("\0")\<close>\<close>

definition joined_keys :: "json dict \<Rightarrow> string" where
  "joined_keys es = (case sort (keys es) of [] \<Rightarrow> [] | k # ks \<Rightarrow> k @ concat (map (\<lambda>x. CHR 0x00 # x) ks))"

definition pending_diagnostic :: "json \<Rightarrow> nat \<Rightarrow> result_diagnostic result" where
  "pending_diagnostic entry i =
     (case entry of
        JObj item \<Rightarrow>
          (case (map_of item ''path'', map_of item ''detail'') of
             (Some (JStr path), Some (JStr detail)) \<Rightarrow>
               if joined_keys item = ''detail'' @ CHR 0x00 # ''path''
                 then Inr \<lparr>di_path = path, di_detail = detail\<rparr>
               else throwM (''pending result diagnostic '' @ string_of_nat i @ '' is invalid'')
           | _ \<Rightarrow> throwM (''pending result diagnostic '' @ string_of_nat i @ '' is invalid''))
      | _ \<Rightarrow> throwM (''pending result diagnostic '' @ string_of_nat i @ '' is invalid''))"

definition parsePendingResultDiagnostics ::
  "json \<Rightarrow> (result_diagnostic list \<times> blob_pointer option) result" where
  "parsePendingResultDiagnostics value =
     (case value of
        JArr entries \<Rightarrow>
          bindE (mapiE (\<lambda>i entry. pending_diagnostic entry i) 0 entries) (\<lambda>diagnostics. Inr (diagnostics, None))
      | JObj envelope \<Rightarrow>
          (if joined_keys envelope \<noteq> ''diagnostics'' @ CHR 0x00 # ''invalid_result_evidence'' @ CHR 0x00 # ''schema'' \<or>
              map_of envelope ''schema'' \<noteq> Some (JStr PENDING_RESULT_DIAGNOSTICS_SCHEMA)
             then throwM ''pending result diagnostics envelope is invalid''
           else
             (case map_of envelope ''diagnostics'' of
                Some (JArr entries) \<Rightarrow>
                  bindE (mapiE (\<lambda>i entry. pending_diagnostic entry i) 0 entries) (\<lambda>diagnostics.
                  bindE (case map_of envelope ''invalid_result_evidence'' of
                      None \<Rightarrow> fail ''pending_result.invalid_result_evidence'' MustBeObject
                    | Some v \<Rightarrow> parseBlobPointer v ''pending_result.invalid_result_evidence'') (\<lambda>blob.
                  Inr (diagnostics, Some blob)))
              | _ \<Rightarrow> throwM ''pending result diagnostics are not an array''))
      | _ \<Rightarrow> throwM ''pending result diagnostics are invalid'')"

definition json_of_diagnostics :: "result_diagnostic list \<Rightarrow> json" where
  "json_of_diagnostics ds = JArr (map (\<lambda>d. JObj [(''path'', JStr (di_path d)), (''detail'', JStr (di_detail d))]) ds)"

definition pending_envelope :: "result_diagnostic list \<Rightarrow> blob_pointer \<Rightarrow> json" where
  "pending_envelope ds blob = JObj
     [(''schema'', JStr PENDING_RESULT_DIAGNOSTICS_SCHEMA), (''diagnostics'', json_of_diagnostics ds),
      (''invalid_result_evidence'', json_of_blob blob)]"

definition serializePendingResultDiagnostics :: "result_pending_state \<Rightarrow> string" where
  "serializePendingResultDiagnostics pending =
     (case pe_invalid_result_evidence pending of
        None \<Rightarrow> canonicalJson (json_of_diagnostics (pe_diagnostics pending))
      | Some blob \<Rightarrow> canonicalJson (pending_envelope (pe_diagnostics pending) blob))"

section \<open>Payload columns\<close>

definition payloadPointer :: "payload_columns \<Rightarrow> blob_pointer option result" where
  "payloadPointer row =
     (case pc_digest row of
        None \<Rightarrow> Inr None
      | Some digest \<Rightarrow>
          (case (pc_bytes row, pc_encoding row, pc_media_type row, pc_payload_schema row) of
             (Some bytes, Some encoding, Some media, Some schema) \<Rightarrow>
               if pc_algorithm row \<noteq> Some ''sha256'' then throwM ''persisted blob pointer is incomplete''
               else Inr (Some \<lparr>bp_digest = digest, bp_bytes = bytes, bp_encoding = encoding,
                 bp_media_type = media, bp_payload_schema = schema\<rparr>)
           | _ \<Rightarrow> throwM ''persisted blob pointer is incomplete''))"

definition recordPayload :: "payload_columns \<Rightarrow> record_payload result" where
  "recordPayload row =
     bindE (payloadPointer row) (\<lambda>pointer.
     case pointer of
       Some blob \<Rightarrow> Inr (Blob blob)
     | None \<Rightarrow>
         (case pc_inline row of
            None \<Rightarrow> throwM ''persisted inline payload is missing''
          | Some t \<Rightarrow> bindE (parse_persisted t ''inline payload'') (\<lambda>v. Inr (Inline v))))"

text \<open>The key of a decision that the schema keeps unique in its run.\<close>

definition semanticKey :: "execution_record \<Rightarrow> string option" where
  "semanticKey r =
     (case r of
        DecisionRec d \<Rightarrow>
          (case rb_payload d of
             Inline (JObj payload) \<Rightarrow>
               (case map_of payload ''semantic_key'' of
                  Some (JStr candidate) \<Rightarrow>
                    if candidate \<noteq> [] \<and> length candidate \<le> 500 then Some candidate else None
                | _ \<Rightarrow> None)
           | _ \<Rightarrow> None)
      | _ \<Rightarrow> None)"

section \<open>Attempts\<close>

fun scope_kind_of :: "attempt_scope \<Rightarrow> scope_kind" where
  "scope_kind_of (StageScope _) = StageKind"
| "scope_kind_of (LoopItemScope _ _ _ _ _) = LoopItemKind"
| "scope_kind_of (FanoutMemberScope _ _ _ _ _) = FanoutMemberKind"

fun scope_kind_name :: "scope_kind \<Rightarrow> string" where
  "scope_kind_name StageKind = ''stage''"
| "scope_kind_name LoopItemKind = ''loop_item''"
| "scope_kind_name FanoutMemberKind = ''fanout_member''"

definition scopeFromRow :: "attempt_row \<Rightarrow> attempt_scope result" where
  "scopeFromRow row =
     (if aw_scope_kind row = StageKind then Inr (StageScope (aw_stage_id row))
      else
        (case (aw_parent row, aw_scope_group row, aw_scope_item row, aw_scope_index row) of
           (Some parent, Some g, Some item, Some i) \<Rightarrow>
             Inr (if aw_scope_kind row = LoopItemKind then LoopItemScope (aw_stage_id row) parent g item i
                  else FanoutMemberScope (aw_stage_id row) parent g item i)
         | _ \<Rightarrow> throwM (''persisted '' @ scope_kind_name (aw_scope_kind row) @ '' scope is incomplete'')))"

fun scopeColumns :: "attempt_scope \<Rightarrow> string option \<times> string option \<times> string option \<times> int option" where
  "scopeColumns (StageScope _) = (None, None, None, None)"
| "scopeColumns (LoopItemScope _ p g i n) = (Some p, Some g, Some i, Some n)"
| "scopeColumns (FanoutMemberScope _ p g i n) = (Some p, Some g, Some i, Some n)"

definition leaseFromRow :: "attempt_row \<Rightarrow> attempt_lease option result" where
  "leaseFromRow row =
     (case aw_lease_id row of
        None \<Rightarrow> Inr None
      | Some i \<Rightarrow>
          (case aw_lease_generation row of
             None \<Rightarrow> throwM ''persisted attempt lease generation is invalid''
           | Some g \<Rightarrow>
               if \<not> isSafeInteger g \<or> g < 0 then throwM ''persisted attempt lease generation is invalid''
               else
                 bindE (cast ''lease worker'' (aw_lease_worker row)) (\<lambda>worker.
                 bindE (cast ''lease purpose'' (aw_lease_purpose row)) (\<lambda>purpose.
                 bindE (cast ''lease expiry'' (aw_lease_expires row)) (\<lambda>expires.
                 Inr (Some \<lparr>le_id = i, le_generation = g, le_worker_id = worker, le_purpose = purpose,
                   le_expires_at = expires, le_started = (aw_lease_started row = Some 1)\<rparr>))))))"

definition contextIdsFromRow :: "string \<Rightarrow> string \<Rightarrow> (string list) result" where
  "contextIdsFromRow t name =
     bindE (parse_persisted t name) (\<lambda>v.
     bindE (cast name (as_list as_str v)) canonicalAttemptContextIds)"

definition pendingFromRow :: "attempt_row \<Rightarrow> result_pending_state option result" where
  "pendingFromRow row =
     (if aw_status row = ResultPending then
        bindE (parse_nullable (aw_diagnostics row) ''result diagnostics'') (\<lambda>v.
        bindE (parsePendingResultDiagnostics v) (\<lambda>(diagnostics, evidence).
        Inr (Some \<lparr>pe_candidate_hash = aw_candidate_hash row, pe_diagnostics = diagnostics,
          pe_invalid_result_evidence = evidence\<rparr>)))
      else Inr None)"

definition attemptFromRow :: "attempt_row \<Rightarrow> kernel_attempt result" where
  "attemptFromRow row =
     bindE (leaseFromRow row) (\<lambda>lease.
     bindE (scopeFromRow row) (\<lambda>scope.
     bindE (contextIdsFromRow (aw_context_records row) ''attempt context record IDs'') (\<lambda>records.
     bindE (contextIdsFromRow (aw_context_checkpoints row) ''attempt context checkpoint IDs'') (\<lambda>checkpoints.
     bindE (pendingFromRow row) (\<lambda>pending.
     Inr \<lparr>ka_id = aw_id row, ka_pipeline_run_id = aw_run row, ka_scope = scope,
       ka_repository_authority = aw_authority row, ka_request_hash = aw_request_hash row,
       ka_definition_bundle_hash = aw_bundle_hash row, ka_input_subject = aw_input_subject row,
       ka_context_record_ids = records, ka_context_checkpoint_ids = checkpoints,
       ka_output_subject = aw_output_subject row, ka_native_session_id = aw_session row,
       ka_status = aw_status row, ka_version = aw_version row,
       ka_work_retry_ordinal = aw_retry_ordinal row,
       ka_result_correction_count = aw_correction_count row,
       ka_result_correction_deadline = aw_correction_deadline row, ka_lease = lease,
       ka_checkpoint_id = aw_checkpoint_id row, ka_result_record_id = aw_result_id row,
       ka_decision_record_id = aw_decision_id row, ka_pending_result = pending\<rparr>)))))"

section \<open>Records and checkpoints\<close>

text \<open>The object that \<open>recordFromRow\<close> hands to the validator; a \<open>NULL\<close> column becomes \<open>null\<close>.\<close>

definition record_candidate :: "record_row \<Rightarrow> record_payload \<Rightarrow> json \<Rightarrow> json" where
  "record_candidate row payload inputs = JObj
     ([(''schema'', JStr EXECUTION_RECORD_SCHEMA), (''id'', JStr (cw_id row)),
       (''pipeline_run_id'', JStr (cw_run row)), (''payload_schema'', JStr (cw_payload_schema row)),
       (''payload'', json_of_payload payload), (''created_at'', JStr (cw_created_at row)),
       (''kind'', JStr (kind_name (cw_kind row)))] @
      (case cw_kind row of
         ResultKind \<Rightarrow>
           [(''attempt_id'', json_opt (cw_attempt_id row)), (''request_hash'', json_opt (cw_request_hash row)),
            (''definition_bundle_hash'', json_opt (cw_bundle_hash row)),
            (''input_subject'', json_opt (cw_input_subject row)), (''output_subject'', json_opt (cw_output_subject row)),
            (''original_candidate_hash'', json_opt (cw_original_hash row)),
            (''normalized_candidate_hash'', json_opt (cw_normalized_hash row))]
       | DecisionKind \<Rightarrow>
           [(''reducer'', json_opt (cw_reducer row)), (''input_record_ids'', inputs)]
       | DeliveryKind \<Rightarrow>
           [(''effect_id'', json_opt (cw_effect_id row)), (''idempotency_key'', json_opt (cw_key row)),
            (''external_identity'', json_opt (cw_external row)),
            (''status'', json_opt (map_option status_name (cw_delivery_status row)))]))"

definition recordFromRow :: "payload_registry \<Rightarrow> record_row \<Rightarrow> execution_record result" where
  "recordFromRow registry row =
     bindE (recordPayload (cw_payload row)) (\<lambda>payload.
     bindE (if cw_kind row = DecisionKind then parse_nullable (cw_input_ids row) ''DecisionRecord inputs''
            else Inr JNull) (\<lambda>inputs.
     validateExecutionRecord registry (record_candidate row payload inputs) ''record''))"

definition checkpointFromRow :: "checkpoint_row \<Rightarrow> attempt_checkpoint result" where
  "checkpointFromRow row =
     bindE (recordPayload (kw_payload row)) (\<lambda>payload.
     validateAttemptCheckpoint (JObj
       [(''schema'', JStr ATTEMPT_CHECKPOINT_SCHEMA), (''id'', JStr (kw_id row)),
        (''pipeline_run_id'', JStr (kw_run row)), (''attempt_id'', JStr (kw_attempt_id row)),
        (''request_hash'', JStr (kw_request_hash row)), (''definition_bundle_hash'', JStr (kw_bundle_hash row)),
        (''input_subject'', JStr (kw_input_subject row)), (''output_subject'', json_opt (kw_output_subject row)),
        (''native_session_id'', json_opt (kw_session row)),
        (''payload_schema'', JStr (kw_payload_schema row)), (''payload'', json_of_payload payload),
        (''captured_at'', JStr (kw_captured_at row))]) ''attempt_checkpoint'')"

end
