(* ===== verification/AttemptEvidence.thy ===== *)
theory AttemptEvidence
  imports KernelJson
begin

text \<open>
  Evidence records and effect intents of the kernel:
  \<open>supervisor/src/pipeline/kernel/attempt-evidence.ts\<close> and
  \<open>supervisor/src/pipeline/kernel/effect-intent.ts\<close>.
\<close>

abbreviation (input) throwE :: "evidence_error \<Rightarrow> 'a result" where
  "throwE e \<equiv> Inl (EvidenceError e)"

section \<open>Evidence records\<close>

definition ATTEMPT_FORENSICS_REDUCER :: string where
  "ATTEMPT_FORENSICS_REDUCER = ''core/attempt-forensics@1''"

definition INVALID_RESULT_EVIDENCE_REDUCER :: string where
  "INVALID_RESULT_EVIDENCE_REDUCER = ''core/invalid-result-evidence@1''"

definition ATTEMPT_FORENSICS_PAYLOAD_SCHEMA :: string where
  "ATTEMPT_FORENSICS_PAYLOAD_SCHEMA = ''openthrottle.attempt-forensics/v1''"

definition INVALID_RESULT_EVIDENCE_PAYLOAD_SCHEMA :: string where
  "INVALID_RESULT_EVIDENCE_PAYLOAD_SCHEMA = ''openthrottle.invalid-result-evidence/v1''"

definition decision_id_of :: "json \<Rightarrow> string" where
  "decision_id_of identity = ''decision-'' @ take 48 (digestCanonicalJson identity)"

definition attemptForensicsRecordId :: "kernel_attempt \<Rightarrow> int \<Rightarrow> string" where
  "attemptForensicsRecordId attempt workRetryOrdinal = decision_id_of (JObj
     [(''reducer'', JStr ATTEMPT_FORENSICS_REDUCER),
      (''pipeline_run_id'', JStr (ka_pipeline_run_id attempt)), (''attempt_id'', JStr (ka_id attempt)),
      (''request_hash'', JStr (ka_request_hash attempt)),
      (''definition_bundle_hash'', JStr (ka_definition_bundle_hash attempt)),
      (''work_retry_ordinal'', json_int workRetryOrdinal)])"

definition invalidResultEvidenceRecordId :: "string \<Rightarrow> blob_pointer \<Rightarrow> string" where
  "invalidResultEvidenceRecordId attemptId pointer = decision_id_of (JObj
     [(''reducer'', JStr INVALID_RESULT_EVIDENCE_REDUCER), (''attempt_id'', JStr attemptId),
      (''blob_digest'', JStr (bp_digest pointer))])"

definition evidenceRecord ::
  "string \<Rightarrow> kernel_attempt \<Rightarrow> string \<Rightarrow> blob_pointer \<Rightarrow> string \<Rightarrow> decision_record" where
  "evidenceRecord ident attempt reducer pointer created_at =
     \<lparr>rb_id = ident, rb_pipeline_run_id = ka_pipeline_run_id attempt,
      rb_payload_schema = bp_payload_schema pointer, rb_payload = Blob pointer,
      rb_created_at = created_at, dr_reducer = reducer, dr_input_record_ids = []\<rparr>"

definition createAttemptForensicsRecord ::
  "kernel_attempt \<Rightarrow> blob_pointer \<Rightarrow> string \<Rightarrow> decision_record result" where
  "createAttemptForensicsRecord attempt blob observed_at =
     (if bp_payload_schema blob \<noteq> ATTEMPT_FORENSICS_PAYLOAD_SCHEMA then throwE ForensicsOtherSchema
      else Inr (evidenceRecord (attemptForensicsRecordId attempt (ka_work_retry_ordinal attempt))
                  attempt ATTEMPT_FORENSICS_REDUCER blob observed_at))"

definition createInvalidResultEvidenceRecord ::
  "kernel_attempt \<Rightarrow> blob_pointer \<Rightarrow> string \<Rightarrow> decision_record result" where
  "createInvalidResultEvidenceRecord attempt pointer created_at =
     (if bp_payload_schema pointer \<noteq> INVALID_RESULT_EVIDENCE_PAYLOAD_SCHEMA
        then throwE InvalidResultOtherSchema
      else Inr (evidenceRecord (invalidResultEvidenceRecordId (ka_id attempt) pointer)
                  attempt INVALID_RESULT_EVIDENCE_REDUCER pointer created_at))"

definition assertExactInvalidResultEvidenceRecord ::
  "kernel_attempt \<Rightarrow> blob_pointer \<Rightarrow> decision_record \<Rightarrow> unit result" where
  "assertExactInvalidResultEvidenceRecord attempt pointer rec =
     bindE (createInvalidResultEvidenceRecord attempt pointer (rb_created_at rec)) (\<lambda>expected.
     if canonicalJson (json_of_decision rec) \<noteq> canonicalJson (json_of_decision expected)
       then throwE InvalidResultEvidenceMismatch
     else Inr ())"

section \<open>Effect intents\<close>

datatype effect_observation =
    ObservedDelivery string execution_record
  | ObservedAbsence string
  | UnknownObservation string string

fun observation_identity :: "effect_observation \<Rightarrow> string" where
  "observation_identity (ObservedDelivery i _) = i"
| "observation_identity (ObservedAbsence i) = i"
| "observation_identity (UnknownObservation i _) = i"

datatype effect_reconciliation =
    AppendDelivery delivery_record
  | Execute effect_intent
  | HoldUnknown string string string string
      \<comment> \<open>\<open>effect_id\<close>, \<open>external_identity\<close>, \<open>detail\<close>, \<open>retry_at\<close>\<close>

definition authorizeEffectIntent ::
  "effect_intent \<Rightarrow> decision_record \<Rightarrow> string \<Rightarrow> effect_intent result" where
  "authorizeEffectIntent intent decision pipelineRunId =
     bindE (validateEffectIntent (json_of_effect intent) ''effect_intent'') (\<lambda>validated.
     if rb_pipeline_run_id decision \<noteq> pipelineRunId then throwE EffectDecisionOfOtherRun
     else if ei_pipeline_run_id validated \<noteq> pipelineRunId then throwE EffectOfOtherRun
     else if ei_decision_record_id validated \<noteq> rb_id decision then throwE EffectNotOwned
     else Inr validated)"

definition effectIntentContentHash :: "effect_intent \<Rightarrow> string result" where
  "effectIntentContentHash intent =
     bindE (validateEffectIntent (json_of_effect intent) ''effect_intent'') (\<lambda>v.
     Inr (digestCanonicalJson (json_of_effect v)))"

definition assertImmutableEffectReplay :: "effect_intent \<Rightarrow> effect_intent \<Rightarrow> unit result" where
  "assertImmutableEffectReplay existing replay =
     bindE (validateEffectIntent (json_of_effect existing) ''existing_effect_intent'') (\<lambda>e.
     bindE (validateEffectIntent (json_of_effect replay) ''replay_effect_intent'') (\<lambda>r.
     assertSameIdempotentEffect (normalizedEffect e) (normalizedEffect r)
       ''effect_intent.idempotency_key''))"

definition reconcileEffectIntent ::
  "effect_intent \<Rightarrow> effect_observation \<Rightarrow> string option \<Rightarrow> effect_reconciliation result" where
  "reconcileEffectIntent input_intent observation retry =
     bindE (validateEffectIntent (json_of_effect input_intent) ''effect_reconciliation.intent'') (\<lambda>intent.
     if observation_identity observation \<noteq> ei_target intent then throwE ObservationOtherIdentity
     else case observation of
       UnknownObservation identity detail \<Rightarrow>
         (case retry of
            None \<Rightarrow> throwE UnknownNeedsRetryAt
          | Some at \<Rightarrow> Inr (HoldUnknown (ei_id intent) identity detail at))
     | ObservedAbsence _ \<Rightarrow> Inr (Execute intent)
     | ObservedDelivery _ rec \<Rightarrow>
         (case rec of
            DeliveryRec delivery \<Rightarrow>
              (if rb_pipeline_run_id delivery \<noteq> ei_pipeline_run_id intent then throwE DeliveryOfOtherRun
               else if dl_effect_id delivery \<noteq> ei_id intent then throwE DeliveryOfOtherEffect
               else if dl_idempotency_key delivery \<noteq> ei_idempotency_key intent then throwE DeliveryOtherKey
               else if dl_external_identity delivery \<noteq> ei_target intent then throwE DeliveryOtherIdentity
               else Inr (AppendDelivery delivery))
          | _ \<Rightarrow> throwE ObservationNotDelivery))"

end
