(* ===== verification/EffectLeases.thy ===== *)
theory EffectLeases
  imports StoreCodecs AttemptEvidence
begin

text \<open>
  Leases on effects: the effect half of \<open>persistence/kernel-store-leases.ts\<close>.  A worker leases the next
  effect, marks that it is about to dispatch it, and completes it with a delivery or with an unknown
  outcome; an expired lease is recovered.  The operations of the store that the class receives in its
  constructor are arguments of the definitions.
\<close>

section \<open>The host\<close>

record lease_host =
  lh_advance :: "string \<Rightarrow> string \<Rightarrow> json \<Rightarrow> database \<Rightarrow> (kernel_run \<times> database) result"
    \<comment> \<open>\<open>advance_run_fence\<close>: the run, the transition, its content\<close>
  lh_insert :: "execution_record \<Rightarrow> database \<Rightarrow> database result"
    \<comment> \<open>\<open>insert_record\<close>\<close>
  lh_read :: "string \<Rightarrow> string \<Rightarrow> blob_pointer \<Rightarrow> string result"
    \<comment> \<open>\<open>read_effect_blob\<close>: the run, the effect, the pointer; the bytes as text\<close>
  lh_attempt :: "string \<Rightarrow> string \<Rightarrow> database \<Rightarrow> kernel_attempt result"
    \<comment> \<open>\<open>attempt_by_id\<close>\<close>

definition EXPIRED_EFFECT_RECOVERY_BATCH_SIZE :: nat where
  "EXPIRED_EFFECT_RECOVERY_BATCH_SIZE = 100"

record leased_effect =
  lf_intent :: effect_intent
  lf_lease_id :: string
  lf_expires_at :: string
  lf_mode :: execution_mode
  lf_ordinal :: int
  lf_prior_detail :: "string option"
  lf_dispatch_fence :: "(string \<times> string) option"

record effect_lease_request =
  er_worker_id :: string
  er_lease_id :: string
  er_expires_at :: string

section \<open>Timestamps\<close>

text \<open>
  \<open>Date.parse(t)\<close> for a text that \<open>toISOString\<close> gives back unchanged, in milliseconds; \<open>None\<close> for any
  other text.  Years outside 0 to 9999 have a sign and six digits.
\<close>

definition take_year :: "string \<Rightarrow> (int \<times> string) option" where
  "take_year t =
     (case t of
        [] \<Rightarrow> None
      | c # cs \<Rightarrow>
          if c = CHR ''+'' then
            Option.bind (take_digits 6 cs) (\<lambda>(y, r). if y > 9999 then Some (int y, r) else None)
          else if c = CHR ''-'' then
            Option.bind (take_digits 6 cs) (\<lambda>(y, r). if y > 0 then Some (- int y, r) else None)
          else map_option (\<lambda>(y, r). (int y, r)) (take_digits 4 t))"

text \<open>Days from 1970-01-01, in the proleptic Gregorian calendar.\<close>

definition days_before_year :: "int \<Rightarrow> int" where
  "days_before_year y =
     365 * (y - 1970) + ((y - 1) div 4 - (y - 1) div 100 + (y - 1) div 400) - 477"

definition epoch_ms :: "int \<Rightarrow> nat \<Rightarrow> nat \<Rightarrow> nat \<Rightarrow> nat \<Rightarrow> nat \<Rightarrow> nat \<Rightarrow> int" where
  "epoch_ms y month day hour minute second ms =
     (let days = days_before_year y +
            int (sum_list (take (month - 1) (daysInMonth (nat (y mod 400))))) + int day - 1 in
      (((days * 24 + int hour) * 60 + int minute) * 60 + int second) * 1000 + int ms)"

definition canonical_ms :: "string \<Rightarrow> int option" where
  "canonical_ms t =
     Option.bind (take_year t) (\<lambda>(year, s1).
     Option.bind (take_lit CHR ''-'' s1) (\<lambda>s2.
     Option.bind (take_digits 2 s2) (\<lambda>(month, s3).
     Option.bind (take_lit CHR ''-'' s3) (\<lambda>s4.
     Option.bind (take_digits 2 s4) (\<lambda>(day, s5).
     Option.bind (take_lit CHR ''T'' s5) (\<lambda>s6.
     Option.bind (take_digits 2 s6) (\<lambda>(hour, s7).
     Option.bind (take_lit CHR '':'' s7) (\<lambda>s8.
     Option.bind (take_digits 2 s8) (\<lambda>(minute, s9).
     Option.bind (take_lit CHR '':'' s9) (\<lambda>s10.
     Option.bind (take_digits 2 s10) (\<lambda>(second, s11).
     Option.bind (take_lit CHR ''.'' s11) (\<lambda>s12.
     Option.bind (take_digits 3 s12) (\<lambda>(ms, s13).
     Option.bind (take_lit CHR ''Z'' s13) (\<lambda>s14.
     let time = epoch_ms year month day hour minute second ms in
     if s14 \<noteq> [] \<or> month < 1 \<or> month > 12 \<or> day < 1 \<or>
        day > daysInMonth (nat (year mod 400)) ! (month - 1) \<or> hour > 23 \<or> minute > 59 \<or> second > 59 \<or>
        \<bar>time\<bar> > 8640000000000000 then None
     else Some time))))))))))))))"

section \<open>Reading an effect\<close>

definition effectIntentFromRow :: "lease_host \<Rightarrow> effect_row \<Rightarrow> effect_intent result" where
  "effectIntentFromRow host row =
     bindE (payloadPointer (ew_payload row)) (\<lambda>pointer.
     bindE (case pointer of
         Some blob \<Rightarrow>
           bindE (lh_read host (ew_run row) (ew_id row) blob) (\<lambda>t.
           if bp_encoding blob \<noteq> Utf8 then throwM (''effect '' @ ew_id row @ '' payload is not JSON text'')
           else parse_persisted t (''effect '' @ ew_id row @ '' payload''))
       | None \<Rightarrow> parse_nullable (pc_inline (ew_payload row)) (''effect '' @ ew_id row @ '' payload'')) (\<lambda>payload.
     validateEffectIntent (JObj
       [(''schema'', JStr EFFECT_INTENT_SCHEMA), (''id'', JStr (ew_id row)),
        (''pipeline_run_id'', JStr (ew_run row)), (''decision_record_id'', JStr (ew_decision_id row)),
        (''kind'', JStr (ew_kind row)), (''idempotency_key'', JStr (ew_key row)),
        (''target'', JStr (ew_target row)), (''subject'', json_opt (ew_subject row)),
        (''payload'', payload)]) ''effect_intent''))"

definition dispatch_fence :: "effect_row \<Rightarrow> (string \<times> string) option result" where
  "dispatch_fence row =
     (case ew_dispatch_lease row of
        None \<Rightarrow> Inr None
      | Some l \<Rightarrow> bindE (cast ''dispatch worker'' (ew_dispatch_worker row)) (\<lambda>w. Inr (Some (l, w))))"

text \<open>The columns that end a lease.\<close>

definition unleased :: "effect_row \<Rightarrow> effect_row" where
  "unleased e = e\<lparr>ew_lease_id := None, ew_lease_worker := None, ew_lease_expires := None, ew_mode := None,
     ew_last_error := None\<rparr>"

section \<open>Expired leases\<close>

definition expired_lease :: "string \<Rightarrow> effect_row \<Rightarrow> bool" where
  "expired_lease now e \<longleftrightarrow> pred_option (\<lambda>t. t \<le> now) (ew_lease_expires e) \<and> ew_lease_expires e \<noteq> None"

definition DISPATCH_MAY_HAVE_STARTED :: string where
  "DISPATCH_MAY_HAVE_STARTED = ''provider dispatch may have started before the effect lease expired''"

definition recovered_effect :: "string \<Rightarrow> string option \<Rightarrow> bool \<Rightarrow> effect_row \<Rightarrow> effect_row" where
  "recovered_effect now retainedPrior reconcileOnly e =
     (unleased e)\<lparr>
       ew_status := if retainedPrior \<noteq> None \<or> reconcileOnly then EffectUnknown else EffectPending,
       ew_unknown_detail := (case retainedPrior of
           Some detail \<Rightarrow> Some detail
         | None \<Rightarrow> if reconcileOnly then Some DISPATCH_MAY_HAVE_STARTED else None),
       ew_version := ew_version e + 1, ew_updated_at := now\<rparr>"

definition recoverExpiredEffect :: "lease_host \<Rightarrow> string \<Rightarrow> effect_row \<Rightarrow> database \<Rightarrow> database result" where
  "recoverExpiredEffect host now row db =
     (let reconcileOnly = ew_dispatch_lease row \<noteq> None;
          retainedPrior = (if ew_kind row = ''github/provider-wait@1'' \<or> reconcileOnly then ew_last_error row else None);
          recoveredUnknown = (retainedPrior \<noteq> None \<or> reconcileOnly);
          lease = (case ew_lease_id row of Some l \<Rightarrow> l | None \<Rightarrow> ''null'') in
      bindE (updateE effect_schema
          (\<lambda>e. ew_id e = ew_id row \<and> ew_version e = ew_version row \<and> ew_status e = EffectProcessing \<and>
             ew_lease_id e \<noteq> None \<and> ew_lease_id e = ew_lease_id row \<and> expired_lease now e)
          (recovered_effect now retainedPrior reconcileOnly)
          (db_effects db)) (\<lambda>(effects, changes).
      if changes \<noteq> 1 then throwM (''effect '' @ ew_id row @ '' expiry recovery compare-and-set failed'')
      else
        bindE (lh_advance host (ew_run row) (''effect-expired:'' @ lease)
            (JObj [(''effect_id'', JStr (ew_id row)),
               (''recovered_status'', JStr (if recoveredUnknown then ''unknown'' else ''pending''))])
            (db\<lparr>db_effects := effects\<rparr>)) (\<lambda>(_, db'). Inr db')))"

definition recoverExpiredEffectLeases :: "lease_host \<Rightarrow> string \<Rightarrow> database \<Rightarrow> database result" where
  "recoverExpiredEffectLeases host now db =
     foldE (recoverExpiredEffect host now)
       (take EXPIRED_EFFECT_RECOVERY_BATCH_SIZE
          (ordered_rows (\<lambda>e. (ew_run e, ew_id e))
             (\<lambda>e. ew_status e = EffectProcessing \<and> ew_lease_id e \<noteq> None \<and> expired_lease now e)
             (db_effects db))) db"

section \<open>Leasing\<close>

definition run_is_active :: "database \<Rightarrow> string \<Rightarrow> bool" where
  "run_is_active db run \<longleftrightarrow> list_ex (\<lambda>r. rw_id r = run \<and> active_run_status (rw_status r)) (db_runs db)"

definition effect_is_due :: "database \<Rightarrow> string \<Rightarrow> effect_row \<Rightarrow> bool" where
  "effect_is_due db now e \<longleftrightarrow>
     run_is_active db (ew_run e) \<and> ew_status e \<in> {EffectPending, EffectUnknown} \<and> ew_lease_id e = None \<and>
     ew_available_at e \<le> now"

definition leased_effect_row :: "string \<Rightarrow> effect_lease_request \<Rightarrow> execution_mode \<Rightarrow> effect_row \<Rightarrow> effect_row" where
  "leased_effect_row now request mode e =
     e\<lparr>ew_status := EffectProcessing, ew_lease_id := Some (er_lease_id request),
       ew_lease_worker := Some (er_worker_id request), ew_lease_expires := Some (er_expires_at request),
       ew_mode := Some mode, ew_last_error := ew_unknown_detail e, ew_unknown_detail := None,
       ew_attempt_count := ew_attempt_count e + 1, ew_version := ew_version e + 1, ew_updated_at := now\<rparr>"

definition replayed_effect ::
  "lease_host \<Rightarrow> effect_lease_request \<Rightarrow> effect_row \<Rightarrow> leased_effect result" where
  "replayed_effect host request row =
     (if ew_lease_worker row \<noteq> Some (er_worker_id request) \<or> ew_lease_expires row \<noteq> Some (er_expires_at request)
        then throwM (''effect lease '' @ er_lease_id request @ '' conflicts with its immutable replay'')
      else
        bindE (effectIntentFromRow host row) (\<lambda>intent.
        bindE (cast ''execution mode'' (ew_mode row)) (\<lambda>mode.
        bindE (dispatch_fence row) (\<lambda>fence.
        Inr \<lparr>lf_intent = intent, lf_lease_id = er_lease_id request, lf_expires_at = er_expires_at request,
          lf_mode = mode, lf_ordinal = ew_attempt_count row, lf_prior_detail = ew_last_error row,
          lf_dispatch_fence = fence\<rparr>))))"

definition leaseNextEffect_body ::
  "lease_host \<Rightarrow> string \<Rightarrow> effect_lease_request \<Rightarrow> database \<Rightarrow> (leased_effect option \<times> database) result" where
  "leaseNextEffect_body host now request db0 =
     bindE (recoverExpiredEffectLeases host now db0) (\<lambda>db.
     case first_row (\<lambda>e. ew_lease_id e = Some (er_lease_id request)) (db_effects db) of
       Some replay \<Rightarrow> bindE (replayed_effect host request replay) (\<lambda>view. Inr (Some view, db))
     | None \<Rightarrow>
         (case ordered_rows (\<lambda>e. (ew_available_at e, ew_id e)) (effect_is_due db now) (db_effects db) of
            [] \<Rightarrow> Inr (None, db)
          | row # _ \<Rightarrow>
              let mode = (if ew_dispatch_lease row \<noteq> None then ReconcileOnly else DispatchOrReconcile) in
              bindE (updateE effect_schema
                  (\<lambda>e. ew_id e = ew_id row \<and> ew_version e = ew_version row \<and> ew_lease_id e = None \<and>
                     ew_status e \<in> {EffectPending, EffectUnknown})
                  (leased_effect_row now request mode)
                  (db_effects db)) (\<lambda>(effects, changes).
              if changes \<noteq> 1 then throwM (''effect '' @ ew_id row @ '' lease compare-and-set failed'')
              else
                bindE (lh_advance host (ew_run row) (''effect-lease:'' @ er_lease_id request)
                    (JObj [(''effect_id'', JStr (ew_id row)), (''worker_id'', JStr (er_worker_id request)),
                       (''expires_at'', JStr (er_expires_at request))])
                    (db\<lparr>db_effects := effects\<rparr>)) (\<lambda>(_, db').
                bindE (effectIntentFromRow host row) (\<lambda>intent.
                bindE (dispatch_fence row) (\<lambda>fence.
                Inr (Some \<lparr>lf_intent = intent, lf_lease_id = er_lease_id request,
                    lf_expires_at = er_expires_at request, lf_mode = mode,
                    lf_ordinal = ew_attempt_count row + 1, lf_prior_detail = ew_unknown_detail row,
                    lf_dispatch_fence = fence\<rparr>, db')))))))"

definition leaseNextEffect ::
  "lease_host \<Rightarrow> string \<Rightarrow> effect_lease_request \<Rightarrow> database \<Rightarrow> (leased_effect option \<times> database) result" where
  "leaseNextEffect host now request = transaction foreign_keys (leaseNextEffect_body host now request)"

section \<open>Dispatching\<close>

definition leased_by :: "string \<Rightarrow> string \<Rightarrow> effect_row \<Rightarrow> bool" where
  "leased_by lease worker e \<longleftrightarrow>
     ew_status e = EffectProcessing \<and> ew_lease_id e = Some lease \<and> ew_lease_worker e = Some worker"

definition dispatched_row :: "string \<Rightarrow> string \<Rightarrow> string \<Rightarrow> effect_row \<Rightarrow> effect_row" where
  "dispatched_row now lease worker e =
     e\<lparr>ew_mode := Some ReconcileOnly, ew_dispatch_lease := Some lease, ew_dispatch_worker := Some worker,
       ew_version := ew_version e + 1, ew_updated_at := now\<rparr>"

definition markLeasedEffectDispatchStarted_body ::
  "lease_host \<Rightarrow> string \<Rightarrow> string \<Rightarrow> string \<Rightarrow> string \<Rightarrow> database \<Rightarrow> (leased_effect \<times> database) result" where
  "markLeasedEffectDispatchStarted_body host now effectId lease worker db =
     (case first_row (\<lambda>e. ew_id e = effectId) (db_effects db) of
        None \<Rightarrow> throwM ''effect lease fence does not match''
      | Some row \<Rightarrow>
          (case (ew_mode row, ew_lease_expires row) of
             (Some mode, Some expires) \<Rightarrow>
               if \<not> leased_by lease worker row then throwM ''effect lease fence does not match''
               else
                 bindE (if mode = DispatchOrReconcile then
                     bindE (updateE effect_schema
                         (\<lambda>e. ew_id e = ew_id row \<and> ew_version e = ew_version row \<and> leased_by lease worker e \<and>
                            ew_mode e = Some DispatchOrReconcile)
                         (dispatched_row now lease worker)
                         (db_effects db)) (\<lambda>(effects, changes).
                     if changes \<noteq> 1 then throwM ''effect dispatch-start compare-and-set failed''
                     else bindE (lh_advance host (ew_run row) (''effect-dispatch-started:'' @ lease)
                       (JObj [(''effect_id'', JStr effectId), (''lease_id'', JStr lease), (''worker_id'', JStr worker)])
                       (db\<lparr>db_effects := effects\<rparr>)) (\<lambda>(_, db'). Inr db'))
                   else Inr db) (\<lambda>db'.
                 bindE (effectIntentFromRow host row) (\<lambda>intent.
                 bindE (dispatch_fence row) (\<lambda>fence.
                 Inr (\<lparr>lf_intent = intent, lf_lease_id = lease, lf_expires_at = expires, lf_mode = ReconcileOnly,
                    lf_ordinal = ew_attempt_count row, lf_prior_detail = ew_last_error row,
                    lf_dispatch_fence = Some (case fence of None \<Rightarrow> (lease, worker) | Some f \<Rightarrow> f)\<rparr>, db'))))
           | _ \<Rightarrow> throwM ''effect lease fence does not match''))"

definition markLeasedEffectDispatchStarted ::
  "lease_host \<Rightarrow> string \<Rightarrow> string \<Rightarrow> string \<Rightarrow> string \<Rightarrow> database \<Rightarrow> (leased_effect \<times> database) result" where
  "markLeasedEffectDispatchStarted host now effectId lease worker =
     transaction foreign_keys (markLeasedEffectDispatchStarted_body host now effectId lease worker)"

section \<open>Completing\<close>

definition json_of_delivery :: "delivery_record \<Rightarrow> json" where
  "json_of_delivery d = json_of_record (DeliveryRec d)"

fun json_of_reconciliation :: "effect_reconciliation \<Rightarrow> json" where
  "json_of_reconciliation (AppendDelivery d) =
     JObj [(''kind'', JStr ''append_delivery''), (''delivery'', json_of_delivery d)]"
| "json_of_reconciliation (Execute intent) = JObj [(''kind'', JStr ''execute''), (''intent'', json_of_effect intent)]"
| "json_of_reconciliation (HoldUnknown effect identity detail retryAt) =
     JObj [(''kind'', JStr ''hold_unknown''), (''effect_id'', JStr effect), (''external_identity'', JStr identity),
       (''detail'', JStr detail), (''retry_at'', JStr retryAt)]"

definition held_row :: "string \<Rightarrow> string \<Rightarrow> string \<Rightarrow> effect_row \<Rightarrow> effect_row" where
  "held_row now detail retryAt e =
     (unleased e)\<lparr>ew_status := EffectUnknown, ew_unknown_detail := Some detail, ew_available_at := retryAt,
       ew_version := ew_version e + 1, ew_updated_at := now\<rparr>"

definition delivered_row :: "string \<Rightarrow> delivery_record \<Rightarrow> effect_row \<Rightarrow> effect_row" where
  "delivered_row now delivery e =
     (unleased e)\<lparr>ew_status := if dl_status delivery = Confirmed then EffectAcknowledged else EffectRejected,
       ew_delivery_id := Some (rb_id delivery), ew_unknown_detail := None,
       ew_version := ew_version e + 1, ew_updated_at := now\<rparr>"

definition completeLeasedEffect_body ::
  "lease_host \<Rightarrow> string \<Rightarrow> string \<Rightarrow> string \<Rightarrow> string \<Rightarrow> effect_reconciliation \<Rightarrow> database \<Rightarrow> (unit \<times> database) result" where
  "completeLeasedEffect_body host now effectId lease worker reconciliation db =
     (case first_row (\<lambda>e. ew_id e = effectId) (db_effects db) of
        None \<Rightarrow> throwM ''effect lease fence does not match''
      | Some row \<Rightarrow>
          if \<not> leased_by lease worker row then throwM ''effect lease fence does not match''
          else
            let own = (\<lambda>e. ew_id e = ew_id row \<and> ew_version e = ew_version row \<and> leased_by lease worker e) in
            bindE (case reconciliation of
                Execute _ \<Rightarrow> throwM ''an execute reconciliation is an instruction, not a completed effect''
              | HoldUnknown effect identity detail retryAt \<Rightarrow>
                  if effect \<noteq> ew_id row \<or> identity \<noteq> ew_target row
                    then throwM ''unknown effect reconciliation identity does not match''
                  else if \<not> (\<exists>t \<in> set_option (canonical_ms retryAt). \<forall>n \<in> set_option (canonical_ms now). n < t)
                    then throwM ''unknown effect reconciliation retry_at must be a future canonical timestamp''
                  else
                    bindE (updateE effect_schema own
                        (held_row now detail retryAt)
                        (db_effects db)) (\<lambda>(effects, changes).
                    if changes \<noteq> 1 then throwM ''effect unknown-outcome compare-and-set failed''
                    else Inr (db\<lparr>db_effects := effects\<rparr>))
              | AppendDelivery delivery \<Rightarrow>
                  if dl_effect_id delivery \<noteq> ew_id row \<or> rb_pipeline_run_id delivery \<noteq> ew_run row \<or>
                     dl_idempotency_key delivery \<noteq> ew_key row \<or> dl_external_identity delivery \<noteq> ew_target row
                    then throwM ''DeliveryRecord does not match its leased effect''
                  else
                    bindE (lh_insert host (DeliveryRec delivery) db) (\<lambda>db1.
                    bindE (updateE effect_schema own
                        (delivered_row now delivery)
                        (db_effects db1)) (\<lambda>(effects, changes).
                    if changes \<noteq> 1 then throwM ''effect completion compare-and-set failed''
                    else Inr (db1\<lparr>db_effects := effects\<rparr>)))) (\<lambda>db2.
            bindE (lh_advance host (ew_run row) (''effect-complete:'' @ lease)
              (json_of_reconciliation reconciliation) db2) (\<lambda>(_, db'). Inr ((), db'))))"

definition completeLeasedEffect ::
  "lease_host \<Rightarrow> string \<Rightarrow> string \<Rightarrow> string \<Rightarrow> string \<Rightarrow> effect_reconciliation \<Rightarrow> database \<Rightarrow> (unit \<times> database) result" where
  "completeLeasedEffect host now effectId lease worker reconciliation =
     transaction foreign_keys (completeLeasedEffect_body host now effectId lease worker reconciliation)"

end
