(* ===== verification/BlobStore.thy ===== *)
theory BlobStore
  imports KernelJson
begin

text \<open>
  Verified blobs: \<open>persistence/blob-store.ts\<close>.  The volume is a parameter: for each digest the
  object that its path holds, with the device and inode that identify the file.  Every read hashes the
  object; a verified token is a pointer with the identity of the object that was checked.
\<close>

record blob_object =
  bo_bytes :: "int list"
  bo_text :: string
    \<comment> \<open>the bytes decoded as UTF-8\<close>
  bo_identity :: "int \<times> int"

type_synonym volume = "string \<Rightarrow> blob_object option"

record blob_token =
  bt_pointer :: blob_pointer
  bt_identity :: "int \<times> int"

definition validateBlobPointer :: "blob_pointer \<Rightarrow> blob_pointer result" where
  "validateBlobPointer p = parseBlobPointer (json_of_blob p) ''blob_pointer''"

definition blob_integrity :: "string \<Rightarrow> string \<Rightarrow> 'a result" where
  "blob_integrity digest detail = Inl (BlobIntegrityError digest detail)"

definition verifyObject :: "volume \<Rightarrow> blob_pointer \<Rightarrow> blob_object result" where
  "verifyObject vol pointer =
     (case vol (bp_digest pointer) of
        None \<Rightarrow> blob_integrity (bp_digest pointer) ''object is missing''
      | Some obj \<Rightarrow>
          if int (length (bo_bytes obj)) \<noteq> bp_bytes pointer
            then blob_integrity (bp_digest pointer) ''size does not match''
          else if sha256 (bo_bytes obj) \<noteq> bp_digest pointer
            then blob_integrity (bp_digest pointer) ''sha256 digest mismatch''
          else Inr obj)"

definition blob_verify :: "volume \<Rightarrow> blob_pointer \<Rightarrow> blob_token result" where
  "blob_verify vol p =
     bindE (validateBlobPointer p) (\<lambda>pointer.
     bindE (verifyObject vol pointer) (\<lambda>obj.
     Inr \<lparr>bt_pointer = pointer, bt_identity = bo_identity obj\<rparr>))"

definition assertToken :: "volume \<Rightarrow> blob_token \<Rightarrow> blob_pointer option \<Rightarrow> blob_pointer result" where
  "assertToken vol held expected =
     bindE (validateBlobPointer (bt_pointer held)) (\<lambda>pointer.
     bindE (case expected of
         None \<Rightarrow> Inr ()
       | Some e \<Rightarrow> bindE (validateBlobPointer e) (\<lambda>e'.
           if canonicalJson (json_of_blob pointer) \<noteq> canonicalJson (json_of_blob e')
             then throwM ''verified blob token does not match the expected pointer'' else Inr ())) (\<lambda>_.
     bindE (verifyObject vol pointer) (\<lambda>current.
     if bo_identity current \<noteq> bt_identity held
       then blob_integrity (bp_digest pointer) ''verified object identity changed before pointer commit''
     else Inr pointer)))"

definition blob_read :: "volume \<Rightarrow> blob_pointer \<Rightarrow> blob_object result" where
  "blob_read vol p =
     bindE (blob_verify vol p) (\<lambda>held.
     case vol (bp_digest (bt_pointer held)) of
       None \<Rightarrow> throwM ''ENOENT''
     | Some obj \<Rightarrow>
         if int (length (bo_bytes obj)) \<noteq> bp_bytes (bt_pointer held) \<or>
            sha256 (bo_bytes obj) \<noteq> bp_digest (bt_pointer held)
           then blob_integrity (bp_digest (bt_pointer held)) ''object changed while it was read''
         else Inr obj)"

section \<open>Writing\<close>

text \<open>
  \<open>put\<close> publishes a text under its digest, unless an object is there already, and verifies what is there.
  The last argument identifies the file that a publication creates.
\<close>

definition blob_put ::
  "volume \<Rightarrow> string \<Rightarrow> string \<Rightarrow> string \<Rightarrow> string option \<Rightarrow> int \<times> int \<Rightarrow> (blob_token \<times> volume) result" where
  "blob_put vol content media_type payload_schema expected_digest identity =
     (let bytes = utf8 content; digest = sha256 bytes in
      if bytes = [] then throwM ''blob objects must not be empty''
      else
        bindE (case expected_digest of
            None \<Rightarrow> Inr ()
          | Some expected \<Rightarrow>
              if \<not> SHA256 expected then throwM ''invalid expected blob digest''
              else if expected \<noteq> digest then blob_integrity expected ''claimed digest does not match supplied bytes''
              else Inr ()) (\<lambda>_.
        bindE (validateBlobPointer \<lparr>bp_digest = digest, bp_bytes = int (length bytes), bp_encoding = Utf8,
            bp_media_type = media_type, bp_payload_schema = payload_schema\<rparr>) (\<lambda>pointer.
        let published = (if vol digest \<noteq> None then vol
              else vol(digest \<mapsto> \<lparr>bo_bytes = bytes, bo_text = content, bo_identity = identity\<rparr>)) in
        bindE (verifyObject published pointer) (\<lambda>obj.
        Inr (\<lparr>bt_pointer = pointer, bt_identity = bo_identity obj\<rparr>, published)))))"

lemma blob_read_verified:
  "blob_read vol p = Inr obj \<Longrightarrow> \<exists>q. validateBlobPointer p = Inr q \<and> vol (bp_digest q) = Some obj \<and>
     sha256 (bo_bytes obj) = bp_digest q \<and> int (length (bo_bytes obj)) = bp_bytes q"
  by (auto simp: blob_read_def blob_verify_def blob_integrity_def bindE_eq_Inr split: option.split_asm if_split_asm)

end
