(* ===== verification/EvidencePayloads.thy ===== *)
theory EvidencePayloads
  imports AttemptEvidence
begin

text \<open>
  The payloads of attempt evidence: \<open>contracts/src/attempt-evidence.ts\<close>.  The forensics of a failed
  run of work, the evidence of an invalid result, and the descriptor of the file that holds one.
\<close>

section \<open>Data\<close>

definition EVIDENCE_ARTIFACT_DESCRIPTOR_SCHEMA :: string where
  "EVIDENCE_ARTIFACT_DESCRIPTOR_SCHEMA = ''openthrottle.evidence-artifact-descriptor/v1''"

definition EVIDENCE_ARTIFACT_MAX_BYTES :: int where
  "EVIDENCE_ARTIFACT_MAX_BYTES = 1024 * 1024"

definition ATTEMPT_EVIDENCE_PAYLOAD_SCHEMAS :: "string list" where
  "ATTEMPT_EVIDENCE_PAYLOAD_SCHEMAS =
     [ATTEMPT_FORENSICS_PAYLOAD_SCHEMA, INVALID_RESULT_EVIDENCE_PAYLOAD_SCHEMA]"

definition EVIDENCE_TAIL_MAX_CHARACTERS :: int where
  "EVIDENCE_TAIL_MAX_CHARACTERS = 16384"

definition EVIDENCE_FILE :: "string \<Rightarrow> bool" where
  "EVIDENCE_FILE s \<longleftrightarrow>
     startsWith s ''evidence-'' \<and> SHA256 (take 64 (drop 9 s)) \<and> drop 73 s = ''.json''"

record attempt_forensics =
  fo_pipeline_run_id :: string
  fo_attempt_id :: string
  fo_request_hash :: string
  fo_definition_bundle_hash :: string
  fo_lease_id :: string
  fo_work_retry_ordinal :: int
  fo_operational_signature :: string
  fo_exit_code :: int
  fo_runner_stdout_tail :: string
  fo_runner_stderr_tail :: string
  fo_result_path_state :: json
  fo_session_event_state :: json
  fo_workspace_git_status :: json
  fo_observed_at :: string

record invalid_result_evidence =
  ie_pipeline_run_id :: string
  ie_attempt_id :: string
  ie_request_hash :: string
  ie_definition_bundle_hash :: string
  ie_phase :: lease_purpose
  ie_candidate_hash :: "string option"
  ie_rejected_candidate :: "json option"
  ie_diagnostics :: "result_diagnostic list"
  ie_runner_stdout_tail :: string
  ie_runner_stderr_tail :: string
  ie_observed_at :: string

datatype attempt_evidence = Forensics attempt_forensics | InvalidResult invalid_result_evidence

record evidence_artifact_descriptor =
  ed_file :: string
  ed_sha256 :: string
  ed_bytes :: int
  ed_payload_schema :: string

section \<open>Readers\<close>

definition evidence_id_at :: "json option \<Rightarrow> string \<Rightarrow> string result" where
  "evidence_id_at value path = stringAt value path 200 RECORD_ID"

definition evidence_digest_at :: "json option \<Rightarrow> string \<Rightarrow> string result" where
  "evidence_digest_at value path = stringAt value path 64 SHA256"

definition boundedText :: "json option \<Rightarrow> string \<Rightarrow> int \<Rightarrow> string result" where
  "boundedText value path maximum =
     (case value of
        Some (JStr s) \<Rightarrow>
          if int (length s) > maximum then fail path (AtMostCharacters maximum)
          else if CHR 0x00 \<in> set s then fail path (Message ''must not contain NUL characters'')
          else Inr s
      | _ \<Rightarrow> fail path (Message ''must be a string''))"

definition evidence_diagnostic :: "json \<Rightarrow> string \<Rightarrow> result_diagnostic result" where
  "evidence_diagnostic value path =
     bindE (objectAt (Some value) path [''path'', ''detail'']) (\<lambda>input.
     bindE (boundedText (map_of input ''path'') (sub_path path ''path'') 500) (\<lambda>p.
     bindE (boundedText (map_of input ''detail'') (sub_path path ''detail'') 1500) (\<lambda>d.
     Inr \<lparr>di_path = p, di_detail = d\<rparr>)))"

definition validateAttemptForensicsPayload :: "json \<Rightarrow> string \<Rightarrow> attempt_forensics result" where
  "validateAttemptForensicsPayload value source =
     bindE (objectAt (Some value) source
              [''schema'', ''pipeline_run_id'', ''attempt_id'', ''request_hash'', ''definition_bundle_hash'',
               ''lease_id'', ''work_retry_ordinal'', ''operational_signature'', ''exit_code'',
               ''runner_stdout_tail'', ''runner_stderr_tail'', ''result_path_state'',
               ''session_event_state'', ''workspace_git_status'', ''observed_at'']) (\<lambda>input.
     let at = (\<lambda>field. map_of input field); p = sub_path source in
     if at ''schema'' \<noteq> Some (JStr ATTEMPT_FORENSICS_PAYLOAD_SCHEMA)
       then fail (p ''schema'') (MustBeSchema ATTEMPT_FORENSICS_PAYLOAD_SCHEMA)
     else
       bindE (evidence_id_at (at ''pipeline_run_id'') (p ''pipeline_run_id'')) (\<lambda>run.
       bindE (evidence_id_at (at ''attempt_id'') (p ''attempt_id'')) (\<lambda>attempt.
       bindE (evidence_digest_at (at ''request_hash'') (p ''request_hash'')) (\<lambda>request.
       bindE (evidence_digest_at (at ''definition_bundle_hash'') (p ''definition_bundle_hash'')) (\<lambda>bundle.
       bindE (evidence_id_at (at ''lease_id'') (p ''lease_id'')) (\<lambda>lease.
       bindE (integerAt (at ''work_retry_ordinal'') (p ''work_retry_ordinal'') 0 MAX_SAFE_INTEGER) (\<lambda>ordinal.
       bindE (evidence_digest_at (at ''operational_signature'') (p ''operational_signature'')) (\<lambda>signature.
       bindE (integerAt (at ''exit_code'') (p ''exit_code'') 0 255) (\<lambda>code.
       bindE (boundedText (at ''runner_stdout_tail'') (p ''runner_stdout_tail'')
                EVIDENCE_TAIL_MAX_CHARACTERS) (\<lambda>out.
       bindE (boundedText (at ''runner_stderr_tail'') (p ''runner_stderr_tail'')
                EVIDENCE_TAIL_MAX_CHARACTERS) (\<lambda>err.
       bindE (jsonAt (at ''result_path_state'') (p ''result_path_state'')) (\<lambda>result_path.
       bindE (jsonAt (at ''session_event_state'') (p ''session_event_state'')) (\<lambda>session.
       bindE (jsonAt (at ''workspace_git_status'') (p ''workspace_git_status'')) (\<lambda>git.
       bindE (timestampAt (at ''observed_at'') (p ''observed_at'')) (\<lambda>observed.
       Inr \<lparr>fo_pipeline_run_id = run, fo_attempt_id = attempt, fo_request_hash = request,
            fo_definition_bundle_hash = bundle, fo_lease_id = lease, fo_work_retry_ordinal = ordinal,
            fo_operational_signature = signature, fo_exit_code = code, fo_runner_stdout_tail = out,
            fo_runner_stderr_tail = err, fo_result_path_state = result_path,
            fo_session_event_state = session, fo_workspace_git_status = git,
            fo_observed_at = observed\<rparr>)))))))))))))))"

definition sort_diagnostics :: "result_diagnostic list \<Rightarrow> result_diagnostic list" where
  "sort_diagnostics ds = sort_key (\<lambda>d. (di_path d, di_detail d)) ds"

definition validateInvalidResultEvidencePayload :: "json \<Rightarrow> string \<Rightarrow> invalid_result_evidence result" where
  "validateInvalidResultEvidencePayload value source =
     bindE (objectAt (Some value) source
              [''schema'', ''pipeline_run_id'', ''attempt_id'', ''request_hash'', ''definition_bundle_hash'',
               ''phase'', ''candidate_hash'', ''rejected_candidate'', ''diagnostics'',
               ''runner_stdout_tail'', ''runner_stderr_tail'', ''observed_at'']) (\<lambda>input.
     let at = (\<lambda>field. map_of input field); p = sub_path source in
     if at ''schema'' \<noteq> Some (JStr INVALID_RESULT_EVIDENCE_PAYLOAD_SCHEMA)
       then fail (p ''schema'') (MustBeSchema INVALID_RESULT_EVIDENCE_PAYLOAD_SCHEMA)
     else
       bindE (evidence_id_at (at ''pipeline_run_id'') (p ''pipeline_run_id'')) (\<lambda>run.
       bindE (evidence_id_at (at ''attempt_id'') (p ''attempt_id'')) (\<lambda>attempt.
       bindE (evidence_digest_at (at ''request_hash'') (p ''request_hash'')) (\<lambda>request.
       bindE (evidence_digest_at (at ''definition_bundle_hash'') (p ''definition_bundle_hash'')) (\<lambda>bundle.
       bindE (enumAt (at ''phase'') (p ''phase'') [''work'', ''result_correction'']) (\<lambda>phase.
       bindE (nullable (at ''candidate_hash'')
                (\<lambda>v. evidence_digest_at v (p ''candidate_hash''))) (\<lambda>candidate.
       bindE (nullable (at ''rejected_candidate'')
                (\<lambda>v. jsonAt v (p ''rejected_candidate''))) (\<lambda>rejected.
       bindE (arrayAt (at ''diagnostics'') (p ''diagnostics'') evidence_diagnostic 0 100) (\<lambda>diagnostics.
       bindE (boundedText (at ''runner_stdout_tail'') (p ''runner_stdout_tail'')
                EVIDENCE_TAIL_MAX_CHARACTERS) (\<lambda>out.
       bindE (boundedText (at ''runner_stderr_tail'') (p ''runner_stderr_tail'')
                EVIDENCE_TAIL_MAX_CHARACTERS) (\<lambda>err.
       bindE (timestampAt (at ''observed_at'') (p ''observed_at'')) (\<lambda>observed.
       Inr \<lparr>ie_pipeline_run_id = run, ie_attempt_id = attempt, ie_request_hash = request,
            ie_definition_bundle_hash = bundle,
            ie_phase = (if phase = ''work'' then WorkLease else CorrectionLease),
            ie_candidate_hash = candidate, ie_rejected_candidate = rejected,
            ie_diagnostics = sort_diagnostics diagnostics, ie_runner_stdout_tail = out,
            ie_runner_stderr_tail = err, ie_observed_at = observed\<rparr>))))))))))))"

definition validateAttemptEvidencePayload :: "json \<Rightarrow> string \<Rightarrow> attempt_evidence result" where
  "validateAttemptEvidencePayload value source =
     (if \<not> is_obj value then fail source MustBeObject
      else
        bindE (enumAt (jfield value ''schema'') (sub_path source ''schema'')
                 ATTEMPT_EVIDENCE_PAYLOAD_SCHEMAS) (\<lambda>schema.
        if schema = ATTEMPT_FORENSICS_PAYLOAD_SCHEMA
          then bindE (validateAttemptForensicsPayload value source) (\<lambda>f. Inr (Forensics f))
        else bindE (validateInvalidResultEvidencePayload value source) (\<lambda>e. Inr (InvalidResult e))))"

definition validateEvidenceArtifactDescriptor ::
  "json \<Rightarrow> string \<Rightarrow> string option \<Rightarrow> evidence_artifact_descriptor result" where
  "validateEvidenceArtifactDescriptor value source expected =
     bindE (objectAt (Some value) source
              [''schema'', ''file'', ''sha256'', ''bytes'', ''media_type'', ''payload_schema'']) (\<lambda>input.
     if map_of input ''schema'' \<noteq> Some (JStr EVIDENCE_ARTIFACT_DESCRIPTOR_SCHEMA)
       then fail (sub_path source ''schema'') (MustBeSchema EVIDENCE_ARTIFACT_DESCRIPTOR_SCHEMA)
     else if map_of input ''media_type'' \<noteq> Some (JStr ''application/json'')
       then fail (sub_path source ''media_type'') (Message ''must be application/json'')
     else
       bindE (evidence_digest_at (map_of input ''sha256'') (sub_path source ''sha256'')) (\<lambda>sha.
       bindE (stringAt (map_of input ''file'') (sub_path source ''file'') 200 EVIDENCE_FILE) (\<lambda>file.
       if file \<noteq> ''evidence-'' @ sha @ ''.json''
         then fail (sub_path source ''file'') (Message ''must identify the descriptor content digest'')
       else
         bindE (enumAt (map_of input ''payload_schema'') (sub_path source ''payload_schema'')
                  ATTEMPT_EVIDENCE_PAYLOAD_SCHEMAS) (\<lambda>schema.
         if expected \<noteq> None \<and> Some schema \<noteq> expected
           then fail (sub_path source ''payload_schema'') (Message ''must match the expected payload schema'')
         else
           bindE (integerAt (map_of input ''bytes'') (sub_path source ''bytes'') 1
                    EVIDENCE_ARTIFACT_MAX_BYTES) (\<lambda>bytes.
           Inr \<lparr>ed_file = file, ed_sha256 = sha, ed_bytes = bytes, ed_payload_schema = schema\<rparr>)))))"

section \<open>As JSON\<close>

definition json_of_diagnostic :: "result_diagnostic \<Rightarrow> json" where
  "json_of_diagnostic d = JObj [(''path'', JStr (di_path d)), (''detail'', JStr (di_detail d))]"

definition json_of_forensics :: "attempt_forensics \<Rightarrow> json" where
  "json_of_forensics f = JObj
     [(''schema'', JStr ATTEMPT_FORENSICS_PAYLOAD_SCHEMA),
      (''pipeline_run_id'', JStr (fo_pipeline_run_id f)), (''attempt_id'', JStr (fo_attempt_id f)),
      (''request_hash'', JStr (fo_request_hash f)),
      (''definition_bundle_hash'', JStr (fo_definition_bundle_hash f)), (''lease_id'', JStr (fo_lease_id f)),
      (''work_retry_ordinal'', json_int (fo_work_retry_ordinal f)),
      (''operational_signature'', JStr (fo_operational_signature f)),
      (''exit_code'', json_int (fo_exit_code f)), (''runner_stdout_tail'', JStr (fo_runner_stdout_tail f)),
      (''runner_stderr_tail'', JStr (fo_runner_stderr_tail f)),
      (''result_path_state'', fo_result_path_state f), (''session_event_state'', fo_session_event_state f),
      (''workspace_git_status'', fo_workspace_git_status f), (''observed_at'', JStr (fo_observed_at f))]"

definition json_of_invalid_result :: "invalid_result_evidence \<Rightarrow> json" where
  "json_of_invalid_result e = JObj
     [(''schema'', JStr INVALID_RESULT_EVIDENCE_PAYLOAD_SCHEMA),
      (''pipeline_run_id'', JStr (ie_pipeline_run_id e)), (''attempt_id'', JStr (ie_attempt_id e)),
      (''request_hash'', JStr (ie_request_hash e)),
      (''definition_bundle_hash'', JStr (ie_definition_bundle_hash e)),
      (''phase'', JStr (purpose_name (ie_phase e))), (''candidate_hash'', json_opt (ie_candidate_hash e)),
      (''rejected_candidate'', case ie_rejected_candidate e of None \<Rightarrow> JNull | Some v \<Rightarrow> v),
      (''diagnostics'', JArr (map json_of_diagnostic (ie_diagnostics e))),
      (''runner_stdout_tail'', JStr (ie_runner_stdout_tail e)),
      (''runner_stderr_tail'', JStr (ie_runner_stderr_tail e)), (''observed_at'', JStr (ie_observed_at e))]"

section \<open>The registered contracts\<close>

definition ATTEMPT_FORENSICS_PAYLOAD_CONTRACT :: "record_kind \<times> (json \<Rightarrow> string \<Rightarrow> json result)" where
  "ATTEMPT_FORENSICS_PAYLOAD_CONTRACT =
     (DecisionKind,
      \<lambda>value path. bindE (validateAttemptForensicsPayload value path) (\<lambda>f. Inr (json_of_forensics f)))"

definition INVALID_RESULT_EVIDENCE_PAYLOAD_CONTRACT :: "record_kind \<times> (json \<Rightarrow> string \<Rightarrow> json result)" where
  "INVALID_RESULT_EVIDENCE_PAYLOAD_CONTRACT =
     (DecisionKind,
      \<lambda>value path. bindE (validateInvalidResultEvidencePayload value path) (\<lambda>e. Inr (json_of_invalid_result e)))"

end
