(* ===== verification/ReducerSupport.thy ===== *)
theory ReducerSupport
  imports KernelTypes
begin

text \<open>
  The guards every reduction starts from: \<open>supervisor/src/pipeline/kernel/reducer-support.ts\<close>.
  Scope keys, the exact-map check, the topology of the cursor, the base checks of a reducer
  input, and the construction of a new cursor.
\<close>

abbreviation (input) throwS :: "support_error \<Rightarrow> 'a result" where
  "throwS e \<equiv> Inl (SupportError e)"

section \<open>Operations\<close>

definition assertExactMap :: "'v dict \<Rightarrow> string list \<Rightarrow> string \<Rightarrow> unit result" where
  "assertExactMap m expectedIds name =
     (let actual = sort (keys m); expected = sortedUnique expectedIds in
      if actual \<noteq> expected then throwS (ExactMapMismatch name expected) else Inr ())"

definition stageFor :: "compiled_manifest \<Rightarrow> string \<Rightarrow> pipeline_stage result" where
  "stageFor manifest stageId =
     (case find_stage (cm_stages manifest) stageId of
        None \<Rightarrow> throwS (UnknownManifestStage stageId)
      | Some stage \<Rightarrow> Inr stage)"

definition authorityForStage :: "pipeline_stage \<Rightarrow> repository_authority" where
  "authorityForStage stage =
     (case st_kind stage of AgentStage a \<Rightarrow> af_repository_authority a | _ \<Rightarrow> InspectAuthority)"

fun attemptScopeKey :: "attempt_scope \<Rightarrow> string" where
  "attemptScopeKey (StageScope s) = ''0:'' @ s"
| "attemptScopeKey (LoopItemScope s p l i n) =
     ''1:'' @ s @ '':'' @ l @ '':'' @ padStart 10 (CHR ''0'') (string_of_int n) @ '':'' @ i"
| "attemptScopeKey (FanoutMemberScope s p f m n) =
     ''2:'' @ s @ '':'' @ f @ '':'' @ padStart 10 (CHR ''0'') (string_of_int n) @ '':'' @ m"

definition memberKey :: "attempt_scope \<Rightarrow> string \<Rightarrow> string" where
  "memberKey scope attemptId = attemptScopeKey scope @ ''@'' @ attemptId"

definition frontierMemberKey :: "kernel_attempt \<Rightarrow> string" where
  "frontierMemberKey attempt = memberKey (ka_scope attempt) (ka_id attempt)"

fun terminal_attempt_state :: "attempt_state \<Rightarrow> bool" where
  "terminal_attempt_state s =
     (s \<in> {Settled, AttemptNeedsHuman, AttemptFailed, AttemptCanceled, AttemptSuperseded})"

definition assertActiveAttempt :: "kernel_run \<Rightarrow> kernel_attempt \<Rightarrow> unit result" where
  "assertActiveAttempt run attempt =
     (if ka_pipeline_run_id attempt \<noteq> kr_id run then throwS (AttemptOfOtherRun (ka_id attempt))
      else if ka_definition_bundle_hash attempt \<noteq> kr_definition_bundle_hash run
        then throwS (AttemptOfOtherBundle (ka_id attempt))
      else if map_of (kr_active_attempt_versions run) (ka_id attempt) \<noteq> Some (ka_version attempt)
        then throwS (AttemptNotActive (ka_id attempt) (ka_version attempt))
      else if Some (scope_stage_id (ka_scope attempt)) \<noteq> cu_stage_id (kr_cursor run)
        then throwS (AttemptOutsideCursor (ka_id attempt))
      else if terminal_attempt_state (ka_status attempt)
        then throwS (AttemptAlreadyTerminal (ka_id attempt))
      else
        bindE (canonicalAttemptContextIds (ka_context_record_ids attempt)) (\<lambda>_.
        bindE (canonicalAttemptContextIds (ka_context_checkpoint_ids attempt)) (\<lambda>_.
        Inr ())))"

text \<open>The checks of one frontier member, in the loop of \<open>assertCursorTopology\<close>.\<close>

definition assertMember :: "kernel_cursor \<Rightarrow> string list \<Rightarrow> frontier_member \<Rightarrow> unit result" where
  "assertMember cursor frontierKeys member =
     (if fm_scope_key member \<noteq> memberKey (fm_scope member) (fm_attempt_id member) \<or>
         Some (scope_stage_id (fm_scope member)) \<noteq> cu_stage_id cursor
        then throwS (MemberNotCanonical (fm_attempt_id member))
      else
        bindE (forE (\<lambda>dependency.
                 if dependency \<notin> set frontierKeys \<and> dependency \<notin> set (cu_completed_scope_keys cursor)
                 then throwS (DependencyUnavailable dependency) else Inr ()) (fm_depends_on member)) (\<lambda>_.
        if fm_depends_on member \<noteq> sortedUnique (fm_depends_on member)
          then throwS (MemberDependenciesNotCanonical (fm_attempt_id member))
        else Inr ()))"

definition unsettledAttemptIds :: "kernel_cursor \<Rightarrow> string list" where
  "unsettledAttemptIds cursor =
     sort (map fm_attempt_id
       (filter (\<lambda>m. fm_scope_key m \<notin> set (cu_completed_scope_keys cursor)) (cu_frontier cursor)))"

definition assertSelected :: "kernel_cursor \<Rightarrow> kernel_attempt \<Rightarrow> unit result" where
  "assertSelected cursor current =
     (case find (\<lambda>m. fm_attempt_id m = ka_id current) (cu_frontier cursor) of
        None \<Rightarrow> throwS (AttemptAbsentFromFrontier (ka_id current))
      | Some member \<Rightarrow>
          if filter (\<lambda>d. d \<notin> set (cu_completed_scope_keys cursor)) (fm_depends_on member) \<noteq> []
            then throwS (SelectedBeforeDependencies (ka_id current))
          else Inr ())"

definition assertCursorTopology :: "kernel_run \<Rightarrow> kernel_attempt option \<Rightarrow> unit result" where
  "assertCursorTopology run current =
     (let cursor = kr_cursor run; frontierKeys = map fm_scope_key (cu_frontier cursor);
          memberIds = map fm_attempt_id (cu_frontier cursor) in
      case cu_barrier cursor of
        None \<Rightarrow> throwS NeedsAllBarrier
      | Some barrier \<Rightarrow>
          if frontierKeys \<noteq> sort frontierKeys then throwS FrontierNotCanonicalOrder
          else if length (remdups frontierKeys) \<noteq> length frontierKeys then throwS FrontierDuplicateScopes
          else if length (remdups memberIds) \<noteq> length memberIds then throwS FrontierDuplicateAttempts
          else
            bindE (forE (assertMember cursor frontierKeys) (cu_frontier cursor)) (\<lambda>_.
            if cu_completed_scope_keys cursor \<noteq> sortedUnique (cu_completed_scope_keys cursor)
              then throwS CompletedNotCanonical
            else if sortedUnique barrier \<noteq> sortedUnique frontierKeys then throwS BarrierMismatch
            else if unsettledAttemptIds cursor \<noteq> sort (keys (kr_active_attempt_versions run))
              then throwS ActiveAttemptsMismatch
            else case current of None \<Rightarrow> Inr () | Some a \<Rightarrow> assertSelected cursor a))"

definition assertRecordMap :: "kernel_run \<Rightarrow> execution_record dict \<Rightarrow> unit result" where
  "assertRecordMap run records =
     forE (\<lambda>(recordId, rec).
       if recordId \<noteq> rec_id rec then throwS (RecordKeyMismatch recordId)
       else if rec_run rec \<noteq> kr_id run then throwS (RecordOfOtherRun recordId)
       else Inr ()) records"

definition assertCheckpointMap :: "kernel_run \<Rightarrow> attempt_checkpoint dict \<Rightarrow> unit result" where
  "assertCheckpointMap run checkpoints =
     forE (\<lambda>(checkpointId, checkpoint).
       if checkpointId \<noteq> ck_id checkpoint then throwS (CheckpointKeyMismatch checkpointId)
       else if ck_pipeline_run_id checkpoint \<noteq> kr_id run then throwS (CheckpointOfOtherRun checkpointId)
       else Inr ()) checkpoints"

fun is_stage_scope :: "attempt_scope \<Rightarrow> bool" where
  "is_stage_scope (StageScope _) = True"
| "is_stage_scope _ = False"

fun is_effect_kind :: "stage_kind \<Rightarrow> bool" where
  "is_effect_kind (EffectStage _) = True"
| "is_effect_kind _ = False"

fun is_wait_kind :: "stage_kind \<Rightarrow> bool" where
  "is_wait_kind (WaitStage _) = True"
| "is_wait_kind _ = False"

definition assertCurrent :: "kernel_run \<Rightarrow> pipeline_stage \<Rightarrow> kernel_attempt \<Rightarrow> unit result" where
  "assertCurrent run activeStage attempt =
     bindE (assertActiveAttempt run attempt) (\<lambda>_.
     if ka_repository_authority attempt \<noteq> authorityForStage activeStage
       then throwS (AttemptAuthorityMismatch (ka_id attempt))
     else
       (let scopedSubject = \<not> is_stage_scope (ka_scope attempt) \<and>
              \<not> is_effect_kind (st_kind activeStage) \<and> \<not> is_wait_kind (st_kind activeStage);
            promotedPublication = st_kind activeStage = EffectStage ''core/publish@1'' \<and>
              ka_output_subject attempt = Some (kr_current_subject run) in
        if \<not> scopedSubject \<and> \<not> promotedPublication \<and> ka_input_subject attempt \<noteq> kr_current_subject run
          then throwS (AttemptSubjectMismatch (ka_id attempt))
        else Inr ()))"

fun run_ended :: "run_status \<Rightarrow> bool" where
  "run_ended (RunEnded _) = True"
| "run_ended _ = False"

definition assertBaseInput :: "reducer_input \<Rightarrow> unit result" where
  "assertBaseInput input =
     (let manifest = ri_manifest input; run = ri_run input in
      if cm_pipeline_id manifest \<noteq> kr_pipeline_id run then throwS ManifestOfOtherPipeline
      else if cm_definition_bundle_hash manifest \<noteq> kr_definition_bundle_hash run
        then throwS ManifestOfOtherBundle
      else if kr_version run < 0 \<or> cu_version (kr_cursor run) < 0 then throwS NegativeVersions
      else if \<not> SHA256 (kr_definition_bundle_hash run) then throwS InvalidBundleHash
      else if \<not> GIT_SUBJECT (kr_current_subject run) then throwS InvalidRunSubject
      else if run_ended (kr_status run) then throwS (RunAlreadyTerminal (kr_id run))
      else if kr_terminal_outcome run \<noteq> None then throwS OutcomeOnNonTerminal
      else case cu_stage_id (kr_cursor run) of
        None \<Rightarrow> throwS NoActiveStage
      | Some stageId \<Rightarrow>
          bindE (stageFor manifest stageId) (\<lambda>activeStage.
          bindE (assertCursorTopology run (ri_current_attempt input)) (\<lambda>_.
          bindE (assertRecordMap run (ri_records input)) (\<lambda>_.
          bindE (assertCheckpointMap run (ri_checkpoints input)) (\<lambda>_.
          case ri_current_attempt input of
            None \<Rightarrow> Inr ()
          | Some attempt \<Rightarrow> assertCurrent run activeStage attempt)))))"

definition currentAttempt :: "reducer_input \<Rightarrow> string \<Rightarrow> kernel_attempt result" where
  "currentAttempt input attemptId =
     (case ri_current_attempt input of
        None \<Rightarrow> throwS (NotCurrentAttempt attemptId)
      | Some attempt \<Rightarrow>
          if ka_id attempt \<noteq> attemptId then throwS (NotCurrentAttempt attemptId) else Inr attempt)"

definition assertAttemptCommandMapsEmpty :: "reducer_input \<Rightarrow> unit result" where
  "assertAttemptCommandMapsEmpty input =
     bindE (assertExactMap (ri_records input) [] ''record map'') (\<lambda>_.
     assertExactMap (ri_checkpoints input) [] ''checkpoint map'')"

section \<open>Compiling a cursor\<close>

text \<open>
  The code tests the result of \<open>find\<close> for truthiness, so a key that is the empty string counts
  as not found.
\<close>

definition dict_strs :: "string list dict \<Rightarrow> string \<Rightarrow> string list" where
  "dict_strs d k = (case map_of d k of None \<Rightarrow> [] | Some v \<Rightarrow> v)"

definition compileMember ::
  "string \<Rightarrow> string list dict \<Rightarrow> string list \<Rightarrow> kernel_attempt \<Rightarrow> frontier_member result" where
  "compileMember stageId dependencies known candidate =
     (let scopeKey = frontierMemberKey candidate; deps = sortedUnique (dict_strs dependencies scopeKey) in
      if scope_stage_id (ka_scope candidate) \<noteq> stageId then throwS (MemberOfOtherStage (ka_id candidate))
      else if scopeKey \<in> set deps then throwS (SelfDependency scopeKey)
      else if truthy (find (\<lambda>d. d \<notin> set known) deps)
        then throwS (DependencyUnavailable (the (find (\<lambda>d. d \<notin> set known) deps)))
      else Inr \<lparr>fm_scope_key = scopeKey, fm_attempt_id = ka_id candidate, fm_scope = ka_scope candidate,
                fm_depends_on = deps\<rparr>)"

text \<open>The dependencies of a member that are themselves members of the frontier.\<close>

definition frontier_deps :: "frontier_member list \<Rightarrow> string \<Rightarrow> string list" where
  "frontier_deps frontier k =
     (case find (\<lambda>m. fm_scope_key m = k) frontier of
        None \<Rightarrow> []
      | Some m \<Rightarrow> filter (\<lambda>d. d \<in> set (map fm_scope_key frontier)) (fm_depends_on m))"

definition compileKernelCursor ::
  "string \<Rightarrow> int \<Rightarrow> int dict \<Rightarrow> kernel_attempt list \<Rightarrow> string list dict \<Rightarrow> string list \<Rightarrow>
     kernel_cursor result" where
  "compileKernelCursor stageId version reentries attempts dependencies completedKeys =
     (let completed = sortedUnique completedKeys; memberKeys = map frontierMemberKey attempts;
          logical = map (attemptScopeKey \<circ> ka_scope) attempts;
          unknownOwner = find (\<lambda>k. k \<notin> set memberKeys) (keys dependencies) in
      if attempts = [] then throwS EmptyFrontier
      else if length (remdups memberKeys) \<noteq> length memberKeys then throwS DuplicateMemberKeys
      else if length (remdups logical) \<noteq> length logical then throwS DuplicateLogicalScopes
      else if truthy unknownOwner then throwS (UnknownDependencyOwner (the unknownOwner))
      else
        bindE (mapE (compileMember stageId dependencies (memberKeys @ completed)) attempts) (\<lambda>members.
        let frontier = sort_key fm_scope_key members in
        bindE (visit_all memberKeys (frontier_deps frontier)
                 (\<lambda>_. SupportError CyclicDependencies) [] [] memberKeys) (\<lambda>_.
        Inr \<lparr>cu_stage_id = Some stageId, cu_version = version, cu_reentries = sortedRecord reentries,
             cu_frontier = frontier, cu_completed_scope_keys = completed,
             cu_barrier = Some (sortedUnique memberKeys)\<rparr>)))"

end
