(* ===== verification/SandboxRecovery.thy ===== *)
theory SandboxRecovery
  imports KernelTypes JsonParse
begin

text \<open>
  Recovery evidence of a fatal sandbox failure: \<open>supervisor/src/pipeline/kernel/sandbox-recovery.ts\<close>.
  The classification of thrown values (\<open>isSandboxFatalEnospc\<close>, \<open>sandboxFailureReason\<close>) works on
  exception objects and is not modelled.
\<close>

definition SANDBOX_FATAL_RECOVERY_EVALUATOR :: string where
  "SANDBOX_FATAL_RECOVERY_EVALUATOR = ''core/sandbox-fatal-recovery@1''"

definition SANDBOX_FATAL_FRONTIER_EVALUATOR :: string where
  "SANDBOX_FATAL_FRONTIER_EVALUATOR = ''core/sandbox-fatal-frontier@1''"

definition SANDBOX_RECOVERY_FRONTIER_SCHEMA :: string where
  "SANDBOX_RECOVERY_FRONTIER_SCHEMA = ''openthrottle.sandbox-recovery-frontier-member/v1''"

definition PIPELINE_DECISION_RECORD_PAYLOAD_SCHEMA :: string where
  "PIPELINE_DECISION_RECORD_PAYLOAD_SCHEMA = ''openthrottle.pipeline-decision-record/v1''"

abbreviation (input) throwV :: "recovery_error \<Rightarrow> 'a result" where
  "throwV e \<equiv> Inl (RecoveryError e)"

record sandbox_frontier_member =
  sm_attempt_id :: string
  sm_depends_on :: "string list"
  sm_stage_id :: string
  sm_record :: decision_record

definition sandboxRecoveryEvaluator :: "string \<Rightarrow> string" where
  "sandboxRecoveryEvaluator attemptId = SANDBOX_FATAL_RECOVERY_EVALUATOR @ '':'' @ attemptId"

definition sandboxRecoveryFrontierEvaluator :: "string \<Rightarrow> string" where
  "sandboxRecoveryFrontierEvaluator attemptId = SANDBOX_FATAL_FRONTIER_EVALUATOR @ '':'' @ attemptId"

definition sandboxRecoveryFrontierReason :: "string list \<Rightarrow> string" where
  "sandboxRecoveryFrontierReason dependsOn = stringify (JObj
     [(''schema'', JStr SANDBOX_RECOVERY_FRONTIER_SCHEMA), (''depends_on'', json_strs dependsOn)])"

text \<open>\<open>"inline" in payload && payload.inline && typeof \<dots> === "object" && !Array.isArray(\<dots>)\<close>\<close>

fun inline_object :: "record_payload \<Rightarrow> (json dict) option" where
  "inline_object (Inline (JObj es)) = Some es"
| "inline_object _ = None"

definition sandboxRecoveryAttemptId :: "execution_record \<Rightarrow> string option" where
  "sandboxRecoveryAttemptId rec =
     (case rec of
        DecisionRec d \<Rightarrow>
          if rb_payload_schema d \<noteq> PIPELINE_DECISION_RECORD_PAYLOAD_SCHEMA then None
          else (case inline_object (rb_payload d) of
            None \<Rightarrow> None
          | Some payload \<Rightarrow>
              (let prefix = SANDBOX_FATAL_RECOVERY_EVALUATOR @ '':'' in
               case map_of payload ''evaluator'' of
                 Some (JStr evaluator) \<Rightarrow>
                   if startsWith evaluator prefix \<and> length evaluator > length prefix
                   then Some (drop (length prefix) evaluator) else None
               | _ \<Rightarrow> None))
      | _ \<Rightarrow> None)"

definition exactSandboxRecoveryRecord :: "execution_record list \<Rightarrow> (execution_record option) result" where
  "exactSandboxRecoveryRecord records =
     (let matches = filter (\<lambda>r. sandboxRecoveryAttemptId r \<noteq> None) records in
      if length matches > 1 then throwV MultipleRecoveries
      else Inr (case matches of [] \<Rightarrow> None | m # _ \<Rightarrow> Some m))"

definition fatal_absence :: "delivery_record \<Rightarrow> bool" where
  "fatal_absence d \<longleftrightarrow>
     dl_status d = Rejected \<and> rb_payload_schema d = ''openthrottle.effect-delivery/v1'' \<and>
     (case inline_object (rb_payload d) of
        None \<Rightarrow> False
      | Some envelope \<Rightarrow>
          (case map_of envelope ''result'' of
             Some (JObj evidence) \<Rightarrow>
               map_of envelope ''effect_kind'' = Some (JStr ''daytona/integrate-checkpoint@1'') \<and>
               map_of envelope ''provider'' = Some (JStr ''daytona'') \<and>
               (map_of envelope ''observed_via'' = Some (JStr ''reconciliation'') \<or>
                map_of envelope ''observed_via'' = Some (JStr ''post_dispatch_reconciliation'')) \<and>
               map_of evidence ''schema'' = Some (JStr ''openthrottle.daytona-integration-delivery/v1'') \<and>
               map_of evidence ''state'' = Some (JStr ''retryable_failure'') \<and>
               map_of evidence ''pipeline_run_id'' = Some (JStr (rb_pipeline_run_id d)) \<and>
               map_of evidence ''effect_id'' = Some (JStr (dl_effect_id d)) \<and>
               map_of evidence ''idempotency_key'' = Some (JStr (dl_idempotency_key d)) \<and>
               (case map_of evidence ''reason'' of
                  Some (JStr reason) \<Rightarrow> startsWith reason ''sandbox_fatal_absent:''
                | _ \<Rightarrow> False)
           | _ \<Rightarrow> False))"

fun is_fatal_absence :: "execution_record \<Rightarrow> bool" where
  "is_fatal_absence (DeliveryRec d) = fatal_absence d"
| "is_fatal_absence _ = False"

definition exactSandboxFatalAbsenceDelivery ::
  "execution_record list \<Rightarrow> (execution_record option) result" where
  "exactSandboxFatalAbsenceDelivery records =
     (let matches = filter is_fatal_absence records in
      if length matches > 1 then throwV MultipleAbsenceDeliveries
      else Inr (case matches of [] \<Rightarrow> None | m # _ \<Rightarrow> Some m))"

text \<open>The strings of an array of strings.\<close>

fun all_strings :: "json list \<Rightarrow> (string list) option" where
  "all_strings [] = Some []"
| "all_strings (JStr s # vs) = map_option ((#) s) (all_strings vs)"
| "all_strings _ = None"

definition frontier_dependencies :: "string \<Rightarrow> (string list) result" where
  "frontier_dependencies reason =
     (case json_parse reason of
        Some (JObj detail) \<Rightarrow>
          if sort (keys detail) \<noteq> [''depends_on'', ''schema''] \<or>
             map_of detail ''schema'' \<noteq> Some (JStr SANDBOX_RECOVERY_FRONTIER_SCHEMA)
            then throwV FrontierRecordBadEvidence
          else (case map_of detail ''depends_on'' of
            Some (JArr vs) \<Rightarrow>
              (case all_strings vs of
                 None \<Rightarrow> throwV FrontierRecordBadEvidence
               | Some dependsOn \<Rightarrow>
                   if sortedUnique dependsOn \<noteq> dependsOn then throwV FrontierDependenciesNotCanonical
                   else Inr dependsOn)
          | _ \<Rightarrow> throwV FrontierRecordBadEvidence)
      | _ \<Rightarrow> throwV FrontierRecordBadEvidence)"

definition sandboxRecoveryFrontierMember ::
  "execution_record \<Rightarrow> (sandbox_frontier_member option) result" where
  "sandboxRecoveryFrontierMember rec =
     (case rec of
        DecisionRec d \<Rightarrow>
          (let prefix = SANDBOX_FATAL_FRONTIER_EVALUATOR @ '':''; attemptId = drop (length prefix) (dr_reducer d) in
           if \<not> startsWith (dr_reducer d) prefix then Inr None
           else if attemptId = [] \<or> rb_payload_schema d \<noteq> PIPELINE_DECISION_RECORD_PAYLOAD_SCHEMA
             then throwV FrontierRecordMalformed
           else case inline_object (rb_payload d) of
             None \<Rightarrow> throwV FrontierRecordMalformed
           | Some payload \<Rightarrow>
               if sort (keys payload) \<noteq> [''evaluator'', ''outcome'', ''reason'', ''schema'', ''stage_id''] \<or>
                  map_of payload ''schema'' \<noteq> Some (JStr PIPELINE_DECISION_RECORD_PAYLOAD_SCHEMA) \<or>
                  map_of payload ''evaluator'' \<noteq> Some (JStr (dr_reducer d)) \<or>
                  map_of payload ''outcome'' \<noteq> Some (JStr ''retryable_infrastructure_failure'') \<or>
                  dr_input_record_ids d \<noteq> []
                 then throwV FrontierRecordReclassified
               else (case (map_of payload ''reason'', map_of payload ''stage_id'') of
                 (Some (JStr reason), Some (JStr stageId)) \<Rightarrow>
                   bindE (frontier_dependencies reason) (\<lambda>dependsOn.
                   Inr (Some \<lparr>sm_attempt_id = attemptId, sm_depends_on = dependsOn,
                         sm_stage_id = stageId, sm_record = d\<rparr>))
               | _ \<Rightarrow> throwV FrontierRecordReclassified))
      | _ \<Rightarrow> Inr None)"

definition exactSandboxRecoveryFrontier ::
  "execution_record list \<Rightarrow> (sandbox_frontier_member list) result" where
  "exactSandboxRecoveryFrontier records =
     bindE (mapE sandboxRecoveryFrontierMember records) (\<lambda>found.
     let members = sort_key sm_attempt_id (List.map_filter id found); ids = map sm_attempt_id members in
     if length (remdups ids) \<noteq> length ids then throwV FrontierDuplicateAttemptIds
     else Inr members)"

definition isDaytonaRuntimeDelivery :: "execution_record \<Rightarrow> bool" where
  "isDaytonaRuntimeDelivery rec =
     (case rec of
        DeliveryRec d \<Rightarrow>
          rb_payload_schema d = ''openthrottle.effect-delivery/v1'' \<and>
          (case inline_object (rb_payload d) of
             None \<Rightarrow> False
           | Some payload \<Rightarrow>
               map_of payload ''effect_kind'' = Some (JStr ''daytona/create-sandbox@1'') \<or>
               map_of payload ''effect_kind'' = Some (JStr ''daytona/start-sandbox@1''))
      | _ \<Rightarrow> False)"

end
