(* ===== verification/ReducerBase.thy ===== *)
theory ReducerBase
  imports ReducerSupport AttemptEvidence SandboxRecovery
begin

text \<open>
  What the command handlers of \<open>supervisor/src/pipeline/kernel/reducer.ts\<close> share: the order of
  appended records, the content of a bundle, the exact records and checkpoints a command names,
  and the checks of new attempts and results.
\<close>

abbreviation (input) throwW :: "work_error \<Rightarrow> 'a result" where
  "throwW e \<equiv> Inl (WorkError e)"

abbreviation (input) throwT :: "settle_error \<Rightarrow> 'a result" where
  "throwT e \<equiv> Inl (SettleError e)"

section \<open>The content of a bundle\<close>

definition expectedFor :: "kernel_run \<Rightarrow> int dict \<Rightarrow> expected_state" where
  "expectedFor run attemptVersions =
     \<lparr>ex_run_id = kr_id run, ex_run_version = kr_version run, ex_cursor_version = cu_version (kr_cursor run),
      ex_attempt_versions = sortedRecord attemptVersions\<rparr>"

text \<open>A record can be appended once every record of the batch that it cites has been.\<close>

definition record_ready :: "string list \<Rightarrow> string list \<Rightarrow> execution_record \<Rightarrow> bool" where
  "record_ready batchIds appendedIds rec =
     (case rec of
        DecisionRec d \<Rightarrow> list_all (\<lambda>i. i \<notin> set batchIds \<or> i \<in> set appendedIds) (dr_input_record_ids d)
      | _ \<Rightarrow> True)"

function append_loop ::
  "string list \<Rightarrow> string list \<Rightarrow> execution_record list \<Rightarrow> execution_record list \<Rightarrow>
     (execution_record list) result" where
  "append_loop batchIds appendedIds pending ordered =
     (if pending = [] then Inr ordered
      else case List.extract (record_ready batchIds appendedIds) pending of
        None \<Rightarrow> throwW CyclicDecisions
      | Some (before, next, after) \<Rightarrow>
          append_loop batchIds (appendedIds @ [rec_id next]) (before @ after) (ordered @ [next]))"
  by pat_completeness auto

termination
  by (relation "measure (\<lambda>(_, _, pending, _). length pending)") (auto dest: extract_SomeE)

declare append_loop.simps [simp del]

definition appendRecordOrder :: "execution_record list \<Rightarrow> (execution_record list) result" where
  "appendRecordOrder records =
     (let pending = sort_key rec_id records in append_loop (map rec_id pending) [] pending [])"

definition attemptWriteOrder :: "attempt_write list \<Rightarrow> attempt_write list" where
  "attemptWriteOrder writes = sort_key write_id writes"

definition attemptOrder :: "kernel_attempt list \<Rightarrow> kernel_attempt list" where
  "attemptOrder attempts = sort_key (\<lambda>a. (attemptScopeKey (ka_scope a), ka_id a)) attempts"

definition baseContent ::
  "kernel_command \<Rightarrow> expected_state \<Rightarrow> kernel_run \<Rightarrow> attempt_write list \<Rightarrow> kernel_attempt list \<Rightarrow>
     execution_record list \<Rightarrow> attempt_checkpoint list \<Rightarrow> effect_intent list \<Rightarrow>
     transition_content result" where
  "baseContent command expected run attemptWrites createAttempts appendRecords appendCheckpoints putEffects =
     bindE (appendRecordOrder appendRecords) (\<lambda>records.
     Inr \<lparr>tb_transition_id = cmd_id command, tb_expected = expected, tb_run = run,
          tb_attempt_writes = attemptWriteOrder attemptWrites,
          tb_create_attempts = attemptOrder createAttempts, tb_append_records = records,
          tb_append_checkpoints = sort_key ck_id appendCheckpoints,
          tb_put_effects = sort_key ei_id putEffects, tb_cancel_effect_ids = []\<rparr>)"

definition sealed ::
  "kernel_command \<Rightarrow> expected_state \<Rightarrow> kernel_run \<Rightarrow> attempt_write list \<Rightarrow> kernel_attempt list \<Rightarrow>
     execution_record list \<Rightarrow> attempt_checkpoint list \<Rightarrow> effect_intent list \<Rightarrow>
     transition_bundle result" where
  "sealed command expected run writes creates records checkpoints effects =
     bindE (baseContent command expected run writes creates records checkpoints effects) (\<lambda>content.
     Inr (seal_bundle content))"

definition replaceAttempt :: "kernel_run \<Rightarrow> kernel_attempt \<Rightarrow> kernel_run" where
  "replaceAttempt run attempt =
     run\<lparr>kr_version := kr_version run + 1,
         kr_status := (if kr_status run = RunPending then RunRunning else kr_status run),
         kr_active_attempt_versions :=
           sortedRecord (AList.update (ka_id attempt) (ka_version attempt) (kr_active_attempt_versions run))\<rparr>"

text \<open>The bundle of the handlers that replace the one attempt they act on.\<close>

definition attempt_expected :: "kernel_run \<Rightarrow> kernel_attempt \<Rightarrow> expected_state" where
  "attempt_expected run attempt = expectedFor run [(ka_id attempt, ka_version attempt)]"

section \<open>Exact checkpoints, decisions and results\<close>

fun is_agent_kind :: "stage_kind \<Rightarrow> bool" where
  "is_agent_kind (AgentStage _) = True"
| "is_agent_kind _ = False"

definition assertCheckpointIdentity ::
  "attempt_checkpoint \<Rightarrow> kernel_attempt \<Rightarrow> pipeline_stage \<Rightarrow> unit result" where
  "assertCheckpointIdentity checkpoint attempt stage =
     (if ck_attempt_id checkpoint \<noteq> ka_id attempt \<or> ck_request_hash checkpoint \<noteq> ka_request_hash attempt \<or>
         ck_definition_bundle_hash checkpoint \<noteq> ka_definition_bundle_hash attempt \<or>
         ck_input_subject checkpoint \<noteq> ka_input_subject attempt
        then throwW (CheckpointIdentityMismatch (ck_id checkpoint))
      else if is_agent_kind (st_kind stage) then
        (if ka_native_session_id attempt = None then throwW (SessionNotBound (ka_id attempt))
         else if ck_native_session_id checkpoint \<noteq> ka_native_session_id attempt
           then throwW (CheckpointChangesSession (ck_id checkpoint))
         else Inr ())
      else if ka_native_session_id attempt \<noteq> None \<or> ck_native_session_id checkpoint \<noteq> None
        then throwW CheckpointBindsSession
      else Inr ())"

definition exactCheckpoint :: "reducer_input \<Rightarrow> string \<Rightarrow> attempt_checkpoint result" where
  "exactCheckpoint input checkpointId =
     bindE (assertExactMap (ri_checkpoints input) [checkpointId] ''checkpoint map'') (\<lambda>_.
     case map_of (ri_checkpoints input) checkpointId of
       None \<Rightarrow> throwW (MissingCheckpoint checkpointId)
     | Some checkpoint \<Rightarrow> Inr checkpoint)"

definition exactDecision :: "reducer_input \<Rightarrow> string \<Rightarrow> decision_authorization result" where
  "exactDecision input decisionId =
     (case map_of (ri_records input) decisionId of
        Some (DecisionRec candidate) \<Rightarrow>
          if rb_id candidate \<in> set (dr_input_record_ids candidate)
            then throwW (DecisionCitesItself decisionId)
          else
            (let expectedIds = decisionId # dr_input_record_ids candidate in
             bindE (assertExactMap (ri_records input) expectedIds ''record map'') (\<lambda>_.
             bindE (mapE (\<lambda>recordId.
                      case map_of (ri_records input) recordId of
                        None \<Rightarrow> throwW (DecisionReferencesUnavailable decisionId recordId)
                      | Some rec \<Rightarrow> Inr rec) expectedIds) (\<lambda>exactRecords.
             Inr \<lparr>da_decision = candidate, da_exact_records = exactRecords\<rparr>)))
      | _ \<Rightarrow> throwW (NotDecisionRecord decisionId))"

definition resultForAttempt :: "reducer_input \<Rightarrow> kernel_attempt \<Rightarrow> string \<Rightarrow> result_record result" where
  "resultForAttempt input attempt recordId =
     (case map_of (ri_records input) recordId of
        Some (ResultRec candidate) \<Rightarrow>
          if rr_attempt_id candidate \<noteq> ka_id attempt \<or> rr_request_hash candidate \<noteq> ka_request_hash attempt \<or>
             rr_definition_bundle_hash candidate \<noteq> ka_definition_bundle_hash attempt \<or>
             rr_input_subject candidate \<noteq> ka_input_subject attempt \<or>
             rr_output_subject candidate \<noteq> ka_output_subject attempt
            then throwW (ResultIdentityMismatch recordId)
          else Inr candidate
      | _ \<Rightarrow> throwW (NotResultRecord recordId))"

definition recordForAttempt :: "reducer_input \<Rightarrow> kernel_attempt \<Rightarrow> string \<Rightarrow> result_record result" where
  "recordForAttempt input attempt recordId =
     bindE (assertExactMap (ri_records input) [recordId] ''record map'') (\<lambda>_.
     resultForAttempt input attempt recordId)"

definition assertRecordableResult ::
  "reducer_input \<Rightarrow> kernel_attempt \<Rightarrow> result_record \<Rightarrow> unit result" where
  "assertRecordableResult input attempt res =
     bindE (stageFor (ri_manifest input) (scope_stage_id (ka_scope attempt))) (\<lambda>stage.
     if ka_result_record_id attempt \<noteq> None \<and> ka_result_record_id attempt \<noteq> Some (rb_id res)
       then throwW (OtherAuthoritativeResult (ka_id attempt))
     else if ka_repository_authority attempt = EditAuthority \<and> rr_output_subject res = None
       then throwW EditResultNeedsSubject
     else if ka_repository_authority attempt = InspectAuthority \<and> \<not> is_effect_kind (st_kind stage) \<and>
             rr_output_subject res \<noteq> None
       then throwW InspectResultAdvances
     else if is_wait_kind (st_kind stage) \<and> rr_output_subject res \<noteq> None
       then throwW WaitResultAdvances
     else Inr ())"

section \<open>New attempts\<close>

record pending_expectation =
  px_manifest :: compiled_manifest
  px_run :: kernel_run
  px_stage_id :: string
  px_input_subject :: string

definition pristine :: "kernel_attempt \<Rightarrow> bool" where
  "pristine attempt \<longleftrightarrow>
     ka_status attempt = Pending \<and> ka_version attempt = 0 \<and> ka_lease attempt = None \<and>
     ka_output_subject attempt = None \<and> ka_checkpoint_id attempt = None \<and>
     ka_result_record_id attempt = None \<and> ka_pending_result attempt = None \<and>
     ka_decision_record_id attempt = None \<and> ka_result_correction_count attempt = 0 \<and>
     ka_result_correction_deadline attempt = None"

fun sibling_index :: "attempt_scope \<Rightarrow> int" where
  "sibling_index (StageScope _) = 0"
| "sibling_index (LoopItemScope _ _ _ _ n) = n"
| "sibling_index (FanoutMemberScope _ _ _ _ n) = n"

definition assertPendingAttempt :: "kernel_attempt \<Rightarrow> pending_expectation \<Rightarrow> unit result" where
  "assertPendingAttempt attempt x =
     (if ka_pipeline_run_id attempt \<noteq> kr_id (px_run x) then throwT (NewAttemptOfOtherRun (ka_id attempt))
      else if ka_definition_bundle_hash attempt \<noteq> kr_definition_bundle_hash (px_run x)
        then throwT (NewAttemptOfOtherBundle (ka_id attempt))
      else if scope_stage_id (ka_scope attempt) \<noteq> px_stage_id x
        then throwT (NewAttemptOtherStage (ka_id attempt))
      else if ka_input_subject attempt \<noteq> px_input_subject x
        then throwT (NewAttemptOtherSubject (ka_id attempt))
      else if \<not> SHA256 (ka_request_hash attempt) then throwT (NewAttemptBadHash (ka_id attempt))
      else if \<not> pristine attempt then throwT (NewAttemptNotPristine (ka_id attempt))
      else
        bindE (canonicalAttemptContextIds (ka_context_record_ids attempt)) (\<lambda>_.
        bindE (canonicalAttemptContextIds (ka_context_checkpoint_ids attempt)) (\<lambda>_.
        if \<not> is_stage_scope (ka_scope attempt) \<and>
           (\<not> isSafeInteger (sibling_index (ka_scope attempt)) \<or> sibling_index (ka_scope attempt) < 0)
          then throwT (NewAttemptBadIndex (ka_id attempt))
        else
          bindE (stageFor (px_manifest x) (px_stage_id x)) (\<lambda>stage.
          if ka_repository_authority attempt \<noteq> authorityForStage stage
            then throwT (NewAttemptAuthority (ka_id attempt))
          else Inr ()))))"

fun sameStructuredLineage :: "attempt_scope \<Rightarrow> attempt_scope \<Rightarrow> bool" where
  "sameStructuredLineage (LoopItemScope _ p l i n) (LoopItemScope _ p' l' i' n') \<longleftrightarrow>
     p = p' \<and> l = l' \<and> i = i' \<and> n = n'"
| "sameStructuredLineage (FanoutMemberScope _ p f m n) (FanoutMemberScope _ p' f' m' n') \<longleftrightarrow>
     p = p' \<and> f = f' \<and> m = m' \<and> n = n'"
| "sameStructuredLineage _ _ \<longleftrightarrow> False"

text \<open>The subject of one successor, and the checkpoint it comes from.\<close>

definition successor_subject ::
  "reducer_input \<Rightarrow> pipeline_stage \<Rightarrow> pipeline_stage \<Rightarrow> string \<Rightarrow> kernel_attempt \<Rightarrow>
     (string \<times> string list) result" where
  "successor_subject reducer sourceStage targetStage acceptedSubject nextAttempt =
     (let run = ri_run reducer;
          canContinueScopedSubject = \<not> is_stage_scope (ka_scope nextAttempt) \<and>
            \<not> is_effect_kind (st_kind sourceStage) \<and> \<not> is_wait_kind (st_kind sourceStage) \<and>
            \<not> is_effect_kind (st_kind targetStage) \<and> \<not> is_wait_kind (st_kind targetStage);
          predecessor = (if canContinueScopedSubject
            then find (\<lambda>m. sameStructuredLineage (fm_scope m) (ka_scope nextAttempt)) (cu_frontier (kr_cursor run))
            else None) in
      case predecessor of
        None \<Rightarrow> Inr (acceptedSubject, [])
      | Some member \<Rightarrow>
          (let found = map_of (kr_checkpoint_ids run) (fm_attempt_id member) in
           if \<not> truthy found then throwT (PredecessorUnverified (fm_attempt_id member))
           else case map_of (ri_checkpoints reducer) (the found) of
             None \<Rightarrow> throwT (PredecessorMissing (the found))
           | Some checkpoint \<Rightarrow>
               if ck_pipeline_run_id checkpoint \<noteq> kr_id run \<or>
                  ck_definition_bundle_hash checkpoint \<noteq> kr_definition_bundle_hash run \<or>
                  ck_attempt_id checkpoint \<noteq> fm_attempt_id member
                 then throwT (PredecessorMismatch (the found))
               else Inr (case ck_output_subject checkpoint of None \<Rightarrow> ck_input_subject checkpoint
                                                            | Some s \<Rightarrow> s, [the found])))"

fun successor_loop ::
  "(kernel_attempt \<Rightarrow> (string \<times> string list) result) \<Rightarrow> kernel_attempt list \<Rightarrow> string dict \<Rightarrow> string list \<Rightarrow>
     (string dict \<times> string list) result" where
  "successor_loop f [] subjects ids = Inr (subjects, ids)"
| "successor_loop f (a # rest) subjects ids =
     bindE (f a) (\<lambda>(subject, cited).
     successor_loop f rest (AList.update (ka_id a) subject subjects) (ids @ cited))"

definition structuredSuccessorSubjects ::
  "reducer_input \<Rightarrow> pipeline_stage \<Rightarrow> pipeline_stage \<Rightarrow> string \<Rightarrow> kernel_attempt list \<Rightarrow>
     (string dict \<times> string list) result" where
  "structuredSuccessorSubjects reducer sourceStage targetStage acceptedSubject nextAttempts =
     bindE (successor_loop (successor_subject reducer sourceStage targetStage acceptedSubject)
              nextAttempts [] []) (\<lambda>(subjects, checkpointIds).
     Inr (subjects, sortedUnique checkpointIds))"

definition assertUniqueNewAttempts :: "kernel_attempt list \<Rightarrow> kernel_run \<Rightarrow> unit result" where
  "assertUniqueNewAttempts attempts run =
     (let ids = map ka_id attempts; scopes = map (attemptScopeKey \<circ> ka_scope) attempts in
      if length (remdups ids) \<noteq> length ids then throwT NewAttemptIdsNotUnique
      else
        bindE (forE (\<lambda>i. if map_of (kr_active_attempt_versions run) i \<noteq> None
                         then throwT (NewAttemptActive i) else Inr ()) ids) (\<lambda>_.
        if length (remdups scopes) \<noteq> length scopes then throwT NewScopesNotUnique else Inr ()))"

section \<open>Ending a run\<close>

fun attempt_outcome :: "terminal_outcome \<Rightarrow> attempt_state" where
  "attempt_outcome NeedsHuman = AttemptNeedsHuman"
| "attempt_outcome Canceled = AttemptCanceled"
| "attempt_outcome Superseded = AttemptSuperseded"
| "attempt_outcome _ = AttemptFailed"

definition terminalAttemptWrites ::
  "kernel_run \<Rightarrow> kernel_attempt option \<Rightarrow> attempt_state \<Rightarrow> attempt_write list" where
  "terminalAttemptWrites run current status =
     attemptWriteOrder (map (\<lambda>(attemptId, version).
       case current of
         Some a \<Rightarrow>
           if ka_id a = attemptId then
             ReplaceWrite (a\<lparr>ka_status := status, ka_version := ka_version a + 1, ka_lease := None,
               ka_result_record_id := None, ka_decision_record_id := None,
               ka_result_correction_deadline := None, ka_pending_result := None\<rparr>)
           else TerminalWrite attemptId version (version + 1) status
       | None \<Rightarrow> TerminalWrite attemptId version (version + 1) status)
       (kr_active_attempt_versions run))"

definition terminalRun :: "kernel_run \<Rightarrow> terminal_outcome \<Rightarrow> kernel_run" where
  "terminalRun run outcome =
     run\<lparr>kr_status := RunEnded outcome, kr_terminal_outcome := Some outcome,
         kr_version := kr_version run + 1,
         kr_cursor := (kr_cursor run)\<lparr>cu_stage_id := None, cu_version := cu_version (kr_cursor run) + 1,
           cu_frontier := [], cu_barrier := None\<rparr>,
         kr_active_attempt_versions := [], kr_active_effect_versions := []\<rparr>"

end
