(* ===== verification/ReducerWork.thy ===== *)
theory ReducerWork
  imports ReducerBase
begin

text \<open>
  The command handlers of \<open>reducer.ts\<close> that replace exactly one attempt: start, binding of a
  runtime session, completion of work, pending and recorded results, external scheduling and
  subject advance, and retry.
\<close>

abbreviation (input) throwX :: "external_error \<Rightarrow> 'a result" where
  "throwX e \<equiv> Inl (ExternalError e)"

text \<open>The bundle every handler of this theory returns.\<close>

definition attempt_bundle ::
  "reducer_input \<Rightarrow> kernel_attempt \<Rightarrow> kernel_attempt \<Rightarrow> kernel_run \<Rightarrow> execution_record list \<Rightarrow>
     attempt_checkpoint list \<Rightarrow> effect_intent list \<Rightarrow> transition_bundle result" where
  "attempt_bundle input attempt next run records checkpoints effects =
     sealed (ri_command input) (attempt_expected (ri_run input) attempt) run [ReplaceWrite next] []
       records checkpoints effects"

section \<open>start, bind_runtime_session\<close>

definition start :: "reducer_input \<Rightarrow> string \<Rightarrow> string \<Rightarrow> transition_bundle result" where
  "start input attempt_id lease_id =
     bindE (assertAttemptCommandMapsEmpty input) (\<lambda>_.
     bindE (currentAttempt input attempt_id) (\<lambda>attempt.
     case ka_lease attempt of
       None \<Rightarrow> throwW (StartLeaseFence (ka_id attempt))
     | Some lease \<Rightarrow>
         if le_id lease \<noteq> lease_id then throwW (StartLeaseFence (ka_id attempt))
         else if le_started lease then throwW (LeaseAlreadyStarted (ka_id attempt))
         else if ka_status attempt \<noteq> Pending \<and> ka_status attempt \<noteq> ResultPending
           then throwW (CannotStartFrom (ka_id attempt))
         else
           (let next = attempt\<lparr>ka_status := (if le_purpose lease = WorkLease then Running else ResultPending),
                         ka_version := ka_version attempt + 1,
                         ka_lease := Some (lease\<lparr>le_started := True\<rparr>)\<rparr> in
            attempt_bundle input attempt next (replaceAttempt (ri_run input) next) [] [] [])))"

definition assertSessionBindVersion :: "int \<Rightarrow> int \<Rightarrow> string \<Rightarrow> unit result" where
  "assertSessionBindVersion v expected name =
     (if \<not> isSafeInteger v \<or> v \<noteq> expected then throwW (VersionFence name) else Inr ())"

definition session_lease_matches :: "attempt_lease option \<Rightarrow> bind_session_fields \<Rightarrow> bool" where
  "session_lease_matches lease c =
     (case lease of
        None \<Rightarrow> False
      | Some l \<Rightarrow> le_id l = bs_lease_id c \<and> le_worker_id l = bs_worker_id c \<and>
          le_purpose l = bs_lease_purpose c \<and> le_expires_at l = bs_expected_lease_expires_at c)"

definition bindRuntimeSession :: "reducer_input \<Rightarrow> bind_session_fields \<Rightarrow> transition_bundle result" where
  "bindRuntimeSession input c =
     bindE (assertAttemptCommandMapsEmpty input) (\<lambda>_.
     bindE (currentAttempt input (bs_attempt_id c)) (\<lambda>attempt.
     bindE (assertSessionBindVersion (bs_expected_run_version c) (kr_version (ri_run input)) ''run'') (\<lambda>_.
     bindE (assertSessionBindVersion (bs_expected_cursor_version c)
              (cu_version (kr_cursor (ri_run input))) ''cursor'') (\<lambda>_.
     bindE (assertSessionBindVersion (bs_expected_attempt_version c) (ka_version attempt) ''attempt'') (\<lambda>_.
     if bs_request_hash c \<noteq> ka_request_hash attempt \<or>
        bs_definition_bundle_hash c \<noteq> ka_definition_bundle_hash attempt \<or>
        bs_definition_bundle_hash c \<noteq> kr_definition_bundle_hash (ri_run input) \<or>
        bs_input_subject c \<noteq> ka_input_subject attempt
       then throwW IdentityFence
     else if bs_expected_work_retry_ordinal c \<noteq> ka_work_retry_ordinal attempt \<or>
        bs_expected_result_correction_count c \<noteq> ka_result_correction_count attempt
       then throwW RetryOrdinalFence
     else if \<not> session_lease_matches (ka_lease attempt) c then throwW LeaseFence
     else if \<not> le_started (the (ka_lease attempt)) \<or> le_purpose (the (ka_lease attempt)) \<noteq> WorkLease \<or>
        ka_status attempt \<noteq> Running
       then throwW NeedsStartedWorkLease
     else if ka_native_session_id attempt \<noteq> None then throwW (AlreadyBound (ka_id attempt))
     else if \<not> NATIVE_SESSION_ID (bs_native_session_id c) then throwW InvalidNativeSession
     else
       (let next = attempt\<lparr>ka_native_session_id := Some (bs_native_session_id c),
                     ka_version := ka_version attempt + 1\<rparr> in
        attempt_bundle input attempt next (replaceAttempt (ri_run input) next) [] [] []))))))"

section \<open>work_complete\<close>

definition checkpointOwner :: "kernel_run \<Rightarrow> string \<Rightarrow> string \<Rightarrow> (string \<times> string) option" where
  "checkpointOwner run checkpointId attemptId =
     find (\<lambda>(owner, owned). owned = checkpointId \<and> owner \<noteq> attemptId) (kr_checkpoint_ids run)"

definition with_checkpoint :: "kernel_run \<Rightarrow> kernel_run \<Rightarrow> string \<Rightarrow> string \<Rightarrow> kernel_run" where
  "with_checkpoint before next attemptId checkpointId =
     next\<lparr>kr_checkpoint_ids := sortedRecord (AList.update attemptId checkpointId (kr_checkpoint_ids before))\<rparr>"

definition started_work :: "kernel_attempt \<Rightarrow> bool" where
  "started_work attempt =
     (case ka_lease attempt of None \<Rightarrow> False | Some l \<Rightarrow> le_purpose l = WorkLease \<and> le_started l)"

definition workComplete ::
  "reducer_input \<Rightarrow> string \<Rightarrow> string \<Rightarrow> string option \<Rightarrow> string option \<Rightarrow> transition_bundle result" where
  "workComplete input attempt_id checkpoint_id verified_output_subject resultRecordId =
     bindE (assertExactMap (ri_records input)
              (case resultRecordId of None \<Rightarrow> [] | Some r \<Rightarrow> [r]) ''record map'') (\<lambda>_.
     bindE (currentAttempt input attempt_id) (\<lambda>attempt.
     if ka_status attempt \<noteq> Running \<or> \<not> started_work attempt
       then throwW (WorkLeaseNotCompleted (ka_id attempt))
     else
       bindE (stageFor (ri_manifest input) (scope_stage_id (ka_scope attempt))) (\<lambda>stage.
       bindE (exactCheckpoint input checkpoint_id) (\<lambda>checkpoint.
       bindE (assertCheckpointIdentity checkpoint attempt stage) (\<lambda>_.
       if checkpointOwner (ri_run input) (ck_id checkpoint) (ka_id attempt) \<noteq> None
         then throwW (CheckpointOwned (ck_id checkpoint))
       else if ka_repository_authority attempt = EditAuthority \<and>
          (verified_output_subject = None \<or> ck_output_subject checkpoint \<noteq> verified_output_subject)
         then throwW EditNeedsSubject
       else if ka_repository_authority attempt \<noteq> EditAuthority \<and>
          (verified_output_subject \<noteq> None \<or> ck_output_subject checkpoint \<noteq> None)
         then throwW InspectCannotAdvance
       else
         (let next = attempt\<lparr>ka_status := WorkComplete, ka_version := ka_version attempt + 1,
                       ka_lease := None, ka_output_subject := verified_output_subject,
                       ka_native_session_id := ck_native_session_id checkpoint,
                       ka_checkpoint_id := Some (ck_id checkpoint), ka_result_record_id := resultRecordId\<rparr> in
          bindE (case resultRecordId of
                   None \<Rightarrow> Inr []
                 | Some r \<Rightarrow> bindE (recordForAttempt input next r) (\<lambda>res. Inr [ResultRec res])) (\<lambda>records.
          attempt_bundle input attempt next
            (with_checkpoint (ri_run input) (replaceAttempt (ri_run input) next) (ka_id attempt) (ck_id checkpoint))
            records [checkpoint] [])))))))"

section \<open>schedule_external\<close>

definition EXTERNAL_PHASE :: "string \<Rightarrow> bool" where
  "EXTERNAL_PHASE s = segments ''._/-'' s"

definition externalScheduleSemanticKey :: "string \<Rightarrow> string \<Rightarrow> string" where
  "externalScheduleSemanticKey attemptId phase = ''external-schedule:'' @ attemptId @ '':'' @ phase"

fun confirmed_delivery :: "execution_record \<Rightarrow> bool" where
  "confirmed_delivery (DeliveryRec d) = (dl_status d = Confirmed)"
| "confirmed_delivery _ = False"

definition assertExternalScheduleDecision ::
  "decision_authorization \<Rightarrow> kernel_attempt \<Rightarrow> string \<Rightarrow> bool \<Rightarrow> unit result" where
  "assertExternalScheduleDecision authorization attempt phase first_phase =
     (let decision = da_decision authorization in
      if \<not> EXTERNAL_PHASE phase \<or> length phase > 100 \<or> dr_reducer decision \<noteq> EXTERNAL_SCHEDULE_REDUCER \<or>
         rb_payload_schema decision \<noteq> EXTERNAL_SCHEDULE_PAYLOAD_SCHEMA \<or>
         inline_object (rb_payload decision) = None
        then throwX InvalidPhaseIdentity
      else
        (let payload = the (inline_object (rb_payload decision)) in
         if map_of payload ''schema'' \<noteq> Some (JStr EXTERNAL_SCHEDULE_PAYLOAD_SCHEMA) \<or>
            map_of payload ''semantic_key'' \<noteq>
              Some (JStr (externalScheduleSemanticKey (ka_id attempt) phase)) \<or>
            map_of payload ''attempt_id'' \<noteq> Some (JStr (ka_id attempt)) \<or>
            map_of payload ''phase'' \<noteq> Some (JStr phase)
           then throwX WrongSemanticKey
         else
           (let cited = filter (\<lambda>r. rec_id r \<noteq> rb_id decision) (da_exact_records authorization) in
            if first_phase then (if cited \<noteq> [] then throwX FirstPhaseCites else Inr ())
            else if cited = [] \<or> list_ex (\<lambda>r. \<not> confirmed_delivery r) cited
              then throwX LaterPhaseMustCite
            else Inr ())))"

text \<open>
  The effects of a transition: authorised one by one, in canonical order, with unique identities
  and keys, none of them active yet, and each on the accepted subject.  Scheduling and
  settlement share this part.
\<close>

definition authorized_effects ::
  "kernel_run \<Rightarrow> decision_record \<Rightarrow> string \<Rightarrow> effect_intent list \<Rightarrow> (effect_intent list) result" where
  "authorized_effects run decision acceptedSubject intents =
     bindE (mapE (\<lambda>intent. authorizeEffectIntent intent decision (kr_id run)) intents) (\<lambda>authorized.
     let effects = sort_key ei_id authorized; ids = map ei_id effects; idem = map ei_idempotency_key effects in
     if length (remdups ids) \<noteq> length ids then throwX DuplicateEffectIds
     else if length (remdups idem) \<noteq> length idem then throwX DuplicateEffectKeys
     else
       bindE (forE (\<lambda>effect.
                if map_of (kr_active_effect_versions run) (ei_id effect) \<noteq> None
                  then throwX (EffectAlreadyActive (ei_id effect))
                else if ei_subject effect \<noteq> None \<and> ei_subject effect \<noteq> Some acceptedSubject
                  then throwX (EffectOtherSubject (ei_id effect))
                else Inr ()) effects) (\<lambda>_.
       Inr effects))"

text \<open>\<open>for (const effect of effects) activeEffects[effect.id] = 0\<close>\<close>

definition activate_effects :: "effect_intent list \<Rightarrow> int dict \<Rightarrow> int dict" where
  "activate_effects effects active = fold (\<lambda>e d. AList.update (ei_id e) 0 d) effects active"

definition schedule_subject_checks ::
  "kernel_run \<Rightarrow> pipeline_stage \<Rightarrow> kernel_attempt \<Rightarrow> attempt_checkpoint \<Rightarrow> string option \<Rightarrow> bool \<Rightarrow>
     unit result" where
  "schedule_subject_checks run stage attempt checkpoint verified firstPhase =
     (if is_wait_kind (st_kind stage) \<and> verified \<noteq> None then throwX WaitMustPreserve
      else if ck_output_subject checkpoint \<noteq> verified then throwX CheckpointSubjectMismatch
      else if \<not> firstPhase \<and> ka_output_subject attempt \<noteq> verified then throwX LaterPhaseChangesSubject
      else if checkpointOwner run (ck_id checkpoint) (ka_id attempt) \<noteq> None
        then throwW (CheckpointOwned (ck_id checkpoint))
      else Inr ())"

definition scheduleExternal :: "reducer_input \<Rightarrow> schedule_fields \<Rightarrow> transition_bundle result" where
  "scheduleExternal input c =
     (let run = ri_run input; verified = se_verified_output_subject c in
      bindE (currentAttempt input (se_attempt_id c)) (\<lambda>attempt.
      bindE (stageFor (ri_manifest input) (scope_stage_id (ka_scope attempt))) (\<lambda>stage.
      let firstPhase = (ka_status attempt = Running) in
      if \<not> is_effect_kind (st_kind stage) \<and> \<not> is_wait_kind (st_kind stage)
        then throwX (NotExternalStage (ka_id attempt))
      else if firstPhase \<and> (\<not> started_work attempt \<or> ka_checkpoint_id attempt \<noteq> None)
        then throwX (NotStartedWorkLease (ka_id attempt))
      else if \<not> firstPhase \<and> (ka_status attempt \<noteq> WorkComplete \<or> ka_lease attempt \<noteq> None \<or>
              ka_checkpoint_id attempt \<noteq> Some (se_checkpoint_id c))
        then throwX (CannotScheduleFrom (ka_id attempt))
      else
        bindE (exactCheckpoint input (se_checkpoint_id c)) (\<lambda>checkpoint.
        bindE (assertCheckpointIdentity checkpoint attempt stage) (\<lambda>_.
        bindE (schedule_subject_checks run stage attempt checkpoint verified firstPhase) (\<lambda>_.
        bindE (exactDecision input (se_decision_record_id c)) (\<lambda>authorization.
        bindE (assertExternalScheduleDecision authorization attempt (se_phase c) firstPhase) (\<lambda>_.
        if se_effect_intents c = [] \<or> int (length (se_effect_intents c)) > MAX_EXTERNAL_EFFECTS_PER_PHASE
          then throwX EffectCount
        else
          (let acceptedSubject = (case verified of None \<Rightarrow> kr_current_subject run | Some s \<Rightarrow> s) in
           bindE (authorized_effects run (da_decision authorization) acceptedSubject
                    (se_effect_intents c)) (\<lambda>effects.
           let next = attempt\<lparr>ka_status := WorkComplete, ka_version := ka_version attempt + 1,
                        ka_lease := None, ka_output_subject := verified, ka_native_session_id := None,
                        ka_checkpoint_id := Some (ck_id checkpoint)\<rparr>;
               nextRun = (with_checkpoint run (replaceAttempt run next) (ka_id attempt) (ck_id checkpoint))
                 \<lparr>kr_active_effect_versions :=
                    sortedRecord (activate_effects effects (kr_active_effect_versions run))\<rparr> in
           attempt_bundle input attempt next nextRun [DecisionRec (da_decision authorization)]
             (if firstPhase then [checkpoint] else []) effects))))))))))"

section \<open>advance_external_subject\<close>

fun object_field :: "json dict \<Rightarrow> string \<Rightarrow> (json dict) option" where
  "object_field es k = (case map_of es k of Some (JObj fs) \<Rightarrow> Some fs | _ \<Rightarrow> None)"

definition publicationParentFromPlanningCheckpoint :: "attempt_checkpoint \<Rightarrow> string result" where
  "publicationParentFromPlanningCheckpoint checkpoint =
     (case inline_object (ck_payload checkpoint) of
        None \<Rightarrow> throwX NotOrdinalZeroEvidence
      | Some payload \<Rightarrow>
          if ck_payload_schema checkpoint \<noteq> ''openthrottle.external-boundary-checkpoint/v1'' \<or>
             map_of payload ''schema'' \<noteq> Some (JStr ''openthrottle.external-boundary-checkpoint/v1'') \<or>
             map_of payload ''external_kind'' \<noteq> Some (JStr ''core/publish@1'') \<or>
             map_of payload ''subject_policy'' \<noteq> Some (JStr ''advance'')
            then throwX NotOrdinalZeroEvidence
          else (case object_field payload ''evidence'' of
            None \<Rightarrow> throwX NotOrdinalZeroEvidence
          | Some evidence \<Rightarrow>
              (case map_of evidence ''publication_parent_subject'' of
                 Some (JStr parent) \<Rightarrow>
                   if \<not> GIT_SUBJECT parent then throwX NoPublicationParent else Inr parent
               | _ \<Rightarrow> throwX NoPublicationParent)))"

definition proves_subject_advance ::
  "attempt_checkpoint \<Rightarrow> attempt_checkpoint \<Rightarrow> string \<Rightarrow> bool" where
  "proves_subject_advance prior checkpoint verified \<longleftrightarrow>
     ck_output_subject prior = None \<and> ck_output_subject checkpoint = Some verified \<and>
     GIT_SUBJECT verified \<and> ck_id checkpoint \<noteq> ck_id prior \<and>
     ck_payload_schema checkpoint = ''openthrottle.git-checkpoint-bundle/v1'' \<and>
     (case ck_payload checkpoint of
        Blob blob \<Rightarrow> bp_encoding blob = Binary \<and> bp_media_type blob = ''application/x-git-bundle''
      | Inline _ \<Rightarrow> False)"

fun payload_blob_json :: "record_payload \<Rightarrow> json option" where
  "payload_blob_json (Blob blob) = Some (json_of_blob blob)"
| "payload_blob_json (Inline _) = None"

definition integration_evidence ::
  "kernel_run \<Rightarrow> kernel_attempt \<Rightarrow> attempt_checkpoint \<Rightarrow> delivery_record \<Rightarrow> string \<Rightarrow> string \<Rightarrow>
     json dict \<Rightarrow> json dict \<Rightarrow> bool" where
  "integration_evidence run attempt checkpoint delivery expectedInput verified envelope evidence \<longleftrightarrow>
     map_of envelope ''effect_kind'' = Some (JStr ''daytona/integrate-checkpoint@1'') \<and>
     map_of envelope ''provider'' = Some (JStr ''daytona'') \<and>
     map_of evidence ''schema'' = Some (JStr ''openthrottle.daytona-integration-delivery/v1'') \<and>
     map_of evidence ''state'' = Some (JStr ''integrated'') \<and>
     map_of evidence ''pipeline_run_id'' = Some (JStr (kr_id run)) \<and>
     map_of evidence ''attempt_id'' = Some (JStr (ka_id attempt)) \<and>
     map_of evidence ''effect_id'' = Some (JStr (dl_effect_id delivery)) \<and>
     map_of evidence ''idempotency_key'' = Some (JStr (dl_idempotency_key delivery)) \<and>
     map_of evidence ''input_subject'' = Some (JStr expectedInput) \<and>
     map_of evidence ''output_subject'' = Some (JStr verified) \<and>
     map_of evidence ''checkpoint_id'' = Some (JStr (ck_id checkpoint)) \<and>
     map_of evidence ''checkpoint_payload_schema'' = Some (JStr (ck_payload_schema checkpoint)) \<and>
     map_option stringify (map_of evidence ''checkpoint_blob'') =
       map_option stringify (payload_blob_json (ck_payload checkpoint))"

definition assertIntegrationDelivery ::
  "reducer_input \<Rightarrow> kernel_attempt \<Rightarrow> attempt_checkpoint \<Rightarrow> string \<Rightarrow> string \<Rightarrow> string \<Rightarrow> unit result" where
  "assertIntegrationDelivery input attempt checkpoint expectedInput verified deliveryId =
     bindE (assertExactMap (ri_records input) [deliveryId] ''record map'') (\<lambda>_.
     case map_of (ri_records input) deliveryId of
       Some (DeliveryRec delivery) \<Rightarrow>
         if dl_status delivery \<noteq> Confirmed \<or> rb_pipeline_run_id delivery \<noteq> kr_id (ri_run input) \<or>
            rb_payload_schema delivery \<noteq> ''openthrottle.effect-delivery/v1'' \<or>
            inline_object (rb_payload delivery) = None
           then throwX NoConfirmedDelivery
         else
           (let envelope = the (inline_object (rb_payload delivery)) in
            case object_field envelope ''result'' of
              None \<Rightarrow> throwX NoMaterializedResult
            | Some evidence \<Rightarrow>
                if \<not> integration_evidence (ri_run input) attempt checkpoint delivery expectedInput verified
                       envelope evidence
                  then throwX DeliveryChangedIdentity
                else Inr ())
     | _ \<Rightarrow> throwX NoConfirmedDelivery)"

definition is_publication :: "pipeline_stage \<Rightarrow> bool" where
  "is_publication stage \<longleftrightarrow> st_kind stage = EffectStage ''core/publish@1''"

definition is_integration :: "pipeline_stage \<Rightarrow> bool" where
  "is_integration stage \<longleftrightarrow> st_kind stage = EffectStage ''core/integrate-unit@1''"

definition checkpoint_at :: "reducer_input \<Rightarrow> string \<Rightarrow> attempt_checkpoint result" where
  "checkpoint_at input i =
     (case map_of (ri_checkpoints input) i of None \<Rightarrow> throwW (MissingCheckpoint i) | Some c \<Rightarrow> Inr c)"

definition advanceExternalSubject :: "reducer_input \<Rightarrow> advance_fields \<Rightarrow> transition_bundle result" where
  "advanceExternalSubject input c =
     (let run = ri_run input; verified = av_verified_output_subject c in
      bindE (currentAttempt input (av_attempt_id c)) (\<lambda>attempt.
      bindE (stageFor (ri_manifest input) (scope_stage_id (ka_scope attempt))) (\<lambda>stage.
      if \<not> is_integration stage \<and> \<not> is_publication stage \<or> ka_status attempt \<noteq> WorkComplete \<or>
         ka_lease attempt \<noteq> None \<or> ka_output_subject attempt \<noteq> None \<or>
         ka_checkpoint_id attempt \<noteq> Some (av_prior_checkpoint_id c) \<or> kr_active_effect_versions run \<noteq> []
        then throwX NotReadyForAdvance
      else
        bindE (assertExactMap (ri_checkpoints input) [av_prior_checkpoint_id c, av_checkpoint_id c]
                 ''checkpoint map'') (\<lambda>_.
        bindE (checkpoint_at input (av_prior_checkpoint_id c)) (\<lambda>prior.
        bindE (checkpoint_at input (av_checkpoint_id c)) (\<lambda>checkpoint.
        bindE (assertCheckpointIdentity prior attempt stage) (\<lambda>_.
        bindE (if is_publication stage then publicationParentFromPlanningCheckpoint prior
               else Inr (ka_input_subject attempt)) (\<lambda>expectedDeliveryInput.
        bindE (assertCheckpointIdentity checkpoint attempt stage) (\<lambda>_.
        if \<not> proves_subject_advance prior checkpoint verified then throwX NotOneSubjectAdvance
        else
          bindE (assertIntegrationDelivery input attempt checkpoint expectedDeliveryInput verified
                   (av_delivery_record_id c)) (\<lambda>_.
          let next = attempt\<lparr>ka_version := ka_version attempt + 1, ka_output_subject := Some verified,
                       ka_checkpoint_id := Some (ck_id checkpoint)\<rparr>;
              nextRun = replaceAttempt run next;
              promoted = (if is_publication stage then nextRun\<lparr>kr_current_subject := verified\<rparr>
                          else nextRun) in
          attempt_bundle input attempt next
            (with_checkpoint run promoted (ka_id attempt) (ck_id checkpoint)) [] [checkpoint] []))))))))))"

section \<open>result_pending, record, retry\<close>

definition normalizedDiagnostics :: "result_diagnostic list \<Rightarrow> (result_diagnostic list) result" where
  "normalizedDiagnostics diagnostics =
     (if diagnostics = [] then throwW NoDiagnostics
      else if list_ex (\<lambda>d. di_path d = [] \<or> di_detail d = []) diagnostics
        then throwW DiagnosticIncomplete
      else Inr (sort_key (\<lambda>d. (di_path d, di_detail d)) diagnostics))"

text \<open>
  The pattern of the code and \<open>new Date(s).toISOString() === s\<close>: a calendar date with a time of
  day and three digits of milliseconds, in UTC.
\<close>

definition ISO_TIMESTAMP :: "string \<Rightarrow> bool" where
  "ISO_TIMESTAMP s \<longleftrightarrow> length s = 24 \<and> take 1 (drop 19 s) = ''.'' \<and> drop 23 s = ''Z'' \<and> iso8601_valid s"

fun started_correction :: "attempt_lease option \<Rightarrow> bool" where
  "started_correction None = False"
| "started_correction (Some l) = (le_purpose l = CorrectionLease \<and> le_started l)"

definition resultPending :: "reducer_input \<Rightarrow> result_pending_fields \<Rightarrow> transition_bundle result" where
  "resultPending input c =
     bindE (assertExactMap (ri_records input) [rp_invalid_result_evidence_record_id c] ''record map'') (\<lambda>_.
     bindE (currentAttempt input (rp_attempt_id c)) (\<lambda>attempt.
     let retryingCorrection = ka_status attempt = ResultPending \<and> started_correction (ka_lease attempt) in
     if ka_status attempt \<noteq> WorkComplete \<and> \<not> retryingCorrection \<or> \<not> truthy (ka_checkpoint_id attempt)
       then throwW (CannotEnterResultPending (ka_id attempt))
     else
       bindE (exactCheckpoint input (the (ka_checkpoint_id attempt))) (\<lambda>checkpoint.
       bindE (stageFor (ri_manifest input) (scope_stage_id (ka_scope attempt))) (\<lambda>stage.
       bindE (assertCheckpointIdentity checkpoint attempt stage) (\<lambda>_.
       if rp_candidate_hash c \<noteq> None \<and> \<not> SHA256 (the (rp_candidate_hash c)) then throwW InvalidCandidateHash
       else if \<not> truthy (ka_native_session_id attempt) then throwW (NoNativeSession (ka_id attempt))
       else if \<not> ISO_TIMESTAMP (rp_correction_deadline c) then throwW InvalidDeadline
       else if ka_result_correction_deadline attempt \<noteq> None \<and>
               ka_result_correction_deadline attempt \<noteq> Some (rp_correction_deadline c)
         then throwW DeadlineChanged
       else (case map_of (ri_records input) (rp_invalid_result_evidence_record_id c) of
         Some (DecisionRec evidence) \<Rightarrow>
           bindE (assertExactInvalidResultEvidenceRecord attempt (rp_invalid_result_evidence c) evidence) (\<lambda>_.
           bindE (normalizedDiagnostics (rp_diagnostics c)) (\<lambda>diagnostics.
           let next = attempt\<lparr>ka_status := ResultPending, ka_version := ka_version attempt + 1,
                        ka_lease := None, ka_result_correction_deadline := Some (rp_correction_deadline c),
                        ka_pending_result := Some \<lparr>pe_candidate_hash = rp_candidate_hash c,
                          pe_diagnostics = diagnostics,
                          pe_invalid_result_evidence = Some (rp_invalid_result_evidence c)\<rparr>\<rparr> in
           attempt_bundle input attempt next (replaceAttempt (ri_run input) next)
             [DecisionRec evidence] [] []))
       | _ \<Rightarrow> throwW NoInvalidEvidence))))))"

definition record_result :: "reducer_input \<Rightarrow> string \<Rightarrow> string \<Rightarrow> transition_bundle result" where
  "record_result input attempt_id record_id =
     bindE (currentAttempt input attempt_id) (\<lambda>attempt.
     if ka_status attempt \<noteq> WorkComplete \<and> ka_status attempt \<noteq> ResultPending
       then throwW (CannotRecordFrom (ka_id attempt))
     else if \<not> truthy (ka_checkpoint_id attempt) then throwW (NoVerifiedCheckpoint (ka_id attempt))
     else
       bindE (stageFor (ri_manifest input) (scope_stage_id (ka_scope attempt))) (\<lambda>stage.
       bindE (exactCheckpoint input (the (ka_checkpoint_id attempt))) (\<lambda>checkpoint.
       bindE (assertCheckpointIdentity checkpoint attempt stage) (\<lambda>_.
       bindE (recordForAttempt input attempt record_id) (\<lambda>res.
       bindE (assertRecordableResult input attempt res) (\<lambda>_.
       let next = attempt\<lparr>ka_status := Recorded, ka_version := ka_version attempt + 1, ka_lease := None,
                    ka_result_record_id := Some (rb_id res), ka_pending_result := None\<rparr> in
       attempt_bundle input attempt next (replaceAttempt (ri_run input) next)
         (if ka_result_record_id attempt = None then [ResultRec res] else []) [] []))))))"

definition valid_forensics :: "kernel_attempt \<Rightarrow> execution_record option \<Rightarrow> bool" where
  "valid_forensics attempt rec =
     (case rec of
        Some (DecisionRec d) \<Rightarrow>
          dr_reducer d = ATTEMPT_FORENSICS_REDUCER \<and> rb_pipeline_run_id d = ka_pipeline_run_id attempt \<and>
          rb_payload_schema d = ''openthrottle.attempt-forensics/v1'' \<and> dr_input_record_ids d = [] \<and>
          (case rb_payload d of Blob _ \<Rightarrow> True | Inline _ \<Rightarrow> False) \<and>
          rb_id d = attemptForensicsRecordId attempt (ka_work_retry_ordinal attempt)
      | _ \<Rightarrow> False)"

definition retry :: "reducer_input \<Rightarrow> string \<Rightarrow> string option \<Rightarrow> transition_bundle result" where
  "retry input attempt_id forensics_record_id =
     bindE (assertExactMap (ri_records input)
              (case forensics_record_id of None \<Rightarrow> [] | Some r \<Rightarrow> [r]) ''record map'') (\<lambda>_.
     bindE (assertExactMap (ri_checkpoints input) [] ''checkpoint map'') (\<lambda>_.
     bindE (currentAttempt input attempt_id) (\<lambda>attempt.
     if ka_status attempt \<noteq> Pending \<and> ka_status attempt \<noteq> Running
       then throwW (CannotRetryFrom (ka_id attempt))
     else if ka_work_retry_ordinal attempt \<ge> kr_work_retry_limit (ri_run input)
       then throwW (RetriesExhausted (ka_id attempt))
     else
       (let next = attempt\<lparr>ka_status := Pending, ka_version := ka_version attempt + 1,
                     ka_work_retry_ordinal := ka_work_retry_ordinal attempt + 1,
                     ka_native_session_id := None, ka_lease := None\<rparr>;
            forensics = (case forensics_record_id of None \<Rightarrow> None
                                                    | Some r \<Rightarrow> map_of (ri_records input) r) in
        if forensics_record_id \<noteq> None \<and> \<not> valid_forensics attempt forensics
          then throwW InvalidForensics
        else attempt_bundle input attempt next (replaceAttempt (ri_run input) next)
               (case forensics of None \<Rightarrow> [] | Some rec \<Rightarrow> [rec]) [] []))))"

end
