(* ===== verification/RuntimeResource.thy ===== *)
theory RuntimeResource
  imports KernelTypes
begin

text \<open>
  The sandbox pool of a run, derived only from sealed delivery records:
  \<open>supervisor/src/pipeline/kernel/runtime-resource.ts\<close>.
\<close>

abbreviation (input) throwR :: "runtime_error \<Rightarrow> 'a result" where
  "throwR e \<equiv> Inl (RuntimeError e)"

definition MAX_KERNEL_RUNTIME_POOL_SIZE :: int where
  "MAX_KERNEL_RUNTIME_POOL_SIZE = 16"

definition kernelRuntimePoolSize :: "compiled_manifest \<Rightarrow> int result" where
  "kernelRuntimePoolSize manifest =
     (let poolSize = foldl max 1 (map (\<lambda>s. case st_loop s of None \<Rightarrow> 1 | Some l \<Rightarrow> lb_max_parallel l)
                                   (cm_stages manifest)) in
      if \<not> isSafeInteger poolSize \<or> poolSize < 1 \<or> poolSize > MAX_KERNEL_RUNTIME_POOL_SIZE
        then throwR PoolSizeOutOfRange
      else Inr poolSize)"

section \<open>Observations\<close>

record resource_slot =
  rs_slot_index :: nat
  rs_runtime_identity :: string
  rs_provider_resource_id :: string
  rs_delivery_record_ids :: "string list"

record resource_pool =
  rpl_pool_size :: nat
  rpl_slots :: "resource_slot list"

record cleanup_target =
  ct_runtime_identity :: string
  ct_provider_resource_id :: string
  ct_delivery_records :: "delivery_record list"

datatype resource_effect = CreateSandbox | StartSandbox

record resource_evidence =
  re_record :: delivery_record
  re_effect :: resource_effect
  re_runtime_identity :: string
  re_sandbox_id :: "string option"
  re_resource_state :: "string option"

definition EFFECT_DELIVERY_SCHEMA :: string where
  "EFFECT_DELIVERY_SCHEMA = ''openthrottle.effect-delivery/v1''"

definition str_field :: "json \<Rightarrow> string \<Rightarrow> string option" where
  "str_field v k = (case jfield v k of Some (JStr s) \<Rightarrow> Some s | _ \<Rightarrow> None)"

definition sandboxEffect :: "json \<Rightarrow> resource_effect option" where
  "sandboxEffect payload =
     (if jfield payload ''effect_kind'' = Some (JStr ''daytona/create-sandbox@1'') then Some CreateSandbox
      else if jfield payload ''effect_kind'' = Some (JStr ''daytona/start-sandbox@1'') then Some StartSandbox
      else None)"

definition daytonaObservation :: "delivery_record \<Rightarrow> (resource_evidence option) result" where
  "daytonaObservation rec =
     (case rb_payload rec of
        Blob _ \<Rightarrow> Inr None
      | Inline payload \<Rightarrow>
          if rb_payload_schema rec \<noteq> EFFECT_DELIVERY_SCHEMA \<or> \<not> is_obj payload then Inr None
          else case sandboxEffect payload of
            None \<Rightarrow> Inr None
          | Some effect \<Rightarrow>
              if jfield payload ''provider'' \<noteq> Some (JStr ''daytona'')
                then throwR (ResourceOtherProvider (rb_id rec))
              else case jfield payload ''result'' of
                None \<Rightarrow> throwR (ResourceNoResult (rb_id rec))
              | Some res \<Rightarrow>
                  if \<not> is_obj res then throwR (ResourceNoResult (rb_id rec))
                  else case str_field res ''identity'' of
                    None \<Rightarrow> throwR (ResourceNoIdentity (rb_id rec))
                  | Some identity \<Rightarrow>
                      if \<not> SHA256 identity then throwR (ResourceNoIdentity (rb_id rec))
                      else let sandbox = (case str_field res ''sandbox_id'' of
                                            Some s \<Rightarrow> if s \<noteq> [] then Some s else None
                                          | None \<Rightarrow> None) in
                        if dl_status rec = Confirmed \<and> sandbox = None
                          then throwR (ResourceNoSandbox (rb_id rec))
                        else Inr (Some \<lparr>re_record = rec, re_effect = effect,
                               re_runtime_identity = identity, re_sandbox_id = sandbox,
                               re_resource_state = str_field res ''resource_state''\<rparr>))"

fun runtimeEvidence :: "execution_record list \<Rightarrow> (resource_evidence list) result" where
  "runtimeEvidence [] = Inr []"
| "runtimeEvidence (DeliveryRec d # rest) =
     bindE (daytonaObservation d) (\<lambda>observed.
     bindE (runtimeEvidence rest) (\<lambda>more.
     Inr (case observed of None \<Rightarrow> more | Some e \<Rightarrow> e # more)))"
| "runtimeEvidence (_ # rest) = runtimeEvidence rest"

text \<open>
  Grouping by runtime identity: the identities in canonical order, each with its evidence in
  record order.  \<open>None\<close> when there is no evidence.
\<close>

definition group_evidence :: "resource_evidence list \<Rightarrow> (string \<times> resource_evidence list) list" where
  "group_evidence evidence =
     map (\<lambda>i. (i, filter (\<lambda>e. re_runtime_identity e = i) evidence))
       (sortedUnique (map re_runtime_identity evidence))"

definition evidenceByRuntimeIdentity ::
  "execution_record list \<Rightarrow> ((string \<times> resource_evidence list) list option) result" where
  "evidenceByRuntimeIdentity records =
     bindE (runtimeEvidence records) (\<lambda>evidence.
     Inr (if evidence = [] then None else Some (group_evidence evidence)))"

abbreviation creates_of :: "resource_evidence list \<Rightarrow> resource_evidence list" where
  "creates_of \<equiv> filter (\<lambda>e. re_effect e = CreateSandbox)"

abbreviation starts_of :: "resource_evidence list \<Rightarrow> resource_evidence list" where
  "starts_of \<equiv> filter (\<lambda>e. re_effect e = StartSandbox)"

section \<open>The resource pool\<close>

definition resourceSlotFor :: "nat \<Rightarrow> resource_evidence list \<Rightarrow> resource_slot result" where
  "resourceSlotFor slotIndex entries =
     (case (creates_of entries, starts_of entries) of
        ([create], [start]) \<Rightarrow>
          (if dl_status (re_record create) \<noteq> Confirmed \<or> dl_status (re_record start) \<noteq> Confirmed
             then throwR NotOneCreateStartPair
           else if re_sandbox_id create \<noteq> re_sandbox_id start then throwR PairDifferentSandboxes
           else Inr \<lparr>rs_slot_index = slotIndex, rs_runtime_identity = re_runtime_identity create,
                  rs_provider_resource_id = the (re_sandbox_id create),
                  rs_delivery_record_ids = sort [rb_id (re_record create), rb_id (re_record start)]\<rparr>)
      | _ \<Rightarrow> throwR NotOneCreateStartPair)"

definition resolveKernelRuntimeResourcePool ::
  "execution_record list \<Rightarrow> (resource_pool option) result" where
  "resolveKernelRuntimeResourcePool records =
     bindE (evidenceByRuntimeIdentity records) (\<lambda>grouped.
     case grouped of
       None \<Rightarrow> Inr None
     | Some groups \<Rightarrow>
         if int (length groups) > MAX_KERNEL_RUNTIME_POOL_SIZE then throwR PoolTooLarge
         else
           bindE (mapiE (\<lambda>i g. resourceSlotFor i (snd g)) 0 groups) (\<lambda>slots.
           let sandboxIds = map rs_provider_resource_id slots in
           if length (remdups sandboxIds) \<noteq> length sandboxIds then throwR SandboxInTwoSlots
           else Inr (Some \<lparr>rpl_pool_size = length slots, rpl_slots = slots\<rparr>)))"

fun scope_member_index :: "attempt_scope \<Rightarrow> int" where
  "scope_member_index (StageScope _) = 0"
| "scope_member_index (LoopItemScope _ _ _ _ n) = n"
| "scope_member_index (FanoutMemberScope _ _ _ _ n) = n"

definition kernelRuntimeResourceSlotIndex :: "attempt_scope \<Rightarrow> int \<Rightarrow> int result" where
  "kernelRuntimeResourceSlotIndex scope poolSize =
     (if \<not> isSafeInteger poolSize \<or> poolSize < 1 \<or> poolSize > MAX_KERNEL_RUNTIME_POOL_SIZE
        then throwR PoolSizeUnsealed
      else case scope of
        StageScope _ \<Rightarrow> Inr 0
      | _ \<Rightarrow>
          (let memberIndex = scope_member_index scope in
           if \<not> isSafeInteger memberIndex \<or> memberIndex < 0 then throwR InvalidMemberIndex
           else Inr (memberIndex mod poolSize)))"

definition resolveKernelRuntimeResourceSlot ::
  "execution_record list \<Rightarrow> attempt_scope option \<Rightarrow> (resource_slot option) result" where
  "resolveKernelRuntimeResourceSlot records scope =
     bindE (resolveKernelRuntimeResourcePool records) (\<lambda>pool.
     case pool of
       None \<Rightarrow> Inr None
     | Some p \<Rightarrow>
         (case scope of
            None \<Rightarrow>
              (if rpl_pool_size p \<noteq> 1 then throwR ScopeRequired else Inr (Some (rpl_slots p ! 0)))
          | Some s \<Rightarrow>
              bindE (kernelRuntimeResourceSlotIndex s (int (rpl_pool_size p))) (\<lambda>i.
              Inr (Some (rpl_slots p ! nat i)))))"

text \<open>The wire-facing part of a slot; the provider is always \<open>daytona\<close>.\<close>

record resource_identity =
  ri_provider_resource_id :: string
  ri_delivery_record_ids :: "string list"

definition resolveKernelRuntimeResourceIdentity ::
  "execution_record list \<Rightarrow> attempt_scope option \<Rightarrow> (resource_identity option) result" where
  "resolveKernelRuntimeResourceIdentity records scope =
     bindE (resolveKernelRuntimeResourceSlot records scope) (\<lambda>slot.
     Inr (case slot of
            None \<Rightarrow> None
          | Some s \<Rightarrow> Some \<lparr>ri_provider_resource_id = rs_provider_resource_id s,
                            ri_delivery_record_ids = rs_delivery_record_ids s\<rparr>))"

text \<open>The two records of a slot, found again in the evidence.\<close>

definition slot_deliveries :: "resource_evidence list \<Rightarrow> string \<Rightarrow> delivery_record list" where
  "slot_deliveries evidence identity =
     (let entries = filter (\<lambda>e. re_runtime_identity e = identity) evidence in
      [re_record (hd (creates_of entries)), re_record (hd (starts_of entries))])"

definition exactKernelRuntimeResourcePoolDeliveries ::
  "execution_record list \<Rightarrow> (delivery_record list option) result" where
  "exactKernelRuntimeResourcePoolDeliveries records =
     bindE (resolveKernelRuntimeResourcePool records) (\<lambda>pool.
     case pool of
       None \<Rightarrow> Inr None
     | Some p \<Rightarrow>
         bindE (runtimeEvidence records) (\<lambda>evidence.
         Inr (Some (concat (map (\<lambda>slot. slot_deliveries evidence (rs_runtime_identity slot))
                              (rpl_slots p))))))"

definition exactKernelRuntimeResourceDeliveries ::
  "execution_record list \<Rightarrow> attempt_scope option \<Rightarrow> (delivery_record list option) result" where
  "exactKernelRuntimeResourceDeliveries records scope =
     bindE (resolveKernelRuntimeResourceSlot records scope) (\<lambda>slot.
     case slot of
       None \<Rightarrow> Inr None
     | Some s \<Rightarrow>
         bindE (runtimeEvidence records) (\<lambda>evidence.
         Inr (Some (slot_deliveries evidence (rs_runtime_identity s)))))"

section \<open>Cleanup and absence\<close>

definition cleanupTarget :: "string \<times> resource_evidence list \<Rightarrow> (cleanup_target option) result" where
  "cleanupTarget grp =
     (let entries = snd grp; starts = starts_of entries in
      case creates_of entries of
        [create] \<Rightarrow>
          (if length starts > 1 then throwR NotOneCreate
           else if dl_status (re_record create) \<noteq> Confirmed then
             (if starts \<noteq> [] then throwR StartWithoutCreate else Inr None)
           else
             (let sandboxId = the (re_sandbox_id create);
                  startId = (case starts of [] \<Rightarrow> None | s # _ \<Rightarrow> re_sandbox_id s) in
              if startId \<noteq> None \<and> startId \<noteq> Some sandboxId then throwR PairDifferentSandboxes
              else Inr (Some \<lparr>ct_runtime_identity = fst grp, ct_provider_resource_id = sandboxId,
                     ct_delivery_records = re_record create # map re_record starts\<rparr>)))
      | _ \<Rightarrow> throwR NotOneCreate)"

definition exactKernelRuntimeCleanupTargets ::
  "execution_record list \<Rightarrow> (cleanup_target list option) result" where
  "exactKernelRuntimeCleanupTargets records =
     bindE (evidenceByRuntimeIdentity records) (\<lambda>grouped.
     case grouped of
       None \<Rightarrow> Inr None
     | Some groups \<Rightarrow>
         if int (length groups) > MAX_KERNEL_RUNTIME_POOL_SIZE then throwR CleanupPoolTooLarge
         else
           bindE (mapE cleanupTarget groups) (\<lambda>found.
           let targets = List.map_filter id found; sandboxIds = map ct_provider_resource_id targets in
           if targets = [] then Inr None
           else if length (remdups sandboxIds) \<noteq> length sandboxIds then throwR CleanupSandboxTwice
           else Inr (Some targets)))"

definition exactKernelRuntimeCleanupDeliveries ::
  "execution_record list \<Rightarrow> (delivery_record list option) result" where
  "exactKernelRuntimeCleanupDeliveries records =
     bindE (exactKernelRuntimeCleanupTargets records) (\<lambda>targets.
     Inr (map_option (\<lambda>ts. concat (map ct_delivery_records ts)) targets))"

definition exactKernelRuntimeAbsenceDeliveries ::
  "execution_record list \<Rightarrow> (delivery_record list option) result" where
  "exactKernelRuntimeAbsenceDeliveries records =
     bindE (evidenceByRuntimeIdentity records) (\<lambda>grouped.
     case grouped of
       None \<Rightarrow> Inr None
     | Some groups \<Rightarrow>
         (let entries = concat (map snd groups); creates = creates_of entries; starts = starts_of entries in
          if creates = [] then throwR AbsenceNoCreate
          else if list_ex (\<lambda>e. dl_status (re_record e) = Confirmed) creates then Inr None
          else if starts \<noteq> [] \<or> length creates \<noteq> length groups then throwR AbsenceDuplicate
          else if list_ex (\<lambda>e. dl_status (re_record e) \<noteq> Rejected \<or>
                               re_resource_state e \<noteq> Some ''absent'') creates
            then throwR AbsenceNotRejected
          else Inr (Some (map re_record (sort_key re_runtime_identity creates)))))"

definition exactKernelRuntimeAbsenceDelivery ::
  "execution_record list \<Rightarrow> (delivery_record option) result" where
  "exactKernelRuntimeAbsenceDelivery records =
     bindE (exactKernelRuntimeAbsenceDeliveries records) (\<lambda>deliveries.
     case deliveries of
       None \<Rightarrow> Inr None
     | Some [d] \<Rightarrow> Inr (Some d)
     | Some _ \<Rightarrow> throwR AbsenceNotSingleton)"

end
