(* ===== verification/ReducerTerminal.thy ===== *)
theory ReducerTerminal
  imports ReducerWork RuntimeResource
begin

text \<open>
  The commands of \<open>reducer.ts\<close> that end the active attempts of a run: the quarantine of an
  exhausted recovery, and the terminal commands, which end the run before any sandbox exists and
  otherwise move it to the runtime stop stage of their outcome.
\<close>

abbreviation (input) throwZ :: "terminal_error \<Rightarrow> 'a result" where
  "throwZ e \<equiv> Inl (TerminalError e)"

section \<open>Quarantine of an exhausted recovery\<close>

definition quarantine_owner :: "kernel_run \<Rightarrow> kernel_attempt \<Rightarrow> quarantine_fields \<Rightarrow> bool" where
  "quarantine_owner run attempt c \<longleftrightarrow>
     \<not> run_ended (kr_status run) \<and> kr_terminal_outcome run = None \<and>
     cu_stage_id (kr_cursor run) \<noteq> None \<and>
     map_of (kr_active_attempt_versions run) (ka_id attempt) = Some (ka_version attempt) \<and>
     ka_pipeline_run_id attempt = kr_id run \<and>
     Some (scope_stage_id (ka_scope attempt)) = cu_stage_id (kr_cursor run) \<and>
     ka_status attempt \<in> {Pending, Running, ResultPending} \<and>
     (case ka_lease attempt of
        None \<Rightarrow> False
      | Some lease \<Rightarrow> le_id lease = qf_lease_id c \<and> le_generation lease = qf_lease_generation c \<and>
          le_worker_id lease = qf_worker_id c \<and> le_purpose lease = qf_lease_purpose c) \<and>
     qf_attempt_id c = ka_id attempt"

definition quarantine_diagnostic_valid :: "kernel_run \<Rightarrow> quarantine_fields \<Rightarrow> decision_record \<Rightarrow> bool" where
  "quarantine_diagnostic_valid run c diagnostic \<longleftrightarrow>
     1 \<le> length (qf_reason c) \<and> int (length (qf_reason c)) \<le> 1500 \<and> CHR 0x00 \<notin> set (qf_reason c) \<and>
     qf_decision_record_id c = rb_id diagnostic \<and> rb_pipeline_run_id diagnostic = kr_id run \<and>
     dr_reducer diagnostic = ''core/executor-recovery-quarantine@1'' \<and>
     dr_input_record_ids diagnostic = [] \<and>
     rb_payload_schema diagnostic = PIPELINE_DECISION_RECORD_PAYLOAD_SCHEMA \<and>
     inline_object (rb_payload diagnostic) \<noteq> None"

definition quarantine_evidence :: "kernel_attempt \<Rightarrow> quarantine_fields \<Rightarrow> decision_record \<Rightarrow> json dict \<Rightarrow> bool" where
  "quarantine_evidence attempt c diagnostic payload \<longleftrightarrow>
     sort (keys payload) = [''evaluator'', ''outcome'', ''reason'', ''schema'', ''stage_id''] \<and>
     map_of payload ''schema'' = Some (JStr PIPELINE_DECISION_RECORD_PAYLOAD_SCHEMA) \<and>
     map_of payload ''stage_id'' = Some (JStr (scope_stage_id (ka_scope attempt))) \<and>
     map_of payload ''evaluator'' = Some (JStr (dr_reducer diagnostic)) \<and>
     map_of payload ''outcome'' = Some (JStr ''needs_human'') \<and>
     map_of payload ''reason'' = Some (JStr (qf_reason c))"

text \<open>A quarantine is no evidence of cleanup: the unresolved effects stay visible.\<close>

definition quarantined_run :: "kernel_run \<Rightarrow> kernel_run" where
  "quarantined_run run =
     run\<lparr>kr_status := RunEnded NeedsHuman, kr_terminal_outcome := Some NeedsHuman,
         kr_version := kr_version run + 1,
         kr_cursor := (kr_cursor run)\<lparr>cu_stage_id := None, cu_version := cu_version (kr_cursor run) + 1,
           cu_frontier := [], cu_barrier := None\<rparr>,
         kr_active_attempt_versions := []\<rparr>"

definition reduceKernelRecoveryQuarantine ::
  "kernel_command \<Rightarrow> kernel_run \<Rightarrow> kernel_attempt \<Rightarrow> decision_record \<Rightarrow> quarantine_fields \<Rightarrow>
     transition_bundle result" where
  "reduceKernelRecoveryQuarantine command run attempt diagnostic c =
     (if \<not> quarantine_owner run attempt c then throwZ QuarantineNotOwner
      else if le_generation (the (ka_lease attempt)) < kr_work_retry_limit run
        then throwZ (RecoveryNotExhausted (ka_id attempt))
      else if \<not> quarantine_diagnostic_valid run c diagnostic then throwZ QuarantineDiagnosticInvalid
      else if \<not> quarantine_evidence attempt c diagnostic (the (inline_object (rb_payload diagnostic)))
        then throwZ QuarantineEvidenceChanged
      else sealed command (expectedFor run (kr_active_attempt_versions run)) (quarantined_run run)
             (map (\<lambda>(attemptId, version). TerminalWrite attemptId version (version + 1) AttemptNeedsHuman)
                (kr_active_attempt_versions run))
             [] [DecisionRec diagnostic] [] [])"

section \<open>Terminal commands\<close>

text \<open>The evidence of the frontier that a sandbox recovery preserves.\<close>

definition active_members :: "kernel_run \<Rightarrow> (string \<times> string list) list" where
  "active_members run =
     sort_key fst (map (\<lambda>m. (fm_attempt_id m, fm_depends_on m))
       (filter (\<lambda>m. map_of (kr_active_attempt_versions run) (fm_attempt_id m) \<noteq> None)
         (cu_frontier (kr_cursor run))))"

definition assertRecoveryFrontier ::
  "kernel_run \<Rightarrow> bool \<Rightarrow> sandbox_frontier_member list \<Rightarrow> unit result" where
  "assertRecoveryFrontier run sandboxRecovery recoveryFrontier =
     (if sandboxRecovery then
        (if map (\<lambda>m. (sm_attempt_id m, sm_depends_on m)) recoveryFrontier \<noteq> active_members run
           then throwZ RecoveryFrontierMismatch
         else if list_ex (\<lambda>m. rb_pipeline_run_id (sm_record m) \<noteq> kr_id run \<or>
                Some (sm_stage_id m) \<noteq> cu_stage_id (kr_cursor run)) recoveryFrontier
           then throwZ RecoveryFrontierForeign
         else Inr ())
      else if recoveryFrontier \<noteq> [] then throwZ RecoveryFrontierUnexpected
      else Inr ())"

definition preProvision ::
  "reducer_input \<Rightarrow> terminal_outcome \<Rightarrow> decision_authorization \<Rightarrow> transition_bundle result" where
  "preProvision input outcome authorization =
     (let run = ri_run input; decision = da_decision authorization in
      case ri_current_attempt input of
        None \<Rightarrow> throwZ PreProvisionUnproven
      | Some current \<Rightarrow>
          bindE (stageFor (ri_manifest input) (scope_stage_id (ka_scope current))) (\<lambda>stage.
          if \<not> is_provision_stage stage \<or> ka_checkpoint_id current \<noteq> None \<or>
             ka_output_subject current \<noteq> None \<or> kr_active_effect_versions run \<noteq> [] \<or>
             dr_input_record_ids decision \<noteq> []
            then throwZ PreProvisionUnproven
          else sealed (ri_command input) (expectedFor run (sortedRecord (kr_active_attempt_versions run)))
                 (terminalRun run outcome)
                 (terminalAttemptWrites run (Some current) (attempt_outcome outcome))
                 [] [DecisionRec decision] [] []))"

text \<open>The decision cites exactly the declared deliveries and diagnostics, apart from the recovery evidence.\<close>

definition cleanup_evidence_exact ::
  "decision_record \<Rightarrow> string list \<Rightarrow> string option \<Rightarrow> cleanup_fields \<Rightarrow> bool" where
  "cleanup_evidence_exact decision frontierRecordIds triggerId d \<longleftrightarrow>
     (let evidenceIds = sortedUnique (cf_runtime_delivery_record_ids d);
          diagnosticIds = sortedUnique (cf_diagnostic_record_ids d);
          newDiagnosticIds = sortedUnique (cf_new_diagnostic_record_ids d);
          decisionEvidenceIds = sort (filter (\<lambda>i. i \<notin> set frontierRecordIds \<and> Some i \<noteq> triggerId)
                                        (dr_input_record_ids decision)) in
      length evidenceIds = length (cf_runtime_delivery_record_ids d) \<and>
      length diagnosticIds = length (cf_diagnostic_record_ids d) \<and>
      length newDiagnosticIds = length (cf_new_diagnostic_record_ids d) \<and>
      list_all (\<lambda>i. i \<in> set diagnosticIds) newDiagnosticIds \<and>
      sort (evidenceIds @ diagnosticIds) = decisionEvidenceIds)"

definition exact_by_id :: "decision_authorization \<Rightarrow> string \<Rightarrow> execution_record option" where
  "exact_by_id authorization i = map_of (map (\<lambda>r. (rec_id r, r)) (da_exact_records authorization)) i"

definition assertCleanupDeliveries :: "decision_authorization \<Rightarrow> string list \<Rightarrow> unit result" where
  "assertCleanupDeliveries authorization evidenceIds =
     bindE (mapE (\<lambda>i. case exact_by_id authorization i of
              None \<Rightarrow> throwZ (CleanupMissingDelivery i) | Some rec \<Rightarrow> Inr rec) evidenceIds) (\<lambda>records.
     bindE (exactKernelRuntimeCleanupDeliveries records) (\<lambda>deliveries.
     if map_option (\<lambda>ds. sort (map rb_id ds)) deliveries \<noteq> Some evidenceIds
       then throwZ CleanupUnproven
     else Inr ()))"

definition assertCleanupAttempt ::
  "reducer_input \<Rightarrow> string \<Rightarrow> decision_record \<Rightarrow> kernel_attempt \<Rightarrow> unit result" where
  "assertCleanupAttempt input cleanupStageId decision cleanupAttempt =
     bindE (assertUniqueNewAttempts [cleanupAttempt] (ri_run input)) (\<lambda>_.
     bindE (assertPendingAttempt cleanupAttempt
              \<lparr>px_manifest = ri_manifest input, px_run = ri_run input, px_stage_id = cleanupStageId,
               px_input_subject = kr_current_subject (ri_run input)\<rparr>) (\<lambda>_.
     if ka_context_record_ids cleanupAttempt \<noteq> sortedUnique (rb_id decision # dr_input_record_ids decision) \<or>
        ka_context_checkpoint_ids cleanupAttempt \<noteq> []
       then throwZ CleanupAttemptContext
     else Inr ()))"

definition cleaning_run :: "kernel_run \<Rightarrow> string \<Rightarrow> kernel_attempt \<Rightarrow> kernel_run result" where
  "cleaning_run run cleanupStageId cleanupAttempt =
     bindE (compileKernelCursor cleanupStageId (cu_version (kr_cursor run) + 1) (cu_reentries (kr_cursor run))
              [cleanupAttempt] [] (cu_completed_scope_keys (kr_cursor run))) (\<lambda>cursor.
     Inr (run\<lparr>kr_status := RunRunning, kr_terminal_outcome := None, kr_version := kr_version run + 1,
              kr_cursor := cursor, kr_active_attempt_versions := [(ka_id cleanupAttempt, 0)],
              kr_active_effect_versions := []\<rparr>))"

definition cleanupCommand ::
  "reducer_input \<Rightarrow> terminal_outcome \<Rightarrow> decision_authorization \<Rightarrow> bool \<Rightarrow>
     sandbox_frontier_member list \<Rightarrow> cleanup_fields \<Rightarrow> transition_bundle result" where
  "cleanupCommand input outcome authorization sandboxRecovery recoveryFrontier d =
     (let run = ri_run input; decision = da_decision authorization;
          frontierRecordIds = sort (map (rb_id \<circ> sm_record) recoveryFrontier);
          cleanupStageId = runtimeStopStageId outcome; cleanupAttempt = cf_cleanup_attempt d in
      if kr_active_effect_versions run \<noteq> [] then throwZ CleanupWithUnresolvedEffects
      else
        bindE (if sandboxRecovery then exactSandboxFatalAbsenceDelivery (da_exact_records authorization)
               else Inr None) (\<lambda>recoveryTrigger.
        if \<not> cleanup_evidence_exact decision frontierRecordIds (map_option rec_id recoveryTrigger) d
          then throwZ CleanupEvidenceMismatch
        else
          bindE (assertCleanupDeliveries authorization (sortedUnique (cf_runtime_delivery_record_ids d))) (\<lambda>_.
          bindE (stageFor (ri_manifest input) cleanupStageId) (\<lambda>cleanupStage.
          if st_kind cleanupStage \<noteq> EffectStage ''core/daytona-stop@1'' then throwZ NoStopStage
          else
            bindE (assertCleanupAttempt input cleanupStageId decision cleanupAttempt) (\<lambda>_.
            bindE (cleaning_run run cleanupStageId cleanupAttempt) (\<lambda>nextRun.
            bindE (mapE (\<lambda>i. case exact_by_id authorization i of
                     None \<Rightarrow> throwZ (CleanupMissingDiagnostic i) | Some rec \<Rightarrow> Inr rec)
                    (sortedUnique (cf_new_diagnostic_record_ids d))) (\<lambda>newDiagnostics.
            sealed (ri_command input) (expectedFor run (sortedRecord (kr_active_attempt_versions run)))
              nextRun (terminalAttemptWrites run (ri_current_attempt input) (attempt_outcome outcome))
              [cleanupAttempt]
              (DecisionRec decision # map (DecisionRec \<circ> sm_record) recoveryFrontier @ newDiagnostics)
              [] [])))))))"

text \<open>\<open>commandAttemptId\<close> is \<open>None\<close> for the two commands that name no attempt.\<close>

definition terminalCommand ::
  "reducer_input \<Rightarrow> terminal_outcome \<Rightarrow> terminal_fields \<Rightarrow> string option option \<Rightarrow>
     transition_bundle result" where
  "terminalCommand input outcome c commandAttemptId =
     bindE (assertExactMap (ri_checkpoints input) [] ''checkpoint map'') (\<lambda>_.
     bindE (exactDecision input (tf_decision_record_id c)) (\<lambda>authorization.
     let current = ri_current_attempt input in
     if commandAttemptId \<noteq> None \<and> Some (map_option ka_id current) \<noteq> commandAttemptId
       then throwZ TerminalOtherAttempt
     else
       (let sandboxRecovery = (case current of
              None \<Rightarrow> False
            | Some a \<Rightarrow> sandboxRecoveryAttemptId (DecisionRec (da_decision authorization)) = Some (ka_id a)) in
        bindE (exactSandboxRecoveryFrontier (da_exact_records authorization)) (\<lambda>recoveryFrontier.
        bindE (assertRecoveryFrontier (ri_run input) sandboxRecovery recoveryFrontier) (\<lambda>_.
        if outcome = Failed \<and> current \<noteq> None \<and> ka_status (the current) \<notin> {Pending, Running} \<and>
           \<not> sandboxRecovery
          then throwZ CompletedWorkDiscarded
        else (case tf_resource_disposition c of
          PreProvision \<Rightarrow> preProvision input outcome authorization
        | Cleanup d \<Rightarrow>
            cleanupCommand input outcome authorization sandboxRecovery recoveryFrontier d))))))"

end
