(* ===== verification/ReducerSettle.thy ===== *)
theory ReducerSettle
  imports ReducerTerminal
begin

text \<open>
  Settlement in \<open>reducer.ts\<close>: the transition a stage outcome selects, the advance of the cursor at
  a complete barrier, the end of a run through the reserved cleanup stages, and the dispatch
  \<open>reduceKernelCommand\<close>.
\<close>

section \<open>The effective transition\<close>

record effective =
  ef_to :: "string option"
  ef_terminal :: "terminal_outcome option"
  ef_reentries :: "int dict"

fun exhausted_outcome :: "exhausted option \<Rightarrow> terminal_outcome" where
  "exhausted_outcome (Some ExhaustNeedsHuman) = NeedsHuman"
| "exhausted_outcome _ = Failed"

text \<open>The text that the code builds when \<open>on_exhausted\<close> is absent, which no validated manifest has.\<close>

fun exhausted_stop_id :: "exhausted option \<Rightarrow> string" where
  "exhausted_stop_id None = ''ot_runtime_stop_undefined''"
| "exhausted_stop_id e = runtimeStopStageId (exhausted_outcome e)"

definition edge_key :: "pipeline_stage \<Rightarrow> string \<Rightarrow> string \<Rightarrow> string" where
  "edge_key stage outcome dest = st_id stage @ '':'' @ outcome @ '':'' @ dest"

definition used_reentries :: "int dict \<Rightarrow> string \<Rightarrow> int" where
  "used_reentries reentries edge = (case map_of reentries edge of None \<Rightarrow> 0 | Some n \<Rightarrow> n)"

definition effectiveTransition :: "kernel_run \<Rightarrow> pipeline_stage \<Rightarrow> string \<Rightarrow> effective result" where
  "effectiveTransition run stage outcome =
     (let reentries = cu_reentries (kr_cursor run) in
      case map_of (st_on stage) outcome of
        None \<Rightarrow> throwT (NoTransition (st_id stage) outcome)
      | Some transition \<Rightarrow>
          (case (tr_max_reentries transition, tr_to transition) of
             (Some maxReentries, Some dest) \<Rightarrow>
               (let edge = edge_key stage outcome dest; used = used_reentries reentries edge in
                if used \<ge> maxReentries then
                  (if runtimeCleanupOutcome stage \<noteq> None then
                     Inr \<lparr>ef_to = None, ef_terminal = Some (exhausted_outcome (tr_on_exhausted transition)),
                          ef_reentries = reentries\<rparr>
                   else
                     Inr \<lparr>ef_to = Some (case runtimeExhaustionDestination stage of
                            Some d \<Rightarrow> d
                          | None \<Rightarrow> exhausted_stop_id (tr_on_exhausted transition)),
                          ef_terminal = None, ef_reentries = reentries\<rparr>)
                else
                  Inr \<lparr>ef_to = Some dest, ef_terminal = None,
                       ef_reentries = sortedRecord (AList.update edge (used + 1) reentries)\<rparr>)
           | _ \<Rightarrow> Inr \<lparr>ef_to = tr_to transition, ef_terminal = tr_terminal transition,
                     ef_reentries = reentries\<rparr>))"

section \<open>Parts of a settlement\<close>

definition settled_attempt :: "kernel_attempt \<Rightarrow> string \<Rightarrow> string \<Rightarrow> kernel_attempt" where
  "settled_attempt attempt resultRecordId decisionId =
     attempt\<lparr>ka_status := Settled, ka_version := ka_version attempt + 1, ka_lease := None,
             ka_result_record_id := Some resultRecordId, ka_decision_record_id := Some decisionId,
             ka_result_correction_deadline := None, ka_pending_result := None\<rparr>"

text \<open>A settlement of one sibling before the barrier is complete.\<close>

definition settleSibling ::
  "reducer_input \<Rightarrow> settlement_fields \<Rightarrow> kernel_attempt \<Rightarrow> kernel_attempt \<Rightarrow> string list \<Rightarrow>
     execution_record list \<Rightarrow> transition_bundle result" where
  "settleSibling input c attempt settled completedScopeKeys appendRecords =
     bindE (assertExactMap (ri_checkpoints input) [] ''checkpoint map'') (\<lambda>_.
     if sf_next_attempts c \<noteq> [] \<or> sf_effect_intents c \<noteq> [] \<or> sf_next_dependencies c \<noteq> []
       then throwT SiblingAdvances
     else
       (let run = ri_run input;
            nextRun = run\<lparr>kr_version := kr_version run + 1,
              kr_cursor := (kr_cursor run)\<lparr>cu_version := cu_version (kr_cursor run) + 1,
                cu_completed_scope_keys := completedScopeKeys\<rparr>,
              kr_active_attempt_versions :=
                sortedRecord (AList.delete (ka_id attempt) (kr_active_attempt_versions run))\<rparr> in
        attempt_bundle input attempt settled nextRun appendRecords [] []))"

text \<open>The repository subject that a settlement accepts; \<open>None\<close> for an edit without one.\<close>

definition accepted_subject :: "kernel_run \<Rightarrow> pipeline_stage \<Rightarrow> kernel_attempt \<Rightarrow> string option" where
  "accepted_subject run stage attempt =
     (if is_effect_kind (st_kind stage) \<and> ka_output_subject attempt \<noteq> None then ka_output_subject attempt
      else if ka_repository_authority attempt = EditAuthority \<and> is_stage_scope (ka_scope attempt)
        then ka_output_subject attempt
      else Some (kr_current_subject run))"

definition recoveryTransition ::
  "reducer_input \<Rightarrow> settlement_fields \<Rightarrow> pipeline_stage \<Rightarrow> decision_authorization \<Rightarrow>
     sandbox_recovery_fields \<Rightarrow> effective result" where
  "recoveryTransition input c stage authorization r =
     (let recoveryRecord = find (\<lambda>rec. rec_id rec = sr_recovery_record_id r) (da_exact_records authorization);
          failedAttemptId = Option.bind recoveryRecord sandboxRecoveryAttemptId;
          isCleanupReprovision = runtimeCleanupOutcome stage \<noteq> None \<and>
            sr_target_stage_id r = RUNTIME_PROVISION_STAGE_ID \<and>
            (sf_outcome c = ''success'' \<or> sf_outcome c = ''no_change'');
          isProvisionResume = is_provision_stage stage \<and>
            sr_target_stage_id r \<noteq> RUNTIME_PROVISION_STAGE_ID \<and>
            (sf_outcome c = ''success'' \<or> sf_outcome c = ''no_change'') in
      if failedAttemptId = None then throwT RecoveryUnproven
      else if \<not> isCleanupReprovision \<and> \<not> isProvisionResume then throwT RecoveryBadEdge
      else
        bindE (stageFor (ri_manifest input) (sr_target_stage_id r)) (\<lambda>_.
        Inr \<lparr>ef_to = Some (sr_target_stage_id r), ef_terminal = None,
             ef_reentries = cu_reentries (kr_cursor (ri_run input))\<rparr>))"

definition selectTransition ::
  "reducer_input \<Rightarrow> settlement_fields \<Rightarrow> pipeline_stage \<Rightarrow> decision_authorization \<Rightarrow> effective result" where
  "selectTransition input c stage authorization =
     bindE (effectiveTransition (ri_run input) stage (sf_outcome c)) (\<lambda>transition.
     case sf_sandbox_recovery c of
       None \<Rightarrow> Inr transition
     | Some r \<Rightarrow> recoveryTransition input c stage authorization r)"

fun cleanup_delivery :: "execution_record \<Rightarrow> bool" where
  "cleanup_delivery (DeliveryRec d) \<longleftrightarrow>
     rb_payload_schema d = ''openthrottle.effect-delivery/v1'' \<and>
     (case inline_object (rb_payload d) of
        None \<Rightarrow> False
      | Some payload \<Rightarrow>
          map_of payload ''effect_kind'' = Some (JStr ''daytona/cleanup-sandbox@1'') \<and>
          map_of payload ''provider'' = Some (JStr ''daytona''))"
| "cleanup_delivery _ \<longleftrightarrow> False"

definition assertTerminalSettlement ::
  "reducer_input \<Rightarrow> settlement_fields \<Rightarrow> pipeline_stage \<Rightarrow> decision_authorization \<Rightarrow> string \<Rightarrow>
     terminal_outcome \<Rightarrow> unit result" where
  "assertTerminalSettlement input c stage authorization resultRecordId terminal =
     bindE (assertExactMap (ri_checkpoints input) [] ''checkpoint map'') (\<lambda>_.
     let isCleanupTerminal = runtimeCleanupOutcome stage \<noteq> None;
         isProvenAbsent = is_provision_stage stage \<and> sf_outcome c = ''no_resource'' \<and> terminal = Failed;
         cited = filter (\<lambda>rec. rec_id rec \<noteq> rb_id (da_decision authorization) \<and> rec_id rec \<noteq> resultRecordId)
                   (da_exact_records authorization) in
     if sf_next_attempts c \<noteq> [] then throwT TerminalSchedules
     else if sf_effect_intents c \<noteq> [] then throwT TerminalEffects
     else if sf_next_dependencies c \<noteq> [] then throwT TerminalDependencies
     else if kr_active_effect_versions (ri_run input) \<noteq> [] then throwT TerminalStrandsEffects
     else if \<not> isCleanupTerminal \<and> \<not> isProvenAbsent then throwT BypassesCleanup
     else if isCleanupTerminal then
       (if find cleanup_delivery cited = None then throwT NoCleanupDelivery else Inr ())
     else
       bindE (exactKernelRuntimeAbsenceDeliveries cited) (\<lambda>deliveries.
       if deliveries = None then throwT NoAbsenceProof else Inr ()))"

definition assertSuccessors ::
  "reducer_input \<Rightarrow> settlement_fields \<Rightarrow> pipeline_stage \<Rightarrow> string \<Rightarrow> string option \<Rightarrow> unit result" where
  "assertSuccessors input c stage acceptedSubject dest =
     (if \<not> truthy dest then throwT MissingDestination
      else if sf_next_attempts c = [] then throwT NoNextAttempt
      else
        bindE (stageFor (ri_manifest input) (the dest)) (\<lambda>targetStage.
        bindE (structuredSuccessorSubjects input stage targetStage acceptedSubject (sf_next_attempts c))
          (\<lambda>(subjects, checkpointIds).
        let expectedIds = sort (map ka_id (sf_next_attempts c));
            overrides = (case sf_sandbox_recovery c of None \<Rightarrow> [] | Some r \<Rightarrow> sr_input_subjects r) in
        if sf_sandbox_recovery c \<noteq> None \<and> sort (keys overrides) \<noteq> expectedIds
          then throwT RecoverySubjectsMismatch
        else
          bindE (assertExactMap (ri_checkpoints input) checkpointIds ''checkpoint map'') (\<lambda>_.
          bindE (assertUniqueNewAttempts (sf_next_attempts c) (ri_run input)) (\<lambda>_.
          forE (\<lambda>next. assertPendingAttempt next
                  \<lparr>px_manifest = ri_manifest input,
                   px_run = (ri_run input)\<lparr>kr_current_subject := acceptedSubject\<rparr>,
                   px_stage_id = the dest,
                   px_input_subject = (case map_of overrides (ka_id next) of
                       Some s \<Rightarrow> s
                     | None \<Rightarrow> the (map_of subjects (ka_id next)))\<rparr>)
            (sf_next_attempts c))))))"

definition ended_run :: "kernel_run \<Rightarrow> string \<Rightarrow> string list \<Rightarrow> terminal_outcome \<Rightarrow> kernel_run" where
  "ended_run run acceptedSubject completedScopeKeys terminal =
     terminalRun (run\<lparr>kr_current_subject := acceptedSubject,
       kr_cursor := (kr_cursor run)\<lparr>cu_completed_scope_keys := completedScopeKeys\<rparr>\<rparr>) terminal"

definition advanced_run ::
  "kernel_run \<Rightarrow> settlement_fields \<Rightarrow> string \<Rightarrow> string list \<Rightarrow> effective \<Rightarrow> effect_intent list \<Rightarrow>
     kernel_run result" where
  "advanced_run run c acceptedSubject completedScopeKeys transition effects =
     bindE (compileKernelCursor (the (ef_to transition)) (cu_version (kr_cursor run) + 1)
              (ef_reentries transition) (sf_next_attempts c) (sf_next_dependencies c) completedScopeKeys)
       (\<lambda>cursor.
     let activeAttempts = fold (\<lambda>a d. AList.update (ka_id a) (ka_version a) d)
           (attemptOrder (sf_next_attempts c)) [] in
     Inr (run\<lparr>kr_current_subject := acceptedSubject, kr_status := RunRunning,
              kr_version := kr_version run + 1, kr_cursor := cursor,
              kr_active_attempt_versions := sortedRecord activeAttempts,
              kr_active_effect_versions :=
                sortedRecord (activate_effects effects (kr_active_effect_versions run))\<rparr>))"

definition settleBarrier ::
  "reducer_input \<Rightarrow> settlement_fields \<Rightarrow> kernel_attempt \<Rightarrow> kernel_attempt \<Rightarrow> pipeline_stage \<Rightarrow> string list \<Rightarrow>
     string \<Rightarrow> decision_authorization \<Rightarrow> execution_record list \<Rightarrow> transition_bundle result" where
  "settleBarrier input c attempt settled stage completedScopeKeys resultRecordId authorization appendRecords =
     (let run = ri_run input in
      case accepted_subject run stage attempt of
        None \<Rightarrow> throwT NoVerifiedSubject
      | Some acceptedSubject \<Rightarrow>
          bindE (selectTransition input c stage authorization) (\<lambda>transition.
          bindE (case ef_terminal transition of
                   Some terminal \<Rightarrow>
                     assertTerminalSettlement input c stage authorization resultRecordId terminal
                 | None \<Rightarrow> assertSuccessors input c stage acceptedSubject (ef_to transition)) (\<lambda>_.
          bindE (authorized_effects run (da_decision authorization) acceptedSubject
                   (sf_effect_intents c)) (\<lambda>effects.
          bindE (case ef_terminal transition of
                   Some terminal \<Rightarrow> Inr (ended_run run acceptedSubject completedScopeKeys terminal)
                 | None \<Rightarrow> advanced_run run c acceptedSubject completedScopeKeys transition effects)
            (\<lambda>nextRun.
          sealed (ri_command input) (attempt_expected run attempt) nextRun [ReplaceWrite settled]
            (sf_next_attempts c) appendRecords [] effects)))))"

section \<open>settle, correct_and_settle\<close>

definition settleAuthorized ::
  "reducer_input \<Rightarrow> settlement_fields \<Rightarrow> kernel_attempt \<Rightarrow> string \<Rightarrow> decision_authorization \<Rightarrow>
     execution_record list \<Rightarrow> transition_bundle result" where
  "settleAuthorized input c attempt resultRecordId authorization appendRecords =
     (let cursor = kr_cursor (ri_run input) in
      if resultRecordId \<notin> set (dr_input_record_ids (da_decision authorization))
        then throwT DecisionOmitsResult
      else
        bindE (stageFor (ri_manifest input) (scope_stage_id (ka_scope attempt))) (\<lambda>stage.
        if map_of (st_on stage) (sf_outcome c) = None
          then throwT (NoTransition (st_id stage) (sf_outcome c))
        else (case (find (\<lambda>m. fm_attempt_id m = ka_id attempt) (cu_frontier cursor), cu_barrier cursor) of
          (Some cursorMember, Some barrier) \<Rightarrow>
            (let completedScopeKeys =
                   sortedUnique (cu_completed_scope_keys cursor @ [fm_scope_key cursorMember]);
                 barrierComplete = list_all (\<lambda>k. k \<in> set completedScopeKeys) barrier;
                 settled = settled_attempt attempt resultRecordId (rb_id (da_decision authorization)) in
             if \<not> barrierComplete
               then settleSibling input c attempt settled completedScopeKeys appendRecords
             else settleBarrier input c attempt settled stage completedScopeKeys resultRecordId
                    authorization appendRecords)
        | _ \<Rightarrow> throwT (OutsideBarrier (ka_id attempt)))))"

definition settle :: "reducer_input \<Rightarrow> settlement_fields \<Rightarrow> transition_bundle result" where
  "settle input c =
     bindE (currentAttempt input (sf_attempt_id c)) (\<lambda>attempt.
     if ka_status attempt \<noteq> Recorded \<or> \<not> truthy (ka_result_record_id attempt)
       then throwT (SettleBeforeResult (ka_id attempt))
     else
       bindE (exactDecision input (sf_decision_record_id c)) (\<lambda>authorization.
       settleAuthorized input c attempt (the (ka_result_record_id attempt)) authorization
         [DecisionRec (da_decision authorization)]))"

definition correctAndSettle ::
  "reducer_input \<Rightarrow> string \<Rightarrow> string \<Rightarrow> settlement_fields \<Rightarrow> transition_bundle result" where
  "correctAndSettle input result_record_id invalid_result_evidence_record_id c =
     bindE (currentAttempt input (sf_attempt_id c)) (\<lambda>attempt.
     if ka_status attempt \<noteq> ResultPending \<or> ka_result_record_id attempt \<noteq> None \<or>
        \<not> started_correction (ka_lease attempt)
       then throwT (CannotCorrect (ka_id attempt))
     else (case Option.bind (ka_pending_result attempt) pe_invalid_result_evidence of
       None \<Rightarrow> throwT (NoPendingEvidence (ka_id attempt))
     | Some pointer \<Rightarrow>
         (case map_of (ri_records input) (sf_decision_record_id c) of
            Some (DecisionRec decision) \<Rightarrow>
              if result_record_id \<notin> set (dr_input_record_ids decision) \<or>
                 invalid_result_evidence_record_id \<notin> set (dr_input_record_ids decision)
                then throwT CorrectionUncited
              else
                bindE (exactDecision input (sf_decision_record_id c)) (\<lambda>authorization.
                bindE (resultForAttempt input attempt result_record_id) (\<lambda>res.
                bindE (assertRecordableResult input attempt res) (\<lambda>_.
                case map_of (ri_records input) invalid_result_evidence_record_id of
                  Some (DecisionRec evidence) \<Rightarrow>
                    bindE (assertExactInvalidResultEvidenceRecord attempt pointer evidence) (\<lambda>_.
                    settleAuthorized input c attempt (rb_id res) authorization
                      [ResultRec res, DecisionRec (da_decision authorization)])
                | _ \<Rightarrow> throwT CorrectionEvidenceMismatch)))
          | _ \<Rightarrow> throwT CorrectionUncited)))"

section \<open>reduceKernelCommand\<close>

definition quarantineCommand :: "reducer_input \<Rightarrow> quarantine_fields \<Rightarrow> transition_bundle result" where
  "quarantineCommand input c =
     bindE (assertExactMap (ri_records input) [qf_decision_record_id c] ''record map'') (\<lambda>_.
     bindE (assertExactMap (ri_checkpoints input) [] ''checkpoint map'') (\<lambda>_.
     case map_of (ri_records input) (qf_decision_record_id c) of
       Some (DecisionRec diagnostic) \<Rightarrow>
         bindE (currentAttempt input (qf_attempt_id c)) (\<lambda>attempt.
         reduceKernelRecoveryQuarantine (ri_command input) (ri_run input) attempt diagnostic c)
     | _ \<Rightarrow> throwZ QuarantineNeedsDecision))"

definition dispatch :: "reducer_input \<Rightarrow> command_body \<Rightarrow> transition_bundle result" where
  "dispatch input body =
     (case body of
        StartCommand a l \<Rightarrow> start input a l
      | BindRuntimeSession c \<Rightarrow> bindRuntimeSession input c
      | WorkCompleteCommand a k v r \<Rightarrow> workComplete input a k v r
      | ScheduleExternal c \<Rightarrow> scheduleExternal input c
      | AdvanceExternalSubject c \<Rightarrow> advanceExternalSubject input c
      | ResultPendingCommand c \<Rightarrow> resultPending input c
      | RecordResult a r \<Rightarrow> record_result input a r
      | SettleAttempt c \<Rightarrow> settle input c
      | CorrectAndSettle r e c \<Rightarrow> correctAndSettle input r e c
      | RetryAttempt a f \<Rightarrow> retry input a f
      | QuarantineAttemptRecovery c \<Rightarrow> quarantineCommand input c
      | NeedsHumanCommand a c \<Rightarrow> terminalCommand input NeedsHuman c (Some a)
      | FailCommand a c \<Rightarrow> terminalCommand input Failed c (Some a)
      | StopCommand c \<Rightarrow> terminalCommand input Canceled c None
      | SupersedeCommand c \<Rightarrow> terminalCommand input Superseded c None)"

definition reduceKernelCommand :: "reducer_input \<Rightarrow> transition_bundle result" where
  "reduceKernelCommand input =
     bindE (assertBaseInput input) (\<lambda>_. dispatch input (cmd_body (ri_command input)))"

end
