(* ===== verification/Cursor.thy ===== *)
theory Cursor
  imports ReducerSupport "HOL-Library.Multiset"
begin

text \<open>
  Facts on \<open>reducer-support.ts\<close>: what the topology check of a cursor establishes, when a new cursor
  compiles, that a compiled cursor passes the check, and that an acyclic frontier always has a
  member that can run.
\<close>

section \<open>Specification\<close>

definition member_ok :: "kernel_cursor \<Rightarrow> frontier_member \<Rightarrow> bool" where
  "member_ok c m \<longleftrightarrow>
     fm_scope_key m = memberKey (fm_scope m) (fm_attempt_id m) \<and>
     cu_stage_id c = Some (scope_stage_id (fm_scope m)) \<and>
     set (fm_depends_on m) \<subseteq> set (map fm_scope_key (cu_frontier c)) \<union> set (cu_completed_scope_keys c) \<and>
     sorted (fm_depends_on m) \<and> distinct (fm_depends_on m)"

definition topology :: "kernel_run \<Rightarrow> bool" where
  "topology run \<longleftrightarrow>
     (let c = kr_cursor run; ks = map fm_scope_key (cu_frontier c) in
      sorted ks \<and> distinct ks \<and> distinct (map fm_attempt_id (cu_frontier c)) \<and>
      (\<forall>m \<in> set (cu_frontier c). member_ok c m) \<and>
      sorted (cu_completed_scope_keys c) \<and> distinct (cu_completed_scope_keys c) \<and>
      (\<exists>barrier. cu_barrier c = Some barrier \<and> set barrier = set ks) \<and>
      unsettledAttemptIds c = sort (keys (kr_active_attempt_versions run)))"

text \<open>A member that waits for nothing: it is unsettled and everything it depends on is complete.\<close>

definition ready_member :: "kernel_cursor \<Rightarrow> frontier_member \<Rightarrow> bool" where
  "ready_member c m \<longleftrightarrow>
     m \<in> set (cu_frontier c) \<and> fm_scope_key m \<notin> set (cu_completed_scope_keys c) \<and>
     set (fm_depends_on m) \<subseteq> set (cu_completed_scope_keys c)"

definition frontier_edges :: "frontier_member list \<Rightarrow> (string \<times> string) set" where
  "frontier_edges frontier =
     {(a, b). \<exists>m \<in> set frontier. fm_scope_key m = a \<and> b \<in> set (fm_depends_on m) \<and>
        b \<in> fm_scope_key ` set frontier}"

section \<open>The topology check\<close>

lemma length_remdups_map [canon]: "length (remdups (map f xs)) = length xs \<longleftrightarrow> distinct (map f xs)"
  using length_remdups_eq [of "map f xs"] by simp

lemma forE_unless_ok [run_ok]:
  "is_ok (forE (\<lambda>x. if P x then Inl (err x) else Inr ()) xs) \<longleftrightarrow> (\<forall>x \<in> set xs. \<not> P x)"
  by (simp add: run_ok)

lemma assertMember_ok [run_ok]:
  "is_ok (assertMember c (map fm_scope_key (cu_frontier c)) m) \<longleftrightarrow> member_ok c m"
  by (auto simp: assertMember_def member_ok_def run_ok canon)

lemma assertCursorTopology_ok [run_ok]:
  "is_ok (assertCursorTopology run current) \<longleftrightarrow>
     topology run \<and> (\<forall>a. current = Some a \<longrightarrow> is_ok (assertSelected (kr_cursor run) a))"
proof (cases "cu_barrier (kr_cursor run)")
  case None
  then show ?thesis by (simp add: assertCursorTopology_def topology_def Let_def)
next
  case (Some barrier)
  then show ?thesis
    by (cases current)
      (simp_all add: assertCursorTopology_def topology_def Let_def run_ok canon length_remdups_eq
        conj_assoc Ball_def)
qed

lemma assertSelected_ok [run_ok]:
  "is_ok (assertSelected c a) \<longleftrightarrow>
     (\<exists>m. find (\<lambda>m. fm_attempt_id m = ka_id a) (cu_frontier c) = Some m \<and>
          set (fm_depends_on m) \<subseteq> set (cu_completed_scope_keys c))"
  by (auto simp: assertSelected_def run_ok filter_empty_conv split: option.splits)

section \<open>An acyclic frontier makes progress\<close>

lemma frontier_deps_edges:
  assumes "distinct (map fm_scope_key frontier)"
  shows "frontier_edges frontier = edges (map fm_scope_key frontier) (frontier_deps frontier)"
proof -
  have found: "find (\<lambda>m. fm_scope_key m = k) frontier = Some m \<longleftrightarrow>
      m \<in> set frontier \<and> fm_scope_key m = k" for k m
    using assms by (induction frontier) auto
  have deps: "set (frontier_deps frontier (fm_scope_key m)) =
      set (fm_depends_on m) \<inter> fm_scope_key ` set frontier" if "m \<in> set frontier" for m
  proof -
    from that found have "find (\<lambda>m'. fm_scope_key m' = fm_scope_key m) frontier = Some m" by simp
    then show ?thesis by (auto simp: frontier_deps_def)
  qed
  have "(a, b) \<in> edges (map fm_scope_key frontier) (frontier_deps frontier) \<longleftrightarrow>
      (\<exists>m \<in> set frontier. fm_scope_key m = a \<and> b \<in> set (fm_depends_on m) \<inter> fm_scope_key ` set frontier)"
    for a b
  proof -
    have "(a, b) \<in> edges (map fm_scope_key frontier) (frontier_deps frontier) \<longleftrightarrow>
        (\<exists>m \<in> set frontier. fm_scope_key m = a \<and> b \<in> set (frontier_deps frontier (fm_scope_key m)))"
      by (auto simp: edges_def)
    then show ?thesis by (simp add: deps cong: bex_cong)
  qed
  then show ?thesis by (auto simp: frontier_edges_def)
qed

lemma ready_exists:
  assumes "topology run" and "acyclic (frontier_edges (cu_frontier (kr_cursor run)))"
    and "m \<in> set (cu_frontier (kr_cursor run))"
    and "fm_scope_key m \<notin> set (cu_completed_scope_keys (kr_cursor run))"
  shows "\<exists>r. ready_member (kr_cursor run) r"
proof -
  let ?c = "kr_cursor run" let ?f = "cu_frontier ?c"
  let ?S = "fm_scope_key ` set ?f - set (cu_completed_scope_keys ?c)"
  from assms(1) have d: "distinct (map fm_scope_key ?f)" and ok: "\<forall>m \<in> set ?f. member_ok ?c m"
    by (auto simp: topology_def Let_def)
  from assms(2) have "cycle_free (map fm_scope_key ?f) (frontier_deps ?f)"
    by (simp add: walk.check_iff frontier_deps_edges d)
  moreover have "fm_scope_key m \<in> ?S" using assms(3,4) by simp
  ultimately obtain k where k: "k \<in> ?S" "\<forall>b \<in> set (frontier_deps ?f k). b \<notin> ?S"
    using walk.ready_node [of "map fm_scope_key ?f" "frontier_deps ?f" "fm_scope_key m" ?S] by auto
  then obtain r where r: "r \<in> set ?f" "fm_scope_key r = k" by auto
  have "b \<in> set (cu_completed_scope_keys ?c)" if "b \<in> set (fm_depends_on r)" for b
  proof (rule ccontr)
    assume "b \<notin> set (cu_completed_scope_keys ?c)"
    moreover from ok r(1) have "set (fm_depends_on r) \<subseteq> set (map fm_scope_key ?f) \<union> set (cu_completed_scope_keys ?c)"
      unfolding member_ok_def by blast
    ultimately have b: "b \<in> fm_scope_key ` set ?f" using that by auto
    with that r have "(k, b) \<in> frontier_edges ?f" by (auto simp: frontier_edges_def)
    then have "b \<in> set (frontier_deps ?f k)" by (simp add: frontier_deps_edges d edges_def)
    with k(2) b \<open>b \<notin> _\<close> show False by auto
  qed
  with r k(1) show ?thesis by (auto simp: ready_member_def)
qed

section \<open>Compiling a cursor\<close>

definition member_of :: "string list dict \<Rightarrow> kernel_attempt \<Rightarrow> frontier_member" where
  "member_of dependencies a =
     \<lparr>fm_scope_key = frontierMemberKey a, fm_attempt_id = ka_id a, fm_scope = ka_scope a,
      fm_depends_on = sortedUnique (dict_strs dependencies (frontierMemberKey a))\<rparr>"

lemma member_of_simps [simp]:
  "fm_scope_key (member_of ds a) = frontierMemberKey a"
  "fm_attempt_id (member_of ds a) = ka_id a"
  "fm_scope (member_of ds a) = ka_scope a"
  "fm_depends_on (member_of ds a) = sortedUnique (dict_strs ds (frontierMemberKey a))"
  by (simp_all add: member_of_def)

text \<open>What the compilation of one member and of a cursor requires.\<close>

definition member_compiles ::
  "string \<Rightarrow> string list dict \<Rightarrow> string list \<Rightarrow> kernel_attempt \<Rightarrow> bool" where
  "member_compiles stageId dependencies known a \<longleftrightarrow>
     scope_stage_id (ka_scope a) = stageId \<and>
     frontierMemberKey a \<notin> set (dict_strs dependencies (frontierMemberKey a)) \<and>
     \<not> truthy (find (\<lambda>d. d \<notin> set known) (sortedUnique (dict_strs dependencies (frontierMemberKey a))))"

definition cursor_compiles ::
  "string \<Rightarrow> kernel_attempt list \<Rightarrow> string list dict \<Rightarrow> string list \<Rightarrow> bool" where
  "cursor_compiles stageId attempts dependencies completedKeys \<longleftrightarrow>
     attempts \<noteq> [] \<and> distinct (map frontierMemberKey attempts) \<and>
     distinct (map (attemptScopeKey \<circ> ka_scope) attempts) \<and>
     \<not> truthy (find (\<lambda>k. k \<notin> frontierMemberKey ` set attempts) (keys dependencies)) \<and>
     (\<forall>a \<in> set attempts. member_compiles stageId dependencies
        (map frontierMemberKey attempts @ sortedUnique completedKeys) a) \<and>
     acyclic (frontier_edges (map (member_of dependencies) attempts))"

definition compiled_cursor ::
  "string \<Rightarrow> int \<Rightarrow> int dict \<Rightarrow> kernel_attempt list \<Rightarrow> string list dict \<Rightarrow> string list \<Rightarrow> kernel_cursor" where
  "compiled_cursor stageId version reentries attempts dependencies completedKeys =
     \<lparr>cu_stage_id = Some stageId, cu_version = version, cu_reentries = sortedRecord reentries,
      cu_frontier = sort_key fm_scope_key (map (member_of dependencies) attempts),
      cu_completed_scope_keys = sortedUnique completedKeys,
      cu_barrier = Some (sortedUnique (map frontierMemberKey attempts))\<rparr>"

lemma compileMember_iff:
  "compileMember stageId dependencies known a = Inr m \<longleftrightarrow>
     m = member_of dependencies a \<and> member_compiles stageId dependencies known a"
  by (auto simp: compileMember_def member_of_def member_compiles_def Let_def run_ok)

lemma frontier_edges_set: "set xs = set ys \<Longrightarrow> frontier_edges xs = frontier_edges ys"
  by (simp add: frontier_edges_def)

lemma edges_nodes: "set xs = set ys \<Longrightarrow> edges xs f = edges ys f"
  by (simp add: edges_def)

lemma compile_cursor_iff:
  "compileKernelCursor stageId version reentries attempts dependencies completedKeys = Inr c \<longleftrightarrow>
     cursor_compiles stageId attempts dependencies completedKeys \<and>
     c = compiled_cursor stageId version reentries attempts dependencies completedKeys"
proof -
  let ?ks = "map frontierMemberKey attempts"
  let ?f = "sort_key fm_scope_key (map (member_of dependencies) attempts)"
  have members: "mapE (compileMember stageId dependencies known) attempts = Inr ms \<longleftrightarrow>
      ms = map (member_of dependencies) attempts \<and>
      (\<forall>a \<in> set attempts. member_compiles stageId dependencies known a)" for known ms
    by (rule mapE_pure) (rule compileMember_iff)
  have walk: "is_ok (visit_all ?ks (frontier_deps ?f) (\<lambda>_. SupportError CyclicDependencies) [] [] ?ks)
      \<longleftrightarrow> acyclic (frontier_edges (map (member_of dependencies) attempts))" if "distinct ?ks"
  proof -
    have "map fm_scope_key (map (member_of dependencies) attempts) = ?ks" by simp
    with that have "distinct (map fm_scope_key ?f)" by (simp only: distinct_map_sort_key)
    then have "edges (map fm_scope_key ?f) (frontier_deps ?f) = frontier_edges ?f"
      by (simp add: frontier_deps_edges)
    also have "\<dots> = frontier_edges (map (member_of dependencies) attempts)"
      by (rule frontier_edges_set) simp
    finally have "edges ?ks (frontier_deps ?f) = frontier_edges (map (member_of dependencies) attempts)"
      using edges_nodes [of ?ks "map fm_scope_key ?f"] by (simp add: image_image)
    then show ?thesis by (simp only: visit_all_cycle_free walk.check_iff)
  qed
  then have walked: "acyclic (frontier_edges (map (member_of dependencies) attempts))"
    if "distinct ?ks" and "visit_all ?ks (frontier_deps ?f) (\<lambda>_. SupportError CyclicDependencies) [] [] ?ks = Inr v"
    for v using that by (simp add: is_ok_iff)
  show ?thesis
    unfolding compileKernelCursor_def cursor_compiles_def compiled_cursor_def
    by (auto simp: Let_def run_ok members walk [unfolded is_ok_iff] canon comp_def intro: walked)
qed

section \<open>A compiled cursor passes the topology check\<close>

text \<open>
  Two inputs the compilation lets through: an empty string among the dependencies, which its
  truthiness test takes for "nothing unknown", and a member whose key is already complete.
\<close>

definition named_dependencies :: "string list dict \<Rightarrow> bool" where
  "named_dependencies dependencies \<longleftrightarrow> (\<forall>(k, ds) \<in> set dependencies. k \<noteq> [] \<and> [] \<notin> set ds)"

lemma named_dict_strs:
  assumes "named_dependencies dependencies"
  shows "[] \<notin> set (dict_strs dependencies k)"
proof (cases "map_of dependencies k")
  case (Some ds)
  with assms map_of_in_set [OF Some] show ?thesis by (auto simp: named_dependencies_def dict_strs_def)
qed (simp add: dict_strs_def)

lemma find_truthy:
  assumes "[] \<notin> set xs"
  shows "truthy (find P xs) \<longleftrightarrow> (\<exists>x \<in> set xs. P x)"
  using assms by (induction xs) auto

lemma member_compiles_known:
  assumes "member_compiles stageId dependencies known a" and "named_dependencies dependencies"
  shows "set (dict_strs dependencies (frontierMemberKey a)) \<subseteq> set known"
proof -
  have "[] \<notin> set (sortedUnique (dict_strs dependencies (frontierMemberKey a)))"
    using named_dict_strs [OF assms(2)] by simp
  from find_truthy [OF this] assms(1) show ?thesis by (auto simp: member_compiles_def)
qed

lemma sort_cong: "mset xs = mset ys \<Longrightarrow> sort xs = sort ys" for xs :: "'a::linorder list"
  by (metis properties_for_sort sorted_sort mset_sort)

lemma compiled_unsettled:
  assumes "\<forall>a \<in> set attempts. frontierMemberKey a \<notin> set completed"
  shows "unsettledAttemptIds (compiled_cursor s v re attempts deps completed) = sort (map ka_id attempts)"
proof -
  let ?f = "sort_key fm_scope_key (map (member_of deps) attempts)"
  have "filter (\<lambda>m. fm_scope_key m \<notin> set completed) ?f = ?f"
    using assms by (intro filter_True) auto
  then have "unsettledAttemptIds (compiled_cursor s v re attempts deps completed) = sort (map fm_attempt_id ?f)"
    by (simp add: unsettledAttemptIds_def compiled_cursor_def)
  also have "\<dots> = sort (map fm_attempt_id (map (member_of deps) attempts))"
    by (rule sort_cong) (simp add: multiset.map_comp)
  finally show ?thesis by (simp add: comp_def)
qed

lemma compiled_member_ok:
  assumes "cursor_compiles s attempts deps completed" and "named_dependencies deps"
    and "m \<in> set (cu_frontier (compiled_cursor s v re attempts deps completed))"
  shows "member_ok (compiled_cursor s v re attempts deps completed) m"
proof -
  from assms(3) obtain a where a: "a \<in> set attempts" "m = member_of deps a"
    by (auto simp: compiled_cursor_def)
  with assms(1) have c: "member_compiles s deps (map frontierMemberKey attempts @ sortedUnique completed) a"
    by (simp add: cursor_compiles_def)
  from member_compiles_known [OF this assms(2)] c a show ?thesis
    by (auto simp: member_ok_def compiled_cursor_def member_compiles_def frontierMemberKey_def image_image)
qed

lemma compiled_topology:
  assumes c: "cursor_compiles s attempts deps completed" and "named_dependencies deps"
    and ids: "distinct (map ka_id attempts)"
    and "\<forall>a \<in> set attempts. frontierMemberKey a \<notin> set completed"
    and "kr_cursor run = compiled_cursor s v re attempts deps completed"
    and "sort (keys (kr_active_attempt_versions run)) = sort (map ka_id attempts)"
  shows "topology run"
proof -
  let ?f = "sort_key fm_scope_key (map (member_of deps) attempts)"
  have ks: "map fm_scope_key ?f = sort (map frontierMemberKey attempts)" by (simp add: map_sort_key comp_def)
  have "mset (map fm_attempt_id ?f) = mset (map ka_id attempts)"
    by (simp add: multiset.map_comp comp_def)
  then have di: "distinct (map fm_attempt_id ?f)"
    using ids mset_eq_imp_distinct_iff by blast
  have dk: "distinct (map frontierMemberKey attempts)" using c by (simp add: cursor_compiles_def)
  have m: "\<forall>m \<in> set ?f. member_ok (kr_cursor run) m"
    using compiled_member_ok [OF c assms(2), of _ v re] assms(5) by (simp add: compiled_cursor_def)
  have u: "unsettledAttemptIds (kr_cursor run) = sort (keys (kr_active_attempt_versions run))"
    using compiled_unsettled [OF assms(4)] assms(5,6) by simp
  show ?thesis
    unfolding topology_def Let_def
  proof (intro conjI)
    show "\<exists>barrier. cu_barrier (kr_cursor run) = Some barrier \<and>
        set barrier = set (map fm_scope_key (cu_frontier (kr_cursor run)))"
      unfolding assms(5) by (simp add: compiled_cursor_def ks image_image)
  qed (use m u in \<open>simp_all add: assms(5) compiled_cursor_def ks dk di sorted_sortedUnique\<close>)
qed

lemma compiled_acyclic:
  assumes "cursor_compiles s attempts deps completed"
  shows "acyclic (frontier_edges (cu_frontier (compiled_cursor s v re attempts deps completed)))"
proof -
  have "frontier_edges (sort_key fm_scope_key (map (member_of deps) attempts)) =
      frontier_edges (map (member_of deps) attempts)"
    by (rule frontier_edges_set) simp
  with assms show ?thesis by (simp add: cursor_compiles_def compiled_cursor_def)
qed

end
