(* ===== verification/RecordOrder.thy ===== *)
theory RecordOrder
  imports ReducerBase "HOL-Library.Multiset"
begin

text \<open>
  The order in which a bundle appends its records (\<open>appendRecordOrder\<close> of \<open>reducer.ts\<close>): a
  permutation of the records in which each decision comes after the records of the batch it
  cites, found exactly when the citations have no cycle.
\<close>

section \<open>Citations\<close>

fun cited_ids :: "execution_record \<Rightarrow> string list" where
  "cited_ids (DecisionRec d) = dr_input_record_ids d"
| "cited_ids _ = []"

definition citations :: "execution_record list \<Rightarrow> (string \<times> string) set" where
  "citations records =
     {(rec_id r, i) | r i. r \<in> set records \<and> i \<in> set (cited_ids r) \<and> i \<in> rec_id ` set records}"

text \<open>Each record follows what it cites.\<close>

definition cites_before :: "string set \<Rightarrow> execution_record list \<Rightarrow> bool" where
  "cites_before batch out \<longleftrightarrow>
     (\<forall>pre r post. out = pre @ r # post \<longrightarrow> set (cited_ids r) \<inter> batch \<subseteq> rec_id ` set pre)"

lemma record_ready_iff:
  "record_ready batch appended r \<longleftrightarrow> set (cited_ids r) \<inter> set batch \<subseteq> set appended"
  by (cases r) (auto simp: record_ready_def list_all_iff)

section \<open>The loop\<close>

lemma append_loop_sound:
  assumes "append_loop batch appended pending ordered = Inr out"
    and "appended = map rec_id ordered" and "cites_before (set batch) ordered"
  shows "mset out = mset ordered + mset pending \<and> cites_before (set batch) out"
  using assms
proof (induction batch appended pending ordered rule: append_loop.induct)
  case (1 batch appended pending ordered)
  show ?case
  proof (cases "pending = []")
    case True
    with "1.prems" show ?thesis by (subst (asm) append_loop.simps) simp
  next
    case False
    with "1.prems"(1) obtain before r after where
      e: "List.extract (record_ready batch appended) pending = Some (before, r, after)" and
      l: "append_loop batch (appended @ [rec_id r]) (before @ after) (ordered @ [r]) = Inr out"
      by (subst (asm) append_loop.simps) (auto split: option.splits)
    from e have p: "pending = before @ r # after" and ready: "record_ready batch appended r"
      by (auto dest: extract_SomeE)
    have "cites_before (set batch) (ordered @ [r])"
      unfolding cites_before_def
    proof (intro allI impI)
      fix pre x post
      assume "ordered @ [r] = pre @ x # post"
      then consider "post = []" "pre = ordered" "x = r" | post' where "ordered = pre @ x # post'"
        by (cases post rule: rev_cases) auto
      then show "set (cited_ids x) \<inter> set batch \<subseteq> rec_id ` set pre"
        using ready "1.prems"(2,3) by cases (auto simp: record_ready_iff cites_before_def)
    qed
    with "1.IH" [OF False e refl refl l] "1.prems"(2) p show ?thesis by simp
  qed
qed

lemma append_loop_complete:
  assumes "acyclic (citations (ordered @ pending))" and "set batch = rec_id ` set (ordered @ pending)"
    and "appended = map rec_id ordered"
  shows "is_ok (append_loop batch appended pending ordered)"
  using assms
proof (induction batch appended pending ordered rule: append_loop.induct)
  case (1 batch appended pending ordered)
  show ?case
  proof (cases "pending = []")
    case True
    then show ?thesis by (subst append_loop.simps) simp
  next
    case False
    have "finite (citations (ordered @ pending))"
      by (rule finite_subset [of _ "(\<Union>r \<in> set (ordered @ pending). (\<lambda>i. (rec_id r, i)) ` set (cited_ids r))"])
        (auto simp: citations_def)
    then have "wf ((citations (ordered @ pending))\<inverse>)"
      using "1.prems"(1) by (rule finite_acyclic_wf_converse)
    moreover have "rec_id (hd pending) \<in> rec_id ` set pending" using False by simp
    ultimately obtain k where k: "k \<in> rec_id ` set pending"
      "\<And>i. (k, i) \<in> citations (ordered @ pending) \<Longrightarrow> i \<notin> rec_id ` set pending"
      by (rule wfE_min) auto
    then obtain r where r: "r \<in> set pending" "rec_id r = k" by auto
    have "i \<in> rec_id ` set ordered" if "i \<in> set (cited_ids r)" "i \<in> set batch" for i
    proof -
      from that "1.prems"(2) r have "(k, i) \<in> citations (ordered @ pending)" by (auto simp: citations_def)
      with k(2) that(2) "1.prems"(2) show ?thesis by auto
    qed
    then have "record_ready batch appended r" using "1.prems"(3) by (auto simp: record_ready_iff)
    with r(1) obtain before x after where
      e: "List.extract (record_ready batch appended) pending = Some (before, x, after)"
      by (cases "List.extract (record_ready batch appended) pending") (auto simp: extract_None_iff)
    then have p: "pending = before @ x # after" by (auto dest: extract_SomeE)
    have c: "citations ((ordered @ [x]) @ before @ after) = citations (ordered @ pending)"
      unfolding citations_def p by auto
    have "is_ok (append_loop batch (appended @ [rec_id x]) (before @ after) (ordered @ [x]))"
      by (rule "1.IH" [OF False e refl refl])
        (simp add: c [simplified] "1.prems"(1), use "1.prems"(2) p in auto, simp add: "1.prems"(3))
    with False e show ?thesis by (subst append_loop.simps) simp
  qed
qed

lemma appendRecordOrder_mset: "appendRecordOrder records = Inr out \<Longrightarrow> mset out = mset records"
  using append_loop_sound [of "map rec_id (sort_key rec_id records)" "[]" "sort_key rec_id records" "[]" out]
  by (simp add: appendRecordOrder_def Let_def cites_before_def)

lemma appendRecordOrder_cites:
  "appendRecordOrder records = Inr out \<Longrightarrow> cites_before (rec_id ` set records) out"
  using append_loop_sound [of "map rec_id (sort_key rec_id records)" "[]" "sort_key rec_id records" "[]" out]
  by (simp add: appendRecordOrder_def Let_def cites_before_def)

lemma cites_before_acyclic:
  assumes "cites_before (rec_id ` set records) out" and "mset out = mset records"
    and "distinct (map rec_id records)"
  shows "acyclic (citations records)"
proof -
  have s: "set out = set records" using assms(2) by (rule mset_eq_setD)
  have d: "distinct (map rec_id out)" using assms(2,3) by (metis mset_map mset_eq_imp_distinct_iff)
  obtain pos where pos: "pos (map rec_id out ! n) = n" if "n < length out" for n
  proof
    fix n assume "n < length out"
    with d show "(THE i. i < length out \<and> map rec_id out ! i = map rec_id out ! n) = n"
      by (intro the_equality) (auto simp only: nth_eq_iff_index_eq length_map)
  qed
  have "pos i < pos k" if ki: "(k, i) \<in> citations records" for k i
  proof -
    from ki s obtain r where r: "r \<in> set out" "rec_id r = k" "i \<in> set (cited_ids r)"
      "i \<in> rec_id ` set records" by (auto simp: citations_def)
    then obtain n where n: "n < length out" "out ! n = r" by (auto simp: in_set_conv_nth)
    then have "out = take n out @ r # drop (Suc n) out" by (metis id_take_nth_drop)
    with assms(1) have "set (cited_ids r) \<inter> rec_id ` set records \<subseteq> rec_id ` set (take n out)"
      unfolding cites_before_def by blast
    with r(3,4) have "i \<in> rec_id ` set (take n out)" by blast
    then obtain x where x: "x \<in> set (take n out)" "rec_id x = i" by blast
    from x(1) obtain m where "m < length (take n out)" "take n out ! m = x" by (metis in_set_conv_nth)
    with x(2) have m: "m < n" "rec_id (out ! m) = i" by simp_all
    have "pos i = m" using pos [of m] m n(1) by simp
    moreover have "pos k = n" using pos [of n] n r(2) by simp
    ultimately show ?thesis using m(1) by simp
  qed
  then have "(citations records)\<inverse> \<subseteq> measure pos" by auto
  then have "acyclic ((citations records)\<inverse>)" by (rule acyclic_subset [OF wf_acyclic [OF wf_measure]])
  then show ?thesis by simp
qed

section \<open>Properties\<close>

text \<open>C25: \<open>appendRecordOrder\<close> returns exactly when the citations inside the batch have no cycle; it
  then returns all the records, each once, and every decision after the records it cites.  Its
  loop always ends.\<close>

theorem appendRecordOrder_exact:
  assumes "distinct (map rec_id records)"
  shows "(is_ok (appendRecordOrder records) \<longleftrightarrow> acyclic (citations records)) \<and>
         (\<forall>out. appendRecordOrder records = Inr out \<longrightarrow>
            mset out = mset records \<and> cites_before (rec_id ` set records) out)"
proof (intro conjI iffI)
  assume "is_ok (appendRecordOrder records)"
  then obtain out where "appendRecordOrder records = Inr out" by (auto simp: is_ok_iff)
  then show "acyclic (citations records)"
    using cites_before_acyclic [OF appendRecordOrder_cites appendRecordOrder_mset assms] by blast
next
  assume "acyclic (citations records)"
  moreover have "citations (sort_key rec_id records) = citations records" by (simp add: citations_def)
  ultimately show "is_ok (appendRecordOrder records)"
    using append_loop_complete [of "[]" "sort_key rec_id records" "map rec_id (sort_key rec_id records)" "[]"]
    by (simp add: appendRecordOrder_def Let_def)
qed (use appendRecordOrder_mset appendRecordOrder_cites in blast)

definition ex_decision :: "string \<Rightarrow> string list \<Rightarrow> execution_record" where
  "ex_decision i cited = DecisionRec \<lparr>rb_id = i, rb_pipeline_run_id = ''r'', rb_payload_schema = ''s/v1'',
     rb_payload = Inline JNull, rb_created_at = ''t'', dr_reducer = ''x'', dr_input_record_ids = cited\<rparr>"

text \<open>A decision that cites one with a greater identity: the canonical order is not the appended one.\<close>

lemma appendRecordOrder_exact_witness:
  "distinct (map rec_id [ex_decision ''a'' [''b''], ex_decision ''b'' []]) \<and>
   acyclic (citations [ex_decision ''a'' [''b''], ex_decision ''b'' []]) \<and>
   appendRecordOrder [ex_decision ''a'' [''b''], ex_decision ''b'' []] =
     Inr [ex_decision ''b'' [], ex_decision ''a'' [''b'']]"
proof -
  have "appendRecordOrder [ex_decision ''a'' [''b''], ex_decision ''b'' []] =
      Inr [ex_decision ''b'' [], ex_decision ''a'' [''b'']]" by code_simp
  with appendRecordOrder_exact [of "[ex_decision ''a'' [''b''], ex_decision ''b'' []]"]
  show ?thesis by (simp add: ex_decision_def)
qed

end
