(* ===== verification/AttemptHandlers.thy ===== *)
theory AttemptHandlers
  imports ReducerSettle Cursor RecordOrder
begin

text \<open>
  The contract of the eight command handlers that act on one attempt.  Its law says what such a
  handler returns: one replacement of the current attempt at the next version, a run that keeps
  its cursor, and the versions of the input as fences.  The consequences are proved once, in the
  locale \<open>attempt_handler\<close>, and every handler of \<open>reducer.ts\<close> interprets it.
\<close>

section \<open>The states of an attempt\<close>

inductive attempt_step :: "attempt_state \<Rightarrow> attempt_state \<Rightarrow> bool" where
  start_work: "s \<in> {Pending, ResultPending} \<Longrightarrow> attempt_step s Running"
| start_correction: "s \<in> {Pending, ResultPending} \<Longrightarrow> attempt_step s ResultPending"
| bind_session: "attempt_step Running Running"
| complete: "attempt_step Running WorkComplete"
| external_phase: "attempt_step WorkComplete WorkComplete"
| invalid_result: "s \<in> {WorkComplete, ResultPending} \<Longrightarrow> attempt_step s ResultPending"
| record_it: "s \<in> {WorkComplete, ResultPending} \<Longrightarrow> attempt_step s Recorded"
| settle_it: "s \<in> {Recorded, ResultPending} \<Longrightarrow> attempt_step s Settled"
| retry_it: "s \<in> {Pending, Running} \<Longrightarrow> attempt_step s Pending"
| terminate: "\<not> terminal_attempt_state s \<Longrightarrow>
    t \<in> {AttemptNeedsHuman, AttemptFailed, AttemptCanceled, AttemptSuperseded} \<Longrightarrow> attempt_step s t"

inductive_cases from_recorded: "attempt_step Recorded t"
inductive_cases to_settled: "attempt_step s Settled"

lemma terminal_has_no_step: "terminal_attempt_state s \<Longrightarrow> \<not> attempt_step s t"
  by (auto elim!: attempt_step.cases)

text \<open>Only a recorded result or a started correction can settle, and a recorded one is never reopened.\<close>

lemma recorded_is_final: "attempt_step Recorded t \<Longrightarrow> t = Settled \<or> terminal_attempt_state t"
  by (auto elim: from_recorded)

section \<open>What a handler returns\<close>

definition same_identity :: "kernel_attempt \<Rightarrow> kernel_attempt \<Rightarrow> bool" where
  "same_identity a a' \<longleftrightarrow>
     ka_id a' = ka_id a \<and> ka_pipeline_run_id a' = ka_pipeline_run_id a \<and> ka_scope a' = ka_scope a \<and>
     ka_repository_authority a' = ka_repository_authority a \<and> ka_request_hash a' = ka_request_hash a \<and>
     ka_definition_bundle_hash a' = ka_definition_bundle_hash a \<and>
     ka_input_subject a' = ka_input_subject a \<and> ka_context_record_ids a' = ka_context_record_ids a \<and>
     ka_context_checkpoint_ids a' = ka_context_checkpoint_ids a"

definition run_replaces :: "kernel_run \<Rightarrow> kernel_attempt \<Rightarrow> kernel_run \<Rightarrow> bool" where
  "run_replaces run next run' \<longleftrightarrow>
     run'\<lparr>kr_current_subject := kr_current_subject run,
         kr_active_effect_versions := kr_active_effect_versions run,
         kr_checkpoint_ids := kr_checkpoint_ids run\<rparr> = replaceAttempt run next"

text \<open>
  What a bundle may do beside the attempt: publish the output subject of a publication, put
  authorised effects (shared with settlement), and spend at most one retry within the limit.
\<close>

definition subject_step :: "reducer_input \<Rightarrow> kernel_attempt \<Rightarrow> kernel_attempt \<Rightarrow> transition_bundle \<Rightarrow> bool" where
  "subject_step input attempt next b \<longleftrightarrow>
     kr_current_subject (tb_run b) = kr_current_subject (ri_run input) \<or>
     (\<exists>stage checkpoint.
        find_stage (cm_stages (ri_manifest input)) (scope_stage_id (ka_scope attempt)) = Some stage \<and>
        is_publication stage \<and> ka_status attempt = WorkComplete \<and> ka_output_subject attempt = None \<and>
        ka_output_subject next = Some (kr_current_subject (tb_run b)) \<and>
        tb_append_checkpoints b = [checkpoint] \<and> GIT_SUBJECT (kr_current_subject (tb_run b)) \<and>
        ck_output_subject checkpoint = Some (kr_current_subject (tb_run b)))"

definition effects_step :: "kernel_run \<Rightarrow> transition_bundle \<Rightarrow> bool" where
  "effects_step run b \<longleftrightarrow>
     tb_put_effects b = [] \<and> kr_active_effect_versions (tb_run b) = kr_active_effect_versions run \<or>
     (\<exists>decision subject intents effects.
        DecisionRec decision \<in> set (tb_append_records b) \<and>
        authorized_effects run decision subject intents = Inr effects \<and>
        tb_put_effects b = sort_key ei_id effects \<and>
        kr_active_effect_versions (tb_run b) =
          sortedRecord (activate_effects effects (kr_active_effect_versions run)))"

definition retry_step :: "kernel_run \<Rightarrow> kernel_attempt \<Rightarrow> kernel_attempt \<Rightarrow> bool" where
  "retry_step run attempt next \<longleftrightarrow>
     ka_work_retry_ordinal next = ka_work_retry_ordinal attempt \<or>
     ka_work_retry_ordinal next = ka_work_retry_ordinal attempt + 1 \<and>
     ka_work_retry_ordinal next \<le> kr_work_retry_limit run"

definition attempt_result :: "reducer_input \<Rightarrow> string \<Rightarrow> transition_bundle \<Rightarrow> bool" where
  "attempt_result input attemptId b \<longleftrightarrow>
     (\<exists>attempt next. currentAttempt input attemptId = Inr attempt \<and> same_identity attempt next \<and>
        ka_version next = ka_version attempt + 1 \<and> attempt_step (ka_status attempt) (ka_status next) \<and>
        \<not> terminal_attempt_state (ka_status next) \<and> tb_expected b = attempt_expected (ri_run input) attempt \<and>
        tb_attempt_writes b = [ReplaceWrite next] \<and> tb_create_attempts b = [] \<and>
        run_replaces (ri_run input) next (tb_run b) \<and> subject_step input attempt next b \<and>
        effects_step (ri_run input) b \<and> retry_step (ri_run input) attempt next)"

lemma json_of_content_sealed [simp]: "json_of_content (seal_bundle c) = json_of_content c"
  by (simp add: json_of_content_def)

lemma sealed_fields:
  assumes "sealed command expected run writes creates records checkpoints effects = Inr b"
  shows "tb_transition_id b = cmd_id command" "tb_expected b = expected" "tb_run b = run"
    "tb_attempt_writes b = attemptWriteOrder writes" "tb_create_attempts b = attemptOrder creates"
    "appendRecordOrder records = Inr (tb_append_records b)"
    "tb_append_checkpoints b = sort_key ck_id checkpoints" "tb_put_effects b = sort_key ei_id effects"
    "tb_cancel_effect_ids b = []" "tb_content_hash b = digestCanonicalJson (json_of_content b)"
  using assms by (auto simp: sealed_def baseContent_def run_ok)

lemma attempt_bundle_fields:
  assumes "attempt_bundle input attempt next run records checkpoints effects = Inr b"
  shows "tb_expected b = attempt_expected (ri_run input) attempt" "tb_run b = run"
    "tb_attempt_writes b = [ReplaceWrite next]" "tb_create_attempts b = []"
    "appendRecordOrder records = Inr (tb_append_records b)" "tb_put_effects b = sort_key ei_id effects"
    "tb_append_checkpoints b = sort_key ck_id checkpoints"
    "tb_content_hash b = digestCanonicalJson (json_of_content b)"
  using sealed_fields [OF assms [unfolded attempt_bundle_def]]
  by (simp_all add: attemptWriteOrder_def attemptOrder_def)

lemma kept_by_replacement [simp]:
  "kr_current_subject (replaceAttempt run a) = kr_current_subject run"
  "kr_active_effect_versions (replaceAttempt run a) = kr_active_effect_versions run"
  "kr_current_subject (with_checkpoint run run' i c) = kr_current_subject run'"
  "kr_active_effect_versions (with_checkpoint run run' i c) = kr_active_effect_versions run'"
  by (simp_all add: replaceAttempt_def with_checkpoint_def)

lemma appended_single: "appendRecordOrder [r] = Inr out \<Longrightarrow> out = [r]"
  by (drule appendRecordOrder_mset) simp

text \<open>The usual handler: it keeps the subject and the effects.\<close>

lemma attempt_resultI:
  assumes "attempt_bundle input attempt next run records checkpoints [] = Inr b"
    and "currentAttempt input i = Inr attempt" and "same_identity attempt next"
    and "ka_version next = ka_version attempt + 1" and "attempt_step (ka_status attempt) (ka_status next)"
    and "run_replaces (ri_run input) next run"
    and "kr_current_subject run = kr_current_subject (ri_run input)"
    and "kr_active_effect_versions run = kr_active_effect_versions (ri_run input)"
    and "retry_step (ri_run input) attempt next" and "\<not> terminal_attempt_state (ka_status next)"
  shows "attempt_result input i b"
proof -
  note f = attempt_bundle_fields [OF assms(1)]
  have "subject_step input attempt next b" and "effects_step (ri_run input) b"
    using f assms(7,8) by (simp_all add: subject_step_def effects_step_def)
  with f assms show ?thesis unfolding attempt_result_def by blast
qed

lemma run_replacesI [intro]:
  "run_replaces run next (replaceAttempt run next)"
  "run_replaces run next (with_checkpoint run (replaceAttempt run next) i c)"
  "run_replaces run next (with_checkpoint run ((replaceAttempt run next)\<lparr>kr_current_subject := s\<rparr>) i c)"
  "run_replaces run next ((with_checkpoint run (replaceAttempt run next) i c)\<lparr>kr_active_effect_versions := e\<rparr>)"
  unfolding run_replaces_def with_checkpoint_def replaceAttempt_def
  by (rule kernel_run.equality; simp)+

lemma run_replaces_fields:
  assumes "run_replaces run next run'"
  shows "kr_id run' = kr_id run" "kr_pipeline_id run' = kr_pipeline_id run"
    "kr_definition_bundle_hash run' = kr_definition_bundle_hash run"
    "kr_cursor run' = kr_cursor run" "kr_version run' = kr_version run + 1"
    "kr_terminal_outcome run' = kr_terminal_outcome run"
    "kr_status run' = (if kr_status run = RunPending then RunRunning else kr_status run)"
    "kr_work_retry_limit run' = kr_work_retry_limit run"
    "kr_active_attempt_versions run' =
       sortedRecord (AList.update (ka_id next) (ka_version next) (kr_active_attempt_versions run))"
proof -
  let ?k = "run'\<lparr>kr_current_subject := kr_current_subject run,
      kr_active_effect_versions := kr_active_effect_versions run, kr_checkpoint_ids := kr_checkpoint_ids run\<rparr>"
  have k: "?k = replaceAttempt run next" using assms by (simp add: run_replaces_def)
  show "kr_id run' = kr_id run" using arg_cong [OF k, of kr_id] by (simp add: replaceAttempt_def)
  show "kr_pipeline_id run' = kr_pipeline_id run"
    using arg_cong [OF k, of kr_pipeline_id] by (simp add: replaceAttempt_def)
  show "kr_definition_bundle_hash run' = kr_definition_bundle_hash run"
    using arg_cong [OF k, of kr_definition_bundle_hash] by (simp add: replaceAttempt_def)
  show "kr_cursor run' = kr_cursor run" using arg_cong [OF k, of kr_cursor] by (simp add: replaceAttempt_def)
  show "kr_version run' = kr_version run + 1"
    using arg_cong [OF k, of kr_version] by (simp add: replaceAttempt_def)
  show "kr_terminal_outcome run' = kr_terminal_outcome run"
    using arg_cong [OF k, of kr_terminal_outcome] by (simp add: replaceAttempt_def)
  show "kr_status run' = (if kr_status run = RunPending then RunRunning else kr_status run)"
    using arg_cong [OF k, of kr_status] by (simp add: replaceAttempt_def)
  show "kr_work_retry_limit run' = kr_work_retry_limit run"
    using arg_cong [OF k, of kr_work_retry_limit] by (simp add: replaceAttempt_def)
  show "kr_active_attempt_versions run' =
      sortedRecord (AList.update (ka_id next) (ka_version next) (kr_active_attempt_versions run))"
    using arg_cong [OF k, of kr_active_attempt_versions] by (simp add: replaceAttempt_def)
qed

section \<open>The contract\<close>

locale attempt_handler =
  fixes handle :: "reducer_input \<Rightarrow> 'c \<Rightarrow> transition_bundle result"
    and target :: "'c \<Rightarrow> string option"
  assumes returns: "handle input c = Inr b \<Longrightarrow> target c = Some i \<Longrightarrow> attempt_result input i b"
begin

lemma no_creation: "handle input c = Inr b \<Longrightarrow> target c = Some i \<Longrightarrow> tb_create_attempts b = []"
  by (auto dest: returns simp: attempt_result_def)

lemma cursor_kept:
  assumes "handle input c = Inr b" and "target c = Some i"
  shows "kr_cursor (tb_run b) = kr_cursor (ri_run input)" "kr_version (tb_run b) = kr_version (ri_run input) + 1"
    "run_ended (kr_status (tb_run b)) \<longleftrightarrow> run_ended (kr_status (ri_run input))"
    "kr_terminal_outcome (tb_run b) = kr_terminal_outcome (ri_run input)"
  using returns [OF assms(1,2)]
  by (auto simp: attempt_result_def run_replaces_fields(4-7) split: if_splits)

lemma single_write:
  assumes "handle input c = Inr b" and "target c = Some i"
  obtains attempt after where "ri_current_attempt input = Some attempt" and "ka_id attempt = i"
    and "same_identity attempt after" and "ka_version after = ka_version attempt + 1"
    and "attempt_step (ka_status attempt) (ka_status after)"
    and "tb_attempt_writes b = [ReplaceWrite after]"
    and "tb_expected b = attempt_expected (ri_run input) attempt"
    and "run_replaces (ri_run input) after (tb_run b)"
  using returns [OF assms(1,2)] that
  by (auto simp: attempt_result_def currentAttempt_def run_ok split: option.splits)

lemma stays_open:
  assumes "handle input c = Inr b" and "target c = Some i" and "ReplaceWrite a' \<in> set (tb_attempt_writes b)"
  shows "\<not> terminal_attempt_state (ka_status a')"
  using returns [OF assms(1,2)] assms(3) by (auto simp: attempt_result_def)

text \<open>The active attempt stays active, at its after version, and every other one keeps its version.\<close>

lemma active_kept:
  assumes "handle input c = Inr b" and "target c = Some i" and "dict_ok (kr_active_attempt_versions (ri_run input))"
    and "ri_current_attempt input = Some attempt"
  shows "map_of (kr_active_attempt_versions (tb_run b)) =
         (map_of (kr_active_attempt_versions (ri_run input)))(i \<mapsto> ka_version attempt + 1)"
    and "dict_ok (kr_active_attempt_versions (tb_run b))"
proof -
  obtain a after where w: "ri_current_attempt input = Some a" "ka_id a = i"
      "same_identity a after" "ka_version after = ka_version a + 1"
      "run_replaces (ri_run input) after (tb_run b)"
    using single_write [OF assms(1,2)] by metis
  with assms(4) have "a = attempt" by simp
  with w assms(3) run_replaces_fields(9) [OF w(5)]
  show "map_of (kr_active_attempt_versions (tb_run b)) =
      (map_of (kr_active_attempt_versions (ri_run input)))(i \<mapsto> ka_version attempt + 1)"
    "dict_ok (kr_active_attempt_versions (tb_run b))"
    by (simp_all add: same_identity_def)
qed

text \<open>A handler keeps the topology of an input that passed the base checks.\<close>

lemma topology_kept:
  assumes "handle input c = Inr b" and "target c = Some i" and "topology (ri_run input)"
    and "dict_ok (kr_active_attempt_versions (ri_run input))"
    and "i \<in> set (keys (kr_active_attempt_versions (ri_run input)))"
  shows "topology (tb_run b)"
proof -
  obtain a where a: "ri_current_attempt input = Some a" using single_write [OF assms(1,2)] by metis
  note active = active_kept [OF assms(1,2,4) a]
  from active(1) have "set (keys (kr_active_attempt_versions (tb_run b))) =
      insert i (set (keys (kr_active_attempt_versions (ri_run input))))"
    by (metis dom_fun_upd dom_map_of_conv_image_fst image_set list.set_map option.distinct(1))
  with assms(5) have "set (keys (kr_active_attempt_versions (tb_run b))) =
      set (keys (kr_active_attempt_versions (ri_run input)))" by auto
  with active(2) assms(4) have "sort (keys (kr_active_attempt_versions (tb_run b))) =
      sort (keys (kr_active_attempt_versions (ri_run input)))" by (simp add: set_eq_sort_eq)
  with assms(3) show ?thesis by (simp only: topology_def cursor_kept(1) [OF assms(1,2)])
qed

end

section \<open>The handlers satisfy it\<close>

lemma start_returns: "start input a l = Inr b \<Longrightarrow> attempt_result input a b"
  by (auto simp: start_def Let_def run_ok run_cases same_identity_def retry_step_def attempt_step.simps
      intro!: attempt_resultI split: if_splits)

lemma bind_returns: "bindRuntimeSession input c = Inr b \<Longrightarrow> attempt_result input (bs_attempt_id c) b"
  by (auto simp: bindRuntimeSession_def Let_def run_ok same_identity_def retry_step_def attempt_step.simps
      intro!: attempt_resultI split: if_splits)

lemma complete_returns: "workComplete input a k v r = Inr b \<Longrightarrow> attempt_result input a b"
  by (auto simp: workComplete_def Let_def run_ok same_identity_def retry_step_def attempt_step.simps
      intro!: attempt_resultI split: if_splits)

lemma schedule_returns:
  assumes "scheduleExternal input c = Inr b"
  shows "attempt_result input (se_attempt_id c) b"
proof -
  let ?run = "ri_run input"
  let ?new = "\<lambda>a ck. a\<lparr>ka_status := WorkComplete, ka_version := ka_version a + 1, ka_lease := None,
      ka_output_subject := se_verified_output_subject c, ka_native_session_id := None,
      ka_checkpoint_id := Some (ck_id ck)\<rparr>"
  from assms obtain attempt and ck :: attempt_checkpoint and auth :: decision_authorization
    and subject effects checkpoints where
    a: "currentAttempt input (se_attempt_id c) = Inr attempt" and
    st: "\<not> (ka_status attempt \<noteq> Running \<and> ka_status attempt \<noteq> WorkComplete)" and
    e: "authorized_effects ?run (da_decision auth) subject (se_effect_intents c) = Inr effects" and
    b: "attempt_bundle input attempt (?new attempt ck)
          ((with_checkpoint ?run (replaceAttempt ?run (?new attempt ck)) (ka_id attempt) (ck_id ck))
             \<lparr>kr_active_effect_versions := sortedRecord (activate_effects effects (kr_active_effect_versions ?run))\<rparr>)
          [DecisionRec (da_decision auth)] checkpoints effects = Inr b"
    unfolding scheduleExternal_def Let_def
    by (simp only: bindE_eq_Inr if_throw_eq_Inr, elim exE conjE, intro that; (assumption | blast))
  note f = attempt_bundle_fields [OF b]
  have n: "same_identity attempt (?new attempt ck)" "retry_step ?run attempt (?new attempt ck)"
    "attempt_step (ka_status attempt) (ka_status (?new attempt ck))"
    "\<not> terminal_attempt_state (ka_status (?new attempt ck))"
    using st by (auto simp: same_identity_def retry_step_def attempt_step.simps)
  have "subject_step input attempt (?new attempt ck) b" using f by (simp add: subject_step_def)
  moreover have "effects_step ?run b"
    unfolding effects_step_def using f e appended_single [OF f(5)] by auto
  moreover have "run_replaces ?run (?new attempt ck) (tb_run b)" unfolding f(2) by (rule run_replacesI)
  ultimately show ?thesis
    unfolding attempt_result_def using f a n by (intro exI [of _ attempt] exI [of _ "?new attempt ck"]) simp
qed

lemma advance_returns:
  assumes "advanceExternalSubject input c = Inr b"
  shows "attempt_result input (av_attempt_id c) b"
proof -
  let ?run = "ri_run input" let ?v = "av_verified_output_subject c"
  let ?new = "\<lambda>a ck. a\<lparr>ka_version := ka_version a + 1, ka_output_subject := Some ?v,
      ka_checkpoint_id := Some (ck_id ck)\<rparr>"
  from assms obtain attempt stage prior ck where
    a: "currentAttempt input (av_attempt_id c) = Inr attempt" and
    s: "stageFor (ri_manifest input) (scope_stage_id (ka_scope attempt)) = Inr stage" and
    st: "ka_status attempt = WorkComplete \<and> ka_output_subject attempt = None" and
    p: "proves_subject_advance prior ck ?v" and
    b: "attempt_bundle input attempt (?new attempt ck) (with_checkpoint ?run
          (if is_publication stage then (replaceAttempt ?run (?new attempt ck))\<lparr>kr_current_subject := ?v\<rparr>
           else replaceAttempt ?run (?new attempt ck)) (ka_id attempt) (ck_id ck)) [] [ck] [] = Inr b"
    unfolding advanceExternalSubject_def Let_def
    by (fastforce simp only: bindE_eq_Inr if_throw_eq_Inr de_Morgan_disj not_not)
  note f = attempt_bundle_fields [OF b]
  have n: "same_identity attempt (?new attempt ck)" "retry_step ?run attempt (?new attempt ck)"
    "attempt_step (ka_status attempt) (ka_status (?new attempt ck))"
    "\<not> terminal_attempt_state (ka_status (?new attempt ck))"
    using st by (simp_all add: same_identity_def retry_step_def attempt_step.simps)
  have "subject_step input attempt (?new attempt ck) b"
    using f s st p by (auto simp: subject_step_def proves_subject_advance_def stageFor_def split: option.splits)
  moreover have "effects_step ?run b" using f by (simp add: effects_step_def)
  moreover have "run_replaces ?run (?new attempt ck) (tb_run b)" using f(2) by auto
  ultimately show ?thesis
    unfolding attempt_result_def using f a n by (intro exI [of _ attempt] exI [of _ "?new attempt ck"]) simp
qed

lemma pending_returns: "resultPending input c = Inr b \<Longrightarrow> attempt_result input (rp_attempt_id c) b"
  by (auto simp: resultPending_def Let_def run_ok run_cases same_identity_def retry_step_def attempt_step.simps
      intro!: attempt_resultI split: if_splits)

lemma record_returns: "record_result input a r = Inr b \<Longrightarrow> attempt_result input a b"
  by (auto simp: record_result_def Let_def run_ok same_identity_def retry_step_def attempt_step.simps
      intro!: attempt_resultI split: if_splits)

lemma retry_returns: "retry input a f = Inr b \<Longrightarrow> attempt_result input a b"
  by (auto simp: retry_def Let_def run_ok same_identity_def retry_step_def attempt_step.simps
      intro!: attempt_resultI split: if_splits)

text \<open>The attempt that a command replaces, when it does nothing else.\<close>

fun attempt_command :: "command_body \<Rightarrow> string option" where
  "attempt_command (StartCommand a _) = Some a"
| "attempt_command (BindRuntimeSession c) = Some (bs_attempt_id c)"
| "attempt_command (WorkCompleteCommand a _ _ _) = Some a"
| "attempt_command (ScheduleExternal c) = Some (se_attempt_id c)"
| "attempt_command (AdvanceExternalSubject c) = Some (av_attempt_id c)"
| "attempt_command (ResultPendingCommand c) = Some (rp_attempt_id c)"
| "attempt_command (RecordResult a _) = Some a"
| "attempt_command (RetryAttempt a _) = Some a"
| "attempt_command _ = None"

lemmas handler_returns =
  start_returns bind_returns complete_returns schedule_returns advance_returns pending_returns
  record_returns retry_returns

interpretation attempt_commands: attempt_handler dispatch attempt_command
proof
  fix input c b i
  assume "dispatch input c = Inr b" and "attempt_command c = Some i"
  then show "attempt_result input i b"
    by (cases c) (auto simp: dispatch_def dest: handler_returns)
qed

end
