(* ===== verification/KernelFacts.thy ===== *)
theory KernelFacts
  imports AttemptHandlers
begin

text \<open>
  What a successful reduction returns, command family by command family: the facts that the
  base checks establish, the cases of a settlement, of a terminal command and of a quarantine,
  and their union \<open>kernel_cases\<close>, from which the properties of the reducer follow.
\<close>

section \<open>The base checks\<close>

lemma stageFor_ok [run_ok]:
  "stageFor manifest i = Inr s \<longleftrightarrow> find_stage (cm_stages manifest) i = Some s"
  by (auto simp: stageFor_def split: option.splits)

lemma find_stage_id: "find_stage stages i = Some s \<Longrightarrow> s \<in> set stages \<and> st_id s = i"
  by (auto simp: find_stage_def find_Some_iff)

lemma assertActiveAttempt_ok:
  "is_ok (assertActiveAttempt run a) \<longleftrightarrow>
     ka_pipeline_run_id a = kr_id run \<and> ka_definition_bundle_hash a = kr_definition_bundle_hash run \<and>
     map_of (kr_active_attempt_versions run) (ka_id a) = Some (ka_version a) \<and>
     cu_stage_id (kr_cursor run) = Some (scope_stage_id (ka_scope a)) \<and>
     \<not> terminal_attempt_state (ka_status a) \<and>
     is_ok (canonicalAttemptContextIds (ka_context_record_ids a)) \<and>
     is_ok (canonicalAttemptContextIds (ka_context_checkpoint_ids a))"
  by (simp only: assertActiveAttempt_def is_ok_if_throw is_ok_bindE_unit is_ok_simps) auto

lemma topology_checked: "assertCursorTopology run current = Inr u \<Longrightarrow> topology run"
  using assertCursorTopology_ok [of run current] by simp

lemma base_input_facts:
  assumes "assertBaseInput input = Inr u"
  shows "\<not> run_ended (kr_status (ri_run input))" "kr_terminal_outcome (ri_run input) = None"
    "topology (ri_run input)" "cu_stage_id (kr_cursor (ri_run input)) \<noteq> None"
    "kr_version (ri_run input) \<ge> 0"
    "ri_current_attempt input = Some a \<Longrightarrow> is_ok (assertActiveAttempt (ri_run input) a)"
  using assms
  by (auto simp: assertBaseInput_def Let_def run_ok assertCurrent_def is_ok_iff
      simp del: terminal_attempt_state.simps dest: topology_checked split: option.splits if_splits)

lemma base_current_active:
  assumes "assertBaseInput input = Inr u" and "ri_current_attempt input = Some a"
  shows "map_of (kr_active_attempt_versions (ri_run input)) (ka_id a) = Some (ka_version a)"
    "ka_id a \<in> set (keys (kr_active_attempt_versions (ri_run input)))"
    "\<not> terminal_attempt_state (ka_status a)"
    "cu_stage_id (kr_cursor (ri_run input)) = Some (scope_stage_id (ka_scope a))"
    "ka_pipeline_run_id a = kr_id (ri_run input)"
proof -
  have ok: "is_ok (assertActiveAttempt (ri_run input) a)" by (rule base_input_facts(6) [OF assms])
  then show v: "map_of (kr_active_attempt_versions (ri_run input)) (ka_id a) = Some (ka_version a)"
    and "\<not> terminal_attempt_state (ka_status a)"
    and "cu_stage_id (kr_cursor (ri_run input)) = Some (scope_stage_id (ka_scope a))"
    and "ka_pipeline_run_id a = kr_id (ri_run input)"
    by (simp_all add: assertActiveAttempt_ok del: terminal_attempt_state.simps)
  from v show "ka_id a \<in> set (keys (kr_active_attempt_versions (ri_run input)))"
    by (metis in_keys_map_of option.distinct(1))
qed

lemma currentAttempt_ok [run_ok]:
  "currentAttempt input i = Inr a \<longleftrightarrow> ri_current_attempt input = Some a \<and> ka_id a = i"
  by (auto simp: currentAttempt_def split: option.splits)

section \<open>Settlement\<close>

text \<open>The completed keys of the cursor after the settlement of one attempt.\<close>

definition completed_with :: "kernel_run \<Rightarrow> frontier_member \<Rightarrow> string list" where
  "completed_with run m = sortedUnique (cu_completed_scope_keys (kr_cursor run) @ [fm_scope_key m])"

definition sibling_run :: "kernel_run \<Rightarrow> string \<Rightarrow> string list \<Rightarrow> kernel_run" where
  "sibling_run run attemptId completed =
     run\<lparr>kr_version := kr_version run + 1,
         kr_cursor := (kr_cursor run)\<lparr>cu_version := cu_version (kr_cursor run) + 1,
           cu_completed_scope_keys := completed\<rparr>,
         kr_active_attempt_versions := sortedRecord (AList.delete attemptId (kr_active_attempt_versions run))\<rparr>"

text \<open>What all settlements share.\<close>

definition settlement_shape ::
  "reducer_input \<Rightarrow> kernel_attempt \<Rightarrow> string \<Rightarrow> decision_authorization \<Rightarrow> execution_record list \<Rightarrow>
     transition_bundle \<Rightarrow> bool" where
  "settlement_shape input attempt resultRecordId authorization records b \<longleftrightarrow>
     tb_expected b = attempt_expected (ri_run input) attempt \<and>
     tb_attempt_writes b =
       [ReplaceWrite (settled_attempt attempt resultRecordId (rb_id (da_decision authorization)))] \<and>
     appendRecordOrder records = Inr (tb_append_records b) \<and> tb_append_checkpoints b = [] \<and>
     resultRecordId \<in> set (dr_input_record_ids (da_decision authorization))"

lemma settleAuthorized_cases:
  assumes "settleAuthorized input c attempt rid auth records = Inr b"
  obtains
    (sibling) m barrier where
      "find (\<lambda>m. fm_attempt_id m = ka_id attempt) (cu_frontier (kr_cursor (ri_run input))) = Some m"
      "cu_barrier (kr_cursor (ri_run input)) = Some barrier"
      "\<not> set barrier \<subseteq> set (completed_with (ri_run input) m)"
      "settlement_shape input attempt rid auth records b"
      "tb_run b = sibling_run (ri_run input) (ka_id attempt) (completed_with (ri_run input) m)"
      "tb_create_attempts b = []" "tb_put_effects b = []"
  | (ended) m barrier stage subject transition terminal where
      "find (\<lambda>m. fm_attempt_id m = ka_id attempt) (cu_frontier (kr_cursor (ri_run input))) = Some m"
      "cu_barrier (kr_cursor (ri_run input)) = Some barrier"
      "set barrier \<subseteq> set (completed_with (ri_run input) m)"
      "settlement_shape input attempt rid auth records b"
      "find_stage (cm_stages (ri_manifest input)) (scope_stage_id (ka_scope attempt)) = Some stage"
      "accepted_subject (ri_run input) stage attempt = Some subject"
      "selectTransition input c stage auth = Inr transition" "ef_terminal transition = Some terminal"
      "is_ok (assertTerminalSettlement input c stage auth rid terminal)"
      "tb_run b = ended_run (ri_run input) subject (completed_with (ri_run input) m) terminal"
      "tb_create_attempts b = []" "tb_put_effects b = []"
  | (advanced) m barrier stage subject transition effects where
      "find (\<lambda>m. fm_attempt_id m = ka_id attempt) (cu_frontier (kr_cursor (ri_run input))) = Some m"
      "cu_barrier (kr_cursor (ri_run input)) = Some barrier"
      "set barrier \<subseteq> set (completed_with (ri_run input) m)"
      "settlement_shape input attempt rid auth records b"
      "find_stage (cm_stages (ri_manifest input)) (scope_stage_id (ka_scope attempt)) = Some stage"
      "accepted_subject (ri_run input) stage attempt = Some subject"
      "selectTransition input c stage auth = Inr transition" "ef_terminal transition = None"
      "is_ok (assertSuccessors input c stage subject (ef_to transition))"
      "authorized_effects (ri_run input) (da_decision auth) subject (sf_effect_intents c) = Inr effects"
      "advanced_run (ri_run input) c subject (completed_with (ri_run input) m) transition effects = Inr (tb_run b)"
      "tb_create_attempts b = attemptOrder (sf_next_attempts c)" "tb_put_effects b = sort_key ei_id effects"
proof -
  let ?run = "ri_run input"
  from assms obtain m barrier stage where
    rid: "rid \<in> set (dr_input_record_ids (da_decision auth))" and
    m: "find (\<lambda>m. fm_attempt_id m = ka_id attempt) (cu_frontier (kr_cursor ?run)) = Some m" and
    bar: "cu_barrier (kr_cursor ?run) = Some barrier" and
    st: "find_stage (cm_stages (ri_manifest input)) (scope_stage_id (ka_scope attempt)) = Some stage"
    by (auto simp: settleAuthorized_def Let_def run_ok split: option.splits)
  let ?settled = "settled_attempt attempt rid (rb_id (da_decision auth))"
  have eq: "(if \<not> set barrier \<subseteq> set (completed_with ?run m)
      then settleSibling input c attempt ?settled (completed_with ?run m) records
      else settleBarrier input c attempt ?settled stage (completed_with ?run m) rid auth records) = Inr b"
    using assms m bar st
    by (auto simp: settleAuthorized_def Let_def run_ok completed_with_def list_all_iff subset_iff
        split: if_splits)
  show thesis
  proof (cases "set barrier \<subseteq> set (completed_with ?run m)")
    case False
    with eq have "settleSibling input c attempt ?settled (completed_with ?run m) records = Inr b" by simp
    then have "attempt_bundle input attempt ?settled (sibling_run ?run (ka_id attempt) (completed_with ?run m))
        records [] [] = Inr b"
      by (auto simp: settleSibling_def Let_def run_ok sibling_run_def)
    note f = attempt_bundle_fields [OF this]
    show thesis by (rule sibling [OF m bar False]) (use f rid in \<open>simp_all add: settlement_shape_def\<close>)
  next
    case True
    with eq have "settleBarrier input c attempt ?settled stage (completed_with ?run m) rid auth records = Inr b"
      by simp
    then obtain subject transition effects nextRun where
      s: "accepted_subject ?run stage attempt = Some subject" and
      t: "selectTransition input c stage auth = Inr transition" and
      chk: "is_ok (case ef_terminal transition of
              Some terminal \<Rightarrow> assertTerminalSettlement input c stage auth rid terminal
            | None \<Rightarrow> assertSuccessors input c stage subject (ef_to transition))" and
      e: "authorized_effects ?run (da_decision auth) subject (sf_effect_intents c) = Inr effects" and
      n: "(case ef_terminal transition of
              Some terminal \<Rightarrow> Inr (ended_run ?run subject (completed_with ?run m) terminal)
            | None \<Rightarrow> advanced_run ?run c subject (completed_with ?run m) transition effects) = Inr nextRun" and
      b: "sealed (ri_command input) (attempt_expected ?run attempt) nextRun [ReplaceWrite ?settled]
            (sf_next_attempts c) records [] effects = Inr b"
      by (auto simp: settleBarrier_def Let_def bindE_eq_Inr is_ok_iff run_cases)
    note f = sealed_fields [OF b]
    have shape: "settlement_shape input attempt rid auth records b"
      using f rid by (simp add: settlement_shape_def attemptWriteOrder_def)
    show thesis
    proof (cases "ef_terminal transition")
      case None
      show thesis
        by (rule advanced [OF m bar True shape st s t None _ e]) (use None chk n f in simp_all)
    next
      case (Some terminal)
      with chk have ok: "is_ok (assertTerminalSettlement input c stage auth rid terminal)" by simp
      then have none: "sf_next_attempts c = []" "sf_effect_intents c = []"
        by (auto simp: assertTerminalSettlement_def run_ok Let_def)
      with e have "effects = []" by (auto simp: authorized_effects_def run_ok)
      show thesis
        by (rule ended [OF m bar True shape st s t Some ok])
          (use Some n f none \<open>effects = []\<close> in \<open>simp_all add: attemptOrder_def\<close>)
    qed
  qed
qed

section \<open>Commands that settle\<close>

text \<open>The two settlement commands, with what they establish on the way.\<close>

definition settling ::
  "reducer_input \<Rightarrow> settlement_fields \<Rightarrow> kernel_attempt \<Rightarrow> string \<Rightarrow> decision_authorization \<Rightarrow>
     execution_record list \<Rightarrow> bool" where
  "settling input c attempt rid auth records \<longleftrightarrow>
     ri_current_attempt input = Some attempt \<and> ka_id attempt = sf_attempt_id c \<and>
     exactDecision input (sf_decision_record_id c) = Inr auth \<and>
     (ka_status attempt = Recorded \<and> ka_result_record_id attempt = Some rid \<and>
        records = [DecisionRec (da_decision auth)] \<or>
      ka_status attempt = ResultPending \<and> started_correction (ka_lease attempt) \<and>
        (\<exists>k res. resultForAttempt input attempt k = Inr res \<and> rb_id res = rid \<and>
           records = [ResultRec res, DecisionRec (da_decision auth)]))"

lemma settle_cases:
  assumes "settle input c = Inr b"
  obtains attempt rid auth records where "settling input c attempt rid auth records"
    and "settleAuthorized input c attempt rid auth records = Inr b"
  using assms that by (auto simp: settle_def run_ok settling_def truthy_iff)

lemma exactDecision_facts:
  assumes "exactDecision input i = Inr auth"
  shows "map_of (ri_records input) i = Some (DecisionRec (da_decision auth))"
    "rb_id (da_decision auth) \<notin> set (dr_input_record_ids (da_decision auth))"
    "list_all2 (\<lambda>i r. map_of (ri_records input) i = Some r) (i # dr_input_record_ids (da_decision auth))
       (da_exact_records auth)"
  using assms
  by (auto simp: exactDecision_def Let_def run_ok run_cases mapE_eq_Inr
      split: option.splits execution_record.splits)

lemma correct_cases:
  assumes "correctAndSettle input r e c = Inr b"
  obtains attempt rid auth records where "settling input c attempt rid auth records"
    and "settleAuthorized input c attempt rid auth records = Inr b"
proof -
  from assms obtain attempt auth res where
    "ri_current_attempt input = Some attempt" "ka_id attempt = sf_attempt_id c"
    "ka_status attempt = ResultPending" "started_correction (ka_lease attempt)"
    "exactDecision input (sf_decision_record_id c) = Inr auth"
    "resultForAttempt input attempt r = Inr res"
    "settleAuthorized input c attempt (rb_id res) auth [ResultRec res, DecisionRec (da_decision auth)] = Inr b"
    by (auto simp: correctAndSettle_def run_ok run_cases split: option.splits execution_record.splits if_splits)
  then show thesis
    by (intro that [of attempt "rb_id res" auth "[ResultRec res, DecisionRec (da_decision auth)]"])
      (auto simp: settling_def)
qed

section \<open>Commands that end the active attempts\<close>

definition cleanup_created :: "reducer_input \<Rightarrow> terminal_outcome \<Rightarrow> kernel_attempt \<Rightarrow> decision_record \<Rightarrow> bool" where
  "cleanup_created input outcome a decision \<longleftrightarrow>
     is_ok (assertCleanupAttempt input (runtimeStopStageId outcome) decision a)"

lemma terminal_cases:
  assumes "terminalCommand input outcome c i = Inr b"
  obtains
    (before_provision) auth current stage where
      "exactDecision input (tf_decision_record_id c) = Inr auth"
      "tf_resource_disposition c = PreProvision" "ri_current_attempt input = Some current"
      "find_stage (cm_stages (ri_manifest input)) (scope_stage_id (ka_scope current)) = Some stage"
      "is_provision_stage stage" "ka_checkpoint_id current = None" "ka_output_subject current = None"
      "kr_active_effect_versions (ri_run input) = []"
      "tb_run b = terminalRun (ri_run input) outcome"
      "tb_expected b = expectedFor (ri_run input) (sortedRecord (kr_active_attempt_versions (ri_run input)))"
      "tb_attempt_writes b =
         attemptWriteOrder (terminalAttemptWrites (ri_run input) (Some current) (attempt_outcome outcome))"
      "tb_create_attempts b = []" "tb_put_effects b = []"
  | (cleanup) auth d where
      "exactDecision input (tf_decision_record_id c) = Inr auth"
      "tf_resource_disposition c = Cleanup d"
      "kr_active_effect_versions (ri_run input) = []"
      "is_ok (assertCleanupDeliveries auth (sortedUnique (cf_runtime_delivery_record_ids d)))"
      "cleanup_created input outcome (cf_cleanup_attempt d) (da_decision auth)"
      "cleaning_run (ri_run input) (runtimeStopStageId outcome) (cf_cleanup_attempt d) = Inr (tb_run b)"
      "tb_expected b = expectedFor (ri_run input) (sortedRecord (kr_active_attempt_versions (ri_run input)))"
      "tb_attempt_writes b =
         attemptWriteOrder (terminalAttemptWrites (ri_run input) (ri_current_attempt input) (attempt_outcome outcome))"
      "tb_create_attempts b = [cf_cleanup_attempt d]" "tb_put_effects b = []"
proof -
  from assms obtain auth recovery frontier where auth: "exactDecision input (tf_decision_record_id c) = Inr auth"
    and k: "(case tf_resource_disposition c of
        PreProvision \<Rightarrow> preProvision input outcome auth
      | Cleanup d \<Rightarrow> cleanupCommand input outcome auth recovery frontier d) = Inr b"
    by (auto simp: terminalCommand_def Let_def run_ok)
  show thesis
  proof (cases "tf_resource_disposition c")
    case PreProvision
    with k have "preProvision input outcome auth = Inr b" by simp
    then obtain current stage where
      p: "ri_current_attempt input = Some current"
        "find_stage (cm_stages (ri_manifest input)) (scope_stage_id (ka_scope current)) = Some stage"
        "is_provision_stage stage" "ka_checkpoint_id current = None" "ka_output_subject current = None"
        "kr_active_effect_versions (ri_run input) = []" and
      s: "sealed (ri_command input)
          (expectedFor (ri_run input) (sortedRecord (kr_active_attempt_versions (ri_run input))))
          (terminalRun (ri_run input) outcome)
          (terminalAttemptWrites (ri_run input) (Some current) (attempt_outcome outcome))
          [] [DecisionRec (da_decision auth)] [] [] = Inr b"
      by (auto simp: preProvision_def Let_def run_ok run_cases)
    note f = sealed_fields [OF s]
    show thesis
      by (rule before_provision [OF auth PreProvision p]) (use f in \<open>simp_all add: attemptOrder_def\<close>)
  next
    case (Cleanup d)
    with k have "cleanupCommand input outcome auth recovery frontier d = Inr b" by simp
    then obtain records nextRun where
      q: "kr_active_effect_versions (ri_run input) = []"
        "is_ok (assertCleanupDeliveries auth (sortedUnique (cf_runtime_delivery_record_ids d)))"
        "cleanup_created input outcome (cf_cleanup_attempt d) (da_decision auth)"
        "cleaning_run (ri_run input) (runtimeStopStageId outcome) (cf_cleanup_attempt d) = Inr nextRun" and
      s: "sealed (ri_command input)
          (expectedFor (ri_run input) (sortedRecord (kr_active_attempt_versions (ri_run input)))) nextRun
          (terminalAttemptWrites (ri_run input) (ri_current_attempt input) (attempt_outcome outcome))
          [cf_cleanup_attempt d] records [] [] = Inr b"
      by (auto simp: cleanupCommand_def Let_def run_ok cleanup_created_def is_ok_iff)
    note f = sealed_fields [OF s]
    show thesis
      by (rule cleanup [OF auth Cleanup q(1-3)]) (use q(4) f in \<open>simp_all add: attemptOrder_def\<close>)
  qed
qed

lemma quarantine_cases:
  assumes "quarantineCommand input c = Inr b"
  obtains attempt diagnostic where
    "ri_current_attempt input = Some attempt" "quarantine_owner (ri_run input) attempt c"
    "kr_work_retry_limit (ri_run input) \<le> le_generation (the (ka_lease attempt))"
    "tb_run b = quarantined_run (ri_run input)"
    "tb_expected b = expectedFor (ri_run input) (kr_active_attempt_versions (ri_run input))"
    "tb_attempt_writes b = attemptWriteOrder (map (\<lambda>(attemptId, version).
       TerminalWrite attemptId version (version + 1) AttemptNeedsHuman)
         (kr_active_attempt_versions (ri_run input)))"
    "tb_create_attempts b = []" "tb_put_effects b = []"
proof -
  from assms obtain attempt diagnostic where
    p: "ri_current_attempt input = Some attempt" "quarantine_owner (ri_run input) attempt c"
      "kr_work_retry_limit (ri_run input) \<le> le_generation (the (ka_lease attempt))" and
    s: "sealed (ri_command input) (expectedFor (ri_run input) (kr_active_attempt_versions (ri_run input)))
          (quarantined_run (ri_run input))
          (map (\<lambda>(attemptId, version). TerminalWrite attemptId version (version + 1) AttemptNeedsHuman)
             (kr_active_attempt_versions (ri_run input))) [] [DecisionRec diagnostic] [] [] = Inr b"
    by (auto simp: quarantineCommand_def reduceKernelRecoveryQuarantine_def run_ok not_less
        split: option.splits execution_record.splits)
  note f = sealed_fields [OF s]
  show thesis by (rule that [OF p]) (use f in \<open>simp_all add: attemptOrder_def\<close>)
qed

section \<open>All cases of the reducer\<close>

fun settlement_command :: "command_body \<Rightarrow> settlement_fields option" where
  "settlement_command (SettleAttempt c) = Some c"
| "settlement_command (CorrectAndSettle _ _ c) = Some c"
| "settlement_command _ = None"

fun terminal_command :: "command_body \<Rightarrow> (terminal_outcome \<times> terminal_fields) option" where
  "terminal_command (NeedsHumanCommand _ c) = Some (NeedsHuman, c)"
| "terminal_command (FailCommand _ c) = Some (Failed, c)"
| "terminal_command (StopCommand c) = Some (Canceled, c)"
| "terminal_command (SupersedeCommand c) = Some (Superseded, c)"
| "terminal_command _ = None"

lemma kernel_cases:
  assumes "reduceKernelCommand input = Inr b"
  obtains
    (attempt) i where "assertBaseInput input = Inr ()" "attempt_command (cmd_body (ri_command input)) = Some i"
      "dispatch input (cmd_body (ri_command input)) = Inr b"
  | (settlement) c attempt rid auth records where "assertBaseInput input = Inr ()"
      "settlement_command (cmd_body (ri_command input)) = Some c"
      "settling input c attempt rid auth records"
      "settleAuthorized input c attempt rid auth records = Inr b"
  | (quarantine) c where "assertBaseInput input = Inr ()"
      "cmd_body (ri_command input) = QuarantineAttemptRecovery c" "quarantineCommand input c = Inr b"
  | (terminal) outcome c i where "assertBaseInput input = Inr ()"
      "terminal_command (cmd_body (ri_command input)) = Some (outcome, c)"
      "terminalCommand input outcome c i = Inr b"
proof -
  from assms have base: "assertBaseInput input = Inr ()"
    and d: "dispatch input (cmd_body (ri_command input)) = Inr b"
    by (auto simp: reduceKernelCommand_def bindE_eq_Inr)
  show thesis
  proof (cases "cmd_body (ri_command input)")
    case (SettleAttempt c)
    with d have "settle input c = Inr b" by (simp add: dispatch_def)
    then show thesis using settlement [OF base, of c] SettleAttempt by (elim settle_cases) simp
  next
    case (CorrectAndSettle r e c)
    with d have "correctAndSettle input r e c = Inr b" by (simp add: dispatch_def)
    then show thesis using settlement [OF base, of c] CorrectAndSettle by (elim correct_cases) simp
  next
    case (QuarantineAttemptRecovery c)
    with d show thesis using quarantine [OF base] by (simp add: dispatch_def)
  next
    case (NeedsHumanCommand a c)
    with d show thesis using terminal [OF base] by (simp add: dispatch_def)
  next
    case (FailCommand a c)
    with d show thesis using terminal [OF base] by (simp add: dispatch_def)
  next
    case (StopCommand c)
    with d show thesis using terminal [OF base] by (simp add: dispatch_def)
  next
    case (SupersedeCommand c)
    with d show thesis using terminal [OF base] by (simp add: dispatch_def)
  qed (use attempt [OF base _ d] in simp_all)
qed

end
