(* ===== verification/KernelInvariant.thy ===== *)
theory KernelInvariant
  imports KernelFacts
begin

text \<open>
  The invariant of a run and its preservation by every command: a run that has not ended has a
  canonical cursor whose unsettled members are exactly the active attempts, an acyclic frontier
  and unfinished work; an ended run has nothing active.  The invariant holds in every run that
  the reducer reaches, and it makes the run live: some unsettled member can always be selected.
\<close>

section \<open>The invariant\<close>

definition has_unsettled :: "kernel_cursor \<Rightarrow> bool" where
  "has_unsettled c \<longleftrightarrow>
     (\<exists>m \<in> set (cu_frontier c). fm_scope_key m \<notin> set (cu_completed_scope_keys c))"

definition run_wf :: "kernel_run \<Rightarrow> bool" where
  "run_wf run \<longleftrightarrow>
     dict_ok (kr_active_attempt_versions run) \<and>
     (case kr_status run of
        RunEnded outcome \<Rightarrow>
          kr_terminal_outcome run = Some outcome \<and> cu_stage_id (kr_cursor run) = None \<and>
          cu_frontier (kr_cursor run) = [] \<and> cu_barrier (kr_cursor run) = None \<and>
          kr_active_attempt_versions run = []
      | _ \<Rightarrow>
          kr_terminal_outcome run = None \<and> cu_stage_id (kr_cursor run) \<noteq> None \<and> topology run \<and>
          acyclic (frontier_edges (cu_frontier (kr_cursor run))) \<and> has_unsettled (kr_cursor run))"

text \<open>
  What the reducer takes from its callers and does not check: a new attempt has a key that is not complete
  yet (attempt identities are digests that name the cursor version), and no scope key of a dependency is the
  empty string, which \<open>compileKernelCursor\<close> takes for a known one.  The steps below do not assume it; a
  command without it can leave a run whose cursor no later command accepts.
\<close>

definition fresh_attempts :: "transition_bundle \<Rightarrow> bool" where
  "fresh_attempts b \<longleftrightarrow>
     (\<forall>a \<in> set (tb_create_attempts b).
        frontierMemberKey a \<notin> set (cu_completed_scope_keys (kr_cursor (tb_run b))))"

definition named_command :: "kernel_command \<Rightarrow> bool" where
  "named_command command \<longleftrightarrow>
     (\<forall>c. settlement_command (cmd_body command) = Some c \<longrightarrow> named_dependencies (sf_next_dependencies c))"

lemma run_wf_active:
  "\<not> run_ended (kr_status run) \<Longrightarrow>
     run_wf run \<longleftrightarrow> dict_ok (kr_active_attempt_versions run) \<and> kr_terminal_outcome run = None \<and>
       cu_stage_id (kr_cursor run) \<noteq> None \<and> topology run \<and>
       acyclic (frontier_edges (cu_frontier (kr_cursor run))) \<and> has_unsettled (kr_cursor run)"
  by (cases "kr_status run") (simp_all add: run_wf_def)

section \<open>A settled sibling\<close>

lemma find_member:
  assumes "find (\<lambda>m. fm_attempt_id m = i) frontier = Some m"
  shows "m \<in> set frontier" "fm_attempt_id m = i"
  using assms by (auto simp: find_Some_iff)

lemma sibling_unsettled:
  assumes t: "topology run" and d: "dict_ok (kr_active_attempt_versions run)"
    and f: "find (\<lambda>m. fm_attempt_id m = i) (cu_frontier (kr_cursor run)) = Some m"
  shows "unsettledAttemptIds (kr_cursor (sibling_run run i (completed_with run m))) =
         sort (keys (kr_active_attempt_versions (sibling_run run i (completed_with run m))))"
proof -
  let ?c = "kr_cursor run" let ?f = "cu_frontier ?c" let ?done = "set (cu_completed_scope_keys ?c)"
  have m: "m \<in> set ?f" "fm_attempt_id m = i" using find_member [OF f] by simp_all
  from t have dk: "distinct (map fm_scope_key ?f)" and di: "distinct (map fm_attempt_id ?f)"
    and u: "unsettledAttemptIds ?c = sort (keys (kr_active_attempt_versions run))"
    by (simp_all add: topology_def Let_def)
  have same: "x = m" if "x \<in> set ?f" "fm_attempt_id x = i \<or> fm_scope_key x = fm_scope_key m" for x
    using that m dk di by (auto simp: distinct_map inj_on_def)
  have "set (keys (kr_active_attempt_versions run)) =
      fm_attempt_id ` {x \<in> set ?f. fm_scope_key x \<notin> ?done}"
    using arg_cong [OF u, of set] by (simp add: unsettledAttemptIds_def)
  moreover have "fm_attempt_id ` {x \<in> set ?f. fm_scope_key x \<notin> insert (fm_scope_key m) ?done} =
      fm_attempt_id ` {x \<in> set ?f. fm_scope_key x \<notin> ?done} - {i}"
    using same m by auto
  ultimately have "fm_attempt_id ` {x \<in> set ?f. fm_scope_key x \<notin> insert (fm_scope_key m) ?done} =
      set (keys (AList.delete i (kr_active_attempt_versions run)))"
    by (simp only: set_keys_delete)
  moreover have "distinct (map fm_attempt_id (filter P ?f))" for P
    using di by (rule distinct_map_filter)
  ultimately show ?thesis
    using d unfolding unsettledAttemptIds_def sibling_run_def completed_with_def
    by (simp add: keys_sortedRecord set_eq_sort_eq)
qed

lemma sibling_topology:
  assumes t: "topology run" and d: "dict_ok (kr_active_attempt_versions run)"
    and f: "find (\<lambda>m. fm_attempt_id m = i) (cu_frontier (kr_cursor run)) = Some m"
  shows "topology (sibling_run run i (completed_with run m))"
proof -
  have "member_ok (kr_cursor (sibling_run run i (completed_with run m))) x"
    if "member_ok (kr_cursor run) x" for x
    using that by (auto simp: member_ok_def sibling_run_def completed_with_def)
  with t sibling_unsettled [OF assms] show ?thesis
    by (auto simp: topology_def Let_def) (auto simp: sibling_run_def completed_with_def)
qed

lemma sibling_has_unsettled:
  assumes "topology run" and "cu_barrier (kr_cursor run) = Some barrier"
    and "\<not> set barrier \<subseteq> set (completed_with run m)"
  shows "has_unsettled (kr_cursor (sibling_run run i (completed_with run m)))"
  using assms by (auto simp: topology_def Let_def has_unsettled_def sibling_run_def)

section \<open>New cursors\<close>

lemma update_new: "k \<notin> set (keys d) \<Longrightarrow> AList.update k v d = d @ [(k, v)]"
  by (induction d) auto

lemma keys_fold_update:
  assumes "distinct (map f xs)" and "f ` set xs \<inter> set (keys d) = {}"
  shows "keys (fold (\<lambda>a d. AList.update (f a) (g a) d) xs d) = keys d @ map f xs"
  using assms
proof (induction xs arbitrary: d)
  case (Cons x xs)
  then have "keys (fold (\<lambda>a d. AList.update (f a) (g a) d) xs (d @ [(f x, g x)])) =
      keys (d @ [(f x, g x)]) @ map f xs"
    by (intro Cons.IH) auto
  with Cons.prems show ?case by (simp add: update_new)
qed simp

lemma attemptOrder_ids: "mset (map ka_id (attemptOrder xs)) = mset (map ka_id xs)"
  by (simp add: attemptOrder_def)

lemma set_attemptOrder [simp]: "set (attemptOrder xs) = set xs"
  by (simp add: attemptOrder_def)

lemma assertUniqueNewAttempts_ok:
  "is_ok (assertUniqueNewAttempts attempts run) \<longleftrightarrow>
     distinct (map ka_id attempts) \<and>
     (\<forall>a \<in> set attempts. map_of (kr_active_attempt_versions run) (ka_id a) = None) \<and>
     distinct (map (attemptScopeKey \<circ> ka_scope) attempts)"
  by (auto simp: assertUniqueNewAttempts_def Let_def run_ok length_remdups_map)

lemma assertSuccessors_facts:
  assumes "is_ok (assertSuccessors input c stage subject dest)"
  shows "\<exists>s target. dest = Some s \<and> find_stage (cm_stages (ri_manifest input)) s = Some target"
    "sf_next_attempts c \<noteq> []" "is_ok (assertUniqueNewAttempts (sf_next_attempts c) (ri_run input))"
  using assms by (auto simp: assertSuccessors_def Let_def is_ok_iff run_ok truthy_iff)

text \<open>
  A run that moves on to a freshly compiled cursor satisfies the invariant if its cursor passes the topology
  check, and it does when its new members are named and fresh.
\<close>

lemma compiled_run_wf:
  assumes "compileKernelCursor s v re attempts deps completed = Inr (kr_cursor run)"
    and t: "topology run" and "kr_status run = RunRunning" and "kr_terminal_outcome run = None"
    and "distinct (keys (kr_active_attempt_versions run))"
    and "set (keys (kr_active_attempt_versions run)) = ka_id ` set attempts"
  shows "run_wf run"
proof -
  from assms(1) have c: "cursor_compiles s attempts deps completed"
    and cur: "kr_cursor run = compiled_cursor s v re attempts deps completed"
    by (simp_all add: compile_cursor_iff)
  from c have "attempts \<noteq> []" by (simp add: cursor_compiles_def)
  with assms(6) have "keys (kr_active_attempt_versions run) \<noteq> []" by auto
  then have "sort (keys (kr_active_attempt_versions run)) \<noteq> []" by (metis mset_sort mset_zero_iff)
  with t have "unsettledAttemptIds (kr_cursor run) \<noteq> []" by (simp add: topology_def Let_def)
  then have "map fm_attempt_id (filter (\<lambda>m. fm_scope_key m \<notin> set (cu_completed_scope_keys (kr_cursor run)))
      (cu_frontier (kr_cursor run))) \<noteq> []"
    unfolding unsettledAttemptIds_def by (metis mset_sort mset_zero_iff)
  then have "has_unsettled (kr_cursor run)" by (auto simp: has_unsettled_def filter_empty_conv)
  moreover have "acyclic (frontier_edges (cu_frontier (kr_cursor run)))"
    unfolding cur by (rule compiled_acyclic [OF c])
  ultimately show ?thesis using assms(3-5) t
    by (simp add: run_wf_def cur) (simp add: compiled_cursor_def)
qed

lemma compiled_run_topology:
  assumes "compileKernelCursor s v re attempts deps completed = Inr (kr_cursor run)"
    and "named_dependencies deps" and "distinct (map ka_id attempts)"
    and "\<forall>a \<in> set attempts. frontierMemberKey a \<notin> set completed"
    and "distinct (keys (kr_active_attempt_versions run))"
    and "set (keys (kr_active_attempt_versions run)) = ka_id ` set attempts"
  shows "topology run"
proof -
  have "sort (keys (kr_active_attempt_versions run)) = sort (map ka_id attempts)"
    using assms(3,5,6) by (simp add: set_eq_sort_eq)
  with assms show ?thesis by (auto simp: compile_cursor_iff intro: compiled_topology)
qed

lemma advanced_run_wf:
  assumes a: "advanced_run run c subject completed transition effects = Inr run'"
    and u: "is_ok (assertUniqueNewAttempts (sf_next_attempts c) run)" and o: "kr_terminal_outcome run = None"
  shows "topology run' \<Longrightarrow> run_wf run'"
    and "named_dependencies (sf_next_dependencies c) \<Longrightarrow>
      \<forall>a \<in> set (sf_next_attempts c). frontierMemberKey a \<notin> set (cu_completed_scope_keys (kr_cursor run')) \<Longrightarrow>
      topology run'"
proof -
  let ?active = "fold (\<lambda>a d. AList.update (ka_id a) (ka_version a) d) (attemptOrder (sf_next_attempts c)) []"
  from a obtain cursor where
    k: "compileKernelCursor (the (ef_to transition)) (cu_version (kr_cursor run) + 1) (ef_reentries transition)
          (sf_next_attempts c) (sf_next_dependencies c) completed = Inr cursor" and
    r: "run' = run\<lparr>kr_current_subject := subject, kr_status := RunRunning, kr_version := kr_version run + 1,
          kr_cursor := cursor, kr_active_attempt_versions := sortedRecord ?active,
          kr_active_effect_versions := sortedRecord (activate_effects effects (kr_active_effect_versions run))\<rparr>"
    by (auto simp: advanced_run_def Let_def run_ok)
  from u have d: "distinct (map ka_id (sf_next_attempts c))" by (simp add: assertUniqueNewAttempts_ok)
  then have "distinct (map ka_id (attemptOrder (sf_next_attempts c)))"
    using attemptOrder_ids mset_eq_imp_distinct_iff by blast
  then have ks: "keys ?active = map ka_id (attemptOrder (sf_next_attempts c))"
    by (subst keys_fold_update) simp_all
  have cs: "cu_completed_scope_keys cursor = sortedUnique completed"
    using k by (simp add: compile_cursor_iff compiled_cursor_def)
  have k': "compileKernelCursor (the (ef_to transition)) (cu_version (kr_cursor run) + 1)
        (ef_reentries transition) (sf_next_attempts c) (sf_next_dependencies c) completed = Inr (kr_cursor run')"
    using k r by simp
  have dk: "distinct (keys (kr_active_attempt_versions run'))"
    using \<open>distinct (map ka_id (attemptOrder _))\<close> ks r by simp
  have sk: "set (keys (kr_active_attempt_versions run')) = ka_id ` set (sf_next_attempts c)"
    using arg_cong [OF ks, of set] r by simp
  show "run_wf run'" if "topology run'"
    by (rule compiled_run_wf [OF k' that]) (use r o dk sk in simp_all)
  show "topology run'" if "named_dependencies (sf_next_dependencies c)"
    "\<forall>a \<in> set (sf_next_attempts c). frontierMemberKey a \<notin> set (cu_completed_scope_keys (kr_cursor run'))"
    by (rule compiled_run_topology [OF k' that(1) d _ dk sk]) (use that(2) r cs in simp)
qed

lemma ended_run_wf:
  "run_wf (terminalRun run outcome)" "run_wf (ended_run run subject completed outcome)"
  "run_wf (quarantined_run run)"
  by (simp_all add: run_wf_def terminalRun_def ended_run_def quarantined_run_def)

lemma cleaning_run_wf:
  assumes "cleaning_run run s a = Inr run'"
  shows "topology run' \<Longrightarrow> run_wf run'"
    and "frontierMemberKey a \<notin> set (cu_completed_scope_keys (kr_cursor run')) \<Longrightarrow> topology run'"
proof -
  from assms obtain cursor where
    k: "compileKernelCursor s (cu_version (kr_cursor run) + 1) (cu_reentries (kr_cursor run)) [a] []
          (cu_completed_scope_keys (kr_cursor run)) = Inr cursor" and
    r: "run' = run\<lparr>kr_status := RunRunning, kr_terminal_outcome := None, kr_version := kr_version run + 1,
          kr_cursor := cursor, kr_active_attempt_versions := [(ka_id a, 0)], kr_active_effect_versions := []\<rparr>"
    by (auto simp: cleaning_run_def run_ok)
  have cs: "cu_completed_scope_keys cursor = sortedUnique (cu_completed_scope_keys (kr_cursor run))"
    using k by (simp add: compile_cursor_iff compiled_cursor_def)
  from k r have k': "compileKernelCursor s (cu_version (kr_cursor run) + 1) (cu_reentries (kr_cursor run)) [a] []
          (cu_completed_scope_keys (kr_cursor run)) = Inr (kr_cursor run')" by simp
  show "run_wf run'" if "topology run'" by (rule compiled_run_wf [OF k' that]) (use r in simp_all)
  show "topology run'" if "frontierMemberKey a \<notin> set (cu_completed_scope_keys (kr_cursor run'))"
    by (rule compiled_run_topology [OF k']) (use that r cs in \<open>simp_all add: named_dependencies_def\<close>)
qed

section \<open>Preservation\<close>

lemma attempt_wf:
  assumes "run_wf (ri_run input)" and "assertBaseInput input = Inr ()"
    and d: "dispatch input (cmd_body (ri_command input)) = Inr b"
    and i: "attempt_command (cmd_body (ri_command input)) = Some i"
  shows "run_wf (tb_run b)"
proof -
  obtain a where a: "ri_current_attempt input = Some a" "ka_id a = i"
    using attempt_commands.single_write [OF d i] by metis
  note keep = attempt_commands.cursor_kept [OF d i]
  have open_run: "\<not> run_ended (kr_status (ri_run input))" by (rule base_input_facts(1) [OF assms(2)])
  with assms(1) have wf: "dict_ok (kr_active_attempt_versions (ri_run input))" "topology (ri_run input)"
    by (simp_all add: run_wf_active)
  have "i \<in> set (keys (kr_active_attempt_versions (ri_run input)))"
    using base_current_active(2) [OF assms(2) a(1)] a(2) by simp
  from attempt_commands.topology_kept [OF d i wf(2,1) this]
    attempt_commands.active_kept(2) [OF d i wf(1) a(1)] keep open_run assms(1)
  show ?thesis by (simp add: run_wf_active)
qed

lemma settlement_wf:
  assumes "run_wf (ri_run input)" and base: "assertBaseInput input = Inr ()"
    and s: "settleAuthorized input c a rid auth records = Inr b"
  shows "run_wf (tb_run b) \<or>
    \<not> topology (tb_run b) \<and> (\<not> named_dependencies (sf_next_dependencies c) \<or> \<not> fresh_attempts b)"
proof -
  note open_run = base_input_facts(1,2) [OF base]
  with assms(1) have wf: "dict_ok (kr_active_attempt_versions (ri_run input))" "topology (ri_run input)"
    "acyclic (frontier_edges (cu_frontier (kr_cursor (ri_run input))))"
    "cu_stage_id (kr_cursor (ri_run input)) \<noteq> None"
    by (simp_all add: run_wf_active)
  from s show ?thesis
  proof (cases rule: settleAuthorized_cases)
    case (sibling m barrier)
    let ?run' = "sibling_run (ri_run input) (ka_id a) (completed_with (ri_run input) m)"
    have "topology ?run'" by (rule sibling_topology [OF wf(2,1) sibling(1)])
    moreover have "has_unsettled (kr_cursor ?run')" by (rule sibling_has_unsettled [OF wf(2) sibling(2,3)])
    moreover have "dict_ok (kr_active_attempt_versions ?run')" using wf(1) by (simp add: sibling_run_def)
    moreover have "kr_status ?run' = kr_status (ri_run input)"
      "kr_terminal_outcome ?run' = None" "cu_stage_id (kr_cursor ?run') \<noteq> None"
      "cu_frontier (kr_cursor ?run') = cu_frontier (kr_cursor (ri_run input))"
      using open_run wf(4) by (simp_all add: sibling_run_def)
    ultimately show ?thesis using sibling(5) open_run wf(3) by (simp add: run_wf_active)
  next
    case ended
    then show ?thesis by (simp add: ended_run_wf)
  next
    case (advanced m barrier stage subject transition effects)
    have u: "is_ok (assertUniqueNewAttempts (sf_next_attempts c) (ri_run input))"
      by (rule assertSuccessors_facts(3) [OF advanced(9)])
    have "\<forall>a \<in> set (sf_next_attempts c). frontierMemberKey a \<notin> set (cu_completed_scope_keys (kr_cursor (tb_run b)))"
      if "fresh_attempts b" using that advanced(12) by (simp add: fresh_attempts_def)
    with advanced_run_wf [OF advanced(11) u open_run(2)] show ?thesis by blast
  qed
qed

lemma terminal_wf:
  assumes "terminalCommand input outcome c i = Inr b"
  shows "run_wf (tb_run b) \<or> \<not> topology (tb_run b) \<and> \<not> fresh_attempts b"
  using assms
proof (cases rule: terminal_cases)
  case before_provision
  then show ?thesis by (simp add: ended_run_wf)
next
  case (cleanup auth d)
  then have "fresh_attempts b \<Longrightarrow> topology (tb_run b)"
    by (intro cleaning_run_wf(2) [OF cleanup(6)]) (simp add: fresh_attempts_def)
  with cleaning_run_wf(1) [OF cleanup(6)] show ?thesis by blast
qed

lemma run_wf_step:
  assumes "reduceKernelCommand input = Inr b" and "run_wf (ri_run input)"
  shows "run_wf (tb_run b) \<or>
    \<not> topology (tb_run b) \<and> (\<not> named_command (ri_command input) \<or> \<not> fresh_attempts b)"
  using assms(1)
proof (cases rule: kernel_cases)
  case (attempt i)
  then show ?thesis using assms(2) by (intro disjI1 attempt_wf)
next
  case (settlement c a rid auth records)
  then show ?thesis using settlement_wf [OF assms(2) settlement(1,4)] by (auto simp: named_command_def)
next
  case (quarantine c)
  then show ?thesis by (elim quarantine_cases) (simp add: ended_run_wf)
next
  case (terminal outcome c i)
  then show ?thesis using terminal_wf by blast
qed

section \<open>Reachable runs\<close>

text \<open>
  A step commits the bundle of a successful reduction; the store hands the reducer the run that
  the last bundle wrote.
\<close>

inductive kernel_step :: "kernel_run \<Rightarrow> kernel_run \<Rightarrow> bool" where
  commit: "reduceKernelCommand input = Inr b \<Longrightarrow> kernel_step (ri_run input) (tb_run b)"

inductive reachable :: "kernel_run \<Rightarrow> kernel_run \<Rightarrow> bool" for initial :: kernel_run where
  initial: "reachable initial initial"
| step: "reachable initial run \<Longrightarrow> kernel_step run run' \<Longrightarrow> reachable initial run'"

inductive_cases kernel_stepE: "kernel_step run run'"

text \<open>A run whose cursor fails the topology check is the end: no command reduces on it.\<close>

lemma wedged_rejects:
  assumes "\<not> topology (ri_run input)"
  shows "\<exists>e. reduceKernelCommand input = Inl e"
proof (cases "reduceKernelCommand input")
  case (Inr b)
  then have "assertBaseInput input = Inr ()" by (auto simp: reduceKernelCommand_def bindE_eq_Inr)
  with assms base_input_facts(3) show ?thesis by blast
qed simp

text \<open>The last step that led to a run broke the cursor, by a dependency without a name or a key used again.\<close>

definition careless_step :: "kernel_run \<Rightarrow> kernel_run \<Rightarrow> bool" where
  "careless_step run run' \<longleftrightarrow>
     (\<exists>input b. ri_run input = run \<and> reduceKernelCommand input = Inr b \<and> tb_run b = run' \<and>
        (\<not> named_command (ri_command input) \<or> \<not> fresh_attempts b))"

lemma reachable_wf:
  assumes "reachable initial run" and "run_wf initial"
  shows "run_wf run \<or> \<not> topology run \<and> (\<exists>before. reachable initial before \<and> run_wf before \<and> careless_step before run)"
  using assms
proof induction
  case initial
  then show ?case by simp
next
  case (step run run')
  from step.hyps(2) obtain input b where i: "ri_run input = run" "reduceKernelCommand input = Inr b" "run' = tb_run b"
    by (auto elim: kernel_stepE)
  with wedged_rejects [of input] have "topology run" by auto
  with step have wf: "run_wf run" by blast
  with run_wf_step [OF i(2)] i step.hyps(1) show ?case by (auto simp: careless_step_def)
qed

lemma wf_progress:
  assumes "run_wf run" and "\<not> run_ended (kr_status run)"
  shows "\<exists>m. ready_member (kr_cursor run) m \<and> fm_attempt_id m \<in> set (keys (kr_active_attempt_versions run))"
proof -
  from assms have t: "topology run" and "acyclic (frontier_edges (cu_frontier (kr_cursor run)))"
    and "has_unsettled (kr_cursor run)" by (simp_all add: run_wf_active)
  then obtain m where m: "ready_member (kr_cursor run) m"
    unfolding has_unsettled_def using ready_exists by blast
  from t have "unsettledAttemptIds (kr_cursor run) = sort (keys (kr_active_attempt_versions run))"
    by (simp add: topology_def Let_def)
  from arg_cong [OF this, of set] m
  have "fm_attempt_id m \<in> set (keys (kr_active_attempt_versions run))"
    by (auto simp: ready_member_def unsettledAttemptIds_def)
  with m show ?thesis by blast
qed

end
