(* ===== verification/Examples.thy ===== *)
theory Examples
  imports KernelInvariant
begin

text \<open>
  A concrete pipeline with one command stage inside the compiled runtime lifecycle, and concrete
  inputs of the reducer on it.  The witnesses of the properties apply them to these inputs.
\<close>

definition ex_hash :: string where "ex_hash = replicate 64 CHR ''a''"
definition ex_subject :: string where "ex_subject = replicate 40 CHR ''b''"

definition ex_stage :: pipeline_stage where
  "ex_stage = \<lparr>st_id = ''build'', st_loop = None,
     st_on = [(''success'', end_with Completed), (''failure'', end_with Failed)],
     st_kind = CommandStage ''make''\<rparr>"

definition ex_manifest :: compiled_manifest where
  "ex_manifest = \<lparr>cm_pipeline_id = ''p'', cm_pipeline_version = 1,
     cm_entry_stage = RUNTIME_PROVISION_STAGE_ID, cm_definition_bundle_hash = ex_hash,
     cm_compiler_version = ''1'', cm_runtime_capability_digest = ex_hash,
     cm_stages = lifecycle_stages ''build'' @ [rewrite_stage ex_stage]\<rparr>"

definition ex_attempt :: "string \<Rightarrow> attempt_scope \<Rightarrow> kernel_attempt" where
  "ex_attempt i scope = \<lparr>ka_id = i, ka_pipeline_run_id = ''r'', ka_scope = scope,
     ka_repository_authority = InspectAuthority, ka_request_hash = ex_hash,
     ka_definition_bundle_hash = ex_hash, ka_input_subject = ex_subject, ka_context_record_ids = [],
     ka_context_checkpoint_ids = [], ka_output_subject = None, ka_native_session_id = None,
     ka_status = Pending, ka_version = 0, ka_work_retry_ordinal = 0, ka_result_correction_count = 0,
     ka_result_correction_deadline = None, ka_lease = None, ka_checkpoint_id = None,
     ka_result_record_id = None, ka_decision_record_id = None, ka_pending_result = None\<rparr>"

definition ex_run :: "string \<Rightarrow> kernel_attempt list \<Rightarrow> kernel_run" where
  "ex_run stageId attempts = \<lparr>kr_id = ''r'', kr_pipeline_id = ''p'', kr_definition_bundle_hash = ex_hash,
     kr_current_subject = ex_subject, kr_status = RunRunning, kr_terminal_outcome = None,
     kr_cursor = compiled_cursor stageId 0 [] attempts [] [], kr_version = 3, kr_work_retry_limit = 2,
     kr_result_correction_limit = 2,
     kr_active_attempt_versions = map (\<lambda>a. (ka_id a, ka_version a)) attempts,
     kr_active_effect_versions = [], kr_checkpoint_ids = []\<rparr>"

definition ex_lease :: attempt_lease where
  "ex_lease = \<lparr>le_id = ''l'', le_generation = 1, le_worker_id = ''w'', le_purpose = WorkLease,
     le_expires_at = ''t'', le_started = False\<rparr>"

text \<open>
  The witnesses evaluate reductions with the digest of the sealed bundle left symbolic: no property
  below depends on its value, and the evaluation stays short.
\<close>

declare digestCanonicalJson_def [code del]
declare json_of_content_def [code del]

section \<open>A started attempt\<close>

definition ex_leased :: kernel_attempt where
  "ex_leased = (ex_attempt ''a'' (StageScope ''build''))\<lparr>ka_lease := Some ex_lease\<rparr>"

definition ex_start :: reducer_input where
  "ex_start = \<lparr>ri_manifest = ex_manifest, ri_run = ex_run ''build'' [ex_leased],
     ri_current_attempt = Some ex_leased, ri_records = [], ri_checkpoints = [],
     ri_command = \<lparr>cmd_id = ''c'', cmd_body = StartCommand ''a'' ''l''\<rparr>\<rparr>"

definition ex_started :: transition_bundle where
  "ex_started = projr (reduceKernelCommand ex_start)"

lemma ex_started:
  "reduceKernelCommand ex_start = Inr ex_started \<and>
   tb_attempt_writes ex_started = [ReplaceWrite (ex_leased\<lparr>ka_status := Running, ka_version := 1,
      ka_lease := Some (ex_lease\<lparr>le_started := True\<rparr>)\<rparr>)] \<and>
   tb_create_attempts ex_started = [] \<and> kr_status (tb_run ex_started) = RunRunning"
  unfolding ex_started_def by (rule projr_case) code_simp

section \<open>A run stopped before its sandbox exists\<close>

definition ex_decision_of :: "string \<Rightarrow> string list \<Rightarrow> decision_record" where
  "ex_decision_of reducer inputs = \<lparr>rb_id = ''d'', rb_pipeline_run_id = ''r'',
     rb_payload_schema = PIPELINE_DECISION_RECORD_PAYLOAD_SCHEMA,
     rb_payload = Inline (JObj []), rb_created_at = ''t'', dr_reducer = reducer,
     dr_input_record_ids = inputs\<rparr>"

definition ex_provisioning :: kernel_attempt where
  "ex_provisioning = ex_attempt ''a'' (StageScope RUNTIME_PROVISION_STAGE_ID)"

definition ex_stop :: reducer_input where
  "ex_stop = \<lparr>ri_manifest = ex_manifest, ri_run = ex_run RUNTIME_PROVISION_STAGE_ID [ex_provisioning],
     ri_current_attempt = Some ex_provisioning,
     ri_records = [(''d'', DecisionRec (ex_decision_of ''core/stop@1'' []))], ri_checkpoints = [],
     ri_command = \<lparr>cmd_id = ''c'', cmd_body = StopCommand
       \<lparr>tf_decision_record_id = ''d'', tf_reason = ''asked'', tf_resource_disposition = PreProvision\<rparr>\<rparr>\<rparr>"

definition ex_stopped :: transition_bundle where
  "ex_stopped = projr (reduceKernelCommand ex_stop)"

lemma ex_stopped:
  "reduceKernelCommand ex_stop = Inr ex_stopped \<and> kr_status (tb_run ex_stopped) = RunEnded Canceled"
  unfolding ex_stopped_def by (rule projr_case) code_simp

section \<open>A settled edit with an effect\<close>

definition ex_edited :: string where "ex_edited = replicate 40 CHR ''c''"

definition ex_edit_stage :: pipeline_stage where
  "ex_edit_stage = ex_stage\<lparr>st_kind := AgentStage \<lparr>af_agent_id = ''coder'',
     af_repository_authority = EditAuthority, af_skills = [], af_entry_skill = None, af_eval = ''eval@1'',
     af_engine = None\<rparr>\<rparr>"

definition ex_edit_manifest :: compiled_manifest where
  "ex_edit_manifest = ex_manifest\<lparr>cm_stages := lifecycle_stages ''build'' @ [rewrite_stage ex_edit_stage]\<rparr>"

definition ex_recorded :: "attempt_scope \<Rightarrow> kernel_attempt" where
  "ex_recorded scope = (ex_attempt ''a'' scope)\<lparr>ka_repository_authority := EditAuthority,
     ka_output_subject := Some ex_edited, ka_status := Recorded, ka_result_record_id := Some ''rr''\<rparr>"

definition ex_result :: result_record where
  "ex_result = \<lparr>rb_id = ''rr'', rb_pipeline_run_id = ''r'', rb_payload_schema = ''s/v1'',
     rb_payload = Inline (JObj []), rb_created_at = ''t'', rr_attempt_id = ''a'',
     rr_request_hash = ex_hash, rr_definition_bundle_hash = ex_hash, rr_input_subject = ex_subject,
     rr_output_subject = Some ex_edited, rr_original_candidate_hash = ex_hash,
     rr_normalized_candidate_hash = ex_hash\<rparr>"

definition ex_effect :: effect_intent where
  "ex_effect = \<lparr>ei_id = ''e'', ei_pipeline_run_id = ''r'', ei_decision_record_id = ''d'',
     ei_kind = ''github/push@1'', ei_idempotency_key = ''k'', ei_target = ''origin'',
     ei_subject = Some ex_edited, ei_payload = JObj []\<rparr>"

definition ex_settlement :: "kernel_attempt list \<Rightarrow> effect_intent list \<Rightarrow> settlement_fields" where
  "ex_settlement attempts effects = \<lparr>sf_attempt_id = ''a'', sf_decision_record_id = ''d'',
     sf_outcome = ''success'', sf_next_attempts = attempts, sf_next_dependencies = [],
     sf_effect_intents = effects, sf_sandbox_recovery = None\<rparr>"

definition ex_settling :: "kernel_attempt list \<Rightarrow> kernel_attempt \<Rightarrow> settlement_fields \<Rightarrow> reducer_input" where
  "ex_settling attempts current s = \<lparr>ri_manifest = ex_edit_manifest, ri_run = ex_run ''build'' attempts,
     ri_current_attempt = Some current,
     ri_records = [(''d'', DecisionRec (ex_decision_of ''core/settle@1'' [''rr''])), (''rr'', ResultRec ex_result)],
     ri_checkpoints = [], ri_command = \<lparr>cmd_id = ''c'', cmd_body = SettleAttempt s\<rparr>\<rparr>"

definition ex_stopping :: kernel_attempt where
  "ex_stopping = (ex_attempt ''s'' (StageScope (runtimeStopStageId Completed)))\<lparr>ka_input_subject := ex_edited\<rparr>"

definition ex_settle :: reducer_input where
  "ex_settle = ex_settling [ex_recorded (StageScope ''build'')] (ex_recorded (StageScope ''build''))
     (ex_settlement [ex_stopping] [ex_effect])"

definition ex_settled :: transition_bundle where
  "ex_settled = projr (reduceKernelCommand ex_settle)"

lemma ex_settled:
  "reduceKernelCommand ex_settle = Inr ex_settled \<and>
   kr_status (tb_run ex_settled) = RunRunning \<and> kr_current_subject (tb_run ex_settled) = ex_edited \<and>
   tb_put_effects ex_settled = [ex_effect] \<and>
   tb_attempt_writes ex_settled = [ReplaceWrite (settled_attempt (ex_recorded (StageScope ''build'')) ''rr'' ''d'')]"
  unfolding ex_settled_def by (rule projr_case) code_simp

section \<open>A dependency without a name\<close>

text \<open>
  \<open>compileKernelCursor\<close> looks for an unknown dependency with \<open>find\<close> and tests what it found for truth, so
  the empty string passes: the settlement commits, and the cursor it leaves fails the topology check of
  every later command.
\<close>

definition ex_nameless :: reducer_input where
  "ex_nameless = ex_settling [ex_recorded (StageScope ''build'')] (ex_recorded (StageScope ''build''))
     ((ex_settlement [ex_stopping] [])\<lparr>sf_next_dependencies := [(frontierMemberKey ex_stopping, [''''])]\<rparr>)"

definition ex_wedged :: transition_bundle where
  "ex_wedged = projr (reduceKernelCommand ex_nameless)"

lemma ex_wedged:
  "reduceKernelCommand ex_nameless = Inr ex_wedged \<and> kr_status (tb_run ex_wedged) = RunRunning \<and>
   \<not> is_ok (assertCursorTopology (tb_run ex_wedged) None)"
  unfolding ex_wedged_def by (rule projr_case) code_simp

theorem empty_dependency_wedges:
  "\<exists>b. reduceKernelCommand ex_nameless = Inr b \<and> kr_status (tb_run b) = RunRunning \<and>
     (\<forall>input. ri_run input = tb_run b \<longrightarrow> \<not> is_ok (reduceKernelCommand input))"
proof -
  from ex_wedged assertCursorTopology_ok [of "tb_run ex_wedged" None]
  have "\<not> topology (tb_run ex_wedged)" by simp
  then have "\<not> is_ok (reduceKernelCommand input)" if "ri_run input = tb_run ex_wedged" for input
    using wedged_rejects [of input] that by auto
  with ex_wedged show ?thesis by blast
qed

section \<open>One of two siblings settled\<close>

definition ex_fan :: "string \<Rightarrow> int \<Rightarrow> attempt_scope" where
  "ex_fan member n = FanoutMemberScope ''build'' ''p'' ''f'' member n"

definition ex_sibling :: kernel_attempt where
  "ex_sibling = (ex_attempt ''b'' (ex_fan ''y'' 1))\<lparr>ka_repository_authority := EditAuthority\<rparr>"

definition ex_fan_in :: reducer_input where
  "ex_fan_in = ex_settling [ex_recorded (ex_fan ''x'' 0), ex_sibling] (ex_recorded (ex_fan ''x'' 0))
     (ex_settlement [] [])"

definition ex_half_settled :: transition_bundle where
  "ex_half_settled = projr (reduceKernelCommand ex_fan_in)"

lemma ex_half_settled:
  "reduceKernelCommand ex_fan_in = Inr ex_half_settled \<and> kr_version (tb_run ex_half_settled) = 4"
  unfolding ex_half_settled_def by (rule projr_case) code_simp

end
