(* ===== verification/KernelProperties.thy ===== *)
theory KernelProperties
  imports Examples
begin

text \<open>
  The properties of \<open>reduceKernelCommand\<close>: the invariant and liveness of reachable runs, the version
  fences of a bundle, what may end a run, what happens to effects, to the repository subject and
  to attempts.
\<close>

section \<open>Helper facts\<close>

lemma terminal_outcomes:
  "terminal_command body = Some (outcome, c) \<Longrightarrow>
     attempt_outcome outcome \<in> {AttemptNeedsHuman, AttemptFailed, AttemptCanceled, AttemptSuperseded}"
  by (cases body) auto

lemma terminalRun_fields [simp]:
  "kr_status (terminalRun run o1) = RunEnded o1" "kr_version (terminalRun run o1) = kr_version run + 1"
  "cu_version (kr_cursor (terminalRun run o1)) = cu_version (kr_cursor run) + 1"
  "kr_active_effect_versions (terminalRun run o1) = []" "kr_id (terminalRun run o1) = kr_id run"
  "kr_current_subject (terminalRun run o1) = kr_current_subject run"
  "kr_definition_bundle_hash (terminalRun run o1) = kr_definition_bundle_hash run"
  "kr_pipeline_id (terminalRun run o1) = kr_pipeline_id run"
  by (simp_all add: terminalRun_def)

lemma ended_run_fields [simp]:
  "kr_status (ended_run run s k o1) = RunEnded o1" "kr_version (ended_run run s k o1) = kr_version run + 1"
  "cu_version (kr_cursor (ended_run run s k o1)) = cu_version (kr_cursor run) + 1"
  "kr_active_effect_versions (ended_run run s k o1) = []" "kr_id (ended_run run s k o1) = kr_id run"
  "kr_current_subject (ended_run run s k o1) = s"
  "kr_definition_bundle_hash (ended_run run s k o1) = kr_definition_bundle_hash run"
  "kr_pipeline_id (ended_run run s k o1) = kr_pipeline_id run"
  by (simp_all add: ended_run_def)

lemma quarantined_run_fields [simp]:
  "kr_status (quarantined_run run) = RunEnded NeedsHuman"
  "kr_version (quarantined_run run) = kr_version run + 1"
  "cu_version (kr_cursor (quarantined_run run)) = cu_version (kr_cursor run) + 1"
  "kr_active_effect_versions (quarantined_run run) = kr_active_effect_versions run"
  "kr_id (quarantined_run run) = kr_id run" "kr_current_subject (quarantined_run run) = kr_current_subject run"
  "kr_definition_bundle_hash (quarantined_run run) = kr_definition_bundle_hash run"
  "kr_pipeline_id (quarantined_run run) = kr_pipeline_id run"
  by (simp_all add: quarantined_run_def)

lemma sibling_run_fields [simp]:
  "kr_status (sibling_run run i k) = kr_status run" "kr_version (sibling_run run i k) = kr_version run + 1"
  "cu_version (kr_cursor (sibling_run run i k)) = cu_version (kr_cursor run) + 1"
  "cu_stage_id (kr_cursor (sibling_run run i k)) = cu_stage_id (kr_cursor run)"
  "kr_active_effect_versions (sibling_run run i k) = kr_active_effect_versions run"
  "kr_id (sibling_run run i k) = kr_id run" "kr_current_subject (sibling_run run i k) = kr_current_subject run"
  "kr_definition_bundle_hash (sibling_run run i k) = kr_definition_bundle_hash run"
  "kr_pipeline_id (sibling_run run i k) = kr_pipeline_id run"
  by (simp_all add: sibling_run_def)

lemma advanced_run_fields:
  assumes "advanced_run run c s k t effects = Inr run'"
  shows "kr_status run' = RunRunning" "kr_version run' = kr_version run + 1"
    "cu_version (kr_cursor run') = cu_version (kr_cursor run) + 1" "kr_current_subject run' = s"
    "kr_active_effect_versions run' = sortedRecord (activate_effects effects (kr_active_effect_versions run))"
    "kr_id run' = kr_id run" "kr_definition_bundle_hash run' = kr_definition_bundle_hash run"
    "kr_pipeline_id run' = kr_pipeline_id run" "cu_reentries (kr_cursor run') = sortedRecord (ef_reentries t)"
  using assms by (auto simp: advanced_run_def Let_def run_ok compile_cursor_iff compiled_cursor_def)

lemma cleaning_run_fields:
  assumes "cleaning_run run s a = Inr run'"
  shows "kr_status run' = RunRunning" "kr_version run' = kr_version run + 1"
    "cu_version (kr_cursor run') = cu_version (kr_cursor run) + 1"
    "kr_current_subject run' = kr_current_subject run" "kr_active_effect_versions run' = []"
    "kr_id run' = kr_id run" "kr_definition_bundle_hash run' = kr_definition_bundle_hash run"
    "kr_pipeline_id run' = kr_pipeline_id run"
  using assms by (auto simp: cleaning_run_def run_ok compile_cursor_iff compiled_cursor_def)

section \<open>Invariant, liveness, end\<close>

text \<open>C1: every run that committed reductions reach from a well-formed one is well formed: as long as it
  has not ended, its cursor is canonical, its unsettled members are exactly the active attempts,
  its frontier is acyclic, and it has unfinished work; once ended it has nothing active.  There is one way out,
  and it is the last one: the command of the last step named the empty string in its dependencies or created an
  attempt whose key was already complete; its cursor then fails the topology check, and every command on
  the run is rejected.\<close>

theorem reachable_runs_well_formed:
  assumes "reachable initial run" and "run_wf initial"
  shows "run_wf run \<or>
    \<not> topology run \<and> (\<forall>input. ri_run input = run \<longrightarrow> (\<exists>e. reduceKernelCommand input = Inl e)) \<and>
      (\<exists>before. reachable initial before \<and> run_wf before \<and> careless_step before run)"
  using reachable_wf [OF assms] wedged_rejects by blast

lemma ex_run_wf: "run_wf (ri_run ex_start)"
proof -
  have "assertBaseInput ex_start = Inr ()"
    using ex_started by (auto simp: reduceKernelCommand_def bindE_eq_Inr)
  then have t: "topology (ri_run ex_start)" by (rule base_input_facts(3))
  have "frontier_edges (cu_frontier (kr_cursor (ri_run ex_start))) = {}"
    by (auto simp: ex_start_def ex_run_def compiled_cursor_def frontier_edges_def member_of_def dict_strs_def
        sortedUnique_def)
  moreover have "has_unsettled (kr_cursor (ri_run ex_start))"
    by (auto simp: ex_start_def ex_run_def compiled_cursor_def has_unsettled_def sortedUnique_def)
  ultimately show ?thesis using t
    by (simp add: run_wf_active ex_start_def ex_run_def compiled_cursor_def acyclic_def)
qed

lemma ex_reachable: "reachable (ri_run ex_start) (tb_run ex_started)"
  using ex_started reachable.initial kernel_step.commit [of ex_start ex_started]
  by (intro reachable.step [OF reachable.initial]) auto

lemma ex_started_topology: "topology (tb_run ex_started)"
proof -
  from ex_started have r: "reduceKernelCommand ex_start = Inr ex_started" by simp
  have "named_command (ri_command ex_start)" "fresh_attempts ex_started"
    using ex_started by (simp_all add: named_command_def fresh_attempts_def ex_start_def)
  with run_wf_step [OF r ex_run_wf] ex_started show ?thesis by (auto simp: run_wf_active)
qed

theorem reachable_runs_well_formed_witness: "run_wf (tb_run ex_started)"
  using reachable_runs_well_formed [OF ex_reachable ex_run_wf] ex_started_topology by blast

text \<open>C3: no reachable run is stuck: as long as it has not ended, some active attempt has no
  unsettled dependency, so the topology check admits it as the current attempt; unless the command of the very last
  step named the empty string in its dependencies or created an attempt whose key was already complete.\<close>

theorem reachable_runs_progress:
  assumes "reachable initial run" and "run_wf initial" and "\<not> run_ended (kr_status run)"
  shows "(\<exists>m. ready_member (kr_cursor run) m \<and> fm_attempt_id m \<in> set (keys (kr_active_attempt_versions run)) \<and>
           (\<forall>a. ka_id a = fm_attempt_id m \<longrightarrow> is_ok (assertCursorTopology run (Some a)))) \<or>
    \<not> topology run \<and> (\<exists>before. reachable initial before \<and> run_wf before \<and> careless_step before run)"
  using reachable_wf [OF assms(1,2)]
proof
  assume wf: "run_wf run"
  obtain m where m: "ready_member (kr_cursor run) m"
    "fm_attempt_id m \<in> set (keys (kr_active_attempt_versions run))"
    using wf_progress [OF wf assms(3)] by blast
  from wf assms(3) have t: "topology run" by (simp add: run_wf_active)
  have "find (\<lambda>x. fm_attempt_id x = fm_attempt_id m) (cu_frontier (kr_cursor run)) = Some m"
    using m(1) t by (intro find_eq_SomeI) (auto simp: ready_member_def topology_def Let_def distinct_map inj_on_def)
  with m(1) t show ?thesis
    using m(2) by (intro disjI1 exI [of _ m]) (auto simp: run_ok ready_member_def)
qed blast

theorem reachable_runs_progress_witness: "\<exists>m. ready_member (kr_cursor (tb_run ex_started)) m"
  using reachable_runs_progress [OF ex_reachable ex_run_wf] ex_started ex_started_topology by auto

text \<open>C12: an ended run is final: no command reduces on it.\<close>

theorem ended_run_is_final:
  assumes "run_ended (kr_status (ri_run input)) \<or> kr_terminal_outcome (ri_run input) \<noteq> None"
  shows "\<exists>e. reduceKernelCommand input = Inl e"
proof (rule ccontr)
  assume "\<nexists>e. reduceKernelCommand input = Inl e"
  then obtain b where "reduceKernelCommand input = Inr b" by (cases "reduceKernelCommand input") auto
  then have "assertBaseInput input = Inr ()" by (auto simp: reduceKernelCommand_def bindE_eq_Inr)
  with assms show False by (simp add: base_input_facts(1,2))
qed

theorem ended_run_is_final_witness:
  "\<exists>e. reduceKernelCommand (ex_start\<lparr>ri_run := tb_run ex_stopped\<rparr>) = Inl e"
  by (rule ended_run_is_final) (simp add: ex_stopped)

section \<open>Versions and fences\<close>

lemma fences_expectedFor:
  assumes "dict_ok d"
  shows "map_of (ex_attempt_versions (expectedFor run (sortedRecord d))) = map_of d"
    and "map_of (ex_attempt_versions (expectedFor run d)) = map_of d"
  using assms by (simp_all add: expectedFor_def)

text \<open>The commands that end every active attempt of a run.\<close>

definition settles_all :: "command_body \<Rightarrow> bool" where
  "settles_all body \<longleftrightarrow> terminal_command body \<noteq> None \<or> (\<exists>c. body = QuarantineAttemptRecovery c)"

lemma settles_all_simps:
  "attempt_command body = Some i \<Longrightarrow> \<not> settles_all body"
  "settlement_command body = Some c \<Longrightarrow> \<not> settles_all body"
  "settles_all (QuarantineAttemptRecovery q)"
  "terminal_command body = Some t \<Longrightarrow> settles_all body"
  by (cases body; simp add: settles_all_def)+

lemma bundle_fences:
  assumes "reduceKernelCommand input = Inr b" and "dict_ok (kr_active_attempt_versions (ri_run input))"
  shows "ex_run_id (tb_expected b) = kr_id (ri_run input) \<and>
         ex_run_version (tb_expected b) = kr_version (ri_run input) \<and>
         ex_cursor_version (tb_expected b) = cu_version (kr_cursor (ri_run input)) \<and>
         map_of (ex_attempt_versions (tb_expected b)) \<subseteq>\<^sub>m map_of (kr_active_attempt_versions (ri_run input)) \<and>
         map_of (ex_attempt_versions (tb_expected b)) =
           (if settles_all (cmd_body (ri_command input)) then map_of (kr_active_attempt_versions (ri_run input))
            else case ri_current_attempt input of None \<Rightarrow> Map.empty | Some a \<Rightarrow> [ka_id a \<mapsto> ka_version a]) \<and>
         kr_version (tb_run b) = kr_version (ri_run input) + 1 \<and>
         cu_version (kr_cursor (tb_run b)) - cu_version (kr_cursor (ri_run input)) \<in> {0, 1} \<and>
         kr_id (tb_run b) = kr_id (ri_run input) \<and>
         kr_definition_bundle_hash (tb_run b) = kr_definition_bundle_hash (ri_run input)"
  using assms(1)
proof (cases rule: kernel_cases)
  case (attempt i)
  obtain a new where w: "ri_current_attempt input = Some a" "tb_expected b = attempt_expected (ri_run input) a"
      "run_replaces (ri_run input) new (tb_run b)"
    using attempt_commands.single_write [OF attempt(3,2)] by metis
  with run_replaces_fields [OF w(3)] base_current_active(1) [OF attempt(1) w(1)] settles_all_simps(1) [OF attempt(2)]
  show ?thesis by (simp add: attempt_expected_def expectedFor_def sortedRecord_def map_le_def)
next
  case (settlement c a rid auth records)
  have cur: "ri_current_attempt input = Some a" using settlement(3) by (simp add: settling_def)
  have e: "map_of (ex_attempt_versions (attempt_expected (ri_run input) a)) \<subseteq>\<^sub>m
      map_of (kr_active_attempt_versions (ri_run input))"
    "map_of (ex_attempt_versions (attempt_expected (ri_run input) a)) = [ka_id a \<mapsto> ka_version a]"
    using base_current_active(1) [OF settlement(1) cur]
    by (simp_all add: attempt_expected_def expectedFor_def sortedRecord_def map_le_def)
  from settlement(4) show ?thesis
    by (cases rule: settleAuthorized_cases)
      (use e cur settles_all_simps(2) [OF settlement(2)] in \<open>simp_all add: settlement_shape_def advanced_run_fields\<close>,
       simp_all add: attempt_expected_def expectedFor_def)
next
  case (quarantine c)
  then show ?thesis using assms(2)
    by (elim quarantine_cases) (simp add: fences_expectedFor settles_all_simps, simp add: expectedFor_def)
next
  case (terminal outcome c i)
  from terminal(3) show ?thesis
    by (cases rule: terminal_cases)
      (use assms(2) settles_all_simps(4) [OF terminal(2)] in \<open>simp_all add: fences_expectedFor cleaning_run_fields\<close>,
       simp_all add: expectedFor_def)
qed

text \<open>C10: a bundle is fenced: it names the run, the version of the run and of the cursor that it was computed
  from, and exactly the versions of the attempts that it replaces: of the current attempt, or of all active
  attempts when it ends them all.  It raises the run version by one and the cursor version by at most one, and
  keeps the identity of the run.\<close>

theorem bundle_is_fenced:
  assumes "reduceKernelCommand input = Inr b" and "dict_ok (kr_active_attempt_versions (ri_run input))"
  shows "ex_run_id (tb_expected b) = kr_id (ri_run input) \<and>
         ex_run_version (tb_expected b) = kr_version (ri_run input) \<and>
         ex_cursor_version (tb_expected b) = cu_version (kr_cursor (ri_run input)) \<and>
         map_of (ex_attempt_versions (tb_expected b)) \<subseteq>\<^sub>m map_of (kr_active_attempt_versions (ri_run input)) \<and>
         map_of (ex_attempt_versions (tb_expected b)) =
           (if settles_all (cmd_body (ri_command input)) then map_of (kr_active_attempt_versions (ri_run input))
            else case ri_current_attempt input of None \<Rightarrow> Map.empty | Some a \<Rightarrow> [ka_id a \<mapsto> ka_version a]) \<and>
         kr_version (tb_run b) = kr_version (ri_run input) + 1 \<and>
         cu_version (kr_cursor (tb_run b)) - cu_version (kr_cursor (ri_run input)) \<in> {0, 1} \<and>
         kr_id (tb_run b) = kr_id (ri_run input) \<and>
         kr_definition_bundle_hash (tb_run b) = kr_definition_bundle_hash (ri_run input)"
  using bundle_fences [OF assms] .

theorem bundle_is_fenced_witness:
  "kr_version (tb_run ex_started) = 4 \<and> map_of (ex_attempt_versions (tb_expected ex_started)) = [''a'' \<mapsto> 0]"
  using bundle_is_fenced [of ex_start ex_started] ex_started ex_run_wf
  by (simp add: run_wf_def ex_start_def ex_run_def settles_all_def ex_leased_def ex_attempt_def)

section \<open>What ends a run\<close>

text \<open>C2: a run ends in one of four ways: a terminal command at the provision stage before any
  sandbox was created; a quarantine of an exhausted recovery; a settlement of a cleanup stage
  whose decision cites a cleanup delivery; or a settlement of the provision stage with proof that
  every create was rejected.  No other command ends it.\<close>

theorem run_ends_only_with_evidence:
  assumes "reduceKernelCommand input = Inr b" and "kr_status (tb_run b) = RunEnded outcome"
  shows "(\<exists>c a stage. terminal_command (cmd_body (ri_command input)) = Some (outcome, c) \<and>
            tf_resource_disposition c = PreProvision \<and> ri_current_attempt input = Some a \<and>
            find_stage (cm_stages (ri_manifest input)) (scope_stage_id (ka_scope a)) = Some stage \<and>
            is_provision_stage stage \<and> ka_checkpoint_id a = None) \<or>
         (\<exists>c a. cmd_body (ri_command input) = QuarantineAttemptRecovery c \<and> outcome = NeedsHuman \<and>
            ri_current_attempt input = Some a \<and>
            kr_work_retry_limit (ri_run input) \<le> le_generation (the (ka_lease a))) \<or>
         (\<exists>c a stage auth. settlement_command (cmd_body (ri_command input)) = Some c \<and>
            ri_current_attempt input = Some a \<and> exactDecision input (sf_decision_record_id c) = Inr auth \<and>
            find_stage (cm_stages (ri_manifest input)) (scope_stage_id (ka_scope a)) = Some stage \<and>
            (runtimeCleanupOutcome stage \<noteq> None \<and> (\<exists>d \<in> set (da_exact_records auth). cleanup_delivery d) \<or>
             is_provision_stage stage \<and> sf_outcome c = ''no_resource'' \<and> outcome = Failed \<and>
             (\<exists>cited ds. set cited \<subseteq> set (da_exact_records auth) \<and>
                exactKernelRuntimeAbsenceDeliveries cited = Inr (Some ds))))"
  using assms(1)
proof (cases rule: kernel_cases)
  case (attempt i)
  have "\<not> run_ended (kr_status (tb_run b))"
    using attempt_commands.cursor_kept(3) [OF attempt(3,2)] base_input_facts(1) [OF attempt(1)] by simp
  with assms(2) show ?thesis by simp
next
  case (settlement c a rid auth records)
  then have cur: "ri_current_attempt input = Some a" "exactDecision input (sf_decision_record_id c) = Inr auth"
    by (simp_all add: settling_def)
  from settlement(4) show ?thesis
  proof (cases rule: settleAuthorized_cases)
    case sibling
    with assms(2) base_input_facts(1) [OF settlement(1)] show ?thesis by simp
  next
    case (ended m barrier stage subject transition terminal)
    then have o: "terminal = outcome" using assms(2) by simp
    define cited where "cited = filter (\<lambda>rec. rec_id rec \<noteq> rb_id (da_decision auth) \<and> rec_id rec \<noteq> rid)
        (da_exact_records auth)"
    from ended(9) have "runtimeCleanupOutcome stage \<noteq> None \<and> find cleanup_delivery cited \<noteq> None \<or>
        is_provision_stage stage \<and> sf_outcome c = ''no_resource'' \<and> terminal = Failed \<and>
        (\<exists>ds. exactKernelRuntimeAbsenceDeliveries cited = Inr (Some ds))"
      by (auto simp: assertTerminalSettlement_def Let_def run_ok is_ok_iff cited_def split: if_splits)
    moreover have "set cited \<subseteq> set (da_exact_records auth)" by (auto simp: cited_def)
    moreover have "\<exists>d \<in> set cited. cleanup_delivery d" if "find cleanup_delivery cited \<noteq> None"
      using that by (auto simp: find_Some_iff)
    ultimately show ?thesis using settlement(2) cur ended(5) o by blast
  next
    case (advanced m barrier stage subject transition effects)
    with assms(2) advanced_run_fields(1) [OF advanced(11)] show ?thesis by simp
  qed
next
  case (quarantine c)
  from quarantine(3) show ?thesis
    by (rule quarantine_cases) (use quarantine(2) assms(2) in auto)
next
  case (terminal o1 c i)
  from terminal(3) show ?thesis
  proof (cases rule: terminal_cases)
    case (before_provision auth current stage)
    with assms(2) have "o1 = outcome" by simp
    with terminal(2) before_provision show ?thesis by blast
  next
    case (cleanup auth d)
    with assms(2) cleaning_run_fields(1) [OF cleanup(6)] show ?thesis by simp
  qed
qed

theorem run_ends_only_with_evidence_witness:
  "\<exists>a stage. ri_current_attempt ex_stop = Some a \<and> is_provision_stage stage \<and> ka_checkpoint_id a = None"
  using run_ends_only_with_evidence [of ex_stop ex_stopped Canceled] ex_stopped
  by (auto simp: ex_stop_def)

text \<open>C5: a run never ends with an external effect in flight, except by a quarantine, which keeps every
  unresolved effect visible in the ended run for repair.\<close>

theorem ending_strands_no_effects:
  assumes "reduceKernelCommand input = Inr b" and "run_ended (kr_status (tb_run b))"
  shows "tb_put_effects b = [] \<and> tb_create_attempts b = [] \<and>
         (if \<exists>c. cmd_body (ri_command input) = QuarantineAttemptRecovery c
          then kr_active_effect_versions (tb_run b) = kr_active_effect_versions (ri_run input)
          else kr_active_effect_versions (ri_run input) = [] \<and> kr_active_effect_versions (tb_run b) = [])"
  using assms(1)
proof (cases rule: kernel_cases)
  case (attempt i)
  with assms(2) show ?thesis
    using attempt_commands.cursor_kept(3) [OF attempt(3,2)] base_input_facts(1) [OF attempt(1)] by simp
next
  case (settlement c a rid auth records)
  have nq: "\<nexists>c. cmd_body (ri_command input) = QuarantineAttemptRecovery c" using settlement(2) by auto
  from settlement(4) show ?thesis
  proof (cases rule: settleAuthorized_cases)
    case sibling
    with assms(2) base_input_facts(1) [OF settlement(1)] show ?thesis by simp
  next
    case (ended m barrier stage subject transition terminal)
    then have "kr_active_effect_versions (ri_run input) = []"
      by (auto simp: assertTerminalSettlement_def Let_def run_ok)
    with ended nq show ?thesis by simp
  next
    case (advanced m barrier stage subject transition effects)
    with assms(2) show ?thesis by (simp add: advanced_run_fields)
  qed
next
  case (quarantine c)
  from quarantine(3) show ?thesis by (rule quarantine_cases) (use quarantine(2) in auto)
next
  case (terminal o1 c i)
  have nq: "\<nexists>c. cmd_body (ri_command input) = QuarantineAttemptRecovery c" using terminal(2) by auto
  from terminal(3) show ?thesis
  proof (cases rule: terminal_cases)
    case before_provision
    with nq show ?thesis by simp
  next
    case (cleanup auth d)
    with assms(2) show ?thesis by (simp add: cleaning_run_fields)
  qed
qed

theorem ending_strands_no_effects_witness: "kr_active_effect_versions (tb_run ex_stopped) = []"
  using ending_strands_no_effects [of ex_stop ex_stopped] ex_stopped by (simp add: ex_stop_def)

section \<open>Attempts\<close>

text \<open>A write refines the state machine of attempts.\<close>

definition write_refines :: "reducer_input \<Rightarrow> attempt_write \<Rightarrow> bool" where
  "write_refines input w \<longleftrightarrow>
     (case w of
        ReplaceWrite a' \<Rightarrow>
          (\<exists>a. ri_current_attempt input = Some a \<and> same_identity a a' \<and>
             map_of (kr_active_attempt_versions (ri_run input)) (ka_id a) = Some (ka_version a) \<and>
             ka_version a' = ka_version a + 1 \<and> attempt_step (ka_status a) (ka_status a'))
      | TerminalWrite i expected next status \<Rightarrow>
          map_of (kr_active_attempt_versions (ri_run input)) i = Some expected \<and> next = expected + 1 \<and>
          terminal_attempt_state status)"

lemma set_attemptWriteOrder [simp]: "set (attemptWriteOrder ws) = set ws"
  by (simp add: attemptWriteOrder_def)

lemma write_ids_order [simp]: "write_id ` set (attemptWriteOrder ws) = write_id ` set ws"
  by simp

lemma terminal_writes_refine:
  assumes base: "assertBaseInput input = Inr ()" and d: "dict_ok (kr_active_attempt_versions (ri_run input))"
    and s: "s \<in> {AttemptNeedsHuman, AttemptFailed, AttemptCanceled, AttemptSuperseded}"
    and w: "w \<in> set (terminalAttemptWrites (ri_run input) (ri_current_attempt input) s)"
  shows "write_refines input w"
proof -
  from w obtain i v where iv: "(i, v) \<in> set (kr_active_attempt_versions (ri_run input))" and
    e: "w = (case ri_current_attempt input of
          Some a \<Rightarrow> if ka_id a = i then
            ReplaceWrite (a\<lparr>ka_status := s, ka_version := ka_version a + 1, ka_lease := None,
              ka_result_record_id := None, ka_decision_record_id := None,
              ka_result_correction_deadline := None, ka_pending_result := None\<rparr>)
            else TerminalWrite i v (v + 1) s
        | None \<Rightarrow> TerminalWrite i v (v + 1) s)"
    by (auto simp: terminalAttemptWrites_def)
  from iv d have m: "map_of (kr_active_attempt_versions (ri_run input)) i = Some v" by simp
  have t: "terminal_attempt_state s" using s by auto
  show ?thesis
  proof (cases "ri_current_attempt input")
    case None
    with e m t show ?thesis by (simp add: write_refines_def del: terminal_attempt_state.simps)
  next
    case (Some a)
    note act = base_current_active [OF base Some]
    have "attempt_step (ka_status a) s" by (rule attempt_step.terminate) (use act(3) s in auto)
    with e m t Some act(1) show ?thesis
      by (auto simp: write_refines_def same_identity_def simp del: terminal_attempt_state.simps)
  qed
qed

lemma settled_attempt_fields [simp]:
  "ka_status (settled_attempt a r d) = Settled" "ka_version (settled_attempt a r d) = ka_version a + 1"
  "ka_result_record_id (settled_attempt a r d) = Some r"
  "ka_decision_record_id (settled_attempt a r d) = Some d"
  "ka_work_retry_ordinal (settled_attempt a r d) = ka_work_retry_ordinal a"
  "same_identity a (settled_attempt a r d)"
  by (simp_all add: settled_attempt_def same_identity_def)

lemma settlement_writes:
  assumes "settleAuthorized input c a rid auth records = Inr b"
  shows "settlement_shape input a rid auth records b"
  using assms by (cases rule: settleAuthorized_cases) blast+

text \<open>C4: every write of a bundle moves an active attempt one version forward along the attempt state
  machine: only the current attempt is replaced, with its identity unchanged, and every other
  attempt that is written is an active one that reaches a terminal state.\<close>

theorem writes_follow_the_attempt_machine:
  assumes "reduceKernelCommand input = Inr b" and "dict_ok (kr_active_attempt_versions (ri_run input))"
    and "w \<in> set (tb_attempt_writes b)"
  shows "write_refines input w"
  using assms(1)
proof (cases rule: kernel_cases)
  case (attempt i)
  obtain a new where n: "ri_current_attempt input = Some a" "same_identity a new"
      "ka_version new = ka_version a + 1" "attempt_step (ka_status a) (ka_status new)"
      "tb_attempt_writes b = [ReplaceWrite new]"
    using attempt_commands.single_write [OF attempt(3,2)] by metis
  with assms(3) base_current_active(1) [OF attempt(1) n(1)] show ?thesis by (simp add: write_refines_def)
next
  case (settlement c a rid auth records)
  then have a: "ri_current_attempt input = Some a" "ka_status a \<in> {Recorded, ResultPending}"
    by (auto simp: settling_def)
  have "w = ReplaceWrite (settled_attempt a rid (rb_id (da_decision auth)))"
    using settlement_writes [OF settlement(4)] assms(3) by (simp add: settlement_shape_def)
  moreover have "attempt_step (ka_status a) Settled" using a(2) by (auto intro: attempt_step.settle_it)
  ultimately show ?thesis using a base_current_active(1) [OF settlement(1) a(1)]
    by (simp add: write_refines_def)
next
  case (quarantine c)
  then show ?thesis using assms(2,3) by (elim quarantine_cases) (auto simp: write_refines_def)
next
  case (terminal outcome c i)
  from terminal(3) have "w \<in> set (terminalAttemptWrites (ri_run input) (ri_current_attempt input)
      (attempt_outcome outcome))"
    by (cases rule: terminal_cases) (use assms(3) in simp_all)
  with terminal_writes_refine [OF terminal(1) assms(2) terminal_outcomes [OF terminal(2)]]
  show ?thesis by blast
qed

theorem writes_follow_the_attempt_machine_witness:
  "\<exists>w. w \<in> set (tb_attempt_writes ex_started) \<and> write_refines ex_start w"
  using writes_follow_the_attempt_machine [of ex_start ex_started] ex_started ex_run_wf
  by (auto simp: run_wf_def)

text \<open>C11: work retries are bounded: no bundle leaves an attempt with more retries than the limit of
  its run, if it had not more before.\<close>

theorem retries_are_bounded:
  assumes "reduceKernelCommand input = Inr b" and "ReplaceWrite a' \<in> set (tb_attempt_writes b)"
    and "ri_current_attempt input = Some a"
    and "ka_work_retry_ordinal a \<le> kr_work_retry_limit (ri_run input)"
  shows "ka_work_retry_ordinal a' \<le> kr_work_retry_limit (ri_run input) \<and>
         ka_work_retry_ordinal a' - ka_work_retry_ordinal a \<in> {0, 1}"
  using assms(1)
proof (cases rule: kernel_cases)
  case (attempt i)
  from attempt_commands.returns [OF attempt(3,2)] assms(2-4) show ?thesis
    by (auto simp: attempt_result_def run_ok retry_step_def)
next
  case (settlement c a1 rid auth records)
  with settlement_writes [OF settlement(4)] assms(2-4) show ?thesis
    by (auto simp: settlement_shape_def settling_def)
next
  case (quarantine c)
  then show ?thesis using assms(2) by (elim quarantine_cases) auto
next
  case (terminal outcome c i)
  from terminal(3) have "ReplaceWrite a' \<in> set (terminalAttemptWrites (ri_run input)
      (ri_current_attempt input) (attempt_outcome outcome))"
    by (cases rule: terminal_cases) (use assms(2) in simp_all)
  with assms(3,4) show ?thesis by (auto simp: terminalAttemptWrites_def split: if_splits)
qed

theorem retries_are_bounded_witness:
  "\<exists>a'. ReplaceWrite a' \<in> set (tb_attempt_writes ex_started) \<and> ka_work_retry_ordinal a' \<le> 2"
  using retries_are_bounded [of ex_start ex_started _ ex_leased] ex_started
  by (auto simp: ex_start_def ex_run_def ex_leased_def ex_attempt_def)

text \<open>C9: an attempt is settled only with its evidence: it holds its result, the settling decision cites
  that result, is appended with the settlement, and the result either was recorded before or is
  appended too.\<close>

theorem settlement_has_evidence:
  assumes "reduceKernelCommand input = Inr b" and "ReplaceWrite a' \<in> set (tb_attempt_writes b)"
    and "ka_status a' = Settled"
  shows "\<exists>a rid d. ri_current_attempt input = Some a \<and> ka_result_record_id a' = Some rid \<and>
           ka_decision_record_id a' = Some (rb_id d) \<and> rid \<in> set (dr_input_record_ids d) \<and>
           DecisionRec d \<in> set (tb_append_records b) \<and>
           (ka_result_record_id a = Some rid \<or>
            (\<exists>r. ResultRec r \<in> set (tb_append_records b) \<and> rb_id r = rid \<and> rr_attempt_id r = ka_id a \<and>
               rr_request_hash r = ka_request_hash a \<and> rr_output_subject r = ka_output_subject a))"
  using assms(1)
proof (cases rule: kernel_cases)
  case (attempt i)
  from attempt_commands.stays_open [OF attempt(3,2) assms(2)] assms(3) show ?thesis by simp
next
  case (settlement c a rid auth records)
  note shape = settlement_writes [OF settlement(4), unfolded settlement_shape_def]
  have a': "a' = settled_attempt a rid (rb_id (da_decision auth))" using shape assms(2) by simp
  have app: "set (tb_append_records b) = set records"
    using appendRecordOrder_mset [of records "tb_append_records b"] shape by (metis mset_eq_setD)
  from settlement(3) have "ri_current_attempt input = Some a"
    and "DecisionRec (da_decision auth) \<in> set records"
    and "ka_result_record_id a = Some rid \<or>
      (\<exists>r. ResultRec r \<in> set records \<and> rb_id r = rid \<and> rr_attempt_id r = ka_id a \<and>
         rr_request_hash r = ka_request_hash a \<and> rr_output_subject r = ka_output_subject a)"
    by (auto simp: settling_def resultForAttempt_def run_ok run_cases)
  with shape a' app show ?thesis
    by (intro exI [of _ a] exI [of _ rid] exI [of _ "da_decision auth"]) simp
next
  case (quarantine c)
  then show ?thesis using assms(2) by (elim quarantine_cases) auto
next
  case (terminal outcome c i)
  from terminal(3) have "ReplaceWrite a' \<in> set (terminalAttemptWrites (ri_run input)
      (ri_current_attempt input) (attempt_outcome outcome))"
    by (cases rule: terminal_cases) (use assms(2) in simp_all)
  with assms(3) terminal_outcomes [OF terminal(2)] show ?thesis
    by (auto simp: terminalAttemptWrites_def split: if_splits option.splits)
qed

theorem settlement_has_evidence_witness:
  "\<exists>d. DecisionRec d \<in> set (tb_append_records ex_settled) \<and> ''rr'' \<in> set (dr_input_record_ids d)"
  using settlement_has_evidence [of ex_settle ex_settled
      "settled_attempt (ex_recorded (StageScope ''build'')) ''rr'' ''d''"] ex_settled
  by auto

section \<open>Effects\<close>

lemma authorizeEffectIntent_facts:
  assumes "authorizeEffectIntent intent decision runId = Inr e"
  shows "ei_pipeline_run_id e = runId" "ei_decision_record_id e = rb_id decision"
    "rb_pipeline_run_id decision = runId"
  using assms by (auto simp: authorizeEffectIntent_def run_ok)

lemma authorized_effects_facts:
  assumes "authorized_effects run decision subject intents = Inr effects"
  shows "distinct (map ei_id effects)" "distinct (map ei_idempotency_key effects)"
    "e \<in> set effects \<Longrightarrow> map_of (kr_active_effect_versions run) (ei_id e) = None"
    "e \<in> set effects \<Longrightarrow> ei_subject e = None \<or> ei_subject e = Some subject"
    "e \<in> set effects \<Longrightarrow> ei_pipeline_run_id e = kr_id run \<and> ei_decision_record_id e = rb_id decision"
proof -
  from assms obtain authorized where
    m: "mapE (\<lambda>intent. authorizeEffectIntent intent decision (kr_id run)) intents = Inr authorized"
    unfolding authorized_effects_def bindE_eq_Inr by blast
  let ?e = "sort_key ei_id authorized"
  from assms m have s: "effects = ?e" and
    f: "\<forall>e \<in> set effects. map_of (kr_active_effect_versions run) (ei_id e) = None \<and>
          (ei_subject e = None \<or> ei_subject e = Some subject)"
    by (auto simp: authorized_effects_def Let_def run_ok split: if_splits)
  have d: "distinct (map ei_id effects)"
    using assms m length_remdups_eq [of "map ei_id ?e"] unfolding s
    by (simp add: authorized_effects_def Let_def split: if_splits)
  have d': "distinct (map ei_idempotency_key effects)"
    using assms m length_remdups_eq [of "map ei_idempotency_key ?e"] unfolding s
    by (simp add: authorized_effects_def Let_def split: if_splits)
  from m have a: "list_all2 (\<lambda>i e. authorizeEffectIntent i decision (kr_id run) = Inr e) intents authorized"
    by (simp add: mapE_eq_Inr)
  from d d' show "distinct (map ei_id effects)" "distinct (map ei_idempotency_key effects)" .
  from f show "map_of (kr_active_effect_versions run) (ei_id e) = None"
    "ei_subject e = None \<or> ei_subject e = Some subject" if "e \<in> set effects"
    using that by auto
  show "ei_pipeline_run_id e = kr_id run \<and> ei_decision_record_id e = rb_id decision" if "e \<in> set effects"
  proof -
    from that s have "e \<in> set authorized" by simp
    with a obtain i where "authorizeEffectIntent i decision (kr_id run) = Inr e"
      by (auto simp: list_all2_conv_all_nth in_set_conv_nth)
    then show ?thesis using authorizeEffectIntent_facts by blast
  qed
qed

lemma activate_effects_map:
  "map_of (activate_effects effects d) k = (if k \<in> ei_id ` set effects then Some 0 else map_of d k)"
  by (induction effects arbitrary: d) (auto simp: activate_effects_def)

lemma activate_effects_dict: "dict_ok d \<Longrightarrow> dict_ok (activate_effects effects d)"
  by (induction effects arbitrary: d) (simp_all add: activate_effects_def)

lemma settlement_decision:
  assumes "settling input c a rid auth records" and "settlement_shape input a rid auth records b"
  shows "DecisionRec (da_decision auth) \<in> set (tb_append_records b)"
proof -
  from assms(2) have "mset (tb_append_records b) = mset records"
    unfolding settlement_shape_def by (metis appendRecordOrder_mset)
  then have "set (tb_append_records b) = set records" by (rule mset_eq_setD)
  moreover from assms(1) have "DecisionRec (da_decision auth) \<in> set records"
    unfolding settling_def by (elim conjE disjE exE) simp_all
  ultimately show ?thesis by simp
qed

text \<open>What every bundle of an unfinished run does to the effects.\<close>

lemma effects_step_kernel:
  assumes "reduceKernelCommand input = Inr b" and "\<not> run_ended (kr_status (tb_run b))"
  shows "effects_step (ri_run input) b"
  using assms(1)
proof (cases rule: kernel_cases)
  case (attempt i)
  from attempt_commands.returns [OF attempt(3,2)] show ?thesis by (auto simp: attempt_result_def)
next
  case (settlement c a rid auth records)
  from settlement(4) show ?thesis
  proof (cases rule: settleAuthorized_cases)
    case sibling
    then show ?thesis by (simp add: effects_step_def)
  next
    case ended
    with assms(2) show ?thesis by simp
  next
    case (advanced m barrier stage subject transition effects)
    have "DecisionRec (da_decision auth) \<in> set (tb_append_records b)"
      by (rule settlement_decision [OF settlement(3) advanced(4)])
    with advanced(10,13) advanced_run_fields(5) [OF advanced(11)] show ?thesis
      unfolding effects_step_def
      by (intro disjI2 exI [of _ "da_decision auth"] exI [of _ subject] exI [of _ "sf_effect_intents c"]
          exI [of _ effects]) simp
  qed
next
  case (quarantine c)
  then show ?thesis using assms(2) by (elim quarantine_cases) simp
next
  case (terminal outcome c i)
  from terminal(3) show ?thesis
    by (cases rule: terminal_cases) (use assms(2) in \<open>simp_all add: effects_step_def cleaning_run_fields\<close>)
qed

text \<open>C7: effects are scheduled at most once: an effect that a bundle puts was not active, belongs to the
  run and to a decision appended with it; afterwards exactly the old and the new effects are
  active, the new ones at version 0.\<close>

theorem effects_are_scheduled_once:
  assumes "reduceKernelCommand input = Inr b" and "\<not> run_ended (kr_status (tb_run b))"
    and "dict_ok (kr_active_effect_versions (ri_run input))"
  shows "distinct (map ei_id (tb_put_effects b)) \<and> distinct (map ei_idempotency_key (tb_put_effects b)) \<and>
         (\<forall>e \<in> set (tb_put_effects b).
            map_of (kr_active_effect_versions (ri_run input)) (ei_id e) = None \<and>
            ei_pipeline_run_id e = kr_id (ri_run input) \<and>
            (\<exists>d. DecisionRec d \<in> set (tb_append_records b) \<and> rb_id d = ei_decision_record_id e)) \<and>
         (\<forall>k. map_of (kr_active_effect_versions (tb_run b)) k =
            (if k \<in> ei_id ` set (tb_put_effects b) then Some 0
             else map_of (kr_active_effect_versions (ri_run input)) k))"
  using effects_step_kernel [OF assms(1,2)] unfolding effects_step_def
proof (elim disjE exE conjE)
  fix decision subject intents effects
  assume d: "DecisionRec decision \<in> set (tb_append_records b)"
    and a: "authorized_effects (ri_run input) decision subject intents = Inr effects"
    and p: "tb_put_effects b = sort_key ei_id effects"
    and v: "kr_active_effect_versions (tb_run b) =
      sortedRecord (activate_effects effects (kr_active_effect_versions (ri_run input)))"
  note f = authorized_effects_facts [OF a]
  have "distinct (map ei_idempotency_key (sort_key ei_id effects))"
    using f(2) by (metis mset_map mset_sort mset_eq_imp_distinct_iff)
  with d f p v activate_effects_dict [OF assms(3)] show ?thesis
    by (auto simp: distinct_map_sort_key activate_effects_map)
qed simp

theorem effects_are_scheduled_once_witness:
  "map_of (kr_active_effect_versions (tb_run ex_settled)) ''e'' = Some 0"
  using effects_are_scheduled_once [of ex_settle ex_settled] ex_settled
  by (simp add: ex_settle_def ex_settling_def ex_run_def ex_effect_def)

section \<open>The repository subject\<close>

text \<open>C8: the repository subject of a run changes only to a verified output: that of the publication
  whose Git bundle checkpoint is appended, or that of a settled attempt of an effect stage or of
  an edit stage.\<close>

theorem subject_moves_only_to_verified_output:
  assumes "reduceKernelCommand input = Inr b"
    and "kr_current_subject (tb_run b) \<noteq> kr_current_subject (ri_run input)"
  shows "\<exists>a stage. ri_current_attempt input = Some a \<and>
           find_stage (cm_stages (ri_manifest input)) (scope_stage_id (ka_scope a)) = Some stage \<and>
           (is_publication stage \<and> ka_output_subject a = None \<and> GIT_SUBJECT (kr_current_subject (tb_run b)) \<and>
              (\<exists>checkpoint. tb_append_checkpoints b = [checkpoint] \<and>
                 ck_output_subject checkpoint = Some (kr_current_subject (tb_run b))) \<or>
            ka_output_subject a = Some (kr_current_subject (tb_run b)) \<and>
              settlement_command (cmd_body (ri_command input)) \<noteq> None \<and>
              (is_effect_kind (st_kind stage) \<or>
               ka_repository_authority a = EditAuthority \<and> is_stage_scope (ka_scope a)))"
  using assms(1)
proof (cases rule: kernel_cases)
  case (attempt i)
  from attempt_commands.returns [OF attempt(3,2)] assms(2) show ?thesis
    by (auto simp: attempt_result_def subject_step_def run_ok)
next
  case (settlement c a rid auth records)
  then have cur: "ri_current_attempt input = Some a" by (simp add: settling_def)
  have "accepted_subject (ri_run input) stage a = Some (kr_current_subject (tb_run b)) \<Longrightarrow>
      ka_output_subject a = Some (kr_current_subject (tb_run b)) \<and>
      (is_effect_kind (st_kind stage) \<or> ka_repository_authority a = EditAuthority \<and> is_stage_scope (ka_scope a))"
    for stage using assms(2) by (auto simp: accepted_subject_def split: if_splits)
  moreover from settlement(4) obtain stage where
    "find_stage (cm_stages (ri_manifest input)) (scope_stage_id (ka_scope a)) = Some stage"
    "accepted_subject (ri_run input) stage a = Some (kr_current_subject (tb_run b))"
    by (cases rule: settleAuthorized_cases) (use assms(2) in \<open>auto simp: advanced_run_fields\<close>)
  ultimately show ?thesis using cur settlement(2) by blast
next
  case (quarantine c)
  then show ?thesis using assms(2) by (elim quarantine_cases) simp
next
  case (terminal outcome c i)
  from terminal(3) show ?thesis
    by (cases rule: terminal_cases) (use assms(2) in \<open>simp_all add: cleaning_run_fields\<close>)
qed

theorem subject_moves_only_to_verified_output_witness:
  "\<exists>a. ri_current_attempt ex_settle = Some a \<and> ka_output_subject a = Some (kr_current_subject (tb_run ex_settled))"
  using subject_moves_only_to_verified_output [of ex_settle ex_settled] ex_settled
  by (auto simp: ex_settle_def ex_settling_def ex_run_def ex_edited_def ex_subject_def ex_recorded_def)

section \<open>Fan-in\<close>

lemma settlement_command_alone:
  "settlement_command body = Some c \<Longrightarrow> attempt_command body = None \<and> terminal_command body = None"
  by (cases body) simp_all

text \<open>C6: a fan-in waits for all its members: while another member of the frontier is unsettled, a
  settlement creates no attempt, schedules no effect and moves neither the stage nor the subject.\<close>

theorem fan_in_waits_for_all_members:
  assumes "reduceKernelCommand input = Inr b"
    and "settlement_command (cmd_body (ri_command input)) = Some c"
    and "m \<in> set (cu_frontier (kr_cursor (ri_run input)))"
    and "fm_scope_key m \<notin> set (cu_completed_scope_keys (kr_cursor (ri_run input)))"
    and "fm_attempt_id m \<noteq> sf_attempt_id c"
  shows "tb_create_attempts b = [] \<and> tb_put_effects b = [] \<and>
         cu_stage_id (kr_cursor (tb_run b)) = cu_stage_id (kr_cursor (ri_run input)) \<and>
         kr_status (tb_run b) = kr_status (ri_run input) \<and>
         kr_current_subject (tb_run b) = kr_current_subject (ri_run input)"
  using assms(1)
proof (cases rule: kernel_cases)
  case (settlement c' a rid auth records)
  then have c: "c' = c" and a: "ka_id a = sf_attempt_id c" using assms(2) by (simp_all add: settling_def)
  have t: "topology (ri_run input)" by (rule base_input_facts(3) [OF settlement(1)])
  have blocked: "\<not> set barrier \<subseteq> set (completed_with (ri_run input) m')"
    if "find (\<lambda>x. fm_attempt_id x = ka_id a) (cu_frontier (kr_cursor (ri_run input))) = Some m'"
      and "cu_barrier (kr_cursor (ri_run input)) = Some barrier" for m' barrier
  proof -
    from find_member [OF that(1)] assms(5) a have "m' \<in> set (cu_frontier (kr_cursor (ri_run input)))" "m' \<noteq> m"
      by auto
    with t assms(3) have "fm_scope_key m \<noteq> fm_scope_key m'"
      by (auto simp: topology_def Let_def distinct_map inj_on_def)
    moreover from t that(2) assms(3) have "fm_scope_key m \<in> set barrier"
      by (auto simp: topology_def Let_def)
    ultimately show ?thesis using assms(4) by (auto simp: completed_with_def)
  qed
  from settlement(4) show ?thesis
    by (cases rule: settleAuthorized_cases) (use blocked in \<open>auto simp: c\<close>)
qed (use assms(2) settlement_command_alone in auto)

theorem fan_in_waits_for_all_members_witness:
  "kr_current_subject (tb_run ex_half_settled) = ex_subject \<and> tb_put_effects ex_half_settled = []"
  using fan_in_waits_for_all_members [of ex_fan_in ex_half_settled "ex_settlement [] []" "member_of [] ex_sibling"]
    ex_half_settled
  by (simp add: ex_fan_in_def ex_settling_def ex_run_def compiled_cursor_def ex_settlement_def member_of_def
      ex_sibling_def ex_attempt_def)

end
