(* ===== verification/Postconditions.thy ===== *)
theory Postconditions
  imports Pipeline
begin

text \<open>
  Postconditions of computations that may throw, rewritten backwards through the sequencing, and the
  postconditions of the contract readers.
\<close>

definition post :: "('a \<Rightarrow> bool) \<Rightarrow> 'e + 'a \<Rightarrow> bool" where
  "post Q m \<longleftrightarrow> (\<forall>x. m = Inr x \<longrightarrow> Q x)"

named_theorems posts \<open>rewriting of postconditions\<close>

lemma postD: "post Q m \<Longrightarrow> m = Inr x \<Longrightarrow> Q x"
  by (simp add: post_def)

lemma postI: "(\<And>x. m = Inr x \<Longrightarrow> Q x) \<Longrightarrow> post Q m"
  by (simp add: post_def)

lemma post_mono: "post P m \<Longrightarrow> (\<And>x. P x \<Longrightarrow> Q x) \<Longrightarrow> post Q m"
  by (simp add: post_def)

lemma post_bindE [posts]: "post Q (bindE m f) \<longleftrightarrow> post (\<lambda>x. post Q (f x)) m"
  by (auto simp: post_def run_ok)

lemma post_simps [posts]:
  "post Q (Inl e)" "post Q (fail p d)" "post Q (Inr x) \<longleftrightarrow> Q x"
  "post Q (if b then m else k) \<longleftrightarrow> (b \<longrightarrow> post Q m) \<and> (\<not> b \<longrightarrow> post Q k)"
  by (auto simp: post_def)

lemma post_True [posts, simp]: "post (\<lambda>_. True) m"
  by (simp add: post_def)

lemma post_unit: "post Q m \<longleftrightarrow> (is_ok m \<longrightarrow> Q ())" for m :: "'e + unit"
  by (auto simp: post_def is_ok_iff)

lemma post_optional [posts]:
  "post Q (optional v parse) \<longleftrightarrow> (v = None \<longrightarrow> Q None) \<and> (v \<noteq> None \<longrightarrow> post (\<lambda>x. Q (Some x)) (parse v))"
  by (auto simp: optional_def post_def run_ok)

lemma post_stringAt [posts]:
  "post Q (stringAt v path m pat) \<longleftrightarrow>
     (\<forall>s. v = Some (JStr s) \<longrightarrow> s \<noteq> [] \<longrightarrow> int (length s) \<le> m \<longrightarrow> pat s \<longrightarrow> Q s)"
  by (auto simp: post_def run_ok)

lemma post_integerAt [posts]:
  "post Q (integerAt v path lo hi) \<longleftrightarrow>
     (\<forall>i. v = Some (JNum (JInt i)) \<longrightarrow> isSafeInteger i \<longrightarrow> lo \<le> i \<longrightarrow> i \<le> hi \<longrightarrow> Q i)"
  by (auto simp: post_def run_ok)

lemma post_enumAt [posts]:
  "post Q (enumAt v path allowed) \<longleftrightarrow> (\<forall>s. v = Some (JStr s) \<longrightarrow> s \<in> set allowed \<longrightarrow> Q s)"
  by (auto simp: post_def run_ok)

lemma post_objectAt [posts]:
  "post Q (objectAt v path allowed) \<longleftrightarrow>
     (\<forall>es. v = Some (JObj es) \<longrightarrow> set (keys es) \<subseteq> set allowed \<longrightarrow> Q es)"
  by (auto simp: post_def run_ok)

lemma post_unique [posts]: "post Q (unique xs path) \<longleftrightarrow> (distinct xs \<longrightarrow> Q xs)"
  by (auto simp: post_def run_ok)

text \<open>Readers of collections: what each entry satisfies.\<close>

lemma post_arrayAt:
  assumes "\<And>v p. post P (parse v p)"
  shows "post (\<lambda>xs. list_all P xs \<and> lo \<le> int (length xs) \<and> int (length xs) \<le> hi) (arrayAt v path parse lo hi)"
proof (rule postI)
  fix xs assume "arrayAt v path parse lo hi = Inr xs"
  then obtain vs where vs: "lo \<le> int (length vs)" "int (length vs) \<le> hi"
    "mapiE (\<lambda>i entry. parse entry (idx_path path i)) 0 vs = Inr xs"
    by (auto simp: run_ok)
  have "list_all P xs"
    unfolding list_all_iff
  proof
    fix x assume "x \<in> set xs"
    from mapiE_set [OF vs(3) this] assms show "P x" by (auto dest: postD)
  qed
  with vs mapiE_length [OF vs(3)]
  show "list_all P xs \<and> lo \<le> int (length xs) \<and> int (length xs) \<le> hi" by simp
qed

lemma recordEntries_Cons:
  "recordEntries parse path maximum keyMax keyPattern n ((key, entry) # es) = Inr xs \<longleftrightarrow>
     n + 1 \<le> maximum \<and> pred_option (\<lambda>m. int (length key) \<le> m) keyMax \<and> keyPattern key \<and>
     (\<exists>x ys. parse entry (sub_path path key) = Inr x \<and>
        recordEntries parse path maximum keyMax keyPattern (n + 1) es = Inr ys \<and> xs = (key, x) # ys)"
  by (cases keyMax) (auto simp: run_ok not_less)

lemma recordEntries_all:
  assumes "recordEntries parse path maximum keyMax keyPattern n es = Inr xs"
    and "\<And>v p. post P (parse v p)" and "n \<le> maximum"
  shows "list_all (\<lambda>(k, x). keyPattern k \<and> P x) xs \<and> keys xs = keys es \<and> n + int (length xs) \<le> maximum"
  using assms(1,3)
proof (induction es arbitrary: n xs)
  case (Cons entry es)
  obtain key v where e: "entry = (key, v)" by (cases entry)
  from Cons.prems(1) [unfolded e recordEntries_Cons] obtain x ys where
    x: "n + 1 \<le> maximum" "keyPattern key" "parse v (sub_path path key) = Inr x" "xs = (key, x) # ys"
    and ys: "recordEntries parse path maximum keyMax keyPattern (n + 1) es = Inr ys" by auto
  from Cons.IH [OF ys x(1)] x assms(2) e show ?case by (auto dest: postD)
qed simp

lemma post_recordAt:
  assumes "\<And>v p. post P (parse v p)" and "0 \<le> maximum"
  shows "post (\<lambda>xs. list_all (\<lambda>(k, x). keyPattern k \<and> P x) xs \<and> int (length xs) \<le> maximum)
    (recordAt v path parse maximum keyMax keyPattern)"
  by (auto simp: recordAt_def post_def split: option.splits json.splits
      dest!: recordEntries_all [OF _ assms])

section \<open>Reading back\<close>


lemma post_timestampAt [posts]:
  "post Q (timestampAt v path) \<longleftrightarrow>
     (\<forall>s. v = Some (JStr s) \<longrightarrow> s \<noteq> [] \<longrightarrow> length s \<le> 64 \<longrightarrow> iso8601_valid s \<longrightarrow> Q s)"
  by (auto simp: post_def run_ok)

lemma post_nullable [posts]:
  "post Q (nullable v parse) \<longleftrightarrow> (v = Some JNull \<longrightarrow> Q None) \<and> (v \<noteq> Some JNull \<longrightarrow> post (\<lambda>x. Q (Some x)) (parse v))"
  by (auto simp: nullable_def post_def run_ok)

lemma post_jsonAt [posts]:
  "post Q (jsonAt v path) \<longleftrightarrow> (\<forall>w. v = Some w \<longrightarrow> jsonAt (Some w) path = Inr w \<longrightarrow> Q w)"
  by (auto simp: post_def dest: jsonAt_ok)

lemma post_record_error [posts]: "post Q (Inl (RecordError p d))"
  by (simp add: posts)

lemma mapiE_printed:
  assumes "\<forall>d \<in> set ds. \<forall>path. parse (print d) path = Inr d"
  shows "mapiE (\<lambda>i v. parse v (pth i)) k (map print ds) = Inr ds"
  using assms by (induction ds arbitrary: k) simp_all

definition idempotent :: "(json \<Rightarrow> string \<Rightarrow> json result) \<Rightarrow> bool" where
  "idempotent parse \<longleftrightarrow> (\<forall>v path w. parse v path = Inr w \<longrightarrow> parse w path = Inr w)"

text \<open>Sequencing with one named postcondition per step, where rewriting would split into many cases.\<close>

lemma post_bindI: "post P m \<Longrightarrow> (\<And>x. P x \<Longrightarrow> post Q (f x)) \<Longrightarrow> post Q (bindE m f)"
  by (auto simp: post_def run_ok)

lemma post_unlessI: "(\<not> b \<Longrightarrow> post Q m) \<Longrightarrow> post Q (if b then fail p d else m)"
  by (simp add: posts)

lemma post_InrI: "Q x \<Longrightarrow> post Q (Inr x)"
  by (simp add: posts)

lemma string_again: "post (\<lambda>s. stringAt (Some (JStr s)) path m pat = Inr s) (stringAt v path m pat)"
  by (simp add: posts run_ok)

lemma time_again: "post (\<lambda>s. timestampAt (Some (JStr s)) path = Inr s) (timestampAt v path)"
  by (simp add: posts run_ok)


lemma enum_any: "post (\<lambda>_. True) (enumAt v path allowed)"
  by simp

lemma object_again: "post (\<lambda>es. True) (objectAt v path allowed)"
  by simp

lemma array_again:
  assumes "\<And>w p. post (\<lambda>x. \<forall>q. parse (print x) q = Inr x) (parse w p)"
  shows "post (\<lambda>xs. \<forall>q. arrayAt (Some (JArr (map print xs))) q parse lo hi = Inr xs) (arrayAt v path parse lo hi)"
proof (rule post_mono [OF post_arrayAt [OF assms]])
  fix xs assume xs: "list_all (\<lambda>x. \<forall>q. parse (print x) q = Inr x) xs \<and> lo \<le> int (length xs) \<and> int (length xs) \<le> hi"
  then have "mapiE (\<lambda>i entry. parse entry (idx_path q i)) 0 (map print xs) = Inr xs" for q
    by (intro mapiE_printed) (simp add: list_all_iff)
  with xs show "\<forall>q. arrayAt (Some (JArr (map print xs))) q parse lo hi = Inr xs"
    by (simp add: arrayAt_ok)
qed

lemma strings_again:
  "post (\<lambda>xs. \<forall>q. arrayAt (Some (JArr (map JStr xs))) q (\<lambda>e p. stringAt (Some e) p m pat) lo hi = Inr xs)
     (arrayAt v path (\<lambda>e p. stringAt (Some e) p m pat) lo hi)"
  by (rule array_again) (simp add: posts stringAt_ok)

end
