(* ===== verification/TransitionStore.thy ===== *)
theory TransitionStore
  imports KernelProperties Postconditions
begin

text \<open>
  The commit protocol of transition bundles: \<open>pipeline/kernel/store.ts\<close>.  A bundle is checked on its
  own, then against the versions that the store observes: it is applied, recognised as a replay of
  the transition that is already stored, or rejected.
\<close>

section \<open>Data\<close>

record observed_state =
  ob_run_id :: string
  ob_run_version :: int
  ob_cursor_version :: int
  ob_attempt_versions :: "int dict"

record stored_identity =
  si_transition_id :: string
  si_content_hash :: string

datatype disposition = ApplyTransition | ReplayTransition

section \<open>A bundle on its own\<close>

definition atomicTransitionContent :: "transition_bundle \<Rightarrow> transition_content" where
  "atomicTransitionContent bundle = transition_content.truncate bundle"

fun write_version :: "attempt_write \<Rightarrow> int" where
  "write_version (TerminalWrite _ _ v _) = v"
| "write_version (ReplaceWrite a) = ka_version a"

definition invalid_transition :: "transition_bundle \<Rightarrow> string \<Rightarrow> 'a result" where
  "invalid_transition bundle why = throwM (''atomic transition '' @ tb_transition_id bundle @ why)"

text \<open>
  Two arrays of strings have the same JSON text exactly when they are equal.  A write whose
  attempt has no fence compares against \<open>undefined + 1\<close>, which equals no version.
\<close>

definition assertAtomicTransitionIntegrity :: "transition_bundle \<Rightarrow> unit result" where
  "assertAtomicTransitionIntegrity bundle =
     (let run = tb_run bundle; expected = tb_expected bundle in
      if digestCanonicalJson (json_of_content (atomicTransitionContent bundle)) \<noteq> tb_content_hash bundle
        then invalid_transition bundle '' content hash mismatch''
      else if kr_id run \<noteq> ex_run_id expected
        then invalid_transition bundle '' writes another pipeline run''
      else if kr_version run \<noteq> ex_run_version expected + 1
        then invalid_transition bundle '' must advance the run version exactly once''
      else if cu_version (kr_cursor run) \<noteq> ex_cursor_version expected \<and>
              cu_version (kr_cursor run) \<noteq> ex_cursor_version expected + 1
        then invalid_transition bundle '' has an invalid cursor version advance''
      else
        let writtenAttemptIds = sort (map write_id (tb_attempt_writes bundle));
            expectedAttemptIds = sort (keys (ex_attempt_versions expected)) in
        if writtenAttemptIds \<noteq> expectedAttemptIds
          then invalid_transition bundle '' attempt writes do not match its fences''
        else
          bindE (forE (\<lambda>write.
              if Some (write_version write) \<noteq>
                 map_option (\<lambda>v. v + 1) (map_of (ex_attempt_versions expected) (write_id write))
                then invalid_transition bundle '' has an invalid attempt version advance''
              else Inr ()) (tb_attempt_writes bundle)) (\<lambda>_.
          let createdAttemptIds = map ka_id (tb_create_attempts bundle);
              effectIds = map ei_id (tb_put_effects bundle);
              idempotencyKeys = map ei_idempotency_key (tb_put_effects bundle) in
          if length (remdups createdAttemptIds) \<noteq> length createdAttemptIds \<or>
             list_ex (\<lambda>a. ka_version a \<noteq> 0) (tb_create_attempts bundle)
            then invalid_transition bundle '' creates invalid attempt identities''
          else if length (remdups effectIds) \<noteq> length effectIds \<or>
                  length (remdups idempotencyKeys) \<noteq> length idempotencyKeys
            then invalid_transition bundle '' creates conflicting effects''
          else Inr ()))"

section \<open>A bundle against the store\<close>

definition transitionApplicationDisposition ::
  "transition_bundle \<Rightarrow> observed_state \<Rightarrow> stored_identity option \<Rightarrow> disposition result" where
  "transitionApplicationDisposition bundle observed existing =
     bindE (assertAtomicTransitionIntegrity bundle) (\<lambda>_.
     case existing of
       Some stored \<Rightarrow>
         (if si_transition_id stored \<noteq> tb_transition_id bundle
            then throwM ''stored transition identity does not match the requested replay''
          else if si_content_hash stored \<noteq> tb_content_hash bundle
            then invalid_transition bundle '' conflicts with its immutable replay''
          else Inr ReplayTransition)
     | None \<Rightarrow>
         (let expected = tb_expected bundle in
          if ob_run_id observed \<noteq> ex_run_id expected
            then throwM ''atomic transition targets another pipeline run''
          else if ob_run_version observed \<noteq> ex_run_version expected \<or>
                  ob_cursor_version observed \<noteq> ex_cursor_version expected
            then invalid_transition bundle '' has a stale run or cursor version''
          else
            bindE (forE (\<lambda>(attemptId, expectedVersion).
                if map_of (ob_attempt_versions observed) attemptId \<noteq> Some expectedVersion
                  then invalid_transition bundle ('' has a stale attempt version for '' @ attemptId)
                else Inr ()) (ex_attempt_versions expected)) (\<lambda>_.
            Inr ApplyTransition)))"

section \<open>What they accept\<close>

text \<open>The declarative form of the checks.\<close>

definition intact :: "transition_bundle \<Rightarrow> bool" where
  "intact b \<longleftrightarrow>
     tb_content_hash b = digestCanonicalJson (json_of_content (atomicTransitionContent b)) \<and>
     kr_id (tb_run b) = ex_run_id (tb_expected b) \<and>
     kr_version (tb_run b) = ex_run_version (tb_expected b) + 1 \<and>
     cu_version (kr_cursor (tb_run b)) - ex_cursor_version (tb_expected b) \<in> {0, 1} \<and>
     mset (map write_id (tb_attempt_writes b)) = mset (keys (ex_attempt_versions (tb_expected b))) \<and>
     (\<forall>w \<in> set (tb_attempt_writes b). map_of (ex_attempt_versions (tb_expected b)) (write_id w) =
        Some (write_version w - 1)) \<and>
     distinct (map ka_id (tb_create_attempts b)) \<and> (\<forall>a \<in> set (tb_create_attempts b). ka_version a = 0) \<and>
     distinct (map ei_id (tb_put_effects b)) \<and> distinct (map ei_idempotency_key (tb_put_effects b))"

lemma sort_eq_iff_mset: "sort xs = sort ys \<longleftrightarrow> mset xs = mset ys"
  by (metis mset_sort properties_for_sort sorted_sort)

lemma assertIntegrity_ok: "is_ok (assertAtomicTransitionIntegrity b) \<longleftrightarrow> intact b"
proof -
  have v: "Some x = map_option (\<lambda>v. v + 1) m \<longleftrightarrow> m = Some (x - 1)" for x :: int and m
    by (cases m) auto
  have c: "x = e \<or> x = e + 1 \<longleftrightarrow> x - e \<in> {0, 1}" for x e :: int by auto
  show ?thesis
    unfolding assertAtomicTransitionIntegrity_def invalid_transition_def Let_def intact_def
    by (simp only: is_ok_if_throw is_ok_bindE_unit is_ok_simps forE_ok length_remdups_eq sort_eq_iff_mset v
        list_ex_iff de_Morgan_disj de_Morgan_conj not_not c [symmetric])
      (auto simp: is_ok_iff)
qed

text \<open>C13: a bundle is applied exactly when it is intact and every version it was computed from is the one
  that the store holds.\<close>

theorem applied_exactly_when_current:
  "transitionApplicationDisposition b observed None = Inr ApplyTransition \<longleftrightarrow>
     intact b \<and> ob_run_id observed = ex_run_id (tb_expected b) \<and>
     ob_run_version observed = ex_run_version (tb_expected b) \<and>
     ob_cursor_version observed = ex_cursor_version (tb_expected b) \<and>
     list_all (\<lambda>(i, v). map_of (ob_attempt_versions observed) i = Some v) (ex_attempt_versions (tb_expected b))"
  unfolding transitionApplicationDisposition_def invalid_transition_def Let_def
  by (auto simp: bindE_unit_eq_Inr assertIntegrity_ok if_throw_eq_Inr forE_ok list_all_iff split_beta)

section \<open>The bundles of the reducer\<close>

definition sealed_bundle :: "transition_bundle \<Rightarrow> bool" where
  "sealed_bundle b \<longleftrightarrow> tb_content_hash b = digestCanonicalJson (json_of_content b)"

lemma seals [posts, simp]:
  "post sealed_bundle (sealed command expected run writes creates records checkpoints effects)"
  "post sealed_bundle (attempt_bundle input attempt next run records checkpoints effects)"
  by (auto intro!: postI simp: sealed_bundle_def sealed_fields(10) attempt_bundle_fields(8))

lemma post_option [posts]:
  "post Q (case x of None \<Rightarrow> m | Some y \<Rightarrow> f y) \<longleftrightarrow>
     (x = None \<longrightarrow> post Q m) \<and> (\<forall>y. x = Some y \<longrightarrow> post Q (f y))"
  by (cases x) simp_all

lemma post_record [posts]:
  "post Q (case r of ResultRec x \<Rightarrow> f x | DecisionRec y \<Rightarrow> g y | DeliveryRec z \<Rightarrow> h z) \<longleftrightarrow>
     (\<forall>x. r = ResultRec x \<longrightarrow> post Q (f x)) \<and> (\<forall>y. r = DecisionRec y \<longrightarrow> post Q (g y)) \<and>
     (\<forall>z. r = DeliveryRec z \<longrightarrow> post Q (h z))"
  by (cases r) simp_all

lemma post_thrown [posts]:
  "post Q (throwW a)" "post Q (throwX e)" "post Q (throwT b)" "post Q (throwZ c)"
  by (simp_all add: posts)

lemma work_sealed [posts]:
  "post sealed_bundle (start input a l)" "post sealed_bundle (bindRuntimeSession input c1)"
  "post sealed_bundle (workComplete input a k v r)" "post sealed_bundle (scheduleExternal input c2)"
  "post sealed_bundle (advanceExternalSubject input c3)" "post sealed_bundle (resultPending input c4)"
  "post sealed_bundle (record_result input a k)" "post sealed_bundle (retry input a f)"
  unfolding start_def bindRuntimeSession_def workComplete_def scheduleExternal_def advanceExternalSubject_def
    resultPending_def record_result_def retry_def Let_def
  by (simp_all add: posts split_beta)

lemma settle_sealed [posts]:
  "post sealed_bundle (settleAuthorized input c attempt rid auth records)"
  unfolding settleAuthorized_def settleSibling_def settleBarrier_def Let_def
  by (simp add: posts split_beta)

lemma dispatch_sealed: "post sealed_bundle (dispatch input body)"
proof -
  have "post sealed_bundle (settle input c)" "post sealed_bundle (correctAndSettle input r e c)" for r e c
    unfolding settle_def correctAndSettle_def Let_def by (simp_all add: posts split_beta)
  moreover have "post sealed_bundle (quarantineCommand input c)" for c
    unfolding quarantineCommand_def reduceKernelRecoveryQuarantine_def Let_def by (simp add: posts split_beta)
  moreover have "post sealed_bundle (terminalCommand input outcome c i)" for outcome c i
    unfolding terminalCommand_def preProvision_def cleanupCommand_def Let_def
    by (simp add: posts split_beta split: resource_disposition.split)
  ultimately show ?thesis
    unfolding dispatch_def by (cases body) (simp_all add: posts)
qed

lemma reduced_sealed:
  assumes "reduceKernelCommand input = Inr b"
  shows "tb_content_hash b = digestCanonicalJson (json_of_content b)"
  using assms postD [OF dispatch_sealed]
  by (auto simp: reduceKernelCommand_def bindE_eq_Inr sealed_bundle_def)

lemma truncated_content [simp]: "json_of_content (atomicTransitionContent b) = json_of_content b"
  by (simp add: json_of_content_def atomicTransitionContent_def transition_content.defs)

section \<open>Writes\<close>

text \<open>The writes of a bundle against its fences.\<close>

definition fenced_writes :: "transition_bundle \<Rightarrow> bool" where
  "fenced_writes b \<longleftrightarrow>
     mset (map write_id (tb_attempt_writes b)) = mset (keys (ex_attempt_versions (tb_expected b))) \<and>
     (\<forall>w \<in> set (tb_attempt_writes b).
        map_of (ex_attempt_versions (tb_expected b)) (write_id w) = Some (write_version w - 1))"

lemma single_fenced:
  assumes "tb_expected b = attempt_expected run a" and "tb_attempt_writes b = [ReplaceWrite a']"
    and "ka_id a' = ka_id a" and "ka_version a' = ka_version a + 1"
  shows "fenced_writes b"
  using assms by (simp add: fenced_writes_def attempt_expected_def expectedFor_def sortedRecord_def)

lemma mset_sortedRecord [simp]: "mset (sortedRecord d) = mset d"
  by (simp add: sortedRecord_def)

lemma all_fenced:
  assumes d: "dict_ok (kr_active_attempt_versions run)"
    and e: "mset (ex_attempt_versions (tb_expected b)) = mset (kr_active_attempt_versions run)"
    and w: "mset (tb_attempt_writes b) = mset (map f (kr_active_attempt_versions run))"
    and f: "\<And>i v. (i, v) \<in> set (kr_active_attempt_versions run) \<Longrightarrow> write_id (f (i, v)) = i \<and> write_version (f (i, v)) = v + 1"
  shows "fenced_writes b"
proof -
  have "map (write_id \<circ> f) (kr_active_attempt_versions run) = keys (kr_active_attempt_versions run)"
    using f by auto
  then have "mset (map write_id (tb_attempt_writes b)) = mset (keys (kr_active_attempt_versions run))"
    unfolding mset_map [of write_id] w by (metis mset_map multiset.map_comp)
  moreover have k: "mset (keys (ex_attempt_versions (tb_expected b))) = mset (keys (kr_active_attempt_versions run))"
    using e by simp
  moreover have "map_of (ex_attempt_versions (tb_expected b)) (write_id x) = Some (write_version x - 1)"
    if "x \<in> set (tb_attempt_writes b)" for x
  proof -
    from that obtain i v where iv: "(i, v) \<in> set (kr_active_attempt_versions run)" "x = f (i, v)"
      using mset_eq_setD [OF w] by auto
    moreover from iv(1) e have "(i, v) \<in> set (ex_attempt_versions (tb_expected b))"
      by (metis set_mset_mset)
    moreover from d k have "distinct (keys (ex_attempt_versions (tb_expected b)))"
      using mset_eq_imp_distinct_iff by blast
    ultimately show ?thesis using f [OF iv(1)] by (simp add: map_of_is_SomeI)
  qed
  ultimately show ?thesis by (simp add: fenced_writes_def)
qed

lemma reduced_fenced:
  assumes "reduceKernelCommand input = Inr b" and d: "dict_ok (kr_active_attempt_versions (ri_run input))"
  shows "fenced_writes b"
  using assms(1)
proof (cases rule: kernel_cases)
  case (attempt i)
  obtain a a' where "tb_expected b = attempt_expected (ri_run input) a" "tb_attempt_writes b = [ReplaceWrite a']"
    "same_identity a a'" "ka_version a' = ka_version a + 1"
    using attempt_commands.single_write [OF attempt(3,2)] by metis
  then show ?thesis by (intro single_fenced) (simp_all add: same_identity_def)
next
  case (settlement c a rid auth records)
  from settlement_writes [OF settlement(4)] show ?thesis
    by (intro single_fenced [of b "ri_run input" a "settled_attempt a rid (rb_id (da_decision auth))"])
      (auto simp: settlement_shape_def settled_attempt_def)
next
  case (quarantine c)
  then show ?thesis
    by (elim quarantine_cases) (rule all_fenced [OF d], auto simp: expectedFor_def attemptWriteOrder_def)
next
  case (terminal outcome c i)
  have v: "x = ka_version a" if "ri_current_attempt input = Some a"
      "(ka_id a, x) \<in> set (kr_active_attempt_versions (ri_run input))" for a x
    using base_current_active(1) [OF terminal(1) that(1)] map_of_is_SomeI [OF d that(2)] by simp
  obtain s where "tb_attempt_writes b =
      attemptWriteOrder (terminalAttemptWrites (ri_run input) (ri_current_attempt input) s)"
    "tb_expected b = expectedFor (ri_run input) (sortedRecord (kr_active_attempt_versions (ri_run input)))"
    using terminal(3) by (cases rule: terminal_cases) auto
  then show ?thesis
    by (intro all_fenced [OF d]) (use v d in \<open>auto simp: terminalAttemptWrites_def attemptWriteOrder_def
      expectedFor_def split: option.splits\<close>)
qed

section \<open>Creations\<close>

lemma assertPending_version: "assertPendingAttempt a x = Inr u \<Longrightarrow> ka_version a = 0"
  unfolding assertPendingAttempt_def by (simp add: if_throw_eq_Inr pristine_def)

lemma distinct_map_sorted [canon]: "distinct (map f (sort_key g xs)) \<longleftrightarrow> distinct (map f xs)"
  by (metis mset_eq_imp_distinct_iff mset_map mset_sort)

lemma reduced_creates:
  assumes "reduceKernelCommand input = Inr b"
  shows "distinct (map ka_id (tb_create_attempts b)) \<and> (\<forall>a \<in> set (tb_create_attempts b). ka_version a = 0)"
  using assms
proof (cases rule: kernel_cases)
  case (attempt i)
  then show ?thesis using attempt_commands.no_creation [OF attempt(3,2)] by simp
next
  case (settlement c a rid auth records)
  from settlement(4) show ?thesis
  proof (cases rule: settleAuthorized_cases)
    case (advanced m barrier stage subject transition effects)
    have "\<forall>x \<in> set (sf_next_attempts c). ka_version x = 0"
      using advanced(9) by (auto simp: assertSuccessors_def Let_def is_ok_iff run_ok dest: assertPending_version)
    moreover have "distinct (map ka_id (sf_next_attempts c))"
      using assertSuccessors_facts(3) [OF advanced(9)] by (simp add: assertUniqueNewAttempts_ok)
    then have "distinct (map ka_id (attemptOrder (sf_next_attempts c)))"
      using attemptOrder_ids mset_eq_imp_distinct_iff by blast
    ultimately show ?thesis using advanced(12) by simp
  qed simp_all
next
  case (quarantine c)
  then show ?thesis by (elim quarantine_cases) simp
next
  case (terminal outcome c i)
  from terminal(3) show ?thesis
    by (cases rule: terminal_cases)
      (auto simp: cleanup_created_def assertCleanupAttempt_def is_ok_iff run_ok dest: assertPending_version)
qed

lemma reduced_effects:
  assumes "reduceKernelCommand input = Inr b"
  shows "distinct (map ei_id (tb_put_effects b)) \<and> distinct (map ei_idempotency_key (tb_put_effects b))"
proof (cases "run_ended (kr_status (tb_run b))")
  case False
  from effects_step_kernel [OF assms False] show ?thesis
    by (auto simp: effects_step_def canon dest: authorized_effects_facts(1,2))
next
  case True
  from assms show ?thesis
  proof (cases rule: kernel_cases)
    case (attempt i)
    then show ?thesis
      using attempt_commands.cursor_kept(3) [OF attempt(3,2)] base_input_facts(1) [OF attempt(1)] True by simp
  next
    case (settlement c a rid auth records)
    from settlement(4) True base_input_facts(1) [OF settlement(1)] show ?thesis
      by (cases rule: settleAuthorized_cases) (auto simp: advanced_run_fields)
  next
    case (quarantine c)
    then show ?thesis by (elim quarantine_cases) simp
  next
    case (terminal outcome c i)
    from terminal(3) show ?thesis by (cases rule: terminal_cases) simp_all
  qed
qed

lemma reduced_intact:
  assumes "reduceKernelCommand input = Inr b" and "dict_ok (kr_active_attempt_versions (ri_run input))"
  shows "intact b"
  unfolding intact_def
  using reduced_sealed [OF assms(1)] reduced_fenced [OF assms] reduced_creates [OF assms(1)]
    reduced_effects [OF assms(1)] bundle_fences [OF assms]
  by (simp add: fenced_writes_def)

text \<open>C14: every bundle of the reducer passes the integrity check of the store: its hash is the digest of
  its content, its writes match its fences one version ahead, and it creates distinct attempts and
  effects.\<close>

theorem reduced_bundles_are_intact:
  assumes "reduceKernelCommand input = Inr b" and "dict_ok (kr_active_attempt_versions (ri_run input))"
  shows "is_ok (assertAtomicTransitionIntegrity b)"
  using reduced_intact [OF assms] by (simp add: assertIntegrity_ok)

theorem reduced_bundles_are_intact_witness: "is_ok (assertAtomicTransitionIntegrity ex_started)"
  using ex_started ex_run_wf by (intro reduced_bundles_are_intact [of ex_start]) (simp_all add: run_wf_def)

end
