(* ===== verification/KernelStore.thy ===== *)
theory KernelStore
  imports EffectLeases BlobStore EvidencePayloads TransitionStore
begin

text \<open>
  The kernel store: \<open>persistence/kernel-store.ts\<close>.  Runs, attempts, records, effects and checkpoints are
  written inside one transaction per operation, every write against the version that it was computed from,
  and the projections of a run are compared with the rows that own them before the run is updated.
\<close>

section \<open>The store's surroundings\<close>

record store_env =
  sv_volume :: volume
  sv_registry :: payload_registry
  sv_now :: string

section \<open>Payloads\<close>

datatype payload_input = InlineInput json | TokenInput blob_token

definition payloadInput :: "store_env \<Rightarrow> string \<Rightarrow> payload_input \<Rightarrow> payload_columns result" where
  "payloadInput env schema payload =
     (case payload of
        InlineInput v \<Rightarrow>
          Inr \<lparr>pc_inline = Some (canonicalJson v), pc_algorithm = None, pc_digest = None, pc_bytes = None,
            pc_encoding = None, pc_media_type = None, pc_payload_schema = None\<rparr>
      | TokenInput held \<Rightarrow>
          bindE (assertToken (sv_volume env) held None) (\<lambda>pointer.
          if bp_payload_schema pointer \<noteq> schema
            then throwM ''verified blob payload schema does not match its owner''
          else Inr \<lparr>pc_inline = None, pc_algorithm = Some ''sha256'', pc_digest = Some (bp_digest pointer),
            pc_bytes = Some (bp_bytes pointer), pc_encoding = Some (bp_encoding pointer),
            pc_media_type = Some (bp_media_type pointer), pc_payload_schema = Some (bp_payload_schema pointer)\<rparr>))"

definition recordPayloadColumns :: "store_env \<Rightarrow> record_payload \<Rightarrow> string \<Rightarrow> payload_columns result" where
  "recordPayloadColumns env payload schema =
     (case payload of
        Inline v \<Rightarrow> payloadInput env schema (InlineInput v)
      | Blob blob \<Rightarrow> bindE (blob_verify (sv_volume env) blob) (\<lambda>held. payloadInput env schema (TokenInput held)))"

section \<open>Runs\<close>

definition runRow :: "string \<Rightarrow> database \<Rightarrow> run_row result" where
  "runRow ident db =
     (case first_row (\<lambda>r. rw_id r = ident) (db_runs db) of
        None \<Rightarrow> throwM (''unknown pipeline run '' @ ident)
      | Some row \<Rightarrow> Inr row)"

definition active_attempts :: "string \<Rightarrow> database \<Rightarrow> int dict" where
  "active_attempts run db =
     sortedRecord (map (\<lambda>a. (aw_id a, aw_version a))
       (ordered_rows aw_id (\<lambda>a. aw_run a = run \<and> aw_status a \<in> set ACTIVE_ATTEMPT_STATUSES) (db_attempts db)))"

definition active_effects :: "string \<Rightarrow> database \<Rightarrow> int dict" where
  "active_effects run db =
     sortedRecord (map (\<lambda>e. (ew_id e, ew_version e))
       (ordered_rows ew_id (\<lambda>e. ew_run e = run \<and> ew_status e \<in> set ACTIVE_EFFECT_STATUSES) (db_effects db)))"

definition attempt_checkpoints :: "string \<Rightarrow> database \<Rightarrow> string dict" where
  "attempt_checkpoints run db =
     fromEntries (List.map_filter (\<lambda>a. map_option (Pair (aw_id a)) (aw_checkpoint_id a))
       (ordered_rows aw_id (\<lambda>a. aw_run a = run) (db_attempts db)))"

definition runFromRow :: "run_row \<Rightarrow> database \<Rightarrow> kernel_run result" where
  "runFromRow row db =
     bindE (parse_persisted (rw_cursor_reentries row) ''cursor reentries'') (\<lambda>v1.
     bindE (cast ''cursor reentries'' (as_dict as_int v1)) (\<lambda>reentries.
     bindE (parse_persisted (rw_cursor_frontier row) ''cursor frontier'') (\<lambda>v2.
     bindE (cast ''cursor frontier'' (as_list as_member v2)) (\<lambda>frontier.
     bindE (parse_persisted (rw_cursor_completed row) ''completed scope keys'') (\<lambda>v3.
     bindE (cast ''completed scope keys'' (as_list as_str v3)) (\<lambda>completed.
     bindE (case rw_cursor_barrier row of
         None \<Rightarrow> Inr None
       | Some t \<Rightarrow> bindE (parse_persisted t ''cursor barrier'') (\<lambda>v4.
           bindE (cast ''cursor barrier'' (as_barrier v4)) (\<lambda>b. Inr (Some b)))) (\<lambda>barrier.
     Inr \<lparr>kr_id = rw_id row, kr_pipeline_id = rw_pipeline_id row,
       kr_definition_bundle_hash = rw_bundle_hash row, kr_current_subject = rw_current_subject row,
       kr_status = rw_status row, kr_terminal_outcome = rw_terminal_outcome row,
       kr_cursor = \<lparr>cu_stage_id = rw_cursor_stage_id row, cu_version = rw_cursor_version row,
         cu_reentries = reentries, cu_frontier = frontier, cu_completed_scope_keys = completed,
         cu_barrier = barrier\<rparr>,
       kr_version = rw_version row, kr_work_retry_limit = rw_work_retry_limit row,
       kr_result_correction_limit = rw_result_correction_limit row,
       kr_active_attempt_versions = active_attempts (rw_id row) db,
       kr_active_effect_versions = active_effects (rw_id row) db,
       kr_checkpoint_ids = attempt_checkpoints (rw_id row) db\<rparr>)))))))"

section \<open>Blobs of a run\<close>

definition store_readBlob ::
  "store_env \<Rightarrow> database \<Rightarrow> string \<Rightarrow> string \<Rightarrow> string \<Rightarrow> blob_pointer \<Rightarrow> run_status option \<Rightarrow> blob_object result" where
  "store_readBlob env db run ownerKind ownerId pointer knownStatus =
     bindE (validateBlobPointer pointer) (\<lambda>valid.
     case verifyObject (sv_volume env) valid of
       Inr _ \<Rightarrow> blob_read (sv_volume env) pointer
     | Inl _ \<Rightarrow>
         bindE (case knownStatus of
             Some s \<Rightarrow> Inr s
           | None \<Rightarrow> bindE (runRow run db) (\<lambda>row. Inr (rw_status row))) (\<lambda>status.
         throwM (''kernel blob integrity failure for '' @ ownerKind @ '' '' @ ownerId @ '': '' @
           (if active_run_status status then ''active_blocking'' else ''settled_history_incident''))))"

section \<open>Attempts\<close>

text \<open>Reading the evidence of an invalid result, and comparing it with the attempt that it belongs to.\<close>

definition owns_pointer :: "kernel_attempt \<Rightarrow> blob_pointer \<Rightarrow> bool" where
  "owns_pointer attempt pointer \<longleftrightarrow>
     (case Option.bind (ka_pending_result attempt) pe_invalid_result_evidence of
        None \<Rightarrow> False
      | Some own \<Rightarrow> canonicalJson (json_of_blob own) = canonicalJson (json_of_blob pointer))"

definition changed_identity :: "kernel_attempt \<Rightarrow> string \<Rightarrow> 'a result" where
  "changed_identity attempt what =
     throwM (''attempt '' @ ka_id attempt @ '' invalid-result evidence changed its sealed identity ('' @ what @ '')'')"

definition pending_candidate :: "kernel_attempt \<Rightarrow> string option" where
  "pending_candidate attempt = Option.bind (ka_pending_result attempt) pe_candidate_hash"

definition pending_diagnostics :: "kernel_attempt \<Rightarrow> result_diagnostic list" where
  "pending_diagnostics attempt = (case ka_pending_result attempt of None \<Rightarrow> [] | Some p \<Rightarrow> pe_diagnostics p)"

definition phase_matches :: "kernel_attempt \<Rightarrow> blob_pointer \<Rightarrow> lease_purpose \<Rightarrow> bool" where
  "phase_matches attempt pointer phase \<longleftrightarrow>
     (if owns_pointer attempt pointer then
        phase = WorkLease \<or> ka_result_correction_count attempt > 0 \<and> phase = CorrectionLease
      else
        (case ka_lease attempt of Some l \<Rightarrow> le_started l \<and> phase = le_purpose l | None \<Rightarrow> False))"

definition assertInvalidResultEvidenceIdentity ::
  "kernel_attempt \<Rightarrow> blob_pointer \<Rightarrow> string \<Rightarrow> invalid_result_evidence result" where
  "assertInvalidResultEvidenceIdentity attempt pointer t =
     (if bp_encoding pointer \<noteq> Utf8 \<or> bp_media_type pointer \<noteq> ''application/json'' \<or>
         bp_payload_schema pointer \<noteq> INVALID_RESULT_EVIDENCE_PAYLOAD_SCHEMA
        then throwM (''attempt '' @ ka_id attempt @ '' invalid-result evidence pointer is not canonical JSON'')
      else
        bindE (parse_persisted t (''attempt '' @ ka_id attempt @ '' invalid-result evidence'')) (\<lambda>v.
        bindE (validateInvalidResultEvidencePayload v
          (''attempt '' @ ka_id attempt @ '' invalid_result_evidence'')) (\<lambda>payload.
        let owns = owns_pointer attempt pointer in
        if ie_pipeline_run_id payload \<noteq> ka_pipeline_run_id attempt then changed_identity attempt ''pipeline_run_id''
        else if ie_attempt_id payload \<noteq> ka_id attempt then changed_identity attempt ''attempt_id''
        else if ie_request_hash payload \<noteq> ka_request_hash attempt then changed_identity attempt ''request_hash''
        else if ie_definition_bundle_hash payload \<noteq> ka_definition_bundle_hash attempt
          then changed_identity attempt ''definition_bundle_hash''
        else if owns \<and> ie_candidate_hash payload \<noteq> pending_candidate attempt
          then changed_identity attempt ''candidate_hash''
        else if \<not> phase_matches attempt pointer (ie_phase payload) then changed_identity attempt ''phase''
        else if owns \<and> canonicalJson (json_of_diagnostics (ie_diagnostics payload)) \<noteq>
                canonicalJson (json_of_diagnostics (pending_diagnostics attempt))
          then changed_identity attempt ''diagnostics''
        else Inr payload)))"

definition pending_evidence :: "kernel_attempt \<Rightarrow> blob_pointer option" where
  "pending_evidence attempt = Option.bind (ka_pending_result attempt) pe_invalid_result_evidence"

definition attemptById :: "store_env \<Rightarrow> string \<Rightarrow> string \<Rightarrow> database \<Rightarrow> kernel_attempt result" where
  "attemptById env ident run db =
     (case first_row (\<lambda>a. aw_id a = ident \<and> aw_run a = run) (db_attempts db) of
        None \<Rightarrow> throwM (''unknown attempt '' @ ident @ '' for pipeline run '' @ run)
      | Some row \<Rightarrow>
          bindE (attemptFromRow row) (\<lambda>attempt.
          case pending_evidence attempt of
            None \<Rightarrow> Inr attempt
          | Some pointer \<Rightarrow>
              bindE (store_readBlob env db run ''attempt'' (ka_id attempt) pointer None) (\<lambda>obj.
              bindE (assertInvalidResultEvidenceIdentity attempt pointer (bo_text obj)) (\<lambda>_. Inr attempt))))"

definition preverifyAttemptBlobs :: "store_env \<Rightarrow> kernel_attempt list \<Rightarrow> unit result" where
  "preverifyAttemptBlobs env attempts =
     forE (\<lambda>attempt.
       case pending_evidence attempt of
         None \<Rightarrow> Inr ()
       | Some pointer \<Rightarrow>
           bindE (blob_verify (sv_volume env) pointer) (\<lambda>held.
           bindE (blob_read (sv_volume env) pointer) (\<lambda>obj.
           bindE (assertInvalidResultEvidenceIdentity attempt pointer (bo_text obj)) (\<lambda>_.
           bindE (assertToken (sv_volume env) held (Some pointer)) (\<lambda>_. Inr ()))))) attempts"

text \<open>The columns that an attempt is written to, apart from its context and its times.\<close>

definition with_attempt :: "kernel_attempt \<Rightarrow> string option \<Rightarrow> attempt_row \<Rightarrow> attempt_row" where
  "with_attempt a worker row =
     (let (parent, g, item, index) = scopeColumns (ka_scope a); lease = ka_lease a in
      row\<lparr>aw_scope_kind := scope_kind_of (ka_scope a), aw_stage_id := scope_stage_id (ka_scope a),
        aw_parent := parent, aw_scope_group := g, aw_scope_item := item, aw_scope_index := index,
        aw_authority := ka_repository_authority a, aw_request_hash := ka_request_hash a,
        aw_bundle_hash := ka_definition_bundle_hash a, aw_input_subject := ka_input_subject a,
        aw_output_subject := ka_output_subject a, aw_session := ka_native_session_id a,
        aw_status := ka_status a, aw_version := ka_version a, aw_retry_ordinal := ka_work_retry_ordinal a,
        aw_correction_count := ka_result_correction_count a,
        aw_correction_deadline := ka_result_correction_deadline a,
        aw_lease_id := map_option le_id lease, aw_lease_generation := map_option le_generation lease,
        aw_lease_worker := worker, aw_lease_purpose := map_option le_purpose lease,
        aw_lease_expires := map_option le_expires_at lease,
        aw_lease_started := map_option (\<lambda>l. if le_started l then 1 else 0) lease,
        aw_checkpoint_id := ka_checkpoint_id a, aw_result_id := ka_result_record_id a,
        aw_decision_id := ka_decision_record_id a,
        aw_candidate_hash := Option.bind (ka_pending_result a) pe_candidate_hash,
        aw_diagnostics := map_option serializePendingResultDiagnostics (ka_pending_result a)\<rparr>)"

definition new_attempt_row :: "kernel_attempt \<Rightarrow> string list \<Rightarrow> string list \<Rightarrow> string \<Rightarrow> attempt_row" where
  "new_attempt_row a records checkpoints now =
     with_attempt a (map_option le_worker_id (ka_lease a))
       \<lparr>aw_id = ka_id a, aw_run = ka_pipeline_run_id a, aw_scope_kind = StageKind, aw_stage_id = [],
        aw_parent = None, aw_scope_group = None, aw_scope_item = None, aw_scope_index = None,
        aw_authority = InspectAuthority, aw_request_hash = [], aw_bundle_hash = [], aw_input_subject = [],
        aw_context_records = canonicalJson (json_strs records),
        aw_context_checkpoints = canonicalJson (json_strs checkpoints), aw_output_subject = None,
        aw_session = None, aw_status = Pending, aw_version = 0, aw_retry_ordinal = 0, aw_correction_count = 0,
        aw_correction_deadline = None, aw_unmet = 0, aw_lease_id = None, aw_lease_generation = None,
        aw_lease_worker = None, aw_lease_purpose = None, aw_lease_expires = None, aw_lease_started = None,
        aw_checkpoint_id = None, aw_result_id = None, aw_decision_id = None, aw_candidate_hash = None,
        aw_diagnostics = None, aw_created_at = now, aw_updated_at = now\<rparr>"

definition insertAttempt :: "store_env \<Rightarrow> kernel_attempt \<Rightarrow> database \<Rightarrow> database result" where
  "insertAttempt env attempt db =
     bindE (preverifyAttemptBlobs env [attempt]) (\<lambda>_.
     bindE (canonicalAttemptContextIds (ka_context_record_ids attempt)) (\<lambda>records.
     bindE (canonicalAttemptContextIds (ka_context_checkpoint_ids attempt)) (\<lambda>checkpoints.
     bindE (insertE attempt_schema (new_attempt_row attempt records checkpoints (sv_now env)) (db_attempts db)) (\<lambda>rows.
     Inr (db\<lparr>db_attempts := rows\<rparr>)))))"

definition lease_claim_changed :: "kernel_attempt \<Rightarrow> attempt_row \<Rightarrow> bool" where
  "lease_claim_changed attempt row \<longleftrightarrow>
     (case ka_lease attempt of
        None \<Rightarrow> False
      | Some l \<Rightarrow>
          aw_lease_id row = Some (le_id l) \<and>
          (aw_lease_generation row \<noteq> Some (le_generation l) \<or> aw_lease_worker row \<noteq> Some (le_worker_id l) \<or>
           aw_lease_purpose row \<noteq> Some (le_purpose l)))"

definition store_replaceAttempt ::
  "store_env \<Rightarrow> kernel_attempt \<Rightarrow> int \<Rightarrow> string \<Rightarrow> database \<Rightarrow> database result" where
  "store_replaceAttempt env attempt expectedVersion run db =
     (if ka_pipeline_run_id attempt \<noteq> run then throwM (''attempt '' @ ka_id attempt @ '' belongs to another run'')
      else
        (case first_row (\<lambda>a. aw_id a = ka_id attempt \<and> aw_run a = run) (db_attempts db) of
           None \<Rightarrow> throwM (''unknown attempt '' @ ka_id attempt)
         | Some existing \<Rightarrow>
             bindE (canonicalAttemptContextIds (ka_context_record_ids attempt)) (\<lambda>records.
             bindE (canonicalAttemptContextIds (ka_context_checkpoint_ids attempt)) (\<lambda>checkpoints.
             if aw_context_records existing \<noteq> canonicalJson (json_strs records) \<or>
                aw_context_checkpoints existing \<noteq> canonicalJson (json_strs checkpoints)
               then throwM (''attempt '' @ ka_id attempt @ '' cannot change its context bindings'')
             else if lease_claim_changed attempt existing
               then throwM (''attempt '' @ ka_id attempt @ '' lease claim cannot change inside its fence'')
             else
               bindE (preverifyAttemptBlobs env [attempt]) (\<lambda>_.
               bindE (updateE attempt_schema
                   (\<lambda>a. aw_id a = ka_id attempt \<and> (aw_run a = run \<and> aw_version a = expectedVersion))
                   (\<lambda>a. (with_attempt attempt (map_option le_worker_id (ka_lease attempt)) a)\<lparr>aw_updated_at := sv_now env\<rparr>)
                   (db_attempts db)) (\<lambda>(rows, changes).
               if changes \<noteq> 1 then throwM (''attempt '' @ ka_id attempt @ '' compare-and-set failed'')
               else Inr (db\<lparr>db_attempts := rows\<rparr>)))))))"

definition terminal_row :: "attempt_state \<Rightarrow> int \<Rightarrow> string \<Rightarrow> attempt_row \<Rightarrow> attempt_row" where
  "terminal_row status next_version now a =
     a\<lparr>aw_status := status, aw_version := next_version, aw_lease_id := None, aw_lease_generation := None,
       aw_lease_worker := None, aw_lease_purpose := None, aw_lease_expires := None, aw_lease_started := None,
       aw_result_id := None, aw_decision_id := None, aw_correction_deadline := None,
       aw_candidate_hash := None, aw_diagnostics := None, aw_updated_at := now\<rparr>"

definition terminalAttempt ::
  "store_env \<Rightarrow> string \<Rightarrow> int \<Rightarrow> int \<Rightarrow> attempt_state \<Rightarrow> string \<Rightarrow> database \<Rightarrow> database result" where
  "terminalAttempt env ident expected next_version status run db =
     bindE (updateE attempt_schema (\<lambda>a. aw_id a = ident \<and> (aw_run a = run \<and> aw_version a = expected))
         (terminal_row status next_version (sv_now env)) (db_attempts db)) (\<lambda>(rows, changes).
     if changes \<noteq> 1 then throwM (''attempt '' @ ident @ '' terminal compare-and-set failed'')
     else Inr (db\<lparr>db_attempts := rows\<rparr>))"

end
