(* ===== verification/KernelTransactions.thy ===== *)
theory KernelTransactions
  imports KernelStore
begin

text \<open>
  Writing and reading whole states of the kernel store: records, checkpoints and effects with the checks of
  their owners, the projections of a run, \<open>applyAtomicTransition\<close>, \<open>#advanceRunFence\<close> and
  \<open>loadExactReductionView\<close> of \<open>persistence/kernel-store.ts\<close>.
\<close>

section \<open>Records\<close>

definition live_forensics :: "kernel_attempt \<Rightarrow> decision_record \<Rightarrow> attempt_forensics \<Rightarrow> bool" where
  "live_forensics owner d payload \<longleftrightarrow>
     rb_id d = attemptForensicsRecordId owner (fo_work_retry_ordinal payload) \<and>
     rb_payload_schema d = ATTEMPT_FORENSICS_PAYLOAD_SCHEMA \<and>
     rb_pipeline_run_id d = ka_pipeline_run_id owner \<and> fo_request_hash payload = ka_request_hash owner \<and>
     fo_definition_bundle_hash payload = ka_definition_bundle_hash owner \<and>
     fo_work_retry_ordinal payload = ka_work_retry_ordinal owner \<and>
     (case ka_lease owner of None \<Rightarrow> False | Some l \<Rightarrow> fo_lease_id payload = le_id l \<and> le_started l) \<and>
     rb_created_at d = fo_observed_at payload"

definition assertAttemptEvidenceRecord ::
  "store_env \<Rightarrow> decision_record \<Rightarrow> kernel_attempt dict \<Rightarrow> database \<Rightarrow> unit result" where
  "assertAttemptEvidenceRecord env d owners db =
     (if dr_reducer d \<noteq> ATTEMPT_FORENSICS_REDUCER \<and> dr_reducer d \<noteq> INVALID_RESULT_EVIDENCE_REDUCER then Inr ()
      else
        (case rb_payload d of
           Inline _ \<Rightarrow> throwM (''attempt evidence Record '' @ rb_id d @ '' is not an immutable blob leaf'')
         | Blob pointer \<Rightarrow>
             if dr_input_record_ids d \<noteq> []
               then throwM (''attempt evidence Record '' @ rb_id d @ '' is not an immutable blob leaf'')
             else
               bindE (blob_verify (sv_volume env) pointer) (\<lambda>held.
               bindE (blob_read (sv_volume env) pointer) (\<lambda>obj.
               bindE (assertToken (sv_volume env) held (Some pointer)) (\<lambda>_.
               if dr_reducer d = INVALID_RESULT_EVIDENCE_REDUCER then
                 bindE (parse_persisted (bo_text obj) (''record '' @ rb_id d @ '' blob'')) (\<lambda>v.
                 bindE (validateInvalidResultEvidencePayload v
                   (''record '' @ rb_id d @ '' invalid_result_evidence'')) (\<lambda>parsed.
                 bindE (case map_of owners (ie_attempt_id parsed) of
                     Some replacement \<Rightarrow>
                       if owns_pointer replacement pointer then Inr replacement
                       else attemptById env (ie_attempt_id parsed) (ie_pipeline_run_id parsed) db
                   | None \<Rightarrow> attemptById env (ie_attempt_id parsed) (ie_pipeline_run_id parsed) db) (\<lambda>owner.
                 bindE (assertInvalidResultEvidenceIdentity owner pointer (bo_text obj)) (\<lambda>payload.
                 bindE (assertExactInvalidResultEvidenceRecord owner pointer d) (\<lambda>_.
                 if rb_created_at d \<noteq> ie_observed_at payload
                   then throwM (''record '' @ rb_id d @ '' changed its invalid-result observation time'')
                 else Inr ())))))
               else if bp_encoding pointer \<noteq> Utf8 \<or> bp_media_type pointer \<noteq> ''application/json'' \<or>
                       bp_payload_schema pointer \<noteq> rb_payload_schema d
                 then throwM (''record '' @ rb_id d @ '' Attempt forensics pointer is not canonical JSON'')
               else
                 bindE (parse_persisted (bo_text obj) (''record '' @ rb_id d @ '' blob'')) (\<lambda>v.
                 bindE (validateAttemptForensicsPayload v (''record '' @ rb_id d @ '' attempt_forensics'')) (\<lambda>payload.
                 bindE (attemptById env (fo_attempt_id payload) (fo_pipeline_run_id payload) db) (\<lambda>owner.
                 if \<not> live_forensics owner d payload
                   then throwM (''record '' @ rb_id d @ '' changed its live Attempt forensics identity'')
                 else Inr ()))))))))"

definition assertRecordOwner ::
  "store_env \<Rightarrow> execution_record \<Rightarrow> kernel_attempt dict \<Rightarrow> database \<Rightarrow> unit result" where
  "assertRecordOwner env rec owners db =
     (case rec of
        ResultRec r \<Rightarrow>
          bindE (case map_of owners (rr_attempt_id r) of
              Some owner \<Rightarrow> Inr owner
            | None \<Rightarrow> attemptById env (rr_attempt_id r) (rb_pipeline_run_id r) db) (\<lambda>owner.
          if ka_id owner \<noteq> rr_attempt_id r \<or> ka_pipeline_run_id owner \<noteq> rb_pipeline_run_id r \<or>
             ka_request_hash owner \<noteq> rr_request_hash r \<or>
             ka_definition_bundle_hash owner \<noteq> rr_definition_bundle_hash r \<or>
             ka_input_subject owner \<noteq> rr_input_subject r \<or> ka_output_subject owner \<noteq> rr_output_subject r
            then throwM (''ResultRecord '' @ rb_id r @ '' does not match its attempt identity'')
          else Inr ())
      | DecisionRec d \<Rightarrow>
          bindE (assertAttemptEvidenceRecord env d owners db) (\<lambda>_.
          forE (\<lambda>inputId.
            case first_row (\<lambda>c. cw_id c = inputId) (db_records db) of
              None \<Rightarrow> throwM (''DecisionRecord '' @ rb_id d @ '' references unavailable input '' @ inputId)
            | Some input \<Rightarrow>
                if cw_run input \<noteq> rb_pipeline_run_id d
                  then throwM (''DecisionRecord '' @ rb_id d @ '' references unavailable input '' @ inputId)
                else Inr ()) (dr_input_record_ids d))
      | DeliveryRec d \<Rightarrow>
          (case first_row (\<lambda>e. ew_id e = dl_effect_id d) (db_effects db) of
             None \<Rightarrow> throwM (''DeliveryRecord '' @ rb_id d @ '' does not match its effect identity'')
           | Some effect \<Rightarrow>
               if ew_run effect \<noteq> rb_pipeline_run_id d \<or> ew_key effect \<noteq> dl_idempotency_key d \<or>
                  ew_target effect \<noteq> dl_external_identity d
                 then throwM (''DeliveryRecord '' @ rb_id d @ '' does not match its effect identity'')
               else Inr ()))"

fun record_payload_schema :: "execution_record \<Rightarrow> string" where
  "record_payload_schema (ResultRec r) = rb_payload_schema r"
| "record_payload_schema (DecisionRec d) = rb_payload_schema d"
| "record_payload_schema (DeliveryRec d) = rb_payload_schema d"

fun record_payload_of :: "execution_record \<Rightarrow> record_payload" where
  "record_payload_of (ResultRec r) = rb_payload r"
| "record_payload_of (DecisionRec d) = rb_payload d"
| "record_payload_of (DeliveryRec d) = rb_payload d"

fun record_created_at :: "execution_record \<Rightarrow> string" where
  "record_created_at (ResultRec r) = rb_created_at r"
| "record_created_at (DecisionRec d) = rb_created_at d"
| "record_created_at (DeliveryRec d) = rb_created_at d"

fun record_kind_of :: "execution_record \<Rightarrow> record_kind" where
  "record_kind_of (ResultRec _) = ResultKind"
| "record_kind_of (DecisionRec _) = DecisionKind"
| "record_kind_of (DeliveryRec _) = DeliveryKind"

definition next_sequence :: "string \<Rightarrow> database \<Rightarrow> int" where
  "next_sequence run db = fold max (map cw_sequence (filter (\<lambda>c. cw_run c = run) (db_records db))) 0 + 1"

definition new_record_row :: "execution_record \<Rightarrow> payload_columns \<Rightarrow> int \<Rightarrow> record_row" where
  "new_record_row rec payload sequence =
     (let row = \<lparr>cw_id = rec_id rec, cw_run = rec_run rec, cw_sequence = sequence,
            cw_hash = digestCanonicalJson (json_of_record rec), cw_kind = record_kind_of rec,
            cw_semantic_key = semanticKey rec, cw_payload_schema = record_payload_schema rec, cw_payload = payload,
            cw_attempt_id = None, cw_request_hash = None, cw_bundle_hash = None, cw_input_subject = None,
            cw_output_subject = None, cw_original_hash = None, cw_normalized_hash = None, cw_reducer = None,
            cw_input_ids = None, cw_input_count = None, cw_effect_id = None, cw_key = None, cw_external = None,
            cw_delivery_status = None, cw_created_at = record_created_at rec\<rparr> in
      case rec of
        ResultRec r \<Rightarrow> row\<lparr>cw_attempt_id := Some (rr_attempt_id r), cw_request_hash := Some (rr_request_hash r),
          cw_bundle_hash := Some (rr_definition_bundle_hash r), cw_input_subject := Some (rr_input_subject r),
          cw_output_subject := rr_output_subject r, cw_original_hash := Some (rr_original_candidate_hash r),
          cw_normalized_hash := Some (rr_normalized_candidate_hash r)\<rparr>
      | DecisionRec d \<Rightarrow> row\<lparr>cw_reducer := Some (dr_reducer d),
          cw_input_ids := Some (canonicalJson (json_strs (dr_input_record_ids d))),
          cw_input_count := Some (int (length (dr_input_record_ids d)))\<rparr>
      | DeliveryRec d \<Rightarrow> row\<lparr>cw_effect_id := Some (dl_effect_id d), cw_key := Some (dl_idempotency_key d),
          cw_external := Some (dl_external_identity d), cw_delivery_status := Some (dl_status d)\<rparr>)"

definition insertRecord ::
  "store_env \<Rightarrow> execution_record \<Rightarrow> kernel_attempt dict \<Rightarrow> database \<Rightarrow> database result" where
  "insertRecord env recordInput owners db =
     bindE (validateExecutionRecord (sv_registry env) (json_of_record recordInput) ''record'') (\<lambda>rec.
     bindE (recordPayloadColumns env (record_payload_of rec) (record_payload_schema rec)) (\<lambda>payload.
     bindE (assertRecordOwner env rec owners db) (\<lambda>_.
     bindE (insertE record_schema (new_record_row rec payload (next_sequence (rec_run rec) db)) (db_records db)) (\<lambda>rows.
     Inr (db\<lparr>db_records := rows\<rparr>)))))"

section \<open>Checkpoints and effects\<close>

definition next_ordinal :: "string \<Rightarrow> database \<Rightarrow> int" where
  "next_ordinal attempt db =
     fold max (map kw_ordinal (filter (\<lambda>k. kw_attempt_id k = attempt) (db_checkpoints db))) (-1) + 1"

definition promotes :: "kernel_attempt \<Rightarrow> attempt_checkpoint \<Rightarrow> checkpoint_row option \<Rightarrow> bool" where
  "promotes attempt checkpoint prior \<longleftrightarrow>
     (case prior of
        None \<Rightarrow> False
      | Some row \<Rightarrow>
          ka_checkpoint_id attempt = Some (kw_id row) \<and> ka_output_subject attempt = None \<and>
          kw_output_subject row = None \<and> ck_output_subject checkpoint \<noteq> None \<and>
          ck_payload_schema checkpoint = ''openthrottle.git-checkpoint-bundle/v1'')"

definition insertCheckpoint :: "store_env \<Rightarrow> attempt_checkpoint \<Rightarrow> database \<Rightarrow> database result" where
  "insertCheckpoint env checkpointInput db =
     bindE (validateAttemptCheckpoint (json_of_checkpoint checkpointInput) ''attempt_checkpoint'') (\<lambda>checkpoint.
     bindE (recordPayloadColumns env (ck_payload checkpoint) (ck_payload_schema checkpoint)) (\<lambda>payload.
     bindE (attemptById env (ck_attempt_id checkpoint) (ck_pipeline_run_id checkpoint) db) (\<lambda>attempt.
     let ordinal = next_ordinal (ck_attempt_id checkpoint) db in
     if ka_request_hash attempt \<noteq> ck_request_hash checkpoint \<or>
        ka_definition_bundle_hash attempt \<noteq> ck_definition_bundle_hash checkpoint \<or>
        ka_input_subject attempt \<noteq> ck_input_subject checkpoint
       then throwM (''checkpoint '' @ ck_id checkpoint @ '' does not match its attempt identity'')
     else if ordinal > 1
       then throwM (''attempt '' @ ck_attempt_id checkpoint @ '' cannot append more than one promoted checkpoint'')
     else if ordinal = 1 \<and> \<not> promotes attempt checkpoint
         (first_row (\<lambda>k. kw_attempt_id k = ck_attempt_id checkpoint \<and> kw_ordinal k = 0) (db_checkpoints db))
       then throwM (''attempt '' @ ck_attempt_id checkpoint @ '' has an invalid external integration promotion'')
     else
       bindE (insertE checkpoint_schema
           \<lparr>kw_id = ck_id checkpoint, kw_run = ck_pipeline_run_id checkpoint,
            kw_attempt_id = ck_attempt_id checkpoint, kw_ordinal = ordinal,
            kw_hash = digestCanonicalJson (json_of_checkpoint checkpoint),
            kw_semantic_key = ck_payload_schema checkpoint, kw_request_hash = ck_request_hash checkpoint,
            kw_bundle_hash = ck_definition_bundle_hash checkpoint, kw_input_subject = ck_input_subject checkpoint,
            kw_output_subject = ck_output_subject checkpoint, kw_session = ck_native_session_id checkpoint,
            kw_payload_schema = ck_payload_schema checkpoint, kw_payload = payload,
            kw_captured_at = ck_captured_at checkpoint\<rparr> (db_checkpoints db)) (\<lambda>rows.
       Inr (db\<lparr>db_checkpoints := rows\<rparr>)))))"

definition new_effect_row :: "effect_intent \<Rightarrow> payload_columns \<Rightarrow> string \<Rightarrow> string \<Rightarrow> effect_row" where
  "new_effect_row effect payload intent_hash now =
     \<lparr>ew_id = ei_id effect, ew_run = ei_pipeline_run_id effect,
      ew_decision_id = ei_decision_record_id effect, ew_kind = ei_kind effect,
      ew_key = ei_idempotency_key effect, ew_target = ei_target effect, ew_subject = ei_subject effect,
      ew_payload_schema = ei_kind effect, ew_payload = payload, ew_intent_hash = intent_hash,
      ew_status = EffectPending, ew_version = 0, ew_attempt_count = 0, ew_available_at = now,
      ew_lease_id = None, ew_lease_worker = None, ew_lease_expires = None, ew_mode = None,
      ew_dispatch_lease = None, ew_dispatch_worker = None, ew_delivery_id = None,
      ew_unknown_detail = None, ew_last_error = None, ew_created_at = now, ew_updated_at = now\<rparr>"

definition insertEffect :: "store_env \<Rightarrow> effect_intent \<Rightarrow> database \<Rightarrow> database result" where
  "insertEffect env effectInput db =
     bindE (validateEffectIntent (json_of_effect effectInput) ''effect_intent'') (\<lambda>effect.
     case first_row (\<lambda>c. cw_id c = ei_decision_record_id effect) (db_records db) of
       None \<Rightarrow> throwM (''effect '' @ ei_id effect @ '' is not owned by a DecisionRecord in its run'')
     | Some decision \<Rightarrow>
         if cw_kind decision \<noteq> DecisionKind \<or> cw_run decision \<noteq> ei_pipeline_run_id effect
           then throwM (''effect '' @ ei_id effect @ '' is not owned by a DecisionRecord in its run'')
         else
           bindE (payloadInput env (ei_kind effect) (InlineInput (ei_payload effect))) (\<lambda>payload.
           bindE (effectIntentContentHash effect) (\<lambda>intent_hash.
           bindE (insertE effect_schema (new_effect_row effect payload intent_hash (sv_now env)) (db_effects db)) (\<lambda>rows.
           Inr (db\<lparr>db_effects := rows\<rparr>)))))"

definition canceled_row :: "string \<Rightarrow> effect_row \<Rightarrow> effect_row" where
  "canceled_row now e =
     (unleased e)\<lparr>ew_status := EffectCanceled, ew_version := ew_version e + 1, ew_unknown_detail := None,
       ew_updated_at := now\<rparr>"

definition cancelEffect :: "store_env \<Rightarrow> string \<Rightarrow> string \<Rightarrow> database \<Rightarrow> database result" where
  "cancelEffect env effectId run db =
     bindE (updateE effect_schema
         (\<lambda>e. ew_id e = effectId \<and> (ew_run e = run \<and> ew_status e \<in> {EffectPending, EffectProcessing, EffectUnknown}))
         (canceled_row (sv_now env)) (db_effects db)) (\<lambda>(rows, changes).
     if changes \<noteq> 1 then throwM (''effect '' @ effectId @ '' cannot be canceled from its current fence'')
     else Inr (db\<lparr>db_effects := rows\<rparr>))"

section \<open>The projections of a run\<close>

fun frontier_readiness :: "string list \<Rightarrow> string list \<Rightarrow> frontier_member list \<Rightarrow> database \<Rightarrow> database result" where
  "frontier_readiness completed seen [] db = Inr db"
| "frontier_readiness completed seen (member # members) db =
     (if fm_attempt_id member \<in> set seen then throwM ''cursor frontier repeats an attempt identity''
      else
        let unmet = int (length (filter (\<lambda>d. d \<notin> set completed) (fm_depends_on member))) in
        bindE (updateE attempt_schema (\<lambda>a. aw_id a = fm_attempt_id member) (\<lambda>a. a\<lparr>aw_unmet := unmet\<rparr>)
            (db_attempts db)) (\<lambda>(rows, changes).
        if changes \<noteq> 1
          then throwM (''cursor frontier references unknown attempt '' @ fm_attempt_id member)
        else frontier_readiness completed (fm_attempt_id member # seen) members (db\<lparr>db_attempts := rows\<rparr>)))"

definition materializeDependencyReadiness :: "kernel_cursor \<Rightarrow> database \<Rightarrow> database result" where
  "materializeDependencyReadiness cursor = frontier_readiness (cu_completed_scope_keys cursor) [] (cu_frontier cursor)"

definition assertRunProjections :: "kernel_run \<Rightarrow> database \<Rightarrow> unit result" where
  "assertRunProjections expected db =
     (if canonicalJson (json_of_dict json_int (active_attempts (kr_id expected) db)) \<noteq>
           canonicalJson (json_of_dict json_int (kr_active_attempt_versions expected)) \<or>
         canonicalJson (json_of_dict json_int (active_effects (kr_id expected) db)) \<noteq>
           canonicalJson (json_of_dict json_int (kr_active_effect_versions expected)) \<or>
         canonicalJson (json_of_dict JStr (attempt_checkpoints (kr_id expected) db)) \<noteq>
           canonicalJson (json_of_dict JStr (kr_checkpoint_ids expected))
        then throwM ''kernel run projections do not match their typed owner rows''
      else Inr ())"

definition with_run :: "kernel_run \<Rightarrow> run_row \<Rightarrow> run_row" where
  "with_run run row =
     row\<lparr>rw_current_subject := kr_current_subject run, rw_status := kr_status run,
       rw_terminal_outcome := kr_terminal_outcome run, rw_cursor_stage_id := cu_stage_id (kr_cursor run),
       rw_cursor_version := cu_version (kr_cursor run),
       rw_cursor_reentries := canonicalJson (json_of_dict json_int (cu_reentries (kr_cursor run))),
       rw_cursor_frontier := canonicalJson (JArr (map json_of_member (cu_frontier (kr_cursor run)))),
       rw_cursor_completed := canonicalJson (json_strs (cu_completed_scope_keys (kr_cursor run))),
       rw_cursor_barrier := map_option (canonicalJson \<circ> json_of_barrier) (cu_barrier (kr_cursor run)),
       rw_version := kr_version run, rw_work_retry_limit := kr_work_retry_limit run,
       rw_result_correction_limit := kr_result_correction_limit run\<rparr>"

definition updateRun :: "store_env \<Rightarrow> transition_bundle \<Rightarrow> string \<Rightarrow> database \<Rightarrow> (database \<times> nat) result" where
  "updateRun env bundle previousId db =
     bindE (updateE run_schema
         (\<lambda>r. rw_id r = previousId \<and>
            (rw_version r = ex_run_version (tb_expected bundle) \<and>
             rw_cursor_version r = ex_cursor_version (tb_expected bundle)))
         (\<lambda>r. (with_run (tb_run bundle) r)\<lparr>rw_last_transition_id := Some (tb_transition_id bundle),
            rw_last_transition_hash := Some (tb_content_hash bundle), rw_updated_at := sv_now env\<rparr>)
         (db_runs db)) (\<lambda>(rows, changes). Inr (db\<lparr>db_runs := rows\<rparr>, changes))"

definition advanceRunFence ::
  "store_env \<Rightarrow> string \<Rightarrow> string \<Rightarrow> json \<Rightarrow> database \<Rightarrow> (kernel_run \<times> database) result" where
  "advanceRunFence env run transitionId content db =
     bindE (runRow run db) (\<lambda>row.
     bindE (updateE run_schema (\<lambda>r. rw_id r = run \<and> rw_version r = rw_version row)
         (\<lambda>r. r\<lparr>rw_version := rw_version r + 1, rw_last_transition_id := Some transitionId,
            rw_last_transition_hash := Some (digestCanonicalJson content), rw_updated_at := sv_now env\<rparr>)
         (db_runs db)) (\<lambda>(rows, changes).
     if changes \<noteq> 1 then throwM (''pipeline run '' @ run @ '' lease fence compare-and-set failed'')
     else
       let db' = db\<lparr>db_runs := rows\<rparr> in
       bindE (runRow run db') (\<lambda>row'.
       bindE (runFromRow row' db') (\<lambda>r. Inr (r, db')))))"

section \<open>Applying a bundle\<close>

datatype apply_result = Applied int | Replayed int

definition preverifyTransitionBlobs :: "store_env \<Rightarrow> transition_bundle \<Rightarrow> unit result" where
  "preverifyTransitionBlobs env bundle =
     (let preverify = (\<lambda>payload. case payload of
            Inline _ \<Rightarrow> Inr ()
          | Blob blob \<Rightarrow> bindE (blob_verify (sv_volume env) blob) (\<lambda>held.
              bindE (assertToken (sv_volume env) held (Some blob)) (\<lambda>_. Inr ()))) in
      bindE (forE (\<lambda>r. preverify (record_payload_of r)) (tb_append_records bundle)) (\<lambda>_.
      bindE (forE (\<lambda>c. preverify (ck_payload c)) (tb_append_checkpoints bundle)) (\<lambda>_.
      preverifyAttemptBlobs env
        (List.map_filter (\<lambda>w. case w of ReplaceWrite a \<Rightarrow> Some a | TerminalWrite _ _ _ _ \<Rightarrow> None)
           (tb_attempt_writes bundle) @ tb_create_attempts bundle))))"

definition observedState :: "transition_bundle \<Rightarrow> run_row \<Rightarrow> database \<Rightarrow> observed_state" where
  "observedState bundle row db =
     \<lparr>ob_run_id = rw_id row, ob_run_version = rw_version row, ob_cursor_version = rw_cursor_version row,
      ob_attempt_versions = sortedRecord (map (\<lambda>i. (i,
        case first_row (\<lambda>a. aw_id a = i \<and> aw_run a = rw_id row) (db_attempts db) of
          None \<Rightarrow> -1 | Some a \<Rightarrow> aw_version a)) (keys (ex_attempt_versions (tb_expected bundle))))\<rparr>"

definition storedIdentity :: "transition_bundle \<Rightarrow> run_row \<Rightarrow> stored_identity option result" where
  "storedIdentity bundle row =
     (if rw_last_transition_id row = Some (tb_transition_id bundle) then
        bindE (cast ''transition hash'' (rw_last_transition_hash row)) (\<lambda>h.
        Inr (Some \<lparr>si_transition_id = tb_transition_id bundle, si_content_hash = h\<rparr>))
      else Inr None)"

definition replacement_attempts :: "transition_bundle \<Rightarrow> kernel_attempt dict" where
  "replacement_attempts bundle =
     rev (List.map_filter (\<lambda>w. case w of ReplaceWrite a \<Rightarrow> Some (ka_id a, a) | TerminalWrite _ _ _ _ \<Rightarrow> None)
       (tb_attempt_writes bundle))"

definition writeAttempt ::
  "store_env \<Rightarrow> transition_bundle \<Rightarrow> string \<Rightarrow> attempt_write \<Rightarrow> database \<Rightarrow> database result" where
  "writeAttempt env bundle run w db =
     (case w of
        TerminalWrite i expected next_version status \<Rightarrow> terminalAttempt env i expected next_version status run db
      | ReplaceWrite a \<Rightarrow>
          bindE (cast ''attempt fence'' (map_of (ex_attempt_versions (tb_expected bundle)) (ka_id a))) (\<lambda>expected.
          store_replaceAttempt env a expected run db))"

definition writeBundle :: "store_env \<Rightarrow> transition_bundle \<Rightarrow> string \<Rightarrow> database \<Rightarrow> database result" where
  "writeBundle env bundle run db0 =
     bindE (foldE (\<lambda>r. insertRecord env r (replacement_attempts bundle)) (tb_append_records bundle) db0) (\<lambda>db1.
     bindE (foldE (insertCheckpoint env) (tb_append_checkpoints bundle) db1) (\<lambda>db2.
     bindE (foldE (writeAttempt env bundle run) (tb_attempt_writes bundle) db2) (\<lambda>db3.
     bindE (foldE (insertAttempt env) (tb_create_attempts bundle) db3) (\<lambda>db4.
     bindE (foldE (insertEffect env) (tb_put_effects bundle) db4) (\<lambda>db5.
     bindE (foldE (\<lambda>i. cancelEffect env i run) (tb_cancel_effect_ids bundle) db5) (\<lambda>db6.
     materializeDependencyReadiness (kr_cursor (tb_run bundle)) db6))))))"

definition applyAtomicTransition_body ::
  "store_env \<Rightarrow> transition_bundle \<Rightarrow> database \<Rightarrow> (apply_result \<times> database) result" where
  "applyAtomicTransition_body env bundle db =
     bindE (runRow (ex_run_id (tb_expected bundle)) db) (\<lambda>row.
     bindE (storedIdentity bundle row) (\<lambda>existing.
     bindE (transitionApplicationDisposition bundle (observedState bundle row db) existing) (\<lambda>disposition.
     case disposition of
       ReplayTransition \<Rightarrow> Inr (Replayed (rw_version row), db)
     | ApplyTransition \<Rightarrow>
         if kr_pipeline_id (tb_run bundle) \<noteq> rw_pipeline_id row \<or>
            kr_definition_bundle_hash (tb_run bundle) \<noteq> rw_bundle_hash row
           then throwM ''atomic transition cannot change the pinned pipeline or definition bundle''
         else
           bindE (writeBundle env bundle (rw_id row) db) (\<lambda>db1.
           bindE (assertRunProjections (tb_run bundle) db1) (\<lambda>_.
           bindE (updateRun env bundle (rw_id row) db1) (\<lambda>(db2, updated).
           if updated \<noteq> 1 then throwM (''atomic transition '' @ tb_transition_id bundle @ '' compare-and-set failed'')
           else Inr (Applied (kr_version (tb_run bundle)), db2)))))))"

definition applyAtomicTransition ::
  "store_env \<Rightarrow> transition_bundle \<Rightarrow> database \<Rightarrow> (apply_result \<times> database) result" where
  "applyAtomicTransition env bundle db =
     bindE (preverifyTransitionBlobs env bundle) (\<lambda>_.
     transaction foreign_keys (applyAtomicTransition_body env bundle) db)"

section \<open>Reading exact state\<close>

definition materializeExactRecords ::
  "store_env \<Rightarrow> string \<Rightarrow> string list \<Rightarrow> run_status \<Rightarrow> database \<Rightarrow> (execution_record dict) result" where
  "materializeExactRecords env run ids status db =
     (if \<not> distinct ids then throwM ''record allowlist contains duplicate IDs''
      else
        let rows = List.map_filter (\<lambda>i. first_row (\<lambda>c. cw_id c = i \<and> cw_run c = run) (db_records db)) (sort ids) in
        if length rows \<noteq> length ids then throwM ''exact record context is missing an authorized record''
        else
          mapE (\<lambda>row.
            bindE (payloadPointer (cw_payload row)) (\<lambda>pointer.
            bindE (case pointer of
                None \<Rightarrow> Inr ()
              | Some blob \<Rightarrow>
                  bindE (store_readBlob env db run ''record'' (cw_id row) blob (Some status)) (\<lambda>obj.
                  if bp_encoding blob = Utf8 \<and> bp_media_type blob = ''application/json'' then
                    (case map_of (sv_registry env) (cw_payload_schema row) of
                       None \<Rightarrow> throwM (''record payload schema '' @ cw_payload_schema row @ '' is not registered'')
                     | Some (_, parseInline) \<Rightarrow>
                         bindE (parse_persisted (bo_text obj) (''record '' @ cw_id row @ '' blob'')) (\<lambda>v.
                         bindE (parseInline v (''record.'' @ cw_id row @ ''.payload'')) (\<lambda>_. Inr ())))
                  else Inr ())) (\<lambda>_.
            bindE (recordFromRow (sv_registry env) row) (\<lambda>rec. Inr (cw_id row, rec))))) rows)"

definition materializeExactCheckpoints ::
  "store_env \<Rightarrow> string \<Rightarrow> string list \<Rightarrow> run_status \<Rightarrow> database \<Rightarrow> (attempt_checkpoint dict) result" where
  "materializeExactCheckpoints env run ids status db =
     (if \<not> distinct ids then throwM ''checkpoint allowlist contains duplicate IDs''
      else
        let rows = List.map_filter (\<lambda>i. first_row (\<lambda>k. kw_id k = i \<and> kw_run k = run) (db_checkpoints db)) (sort ids) in
        if length rows \<noteq> length ids
          then throwM ''exact checkpoint context is missing an authorized checkpoint''
        else
          mapE (\<lambda>row.
            bindE (payloadPointer (kw_payload row)) (\<lambda>pointer.
            bindE (case pointer of
                None \<Rightarrow> Inr ()
              | Some blob \<Rightarrow>
                  bindE (store_readBlob env db run ''checkpoint'' (kw_id row) blob (Some status)) (\<lambda>_. Inr ())) (\<lambda>_.
            bindE (checkpointFromRow row) (\<lambda>c. Inr (kw_id row, c))))) rows)"

record reduction_view =
  rv_manifest :: compiled_manifest
  rv_run :: kernel_run
  rv_current_attempt :: "kernel_attempt option"
  rv_records :: "execution_record dict"
  rv_checkpoints :: "attempt_checkpoint dict"

definition DEFINITION_BUNDLE_SCHEMA :: string where
  "DEFINITION_BUNDLE_SCHEMA = ''openthrottle.definition-bundle/v1''"

definition loadExactDefinitionBundleBytes :: "store_env \<Rightarrow> string \<Rightarrow> string \<Rightarrow> database \<Rightarrow> (int list) result" where
  "loadExactDefinitionBundleBytes env run bundle_hash db =
     bindE (runRow run db) (\<lambda>row.
     if rw_bundle_hash row \<noteq> bundle_hash
       then throwM ''definition bundle read does not match the pipeline run fence''
     else
       bindE (store_readBlob env db (rw_id row) ''definition_bundle'' (rw_bundle_hash row)
           \<lparr>bp_digest = rw_bundle_hash row, bp_bytes = rw_bundle_bytes row, bp_encoding = Utf8,
            bp_media_type = ''application/json'', bp_payload_schema = DEFINITION_BUNDLE_SCHEMA\<rparr>
           (Some (rw_status row))) (\<lambda>obj. Inr (bo_bytes obj)))"

text \<open>The manifest resolver is an argument: the pipeline, its bundle and the bytes of that bundle.\<close>

definition loadExactReductionView ::
  "store_env \<Rightarrow> (string \<Rightarrow> string \<Rightarrow> int list \<Rightarrow> compiled_manifest result) \<Rightarrow>
   string \<Rightarrow> string option \<Rightarrow> string list \<Rightarrow> string list \<Rightarrow> database \<Rightarrow> reduction_view result" where
  "loadExactReductionView env resolve runId attemptId recordIds checkpointIds db =
     bindE (runRow runId db) (\<lambda>row.
     bindE (runFromRow row db) (\<lambda>run.
     bindE (case attemptId of
         None \<Rightarrow> Inr None
       | Some i \<Rightarrow> bindE (attemptById env i runId db) (\<lambda>a. Inr (Some a))) (\<lambda>currentAttempt.
     bindE (materializeExactRecords env runId recordIds (kr_status run) db) (\<lambda>records.
     bindE (materializeExactCheckpoints env runId checkpointIds (kr_status run) db) (\<lambda>checkpoints.
     bindE (loadExactDefinitionBundleBytes env (kr_id run) (kr_definition_bundle_hash run) db) (\<lambda>bytes.
     bindE (resolve (kr_pipeline_id run) (kr_definition_bundle_hash run) bytes) (\<lambda>manifest.
     if cm_pipeline_id manifest \<noteq> kr_pipeline_id run \<or>
        cm_definition_bundle_hash manifest \<noteq> kr_definition_bundle_hash run
       then throwM ''manifest resolver returned another pinned pipeline''
     else Inr \<lparr>rv_manifest = manifest, rv_run = run, rv_current_attempt = currentAttempt,
       rv_records = records, rv_checkpoints = checkpoints\<rparr>)))))))"

section \<open>The host of the leases\<close>

definition store_host :: "store_env \<Rightarrow> lease_host" where
  "store_host env =
     \<lparr>lh_advance = advanceRunFence env,
      lh_insert = \<lambda>rec. insertRecord env rec [],
      lh_read = \<lambda>run ownerId pointer. bindE (blob_read (sv_volume env) pointer) (\<lambda>obj. Inr (bo_text obj)),
      lh_attempt = attemptById env\<rparr>"

end
