(* ===== verification/EffectLeaseFacts.thy ===== *)
theory EffectLeaseFacts
  imports EffectLeases
begin

text \<open>
  What the operations on effect leases do to the rows of the table: each of them moves every effect along a
  small machine whose dispatch fence is written once and never changes.  The facts are proved from the laws
  that the operations expect of the store.
\<close>

section \<open>The dispatch machine\<close>

type_synonym fence_state = "(string \<times> string) option"

datatype dispatch_phase =
    Waiting (phase_fence: fence_state)
  | Leased "string option" "string option" (phase_fence: fence_state)
  | Closed (phase_fence: fence_state)

inductive dispatch_step :: "dispatch_phase \<Rightarrow> dispatch_phase \<Rightarrow> bool" where
  lease: "dispatch_step (Waiting f) (Leased l w f)"
| dispatch: "dispatch_step (Leased (Some l) (Some w) None) (Leased (Some l) (Some w) (Some (l, w)))"
| release: "dispatch_step (Leased l w f) (Waiting f)"
| settle: "dispatch_step (Leased l w f) (Closed f)"
| close: "dispatch_step (Waiting f) (Closed f)"

inductive_cases dispatch_stepE: "dispatch_step p q"

definition effect_fence :: "effect_row \<Rightarrow> fence_state" where
  "effect_fence e = both (ew_dispatch_lease e) (ew_dispatch_worker e)"

definition phase_of :: "effect_row \<Rightarrow> dispatch_phase" where
  "phase_of e =
     (if ew_status e \<in> {EffectPending, EffectUnknown} then Waiting (effect_fence e)
      else if ew_status e = EffectProcessing then Leased (ew_lease_id e) (ew_lease_worker e) (effect_fence e)
      else Closed (effect_fence e))"

lemma phase_fence_of [simp]: "phase_fence (phase_of e) = effect_fence e"
  by (simp add: phase_of_def)

lemma fence_written_once: "dispatch_step\<^sup>*\<^sup>* p q \<Longrightarrow> phase_fence p = Some f \<Longrightarrow> phase_fence q = Some f"
  by (induction rule: rtranclp_induct) (auto elim!: dispatch_stepE)

lemma closed_is_final: "dispatch_step\<^sup>*\<^sup>* p q \<Longrightarrow> p = Closed f \<Longrightarrow> q = Closed f"
  by (induction rule: rtranclp_induct) (auto elim!: dispatch_stepE)

text \<open>The columns that say what the effect is.\<close>

definition same_intent :: "effect_row \<Rightarrow> effect_row \<Rightarrow> bool" where
  "same_intent e e' \<longleftrightarrow>
     ew_id e' = ew_id e \<and> ew_run e' = ew_run e \<and> ew_decision_id e' = ew_decision_id e \<and>
     ew_kind e' = ew_kind e \<and> ew_key e' = ew_key e \<and> ew_target e' = ew_target e \<and>
     ew_subject e' = ew_subject e \<and> ew_payload_schema e' = ew_payload_schema e \<and>
     ew_payload e' = ew_payload e \<and> ew_intent_hash e' = ew_intent_hash e"

definition effect_moves :: "effect_row \<Rightarrow> effect_row \<Rightarrow> bool" where
  "effect_moves e e' \<longleftrightarrow> same_intent e e' \<and> dispatch_step\<^sup>*\<^sup>* (phase_of e) (phase_of e') \<and> ew_version e \<le> ew_version e'"

lemma effect_moves_refl [simp]: "effect_moves e e"
  by (simp add: effect_moves_def same_intent_def)

lemma effect_moves_trans: "effect_moves a b \<Longrightarrow> effect_moves b c \<Longrightarrow> effect_moves a c"
  by (auto simp: effect_moves_def same_intent_def)

lemma effect_movesI:
  assumes "same_intent e e'" and "dispatch_step (phase_of e) (phase_of e')" and "ew_version e \<le> ew_version e'"
  shows "effect_moves e e'"
  using assms by (simp add: effect_moves_def)

section \<open>The invariant of the table\<close>

text \<open>
  The mode of a lease says whether the effect has been dispatched, and a pending effect has not been.  The
  constraint of the schema that means the second is never false on a pending row, whose mode is \<open>NULL\<close>.
\<close>

definition dispatch_known :: "effect_row \<Rightarrow> bool" where
  "dispatch_known e \<longleftrightarrow>
     (ew_mode e = Some DispatchOrReconcile \<longrightarrow> ew_dispatch_lease e = None) \<and>
     (ew_mode e = Some ReconcileOnly \<longrightarrow> ew_dispatch_lease e \<noteq> None) \<and>
     (ew_dispatch_lease e \<noteq> None \<longrightarrow> ew_status e \<noteq> EffectPending)"

definition effects_ok :: "effect_row list \<Rightarrow> bool" where
  "effects_ok rows \<longleftrightarrow> effect_unique rows \<and> list_all effect_check rows \<and> list_all dispatch_known rows"

lemma effects_okD:
  assumes "effects_ok rows"
  shows "distinct (map ew_id rows)" "e \<in> set rows \<Longrightarrow> effect_check e" "e \<in> set rows \<Longrightarrow> dispatch_known e"
  using assms by (auto simp: effects_ok_def effect_unique_def list_all_iff)

definition effects_move :: "effect_row list \<Rightarrow> effect_row list \<Rightarrow> bool" where
  "effects_move rows rows' \<longleftrightarrow> list_all2 effect_moves rows rows'"

lemma effects_move_refl [simp]: "effects_move rows rows"
  by (simp add: effects_move_def list.rel_refl)

lemma effects_move_trans: "effects_move a b \<Longrightarrow> effects_move b c \<Longrightarrow> effects_move a c"
  unfolding effects_move_def by (rule list_all2_trans [OF effect_moves_trans])

lemma checked_fence: "effect_check e \<Longrightarrow> effect_fence e = None \<longleftrightarrow> ew_dispatch_lease e = None"
  by (cases "ew_dispatch_lease e"; cases "ew_dispatch_worker e") (auto simp: effect_check_def effect_fence_def)

text \<open>One statement on one row.\<close>

lemma effect_statement:
  assumes "updateE effect_schema (\<lambda>e. ew_id e = ew_id row \<and> C e) f rows = Inr (rows', n)"
    and ok: "effects_ok rows" and row: "row \<in> set rows"
    and same: "\<And>e. same_intent e (f e) \<and> ew_version e \<le> ew_version (f e)"
    and step: "C row \<Longrightarrow> effect_check row \<Longrightarrow> dispatch_known row \<Longrightarrow> effect_check (f row) \<Longrightarrow>
      dispatch_step (phase_of row) (phase_of (f row)) \<and> dispatch_known (f row)"
  shows "effects_ok rows' \<and> effects_move rows rows' \<and> (\<forall>e \<in> set rows. ew_id e \<noteq> ew_id row \<longrightarrow> e \<in> set rows')"
proof -
  let ?P = "\<lambda>e. ew_id e = ew_id row \<and> C e"
  from assms(1) have rows': "rows' = updated_rows ?P f rows" "effect_unique rows'"
    and check: "\<And>e. e \<in> set rows \<Longrightarrow> ?P e \<Longrightarrow> effect_check (f e)"
    by (auto simp: updateE_ok effect_schema_def)
  have only: "e = row" if "e \<in> set rows" "?P e" for e
    using by_key [OF effects_okD(1) [OF ok] row that(1)] that(2) by simp
  have moved: "dispatch_step (phase_of e) (phase_of (f e)) \<and> dispatch_known (f e)" if "e \<in> set rows" "?P e" for e
    using only [OF that] that step effects_okD(2,3) [OF ok row] check [OF that] by auto
  have "effect_check e' \<and> dispatch_known e'" if "e' \<in> set rows'" for e'
    using that effects_okD(2,3) [OF ok] check moved by (auto simp: rows'(1) in_updated_rows split: if_splits)
  moreover have "effects_move rows rows'"
    unfolding effects_move_def rows'(1) updated_rows_def list.rel_map
    using moved same by (intro list.rel_refl_strong) (auto intro: effect_movesI)
  moreover have "e \<in> set rows'" if "e \<in> set rows" "ew_id e \<noteq> ew_id row" for e
    using that by (auto simp: rows'(1) in_updated_rows intro!: bexI [of _ e])
  ultimately show ?thesis using rows'(2) by (auto simp: effects_ok_def list_all_iff)
qed

lemma no_duplicates_eq:
  assumes "no_duplicates column rows" and "r \<in> set rows" and "r' \<in> set rows" and "column r = Some k" and "column r' = Some k"
  shows "r = r'"
  using by_key [of "the \<circ> column" "filter (\<lambda>r. column r \<noteq> None) rows" r' r] assms
  by (simp add: no_duplicates_def)

section \<open>The laws of the host\<close>

text \<open>
  What the operations expect of the store that constructs them: advancing the fence of a run changes that
  run alone, and raises its version by one; inserting a record touches neither effects nor runs.
\<close>

definition bumped :: "string \<Rightarrow> run_row list \<Rightarrow> run_row list \<Rightarrow> bool" where
  "bumped run rows rows' \<longleftrightarrow>
     run \<in> rw_id ` set rows \<and>
     list_all2 (\<lambda>r r'. rw_id r' = rw_id r \<and> rw_status r' = rw_status r \<and>
       rw_version r' = rw_version r + (if rw_id r = run then 1 else 0)) rows rows'"

lemmas row_defs = same_intent_def unleased_def phase_of_def effect_fence_def dispatch_known_def leased_by_def
  recovered_effect_def leased_effect_row_def dispatched_row_def held_row_def delivered_row_def

text \<open>Runs move forward: the same runs, with versions that never fall.\<close>

definition runs_advance :: "run_row list \<Rightarrow> run_row list \<Rightarrow> bool" where
  "runs_advance rows rows' \<longleftrightarrow>
     list_all2 (\<lambda>r r'. rw_id r' = rw_id r \<and> rw_version r \<le> rw_version r') rows rows'"

lemma runs_advance_refl [simp]: "runs_advance rows rows"
  by (simp add: runs_advance_def list.rel_refl)

lemma runs_advance_trans: "runs_advance a b \<Longrightarrow> runs_advance b c \<Longrightarrow> runs_advance a c"
  unfolding runs_advance_def by (rule list_all2_trans) auto

lemma bumped_advance: "bumped run rows rows' \<Longrightarrow> runs_advance rows rows'"
  by (auto simp: bumped_def runs_advance_def elim!: list_all2_mono)

lemma runs_advance_ids: "runs_advance rows rows' \<Longrightarrow> map rw_id rows' = map rw_id rows"
  unfolding runs_advance_def by (induction rule: list_all2_induct) auto

locale effect_host =
  fixes host :: lease_host
  assumes advance_law: "lh_advance host run t c db = Inr (r, db') \<Longrightarrow>
      db_effects db' = db_effects db \<and> db_records db' = db_records db \<and> bumped run (db_runs db) (db_runs db')"
    and insert_law: "lh_insert host rec db = Inr db' \<Longrightarrow> db_effects db' = db_effects db \<and> db_runs db' = db_runs db"
begin

lemma recovered_move:
  assumes "recoverExpiredEffect host now row db = Inr db'"
    and ok: "effects_ok (db_effects db)" and row: "row \<in> set (db_effects db)"
  shows "effects_ok (db_effects db') \<and> effects_move (db_effects db) (db_effects db') \<and>
    (\<forall>e \<in> set (db_effects db). ew_id e \<noteq> ew_id row \<longrightarrow> e \<in> set (db_effects db'))"
proof -
  let ?prior = "if ew_kind row = ''github/provider-wait@1'' \<or> ew_dispatch_lease row \<noteq> None then ew_last_error row else None"
  from assms(1) obtain effects where
    u: "updateE effect_schema
          (\<lambda>e. ew_id e = ew_id row \<and> (ew_version e = ew_version row \<and> ew_status e = EffectProcessing \<and>
             ew_lease_id e \<noteq> None \<and> ew_lease_id e = ew_lease_id row \<and> expired_lease now e))
          (recovered_effect now ?prior (ew_dispatch_lease row \<noteq> None)) (db_effects db) = Inr (effects, 1)"
    and a: "db_effects db' = effects"
    unfolding recoverExpiredEffect_def Let_def compare_and_set bindE_snd_ok
    by (auto dest!: advance_law)
  show ?thesis unfolding a
    by (rule effect_statement [OF u ok row]) (auto simp: row_defs intro: release)
qed

lemma recovered_rows_move:
  assumes "foldE (recoverExpiredEffect host now) rows db = Inr db'" and "effects_ok (db_effects db)"
    and "set rows \<subseteq> set (db_effects db)" and "distinct (map ew_id rows)"
  shows "effects_ok (db_effects db') \<and> effects_move (db_effects db) (db_effects db') \<and>
    (\<forall>e \<in> set (db_effects db). ew_id e \<notin> ew_id ` set rows \<longrightarrow> e \<in> set (db_effects db'))"
  using assms
proof (induction rows arbitrary: db)
  case (Cons row rows)
  from Cons.prems(1) obtain db1 where db1: "recoverExpiredEffect host now row db = Inr db1"
    "foldE (recoverExpiredEffect host now) rows db1 = Inr db'" by (auto simp: run_ok)
  have "row \<in> set (db_effects db)" using Cons.prems(3) by simp
  note m = recovered_move [OF db1(1) Cons.prems(2) this]
  have "set rows \<subseteq> set (db_effects db1)"
  proof
    fix e assume e: "e \<in> set rows"
    with Cons.prems(3,4) have "e \<in> set (db_effects db)" "ew_id e \<noteq> ew_id row" by (auto simp: rev_image_eqI)
    with m show "e \<in> set (db_effects db1)" by simp
  qed
  with Cons.IH [OF db1(2)] m Cons.prems(3,4) show ?case by (auto intro: effects_move_trans)
qed simp

lemma distinct_selection:
  assumes "effects_ok rows"
  shows "set (take n (ordered_rows k P rows)) \<subseteq> set rows" "distinct (map ew_id (take n (ordered_rows k P rows)))"
proof -
  show "set (take n (ordered_rows k P rows)) \<subseteq> set rows"
    by (rule subset_trans [OF set_take_subset]) (auto simp: ordered_rows_def)
  have "distinct (map ew_id (sort_key k (filter P rows)))"
    using effects_okD(1) [OF assms] distinct_map_filter [of ew_id rows P]
    by (metis distinct_map distinct_sort set_sort)
  then show "distinct (map ew_id (take n (ordered_rows k P rows)))"
    by (simp add: ordered_rows_def take_map [symmetric])
qed

lemma recovery_moves:
  assumes "recoverExpiredEffectLeases host now db = Inr db'" and ok: "effects_ok (db_effects db)"
  shows "effects_ok (db_effects db') \<and> effects_move (db_effects db) (db_effects db') \<and>
    (\<forall>e \<in> set (db_effects db). \<not> expired_lease now e \<longrightarrow> e \<in> set (db_effects db'))"
proof -
  let ?P = "\<lambda>e. ew_status e = EffectProcessing \<and> ew_lease_id e \<noteq> None \<and> expired_lease now e"
  let ?rows = "take EXPIRED_EFFECT_RECOVERY_BATCH_SIZE (ordered_rows (\<lambda>e. (ew_run e, ew_id e)) ?P (db_effects db))"
  note s = distinct_selection [OF ok]
  have "ew_id e \<notin> ew_id ` set ?rows" if "e \<in> set (db_effects db)" "\<not> expired_lease now e" for e
  proof
    assume "ew_id e \<in> ew_id ` set ?rows"
    then obtain r where r: "r \<in> set ?rows" "ew_id e = ew_id r" by auto
    have "r = e" by (rule by_key [OF effects_okD(1) [OF ok] that(1) subsetD [OF s(1) r(1)]]) (simp add: r(2))
    with r(1) that(2) show False by (auto simp: ordered_rows_def dest: in_set_takeD)
  qed
  then show ?thesis
    using recovered_rows_move [OF assms(1) [unfolded recoverExpiredEffectLeases_def] ok s] by blast
qed

lemma leasing_moves:
  assumes "leaseNextEffect host now request db = Inr (view, db')" and ok: "effects_ok (db_effects db)"
  shows "effects_ok (db_effects db') \<and> effects_move (db_effects db) (db_effects db')"
proof -
  from assms(1) have body: "leaseNextEffect_body host now request db = Inr (view, db')"
    by (simp add: leaseNextEffect_def transaction_ok)
  then obtain db1 where r: "recoverExpiredEffectLeases host now db = Inr db1"
    by (auto simp: leaseNextEffect_body_def bindE_eq_Inr)
  note m = recovery_moves [OF r ok]
  show ?thesis
  proof (cases "first_row (\<lambda>e. ew_lease_id e = Some (er_lease_id request)) (db_effects db1)")
    case (Some e)
    with body r m show ?thesis by (auto simp: leaseNextEffect_body_def run_ok)
  next
    case None
    show ?thesis
    proof (cases "ordered_rows (\<lambda>e. (ew_available_at e, ew_id e)) (effect_is_due db1 now) (db_effects db1)")
      case Nil
      with None body r m show ?thesis by (simp add: leaseNextEffect_body_def)
    next
      case (Cons row rest)
      then have "row \<in> set (ordered_rows (\<lambda>e. (ew_available_at e, ew_id e)) (effect_is_due db1 now) (db_effects db1))"
        by simp
      then have row: "row \<in> set (db_effects db1)" by (simp add: ordered_rows_def)
      let ?mode = "if ew_dispatch_lease row \<noteq> None then ReconcileOnly else DispatchOrReconcile"
      from body r None Cons obtain effects where
        u: "updateE effect_schema
              (\<lambda>e. ew_id e = ew_id row \<and> (ew_version e = ew_version row \<and> ew_lease_id e = None \<and>
                 ew_status e \<in> {EffectPending, EffectUnknown}))
              (leased_effect_row now request ?mode) (db_effects db1) = Inr (effects, 1)"
        and a: "db_effects db' = effects"
        unfolding leaseNextEffect_body_def Let_def compare_and_set bindE_snd_ok
        by (auto simp: bindE_snd_ok bindE_eq_Inr dest!: advance_law split: if_splits)
      have "effects_ok effects \<and> effects_move (db_effects db1) effects \<and>
          (\<forall>e \<in> set (db_effects db1). ew_id e \<noteq> ew_id row \<longrightarrow> e \<in> set effects)"
        by (rule effect_statement [OF u _ row]) (use m in \<open>auto simp: row_defs intro: lease\<close>)
      with m a show ?thesis by (auto intro: effects_move_trans)
    qed
  qed
qed

lemma dispatch_moves:
  assumes "markLeasedEffectDispatchStarted host now effectId lease worker db = Inr (view, db')"
    and ok: "effects_ok (db_effects db)"
  shows "effects_ok (db_effects db') \<and> effects_move (db_effects db) (db_effects db')"
proof -
  from assms(1) obtain row mode expires where
    row: "first_row (\<lambda>e. ew_id e = effectId) (db_effects db) = Some row" "ew_mode row = Some mode"
    "ew_lease_expires row = Some expires" "leased_by lease worker row"
    and body: "markLeasedEffectDispatchStarted_body host now effectId lease worker db = Inr (view, db')"
    by (auto simp: markLeasedEffectDispatchStarted_def markLeasedEffectDispatchStarted_body_def transaction_ok
        split: option.splits if_splits)
  note r = first_row_Some [OF row(1)]
  show ?thesis
  proof (cases "mode = DispatchOrReconcile")
    case True
    with body row obtain effects where
      u: "updateE effect_schema
            (\<lambda>e. ew_id e = ew_id row \<and> (ew_version e = ew_version row \<and> leased_by lease worker e \<and>
               ew_mode e = Some DispatchOrReconcile))
            (dispatched_row now lease worker) (db_effects db) = Inr (effects, 1)"
      and a: "db_effects db' = effects"
      by (auto simp: markLeasedEffectDispatchStarted_body_def bindE_eq_Inr bindE_snd_ok dest!: advance_law
          split: if_splits)
    show ?thesis unfolding a
      using effect_statement [OF u ok conjunct1 [OF r]] by (auto simp: row_defs effect_check_def intro: dispatch)
  next
    case False
    with body row ok show ?thesis
      by (auto simp: markLeasedEffectDispatchStarted_body_def bindE_eq_Inr)
  qed
qed

lemma completing_moves:
  assumes "completeLeasedEffect host now effectId lease worker reconciliation db = Inr (u, db')"
    and ok: "effects_ok (db_effects db)"
  shows "effects_ok (db_effects db') \<and> effects_move (db_effects db) (db_effects db')"
proof -
  let ?own = "\<lambda>row e. ew_id e = ew_id row \<and> (ew_version e = ew_version row \<and> leased_by lease worker e)"
  from assms(1) obtain row f effects where
    row: "first_row (\<lambda>e. ew_id e = effectId) (db_effects db) = Some row"
    and u: "updateE effect_schema (?own row) f (db_effects db) = Inr (effects, 1)"
    and a: "db_effects db' = effects"
    and f: "(\<exists>detail retryAt. f = held_row now detail retryAt) \<or> (\<exists>delivery. f = delivered_row now delivery)"
    unfolding completeLeasedEffect_def completeLeasedEffect_body_def Let_def transaction_ok
    by (auto simp: bindE_eq_Inr bindE_snd_ok compare_and_set dest!: advance_law insert_law
        split: option.splits if_splits effect_reconciliation.splits) blast+
  note r = first_row_Some [OF row]
  have "effects_ok effects \<and> effects_move (db_effects db) effects \<and>
      (\<forall>e \<in> set (db_effects db). ew_id e \<noteq> ew_id row \<longrightarrow> e \<in> set effects)"
    by (rule effect_statement [OF u ok conjunct1 [OF r]]) (use f in \<open>auto simp: row_defs intro: release settle split: if_splits\<close>)
  with a show ?thesis by simp
qed

lemma recovery_runs:
  assumes "recoverExpiredEffectLeases host now db = Inr db'"
  shows "runs_advance (db_runs db) (db_runs db')"
  using assms unfolding recoverExpiredEffectLeases_def
  by (rule foldE_invariant [where I = "\<lambda>s. runs_advance (db_runs db) (db_runs s)"])
    (auto simp: recoverExpiredEffect_def Let_def bindE_eq_Inr dest!: advance_law bumped_advance
      intro: runs_advance_trans split: if_splits)

lemma leasing_runs:
  assumes "leaseNextEffect host now request db = Inr (view, db')"
  shows "runs_advance (db_runs db) (db_runs db')"
proof -
  from assms have body: "leaseNextEffect_body host now request db = Inr (view, db')"
    by (simp add: leaseNextEffect_def transaction_ok)
  then obtain db1 where r: "recoverExpiredEffectLeases host now db = Inr db1"
    by (auto simp: leaseNextEffect_body_def bindE_eq_Inr)
  from body r have "runs_advance (db_runs db1) (db_runs db')"
    by (auto simp: leaseNextEffect_body_def Let_def bindE_eq_Inr dest!: advance_law bumped_advance
        split: option.splits list.splits if_splits)
  with recovery_runs [OF r] show ?thesis by (rule runs_advance_trans)
qed

lemma dispatch_runs:
  assumes "markLeasedEffectDispatchStarted host now effectId lease worker db = Inr (view, db')"
  shows "runs_advance (db_runs db) (db_runs db')"
  using assms
  by (auto simp: markLeasedEffectDispatchStarted_def markLeasedEffectDispatchStarted_body_def transaction_ok
      bindE_eq_Inr dest!: advance_law bumped_advance split: option.splits if_splits)

lemma completing_runs:
  assumes "completeLeasedEffect host now effectId lease worker reconciliation db = Inr (u, db')"
  shows "\<exists>run. bumped run (db_runs db) (db_runs db')"
  using assms
  by (auto simp: completeLeasedEffect_def completeLeasedEffect_body_def transaction_ok Let_def
      bindE_eq_Inr dest!: advance_law insert_law split: option.splits if_splits effect_reconciliation.splits)

section \<open>What a worker sees\<close>

lemma intent_of_same:
  assumes "same_intent e e'"
  shows "effectIntentFromRow h e' = effectIntentFromRow h e"
proof -
  from assms have s: "ew_id e' = ew_id e" "ew_run e' = ew_run e" "ew_decision_id e' = ew_decision_id e"
    "ew_kind e' = ew_kind e" "ew_key e' = ew_key e" "ew_target e' = ew_target e" "ew_subject e' = ew_subject e"
    "ew_payload e' = ew_payload e" by (simp_all add: same_intent_def)
  show ?thesis unfolding effectIntentFromRow_def s by (rule refl)
qed

lemma intent_of_leased [simp]:
  "effectIntentFromRow h (leased_effect_row now request mode e) = effectIntentFromRow h e"
  "dispatch_fence (leased_effect_row now request mode e) = dispatch_fence e"
  by (rule intent_of_same, simp add: leased_effect_row_def same_intent_def)
    (cases "ew_dispatch_lease e"; simp add: leased_effect_row_def dispatch_fence_def)

text \<open>The view that a worker gets is the one that its lease in the table gives when it is read again.\<close>

lemma leased_view:
  assumes "leaseNextEffect host now request db = Inr (Some view, db')" and ok: "effects_ok (db_effects db)"
  shows "\<exists>e \<in> set (db_effects db'). ew_lease_id e = Some (er_lease_id request) \<and>
    replayed_effect host request e = Inr view"
proof -
  from assms(1) have body: "leaseNextEffect_body host now request db = Inr (Some view, db')"
    by (simp add: leaseNextEffect_def transaction_ok)
  then obtain db1 where r: "recoverExpiredEffectLeases host now db = Inr db1"
    by (auto simp: leaseNextEffect_body_def bindE_eq_Inr)
  show ?thesis
  proof (cases "first_row (\<lambda>e. ew_lease_id e = Some (er_lease_id request)) (db_effects db1)")
    case (Some e)
    with body r first_row_Some [OF Some] show ?thesis by (auto simp: leaseNextEffect_body_def bindE_eq_Inr)
  next
    case None
    then obtain row rest where
      o: "ordered_rows (\<lambda>e. (ew_available_at e, ew_id e)) (effect_is_due db1 now) (db_effects db1) = row # rest"
      using body r by (auto simp: leaseNextEffect_body_def split: list.splits)
    let ?mode = "if ew_dispatch_lease row \<noteq> None then ReconcileOnly else DispatchOrReconcile"
    let ?e = "leased_effect_row now request ?mode row"
    have row: "row \<in> set (db_effects db1)" "ew_lease_id row = None" "ew_status row \<in> {EffectPending, EffectUnknown}"
      using o by (auto simp: ordered_rows_def effect_is_due_def dest!: arg_cong [where f = set])
    from body r None o obtain effects intent fence where
      u: "updateE effect_schema
            (\<lambda>e. ew_id e = ew_id row \<and> ew_version e = ew_version row \<and> ew_lease_id e = None \<and>
               ew_status e \<in> {EffectPending, EffectUnknown})
            (leased_effect_row now request ?mode) (db_effects db1) = Inr (effects, 1)"
      and a: "db_effects db' = effects"
      and v: "effectIntentFromRow host row = Inr intent" "dispatch_fence row = Inr fence"
        "view = \<lparr>lf_intent = intent, lf_lease_id = er_lease_id request, lf_expires_at = er_expires_at request,
           lf_mode = ?mode, lf_ordinal = ew_attempt_count row + 1, lf_prior_detail = ew_unknown_detail row,
           lf_dispatch_fence = fence\<rparr>"
      unfolding leaseNextEffect_body_def Let_def
      by (auto simp: bindE_snd_ok bindE_eq_Inr dest!: advance_law split: if_splits)
    have "?e \<in> set effects"
      using u row by (force simp: updateE_ok in_updated_rows)
    moreover have "replayed_effect host request ?e = Inr view"
      using v by (simp add: replayed_effect_def)
        (simp add: leased_effect_row_def cast_def)
    ultimately show ?thesis using a by (intro bexI [of _ ?e]) (simp_all add: leased_effect_row_def)
  qed
qed

text \<open>Asking again for the same lease before it expires gives the same view, and no second effect.\<close>

lemma lease_again:
  assumes "leaseNextEffect host now request db = Inr (Some view, db')" and ok: "effects_ok (db_effects db)"
    and again: "leaseNextEffect host now' request db' = Inr (view', db'')"
    and "now' < er_expires_at request"
  shows "view' = Some view"
proof -
  from leased_view [OF assms(1) ok] obtain e where
    e: "e \<in> set (db_effects db')" "ew_lease_id e = Some (er_lease_id request)" "replayed_effect host request e = Inr view" by blast
  from e(3) have x: "ew_lease_expires e = Some (er_expires_at request)" by (auto simp: replayed_effect_def split: if_splits)
  note ok' = conjunct1 [OF leasing_moves [OF assms(1) ok]]
  from again have body: "leaseNextEffect_body host now' request db' = Inr (view', db'')"
    by (simp add: leaseNextEffect_def transaction_ok)
  then obtain db1 where r: "recoverExpiredEffectLeases host now' db' = Inr db1"
    by (auto simp: leaseNextEffect_body_def bindE_eq_Inr)
  have kept: "e \<in> set (db_effects db1)"
    using recovery_moves [OF r ok'] e(1) x assms(4) by (auto simp: expired_lease_def)
  have "first_row (\<lambda>e. ew_lease_id e = Some (er_lease_id request)) (db_effects db1) = Some e"
  proof (rule first_row_unique)
    show "e \<in> set (db_effects db1)" by (rule kept)
    show "ew_lease_id e = Some (er_lease_id request)" by (rule e(2))
    fix e' assume e': "e' \<in> set (db_effects db1)" "ew_lease_id e' = Some (er_lease_id request)"
    from recovery_moves [OF r ok'] have "no_duplicates ew_lease_id (db_effects db1)"
      by (auto simp: effects_ok_def effect_unique_def)
    then show "e' = e" by (rule no_duplicates_eq [OF _ e'(1) kept]) (simp_all add: e(2) e'(2))
  qed
  with body r e(3) show ?thesis by (simp add: leaseNextEffect_body_def)
qed

end

end
