(* ===== verification/StoreFacts.thy ===== *)
theory StoreFacts
  imports KernelTransactions EffectLeaseFacts
begin

text \<open>
  What the operations of the store change: every write touches one table, runs and effects only move
  forward, and the store obeys the laws that the lease operations expect of it.
\<close>

section \<open>One table at a time\<close>

lemma insertRecord_tables:
  "insertRecord env r owners db = Inr db' \<Longrightarrow>
     db_effects db' = db_effects db \<and> db_runs db' = db_runs db \<and> db_attempts db' = db_attempts db \<and>
     db_checkpoints db' = db_checkpoints db"
  by (auto simp: insertRecord_def bindE_eq_Inr)

lemma insertCheckpoint_tables:
  "insertCheckpoint env c db = Inr db' \<Longrightarrow>
     db_effects db' = db_effects db \<and> db_runs db' = db_runs db \<and> db_attempts db' = db_attempts db \<and>
     db_records db' = db_records db"
  by (auto simp: insertCheckpoint_def bindE_eq_Inr Let_def split: if_splits)

definition only_attempts :: "database \<Rightarrow> database \<Rightarrow> bool" where
  "only_attempts db db' \<longleftrightarrow>
     db_effects db' = db_effects db \<and> db_runs db' = db_runs db \<and> db_records db' = db_records db \<and>
     db_checkpoints db' = db_checkpoints db"

lemma insertAttempt_tables: "insertAttempt env a db = Inr db' \<Longrightarrow> only_attempts db db'"
  by (auto simp: insertAttempt_def bindE_eq_Inr only_attempts_def)

lemma writeAttempt_tables: "writeAttempt env b run w db = Inr db' \<Longrightarrow> only_attempts db db'"
  by (cases w) (auto simp: writeAttempt_def terminalAttempt_def store_replaceAttempt_def bindE_eq_Inr
      only_attempts_def split: if_splits option.splits)

lemma frontier_readiness_tables:
  "frontier_readiness completed seen members db = Inr db' \<Longrightarrow> only_attempts db db'"
proof (induction completed seen members db rule: frontier_readiness.induct)
  case (1 completed seen db)
  then show ?case by (simp add: only_attempts_def)
next
  case (2 completed seen m members db)
  then show ?case by (fastforce simp: bindE_eq_Inr Let_def only_attempts_def split: if_splits)
qed

lemma insertEffect_tables:
  assumes "insertEffect env i db = Inr db'"
  obtains e where "db_effects db' = db_effects db @ [e]" "ew_status e = EffectPending" "effect_fence e = None"
    "ew_mode e = None" "ew_dispatch_lease e = None" "ew_version e = 0" "effect_check e" "effect_unique (db_effects db')"
    "db_runs db' = db_runs db" "db_attempts db' = db_attempts db" "db_records db' = db_records db"
proof -
  from assms obtain effect payload h where
    "db_effects db' = db_effects db @ [new_effect_row effect payload h (sv_now env)]"
    "effect_check (new_effect_row effect payload h (sv_now env))" "effect_unique (db_effects db')"
    "db_runs db' = db_runs db" "db_attempts db' = db_attempts db" "db_records db' = db_records db"
    by (auto simp: insertEffect_def bindE_eq_Inr insertE_ok effect_schema_def split: option.split_asm if_split_asm)
  then show thesis by (intro that [of "new_effect_row effect payload h (sv_now env)"])
      (simp_all add: new_effect_row_def effect_fence_def)
qed

section \<open>Effects move forward\<close>

definition effects_evolve :: "effect_row list \<Rightarrow> effect_row list \<Rightarrow> bool" where
  "effects_evolve rows rows' \<longleftrightarrow> (\<exists>old fresh. rows' = old @ fresh \<and> effects_move rows old)"

lemma effects_evolve_move: "effects_move rows rows' \<Longrightarrow> effects_evolve rows rows'"
  by (auto simp: effects_evolve_def)

lemma effects_evolve_refl [simp]: "effects_evolve rows rows"
  by (simp add: effects_evolve_move)

lemma effects_evolve_trans:
  assumes "effects_evolve a b" and "effects_evolve b c"
  shows "effects_evolve a c"
proof -
  from assms obtain old fresh old' fresh' where b: "b = old @ fresh" "effects_move a old"
    and c: "c = old' @ fresh'" "effects_move (old @ fresh) old'" by (auto simp: effects_evolve_def)
  from c(2) obtain o1 o2 where o: "old' = o1 @ o2" "effects_move old o1"
    by (auto simp: effects_move_def list_all2_append1)
  with b c have "c = o1 @ (o2 @ fresh')" "effects_move a o1" by (auto intro: effects_move_trans)
  then show ?thesis by (auto simp: effects_evolve_def)
qed

lemma effects_evolve_row:
  assumes "effects_evolve rows rows'" and "e \<in> set rows"
  shows "\<exists>e' \<in> set rows'. effect_moves e e'"
proof -
  from assms(1) obtain old fresh where o: "rows' = old @ fresh" "list_all2 effect_moves rows old"
    by (auto simp: effects_evolve_def effects_move_def)
  from assms(2) obtain k where "k < length rows" "e = rows ! k" by (auto simp: in_set_conv_nth)
  with o(2) have "old ! k \<in> set old \<and> effect_moves e (old ! k)" by (auto simp: list_all2_conv_all_nth)
  with o(1) show ?thesis by auto
qed

definition effects_advance :: "database \<Rightarrow> database \<Rightarrow> bool" where
  "effects_advance db db' \<longleftrightarrow>
     (effects_ok (db_effects db) \<longrightarrow> effects_ok (db_effects db') \<and> effects_evolve (db_effects db) (db_effects db'))"

lemma effects_advance_same: "db_effects db' = db_effects db \<Longrightarrow> effects_advance db db'"
  by (simp add: effects_advance_def)

lemma effects_advance_trans: "effects_advance a b \<Longrightarrow> effects_advance b c \<Longrightarrow> effects_advance a c"
  by (auto simp: effects_advance_def intro: effects_evolve_trans)

lemma insertEffect_advance:
  assumes "insertEffect env i db = Inr db'"
  shows "effects_advance db db'"
  using assms
proof (rule insertEffect_tables)
  fix e assume e: "db_effects db' = db_effects db @ [e]" "ew_mode e = None" "ew_dispatch_lease e = None" "effect_check e"
    "effect_unique (db_effects db')"
  have "effects_evolve (db_effects db) (db_effects db @ [e])"
    unfolding effects_evolve_def by (intro exI conjI) (rule refl, rule effects_move_refl)
  with e show ?thesis by (auto simp: effects_advance_def effects_ok_def dispatch_known_def)
qed

lemma cancelEffect_advance:
  assumes "cancelEffect env i run db = Inr db'"
  shows "effects_advance db db'"
proof -
  from assms obtain rows where
    u: "updateE effect_schema
          (\<lambda>e. ew_id e = i \<and> (ew_run e = run \<and> ew_status e \<in> {EffectPending, EffectProcessing, EffectUnknown}))
          (canceled_row (sv_now env)) (db_effects db) = Inr (rows, 1)"
    and db': "db' = db\<lparr>db_effects := rows\<rparr>"
    unfolding cancelEffect_def compare_and_set by auto
  show ?thesis
    unfolding effects_advance_def
  proof
    assume ok: "effects_ok (db_effects db)"
    from u have n: "length (filter (\<lambda>e. ew_id e = i \<and>
        (ew_run e = run \<and> ew_status e \<in> {EffectPending, EffectProcessing, EffectUnknown})) (db_effects db)) = 1"
      by (simp add: updateE_ok)
    from one_row_changed [OF effects_okD(1) [OF ok] this] obtain row where
      row: "row \<in> set (db_effects db)" "ew_id row = i"
        "ew_run row = run \<and> ew_status row \<in> {EffectPending, EffectProcessing, EffectUnknown}" by blast
    have "effects_ok rows \<and> effects_move (db_effects db) rows \<and>
        (\<forall>e \<in> set (db_effects db). ew_id e \<noteq> ew_id row \<longrightarrow> e \<in> set rows)"
      by (rule effect_statement [OF u [folded row(2)] ok row(1)])
        (auto simp: row_defs canceled_row_def intro: close settle)
    with db' show "effects_ok (db_effects db') \<and> effects_evolve (db_effects db) (db_effects db')"
      by (simp add: effects_evolve_move)
  qed
qed

lemma foldE_advance:
  assumes "foldE f xs db = Inr db'" and "\<And>x db db'. f x db = Inr db' \<Longrightarrow> effects_advance db db'"
  shows "effects_advance db db'"
  by (rule foldE_invariant [OF assms(1), where I = "effects_advance db"])
    (auto intro: effects_advance_same effects_advance_trans assms(2))

lemma writeBundle_advance:
  assumes "writeBundle env b run db = Inr db'"
  shows "effects_advance db db'"
proof -
  from assms obtain db1 db2 db3 db4 db5 db6 where
    s: "foldE (\<lambda>r. insertRecord env r (replacement_attempts b)) (tb_append_records b) db = Inr db1"
    "foldE (insertCheckpoint env) (tb_append_checkpoints b) db1 = Inr db2"
    "foldE (writeAttempt env b run) (tb_attempt_writes b) db2 = Inr db3"
    "foldE (insertAttempt env) (tb_create_attempts b) db3 = Inr db4"
    "foldE (insertEffect env) (tb_put_effects b) db4 = Inr db5"
    "foldE (\<lambda>i. cancelEffect env i run) (tb_cancel_effect_ids b) db5 = Inr db6"
    "materializeDependencyReadiness (kr_cursor (tb_run b)) db6 = Inr db'"
    by (auto simp: writeBundle_def bindE_eq_Inr)
  have "effects_advance db db1"
    by (rule foldE_advance [OF s(1)], rule effects_advance_same) (simp add: insertRecord_tables)
  moreover have "effects_advance db1 db2"
    by (rule foldE_advance [OF s(2)], rule effects_advance_same) (simp add: insertCheckpoint_tables)
  moreover have "effects_advance db2 db3"
    by (rule foldE_advance [OF s(3)], rule effects_advance_same, drule writeAttempt_tables) (simp add: only_attempts_def)
  moreover have "effects_advance db3 db4"
    by (rule foldE_advance [OF s(4)], rule effects_advance_same, drule insertAttempt_tables) (simp add: only_attempts_def)
  moreover have "effects_advance db4 db5" by (rule foldE_advance [OF s(5)]) (rule insertEffect_advance)
  moreover have "effects_advance db5 db6" by (rule foldE_advance [OF s(6)]) (rule cancelEffect_advance)
  moreover have "effects_advance db6 db'"
    using frontier_readiness_tables [OF s(7) [unfolded materializeDependencyReadiness_def]]
    by (intro effects_advance_same) (simp add: only_attempts_def)
  ultimately show ?thesis by (meson effects_advance_trans)
qed

end
