(* ===== verification/Paging.thy ===== *)
theory Paging
  imports SqlTables
begin

text \<open>
  Reading a table in pages: \<open>ORDER BY\<close> a key, \<open>LIMIT\<close> a page size, each page after the last key of the one
  before.  Two loops use it, one that looks for the first acceptable row and one that collects rows up to a
  bound.  Both are compared with the same search over all rows in order.
\<close>

section \<open>Searching\<close>

fun findE :: "('r \<Rightarrow> bool result) \<Rightarrow> 'r list \<Rightarrow> 'r option result" where
  "findE P [] = Inr None"
| "findE P (r # rows) = bindE (P r) (\<lambda>b. if b then Inr (Some r) else findE P rows)"

fun filterE :: "('r \<Rightarrow> bool result) \<Rightarrow> 'r list \<Rightarrow> 'r list result" where
  "filterE P [] = Inr []"
| "filterE P (r # rows) = bindE (P r) (\<lambda>b. bindE (filterE P rows) (\<lambda>rest. Inr (if b then r # rest else rest)))"

section \<open>Pages\<close>

definition after_key :: "('r \<Rightarrow> 'k::linorder) \<Rightarrow> 'k option \<Rightarrow> 'r \<Rightarrow> bool" where
  "after_key key bound r \<longleftrightarrow> (case bound of None \<Rightarrow> True | Some k \<Rightarrow> k < key r)"

definition page_of :: "('r \<Rightarrow> 'k::linorder) \<Rightarrow> nat \<Rightarrow> ('r \<Rightarrow> bool) \<Rightarrow> 'k option \<Rightarrow> 'r list \<Rightarrow> 'r list" where
  "page_of key full eligible bound rows =
     take full (ordered_rows key (\<lambda>r. eligible r \<and> after_key key bound r) rows)"

lemma page_of_last:
  assumes "page_of key full eligible bound rows \<noteq> []"
  shows "last (page_of key full eligible bound rows) \<in> set rows"
    "after_key key bound (last (page_of key full eligible bound rows))"
    "eligible (last (page_of key full eligible bound rows))"
proof -
  from assms have "last (page_of key full eligible bound rows) \<in> set (page_of key full eligible bound rows)" by simp
  then have "last (page_of key full eligible bound rows) \<in>
      set (ordered_rows key (\<lambda>r. eligible r \<and> after_key key bound r) rows)"
    unfolding page_of_def by (rule in_set_takeD)
  then show "last (page_of key full eligible bound rows) \<in> set rows"
    "after_key key bound (last (page_of key full eligible bound rows))"
    "eligible (last (page_of key full eligible bound rows))" by (auto simp: ordered_rows_def)
qed

lemma after_key_decreases:
  assumes "r \<in> set rows" and "eligible r" and "after_key key bound r"
  shows "length (filter (\<lambda>x. eligible x \<and> after_key key (Some (key r)) x) rows) <
    length (filter (\<lambda>x. eligible x \<and> after_key key bound x) rows)"
proof -
  have "filter (\<lambda>x. eligible x \<and> after_key key (Some (key r)) x) rows =
      filter (\<lambda>x. key r < key x) (filter (\<lambda>x. eligible x \<and> after_key key bound x) rows)"
    using assms(3) by (auto simp: after_key_def conj_ac split: option.splits intro!: filter_cong)
  moreover have "r \<in> set (filter (\<lambda>x. eligible x \<and> after_key key bound x) rows)" using assms by simp
  then have "length (filter (\<lambda>x. key r < key x) (filter (\<lambda>x. eligible x \<and> after_key key bound x) rows)) <
      length (filter (\<lambda>x. eligible x \<and> after_key key bound x) rows)"
    by (rule length_filter_less) simp
  ultimately show ?thesis by simp
qed

text \<open>The page size is positive; a page that is not full is the last one.\<close>

function scan_pages ::
  "('r \<Rightarrow> 'k::linorder) \<Rightarrow> nat \<Rightarrow> ('r \<Rightarrow> bool) \<Rightarrow> ('r \<Rightarrow> bool result) \<Rightarrow> 'r list \<Rightarrow> 'k option \<Rightarrow> 'r option result" where
  "scan_pages key full eligible accepts rows bound =
     (let page = page_of key full eligible bound rows in
      bindE (findE accepts page) (\<lambda>found.
      if found \<noteq> None \<or> length page < full \<or> page = [] then Inr found
      else scan_pages key full eligible accepts rows (Some (key (last page)))))"
  by pat_completeness auto
termination
proof (relation "measure (\<lambda>(key, full, eligible, accepts, rows, bound).
    length (filter (\<lambda>r. eligible r \<and> after_key key bound r) rows))", goal_cases)
  case (2 key full eligible accepts rows bound page found)
  then have "page \<noteq> []" by simp
  from page_of_last [OF this [unfolded 2(1)]] 2(1) show ?case by (simp add: after_key_decreases)
qed simp

function collect_pages ::
  "('r \<Rightarrow> 'k::linorder) \<Rightarrow> nat \<Rightarrow> ('r \<Rightarrow> bool) \<Rightarrow> ('r \<Rightarrow> bool) \<Rightarrow> nat \<Rightarrow> 'r list \<Rightarrow> 'r list \<Rightarrow> 'k option \<Rightarrow> 'r list" where
  "collect_pages key full eligible keep limit rows acc bound =
     (if limit \<le> length acc then acc
      else
        let page = page_of key full eligible bound rows;
            acc' = acc @ take (limit - length acc) (filter keep page) in
        if length page < full \<or> page = [] \<or> length acc' = limit then acc'
        else collect_pages key full eligible keep limit rows acc' (Some (key (last page))))"
  by pat_completeness auto
termination
proof (relation "measure (\<lambda>(key, full, eligible, keep, limit, rows, acc, bound).
    length (filter (\<lambda>r. eligible r \<and> after_key key bound r) rows))", goal_cases)
  case (2 key full eligible keep limit rows acc bound page acc')
  then have "page \<noteq> []" by simp
  from page_of_last [OF this [unfolded 2(2)]] 2(2) show ?case by (simp add: after_key_decreases)
qed simp

declare scan_pages.simps [simp del] collect_pages.simps [simp del]

section \<open>Pages are the whole table\<close>

lemma findE_append: "findE P (xs @ ys) = bindE (findE P xs) (\<lambda>r. if r = None then findE P ys else Inr r)"
proof (induction xs)
  case (Cons x xs)
  then show ?case by (cases "P x") auto
qed simp

lemma later_part:
  assumes "sorted_wrt (<) (map key (ys @ zs))" and "ys \<noteq> []"
  shows "filter (\<lambda>r. (key (last ys) :: 'k::linorder) < key r) (ys @ zs) = zs"
proof -
  from assms(2) obtain us u where ys: "ys = us @ [u]" by (metis rev_exhaust)
  have "filter (\<lambda>r. key u < key r) (us @ [u]) = []"
    using assms(1) by (auto simp: ys sorted_wrt_append filter_empty_conv)
  moreover have "filter (\<lambda>r. key u < key r) zs = zs"
    using assms(1) by (auto simp: ys sorted_wrt_append filter_id_conv)
  ultimately show ?thesis by (simp add: ys)
qed

lemma rest_of_page:
  assumes d: "distinct (map key rows)" and p: "page_of key full eligible bound rows \<noteq> []"
  shows "ordered_rows key (\<lambda>r. eligible r \<and> after_key key bound r) rows =
    page_of key full eligible bound rows @
    ordered_rows key (\<lambda>r. eligible r \<and> after_key key (Some (key (last (page_of key full eligible bound rows)))) r) rows"
proof -
  let ?P = "\<lambda>r. eligible r \<and> after_key key bound r"
  let ?xs = "ordered_rows key ?P rows" and ?page = "page_of key full eligible bound rows"
  let ?k = "key (last ?page)"
  have xs: "?page @ drop full ?xs = ?xs" by (simp add: page_of_def)
  have "distinct (map key (filter ?P rows))" by (rule distinct_map_filter [OF d])
  then have "distinct (map key ?xs)" by (simp add: ordered_rows_def distinct_map)
  then have "sorted_wrt (<) (map key (?page @ drop full ?xs))"
    unfolding xs strict_sorted_iff by (simp add: ordered_rows_def)
  from later_part [OF this p] have "drop full ?xs = filter (\<lambda>r. ?k < key r) ?xs" by (simp add: xs)
  also have "\<dots> = sort_key key (filter (\<lambda>r. ?k < key r) (filter ?P rows))"
    by (simp add: ordered_rows_def filter_sort)
  also have "filter (\<lambda>r. ?k < key r) (filter ?P rows) = filter (\<lambda>r. eligible r \<and> after_key key (Some ?k) r) rows"
    using page_of_last(2) [OF p] by (auto simp: after_key_def split: option.splits intro!: filter_cong)
  finally show ?thesis using xs by (simp add: ordered_rows_def)
qed

lemma last_page:
  assumes "length (page_of key full eligible bound rows) < full"
  shows "page_of key full eligible bound rows = ordered_rows key (\<lambda>r. eligible r \<and> after_key key bound r) rows"
  using assms by (simp add: page_of_def)

lemma empty_page:
  assumes "page_of key full eligible bound rows = []" and "0 < full"
  shows "ordered_rows key (\<lambda>r. eligible r \<and> after_key key bound r) rows = []"
  using assms by (simp add: page_of_def)

theorem scan_pages_eq:
  assumes "distinct (map key rows)" and "0 < full"
  shows "scan_pages key full eligible accepts rows bound =
    findE accepts (ordered_rows key (\<lambda>r. eligible r \<and> after_key key bound r) rows)"
  using assms
proof (induction key full eligible accepts rows bound rule: scan_pages.induct)
  case (1 key full eligible accepts rows bound)
  let ?page = "page_of key full eligible bound rows"
  show ?case
  proof (cases "?page = [] \<or> length ?page < full")
    case True
    with 1(3) have "?page = ordered_rows key (\<lambda>r. eligible r \<and> after_key key bound r) rows"
      using empty_page [of key full eligible bound rows] last_page [of key full eligible bound rows] by auto
    with True show ?thesis
      by (subst scan_pages.simps) (cases "findE accepts ?page"; auto simp: Let_def)
  next
    case False
    then have IH: "scan_pages key full eligible accepts rows (Some (key (last ?page))) =
        findE accepts (ordered_rows key (\<lambda>r. eligible r \<and> after_key key (Some (key (last ?page))) r) rows)"
      if "findE accepts ?page = Inr None"
      using 1(1) [OF refl, of None] 1(2,3) that by simp
    from False show ?thesis
      unfolding rest_of_page [OF 1(2), of full eligible bound, OF conjunct1 [OF False [unfolded de_Morgan_disj]]] findE_append
      by (subst scan_pages.simps) (cases "findE accepts ?page"; simp add: Let_def IH)
  qed
qed

theorem collect_pages_eq:
  assumes "distinct (map key rows)" and "0 < full"
  shows "collect_pages key full eligible keep limit rows acc bound =
    acc @ take (limit - length acc) (filter keep (ordered_rows key (\<lambda>r. eligible r \<and> after_key key bound r) rows))"
  using assms
proof (induction key full eligible keep limit rows acc bound rule: collect_pages.induct)
  case (1 key full eligible keep limit rows acc bound)
  let ?page = "page_of key full eligible bound rows"
  let ?acc = "acc @ take (limit - length acc) (filter keep ?page)"
  show ?case
  proof (cases "limit \<le> length acc")
    case True
    then show ?thesis by (subst collect_pages.simps) simp
  next
    case less: False
    show ?thesis
    proof (cases "?page = [] \<or> length ?page < full")
      case True
      with 1(3) have "?page = ordered_rows key (\<lambda>r. eligible r \<and> after_key key bound r) rows"
        using empty_page [of key full eligible bound rows] last_page [of key full eligible bound rows] by auto
      with True less show ?thesis by (subst collect_pages.simps) (auto simp: Let_def)
    next
      case False
      note rest = rest_of_page [OF 1(2), of full eligible bound, OF conjunct1 [OF False [unfolded de_Morgan_disj]]]
      show ?thesis
      proof (cases "length ?acc = limit")
        case True
        with less False show ?thesis unfolding rest
          by (subst collect_pages.simps) (auto simp: Let_def)
      next
        case more: False
        then have short: "length (filter keep ?page) < limit - length acc" using less by auto
        from False more less 1 have "collect_pages key full eligible keep limit rows ?acc (Some (key (last ?page))) =
            ?acc @ take (limit - length ?acc) (filter keep
              (ordered_rows key (\<lambda>r. eligible r \<and> after_key key (Some (key (last ?page))) r) rows))"
          by simp
        with False more less short show ?thesis unfolding rest
          by (subst collect_pages.simps) (auto simp: Let_def)
      qed
    qed
  qed
qed

end
