(* ===== verification/AttemptLeases.thy ===== *)
theory AttemptLeases
  imports EffectLeases RuntimeResource Paging
begin

text \<open>
  Leases on attempts: the attempt half of \<open>persistence/kernel-store-leases.ts\<close>.  A worker leases the next
  eligible attempt when the width of the executor, the resources of the provider and the other claims of
  the run allow it; it renews its lease; and an expired lease is recovered under a new generation.  The
  snapshot of the manifests is an argument: for each definition bundle of an active run what scheduling
  needs of its manifest.
\<close>

section \<open>Configuration and snapshot\<close>

definition ATTEMPT_SCHEDULING_BATCH_SIZE :: nat where
  "ATTEMPT_SCHEDULING_BATCH_SIZE = 100"

record lease_config =
  lc_width :: int
  lc_max :: int
  lc_capacity :: int

definition lease_configuration :: "bool \<Rightarrow> int \<Rightarrow> int \<Rightarrow> lease_config result" where
  "lease_configuration frozen maxConcurrent width =
     (if \<not> frozen \<or> \<not> isSafeInteger maxConcurrent \<or> maxConcurrent < 1 \<or>
         maxConcurrent > MAX_KERNEL_RUNTIME_POOL_SIZE
        then throwM (''Attempt lease policy must be frozen between 1 and '' @ string_of_int MAX_KERNEL_RUNTIME_POOL_SIZE)
      else if \<not> isSafeInteger width \<or> width < 1
        then throwM ''Attempt execution width must be a positive integer''
      else Inr \<lparr>lc_width = width, lc_max = maxConcurrent, lc_capacity = max width maxConcurrent\<rparr>)"

record lease_scheduling =
  ls_pipeline_id :: string
  ls_pool_size :: int
  ls_widths :: "int dict"

datatype manifest_scheduling =
    ValidManifest lease_scheduling
  | InvalidManifest "string option" string bool
      \<comment> \<open>\<open>pipeline_id\<close>, \<open>reason\<close>, \<open>retryable\<close>\<close>

type_synonym scheduling_snapshot = "manifest_scheduling dict"

record attempt_lease_request =
  ar_worker_id :: string
  ar_lease_id :: string
  ar_expires_at :: string

record leased_attempt =
  la_run_id :: string
  la_run_version :: int
  la_cursor_version :: int
  la_attempt :: kernel_attempt
  la_lease :: attempt_lease

section \<open>Claims\<close>

text \<open>
  \<open>#attemptScheduling\<close>: the second argument is the pinned pipeline and bundle of the run, which only the
  rows of the scheduling query carry.
\<close>

definition attemptScheduling ::
  "lease_config \<Rightarrow> scheduling_snapshot \<Rightarrow> (string \<times> string) option \<Rightarrow> attempt_row \<Rightarrow> lease_scheduling option" where
  "attemptScheduling cfg snapshot pinned row =
     (case map_of snapshot (aw_bundle_hash row) of
        Some (ValidManifest s) \<Rightarrow>
          if \<not> isSafeInteger (ls_pool_size s) \<or> ls_pool_size s < 1 \<or> ls_pool_size s > lc_max cfg \<or>
             ls_pool_size s > MAX_KERNEL_RUNTIME_POOL_SIZE then None
          else (case pinned of
              None \<Rightarrow> Some s
            | Some (pipeline, bundle) \<Rightarrow>
                if aw_bundle_hash row \<noteq> bundle \<or> ls_pipeline_id s \<noteq> pipeline then None else Some s)
      | _ \<Rightarrow> None)"

definition stage_width :: "lease_scheduling \<Rightarrow> string \<Rightarrow> int" where
  "stage_width s stage = (case map_of (ls_widths s) stage of None \<Rightarrow> 1 | Some w \<Rightarrow> w)"

definition isParallelInspect :: "attempt_row \<Rightarrow> lease_scheduling \<Rightarrow> bool" where
  "isParallelInspect row s \<longleftrightarrow>
     aw_authority row = InspectAuthority \<and> aw_scope_kind row \<in> {LoopItemKind, FanoutMemberKind} \<and>
     stage_width s (aw_stage_id row) > 1 \<and> aw_scope_index row \<noteq> None"

text \<open>The slot depends on the kind of the scope and on the index of the member alone.\<close>

definition slotIndex :: "attempt_row \<Rightarrow> lease_scheduling \<Rightarrow> int result" where
  "slotIndex row s =
     (let parent = (case aw_parent row of Some p \<Rightarrow> p | None \<Rightarrow> []);
          g = (case aw_scope_group row of Some g \<Rightarrow> g | None \<Rightarrow> []);
          item = (case aw_scope_item row of Some i \<Rightarrow> i | None \<Rightarrow> []) in
      case (aw_scope_kind row, aw_scope_index row) of
        (StageKind, _) \<Rightarrow> kernelRuntimeResourceSlotIndex (StageScope (aw_stage_id row)) (ls_pool_size s)
      | (_, None) \<Rightarrow> throwR InvalidMemberIndex
      | (LoopItemKind, Some n) \<Rightarrow>
          kernelRuntimeResourceSlotIndex (LoopItemScope (aw_stage_id row) parent g item n) (ls_pool_size s)
      | (FanoutMemberKind, Some n) \<Rightarrow>
          kernelRuntimeResourceSlotIndex (FanoutMemberScope (aw_stage_id row) parent g item n) (ls_pool_size s))"

definition sameParallelCohort :: "attempt_row \<Rightarrow> attempt_row \<Rightarrow> bool" where
  "sameParallelCohort left right \<longleftrightarrow>
     aw_scope_kind left = aw_scope_kind right \<and> aw_stage_id left = aw_stage_id right \<and>
     aw_parent left = aw_parent right \<and> aw_scope_group left = aw_scope_group right \<and>
     aw_bundle_hash left = aw_bundle_hash right \<and> aw_input_subject left = aw_input_subject right"

definition is_claim :: "attempt_row \<Rightarrow> bool" where
  "is_claim a \<longleftrightarrow> aw_lease_id a \<noteq> None \<or> aw_status a \<in> {ResultPending, WorkComplete}"

definition claimRows :: "string \<Rightarrow> database \<Rightarrow> attempt_row list" where
  "claimRows run db = ordered_rows aw_id (\<lambda>a. aw_run a = run \<and> is_claim a) (db_attempts db)"

text \<open>
  Two schedulings of one snapshot are the same object exactly when they belong to the same bundle.
\<close>

fun claim_slots ::
  "lease_config \<Rightarrow> scheduling_snapshot \<Rightarrow> attempt_row \<Rightarrow> int list \<Rightarrow> attempt_row list \<Rightarrow> bool result" where
  "claim_slots cfg snapshot first seen [] = Inr True"
| "claim_slots cfg snapshot first seen (claim # claims) =
     (case attemptScheduling cfg snapshot None claim of
        None \<Rightarrow> Inr False
      | Some s \<Rightarrow>
          if aw_bundle_hash claim \<noteq> aw_bundle_hash first \<or> \<not> isParallelInspect claim s \<or>
             \<not> sameParallelCohort first claim then Inr False
          else bindE (slotIndex claim s) (\<lambda>slot.
            if slot \<in> set seen then Inr False
            else claim_slots cfg snapshot first (slot # seen) claims))"

definition claimSetIsValid ::
  "lease_config \<Rightarrow> scheduling_snapshot \<Rightarrow> attempt_row list \<Rightarrow> bool result" where
  "claimSetIsValid cfg snapshot claims =
     (case claims of
        [] \<Rightarrow> Inr True
      | [_] \<Rightarrow> Inr True
      | first # _ \<Rightarrow>
          (case attemptScheduling cfg snapshot None first of
             None \<Rightarrow> Inr False
           | Some s \<Rightarrow>
               if \<not> isParallelInspect first s then Inr False
               else if int (length claims) > stage_width s (aw_stage_id first) then Inr False
               else claim_slots cfg snapshot first [] claims))"

fun all_other_slots ::
  "lease_config \<Rightarrow> scheduling_snapshot \<Rightarrow> attempt_row \<Rightarrow> int \<Rightarrow> attempt_row list \<Rightarrow> bool result" where
  "all_other_slots cfg snapshot candidate slot [] = Inr True"
| "all_other_slots cfg snapshot candidate slot (claim # claims) =
     (case attemptScheduling cfg snapshot None claim of
        None \<Rightarrow> Inr False
      | Some s \<Rightarrow>
          if aw_bundle_hash claim \<noteq> aw_bundle_hash candidate \<or> \<not> isParallelInspect claim s \<or>
             \<not> sameParallelCohort candidate claim then Inr False
          else bindE (slotIndex claim s) (\<lambda>other.
            if other = slot then Inr False else all_other_slots cfg snapshot candidate slot claims))"

definition candidateCanShareItsRun ::
  "lease_config \<Rightarrow> scheduling_snapshot \<Rightarrow> string \<times> string \<Rightarrow> attempt_row \<Rightarrow> database \<Rightarrow> bool result" where
  "candidateCanShareItsRun cfg snapshot pinned candidate db =
     (let claims = claimRows (aw_run candidate) db in
      bindE (claimSetIsValid cfg snapshot claims) (\<lambda>valid.
      if \<not> valid then Inr False
      else
        let others = filter (\<lambda>c. aw_id c \<noteq> aw_id candidate) claims in
        if others = [] then Inr True
        else case attemptScheduling cfg snapshot (Some pinned) candidate of
          None \<Rightarrow> Inr False
        | Some s \<Rightarrow>
            if \<not> isParallelInspect candidate s then Inr False
            else if int (length others) + 1 > stage_width s (aw_stage_id candidate) then Inr False
            else bindE (slotIndex candidate s) (\<lambda>slot. all_other_slots cfg snapshot candidate slot others)))"

section \<open>Resources\<close>

definition live_create :: "effect_row list \<Rightarrow> effect_row \<Rightarrow> bool" where
  "live_create effects e \<longleftrightarrow>
     ew_kind e = ''daytona/create-sandbox@1'' \<and>
     ew_status e \<in> {EffectPending, EffectProcessing, EffectUnknown, EffectAcknowledged} \<and>
     \<not> list_ex (\<lambda>c. ew_run c = ew_run e \<and> ew_kind c = ''daytona/cleanup-sandbox@1'' \<and>
         ew_target c = ew_target e \<and> ew_status c = EffectAcknowledged) effects"

definition created_sandboxes :: "database \<Rightarrow> string \<Rightarrow> int" where
  "created_sandboxes db run =
     (if run_is_active db run
        then int (length (filter (\<lambda>e. ew_run e = run \<and> live_create (db_effects db) e) (db_effects db)))
      else 0)"

definition claimed_pool :: "lease_config \<Rightarrow> scheduling_snapshot \<Rightarrow> database \<Rightarrow> string \<Rightarrow> int option" where
  "claimed_pool cfg snapshot db run =
     (case first_row (\<lambda>r. rw_id r = run) (db_runs db) of
        None \<Rightarrow> None
      | Some r \<Rightarrow>
          if \<not> active_run_status (rw_status r) \<or> \<not> list_ex (\<lambda>a. aw_run a = run \<and> is_claim a) (db_attempts db) then None
          else (case map_of snapshot (rw_bundle_hash r) of
              Some (ValidManifest s) \<Rightarrow> if ls_pool_size s > lc_max cfg then None else Some (ls_pool_size s)
            | _ \<Rightarrow> None))"

text \<open>
  The entries of the map that \<open>#resourceReservations\<close> builds: a run that is in neither query has no entry,
  which reads as 0 wherever the map is used.
\<close>

definition reserved_slots :: "lease_config \<Rightarrow> scheduling_snapshot \<Rightarrow> database \<Rightarrow> string \<Rightarrow> int" where
  "reserved_slots cfg snapshot db run =
     (case claimed_pool cfg snapshot db run of
        None \<Rightarrow> created_sandboxes db run
      | Some n \<Rightarrow> max (created_sandboxes db run) n)"

definition resourceReservations :: "lease_config \<Rightarrow> scheduling_snapshot \<Rightarrow> database \<Rightarrow> int dict" where
  "resourceReservations cfg snapshot db =
     map (\<lambda>r. (rw_id r, reserved_slots cfg snapshot db (rw_id r))) (db_runs db)"

definition total_reserved :: "int dict \<Rightarrow> int" where
  "total_reserved reservations = sum_list (map snd reservations)"

section \<open>Leasing\<close>

definition assertSchedulingSnapshotCoverage :: "scheduling_snapshot \<Rightarrow> database \<Rightarrow> unit result" where
  "assertSchedulingSnapshotCoverage snapshot db =
     forE (\<lambda>r. if map_of snapshot (rw_bundle_hash r) = None
         then Inl (StaleSnapshot (''missing exact manifest for run '' @ rw_id r)) else Inr ())
       (ordered_rows rw_id (\<lambda>r. active_run_status (rw_status r)) (db_runs db))"

definition attempt_view :: "lease_host \<Rightarrow> attempt_row \<Rightarrow> int \<Rightarrow> int \<Rightarrow> database \<Rightarrow> leased_attempt result" where
  "attempt_view host row run_version cursor_version db =
     bindE (lh_attempt host (aw_id row) (aw_run row) db) (\<lambda>attempt.
     bindE (cast ''attempt lease'' (ka_lease attempt)) (\<lambda>lease.
     Inr \<lparr>la_run_id = aw_run row, la_run_version = run_version, la_cursor_version = cursor_version,
       la_attempt = attempt, la_lease = lease\<rparr>))"

definition replayAttemptLease ::
  "lease_host \<Rightarrow> attempt_lease_request \<Rightarrow> database \<Rightarrow> leased_attempt option result" where
  "replayAttemptLease host request db =
     (case first_row (\<lambda>a. aw_lease_id a = Some (ar_lease_id request)) (db_attempts db) of
        None \<Rightarrow> Inr None
      | Some row \<Rightarrow>
          (case first_row (\<lambda>r. rw_id r = aw_run row) (db_runs db) of
             None \<Rightarrow> Inr None
           | Some r \<Rightarrow>
               if aw_lease_worker row \<noteq> Some (ar_worker_id request) \<or>
                  aw_lease_expires row \<noteq> Some (ar_expires_at request)
                 then throwM (''attempt lease '' @ ar_lease_id request @ '' conflicts with its immutable replay'')
               else bindE (attempt_view host row (rw_version r) (rw_cursor_version r) db) (\<lambda>view. Inr (Some view))))"

definition is_schedulable :: "database \<Rightarrow> attempt_row \<Rightarrow> bool" where
  "is_schedulable db a \<longleftrightarrow>
     run_is_active db (aw_run a) \<and> aw_status a \<in> {Pending, ResultPending} \<and> aw_unmet a = 0 \<and> aw_lease_id a = None"

definition candidate_accepted ::
  "lease_config \<Rightarrow> scheduling_snapshot \<Rightarrow> database \<Rightarrow> attempt_row \<Rightarrow> bool result" where
  "candidate_accepted cfg snapshot db candidate =
     (case first_row (\<lambda>r. rw_id r = aw_run candidate) (db_runs db) of
        None \<Rightarrow> Inr False
      | Some r \<Rightarrow>
          let pinned = (rw_pipeline_id r, rw_bundle_hash r); reservations = resourceReservations cfg snapshot db in
          (case attemptScheduling cfg snapshot (Some pinned) candidate of
             None \<Rightarrow> Inr False
           | Some s \<Rightarrow>
               bindE (candidateCanShareItsRun cfg snapshot pinned candidate db) (\<lambda>shares.
               if \<not> shares then Inr False
               else
                 let existing = (case map_of reservations (aw_run candidate) of None \<Rightarrow> 0 | Some n \<Rightarrow> n);
                     additional = max 0 (ls_pool_size s - existing) in
                 Inr (total_reserved reservations + additional \<le> lc_capacity cfg))))"

definition leased_attempt_row ::
  "string \<Rightarrow> attempt_lease_request \<Rightarrow> lease_purpose \<Rightarrow> attempt_row \<Rightarrow> attempt_row" where
  "leased_attempt_row now request purpose a =
     a\<lparr>aw_lease_id := Some (ar_lease_id request), aw_lease_worker := Some (ar_worker_id request),
       aw_lease_purpose := Some purpose, aw_lease_expires := Some (ar_expires_at request),
       aw_lease_generation := Some 0, aw_lease_started := Some 0, aw_version := aw_version a + 1,
       aw_correction_count := aw_correction_count a + (if purpose = CorrectionLease then 1 else 0),
       aw_updated_at := now\<rparr>"

definition live_leases :: "database \<Rightarrow> int" where
  "live_leases db = int (length (filter (\<lambda>a. aw_lease_id a \<noteq> None) (db_attempts db)))"

text \<open>Leasing the row that the scan has found.\<close>

definition leaseAttempt ::
  "lease_host \<Rightarrow> string \<Rightarrow> attempt_lease_request \<Rightarrow> attempt_row \<Rightarrow> database \<Rightarrow> (leased_attempt \<times> database) result" where
  "leaseAttempt host now request row db =
     (let purpose = (if aw_status row = ResultPending then CorrectionLease else WorkLease) in
      bindE (updateE attempt_schema
          (\<lambda>a. aw_id a = aw_id row \<and> (aw_run a = aw_run row \<and> aw_version a = aw_version row \<and>
             aw_lease_id a = None \<and> aw_unmet a = 0))
          (leased_attempt_row now request purpose) (db_attempts db)) (\<lambda>(rows, changes).
      if changes \<noteq> 1 then throwM (''attempt '' @ aw_id row @ '' lease compare-and-set failed'')
      else
        bindE (lh_advance host (aw_run row) (''attempt-lease:'' @ ar_lease_id request)
            (JObj [(''attempt_id'', JStr (aw_id row)), (''lease_id'', JStr (ar_lease_id request)),
               (''generation'', json_int 0), (''worker_id'', JStr (ar_worker_id request)),
               (''expires_at'', JStr (ar_expires_at request))])
            (db\<lparr>db_attempts := rows\<rparr>)) (\<lambda>(run, db').
        bindE (attempt_view host row (kr_version run) (cu_version (kr_cursor run)) db') (\<lambda>view.
        Inr (view, db')))))"

definition leaseNextEligibleAttempt_body ::
  "lease_host \<Rightarrow> lease_config \<Rightarrow> string \<Rightarrow> attempt_lease_request \<Rightarrow> scheduling_snapshot \<Rightarrow> database \<Rightarrow>
   (leased_attempt option \<times> database) result" where
  "leaseNextEligibleAttempt_body host cfg now request snapshot db =
     bindE (replayAttemptLease host request db) (\<lambda>replay.
     if replay \<noteq> None then Inr (replay, db)
     else
       bindE (assertSchedulingSnapshotCoverage snapshot db) (\<lambda>_.
       if live_leases db \<ge> lc_width cfg then Inr (None, db)
       else
         bindE (scan_pages (\<lambda>a. (aw_created_at a, aw_id a)) ATTEMPT_SCHEDULING_BATCH_SIZE (is_schedulable db)
           (candidate_accepted cfg snapshot db) (db_attempts db) None) (\<lambda>found.
         case found of
           None \<Rightarrow> Inr (None, db)
         | Some row \<Rightarrow> bindE (leaseAttempt host now request row db) (\<lambda>(view, db'). Inr (Some view, db')))))"

definition leaseWithSnapshot ::
  "lease_host \<Rightarrow> lease_config \<Rightarrow> string \<Rightarrow> attempt_lease_request \<Rightarrow> scheduling_snapshot \<Rightarrow> database \<Rightarrow>
   (leased_attempt option \<times> database) result" where
  "leaseWithSnapshot host cfg now request snapshot =
     transaction foreign_keys (leaseNextEligibleAttempt_body host cfg now request snapshot)"

text \<open>
  The loop around it takes a new snapshot when the one it had is stale.  Its argument holds, for each of
  the three turns, the snapshot that was taken and the database of the transaction that follows.
\<close>

fun with_fresh_snapshots :: "('s \<Rightarrow> 'd \<Rightarrow> ('a \<times> 'd) result) \<Rightarrow> ('s \<times> 'd) list \<Rightarrow> ('a \<times> 'd) result" where
  "with_fresh_snapshots f [] = throwM ''Attempt scheduling manifest snapshot retry bound was exhausted''"
| "with_fresh_snapshots f [(s, d)] = f s d"
| "with_fresh_snapshots f ((s, d) # turn # turns) =
     (case f s d of
        Inl (StaleSnapshot _) \<Rightarrow> with_fresh_snapshots f (turn # turns)
      | outcome \<Rightarrow> outcome)"

definition leaseNextEligibleAttempt ::
  "lease_host \<Rightarrow> lease_config \<Rightarrow> string \<Rightarrow> attempt_lease_request \<Rightarrow> (scheduling_snapshot \<times> database) list \<Rightarrow>
   (leased_attempt option \<times> database) result" where
  "leaseNextEligibleAttempt host cfg now request turns =
     with_fresh_snapshots (leaseWithSnapshot host cfg now request) (take 3 turns)"

section \<open>Renewal\<close>

record renewal =
  rn_attempt_id :: string
  rn_lease_id :: string
  rn_generation :: int
  rn_worker_id :: string
  rn_expires_at :: string

definition holds_lease :: "renewal \<Rightarrow> attempt_row \<Rightarrow> bool" where
  "holds_lease input a \<longleftrightarrow>
     aw_lease_id a = Some (rn_lease_id input) \<and> aw_lease_generation a = Some (rn_generation input) \<and>
     aw_lease_worker a = Some (rn_worker_id input)"

definition json_of_renewal :: "renewal \<Rightarrow> json" where
  "json_of_renewal input =
     JObj [(''attempt_id'', JStr (rn_attempt_id input)), (''lease_id'', JStr (rn_lease_id input)),
       (''lease_generation'', json_int (rn_generation input)), (''worker_id'', JStr (rn_worker_id input)),
       (''expires_at'', JStr (rn_expires_at input))]"

definition renewAttemptLease_body ::
  "lease_host \<Rightarrow> string \<Rightarrow> renewal \<Rightarrow> database \<Rightarrow> (attempt_lease \<times> database) result" where
  "renewAttemptLease_body host now input db =
     (case first_row (\<lambda>a. aw_id a = rn_attempt_id input) (db_attempts db) of
        None \<Rightarrow> throwM ''attempt lease fence does not match''
      | Some row \<Rightarrow>
          if \<not> holds_lease input row then throwM ''attempt lease fence does not match''
          else
            bindE (updateE attempt_schema
                (\<lambda>a. aw_id a = aw_id row \<and> (holds_lease input a \<and> aw_version a = aw_version row))
                (\<lambda>a. a\<lparr>aw_lease_expires := Some (rn_expires_at input), aw_version := aw_version a + 1,
                   aw_updated_at := now\<rparr>) (db_attempts db)) (\<lambda>(rows, changes).
            if changes \<noteq> 1 then throwM ''attempt lease renewal compare-and-set failed''
            else
              bindE (lh_advance host (aw_run row)
                  (''attempt-renew:'' @ rn_lease_id input @ '':'' @ string_of_int (aw_version row + 1))
                  (json_of_renewal input) (db\<lparr>db_attempts := rows\<rparr>)) (\<lambda>(_, db').
              bindE (lh_attempt host (aw_id row) (aw_run row) db') (\<lambda>attempt.
              bindE (cast ''attempt lease'' (ka_lease attempt)) (\<lambda>lease. Inr (lease, db'))))))"

definition renewAttemptLease ::
  "lease_host \<Rightarrow> string \<Rightarrow> renewal \<Rightarrow> database \<Rightarrow> (attempt_lease \<times> database) result" where
  "renewAttemptLease host now input = transaction foreign_keys (renewAttemptLease_body host now input)"

section \<open>Recovery\<close>

record recovery_request =
  rq_observed_at :: string
  rq_expires_at :: string
  rq_limit :: int

definition corruptClaimRuns :: "lease_config \<Rightarrow> scheduling_snapshot \<Rightarrow> database \<Rightarrow> string list result" where
  "corruptClaimRuns cfg snapshot db =
     filterE (\<lambda>run. bindE (claimSetIsValid cfg snapshot (claimRows run db)) (\<lambda>valid. Inr (\<not> valid)))
       (sort (remdups (map aw_run (filter (\<lambda>a. run_is_active db (aw_run a) \<and> is_claim a) (db_attempts db)))))"

definition expired_attempt :: "string \<Rightarrow> attempt_row \<Rightarrow> bool" where
  "expired_attempt now a \<longleftrightarrow>
     aw_lease_id a \<noteq> None \<and> (case aw_lease_expires a of None \<Rightarrow> False | Some t \<Rightarrow> t \<le> now) \<and>
     aw_status a \<in> {Pending, Running, ResultPending}"

definition expiry_key :: "attempt_row \<Rightarrow> string \<times> string \<times> string" where
  "expiry_key a = (case aw_lease_expires a of None \<Rightarrow> [] | Some t \<Rightarrow> t, aw_run a, aw_id a)"

definition recovered_attempt_row :: "recovery_request \<Rightarrow> attempt_row \<Rightarrow> attempt_row" where
  "recovered_attempt_row input a =
     a\<lparr>aw_lease_expires := Some (rq_expires_at input),
       aw_lease_generation := map_option (\<lambda>g. g + 1) (aw_lease_generation a),
       aw_version := aw_version a + 1, aw_updated_at := rq_observed_at input\<rparr>"

definition recoverAttempt ::
  "lease_host \<Rightarrow> recovery_request \<Rightarrow> attempt_row \<Rightarrow> database \<Rightarrow> (leased_attempt \<times> database) result" where
  "recoverAttempt host input row db =
     bindE (updateE attempt_schema
         (\<lambda>a. aw_id a = aw_id row \<and> (aw_run a = aw_run row \<and> aw_version a = aw_version row \<and>
            aw_lease_id a \<noteq> None \<and> aw_lease_id a = aw_lease_id row \<and>
            aw_lease_generation a \<noteq> None \<and> aw_lease_generation a = aw_lease_generation row \<and>
            aw_lease_worker a \<noteq> None \<and> aw_lease_worker a = aw_lease_worker row \<and>
            aw_lease_expires a \<noteq> None \<and> aw_lease_expires a = aw_lease_expires row))
         (recovered_attempt_row input) (db_attempts db)) (\<lambda>(rows, changes).
     let lease = (case aw_lease_id row of Some l \<Rightarrow> l | None \<Rightarrow> ''null'') in
     if changes \<noteq> 1 then throwM (''expired attempt lease '' @ lease @ '' compare-and-set failed'')
     else
       bindE (cast ''lease generation'' (aw_lease_generation row)) (\<lambda>generation.
       bindE (lh_advance host (aw_run row)
           (''attempt-recover:'' @ lease @ '':'' @ string_of_int (aw_version row + 1))
           (JObj [(''attempt_id'', JStr (aw_id row)), (''lease_id'', json_opt (aw_lease_id row)),
              (''prior_generation'', json_int generation), (''generation'', json_int (generation + 1)),
              (''worker_id'', json_opt (aw_lease_worker row)),
              (''prior_expires_at'', json_opt (aw_lease_expires row)),
              (''expires_at'', JStr (rq_expires_at input))])
           (db\<lparr>db_attempts := rows\<rparr>)) (\<lambda>(run, db').
       bindE (attempt_view host row (kr_version run) (cu_version (kr_cursor run)) db') (\<lambda>view. Inr (view, db')))))"

fun recoverAttempts ::
  "lease_host \<Rightarrow> recovery_request \<Rightarrow> attempt_row list \<Rightarrow> database \<Rightarrow> (leased_attempt list \<times> database) result" where
  "recoverAttempts host input [] db = Inr ([], db)"
| "recoverAttempts host input (row # rows) db =
     bindE (recoverAttempt host input row db) (\<lambda>(view, db1).
     bindE (recoverAttempts host input rows db1) (\<lambda>(views, db2). Inr (view # views, db2)))"

definition recoverExpiredAttemptLeases_body ::
  "lease_host \<Rightarrow> lease_config \<Rightarrow> recovery_request \<Rightarrow> scheduling_snapshot \<Rightarrow> database \<Rightarrow>
   (leased_attempt list \<times> database) result" where
  "recoverExpiredAttemptLeases_body host cfg input snapshot db =
     bindE (assertSchedulingSnapshotCoverage snapshot db) (\<lambda>_.
     bindE (corruptClaimRuns cfg snapshot db) (\<lambda>corrupt.
     recoverAttempts host input
       (collect_pages expiry_key ATTEMPT_SCHEDULING_BATCH_SIZE (expired_attempt (rq_observed_at input))
          (\<lambda>a. aw_run a \<notin> set corrupt) (nat (rq_limit input)) (db_attempts db) [] None) db))"

definition recoverExpiredAttemptLeases ::
  "lease_host \<Rightarrow> lease_config \<Rightarrow> recovery_request \<Rightarrow> (scheduling_snapshot \<times> database) list \<Rightarrow>
   (leased_attempt list \<times> database) result" where
  "recoverExpiredAttemptLeases host cfg input turns =
     (case (canonical_ms (rq_observed_at input), canonical_ms (rq_expires_at input)) of
        (Some observed, Some expires) \<Rightarrow>
          if expires \<le> observed then throwM ''attempt lease recovery timestamps are invalid''
          else if \<not> isSafeInteger (rq_limit input) \<or> rq_limit input < 1 \<or> rq_limit input > 100
            then throwM ''attempt lease recovery limit must be between 1 and 100''
          else with_fresh_snapshots
            (\<lambda>snapshot. transaction foreign_keys (recoverExpiredAttemptLeases_body host cfg input snapshot))
            (take 3 turns)
      | _ \<Rightarrow> throwM ''attempt lease recovery timestamps are invalid'')"

end
