(* ===== verification/AttemptLeaseFacts.thy ===== *)
theory AttemptLeaseFacts
  imports AttemptLeases EffectLeaseFacts "HOL-Library.Multiset"
begin

text \<open>
  What leases on attempts promise: the claims of a run exclude each other, the width of the executor and the
  resources of the provider are respected, and a recovered lease shuts its former holder out.
\<close>

section \<open>Claims that exclude each other\<close>

text \<open>The resource slot of a claim, and the declarative form of \<open>#claimSetIsValid\<close>.\<close>

definition slot_of :: "lease_config \<Rightarrow> scheduling_snapshot \<Rightarrow> attempt_row \<Rightarrow> int option" where
  "slot_of cfg snapshot a =
     (case attemptScheduling cfg snapshot None a of
        None \<Rightarrow> None
      | Some s \<Rightarrow> (case slotIndex a s of Inl _ \<Rightarrow> None | Inr slot \<Rightarrow> Some slot))"

definition parallel_claim :: "lease_config \<Rightarrow> scheduling_snapshot \<Rightarrow> nat \<Rightarrow> attempt_row \<Rightarrow> bool" where
  "parallel_claim cfg snapshot n a \<longleftrightarrow>
     (\<exists>s. attemptScheduling cfg snapshot None a = Some s \<and> isParallelInspect a s \<and>
        int n \<le> stage_width s (aw_stage_id a))"

definition apart :: "lease_config \<Rightarrow> scheduling_snapshot \<Rightarrow> attempt_row \<Rightarrow> attempt_row \<Rightarrow> bool" where
  "apart cfg snapshot a b \<longleftrightarrow>
     sameParallelCohort a b \<and> slot_of cfg snapshot a \<noteq> None \<and> slot_of cfg snapshot b \<noteq> None \<and>
     slot_of cfg snapshot a \<noteq> slot_of cfg snapshot b"

definition claims_exclude :: "lease_config \<Rightarrow> scheduling_snapshot \<Rightarrow> attempt_row list \<Rightarrow> bool" where
  "claims_exclude cfg snapshot claims \<longleftrightarrow>
     length claims \<le> 1 \<or>
     (\<forall>a \<in> set claims. parallel_claim cfg snapshot (length claims) a) \<and>
     (\<forall>a \<in> set claims. \<forall>b \<in> set claims. a \<noteq> b \<longrightarrow> apart cfg snapshot a b)"

lemma cohort_sym: "sameParallelCohort a b \<Longrightarrow> sameParallelCohort b a"
  by (auto simp: sameParallelCohort_def)

lemma cohort_trans: "sameParallelCohort a b \<Longrightarrow> sameParallelCohort a c \<Longrightarrow> sameParallelCohort b c"
  by (auto simp: sameParallelCohort_def)

lemma cohort_scheduling:
  "sameParallelCohort a b \<Longrightarrow> attemptScheduling cfg snapshot None a = attemptScheduling cfg snapshot None b \<and>
     aw_stage_id a = aw_stage_id b"
proof -
  assume "sameParallelCohort a b"
  then have e: "aw_bundle_hash a = aw_bundle_hash b" "aw_stage_id a = aw_stage_id b"
    by (simp_all add: sameParallelCohort_def)
  show ?thesis unfolding attemptScheduling_def e by simp
qed

lemma pinned_scheduling:
  "attemptScheduling cfg snapshot (Some pinned) a = Some s \<Longrightarrow> attemptScheduling cfg snapshot None a = Some s"
  by (auto simp: attemptScheduling_def split: option.splits manifest_scheduling.splits if_splits prod.splits)

lemma claim_slots_ok:
  "claim_slots cfg snapshot first seen claims = Inr True \<Longrightarrow>
     (\<forall>a \<in> set claims. (\<exists>s. attemptScheduling cfg snapshot None a = Some s \<and> isParallelInspect a s) \<and>
        sameParallelCohort first a \<and> (\<exists>slot. slot_of cfg snapshot a = Some slot \<and> slot \<notin> set seen)) \<and>
     distinct (map (slot_of cfg snapshot) claims)"
proof (induction claims arbitrary: seen)
  case (Cons a claims)
  then obtain s slot where s: "attemptScheduling cfg snapshot None a = Some s" "isParallelInspect a s"
    "sameParallelCohort first a" "slotIndex a s = Inr slot" "slot \<notin> set seen"
    "claim_slots cfg snapshot first (slot # seen) claims = Inr True"
    by (auto simp: bindE_eq_Inr split: option.splits if_splits)
  have "slot_of cfg snapshot a = Some slot" by (simp add: slot_of_def s)
  with s Cons.IH [OF s(6)] show ?case by auto
qed simp

lemma claimSetIsValid_exclude:
  assumes "claimSetIsValid cfg snapshot claims = Inr True"
  shows "claims_exclude cfg snapshot claims"
proof (cases "length claims \<le> 1")
  case False
  then obtain first x rest where c: "claims = first # x # rest"
    by (cases claims; cases "tl claims") auto
  with assms obtain s where s: "attemptScheduling cfg snapshot None first = Some s"
    "int (length claims) \<le> stage_width s (aw_stage_id first)" "claim_slots cfg snapshot first [] claims = Inr True"
    by (auto simp: claimSetIsValid_def split: option.splits if_splits)
  note ok = claim_slots_ok [OF s(3)]
  have "parallel_claim cfg snapshot (length claims) a" if "a \<in> set claims" for a
    using ok that s(1,2) cohort_scheduling [of first a cfg snapshot] by (auto simp: parallel_claim_def)
  moreover have "apart cfg snapshot a b" if "a \<in> set claims" "b \<in> set claims" "a \<noteq> b" for a b
  proof -
    from ok that have "sameParallelCohort a b" by (blast intro: cohort_trans)
    moreover from ok that have "slot_of cfg snapshot a \<noteq> slot_of cfg snapshot b"
      by (auto simp: distinct_map inj_on_eq_iff)
    ultimately show ?thesis using ok that by (auto simp: apart_def)
  qed
  ultimately show ?thesis by (simp add: claims_exclude_def)
qed (simp add: claims_exclude_def)

lemma all_other_slots_ok:
  "all_other_slots cfg snapshot candidate slot claims = Inr True \<Longrightarrow>
     \<forall>a \<in> set claims. (\<exists>s. attemptScheduling cfg snapshot None a = Some s \<and> isParallelInspect a s) \<and>
        sameParallelCohort candidate a \<and> (\<exists>other. slot_of cfg snapshot a = Some other \<and> other \<noteq> slot)"
proof (induction claims)
  case (Cons a claims)
  then obtain s other where s: "attemptScheduling cfg snapshot None a = Some s" "isParallelInspect a s"
    "sameParallelCohort candidate a" "slotIndex a s = Inr other" "other \<noteq> slot"
    "all_other_slots cfg snapshot candidate slot claims = Inr True"
    by (auto simp: bindE_eq_Inr split: option.splits if_splits)
  with Cons.IH [OF s(6)] show ?case by (auto simp: slot_of_def)
qed simp

text \<open>Claims look at the columns that a lease does not change.\<close>

definition same_place :: "attempt_row \<Rightarrow> attempt_row \<Rightarrow> bool" where
  "same_place a b \<longleftrightarrow>
     aw_id a = aw_id b \<and> aw_run a = aw_run b \<and> aw_bundle_hash a = aw_bundle_hash b \<and>
     aw_authority a = aw_authority b \<and> aw_scope_kind a = aw_scope_kind b \<and> aw_stage_id a = aw_stage_id b \<and>
     aw_parent a = aw_parent b \<and> aw_scope_group a = aw_scope_group b \<and> aw_scope_item a = aw_scope_item b \<and>
     aw_scope_index a = aw_scope_index b \<and> aw_input_subject a = aw_input_subject b"

lemma same_place_views:
  assumes "same_place a b"
  shows "attemptScheduling cfg snapshot p a = attemptScheduling cfg snapshot p b"
    "isParallelInspect a s = isParallelInspect b s" "slotIndex a s = slotIndex b s"
    "sameParallelCohort a c = sameParallelCohort b c" "slot_of cfg snapshot a = slot_of cfg snapshot b"
proof -
  from assms have e: "aw_bundle_hash a = aw_bundle_hash b" "aw_authority a = aw_authority b"
    "aw_scope_kind a = aw_scope_kind b" "aw_stage_id a = aw_stage_id b" "aw_parent a = aw_parent b"
    "aw_scope_group a = aw_scope_group b" "aw_scope_item a = aw_scope_item b"
    "aw_scope_index a = aw_scope_index b" "aw_input_subject a = aw_input_subject b"
    by (simp_all add: same_place_def)
  show s: "attemptScheduling cfg snapshot p a = attemptScheduling cfg snapshot p b" for p
    unfolding attemptScheduling_def e by (rule refl)
  show i: "slotIndex a s = slotIndex b s" for s unfolding slotIndex_def e by (rule refl)
  show "isParallelInspect a s = isParallelInspect b s" "sameParallelCohort a c = sameParallelCohort b c"
    unfolding isParallelInspect_def sameParallelCohort_def e by (rule refl)+
  show "slot_of cfg snapshot a = slot_of cfg snapshot b" unfolding slot_of_def s i by (rule refl)
qed

lemma shared_run_exclude:
  assumes c: "candidateCanShareItsRun cfg snapshot pinned candidate db = Inr True"
    and p: "same_place a candidate"
    and o: "others = filter (\<lambda>c. aw_id c \<noteq> aw_id candidate) (claimRows (aw_run candidate) db)"
  shows "claims_exclude cfg snapshot (a # others)"
proof (cases "others = []")
  case False
  let ?claims = "claimRows (aw_run candidate) db"
  from c o False obtain s slot where v: "claimSetIsValid cfg snapshot ?claims = Inr True"
    and s: "attemptScheduling cfg snapshot (Some pinned) candidate = Some s" "isParallelInspect candidate s"
      "int (length others) + 1 \<le> stage_width s (aw_stage_id candidate)" "slotIndex candidate s = Inr slot"
      "all_other_slots cfg snapshot candidate slot others = Inr True"
    by (auto simp: candidateCanShareItsRun_def Let_def bindE_eq_Inr split: if_splits option.splits)
  note n = pinned_scheduling [OF s(1)] and ok = all_other_slots_ok [OF s(5)] and places = same_place_views [OF p]
  have stage: "aw_stage_id a = aw_stage_id candidate" using p by (simp add: same_place_def)
  have slot: "slot_of cfg snapshot a = Some slot" unfolding places slot_of_def by (simp add: n s(4))
  have pa: "parallel_claim cfg snapshot (length (a # others)) a"
    using n s(2,3) by (auto simp: parallel_claim_def places stage)
  have po: "parallel_claim cfg snapshot (length (a # others)) b" if "b \<in> set others" for b
    using ok that n s(3) cohort_scheduling [of candidate b cfg snapshot] by (auto simp: parallel_claim_def)
  have ao: "apart cfg snapshot a b" if "b \<in> set others" for b
    using ok that by (auto simp: apart_def places slot [unfolded places])
  have oo: "apart cfg snapshot b d" if "b \<in> set others" "d \<in> set others" "b \<noteq> d" for b d
  proof -
    from that o have "b \<in> set ?claims" "d \<in> set ?claims" by auto
    moreover from this that(3) have "\<not> length ?claims \<le> 1" by (cases ?claims; cases "tl ?claims") auto
    ultimately show ?thesis using claimSetIsValid_exclude [OF v] that(3) by (auto simp: claims_exclude_def)
  qed
  have sym: "apart cfg snapshot x y \<Longrightarrow> apart cfg snapshot y x" for x y by (auto simp: apart_def intro: cohort_sym)
  show ?thesis unfolding claims_exclude_def using pa po ao oo sym by auto
qed (simp add: claims_exclude_def)

lemma claims_exclude_mset:
  assumes "mset xs = mset ys"
  shows "claims_exclude cfg snapshot xs = claims_exclude cfg snapshot ys"
  using mset_eq_setD [OF assms] mset_eq_length [OF assms] by (simp add: claims_exclude_def)

section \<open>One changed row\<close>

lemma single_update:
  assumes u: "updateE schema (\<lambda>r. key r = key row \<and> C r) f rows = Inr (rows', 1)"
    and d: "distinct (map key rows)" and row: "row \<in> set rows"
  shows "\<exists>xs ys. rows = xs @ row # ys \<and> rows' = xs @ f row # ys \<and> C row \<and>
    (\<forall>r \<in> set xs \<union> set ys. key r \<noteq> key row)"
proof -
  from u have rows': "rows' = updated_rows (\<lambda>r. key r = key row \<and> C r) f rows"
    and n: "length (filter (\<lambda>r. key r = key row \<and> C r) rows) = 1" by (simp_all add: updateE_ok)
  from one_row_changed [OF d n] obtain r where "r \<in> set rows" "key r = key row" "C r" by blast
  with by_key [OF d row] have c: "C row" by auto
  from row obtain xs ys where s: "rows = xs @ row # ys" by (meson split_list)
  have other: "key r \<noteq> key row" if "r \<in> set xs \<union> set ys" for r
    using d that by (auto simp: s rev_image_eqI)
  have same: "updated_rows (\<lambda>r. key r = key row \<and> C r) f zs = zs" if "set zs \<subseteq> set xs \<union> set ys" for zs
    using that other by (auto simp: updated_rows_def intro!: map_idI)
  have "rows' = xs @ f row # ys"
    using same [of xs] same [of ys] by (simp add: rows' s c updated_rows_def)
  with s c other show ?thesis by blast
qed

section \<open>The pins of a run\<close>

definition run_pin :: "run_row \<Rightarrow> string \<times> string \<times> string \<times> run_status" where
  "run_pin r = (rw_id r, rw_pipeline_id r, rw_bundle_hash r, rw_status r)"

definition same_pins :: "database \<Rightarrow> database \<Rightarrow> bool" where
  "same_pins db db' \<longleftrightarrow> list_all2 (\<lambda>r r'. run_pin r' = run_pin r) (db_runs db) (db_runs db')"

lemma same_pins_ids: "same_pins db db' \<Longrightarrow> map rw_id (db_runs db') = map rw_id (db_runs db)"
  unfolding same_pins_def by (induction rule: list_all2_induct) (auto simp: run_pin_def)

lemma same_pins_active: "same_pins db db' \<Longrightarrow> run_is_active db' run = run_is_active db run"
  unfolding same_pins_def run_is_active_def by (induction rule: list_all2_induct) (auto simp: run_pin_def)

lemma same_pins_first:
  assumes "same_pins db db'"
  shows "map_option run_pin (first_row (\<lambda>r. rw_id r = i) (db_runs db')) =
    map_option run_pin (first_row (\<lambda>r. rw_id r = i) (db_runs db))"
  using assms unfolding same_pins_def first_row_def
  by (induction rule: list_all2_induct) (auto simp: run_pin_def)

definition claiming :: "database \<Rightarrow> string \<Rightarrow> bool" where
  "claiming db run \<longleftrightarrow> list_ex (\<lambda>a. aw_run a = run \<and> is_claim a) (db_attempts db)"

lemma claimed_pool_pins:
  "claimed_pool cfg snapshot db run =
     (case map_option run_pin (first_row (\<lambda>r. rw_id r = run) (db_runs db)) of
        None \<Rightarrow> None
      | Some (_, _, bundle, status) \<Rightarrow>
          if \<not> active_run_status status \<or> \<not> claiming db run then None
          else (case map_of snapshot bundle of
              Some (ValidManifest s) \<Rightarrow> if ls_pool_size s > lc_max cfg then None else Some (ls_pool_size s)
            | _ \<Rightarrow> None))"
  by (simp add: claimed_pool_def claiming_def run_pin_def split: option.split)

lemma reserved_unchanged:
  assumes "same_pins db db'" and "db_effects db' = db_effects db" and "claiming db' run = claiming db run"
  shows "reserved_slots cfg snapshot db' run = reserved_slots cfg snapshot db run"
proof -
  have p: "claimed_pool cfg snapshot db' run = claimed_pool cfg snapshot db run"
    unfolding claimed_pool_pins same_pins_first [OF assms(1)] assms(3) by (rule refl)
  have c: "created_sandboxes db' run = created_sandboxes db run"
    unfolding created_sandboxes_def same_pins_active [OF assms(1)] assms(2) by (rule refl)
  show ?thesis unfolding reserved_slots_def p c by (rule refl)
qed

lemma active_first:
  assumes "run_is_active db run" and "first_row (\<lambda>r. rw_id r = run) (db_runs db) = Some r"
    and "distinct (map rw_id (db_runs db))"
  shows "active_run_status (rw_status r)"
proof -
  from assms(1) obtain r' where r': "r' \<in> set (db_runs db)" "rw_id r' = run" "active_run_status (rw_status r')"
    by (auto simp: run_is_active_def list_ex_iff)
  from first_row_Some [OF assms(2)] by_key [OF assms(3) r'(1)] r'(2) have "r = r'" by auto
  with r'(3) show ?thesis by simp
qed

lemma reserved_claimed:
  assumes "same_pins db db'" and "db_effects db' = db_effects db" and "claiming db' run"
    and "first_row (\<lambda>r. rw_id r = run) (db_runs db) = Some r" and "active_run_status (rw_status r)"
    and "map_of snapshot (rw_bundle_hash r) = Some (ValidManifest s)" and "ls_pool_size s \<le> lc_max cfg"
  shows "reserved_slots cfg snapshot db' run = max (reserved_slots cfg snapshot db run) (ls_pool_size s)"
  using assms same_pins_active [OF assms(1)] same_pins_first [OF assms(1), of run]
  by (auto simp: reserved_slots_def claimed_pool_pins created_sandboxes_def run_pin_def)

lemma sum_list_one:
  assumes "distinct (map key rows)" and "r \<in> set rows" and "\<And>x. x \<in> set rows \<Longrightarrow> key x \<noteq> key r \<Longrightarrow> g x = h x"
  shows "sum_list (map g rows) = sum_list (map h rows) + (g r - h r :: int)"
  using assms
proof (induction rows)
  case (Cons x rows)
  show ?case
  proof (cases "x = r")
    case True
    with Cons.prems have "g y = h y" if "y \<in> set rows" for y
      using that by (intro Cons.prems(3)) (auto simp: rev_image_eqI)
    then have "sum_list (map g rows) = sum_list (map h rows)" by (simp cong: map_cong)
    with True show ?thesis by simp
  next
    case False
    with Cons.prems have "key x \<noteq> key r" by (auto simp: rev_image_eqI)
    with Cons False show ?thesis by simp
  qed
qed simp

section \<open>What a recovered worker sees\<close>

definition recovered_view :: "recovery_request \<Rightarrow> attempt_row \<Rightarrow> leased_attempt \<Rightarrow> bool" where
  "recovered_view input row view \<longleftrightarrow>
     ka_id (la_attempt view) = aw_id row \<and> Some (le_id (la_lease view)) = aw_lease_id row \<and>
     Some (le_worker_id (la_lease view)) = aw_lease_worker row \<and>
     aw_lease_generation row = Some (le_generation (la_lease view) - 1) \<and>
     le_expires_at (la_lease view) = rq_expires_at input"

section \<open>The host\<close>

text \<open>
  What leases on attempts expect of the store, besides what leases on effects do: advancing the fence of a run
  keeps the attempts and the pinned columns of the runs, and loading an attempt reads its row.
\<close>

lemma attempt_of_row:
  "attemptFromRow r = Inr a \<Longrightarrow> ka_id a = aw_id r \<and> leaseFromRow r = Inr (ka_lease a)"
  by (auto simp: attemptFromRow_def bindE_eq_Inr)

lemma lease_of_row:
  assumes "leaseFromRow r = Inr (Some l)"
  shows "aw_lease_id r = Some (le_id l) \<and> aw_lease_generation r = Some (le_generation l) \<and>
    aw_lease_worker r = Some (le_worker_id l) \<and> aw_lease_expires r = Some (le_expires_at l)"
  using assms
  by (auto simp: leaseFromRow_def bindE_eq_Inr cast_def ill_typed_def split: option.splits if_splits)

locale attempt_host = effect_host +
  assumes pins_law: "lh_advance host run t c db = Inr (r, db') \<Longrightarrow>
      db_attempts db' = db_attempts db \<and> same_pins db db'"
    and load_law: "lh_attempt host i run db = Inr a \<Longrightarrow>
      \<exists>row \<in> set (db_attempts db). aw_id row = i \<and> aw_run row = run \<and> attemptFromRow row = Inr a"
begin

lemma leaseAttempt_cases:
  assumes "leaseAttempt host now request row db = Inr (view, db')"
    and d: "distinct (map aw_id (db_attempts db))" and row: "row \<in> set (db_attempts db)"
  obtains purpose xs ys where "db_attempts db = xs @ row # ys"
      "db_attempts db' = xs @ leased_attempt_row now request purpose row # ys"
      "\<And>a. a \<in> set xs \<union> set ys \<Longrightarrow> aw_id a \<noteq> aw_id row" "db_effects db' = db_effects db" "same_pins db db'"
      "\<exists>r \<in> set (db_attempts db'). aw_id r = aw_id row \<and> attemptFromRow r = Inr (la_attempt view)"
proof -
  obtain purpose where p: "(if aw_status row = ResultPending then CorrectionLease else WorkLease) = purpose" by blast
  from assms(1) obtain rows where
    u: "updateE attempt_schema
               (\<lambda>a. aw_id a = aw_id row \<and> (aw_run a = aw_run row \<and> aw_version a = aw_version row \<and>
                  aw_lease_id a = None \<and> aw_unmet a = 0))
               (leased_attempt_row now request purpose) (db_attempts db) = Inr (rows, 1)"
    and rest: "\<exists>t c. bindE (lh_advance host (aw_run row) t c (db\<lparr>db_attempts := rows\<rparr>)) (\<lambda>(run, db').
        bindE (attempt_view host row (kr_version run) (cu_version (kr_cursor run)) db') (\<lambda>view. Inr (view, db'))) =
      Inr (view, db')"
    unfolding leaseAttempt_def p Let_def compare_and_set by blast
  from rest obtain run t c where run: "lh_advance host (aw_run row) t c (db\<lparr>db_attempts := rows\<rparr>) = Inr (run, db')"
    and v: "attempt_view host row (kr_version run) (cu_version (kr_cursor run)) db' = Inr view"
    by (auto simp: bindE_eq_Inr)
  from single_update [OF u d row] obtain xs ys where
    s: "db_attempts db = xs @ row # ys" "rows = xs @ leased_attempt_row now request purpose row # ys"
      "\<forall>a \<in> set xs \<union> set ys. aw_id a \<noteq> aw_id row" by auto
  have view: "\<exists>r \<in> set (db_attempts db'). aw_id r = aw_id row \<and> attemptFromRow r = Inr (la_attempt view)"
    using v by (auto simp: attempt_view_def bindE_eq_Inr dest!: load_law)
  have "db_attempts db' = xs @ leased_attempt_row now request purpose row # ys" "db_effects db' = db_effects db"
    "same_pins db db'"
    using pins_law [OF run] advance_law [OF run] by (simp_all add: s(2) same_pins_def)
  from that [OF s(1) this(1) bspec [OF s(3)] this(2,3) view] show thesis .
qed

lemma leasing_cases:
  assumes "leaseWithSnapshot host cfg now request snapshot db = Inr (view, db')"
    and d: "distinct (map aw_id (db_attempts db))"
  obtains (unchanged) "db' = db"
  | (leased) row v where "is_schedulable db row" "candidate_accepted cfg snapshot db row = Inr True"
      "live_leases db < lc_width cfg" "row \<in> set (db_attempts db)" "view = Some v"
      "leaseAttempt host now request row db = Inr (v, db')"
      "findE (candidate_accepted cfg snapshot db)
         (ordered_rows (\<lambda>a. (aw_created_at a, aw_id a)) (is_schedulable db) (db_attempts db)) = Inr (Some row)"
proof -
  let ?key = "\<lambda>a. (aw_created_at a, aw_id a)"
  have "distinct (map ?key (db_attempts db))"
    using d by (auto simp: distinct_map inj_on_def)
  then have scan: "scan_pages ?key ATTEMPT_SCHEDULING_BATCH_SIZE (is_schedulable db)
         (candidate_accepted cfg snapshot db) (db_attempts db) None =
      findE (candidate_accepted cfg snapshot db) (ordered_rows ?key (is_schedulable db) (db_attempts db))"
    by (simp add: scan_pages_eq ATTEMPT_SCHEDULING_BATCH_SIZE_def after_key_def)
  have found: "row \<in> set rows \<and> P row = Inr True" if "findE P rows = Inr (Some row)" for P rows and row :: attempt_row
    using that by (induction rows) (auto simp: bindE_eq_Inr split: if_splits)
  from assms(1) have body: "leaseNextEligibleAttempt_body host cfg now request snapshot db = Inr (view, db')"
    by (simp add: leaseWithSnapshot_def transaction_ok)
  show thesis
  proof (cases "db' = db")
    case False
    with body obtain row v where
      "findE (candidate_accepted cfg snapshot db)
         (ordered_rows ?key (is_schedulable db) (db_attempts db)) = Inr (Some row)"
      "leaseAttempt host now request row db = Inr (v, db')" "live_leases db < lc_width cfg" "view = Some v"
      by (auto simp: leaseNextEligibleAttempt_body_def bindE_eq_Inr scan split: if_splits option.splits)
    with found [OF this(1)] show thesis by (intro leased [of row v]) (auto simp: ordered_rows_def)
  qed (rule unchanged)
qed

section \<open>Bounds\<close>

lemma leasing_bounds:
  assumes l: "leaseWithSnapshot host cfg now request snapshot db = Inr (view, db')"
    and d: "distinct (map aw_id (db_attempts db))" and r: "distinct (map rw_id (db_runs db))"
  shows "live_leases db' \<le> max (live_leases db) (lc_width cfg) \<and>
    total_reserved (resourceReservations cfg snapshot db') \<le>
      max (total_reserved (resourceReservations cfg snapshot db)) (lc_capacity cfg)"
  using l d
proof (cases rule: leasing_cases)
  case (leased row v)
  from leased(6) d leased(4) obtain purpose xs ys where
    s: "db_attempts db = xs @ row # ys" "db_attempts db' = xs @ leased_attempt_row now request purpose row # ys"
      "db_effects db' = db_effects db" "same_pins db db'" by (rule leaseAttempt_cases) blast
  let ?run = "aw_run row" and ?res = "reserved_slots cfg snapshot"
  have free: "aw_lease_id row = None" using leased(1) by (simp add: is_schedulable_def)
  have live: "live_leases db' = live_leases db + 1"
    unfolding live_leases_def s(1,2) using free by (simp add: leased_attempt_row_def)
  from leased(2) obtain run sched where
    run: "first_row (\<lambda>r. rw_id r = ?run) (db_runs db) = Some run"
    and sched: "attemptScheduling cfg snapshot (Some (rw_pipeline_id run, rw_bundle_hash run)) row = Some sched"
    and fits: "total_reserved (resourceReservations cfg snapshot db) +
      max 0 (ls_pool_size sched - (case map_of (resourceReservations cfg snapshot db) ?run of None \<Rightarrow> 0 | Some n \<Rightarrow> n)) \<le>
      lc_capacity cfg"
    by (auto simp: candidate_accepted_def Let_def bindE_eq_Inr split: option.splits if_splits)
  note run' = first_row_Some [OF run]
  have existing: "map_of (resourceReservations cfg snapshot db) ?run = Some (?res db ?run)"
    using run' r by (intro map_of_is_SomeI) (auto simp: resourceReservations_def comp_def intro: image_eqI [of _ _ run])
  from sched have pool: "map_of snapshot (rw_bundle_hash run) = Some (ValidManifest sched)" "ls_pool_size sched \<le> lc_max cfg"
    by (auto simp: attemptScheduling_def split: option.splits manifest_scheduling.splits if_splits)
  have active: "active_run_status (rw_status run)"
    using active_first [OF _ run r] leased(1) by (simp add: is_schedulable_def)
  have "claiming db' ?run" unfolding claiming_def s(2) by (simp add: leased_attempt_row_def is_claim_def)
  note here = reserved_claimed [OF s(4,3) this run active pool]
  have there: "?res db' i = ?res db i" if "i \<noteq> ?run" for i
    by (rule reserved_unchanged [OF s(4,3)])
      (use that in \<open>simp add: claiming_def s(1,2) leased_attempt_row_def\<close>)
  have total: "total_reserved (resourceReservations cfg snapshot d) = sum_list (map (\<lambda>r. ?res d (rw_id r)) (db_runs db))"
    if "d = db \<or> d = db'" for d
  proof -
    from that same_pins_ids [OF s(4)] have "map rw_id (db_runs d) = map rw_id (db_runs db)" by auto
    then have "map (?res d) (map rw_id (db_runs d)) = map (?res d) (map rw_id (db_runs db))" by simp
    then show ?thesis by (simp add: total_reserved_def resourceReservations_def comp_def)
  qed
  have "total_reserved (resourceReservations cfg snapshot db') =
      total_reserved (resourceReservations cfg snapshot db) + (?res db' ?run - ?res db ?run)"
    using sum_list_one [of rw_id "db_runs db" run "\<lambda>r. ?res db' (rw_id r)" "\<lambda>r. ?res db (rw_id r)"] r run' there
    by (simp add: total)
  with fits existing here live leased(3) show ?thesis by simp
qed simp

section \<open>Exclusion\<close>

lemma leasing_excludes:
  assumes l: "leaseWithSnapshot host cfg now request snapshot db = Inr (view, db')"
    and d: "distinct (map aw_id (db_attempts db))"
    and before: "claims_exclude cfg snapshot (claimRows run db)"
  shows "claims_exclude cfg snapshot (claimRows run db')"
  using l d
proof (cases rule: leasing_cases)
  case (leased row v)
  from leased(6) d leased(4) obtain purpose xs ys where
    s: "db_attempts db = xs @ row # ys" "db_attempts db' = xs @ leased_attempt_row now request purpose row # ys"
      "\<And>a. a \<in> set xs \<union> set ys \<Longrightarrow> aw_id a \<noteq> aw_id row" by (rule leaseAttempt_cases) blast
  let ?row' = "leased_attempt_row now request purpose row"
  show ?thesis
  proof (cases "run = aw_run row")
    case False
    then have "claims_exclude cfg snapshot (claimRows run db') = claims_exclude cfg snapshot (claimRows run db)"
      by (intro claims_exclude_mset) (simp add: claimRows_def ordered_rows_def s(1,2) leased_attempt_row_def)
    with before show ?thesis by simp
  next
    case True
    let ?others = "filter (\<lambda>c. aw_id c \<noteq> aw_id row) (claimRows run db)"
    from leased(2) obtain pinned where "candidateCanShareItsRun cfg snapshot pinned row db = Inr True"
      by (auto simp: candidate_accepted_def Let_def bindE_eq_Inr split: option.splits if_splits)
    from shared_run_exclude [OF this _ refl, of ?row'] True
    have "claims_exclude cfg snapshot (?row' # ?others)" by (simp add: same_place_def leased_attempt_row_def)
    moreover have "mset (claimRows run db') = mset (?row' # ?others)"
    proof -
      have keep: "filter (\<lambda>c. (aw_run c = run \<and> is_claim c) \<and> aw_id c \<noteq> aw_id row) zs =
          filter (\<lambda>c. aw_run c = run \<and> is_claim c) zs" if "set zs \<subseteq> set xs \<union> set ys" for zs
        using that s(3) by (intro filter_cong) auto
      have "is_claim ?row'" "aw_run ?row' = run" by (simp_all add: leased_attempt_row_def is_claim_def True)
      then have "mset (claimRows run db') = mset (?row' # filter (\<lambda>c. aw_run c = run \<and> is_claim c) (xs @ ys))"
        by (simp add: claimRows_def ordered_rows_def s(2))
      also have "filter (\<lambda>c. aw_run c = run \<and> is_claim c) (xs @ ys) =
          filter (\<lambda>c. (aw_run c = run \<and> is_claim c) \<and> aw_id c \<noteq> aw_id row) (xs @ row # ys)"
        using keep [of xs] keep [of ys] by simp
      finally show ?thesis
        by (simp only: claimRows_def ordered_rows_def s(1) filter_sort filter_filter mset.simps mset_sort)
    qed
    ultimately show ?thesis using claims_exclude_mset by blast
  qed
qed (simp add: before)

section \<open>Recovery\<close>

lemma recoverAttempt_cases:
  assumes "recoverAttempt host input row db = Inr (view, db')"
    and d: "distinct (map aw_id (db_attempts db))" and row: "row \<in> set (db_attempts db)"
  shows "recovered_view input row view \<and> recovered_attempt_row input row \<in> set (db_attempts db') \<and>
    map aw_id (db_attempts db') = map aw_id (db_attempts db) \<and>
    (\<forall>a \<in> set (db_attempts db). aw_id a \<noteq> aw_id row \<longrightarrow> a \<in> set (db_attempts db'))"
proof -
  obtain lease where p: "(case aw_lease_id row of Some l \<Rightarrow> l | None \<Rightarrow> ''null'') = lease" by blast
  let ?row' = "recovered_attempt_row input row"
  obtain g where g: "aw_lease_generation row = Some g"
    using assms(1) unfolding recoverAttempt_def p Let_def compare_and_set
    by (cases "aw_lease_generation row") (simp_all add: cast_def ill_typed_def)
  from assms(1) obtain rows where
    u: "updateE attempt_schema
         (\<lambda>a. aw_id a = aw_id row \<and> (aw_run a = aw_run row \<and> aw_version a = aw_version row \<and>
            aw_lease_id a \<noteq> None \<and> aw_lease_id a = aw_lease_id row \<and>
            aw_lease_generation a \<noteq> None \<and> aw_lease_generation a = Some g \<and>
            aw_lease_worker a \<noteq> None \<and> aw_lease_worker a = aw_lease_worker row \<and>
            aw_lease_expires a \<noteq> None \<and> aw_lease_expires a = aw_lease_expires row))
         (recovered_attempt_row input) (db_attempts db) = Inr (rows, 1)"
    and rest: "\<exists>t c. bindE (lh_advance host (aw_run row) t c (db\<lparr>db_attempts := rows\<rparr>)) (\<lambda>(run, db').
        bindE (attempt_view host row (kr_version run) (cu_version (kr_cursor run)) db') (\<lambda>view. Inr (view, db'))) =
      Inr (view, db')"
    unfolding recoverAttempt_def p Let_def compare_and_set g cast_def option.case bindE_simps by blast
  from rest obtain run t c where run: "lh_advance host (aw_run row) t c (db\<lparr>db_attempts := rows\<rparr>) = Inr (run, db')"
    and v: "attempt_view host row (kr_version run) (cu_version (kr_cursor run)) db' = Inr view"
    by (auto simp: bindE_eq_Inr)
  from single_update [OF u d row] obtain xs ys where
    s: "db_attempts db = xs @ row # ys" "rows = xs @ ?row' # ys"
      and held: "aw_lease_id row \<noteq> None" "aw_lease_generation row \<noteq> None" "aw_lease_worker row \<noteq> None"
    by (auto simp: g)
  have rows: "db_attempts db' = rows" using pins_law [OF run] by simp
  have id: "aw_id ?row' = aw_id row" by (simp add: recovered_attempt_row_def)
  have d': "distinct (map aw_id (db_attempts db'))" using d by (simp add: rows s id)
  from v obtain r where r: "r \<in> set (db_attempts db')" "aw_id r = aw_id row" "attemptFromRow r = Inr (la_attempt view)"
    and l: "ka_lease (la_attempt view) = Some (la_lease view)"
    by (auto simp: attempt_view_def bindE_eq_Inr cast_def ill_typed_def split: option.splits dest!: load_law)
  have "r = ?row'" by (rule by_key [OF d' _ r(1)]) (simp_all add: rows s(2) r(2) id)
  with attempt_of_row [OF r(3)] have lease: "leaseFromRow ?row' = Inr (Some (la_lease view))"
    and i: "ka_id (la_attempt view) = aw_id row" by (simp_all add: l id)
  from lease_of_row [OF lease] i g have "recovered_view input row view"
    by (simp add: recovered_attempt_row_def recovered_view_def)
  then show ?thesis by (auto simp: rows s id)
qed

lemma recoverAttempts_views:
  assumes "recoverAttempts host input rows db = Inr (views, db')"
    and "distinct (map aw_id (db_attempts db))" and "set rows \<subseteq> set (db_attempts db)" and "distinct (map aw_id rows)"
  shows "list_all2 (recovered_view input) rows views \<and>
    recovered_attempt_row input ` set rows \<subseteq> set (db_attempts db') \<and>
    map aw_id (db_attempts db') = map aw_id (db_attempts db) \<and>
    (\<forall>a \<in> set (db_attempts db). aw_id a \<notin> aw_id ` set rows \<longrightarrow> a \<in> set (db_attempts db'))"
  using assms
proof (induction rows arbitrary: db views)
  case (Cons row rows)
  from Cons.prems(1) obtain view db1 views' where r: "recoverAttempt host input row db = Inr (view, db1)"
    "recoverAttempts host input rows db1 = Inr (views', db')" "views = view # views'"
    by (auto simp: bindE_eq_Inr)
  from Cons.prems(3) have "row \<in> set (db_attempts db)" by simp
  note first = recoverAttempt_cases [OF r(1) Cons.prems(2) this]
  have "set rows \<subseteq> set (db_attempts db1)"
  proof
    fix a assume "a \<in> set rows"
    with Cons.prems(3,4) have "a \<in> set (db_attempts db)" "aw_id a \<noteq> aw_id row" by (auto simp: rev_image_eqI)
    with first show "a \<in> set (db_attempts db1)" by simp
  qed
  with Cons.IH [OF r(2)] first Cons.prems
  have rest: "list_all2 (recovered_view input) rows views'" "recovered_attempt_row input ` set rows \<subseteq> set (db_attempts db')"
    "map aw_id (db_attempts db') = map aw_id (db_attempts db)"
    "\<forall>a \<in> set (db_attempts db1). aw_id a \<notin> aw_id ` set rows \<longrightarrow> a \<in> set (db_attempts db')" by auto
  have "aw_id (recovered_attempt_row input row) \<notin> aw_id ` set rows"
    using Cons.prems(4) by (simp add: recovered_attempt_row_def)
  with rest(4) first have "recovered_attempt_row input row \<in> set (db_attempts db')" by blast
  with rest first r(3) show ?case by auto
qed simp

lemma stale_renewal:
  assumes d: "distinct (map aw_id (db_attempts db))" and "a \<in> set (db_attempts db)"
    and "aw_id a = rn_attempt_id input" and "aw_lease_generation a \<noteq> Some (rn_generation input)"
  shows "renewAttemptLease h now input db = throwM ''attempt lease fence does not match''"
  using assms first_row_key [OF d assms(2,3)]
  by (simp add: renewAttemptLease_def renewAttemptLease_body_def transaction_def holds_lease_def)

end

end
