(* ===== verification/Inbox.thy ===== *)
theory Inbox
  imports KernelStore
begin

text \<open>
  The inbox: \<open>persistence/kernel-inbox-store.ts\<close>.  Providers deliver events, more than once and in any order.  An
  event is stored once, a worker leases it, and it ends consumed, stale or dead.  The deliveries of one
  event form a group, and only the first of a group is ever handed to a worker.
\<close>

section \<open>Rows\<close>

definition KERNEL_INBOX_INLINE_PAYLOAD_MAX_BYTES :: int where
  "KERNEL_INBOX_INLINE_PAYLOAD_MAX_BYTES = 64 * 1024"

definition KERNEL_INBOX_MAX_PAYLOAD_BYTES :: int where
  "KERNEL_INBOX_MAX_PAYLOAD_BYTES = 1024 * 1024"

definition KERNEL_INBOX_UNREADABLE_HEAD_LIMIT :: nat where
  "KERNEL_INBOX_UNREADABLE_HEAD_LIMIT = 100"

definition KERNEL_INGRESS_MAINTENANCE_SETTING :: string where
  "KERNEL_INGRESS_MAINTENANCE_SETTING = ''epoch.maintenance_ingress_closed''"

text \<open>\<open>/^[a-z][a-z0-9._/-]{0,99}$/\<close> and \<open>/^[a-z][a-z0-9._/-]*(?:@[1-9][0-9]*)?$/\<close>\<close>

definition name_char :: "char \<Rightarrow> bool" where
  "name_char c \<longleftrightarrow> is_lower_digit c \<or> c \<in> set ''._/-''"

definition PROVIDER :: "string \<Rightarrow> bool" where
  "PROVIDER s = (case s of [] \<Rightarrow> False | c # cs \<Rightarrow> is_lower c \<and> length cs \<le> 99 \<and> all_in name_char cs)"

definition KIND :: "string \<Rightarrow> bool" where
  "KIND s =
     (let name = takeWhile (\<lambda>c. c \<noteq> CHR ''@'') s; rest = dropWhile (\<lambda>c. c \<noteq> CHR ''@'') s in
      (case name of [] \<Rightarrow> False | c # cs \<Rightarrow> is_lower c \<and> all_in name_char cs) \<and>
      (case rest of
         [] \<Rightarrow> True
       | _ # digits \<Rightarrow> digits \<noteq> [] \<and> all_in is_digit digits \<and> hd digits \<noteq> CHR ''0''))"

datatype inbox_status = InboxPending | InboxProcessing | InboxConsumed | InboxStale | InboxDead

text \<open>The columns of a row that \<open>immutableProjection\<close> collects.\<close>

record inbox_intent =
  ii_source_provider :: string
  ii_delivery_id :: string
  ii_kind :: string
  ii_work_item_id :: "string option"
  ii_pipeline_run_id :: "string option"
  ii_attempt_id :: "string option"
  ii_generation :: int
  ii_event_group_key :: string
  ii_delivery_attempt :: int
  ii_subject :: "string option"
  ii_payload_hash :: string
  ii_payload_schema :: string

record inbox_row =
  ir_id :: string
  ir_intent :: inbox_intent
  ir_payload :: payload_columns
  ir_status :: inbox_status
  ir_available_at :: string
  ir_lease_id :: "string option"
  ir_lease_owner :: "string option"
  ir_lease_expires :: "string option"
  ir_version :: int
  ir_created_at :: string
  ir_consumed_at :: "string option"

record setting_row =
  sg_key :: string
  sg_value :: string
  sg_type :: string
  sg_mutable :: int
  sg_version :: int
  sg_updated_at :: string

record inbox_database =
  ib_events :: "inbox_row list"
  ib_settings :: "setting_row list"

text \<open>An event as its readers see it: the columns of its row, and the payload read back.\<close>

record inbox_event =
  ev_row :: inbox_row
  ev_payload :: json

record inbox_input =
  in_id :: "string option"
  in_source_provider :: string
  in_delivery_id :: string
  in_kind :: string
  in_work_item_id :: "string option"
  in_pipeline_run_id :: "string option"
  in_attempt_id :: "string option"
  in_generation :: int
  in_event_group_key :: string
  in_delivery_attempt :: int
  in_subject :: "string option"
  in_payload_schema :: string
  in_payload :: json
  in_available_at :: "string option"

section \<open>Constraints\<close>

definition inbox_check :: "inbox_row \<Rightarrow> bool" where
  "inbox_check r \<longleftrightarrow>
     (let i = ir_intent r in
      between 1 (ir_id r) 200 \<and> between 1 (ii_source_provider i) 100 \<and> between 1 (ii_delivery_id i) 500 \<and>
      between 1 (ii_kind i) 200 \<and> ii_generation i \<ge> 0 \<and> between 1 (ii_event_group_key i) 500 \<and>
      ii_delivery_attempt i \<ge> 1 \<and> hash_check (ii_payload_hash i) \<and> between 1 (ii_payload_schema i) 200 \<and>
      payload_check (ii_payload_schema i) (ir_payload r) \<and> time_check (ir_available_at r) \<and> ir_version r \<ge> 0 \<and>
      time_check (ir_created_at r) \<and>
      (ir_lease_id r = None \<and> ir_lease_owner r = None \<and> ir_lease_expires r = None \<or>
       ir_lease_id r \<noteq> None \<and> ir_lease_owner r \<noteq> None \<and> ir_lease_expires r \<noteq> None))"

definition delivery_key :: "inbox_row \<Rightarrow> string \<times> string" where
  "delivery_key r = (ii_source_provider (ir_intent r), ii_delivery_id (ir_intent r))"

definition inbox_schema :: "inbox_row table_schema" where
  "inbox_schema =
     \<lparr>ts_check = inbox_check,
      ts_unique = \<lambda>rows. distinct (map ir_id rows) \<and> distinct (map delivery_key rows)\<rparr>"

definition setting_check :: "setting_row \<Rightarrow> bool" where
  "setting_check s \<longleftrightarrow>
     between 1 (sg_key s) 200 \<and> json_valid (sg_value s) \<and>
     sg_type s \<in> set [''string'', ''number'', ''boolean'', ''json''] \<and> sg_mutable s \<in> {0, 1} \<and>
     sg_version s \<ge> 0 \<and> time_check (sg_updated_at s) \<and>
     (case json_parse (sg_value s) of
        None \<Rightarrow> False
      | Some v \<Rightarrow>
          sg_type s = ''json'' \<or> sg_type s = ''string'' \<and> (case v of JStr _ \<Rightarrow> True | _ \<Rightarrow> False) \<or>
          sg_type s = ''number'' \<and> (case v of JNum _ \<Rightarrow> True | _ \<Rightarrow> False) \<or>
          sg_type s = ''boolean'' \<and> (case v of JBool _ \<Rightarrow> True | _ \<Rightarrow> False))"

definition setting_schema :: "setting_row table_schema" where
  "setting_schema = \<lparr>ts_check = setting_check, ts_unique = \<lambda>rows. distinct (map sg_key rows)\<rparr>"

text \<open>
  The clock, the volume of the blobs, the identity of the next file that the volume creates, and the rows
  of other tables that an event may refer to.
\<close>

record inbox_env =
  ie_now :: string
  ie_identity :: "int \<times> int"
  ie_refers :: "inbox_row \<Rightarrow> bool"

definition inbox_keys :: "inbox_env \<Rightarrow> inbox_database \<Rightarrow> bool" where
  "inbox_keys env db \<longleftrightarrow> list_all (ie_refers env) (ib_events db)"

section \<open>Readers\<close>

definition bounded :: "string \<Rightarrow> string \<Rightarrow> nat \<Rightarrow> (string \<Rightarrow> bool) \<Rightarrow> unit result" where
  "bounded value name maximum pattern =
     (if length value < 1 \<or> length value > maximum \<or> CHR 0x00 \<in> set value \<or> \<not> pattern value
        then throwM (name @ '' is invalid'')
      else Inr ())"

definition iso :: "string \<Rightarrow> string \<Rightarrow> string result" where
  "iso value name =
     (if canonical_ms value = None then throwM (name @ '' must be a canonical ISO timestamp'') else Inr value)"

text \<open>Every failure of \<open>pointer\<close> is a corruption of the row, whatever its text.\<close>

definition inbox_pointer :: "inbox_row \<Rightarrow> blob_pointer option result" where
  "inbox_pointer row =
     bindE (payloadPointer (ir_payload row)) (\<lambda>p.
     case p of
       None \<Rightarrow> Inr None
     | Some blob \<Rightarrow> bindE (validateBlobPointer blob) (\<lambda>valid. Inr (Some valid)))"

definition inbox_raw :: "volume \<Rightarrow> inbox_row \<Rightarrow> string result" where
  "inbox_raw vol row =
     (case inbox_pointer row of
        Inl _ \<Rightarrow> Inl (InboxPayloadCorruption (ir_id row) ''pointer'')
      | Inr None \<Rightarrow>
          (case pc_inline (ir_payload row) of
             None \<Rightarrow> Inl (InboxPayloadCorruption (ir_id row) ''payload is missing'')
           | Some t \<Rightarrow> Inr t)
      | Inr (Some blob) \<Rightarrow>
          (case blob_read vol blob of
             Inl (BlobIntegrityError digest detail) \<Rightarrow> Inl (InboxPayloadCorruption (ir_id row) detail)
           | Inl e \<Rightarrow> Inl e
           | Inr obj \<Rightarrow> Inr (bo_text obj)))"

definition readEvent :: "volume \<Rightarrow> inbox_row \<Rightarrow> inbox_event result" where
  "readEvent vol row =
     bindE (inbox_raw vol row) (\<lambda>raw.
     case Option.bind (json_parse raw) (\<lambda>v. case jsonAt (Some v) ''payload'' of Inl _ \<Rightarrow> None | Inr p \<Rightarrow> Some p) of
       None \<Rightarrow> Inl (InboxPayloadCorruption (ir_id row) ''payload is not valid JSON'')
     | Some payload \<Rightarrow>
         if digestCanonicalJson payload \<noteq> ii_payload_hash (ir_intent row) \<or> canonicalJson payload \<noteq> raw
           then Inl (InboxPayloadCorruption (ir_id row) ''payload hash or canonical bytes mismatch'')
         else Inr \<lparr>ev_row = row, ev_payload = payload\<rparr>)"

definition inboxRow :: "string \<Rightarrow> inbox_database \<Rightarrow> inbox_row option" where
  "inboxRow i db = first_row (\<lambda>r. ir_id r = i) (ib_events db)"

definition get_event :: "volume \<Rightarrow> string \<Rightarrow> inbox_database \<Rightarrow> inbox_event option result" where
  "get_event vol eventId db =
     bindE (bounded eventId ''inbox event ID'' 200 RECORD_ID) (\<lambda>_.
     case inboxRow eventId db of
       None \<Rightarrow> Inr None
     | Some row \<Rightarrow> bindE (readEvent vol row) (\<lambda>e. Inr (Some e)))"

section \<open>Maintenance\<close>

record maintenance_fence =
  mf_closed :: bool
  mf_version :: int
  mf_updated_at :: "string option"

definition getMaintenanceFence :: "inbox_database \<Rightarrow> maintenance_fence result" where
  "getMaintenanceFence db =
     (case first_row (\<lambda>s. sg_key s = KERNEL_INGRESS_MAINTENANCE_SETTING) (ib_settings db) of
        None \<Rightarrow> Inr \<lparr>mf_closed = False, mf_version = 0, mf_updated_at = None\<rparr>
      | Some s \<Rightarrow>
          if sg_type s \<noteq> ''boolean'' \<or> sg_mutable s \<noteq> 1
            then throwM ''kernel ingress maintenance setting has invalid ownership''
          else
            bindE (parse_persisted (sg_value s) ''kernel ingress maintenance setting'') (\<lambda>v.
            case v of
              JBool closed \<Rightarrow>
                Inr \<lparr>mf_closed = closed, mf_version = sg_version s, mf_updated_at = Some (sg_updated_at s)\<rparr>
            | _ \<Rightarrow> throwM ''kernel ingress maintenance setting is invalid''))"

definition bool_text :: "bool \<Rightarrow> string" where
  "bool_text b = (if b then ''true'' else ''false'')"

definition setMaintenanceFence_body ::
  "inbox_env \<Rightarrow> bool \<Rightarrow> int option \<Rightarrow> inbox_database \<Rightarrow> (maintenance_fence \<times> inbox_database) result" where
  "setMaintenanceFence_body env closed expected_version db =
     bindE (getMaintenanceFence db) (\<lambda>current.
     if expected_version \<noteq> None \<and> expected_version \<noteq> Some (mf_version current)
       then throwM ''kernel ingress maintenance compare-and-set failed''
     else if mf_closed current = closed \<and> mf_updated_at current \<noteq> None then Inr (current, db)
     else
       bindE (iso (ie_now env) ''maintenance timestamp'') (\<lambda>timestamp.
       bindE (if mf_updated_at current = None
           then insertE setting_schema
             \<lparr>sg_key = KERNEL_INGRESS_MAINTENANCE_SETTING, sg_value = bool_text closed, sg_type = ''boolean'',
              sg_mutable = 1, sg_version = 1, sg_updated_at = timestamp\<rparr> (ib_settings db)
           else
             bindE (updateE setting_schema
                 (\<lambda>s. sg_key s = KERNEL_INGRESS_MAINTENANCE_SETTING \<and>
                    (sg_mutable s = 1 \<and> sg_version s = mf_version current))
                 (\<lambda>s. s\<lparr>sg_value := bool_text closed, sg_version := sg_version s + 1, sg_updated_at := timestamp\<rparr>)
                 (ib_settings db)) (\<lambda>(rows, changes).
             if changes \<noteq> 1 then throwM ''kernel ingress maintenance compare-and-set failed'' else Inr rows))
         (\<lambda>rows.
       let db' = db\<lparr>ib_settings := rows\<rparr> in
       bindE (getMaintenanceFence db') (\<lambda>fence. Inr (fence, db')))))"

definition setMaintenanceFence ::
  "inbox_env \<Rightarrow> bool \<Rightarrow> int option \<Rightarrow> inbox_database \<Rightarrow> (maintenance_fence \<times> inbox_database) result" where
  "setMaintenanceFence env closed expected_version =
     transaction (inbox_keys env) (setMaintenanceFence_body env closed expected_version)"

section \<open>Ingesting\<close>

record normalized_input =
  ni_id :: string
  ni_input :: inbox_input
  ni_payload :: json
  ni_available_at :: string

definition optional_id :: "string option \<Rightarrow> string \<Rightarrow> unit result" where
  "optional_id value name =
     (case value of None \<Rightarrow> Inr () | Some v \<Rightarrow> bounded v (''inbox '' @ name) 200 RECORD_ID)"

definition normalizeInput :: "inbox_env \<Rightarrow> inbox_input \<Rightarrow> normalized_input result" where
  "normalizeInput env input =
     bindE (bounded (in_source_provider input) ''inbox source_provider'' 100 PROVIDER) (\<lambda>_.
     bindE (bounded (in_delivery_id input) ''inbox delivery_id'' 500 any_format) (\<lambda>_.
     bindE (bounded (in_kind input) ''inbox kind'' 200 KIND) (\<lambda>_.
     bindE (bounded (in_event_group_key input) ''inbox event_group_key'' 500 any_format) (\<lambda>_.
     bindE (bounded (in_payload_schema input) ''inbox payload_schema'' 200 any_format) (\<lambda>_.
     if \<not> isSafeInteger (in_generation input) \<or> in_generation input < 0
       then throwM ''inbox generation must be a nonnegative integer''
     else if \<not> isSafeInteger (in_delivery_attempt input) \<or> in_delivery_attempt input < 1
       then throwM ''inbox delivery_attempt must be positive''
     else if in_attempt_id input \<noteq> None \<and> in_pipeline_run_id input = None
       then throwM ''attempt-bound inbox events require a pipeline run''
     else
       bindE (optional_id (in_work_item_id input) ''work_item_id'') (\<lambda>_.
       bindE (optional_id (in_pipeline_run_id input) ''pipeline_run_id'') (\<lambda>_.
       bindE (optional_id (in_attempt_id input) ''attempt_id'') (\<lambda>_.
       bindE (case in_subject input of None \<Rightarrow> Inr () | Some s \<Rightarrow> bounded s ''inbox subject'' 500 any_format) (\<lambda>_.
       bindE (jsonAt (Some (in_payload input)) ''inbox.payload'') (\<lambda>payload.
       let ident = (case in_id input of
             Some i \<Rightarrow> i
           | None \<Rightarrow> ''inbox-'' @ take 48 (digestCanonicalJson
               (JObj [(''source_provider'', JStr (in_source_provider input)),
                  (''delivery_id'', JStr (in_delivery_id input))]))) in
       bindE (bounded ident ''inbox event ID'' 200 RECORD_ID) (\<lambda>_.
       bindE (iso (case in_available_at input of Some t \<Rightarrow> t | None \<Rightarrow> ie_now env) ''inbox available_at'') (\<lambda>available.
       Inr \<lparr>ni_id = ident, ni_input = input, ni_payload = payload, ni_available_at = available\<rparr>))))))))))))"

record prepared_payload =
  pp_hash :: string
  pp_inline :: "string option"
  pp_token :: "blob_token option"

definition preparePayload :: "inbox_env \<Rightarrow> volume \<Rightarrow> json \<Rightarrow> string \<Rightarrow> (prepared_payload \<times> volume) result" where
  "preparePayload env vol payload payloadSchema =
     (let canonical = canonicalJson payload; bytes = byteLength canonical; hash = digestCanonicalJson payload in
      if bytes > KERNEL_INBOX_MAX_PAYLOAD_BYTES
        then throwM (''inbox payload exceeds '' @ string_of_int KERNEL_INBOX_MAX_PAYLOAD_BYTES @ '' bytes'')
      else if bytes \<le> KERNEL_INBOX_INLINE_PAYLOAD_MAX_BYTES
        then Inr (\<lparr>pp_hash = hash, pp_inline = Some canonical, pp_token = None\<rparr>, vol)
      else
        bindE (blob_put vol canonical ''application/json'' payloadSchema (Some hash) (ie_identity env)) (\<lambda>(held, vol').
        Inr (\<lparr>pp_hash = hash, pp_inline = None, pp_token = Some held\<rparr>, vol')))"

definition payloadColumns :: "volume \<Rightarrow> prepared_payload \<Rightarrow> payload_columns result" where
  "payloadColumns vol prepared =
     (case pp_token prepared of
        None \<Rightarrow> Inr \<lparr>pc_inline = pp_inline prepared, pc_algorithm = None, pc_digest = None, pc_bytes = None,
          pc_encoding = None, pc_media_type = None, pc_payload_schema = None\<rparr>
      | Some held \<Rightarrow>
          bindE (assertToken vol held None) (\<lambda>p.
          Inr \<lparr>pc_inline = None, pc_algorithm = Some ''sha256'', pc_digest = Some (bp_digest p),
            pc_bytes = Some (bp_bytes p), pc_encoding = Some (bp_encoding p),
            pc_media_type = Some (bp_media_type p), pc_payload_schema = Some (bp_payload_schema p)\<rparr>))"

definition intended :: "normalized_input \<Rightarrow> prepared_payload \<Rightarrow> inbox_intent" where
  "intended n prepared =
     (let i = ni_input n in
      \<lparr>ii_source_provider = in_source_provider i, ii_delivery_id = in_delivery_id i, ii_kind = in_kind i,
       ii_work_item_id = in_work_item_id i, ii_pipeline_run_id = in_pipeline_run_id i,
       ii_attempt_id = in_attempt_id i, ii_generation = in_generation i,
       ii_event_group_key = in_event_group_key i, ii_delivery_attempt = in_delivery_attempt i,
       ii_subject = in_subject i, ii_payload_hash = pp_hash prepared, ii_payload_schema = in_payload_schema i\<rparr>)"

definition json_of_intent :: "inbox_intent \<Rightarrow> json" where
  "json_of_intent i =
     JObj [(''source_provider'', JStr (ii_source_provider i)), (''delivery_id'', JStr (ii_delivery_id i)),
       (''kind'', JStr (ii_kind i)), (''work_item_id'', json_opt (ii_work_item_id i)),
       (''pipeline_run_id'', json_opt (ii_pipeline_run_id i)), (''attempt_id'', json_opt (ii_attempt_id i)),
       (''generation'', json_int (ii_generation i)), (''event_group_key'', JStr (ii_event_group_key i)),
       (''delivery_attempt'', json_int (ii_delivery_attempt i)), (''subject'', json_opt (ii_subject i)),
       (''payload_hash'', JStr (ii_payload_hash i)), (''payload_schema'', JStr (ii_payload_schema i))]"

definition sameSemanticEvent :: "inbox_intent \<Rightarrow> inbox_intent \<Rightarrow> bool" where
  "sameSemanticEvent a b \<longleftrightarrow>
     ii_kind a = ii_kind b \<and> ii_work_item_id a = ii_work_item_id b \<and>
     ii_pipeline_run_id a = ii_pipeline_run_id b \<and> ii_attempt_id a = ii_attempt_id b \<and>
     ii_generation a = ii_generation b \<and> ii_subject a = ii_subject b \<and>
     ii_payload_schema a = ii_payload_schema b \<and> ii_payload_hash a = ii_payload_hash b"

definition event_group :: "inbox_row \<Rightarrow> string \<times> string" where
  "event_group r = (ii_source_provider (ir_intent r), ii_event_group_key (ir_intent r))"

datatype ingest_result =
    MaintenanceClosed
  | Duplicate inbox_event
  | Reordered inbox_event
  | Inserted inbox_event

definition new_event_row :: "normalized_input \<Rightarrow> inbox_intent \<Rightarrow> payload_columns \<Rightarrow> inbox_status \<Rightarrow> string \<Rightarrow> inbox_row" where
  "new_event_row n intent columns status timestamp =
     \<lparr>ir_id = ni_id n, ir_intent = intent, ir_payload = columns, ir_status = status,
      ir_available_at = ni_available_at n, ir_lease_id = None, ir_lease_owner = None, ir_lease_expires = None,
      ir_version = 0, ir_created_at = timestamp,
      ir_consumed_at = (if status = InboxStale then Some timestamp else None)\<rparr>"

definition ingest_new ::
  "inbox_env \<Rightarrow> volume \<Rightarrow> normalized_input \<Rightarrow> prepared_payload \<Rightarrow> inbox_database \<Rightarrow>
   (ingest_result \<times> inbox_database) result" where
  "ingest_new env vol n prepared db =
     (let intent = intended n prepared in
      bindE (case ordered_rows (\<lambda>r. (ii_delivery_attempt (ir_intent r), ir_created_at r, ir_id r))
             (\<lambda>r. event_group r = (ii_source_provider intent, ii_event_group_key intent)) (ib_events db) of
          [] \<Rightarrow> Inr InboxPending
        | first # _ \<Rightarrow>
            if \<not> sameSemanticEvent (ir_intent first) intent
              then throwM (''inbox group '' @ ii_source_provider intent @ '':'' @ ii_event_group_key intent @
                '' changed intent'')
            else Inr InboxStale) (\<lambda>status.
      bindE (payloadColumns vol prepared) (\<lambda>columns.
      bindE (iso (ie_now env) ''inbox created_at'') (\<lambda>timestamp.
      let row = new_event_row n intent columns status timestamp in
      bindE (insertE inbox_schema row (ib_events db)) (\<lambda>rows.
      bindE (readEvent vol row) (\<lambda>event.
      Inr (if status = InboxStale then Reordered event else Inserted event, db\<lparr>ib_events := rows\<rparr>)))))))"

definition ingest_body ::
  "inbox_env \<Rightarrow> volume \<Rightarrow> normalized_input \<Rightarrow> prepared_payload \<Rightarrow> inbox_database \<Rightarrow>
   (ingest_result \<times> inbox_database) result" where
  "ingest_body env vol n prepared db =
     bindE (getMaintenanceFence db) (\<lambda>fence.
     if mf_closed fence then Inr (MaintenanceClosed, db)
     else
       let intent = intended n prepared in
       (case first_row (\<lambda>r. delivery_key r = (ii_source_provider intent, ii_delivery_id intent)) (ib_events db) of
          Some existing \<Rightarrow>
            if canonicalJson (json_of_intent (ir_intent existing)) \<noteq> canonicalJson (json_of_intent intent)
              then throwM (''inbox delivery '' @ ii_source_provider intent @ '':'' @ ii_delivery_id intent @
                '' changed intent'')
            else bindE (readEvent vol existing) (\<lambda>event. Inr (Duplicate event, db))
        | None \<Rightarrow> ingest_new env vol n prepared db))"

text \<open>What happens before the transaction; nothing when the ingress is closed.\<close>

definition prepare_ingest ::
  "inbox_env \<Rightarrow> volume \<Rightarrow> inbox_input \<Rightarrow> inbox_database \<Rightarrow>
   (normalized_input \<times> prepared_payload \<times> volume) option result" where
  "prepare_ingest env vol input db =
     bindE (getMaintenanceFence db) (\<lambda>fence.
     if mf_closed fence then Inr None
     else
       bindE (normalizeInput env input) (\<lambda>n.
       bindE (preparePayload env vol (ni_payload n) (in_payload_schema input)) (\<lambda>(prepared, vol').
       Inr (Some (n, prepared, vol')))))"

text \<open>
  The volume after an ingest is the second component: a file that was published stays when the transaction
  fails.
\<close>

definition ingest ::
  "inbox_env \<Rightarrow> volume \<Rightarrow> inbox_input \<Rightarrow> inbox_database \<Rightarrow> (ingest_result \<times> inbox_database) result \<times> volume" where
  "ingest env vol input db =
     (case prepare_ingest env vol input db of
        Inl e \<Rightarrow> (Inl e, vol)
      | Inr None \<Rightarrow> (Inr (MaintenanceClosed, db), vol)
      | Inr (Some (n, prepared, vol')) \<Rightarrow>
          (transaction (inbox_keys env) (ingest_body env vol' n prepared) db, vol'))"

section \<open>Delivering\<close>

definition released :: "inbox_row \<Rightarrow> inbox_row" where
  "released r = r\<lparr>ir_lease_id := None, ir_lease_owner := None, ir_lease_expires := None, ir_version := ir_version r + 1\<rparr>"

definition expired_event :: "string \<Rightarrow> inbox_row \<Rightarrow> bool" where
  "expired_event now r \<longleftrightarrow>
     ir_status r = InboxProcessing \<and> (case ir_lease_expires r of None \<Rightarrow> False | Some t \<Rightarrow> t \<le> now)"

definition deadLetterUnreadable :: "inbox_row \<Rightarrow> string \<Rightarrow> inbox_database \<Rightarrow> inbox_database result" where
  "deadLetterUnreadable row consumedAt db =
     bindE (updateE inbox_schema
         (\<lambda>r. ir_id r = ir_id row \<and> (ir_version r = ir_version row \<and> ir_status r = InboxProcessing))
         (\<lambda>r. (released r)\<lparr>ir_status := InboxDead, ir_consumed_at := Some consumedAt\<rparr>) (ib_events db)) (\<lambda>(rows, changes).
     if changes \<noteq> 1
       then throwM (''unreadable inbox event '' @ ir_id row @ '' dead-letter compare-and-set failed'')
     else Inr (db\<lparr>ib_events := rows\<rparr>))"

record inbox_lease =
  il_owner_id :: string
  il_lease_id :: string
  il_expires_at :: string

definition leased_event_row :: "inbox_lease \<Rightarrow> inbox_row \<Rightarrow> inbox_row" where
  "leased_event_row l r =
     r\<lparr>ir_status := InboxProcessing, ir_lease_id := Some (il_lease_id l), ir_lease_owner := Some (il_owner_id l),
       ir_lease_expires := Some (il_expires_at l), ir_version := ir_version r + 1\<rparr>"

definition due_events :: "string \<Rightarrow> inbox_database \<Rightarrow> inbox_row list" where
  "due_events now db =
     ordered_rows (\<lambda>r. (ir_available_at r, ir_created_at r, ir_id r))
       (\<lambda>r. ir_status r = InboxPending \<and> ir_lease_id r = None \<and> ir_available_at r \<le> now) (ib_events db)"

text \<open>Handing out a row that holds the lease, or burying it when it cannot be read: then the loop goes on.\<close>

definition hand_out ::
  "volume \<Rightarrow> string \<Rightarrow> inbox_row \<Rightarrow> inbox_database \<Rightarrow> (inbox_event option \<times> inbox_database) result" where
  "hand_out vol now row db =
     (case readEvent vol row of
        Inr event \<Rightarrow> Inr (Some event, db)
      | Inl (InboxPayloadCorruption _ _) \<Rightarrow> bindE (deadLetterUnreadable row now db) (\<lambda>db'. Inr (None, db'))
      | Inl e \<Rightarrow> Inl e)"

fun lease_loop ::
  "nat \<Rightarrow> volume \<Rightarrow> inbox_lease \<Rightarrow> string \<Rightarrow> inbox_database \<Rightarrow> (inbox_event option \<times> inbox_database) result" where
  "lease_loop 0 vol l now db = Inr (None, db)"
| "lease_loop (Suc n) vol l now db =
     (case first_row (\<lambda>r. ir_lease_id r = Some (il_lease_id l)) (ib_events db) of
        Some replay \<Rightarrow>
          if ir_lease_owner replay \<noteq> Some (il_owner_id l) \<or> ir_lease_expires replay \<noteq> Some (il_expires_at l)
            then throwM (''inbox lease '' @ il_lease_id l @ '' conflicts with its replay'')
          else
            bindE (hand_out vol now replay db) (\<lambda>(event, db').
            case event of Some e \<Rightarrow> Inr (Some e, db') | None \<Rightarrow> lease_loop n vol l now db')
      | None \<Rightarrow>
          (case due_events now db of
             [] \<Rightarrow> Inr (None, db)
           | row # _ \<Rightarrow>
               bindE (updateE inbox_schema
                   (\<lambda>r. ir_id r = ir_id row \<and>
                      (ir_version r = ir_version row \<and> ir_status r = InboxPending \<and> ir_lease_id r = None))
                   (leased_event_row l) (ib_events db)) (\<lambda>(rows, changes).
               if changes \<noteq> 1 then throwM (''inbox event '' @ ir_id row @ '' lease race'')
               else
                 let db1 = db\<lparr>ib_events := rows\<rparr> in
                 bindE (cast ''inbox event'' (inboxRow (ir_id row) db1)) (\<lambda>leased.
                 bindE (hand_out vol now leased db1) (\<lambda>(event, db2).
                 case event of Some e \<Rightarrow> Inr (Some e, db2) | None \<Rightarrow> lease_loop n vol l now db2)))))"

definition leaseNext_body ::
  "inbox_env \<Rightarrow> volume \<Rightarrow> inbox_lease \<Rightarrow> inbox_database \<Rightarrow> (inbox_event option \<times> inbox_database) result" where
  "leaseNext_body env vol l db =
     bindE (iso (ie_now env) ''inbox lease timestamp'') (\<lambda>now.
     bindE (updateE inbox_schema (expired_event now) (\<lambda>r. (released r)\<lparr>ir_status := InboxPending\<rparr>) (ib_events db))
       (\<lambda>(rows, _).
     lease_loop KERNEL_INBOX_UNREADABLE_HEAD_LIMIT vol l now (db\<lparr>ib_events := rows\<rparr>)))"

definition leaseNext ::
  "inbox_env \<Rightarrow> volume \<Rightarrow> inbox_lease \<Rightarrow> inbox_database \<Rightarrow> (inbox_event option \<times> inbox_database) result" where
  "leaseNext env vol l db =
     bindE (bounded (il_owner_id l) ''inbox lease owner'' 200 RECORD_ID) (\<lambda>_.
     bindE (bounded (il_lease_id l) ''inbox lease ID'' 200 RECORD_ID) (\<lambda>_.
     bindE (iso (il_expires_at l) ''inbox lease expiry'') (\<lambda>_.
     transaction (inbox_keys env) (leaseNext_body env vol l) db)))"

section \<open>Settling\<close>

record inbox_claim =
  ic_event_id :: string
  ic_owner_id :: string
  ic_lease_id :: string

definition claim_shape :: "inbox_claim \<Rightarrow> string \<Rightarrow> unit result" where
  "claim_shape c name =
     bindE (bounded (ic_event_id c) ''inbox event ID'' 200 RECORD_ID) (\<lambda>_.
     bindE (bounded (ic_owner_id c) (''inbox '' @ name @ '' owner'') 200 RECORD_ID) (\<lambda>_.
     bounded (ic_lease_id c) (''inbox '' @ name @ '' lease ID'') 200 RECORD_ID))"

definition claims_event :: "inbox_claim \<Rightarrow> inbox_row \<Rightarrow> bool" where
  "claims_event c r \<longleftrightarrow>
     ir_status r = InboxProcessing \<and> ir_lease_id r = Some (ic_lease_id c) \<and> ir_lease_owner r = Some (ic_owner_id c)"

definition complete_body ::
  "inbox_claim \<Rightarrow> inbox_status \<Rightarrow> string \<Rightarrow> inbox_database \<Rightarrow> (unit \<times> inbox_database) result" where
  "complete_body c outcome timestamp db =
     bindE (updateE inbox_schema (\<lambda>r. ir_id r = ic_event_id c \<and> claims_event c r)
         (\<lambda>r. (released r)\<lparr>ir_status := outcome, ir_consumed_at := Some timestamp\<rparr>) (ib_events db)) (\<lambda>(rows, changes).
     if changes = 1 then Inr ((), db\<lparr>ib_events := rows\<rparr>)
     else
       let db' = db\<lparr>ib_events := rows\<rparr> in
       (case inboxRow (ic_event_id c) db' of
          None \<Rightarrow> throwM ''inbox completion lease fence does not match''
        | Some settled \<Rightarrow>
            if ir_status settled = outcome \<and> ir_consumed_at settled \<noteq> None \<and> ir_lease_id settled = None \<and>
               ir_lease_owner settled = None \<and> ir_lease_expires settled = None
              then Inr ((), db')
            else throwM ''inbox completion lease fence does not match''))"

text \<open>The outcome is \<open>consumed\<close>, \<open>stale\<close> or \<open>dead\<close>; the source has it in the type.\<close>

definition complete_event ::
  "inbox_env \<Rightarrow> inbox_claim \<Rightarrow> inbox_status \<Rightarrow> inbox_database \<Rightarrow> (unit \<times> inbox_database) result" where
  "complete_event env c outcome db =
     bindE (claim_shape c ''completion'') (\<lambda>_.
     bindE (iso (ie_now env) ''inbox completion timestamp'') (\<lambda>timestamp.
     transaction (inbox_keys env) (complete_body c outcome timestamp) db))"

definition retry_event ::
  "inbox_env \<Rightarrow> inbox_claim \<Rightarrow> string \<Rightarrow> inbox_database \<Rightarrow> inbox_database result" where
  "retry_event env c available_at db =
     bindE (claim_shape c ''retry'') (\<lambda>_.
     bindE (iso available_at ''inbox retry available_at'') (\<lambda>available.
     bindE (iso (ie_now env) ''inbox retry timestamp'') (\<lambda>now.
     if \<not> (\<exists>a \<in> set_option (canonical_ms available). \<forall>n \<in> set_option (canonical_ms now). n < a)
       then throwM ''inbox retry available_at must be in the future''
     else
       bindE (updateE inbox_schema (\<lambda>r. ir_id r = ic_event_id c \<and> claims_event c r)
           (\<lambda>r. (released r)\<lparr>ir_status := InboxPending, ir_available_at := available, ir_consumed_at := None\<rparr>)
           (ib_events db)) (\<lambda>(rows, changes).
       if changes \<noteq> 1 then throwM ''inbox retry lease fence does not match''
       else Inr (db\<lparr>ib_events := rows\<rparr>)))))"

text \<open>\<open>listConsumedAt\<close>: the rows latest first; an unreadable one is reported and left out.\<close>

fun readable_events :: "volume \<Rightarrow> inbox_row list \<Rightarrow> (inbox_event list \<times> bool) result" where
  "readable_events vol [] = Inr ([], False)"
| "readable_events vol (row # rows) =
     (case readEvent vol row of
        Inl (InboxPayloadCorruption _ _) \<Rightarrow> bindE (readable_events vol rows) (\<lambda>(es, _). Inr (es, True))
      | Inl e \<Rightarrow> Inl e
      | Inr event \<Rightarrow> bindE (readable_events vol rows) (\<lambda>(es, corrupt). Inr (event # es, corrupt)))"

definition listConsumedAt ::
  "volume \<Rightarrow> string \<Rightarrow> string list \<Rightarrow> string \<Rightarrow> int \<Rightarrow> inbox_database \<Rightarrow> (inbox_event list \<times> bool \<times> bool) result" where
  "listConsumedAt vol source_provider kinds consumed_at maximum db =
     bindE (bounded source_provider ''inbox observation source_provider'' 100 PROVIDER) (\<lambda>_.
     bindE (iso consumed_at ''inbox observation consumed_at'') (\<lambda>_.
     if \<not> isSafeInteger maximum \<or> maximum < 1 \<or> maximum > 100 \<or> length kinds < 1 \<or> length kinds > 20
       then throwM ''inbox observation bounds are invalid''
     else
       bindE (forE (\<lambda>kind. bounded kind ''inbox observation kind'' 200 KIND) kinds) (\<lambda>_.
       let rows = take (nat maximum + 1) (rev (ordered_rows (\<lambda>r. (ir_created_at r, ir_id r))
             (\<lambda>r. ii_source_provider (ir_intent r) = source_provider \<and> ii_kind (ir_intent r) \<in> set kinds \<and>
                ir_status r = InboxConsumed \<and> ir_consumed_at r = Some consumed_at) (ib_events db))) in
       bindE (readable_events vol (take (nat maximum) rows)) (\<lambda>(events, corrupt).
       Inr (events, int (length rows) > maximum, corrupt)))))"

end
