(* ===== verification/Admission.thy ===== *)
theory Admission
  imports KernelTransactions Inbox
begin

text \<open>
  How runs come to be: \<open>admitPipelineRun\<close>, \<open>attachPipelineRun\<close> and \<open>findAttachedPipelineRun\<close> of
  \<open>persistence/kernel-store.ts\<close>, over the whole database of an epoch: the tables of the kernel, the inbox and
  its settings, and the definitions and work items that only admission writes.  The fault injector of the
  tests is left out.
\<close>

section \<open>The database of an epoch\<close>

datatype definition_kind =
    AgentDefinition | PipelineDefinition | SkillDefinition | EvalDefinition | ConfigDefinition | LoopDefinition

record definition_row =
  df_kind :: definition_kind
  df_id :: string
  df_source_commit :: "string option"
  df_content_hash :: string
  df_normalized :: string

datatype source_provider = LinearSource | GithubSource | OperatorSource

datatype work_item_state =
    ItemAdmitted | ItemActive | ItemCompleted | ItemNeedsHuman | ItemFailed | ItemCanceled | ItemSuperseded

record work_item_row =
  wk_id :: string
  wk_registration_id :: string
  wk_source_provider :: source_provider
  wk_source_id :: string
  wk_source_reference :: string
  wk_state :: work_item_state
  wk_title :: string
  wk_payload_schema :: string
  wk_payload :: payload_columns
  wk_version :: int
  wk_created_at :: string
  wk_updated_at :: string

text \<open>Of a repository registration only its primary key is read here.\<close>

record epoch =
  ep_kernel :: database
  ep_inbox :: inbox_database
  ep_definitions :: "definition_row list"
  ep_work_items :: "work_item_row list"
  ep_registration_ids :: "string list"

definition definition_check :: "definition_row \<Rightarrow> bool" where
  "definition_check d \<longleftrightarrow>
     between 1 (df_id d) 200 \<and> pred_option subject_check (df_source_commit d) \<and>
     hash_check (df_content_hash d) \<and> json_valid (df_normalized d)"

definition definition_identity :: "definition_row \<Rightarrow> definition_kind \<times> string \<times> string \<times> string \<times> string" where
  "definition_identity d =
     (df_kind d, df_id d, case df_source_commit d of None \<Rightarrow> [] | Some c \<Rightarrow> c, df_content_hash d, df_normalized d)"

definition definition_schema :: "definition_row table_schema" where
  "definition_schema =
     \<lparr>ts_check = definition_check, ts_unique = \<lambda>rows. distinct (map definition_identity rows)\<rparr>"

definition work_item_check :: "work_item_row \<Rightarrow> bool" where
  "work_item_check w \<longleftrightarrow>
     between 1 (wk_id w) 200 \<and> between 1 (wk_source_id w) 300 \<and> between 1 (wk_source_reference w) 300 \<and>
     between 1 (wk_title w) 1000 \<and> between 1 (wk_payload_schema w) 200 \<and>
     payload_check (wk_payload_schema w) (wk_payload w) \<and> wk_version w \<ge> 0 \<and>
     time_check (wk_created_at w) \<and> time_check (wk_updated_at w)"

definition work_item_schema :: "work_item_row table_schema" where
  "work_item_schema =
     \<lparr>ts_check = work_item_check,
      ts_unique = \<lambda>rows. distinct (map wk_id rows) \<and>
        distinct (map (\<lambda>w. (wk_source_provider w, wk_source_id w)) rows)\<rparr>"

text \<open>The foreign keys of \<open>work_items\<close> and from a run to its work item are checked by the statement itself.\<close>

definition requires_key :: "'k \<Rightarrow> 'k list \<Rightarrow> unit result" where
  "requires_key k targets =
     (if references (Some k) targets then Inr () else throwM ''FOREIGN KEY constraint failed'')"

definition in_kernel :: "(database \<Rightarrow> database result) \<Rightarrow> epoch \<Rightarrow> epoch result" where
  "in_kernel f e = bindE (f (ep_kernel e)) (\<lambda>db. Inr (e\<lparr>ep_kernel := db\<rparr>))"

section \<open>Inputs\<close>

record definition_snapshot =
  ds_kind :: definition_kind
  ds_id :: string
  ds_source_commit :: "string option"
  ds_content_hash :: string
  ds_normalized_payload :: json

record work_item_seed =
  wi_payload_schema :: string
  wi_payload :: payload_input
  wi_id :: string
  wi_registration_id :: string
  wi_source_provider :: source_provider
  wi_source_id :: string
  wi_source_reference :: string
  wi_state :: work_item_state
  wi_title :: string

record inbox_fence =
  if_event_id :: string
  if_source_provider :: string
  if_delivery_id :: string
  if_kind :: string
  if_payload_hash :: string
  if_lease_id :: string
  if_lease_owner_id :: string
  if_version :: int

record admission_input =
  ai_work_item :: work_item_seed
  ai_definitions :: "definition_snapshot list"
  ai_run :: kernel_run
  ai_bundle :: blob_token
  ai_initial_attempts :: "kernel_attempt list"
  ai_inbox :: "inbox_fence option"

record attachment_input =
  at_work_item_id :: string
  at_source_run_id :: string
  at_definitions :: "definition_snapshot list"
  at_run :: kernel_run
  at_bundle :: blob_token
  at_initial_records :: "execution_record list"
  at_initial_attempts :: "kernel_attempt list"

section \<open>The rows of a new run\<close>

definition insertDefinition :: "definition_snapshot \<Rightarrow> epoch \<Rightarrow> epoch result" where
  "insertDefinition d e =
     (let normalized = canonicalJson (ds_normalized_payload d);
          existing = filter (\<lambda>row. df_kind row = ds_kind d \<and> df_id row = ds_id d \<and>
            df_source_commit row = ds_source_commit d \<and> df_content_hash row = ds_content_hash d) (ep_definitions e) in
      if list_ex (\<lambda>row. df_normalized row = normalized) existing then Inr e
      else if list_ex (\<lambda>row. df_normalized row \<noteq> normalized) existing
        then throwM (''definition '' @ ds_id d @ '' conflicts at its immutable source'')
      else
        bindE (insertE definition_schema
            \<lparr>df_kind = ds_kind d, df_id = ds_id d, df_source_commit = ds_source_commit d,
             df_content_hash = ds_content_hash d, df_normalized = normalized\<rparr> (ep_definitions e)) (\<lambda>rows.
        Inr (e\<lparr>ep_definitions := rows\<rparr>)))"

definition insertDefinitions :: "definition_snapshot list \<Rightarrow> epoch \<Rightarrow> epoch result" where
  "insertDefinitions = foldE insertDefinition"

definition insertWorkItem :: "work_item_seed \<Rightarrow> payload_columns \<Rightarrow> string \<Rightarrow> epoch \<Rightarrow> epoch result" where
  "insertWorkItem seed payload now e =
     bindE (insertE work_item_schema
         \<lparr>wk_id = wi_id seed, wk_registration_id = wi_registration_id seed,
          wk_source_provider = wi_source_provider seed, wk_source_id = wi_source_id seed,
          wk_source_reference = wi_source_reference seed, wk_state = wi_state seed, wk_title = wi_title seed,
          wk_payload_schema = wi_payload_schema seed, wk_payload = payload, wk_version = 0,
          wk_created_at = now, wk_updated_at = now\<rparr> (ep_work_items e)) (\<lambda>rows.
     bindE (requires_key (wi_registration_id seed) (ep_registration_ids e)) (\<lambda>_.
     Inr (e\<lparr>ep_work_items := rows\<rparr>)))"

definition new_run_row :: "string \<Rightarrow> kernel_run \<Rightarrow> blob_pointer \<Rightarrow> string \<Rightarrow> run_row" where
  "new_run_row work_item run pointer now =
     with_run run
       \<lparr>rw_id = kr_id run, rw_work_item_id = work_item, rw_pipeline_id = kr_pipeline_id run,
        rw_bundle_hash = bp_digest pointer, rw_bundle_bytes = bp_bytes pointer, rw_current_subject = [],
        rw_status = RunPending, rw_terminal_outcome = None, rw_cursor_stage_id = None, rw_cursor_version = 0,
        rw_cursor_reentries = [], rw_cursor_frontier = [], rw_cursor_completed = [], rw_cursor_barrier = None,
        rw_version = 0, rw_work_retry_limit = 0, rw_result_correction_limit = 0, rw_last_transition_id = None,
        rw_last_transition_hash = None, rw_created_at = now, rw_updated_at = now\<rparr>"

definition insertRun :: "string \<Rightarrow> kernel_run \<Rightarrow> blob_pointer \<Rightarrow> string \<Rightarrow> epoch \<Rightarrow> epoch result" where
  "insertRun work_item run pointer now e =
     bindE (insertE run_schema (new_run_row work_item run pointer now) (db_runs (ep_kernel e))) (\<lambda>rows.
     bindE (requires_key work_item (map wk_id (ep_work_items e))) (\<lambda>_.
     Inr (e\<lparr>ep_kernel := (ep_kernel e)\<lparr>db_runs := rows\<rparr>\<rparr>)))"

text \<open>\<open>sortedRecord(attempts.map((attempt) => [attempt.id, attempt.version]))\<close>; a later entry of an ID replaces an earlier one.\<close>

definition attempt_versions :: "kernel_attempt list \<Rightarrow> int dict" where
  "attempt_versions attempts = sortedRecord (fold (\<lambda>a. AList.update (ka_id a) (ka_version a)) attempts [])"

text \<open>
  What both operations demand of a fresh run before their transaction begins.  Their messages differ in
  wording only; they are the ones of \<open>admitPipelineRun\<close>.
\<close>

definition assertFreshRun ::
  "store_env \<Rightarrow> kernel_run \<Rightarrow> blob_token \<Rightarrow> kernel_attempt list \<Rightarrow> blob_pointer result" where
  "assertFreshRun env run bundle attempts =
     bindE (assertToken (sv_volume env) bundle None) (\<lambda>pointer.
     if bp_digest pointer \<noteq> kr_definition_bundle_hash run \<or> bp_payload_schema pointer \<noteq> DEFINITION_BUNDLE_SCHEMA \<or>
        bp_encoding pointer \<noteq> Utf8 \<or> bp_media_type pointer \<noteq> ''application/json''
       then throwM ''pipeline run definition bundle token does not match its pinned bundle hash''
     else if canonicalJson (json_of_dict json_int (attempt_versions attempts)) \<noteq>
             canonicalJson (json_of_dict json_int (kr_active_attempt_versions run))
       then throwM (''initial attempts do not match the run'' @ [CHR 0x27] @ ''s active attempt projection'')
     else if kr_active_effect_versions run \<noteq> [] \<or> kr_checkpoint_ids run \<noteq> []
       then throwM ''a fresh pipeline run cannot contain effects or checkpoints''
     else Inr pointer)"

definition writeFreshRun :: "store_env \<Rightarrow> kernel_run \<Rightarrow> kernel_attempt list \<Rightarrow> epoch \<Rightarrow> epoch result" where
  "writeFreshRun env run attempts e =
     bindE (in_kernel (foldE (insertAttempt env) attempts) e) (\<lambda>e1.
     bindE (in_kernel (materializeDependencyReadiness (kr_cursor run)) e1) (\<lambda>e2.
     bindE (assertRunProjections run (ep_kernel e2)) (\<lambda>_. Inr e2)))"

section \<open>Admission\<close>

definition holds_fence :: "inbox_fence \<Rightarrow> inbox_row \<Rightarrow> bool" where
  "holds_fence fence r \<longleftrightarrow>
     ii_source_provider (ir_intent r) = if_source_provider fence \<and>
     ii_delivery_id (ir_intent r) = if_delivery_id fence \<and> ii_kind (ir_intent r) = if_kind fence \<and>
     ii_payload_hash (ir_intent r) = if_payload_hash fence \<and> ir_status r = InboxProcessing \<and>
     ir_lease_id r = Some (if_lease_id fence) \<and> ir_lease_owner r = Some (if_lease_owner_id fence) \<and>
     ir_version r = if_version fence \<and> ii_work_item_id (ir_intent r) = None \<and>
     ii_pipeline_run_id (ir_intent r) = None \<and> ii_attempt_id (ir_intent r) = None"

definition consumeInbox :: "string \<Rightarrow> inbox_fence \<Rightarrow> epoch \<Rightarrow> epoch result" where
  "consumeInbox now fence e =
     (if \<not> isSafeInteger (if_version fence) \<or> if_version fence < 1
        then throwM ''originating inbox admission fence has an invalid version''
      else
        bindE (updateE inbox_schema (\<lambda>r. ir_id r = if_event_id fence \<and> holds_fence fence r)
            (\<lambda>r. r\<lparr>ir_status := InboxConsumed, ir_lease_id := None, ir_lease_owner := None,
               ir_lease_expires := None, ir_version := ir_version r + 1, ir_consumed_at := Some now\<rparr>)
            (ib_events (ep_inbox e))) (\<lambda>(rows, changes).
        if changes \<noteq> 1 then throwM ''originating inbox admission fence does not match its processing lease''
        else Inr (e\<lparr>ep_inbox := (ep_inbox e)\<lparr>ib_events := rows\<rparr>\<rparr>)))"

definition epoch_transaction :: "(epoch \<Rightarrow> epoch result) \<Rightarrow> epoch \<Rightarrow> epoch result" where
  "epoch_transaction body e =
     bindE (transaction (\<lambda>e. foreign_keys (ep_kernel e)) (\<lambda>e. bindE (body e) (\<lambda>e'. Inr ((), e'))) e)
       (\<lambda>(_, e'). Inr e')"

definition admitPipelineRun_body :: "store_env \<Rightarrow> admission_input \<Rightarrow> blob_pointer \<Rightarrow> payload_columns \<Rightarrow> epoch \<Rightarrow> epoch result" where
  "admitPipelineRun_body env input pointer payload e =
     bindE (insertDefinitions (ai_definitions input) e) (\<lambda>e1.
     bindE (insertWorkItem (ai_work_item input) payload (sv_now env) e1) (\<lambda>e2.
     bindE (insertRun (wi_id (ai_work_item input)) (ai_run input) pointer (sv_now env) e2) (\<lambda>e3.
     bindE (writeFreshRun env (ai_run input) (ai_initial_attempts input) e3) (\<lambda>e4.
     case ai_inbox input of
       None \<Rightarrow> Inr e4
     | Some fence \<Rightarrow> consumeInbox (sv_now env) fence e4))))"

definition admitPipelineRun :: "store_env \<Rightarrow> admission_input \<Rightarrow> epoch \<Rightarrow> epoch result" where
  "admitPipelineRun env input e =
     bindE (assertFreshRun env (ai_run input) (ai_bundle input) (ai_initial_attempts input)) (\<lambda>pointer.
     bindE (preverifyAttemptBlobs env (ai_initial_attempts input)) (\<lambda>_.
     bindE (payloadInput env (wi_payload_schema (ai_work_item input)) (wi_payload (ai_work_item input))) (\<lambda>payload.
     epoch_transaction (admitPipelineRun_body env input pointer payload) e)))"

section \<open>Attachment\<close>

definition is_seed_record :: "kernel_run \<Rightarrow> execution_record \<Rightarrow> bool" where
  "is_seed_record run rec \<longleftrightarrow>
     rec_run rec = kr_id run \<and> (case rec of DecisionRec d \<Rightarrow> dr_input_record_ids d = [] | _ \<Rightarrow> False)"

definition attachPipelineRun_body :: "store_env \<Rightarrow> attachment_input \<Rightarrow> blob_pointer \<Rightarrow> epoch \<Rightarrow> epoch result" where
  "attachPipelineRun_body env input pointer e =
     (case first_row (\<lambda>r. rw_id r = at_source_run_id input) (db_runs (ep_kernel e)) of
        None \<Rightarrow> throwM ''attached pipeline run does not share its source work item''
      | Some source \<Rightarrow>
          if rw_work_item_id source \<noteq> at_work_item_id input
            then throwM ''attached pipeline run does not share its source work item''
          else
            bindE (insertDefinitions (at_definitions input) e) (\<lambda>e1.
            bindE (insertRun (at_work_item_id input) (at_run input) pointer (sv_now env) e1) (\<lambda>e2.
            bindE (in_kernel (foldE (\<lambda>rec. insertRecord env rec []) (at_initial_records input)) e2) (\<lambda>e3.
            writeFreshRun env (at_run input) (at_initial_attempts input) e3))))"

definition attachPipelineRun :: "store_env \<Rightarrow> attachment_input \<Rightarrow> epoch \<Rightarrow> epoch result" where
  "attachPipelineRun env input e =
     bindE (assertFreshRun env (at_run input) (at_bundle input) (at_initial_attempts input)) (\<lambda>pointer.
     if \<not> list_all (is_seed_record (at_run input)) (at_initial_records input)
       then throwM ''attached run seed records must be input-free executor decisions in the target run''
     else
       bindE (preverifyAttemptBlobs env (at_initial_attempts input)) (\<lambda>_.
       epoch_transaction (attachPipelineRun_body env input pointer) e))"

record attached_identity =
  ad_id :: string
  ad_work_item_id :: string
  ad_pipeline_id :: string
  ad_bundle_hash :: string
  ad_current_subject :: string

definition findAttachedPipelineRun :: "string \<Rightarrow> epoch \<Rightarrow> attached_identity option result" where
  "findAttachedPipelineRun ident e =
     (if \<not> RECORD_ID ident then throwM ''attached pipeline run ID is invalid''
      else Inr (map_option (\<lambda>r. \<lparr>ad_id = rw_id r, ad_work_item_id = rw_work_item_id r,
          ad_pipeline_id = rw_pipeline_id r, ad_bundle_hash = rw_bundle_hash r,
          ad_current_subject = rw_current_subject r\<rparr>)
        (first_row (\<lambda>r. rw_id r = ident) (db_runs (ep_kernel e)))))"

end
