(* ===== verification/OperatorRejection.thy ===== *)
theory OperatorRejection
  imports Admission
begin

text \<open>
  The rejection of an effect by an operator: \<open>pipeline/kernel/operator-effect-rejection.ts\<close> and
  \<open>rejectDispatchFencedUnknownEffect\<close> of \<open>persistence/kernel-store.ts\<close>.  While ingress is closed, an integration
  whose dispatch may have begun and whose outcome is unknown can be settled as rejected, when its runtime is
  the one whose key length check failed before any mutation.  The rejection is a delivery record whose
  evidence pins the versions, the dispatch fence and the runtime, and a replay has to match it exactly.
\<close>

section \<open>Constants\<close>

definition OPERATOR_EFFECT_REJECTION_RESULT_SCHEMA :: string where
  "OPERATOR_EFFECT_REJECTION_RESULT_SCHEMA = ''openthrottle.operator-effect-rejection/v1''"

definition OPERATOR_EFFECT_REJECTION_RESOLUTION_SCHEMA :: string where
  "OPERATOR_EFFECT_REJECTION_RESOLUTION_SCHEMA = ''openthrottle.operator-effect-rejection-resolution/v1''"

definition OPERATOR_EFFECT_REJECTION_DELIVERY_IDENTITY_SCHEMA :: string where
  "OPERATOR_EFFECT_REJECTION_DELIVERY_IDENTITY_SCHEMA =
     ''openthrottle.operator-effect-rejection-delivery-identity/v1''"

definition OPERATOR_EFFECT_REJECTION_REASON_CODE :: string where
  "OPERATOR_EFFECT_REJECTION_REASON_CODE = ''legacy_integration_idempotency_key_rejected_before_mutation''"

definition OPERATOR_EFFECT_REJECTION_EFFECT_KIND :: string where
  "OPERATOR_EFFECT_REJECTION_EFFECT_KIND = ''daytona/integrate-checkpoint@1''"

definition OPERATOR_EFFECT_REJECTION_RUNTIME_SNAPSHOT :: string where
  "OPERATOR_EFFECT_REJECTION_RUNTIME_SNAPSHOT = ''openthrottle-2eb524571c32''"

definition LEGACY_INTEGRATION_IDEMPOTENCY_KEY :: "string \<Rightarrow> bool" where
  "LEGACY_INTEGRATION_IDEMPOTENCY_KEY s \<longleftrightarrow> length s \<ge> 2 \<and> token ''._:/-'' (length s) s"

definition EVIDENCE_TEXT_MAX_LENGTH :: nat where
  "EVIDENCE_TEXT_MAX_LENGTH = 1500"

section \<open>Readers\<close>

abbreviation conflict :: "string \<Rightarrow> 'a result" where
  "conflict message \<equiv> Inl (OperatorRejectionConflict message)"

definition rejection_identifier :: "json option \<Rightarrow> string \<Rightarrow> string result" where
  "rejection_identifier v path =
     (case v of
        Some (JStr s) \<Rightarrow> if RECORD_ID s then Inr s else conflict (path @ '' is invalid'')
      | _ \<Rightarrow> conflict (path @ '' is invalid''))"

definition boundedEvidenceText :: "json option \<Rightarrow> string \<Rightarrow> string result" where
  "boundedEvidenceText v path =
     (let bad = conflict (path @ '' must contain between 1 and 1500 safe characters'') in
      case v of
        Some (JStr s) \<Rightarrow>
          if trim s = [] \<or> length s > EVIDENCE_TEXT_MAX_LENGTH \<or> CHR 0x00 \<in> set s then bad else Inr s
      | _ \<Rightarrow> bad)"

definition nonnegativeInteger :: "json option \<Rightarrow> string \<Rightarrow> int result" where
  "nonnegativeInteger v path =
     (case v of
        Some (JNum (JInt i)) \<Rightarrow>
          if \<not> isSafeInteger i \<or> i < 0 then conflict (path @ '' must be a nonnegative integer'') else Inr i
      | _ \<Rightarrow> conflict (path @ '' must be a nonnegative integer''))"

definition positiveInteger :: "json option \<Rightarrow> string \<Rightarrow> int result" where
  "positiveInteger v path =
     bindE (nonnegativeInteger v path) (\<lambda>i. if i < 1 then conflict (path @ '' must be positive'') else Inr i)"

definition rejection_digest :: "json option \<Rightarrow> string \<Rightarrow> string result" where
  "rejection_digest v path =
     (case v of
        Some (JStr s) \<Rightarrow> if SHA256 s then Inr s else conflict (path @ '' is invalid'')
      | _ \<Rightarrow> conflict (path @ '' is invalid''))"

definition canonicalTimestamp :: "string \<Rightarrow> string \<Rightarrow> string result" where
  "canonicalTimestamp s path = (if canonical_ms s = None then conflict (path @ '' is invalid'') else Inr s)"

text \<open>The first unexpected field is tested for truth, so an empty name is not reported.\<close>

definition exactObject :: "json option \<Rightarrow> string \<Rightarrow> string list \<Rightarrow> (json dict) result" where
  "exactObject v path allowed =
     (case v of
        Some (JObj es) \<Rightarrow>
          (case List.find (\<lambda>k. k \<notin> set allowed) (keys es) of
             Some (c # cs) \<Rightarrow> conflict (path @ ''.'' @ (c # cs) @ '' is not allowed'')
           | _ \<Rightarrow>
               (case List.find (\<lambda>k. k \<notin> set (keys es)) allowed of
                  Some missing \<Rightarrow> conflict (path @ ''.'' @ missing @ '' is required'')
                | None \<Rightarrow> Inr es))
      | _ \<Rightarrow> conflict (path @ '' must be an object''))"

section \<open>Requests\<close>

record rejection_request =
  rj_run_id :: string
  rj_effect_id :: string
  rj_maintenance_version :: int
  rj_resolution_id :: string
  rj_reason_code :: string
  rj_reason :: string

definition validatedOperatorRequest :: "rejection_request \<Rightarrow> rejection_request result" where
  "validatedOperatorRequest request =
     bindE (rejection_identifier (Some (JStr (rj_run_id request))) ''operator_rejection.pipeline_run_id'') (\<lambda>run.
     bindE (rejection_identifier (Some (JStr (rj_effect_id request))) ''operator_rejection.effect_id'') (\<lambda>effect.
     bindE (rejection_identifier (Some (JStr (rj_resolution_id request))) ''operator_rejection.resolution_id'') (\<lambda>resolution.
     bindE (nonnegativeInteger (Some (json_int (rj_maintenance_version request)))
         ''operator_rejection.expected_maintenance_version'') (\<lambda>maintenance.
     if rj_reason_code request \<noteq> OPERATOR_EFFECT_REJECTION_REASON_CODE
       then conflict ''operator_rejection.reason_code is unsupported''
     else
       bindE (boundedEvidenceText (Some (JStr (rj_reason request))) ''operator_rejection.reason'') (\<lambda>reason.
       Inr \<lparr>rj_run_id = run, rj_effect_id = effect, rj_maintenance_version = maintenance,
         rj_resolution_id = resolution, rj_reason_code = OPERATOR_EFFECT_REJECTION_REASON_CODE,
         rj_reason = reason\<rparr>)))))"

definition operatorEffectRejectionResolutionDigest :: "rejection_request \<Rightarrow> string result" where
  "operatorEffectRejectionResolutionDigest requestInput =
     bindE (validatedOperatorRequest requestInput) (\<lambda>request.
     Inr (digestCanonicalJson (JObj
       [(''schema'', JStr OPERATOR_EFFECT_REJECTION_RESOLUTION_SCHEMA),
        (''pipeline_run_id'', JStr (rj_run_id request)), (''effect_id'', JStr (rj_effect_id request)),
        (''resolution_id'', JStr (rj_resolution_id request)), (''reason_code'', JStr (rj_reason_code request)),
        (''reason'', JStr (rj_reason request)),
        (''expected_maintenance_version'', json_int (rj_maintenance_version request))])))"

definition rejectionDeliveryId :: "string \<Rightarrow> string \<Rightarrow> string" where
  "rejectionDeliveryId resolution_digest intent_hash =
     ''delivery-'' @ digestCanonicalJson (JObj
       [(''schema'', JStr OPERATOR_EFFECT_REJECTION_DELIVERY_IDENTITY_SCHEMA),
        (''resolution_digest'', JStr resolution_digest), (''intent_hash'', JStr intent_hash)])"

section \<open>Authority\<close>

definition operatorEffectRejectionRuntimeIdentity :: "effect_intent \<Rightarrow> string result" where
  "operatorEffectRejectionRuntimeIdentity intentInput =
     bindE (validateEffectIntent (json_of_effect intentInput) ''operator_rejection.effect_intent'') (\<lambda>intent.
     if ei_kind intent \<noteq> OPERATOR_EFFECT_REJECTION_EFFECT_KIND
       then conflict (''operator rejection is not supported for Effect kind '' @ ei_kind intent)
     else
       bindE (exactObject (Some (ei_payload intent)) ''operator_rejection.integration_payload''
           [''schema'', ''identity'', ''pipeline_run_id'', ''attempt_id'', ''definition_bundle_hash'',
            ''checkpoint_base_subject'', ''current_subject'', ''candidate_checkpoint_id'',
            ''candidate_input_subject'', ''candidate_output_subject'', ''candidate_blob'',
            ''candidate_artifact'', ''current_ancestry'']) (\<lambda>payload.
       if map_of payload ''schema'' \<noteq> Some (JStr ''openthrottle.daytona-integration/v1'') \<or>
          map_of payload ''pipeline_run_id'' \<noteq> Some (JStr (ei_pipeline_run_id intent))
         then conflict ''operator rejection integration has invalid runtime identity authority''
       else rejection_identifier (map_of payload ''identity'') ''operator_rejection.runtime_identity''))"

record rejection_proof =
  rf_key_length :: int
  rf_runtime_identity :: string
  rf_create_effect_id :: string

definition legacyIntegrationRejectionProof :: "effect_intent \<Rightarrow> effect_intent \<Rightarrow> rejection_proof result" where
  "legacyIntegrationRejectionProof intent runtimeCreateInput =
     bindE (validateEffectIntent (json_of_effect runtimeCreateInput)
         ''operator_rejection.runtime_create_effect_intent'') (\<lambda>create.
     if ei_pipeline_run_id create \<noteq> ei_pipeline_run_id intent \<or> ei_kind create \<noteq> ''daytona/create-sandbox@1''
       then conflict ''operator rejection has no exact runtime creation authority''
     else
       bindE (exactObject (Some (ei_payload create)) ''operator_rejection.runtime_create_payload''
           [''schema'', ''identity'', ''pipeline_run_id'', ''repository'', ''base_branch'', ''base_commit'',
            ''snapshot'']) (\<lambda>payload.
       bindE (operatorEffectRejectionRuntimeIdentity intent) (\<lambda>integration.
       if map_of payload ''schema'' \<noteq> Some (JStr ''openthrottle.daytona-create/v1'') \<or>
          map_of payload ''pipeline_run_id'' \<noteq> Some (JStr (ei_pipeline_run_id intent)) \<or>
          map_of payload ''snapshot'' \<noteq> Some (JStr OPERATOR_EFFECT_REJECTION_RUNTIME_SNAPSHOT)
         then conflict ''operator rejection is not supported for this runtime snapshot''
       else if map_of payload ''identity'' \<noteq> Some (JStr integration)
         then conflict ''operator rejection integration does not use the exact created runtime''
       else
         let len = length (ei_idempotency_key intent) in
         if len \<le> 200 \<or> len > 500 \<or> \<not> LEGACY_INTEGRATION_IDEMPOTENCY_KEY (ei_idempotency_key intent)
           then conflict ''operator rejection does not match the legacy integration idempotency-key failure''
         else
           bindE (rejection_identifier (map_of payload ''identity'') ''operator_rejection.runtime_identity'') (\<lambda>runtime.
           Inr \<lparr>rf_key_length = int len, rf_runtime_identity = runtime, rf_create_effect_id = ei_id create\<rparr>))))"

section \<open>Evidence\<close>

record rejection_evidence =
  oe_resolution_id :: string
  oe_reason :: string
  oe_maintenance_version :: int
  oe_captured_run_version :: int
  oe_captured_effect_version :: int
  oe_intent_hash :: string
  oe_fence_lease_id :: string
  oe_fence_worker_id :: string
  oe_reconciliation_ordinal :: int
  oe_prior_unknown_detail :: string
  oe_prior_unknown_detail_hash :: string
  oe_runtime_identity :: string
  oe_runtime_create_effect_id :: string
  oe_key_length :: int
  oe_resolution_digest :: string

text \<open>The fields with one value, \<open>schema\<close>, \<open>reason_code\<close>, \<open>authorized_via\<close> and \<open>runtime_snapshot\<close>, are constants.\<close>

definition json_of_evidence :: "rejection_evidence \<Rightarrow> json" where
  "json_of_evidence v =
     JObj [(''schema'', JStr OPERATOR_EFFECT_REJECTION_RESULT_SCHEMA), (''resolution_id'', JStr (oe_resolution_id v)),
       (''reason_code'', JStr OPERATOR_EFFECT_REJECTION_REASON_CODE), (''reason'', JStr (oe_reason v)),
       (''authorized_via'', JStr ''deploy_token''), (''maintenance_version'', json_int (oe_maintenance_version v)),
       (''captured_run_version'', json_int (oe_captured_run_version v)),
       (''captured_effect_version'', json_int (oe_captured_effect_version v)),
       (''intent_hash'', JStr (oe_intent_hash v)),
       (''dispatch_fence'', JObj [(''lease_id'', JStr (oe_fence_lease_id v)), (''worker_id'', JStr (oe_fence_worker_id v))]),
       (''reconciliation_ordinal'', json_int (oe_reconciliation_ordinal v)),
       (''prior_unknown_detail'', JStr (oe_prior_unknown_detail v)),
       (''prior_unknown_detail_hash'', JStr (oe_prior_unknown_detail_hash v)),
       (''runtime_snapshot'', JStr OPERATOR_EFFECT_REJECTION_RUNTIME_SNAPSHOT),
       (''runtime_identity'', JStr (oe_runtime_identity v)),
       (''runtime_create_effect_id'', JStr (oe_runtime_create_effect_id v)),
       (''idempotency_key_length'', json_int (oe_key_length v)), (''resolution_digest'', JStr (oe_resolution_digest v))]"

record rejection_capture =
  rc_run_version :: int
  rc_effect_version :: int
  rc_intent_hash :: string
  rc_fence_lease_id :: string
  rc_fence_worker_id :: string
  rc_ordinal :: int
  rc_prior_detail :: string
  rc_created_at :: string

definition capturedEvidence ::
  "rejection_request \<Rightarrow> effect_intent \<Rightarrow> rejection_proof \<Rightarrow> rejection_capture \<Rightarrow> rejection_evidence result" where
  "capturedEvidence request intent proven c =
     bindE (rejection_digest (Some (JStr (rc_intent_hash c))) ''operator_rejection.intent_hash'') (\<lambda>intentHash.
     bindE (effectIntentContentHash intent) (\<lambda>contentHash.
     if intentHash \<noteq> contentHash
       then conflict ''operator rejection intent hash does not match the exact Effect''
     else
       bindE (rejection_identifier (Some (JStr (rc_fence_lease_id c))) ''operator_rejection.dispatch_fence.lease_id'') (\<lambda>lease.
       bindE (rejection_identifier (Some (JStr (rc_fence_worker_id c))) ''operator_rejection.dispatch_fence.worker_id'') (\<lambda>worker.
       bindE (boundedEvidenceText (Some (JStr (rc_prior_detail c))) ''operator_rejection.prior_unknown_detail'') (\<lambda>detail.
       bindE (operatorEffectRejectionResolutionDigest request) (\<lambda>resolution.
       bindE (nonnegativeInteger (Some (json_int (rc_run_version c))) ''operator_rejection.captured_run_version'') (\<lambda>run_version.
       bindE (nonnegativeInteger (Some (json_int (rc_effect_version c))) ''operator_rejection.captured_effect_version'') (\<lambda>effect_version.
       bindE (positiveInteger (Some (json_int (rc_ordinal c))) ''operator_rejection.reconciliation_ordinal'') (\<lambda>ordinal.
       Inr \<lparr>oe_resolution_id = rj_resolution_id request, oe_reason = rj_reason request,
         oe_maintenance_version = rj_maintenance_version request, oe_captured_run_version = run_version,
         oe_captured_effect_version = effect_version, oe_intent_hash = intentHash, oe_fence_lease_id = lease,
         oe_fence_worker_id = worker, oe_reconciliation_ordinal = ordinal, oe_prior_unknown_detail = detail,
         oe_prior_unknown_detail_hash = digestCanonicalJson (JStr detail),
         oe_runtime_identity = rf_runtime_identity proven, oe_runtime_create_effect_id = rf_create_effect_id proven,
         oe_key_length = rf_key_length proven, oe_resolution_digest = resolution\<rparr>)))))))))"

definition createOperatorEffectRejectionDelivery ::
  "rejection_request \<Rightarrow> effect_intent \<Rightarrow> effect_intent \<Rightarrow> rejection_capture \<Rightarrow> delivery_record result" where
  "createOperatorEffectRejectionDelivery requestInput intentInput create c =
     bindE (validatedOperatorRequest requestInput) (\<lambda>request.
     bindE (validateEffectIntent (json_of_effect intentInput) ''operator_rejection.effect_intent'') (\<lambda>intent.
     if ei_pipeline_run_id intent \<noteq> rj_run_id request
       then conflict ''operator rejection belongs to another pipeline run''
     else if ei_id intent \<noteq> rj_effect_id request then conflict ''operator rejection belongs to another Effect''
     else if ei_kind intent \<noteq> OPERATOR_EFFECT_REJECTION_EFFECT_KIND
       then conflict (''operator rejection is not supported for Effect kind '' @ ei_kind intent)
     else
       bindE (legacyIntegrationRejectionProof intent create) (\<lambda>proven.
       bindE (capturedEvidence request intent proven c) (\<lambda>evidence.
       let payload = JObj [(''effect_kind'', JStr (ei_kind intent)), (''provider'', JStr ''operator''),
             (''observed_via'', JStr ''operator_resolution''), (''result'', json_of_evidence evidence)] in
       if byteLength (canonicalJson payload) > INLINE_RECORD_PAYLOAD_MAX_BYTES
         then conflict ''operator rejection evidence exceeds the inline DeliveryRecord bound''
       else
         bindE (canonicalTimestamp (rc_created_at c) ''operator_rejection.created_at'') (\<lambda>created.
         Inr \<lparr>rb_id = rejectionDeliveryId (oe_resolution_digest evidence) (oe_intent_hash evidence),
           rb_pipeline_run_id = ei_pipeline_run_id intent, rb_payload_schema = ''openthrottle.effect-delivery/v1'',
           rb_payload = Inline payload, rb_created_at = created, dl_effect_id = ei_id intent,
           dl_idempotency_key = ei_idempotency_key intent, dl_external_identity = ei_target intent,
           dl_status = Rejected\<rparr>)))))"

definition parseOperatorEffectRejectionEvidence :: "json option \<Rightarrow> string \<Rightarrow> rejection_evidence result" where
  "parseOperatorEffectRejectionEvidence value path =
     bindE (exactObject value path
         [''schema'', ''resolution_id'', ''reason_code'', ''reason'', ''authorized_via'', ''maintenance_version'',
          ''captured_run_version'', ''captured_effect_version'', ''intent_hash'', ''dispatch_fence'',
          ''reconciliation_ordinal'', ''prior_unknown_detail'', ''prior_unknown_detail_hash'', ''runtime_snapshot'',
          ''runtime_identity'', ''runtime_create_effect_id'', ''idempotency_key_length'', ''resolution_digest'']) (\<lambda>result.
     let at = map_of result; here = \<lambda>field. path @ ''.'' @ field in
     if at ''schema'' \<noteq> Some (JStr OPERATOR_EFFECT_REJECTION_RESULT_SCHEMA)
       then conflict (here ''schema'' @ '' is unsupported'')
     else if at ''reason_code'' \<noteq> Some (JStr OPERATOR_EFFECT_REJECTION_REASON_CODE)
       then conflict (here ''reason_code'' @ '' is unsupported'')
     else if at ''authorized_via'' \<noteq> Some (JStr ''deploy_token'')
       then conflict (here ''authorized_via'' @ '' has another authorization provenance'')
     else
       bindE (exactObject (at ''dispatch_fence'') (here ''dispatch_fence'') [''lease_id'', ''worker_id'']) (\<lambda>fence.
       bindE (rejection_identifier (at ''resolution_id'') (here ''resolution_id'')) (\<lambda>resolution.
       bindE (boundedEvidenceText (at ''reason'') (here ''reason'')) (\<lambda>reason.
       bindE (nonnegativeInteger (at ''maintenance_version'') (here ''maintenance_version'')) (\<lambda>maintenance.
       bindE (nonnegativeInteger (at ''captured_run_version'') (here ''captured_run_version'')) (\<lambda>run_version.
       bindE (nonnegativeInteger (at ''captured_effect_version'') (here ''captured_effect_version'')) (\<lambda>effect_version.
       bindE (rejection_digest (at ''intent_hash'') (here ''intent_hash'')) (\<lambda>intent_hash.
       bindE (rejection_identifier (map_of fence ''lease_id'') (here ''dispatch_fence.lease_id'')) (\<lambda>lease.
       bindE (rejection_identifier (map_of fence ''worker_id'') (here ''dispatch_fence.worker_id'')) (\<lambda>worker.
       bindE (positiveInteger (at ''reconciliation_ordinal'') (here ''reconciliation_ordinal'')) (\<lambda>ordinal.
       bindE (boundedEvidenceText (at ''prior_unknown_detail'') (here ''prior_unknown_detail'')) (\<lambda>detail.
       bindE (rejection_digest (at ''prior_unknown_detail_hash'') (here ''prior_unknown_detail_hash'')) (\<lambda>detail_hash.
       if at ''runtime_snapshot'' \<noteq> Some (JStr OPERATOR_EFFECT_REJECTION_RUNTIME_SNAPSHOT)
         then conflict (here ''runtime_snapshot'' @ '' is unsupported'')
       else
         bindE (rejection_identifier (at ''runtime_identity'') (here ''runtime_identity'')) (\<lambda>runtime.
         bindE (rejection_identifier (at ''runtime_create_effect_id'') (here ''runtime_create_effect_id'')) (\<lambda>create.
         bindE (positiveInteger (at ''idempotency_key_length'') (here ''idempotency_key_length'')) (\<lambda>len.
         bindE (rejection_digest (at ''resolution_digest'') (here ''resolution_digest'')) (\<lambda>digest.
         if detail_hash \<noteq> digestCanonicalJson (JStr detail)
           then conflict (here ''prior_unknown_detail_hash'' @ '' does not match prior_unknown_detail'')
         else Inr \<lparr>oe_resolution_id = resolution, oe_reason = reason, oe_maintenance_version = maintenance,
           oe_captured_run_version = run_version, oe_captured_effect_version = effect_version,
           oe_intent_hash = intent_hash, oe_fence_lease_id = lease, oe_fence_worker_id = worker,
           oe_reconciliation_ordinal = ordinal, oe_prior_unknown_detail = detail,
           oe_prior_unknown_detail_hash = detail_hash, oe_runtime_identity = runtime,
           oe_runtime_create_effect_id = create, oe_key_length = len, oe_resolution_digest = digest\<rparr>)))))))))))))))))"

definition operatorEffectRejectionEvidence :: "delivery_record \<Rightarrow> rejection_evidence result" where
  "operatorEffectRejectionEvidence delivery =
     (case rb_payload delivery of
        Blob _ \<Rightarrow> conflict ''existing operator rejection is not an inline rejected effect DeliveryRecord''
      | Inline inline \<Rightarrow>
          if dl_status delivery \<noteq> Rejected \<or> rb_payload_schema delivery \<noteq> ''openthrottle.effect-delivery/v1''
            then conflict ''existing operator rejection is not an inline rejected effect DeliveryRecord''
          else
            bindE (exactObject (Some inline) ''operator_rejection.payload''
                [''effect_kind'', ''provider'', ''observed_via'', ''result'']) (\<lambda>payload.
            if map_of payload ''effect_kind'' \<noteq> Some (JStr OPERATOR_EFFECT_REJECTION_EFFECT_KIND)
              then conflict ''existing operator rejection has another Effect kind''
            else if map_of payload ''provider'' \<noteq> Some (JStr ''operator'') \<or>
                map_of payload ''observed_via'' \<noteq> Some (JStr ''operator_resolution'')
              then conflict ''existing operator rejection has another provenance''
            else parseOperatorEffectRejectionEvidence (map_of payload ''result'') ''operator_rejection.payload.result''))"

record rejection_replay =
  rl_current_run_version :: int
  rl_current_effect_version :: int
  rl_current_intent_hash :: string
  rl_fence_lease_id :: string
  rl_fence_worker_id :: string
  rl_ordinal :: int

definition assertExactOperatorEffectRejectionReplay ::
  "rejection_request \<Rightarrow> effect_intent \<Rightarrow> delivery_record \<Rightarrow> effect_intent \<Rightarrow> rejection_replay \<Rightarrow>
   rejection_evidence result" where
  "assertExactOperatorEffectRejectionReplay requestInput intentInput delivery create now =
     bindE (validatedOperatorRequest requestInput) (\<lambda>request.
     bindE (validateEffectIntent (json_of_effect intentInput) ''operator_rejection.effect_intent'') (\<lambda>intent.
     bindE (operatorEffectRejectionEvidence delivery) (\<lambda>evidence.
     bindE (legacyIntegrationRejectionProof intent create) (\<lambda>proven.
     bindE (operatorEffectRejectionResolutionDigest request) (\<lambda>expected.
     bindE (rejection_digest (Some (JStr (rl_current_intent_hash now))) ''operator_rejection.intent_hash'') (\<lambda>intentHash.
     bindE (nonnegativeInteger (Some (json_int (rl_current_run_version now))) ''operator_rejection.current_run_version'') (\<lambda>run_version.
     bindE (nonnegativeInteger (Some (json_int (rl_current_effect_version now))) ''operator_rejection.current_effect_version'') (\<lambda>effect_version.
     bindE (rejection_identifier (Some (JStr (rl_fence_lease_id now))) ''operator_rejection.dispatch_fence.lease_id'') (\<lambda>lease.
     bindE (rejection_identifier (Some (JStr (rl_fence_worker_id now))) ''operator_rejection.dispatch_fence.worker_id'') (\<lambda>worker.
     bindE (effectIntentContentHash intent) (\<lambda>contentHash.
     if rb_id delivery \<noteq> rejectionDeliveryId expected intentHash \<or>
        rb_pipeline_run_id delivery \<noteq> ei_pipeline_run_id intent \<or> dl_effect_id delivery \<noteq> ei_id intent \<or>
        dl_idempotency_key delivery \<noteq> ei_idempotency_key intent \<or>
        dl_external_identity delivery \<noteq> ei_target intent \<or>
        oe_resolution_id evidence \<noteq> rj_resolution_id request \<or> oe_reason evidence \<noteq> rj_reason request \<or>
        oe_maintenance_version evidence \<noteq> rj_maintenance_version request \<or>
        oe_resolution_digest evidence \<noteq> expected \<or> intentHash \<noteq> contentHash \<or>
        oe_intent_hash evidence \<noteq> intentHash \<or> oe_captured_run_version evidence \<ge> run_version \<or>
        oe_captured_effect_version evidence + 1 \<noteq> effect_version \<or> oe_fence_lease_id evidence \<noteq> lease \<or>
        oe_fence_worker_id evidence \<noteq> worker \<or> oe_reconciliation_ordinal evidence \<noteq> rl_ordinal now \<or>
        oe_runtime_identity evidence \<noteq> rf_runtime_identity proven \<or>
        oe_runtime_create_effect_id evidence \<noteq> rf_create_effect_id proven \<or>
        oe_key_length evidence \<noteq> rf_key_length proven
       then conflict ''operator Effect rejection replay conflicts with its immutable evidence''
     else Inr evidence)))))))))))"

section \<open>The operation of the store\<close>

record rejection_result =
  rs_unchanged :: bool
  rs_run_id :: string
  rs_effect_id :: string
  rs_delivery_id :: string
  rs_effect_version :: int
  rs_run_version :: int

definition assertClosedFence :: "int \<Rightarrow> inbox_database \<Rightarrow> unit result" where
  "assertClosedFence expected inbox =
     (case first_row (\<lambda>s. sg_key s = KERNEL_INGRESS_MAINTENANCE_SETTING) (ib_settings inbox) of
        Some s \<Rightarrow>
          if sg_value s \<noteq> ''true'' \<or> sg_type s \<noteq> ''boolean'' \<or> sg_mutable s \<noteq> 1 \<or> sg_version s \<noteq> expected
            then conflict ''operator Effect rejection requires the exact closed maintenance fence'' else Inr ()
      | None \<Rightarrow> conflict ''operator Effect rejection requires the exact closed maintenance fence'')"

text \<open>The creation of the runtime, acknowledged by a confirmed delivery, whose payload names the identity.\<close>

definition created_runtime :: "database \<Rightarrow> string \<Rightarrow> string \<Rightarrow> effect_row \<Rightarrow> bool" where
  "created_runtime db run identity e \<longleftrightarrow>
     ew_run e = run \<and> ew_kind e = ''daytona/create-sandbox@1'' \<and> ew_status e = EffectAcknowledged \<and>
     list_ex (\<lambda>c. ew_delivery_id e = Some (cw_id c) \<and> cw_run c = ew_run e \<and> cw_effect_id c = Some (ew_id e) \<and>
       cw_kind c = DeliveryKind \<and> cw_delivery_status c = Some Confirmed) (db_records db) \<and>
     Option.bind (Option.bind (pc_inline (ew_payload e)) json_parse) (\<lambda>v. jfield v ''identity'') = Some (JStr identity)"

definition exactRuntimeCreation :: "store_env \<Rightarrow> database \<Rightarrow> string \<Rightarrow> string \<Rightarrow> effect_intent result" where
  "exactRuntimeCreation env db run identity =
     (case take 2 (ordered_rows ew_id (created_runtime db run identity) (db_effects db)) of
        [row] \<Rightarrow>
          bindE (effectIntentFromRow (store_host env) row) (\<lambda>intent.
          bindE (effectIntentContentHash intent) (\<lambda>contentHash.
          if contentHash \<noteq> ew_intent_hash row
            then conflict ''operator Effect rejection runtime creation failed its exact intent hash''
          else Inr intent))
      | _ \<Rightarrow> conflict ''operator Effect rejection requires one exact matching confirmed runtime creation'')"

definition unleased_and_fenced :: "effect_row \<Rightarrow> bool" where
  "unleased_and_fenced row \<longleftrightarrow>
     ew_lease_id row = None \<and> ew_lease_worker row = None \<and> ew_lease_expires row = None \<and> ew_mode row = None \<and>
     ew_dispatch_lease row \<noteq> None \<and> ew_dispatch_worker row \<noteq> None"

definition replayRejection ::
  "store_env \<Rightarrow> rejection_request \<Rightarrow> effect_row \<Rightarrow> run_row \<Rightarrow> effect_intent \<Rightarrow> effect_intent \<Rightarrow>
   record_row option \<Rightarrow> rejection_result result" where
  "replayRejection env input row run intent create deliveryRow =
     (case deliveryRow of
        None \<Rightarrow> conflict ''settled Effect does not contain an exact operator rejection fence''
      | Some held \<Rightarrow>
          if ew_delivery_id row \<noteq> Some (cw_id held) \<or> \<not> unleased_and_fenced row
            then conflict ''settled Effect does not contain an exact operator rejection fence''
          else
            bindE (recordFromRow (sv_registry env) held) (\<lambda>existing.
            case existing of
              DeliveryRec d \<Rightarrow>
                bindE (assertExactOperatorEffectRejectionReplay input intent d create
                    \<lparr>rl_current_run_version = rw_version run, rl_current_effect_version = ew_version row,
                     rl_current_intent_hash = ew_intent_hash row, rl_fence_lease_id = the (ew_dispatch_lease row),
                     rl_fence_worker_id = the (ew_dispatch_worker row), rl_ordinal = ew_attempt_count row\<rparr>) (\<lambda>_.
                Inr \<lparr>rs_unchanged = True, rs_run_id = ew_run row, rs_effect_id = ew_id row,
                  rs_delivery_id = rb_id d, rs_effect_version = ew_version row, rs_run_version = rw_version run\<rparr>)
            | _ \<Rightarrow> conflict ''settled Effect does not reference a DeliveryRecord''))"

text \<open>The attempts that wait for the schedule which the effect belongs to.\<close>

definition schedule_prefix :: "attempt_row \<Rightarrow> string" where
  "schedule_prefix a = ''external-schedule:'' @ aw_id a @ '':''"

definition owns_schedule :: "run_row \<Rightarrow> record_row \<Rightarrow> attempt_row \<Rightarrow> bool" where
  "owns_schedule run d a \<longleftrightarrow>
     aw_run a = cw_run d \<and>
     (case cw_semantic_key d of
        None \<Rightarrow> False
      | Some key \<Rightarrow> take (sql_length (schedule_prefix a)) key = schedule_prefix a) \<and>
     aw_status a \<in> {WorkComplete, Recorded} \<and> aw_lease_id a = None \<and> aw_checkpoint_id a \<noteq> None \<and>
     Some (aw_stage_id a) = rw_cursor_stage_id run"

definition schedule_owners :: "database \<Rightarrow> run_row \<Rightarrow> effect_row \<Rightarrow> attempt_row list" where
  "schedule_owners db run row =
     take 2 (ordered_rows aw_id
       (\<lambda>a. list_ex (\<lambda>d. cw_id d = ew_decision_id row \<and> cw_run d = ew_run row \<and> cw_kind d = DecisionKind \<and>
          cw_reducer d = Some ''core/external-schedule@1'' \<and> owns_schedule run d a) (db_records db))
       (db_attempts db))"

definition rejected_effect_row :: "string \<Rightarrow> string \<Rightarrow> effect_row \<Rightarrow> effect_row" where
  "rejected_effect_row delivery now e =
     e\<lparr>ew_status := EffectRejected, ew_delivery_id := Some delivery, ew_unknown_detail := None,
       ew_version := ew_version e + 1, ew_updated_at := now\<rparr>"

definition json_of_rejection :: "effect_row \<Rightarrow> string \<Rightarrow> string \<Rightarrow> int \<Rightarrow> json" where
  "json_of_rejection row delivery resolution run_version =
     JObj [(''schema'', JStr ''openthrottle.operator-effect-rejection-transition/v1''),
       (''effect_id'', JStr (ew_id row)), (''delivery_record_id'', JStr delivery),
       (''resolution_digest'', JStr resolution), (''captured_run_version'', json_int run_version),
       (''captured_effect_version'', json_int (ew_version row)),
       (''dispatch_fence'', JObj [(''lease_id'', json_opt (ew_dispatch_lease row)),
          (''worker_id'', json_opt (ew_dispatch_worker row))])]"

definition settleRejection ::
  "store_env \<Rightarrow> rejection_request \<Rightarrow> effect_row \<Rightarrow> run_row \<Rightarrow> delivery_record \<Rightarrow> database \<Rightarrow>
   (rejection_result \<times> database) result" where
  "settleRejection env input row run delivery db =
     bindE (insertRecord env (DeliveryRec delivery) [] db) (\<lambda>db1.
     bindE (updateE effect_schema
         (\<lambda>e. ew_id e = ew_id row \<and> (ew_run e = ew_run row \<and> ew_version e = ew_version row \<and>
            ew_status e = EffectUnknown \<and> ew_lease_id e = None \<and> ew_lease_worker e = None \<and>
            ew_lease_expires e = None \<and> ew_mode e = None \<and>
            ew_dispatch_lease e = ew_dispatch_lease row \<and> ew_dispatch_worker e = ew_dispatch_worker row \<and>
            ew_delivery_id e = None \<and> ew_intent_hash e = ew_intent_hash row \<and>
            ew_attempt_count e = ew_attempt_count row \<and> ew_unknown_detail e = ew_unknown_detail row))
         (rejected_effect_row (rb_id delivery) (sv_now env)) (db_effects db1)) (\<lambda>(rows, changes).
     if changes \<noteq> 1 then conflict ''operator Effect rejection compare-and-set failed''
     else
       bindE (operatorEffectRejectionResolutionDigest input) (\<lambda>resolution.
       bindE (advanceRunFence env (ew_run row) (''effect-operator-reject:'' @ rb_id delivery)
           (json_of_rejection row (rb_id delivery) resolution (rw_version run))
           (db1\<lparr>db_effects := rows\<rparr>)) (\<lambda>(advanced, db2).
       if kr_version advanced \<noteq> rw_version run + 1
         then conflict ''operator Effect rejection did not advance the exact pipeline run fence''
       else Inr (\<lparr>rs_unchanged = False, rs_run_id = ew_run row, rs_effect_id = ew_id row,
         rs_delivery_id = rb_id delivery, rs_effect_version = ew_version row + 1,
         rs_run_version = kr_version advanced\<rparr>, db2)))))"

definition rejectUnknown ::
  "store_env \<Rightarrow> rejection_request \<Rightarrow> effect_row \<Rightarrow> run_row \<Rightarrow> effect_intent \<Rightarrow> effect_intent \<Rightarrow>
   record_row option \<Rightarrow> database \<Rightarrow> (rejection_result \<times> database) result" where
  "rejectUnknown env input row run intent create deliveryRow db =
     (if \<not> active_run_status (rw_status run) \<or> ew_status row \<noteq> EffectUnknown \<or>
         ew_kind row \<noteq> ''daytona/integrate-checkpoint@1'' \<or> \<not> unleased_and_fenced row \<or>
         ew_delivery_id row \<noteq> None \<or> deliveryRow \<noteq> None \<or> ew_unknown_detail row = None \<or> ew_attempt_count row < 1
        then conflict ''Effect is not an active, unleased, dispatch-fenced unknown Daytona integration''
      else if length (schedule_owners db run row) \<noteq> 1
        then conflict ''Effect is not owned by exactly one current ready external schedule''
      else
        bindE (createOperatorEffectRejectionDelivery input intent create
            \<lparr>rc_run_version = rw_version run, rc_effect_version = ew_version row, rc_intent_hash = ew_intent_hash row,
             rc_fence_lease_id = the (ew_dispatch_lease row), rc_fence_worker_id = the (ew_dispatch_worker row),
             rc_ordinal = ew_attempt_count row, rc_prior_detail = the (ew_unknown_detail row),
             rc_created_at = sv_now env\<rparr>) (\<lambda>delivery.
        settleRejection env input row run delivery db))"

definition rejectDispatchFencedUnknownEffect_body ::
  "store_env \<Rightarrow> inbox_database \<Rightarrow> rejection_request \<Rightarrow> database \<Rightarrow> (rejection_result \<times> database) result" where
  "rejectDispatchFencedUnknownEffect_body env inbox input db =
     bindE (assertClosedFence (rj_maintenance_version input) inbox) (\<lambda>_.
     case (first_row (\<lambda>e. ew_id e = rj_effect_id input \<and> ew_run e = rj_run_id input) (db_effects db),
           first_row (\<lambda>r. rw_id r = rj_run_id input) (db_runs db)) of
       (Some row, Some run) \<Rightarrow>
         bindE (effectIntentFromRow (store_host env) row) (\<lambda>intent.
         bindE (operatorEffectRejectionRuntimeIdentity intent) (\<lambda>identity.
         let deliveryRow = first_row (\<lambda>c. cw_run c = ew_run row \<and> cw_effect_id c = Some (ew_id row) \<and>
               cw_kind c = DeliveryKind) (db_records db) in
         bindE (exactRuntimeCreation env db (ew_run row) identity) (\<lambda>create.
         if ew_status row = EffectRejected then
           bindE (replayRejection env input row run intent create deliveryRow) (\<lambda>result. Inr (result, db))
         else rejectUnknown env input row run intent create deliveryRow db)))
     | _ \<Rightarrow> Inl (OperatorRejectionNotFound
         ''operator Effect rejection does not match an exact pipeline run and Effect''))"

definition rejectDispatchFencedUnknownEffect ::
  "store_env \<Rightarrow> inbox_database \<Rightarrow> rejection_request \<Rightarrow> database \<Rightarrow> (rejection_result \<times> database) result" where
  "rejectDispatchFencedUnknownEffect env inbox input =
     transaction foreign_keys (rejectDispatchFencedUnknownEffect_body env inbox input)"

end
