(* ===== verification/StoreOperations.thy ===== *)
theory StoreOperations
  imports StoreFacts AttemptLeaseFacts OperatorRejection
begin

text \<open>
  The store is the host that the lease operations expect.  The operations on attempts leave effects alone,
  admission and attachment add a run, and the rejection by an operator closes one effect.
\<close>

section \<open>The store is a host\<close>

lemma updated_run_bumped:
  assumes u: "updateE run_schema (\<lambda>r. rw_id r = run \<and> rw_version r = v) f rows = Inr (rows', 1)"
    and f: "\<And>r. rw_id (f r) = rw_id r \<and> rw_status (f r) = rw_status r \<and> rw_version (f r) = rw_version r + 1"
  shows "bumped run rows rows'"
proof -
  let ?P = "\<lambda>r. rw_id r = run \<and> rw_version r = v"
  from u have rows': "rows' = updated_rows ?P f rows" and d: "distinct (map rw_id rows')"
    and n: "length (filter ?P rows) = 1"
    by (auto simp: updateE_ok run_schema_def)
  have ids: "map rw_id rows' = map rw_id rows"
    unfolding rows' by (simp add: updated_rows_def f)
  with d have d': "distinct (map rw_id rows)" by simp
  from one_row_changed [OF d' n] obtain row where row: "row \<in> set rows" "rw_id row = run" "rw_version row = v"
    and only: "\<And>r. r \<in> set rows \<Longrightarrow> rw_id r = run \<Longrightarrow> r = row" by blast
  have v: "rw_version r = v" if "r \<in> set rows" "rw_id r = run" for r
    using only [OF that] row by simp
  show ?thesis
    unfolding bumped_def rows' updated_rows_def list.rel_map
  proof
    show "run \<in> rw_id ` set rows" using row by auto
    show "list_all2 (\<lambda>r r'. rw_id (if ?P r' then f r' else r') = rw_id r \<and>
        rw_status (if ?P r' then f r' else r') = rw_status r \<and>
        rw_version (if ?P r' then f r' else r') = rw_version r + (if rw_id r = run then 1 else 0)) rows rows"
      by (rule list.rel_refl_strong) (auto simp: f v)
  qed
qed

lemma advanceRunFence_bumps:
  assumes "advanceRunFence env run t c db = Inr (r, db')"
  shows "\<exists>rows. db' = db\<lparr>db_runs := rows\<rparr> \<and> bumped run (db_runs db) rows"
proof -
  from assms obtain row :: run_row and rows where
    u: "updateE run_schema (\<lambda>r. rw_id r = run \<and> rw_version r = rw_version row)
         (\<lambda>r. r\<lparr>rw_version := rw_version r + 1, rw_last_transition_id := Some t,
            rw_last_transition_hash := Some (digestCanonicalJson c), rw_updated_at := sv_now env\<rparr>)
         (db_runs db) = Inr (rows, 1)"
    and db': "db' = db\<lparr>db_runs := rows\<rparr>"
    by (auto simp: advanceRunFence_def Let_def bindE_eq_Inr split: if_splits)
  have "bumped run (db_runs db) rows" by (rule updated_run_bumped [OF u]) simp
  with db' show ?thesis by blast
qed

interpretation leases: effect_host "store_host env" for env
proof unfold_locales
  show "db_effects db' = db_effects db \<and> db_records db' = db_records db \<and> bumped run (db_runs db) (db_runs db')"
    if "lh_advance (store_host env) run t c db = Inr (r, db')" for run t c db r db'
    using advanceRunFence_bumps [of env run t c db r db'] that by (auto simp: store_host_def)
  show "db_effects db' = db_effects db \<and> db_runs db' = db_runs db"
    if "lh_insert (store_host env) rec db = Inr db'" for rec db db'
    using that by (auto simp: store_host_def dest: insertRecord_tables)
qed

section \<open>Runs, old and new\<close>

definition runs_evolve :: "run_row list \<Rightarrow> run_row list \<Rightarrow> bool" where
  "runs_evolve rows rows' \<longleftrightarrow>
     (\<exists>old fresh. rows' = old @ fresh \<and> runs_advance rows old) \<and>
     (distinct (map rw_id rows) \<longrightarrow> distinct (map rw_id rows'))"

lemma runs_evolve_advance: "runs_advance rows rows' \<Longrightarrow> runs_evolve rows rows'"
  unfolding runs_evolve_def by (rule conjI, rule exI [of _ rows'], rule exI [of _ "[]"]) (auto dest: runs_advance_ids)

lemma runs_evolve_refl [simp]: "runs_evolve rows rows"
  by (simp add: runs_evolve_advance)

lemma runs_evolve_trans:
  assumes "runs_evolve a b" and "runs_evolve b c"
  shows "runs_evolve a c"
proof -
  from assms obtain old fresh old' fresh' where b: "b = old @ fresh" "runs_advance a old"
    and c: "c = old' @ fresh'" "runs_advance (old @ fresh) old'" by (auto simp: runs_evolve_def)
  from c(2) obtain o1 o2 where o: "old' = o1 @ o2" "runs_advance old o1"
    by (auto simp: runs_advance_def list_all2_append1)
  with b c have "c = o1 @ (o2 @ fresh')" "runs_advance a o1" by (auto intro: runs_advance_trans)
  with assms show ?thesis by (auto simp: runs_evolve_def)
qed

lemma runs_evolve_row:
  assumes "runs_evolve rows rows'" and "r \<in> set rows"
  shows "\<exists>r' \<in> set rows'. rw_id r' = rw_id r \<and> rw_version r \<le> rw_version r'"
proof -
  from assms(1) obtain old fresh where o: "rows' = old @ fresh" "runs_advance rows old" by (auto simp: runs_evolve_def)
  from assms(2) obtain k where "k < length rows" "r = rows ! k" by (auto simp: in_set_conv_nth)
  with o(2) have "old ! k \<in> set old \<and> rw_id (old ! k) = rw_id r \<and> rw_version r \<le> rw_version (old ! k)"
    by (auto simp: runs_advance_def list_all2_conv_all_nth)
  with o(1) show ?thesis by auto
qed

section \<open>Leases on attempts\<close>

definition quiet :: "database \<Rightarrow> database \<Rightarrow> bool" where
  "quiet db db' \<longleftrightarrow> db_effects db' = db_effects db \<and> runs_advance (db_runs db) (db_runs db')"

lemma quiet_refl [simp]: "quiet db db"
  by (simp add: quiet_def)

lemma quiet_trans: "quiet a b \<Longrightarrow> quiet b c \<Longrightarrow> quiet a c"
  by (auto simp: quiet_def intro: runs_advance_trans)

lemma quiet_effects: "quiet db db' \<Longrightarrow> effects_advance db db'"
  by (simp add: quiet_def effects_advance_same)

lemma quiet_runs: "quiet db db' \<Longrightarrow> runs_evolve (db_runs db) (db_runs db')"
  by (simp add: quiet_def runs_evolve_advance)

context effect_host
begin

lemma advancing_quiet: "lh_advance host run t c (db\<lparr>db_attempts := rows\<rparr>) = Inr (r, db') \<Longrightarrow> quiet db db'"
  by (auto simp: quiet_def dest!: advance_law intro: bumped_advance)

lemma leasing_quiet: "leaseNextEligibleAttempt host cfg now request [(snapshot, db)] = Inr (view, db') \<Longrightarrow> quiet db db'"
  by (auto simp: leaseNextEligibleAttempt_def leaseWithSnapshot_def transaction_ok leaseNextEligibleAttempt_body_def
      leaseAttempt_def Let_def bindE_eq_Inr split: if_splits option.splits dest: advancing_quiet)

lemma renewing_quiet: "renewAttemptLease host now input db = Inr (l, db') \<Longrightarrow> quiet db db'"
  by (auto simp: renewAttemptLease_def transaction_ok renewAttemptLease_body_def bindE_eq_Inr
      split: if_splits option.splits dest: advancing_quiet)

lemma recovering_row_quiet: "recoverAttempt host input row db = Inr (view, db') \<Longrightarrow> quiet db db'"
  by (auto simp: recoverAttempt_def Let_def bindE_eq_Inr split: if_splits dest: advancing_quiet)

lemma recovering_rows_quiet: "recoverAttempts host input rows db = Inr (views, db') \<Longrightarrow> quiet db db'"
  by (induction rows arbitrary: db views)
    (auto simp: bindE_eq_Inr dest!: recovering_row_quiet intro: quiet_trans)

lemma recovering_quiet:
  "recoverExpiredAttemptLeases host cfg input [(snapshot, db)] = Inr (views, db') \<Longrightarrow> quiet db db'"
  by (auto simp: recoverExpiredAttemptLeases_def transaction_ok recoverExpiredAttemptLeases_body_def bindE_eq_Inr
      split: if_splits option.splits dest: recovering_rows_quiet)

end

section \<open>New runs\<close>

definition gains_run :: "database \<Rightarrow> database \<Rightarrow> bool" where
  "gains_run db db' \<longleftrightarrow>
     db_effects db' = db_effects db \<and>
     (\<exists>row. db_runs db' = db_runs db @ [row]) \<and> distinct (map rw_id (db_runs db'))"

lemma gains_run_evolve: "gains_run db db' \<Longrightarrow> runs_evolve (db_runs db) (db_runs db')"
  unfolding gains_run_def runs_evolve_def by (metis runs_advance_refl)

lemma gains_run_effects: "gains_run db db' \<Longrightarrow> effects_advance db db'"
  by (simp add: gains_run_def effects_advance_same)

lemma insertDefinitions_kernel: "insertDefinitions ds e = Inr e' \<Longrightarrow> ep_kernel e' = ep_kernel e"
  unfolding insertDefinitions_def
  by (erule foldE_invariant [where I = "\<lambda>s. ep_kernel s = ep_kernel e"])
    (auto simp: insertDefinition_def Let_def bindE_eq_Inr split: if_splits)

lemma insertWorkItem_kernel: "insertWorkItem seed payload now e = Inr e' \<Longrightarrow> ep_kernel e' = ep_kernel e"
  by (auto simp: insertWorkItem_def bindE_eq_Inr)

lemma insertRun_gains: "insertRun w run pointer now e = Inr e' \<Longrightarrow> gains_run (ep_kernel e) (ep_kernel e')"
  by (auto simp: insertRun_def gains_run_def bindE_eq_Inr insertE_ok run_schema_def)

lemma in_kernel_ok: "in_kernel f e = Inr e' \<longleftrightarrow> (\<exists>db. f (ep_kernel e) = Inr db \<and> e' = e\<lparr>ep_kernel := db\<rparr>)"
  by (auto simp: in_kernel_def bindE_eq_Inr)

lemma only_attempts_fold:
  "foldE (insertAttempt env) attempts db = Inr db' \<Longrightarrow> only_attempts db db'"
  by (erule foldE_invariant [where I = "only_attempts db"])
    (auto simp: only_attempts_def dest: insertAttempt_tables)

lemma writeFreshRun_tables: "writeFreshRun env run attempts e = Inr e' \<Longrightarrow> only_attempts (ep_kernel e) (ep_kernel e')"
  by (auto simp: writeFreshRun_def bindE_eq_Inr in_kernel_ok materializeDependencyReadiness_def only_attempts_def
      dest!: only_attempts_fold frontier_readiness_tables)

lemma seeding_tables:
  assumes "foldE (\<lambda>rec. insertRecord env rec []) recs db = Inr db'"
  shows "db_effects db' = db_effects db \<and> db_runs db' = db_runs db"
  by (rule foldE_invariant [OF assms, where I = "\<lambda>s. db_effects s = db_effects db \<and> db_runs s = db_runs db"])
    (auto dest: insertRecord_tables)

lemma epoch_transaction_ok: "epoch_transaction body e = Inr e' \<longleftrightarrow> body e = Inr e' \<and> foreign_keys (ep_kernel e')"
  by (auto simp: epoch_transaction_def transaction_def bindE_eq_Inr split: if_splits)

lemma consumeInbox_kernel: "consumeInbox now fence e = Inr e' \<Longrightarrow> ep_kernel e' = ep_kernel e"
  by (auto simp: consumeInbox_def bindE_eq_Inr split: if_splits)

lemma admitting_gains:
  assumes "admitPipelineRun env input e = Inr e'"
  shows "gains_run (ep_kernel e) (ep_kernel e')"
proof -
  from assms obtain pointer payload where b: "admitPipelineRun_body env input pointer payload e = Inr e'"
    by (auto simp: admitPipelineRun_def bindE_eq_Inr epoch_transaction_ok)
  then obtain e1 e2 e3 e4 where s: "insertDefinitions (ai_definitions input) e = Inr e1"
    "insertWorkItem (ai_work_item input) payload (sv_now env) e1 = Inr e2"
    "insertRun (wi_id (ai_work_item input)) (ai_run input) pointer (sv_now env) e2 = Inr e3"
    "writeFreshRun env (ai_run input) (ai_initial_attempts input) e3 = Inr e4" and k: "ep_kernel e' = ep_kernel e4"
    by (auto simp: admitPipelineRun_body_def bindE_eq_Inr consumeInbox_kernel split: option.splits)
  from insertRun_gains [OF s(3)] insertWorkItem_kernel [OF s(2)] insertDefinitions_kernel [OF s(1)]
    writeFreshRun_tables [OF s(4)] k show ?thesis by (simp add: gains_run_def only_attempts_def)
qed

lemma attaching_gains:
  assumes "attachPipelineRun env input e = Inr e'"
  shows "gains_run (ep_kernel e) (ep_kernel e')"
proof -
  from assms obtain pointer where b: "attachPipelineRun_body env input pointer e = Inr e'"
    by (auto simp: attachPipelineRun_def bindE_eq_Inr epoch_transaction_ok split: if_splits)
  then obtain e1 e2 db3 where s: "insertDefinitions (at_definitions input) e = Inr e1"
    "insertRun (at_work_item_id input) (at_run input) pointer (sv_now env) e1 = Inr e2"
    "foldE (\<lambda>rec. insertRecord env rec []) (at_initial_records input) (ep_kernel e2) = Inr db3"
    "writeFreshRun env (at_run input) (at_initial_attempts input) (e2\<lparr>ep_kernel := db3\<rparr>) = Inr e'"
    by (auto simp: attachPipelineRun_body_def bindE_eq_Inr in_kernel_ok split: option.splits if_splits)
  from insertRun_gains [OF s(2)] insertDefinitions_kernel [OF s(1)] seeding_tables [OF s(3)]
    writeFreshRun_tables [OF s(4)] show ?thesis by (simp add: gains_run_def only_attempts_def)
qed

section \<open>Rejections\<close>

lemma rejection_cases:
  assumes "rejectDispatchFencedUnknownEffect env inbox input db = Inr (result, db')"
  obtains (replayed) "db' = db"
  | (rejected) row run delivery where "row \<in> set (db_effects db)"
      "settleRejection env input row run delivery db = Inr (result, db')"
  using assms
  by (auto simp: rejectDispatchFencedUnknownEffect_def transaction_ok rejectDispatchFencedUnknownEffect_body_def
      rejectUnknown_def bindE_eq_Inr Let_def split: option.splits if_splits dest!: first_row_Some)

lemma settling_rejection:
  assumes "settleRejection env input row run delivery db = Inr (result, db')" and "row \<in> set (db_effects db)"
  shows "runs_advance (db_runs db) (db_runs db') \<and> effects_advance db db'"
proof -
  from assms(1) obtain db1 rows t c r where i: "insertRecord env (DeliveryRec delivery) [] db = Inr db1"
    and u: "updateE effect_schema
         (\<lambda>e. ew_id e = ew_id row \<and> (ew_run e = ew_run row \<and> ew_version e = ew_version row \<and>
            ew_status e = EffectUnknown \<and> ew_lease_id e = None \<and> ew_lease_worker e = None \<and>
            ew_lease_expires e = None \<and> ew_mode e = None \<and>
            ew_dispatch_lease e = ew_dispatch_lease row \<and> ew_dispatch_worker e = ew_dispatch_worker row \<and>
            ew_delivery_id e = None \<and> ew_intent_hash e = ew_intent_hash row \<and>
            ew_attempt_count e = ew_attempt_count row \<and> ew_unknown_detail e = ew_unknown_detail row))
         (rejected_effect_row (rb_id delivery) (sv_now env)) (db_effects db1) = Inr (rows, 1)"
    and a: "advanceRunFence env (ew_run row) t c (db1\<lparr>db_effects := rows\<rparr>) = Inr (r, db')"
    unfolding settleRejection_def compare_and_set by (auto simp: bindE_eq_Inr split: if_splits)
  note tables = insertRecord_tables [OF i]
  from advanceRunFence_bumps [OF a] tables have runs: "runs_advance (db_runs db) (db_runs db')"
    and eff: "db_effects db' = rows" by (auto intro: bumped_advance)
  have "effects_advance db db'"
    unfolding effects_advance_def eff
  proof
    assume ok: "effects_ok (db_effects db)"
    have "effects_ok rows \<and> effects_move (db_effects db) rows \<and>
        (\<forall>e \<in> set (db_effects db). ew_id e \<noteq> ew_id row \<longrightarrow> e \<in> set rows)"
      by (rule effect_statement [OF u [unfolded conjunct1 [OF tables]] ok assms(2)])
        (auto simp: row_defs rejected_effect_row_def intro: close)
    then show "effects_ok rows \<and> effects_evolve (db_effects db) rows" by (simp add: effects_evolve_move)
  qed
  with runs show ?thesis by simp
qed

lemma rejecting_advances:
  assumes "rejectDispatchFencedUnknownEffect env inbox input db = Inr (result, db')"
  shows "runs_advance (db_runs db) (db_runs db') \<and> effects_advance db db'"
  using assms by (cases rule: rejection_cases) (auto simp: effects_advance_same dest: settling_rejection)

end
