(* ===== verification/RecoveryQuarantine.thy ===== *)
theory RecoveryQuarantine
  imports ReducerTerminal KernelTransactions
begin

text \<open>
  The quarantine of an attempt whose recoveries are exhausted: \<open>quarantineExhaustedAttemptRecovery\<close> of
  \<open>persistence/kernel-store.ts\<close>, which reduces the command and applies its bundle.
\<close>

record attempt_lease_claim =
  qc_run_id :: string
  qc_attempt_id :: string
  qc_lease_id :: string
  qc_generation :: int
  qc_worker_id :: string
  qc_purpose :: lease_purpose

definition claims_lease :: "attempt_lease_claim \<Rightarrow> attempt_lease \<Rightarrow> bool" where
  "claims_lease claim lease \<longleftrightarrow>
     le_id lease = qc_lease_id claim \<and> le_generation lease = qc_generation claim \<and>
     le_worker_id lease = qc_worker_id claim \<and> le_purpose lease = qc_purpose claim"

definition quarantine_fields_for ::
  "kernel_attempt \<Rightarrow> attempt_lease \<Rightarrow> decision_record \<Rightarrow> string \<Rightarrow> quarantine_fields" where
  "quarantine_fields_for attempt lease diagnostic reason =
     \<lparr>qf_attempt_id = ka_id attempt, qf_decision_record_id = rb_id diagnostic, qf_reason = reason,
      qf_lease_id = le_id lease, qf_lease_generation = le_generation lease, qf_worker_id = le_worker_id lease,
      qf_lease_purpose = le_purpose lease\<rparr>"

definition quarantine_command_id :: "kernel_attempt \<Rightarrow> attempt_lease \<Rightarrow> decision_record \<Rightarrow> string" where
  "quarantine_command_id attempt lease diagnostic =
     ''recovery-quarantine-'' @ take 48 (digestCanonicalJson (JObj
       [(''attempt_id'', JStr (ka_id attempt)), (''lease_id'', JStr (le_id lease)),
        (''lease_generation'', json_int (le_generation lease)), (''diagnostic_id'', JStr (rb_id diagnostic))]))"

definition quarantineExhaustedAttemptRecovery ::
  "store_env \<Rightarrow> attempt_lease_claim \<Rightarrow> decision_record \<Rightarrow> string \<Rightarrow> database \<Rightarrow> (bool \<times> database) result" where
  "quarantineExhaustedAttemptRecovery env claim diagnostic reason db =
     bindE (runRow (qc_run_id claim) db) (\<lambda>row.
     bindE (runFromRow row db) (\<lambda>run.
     bindE (attemptById env (qc_attempt_id claim) (qc_run_id claim) db) (\<lambda>attempt.
     case ka_lease attempt of
       None \<Rightarrow> throwM ''Attempt recovery quarantine lease claim is stale or mismatched''
     | Some lease \<Rightarrow>
         if \<not> claims_lease claim lease
           then throwM ''Attempt recovery quarantine lease claim is stale or mismatched''
         else if le_generation lease < kr_work_retry_limit run then Inr (False, db)
         else
           let c = quarantine_fields_for attempt lease diagnostic reason in
           bindE (reduceKernelRecoveryQuarantine
               \<lparr>cmd_id = quarantine_command_id attempt lease diagnostic, cmd_body = QuarantineAttemptRecovery c\<rparr>
               run attempt diagnostic c) (\<lambda>transition.
           bindE (applyAtomicTransition env transition db) (\<lambda>(_, db'). Inr (True, db'))))))"

end
