(* ===== verification/StoreProperties.thy ===== *)
theory StoreProperties
  imports StoreOperations RecoveryQuarantine
begin

text \<open>
  The store as a whole: over any sequence of its committed operations runs only move forward, bundles of one
  version exclude each other, and a dispatched effect stays dispatched.
\<close>

section \<open>Committed operations\<close>

text \<open>
  One constructor per operation of the program that writes to the tables of the kernel.  A quarantine applies a
  bundle (\<open>quarantine_is_a_step\<close>), and no other module has a statement on these tables.
\<close>

inductive store_step :: "database \<Rightarrow> database \<Rightarrow> bool" where
  apply_bundle: "applyAtomicTransition env bundle db = Inr (r, db') \<Longrightarrow> store_step db db'"
| lease_effect: "leaseNextEffect (store_host env) (sv_now env) request db = Inr (view, db') \<Longrightarrow> store_step db db'"
| start_dispatch: "markLeasedEffectDispatchStarted (store_host env) (sv_now env) effect lease worker db = Inr (seen, db') \<Longrightarrow>
    store_step db db'"
| complete_effect: "completeLeasedEffect (store_host env) (sv_now env) effect lease worker reconciliation db = Inr (u, db') \<Longrightarrow>
    store_step db db'"
| lease_attempt: "leaseNextEligibleAttempt (store_host env) cfg (sv_now env) demand [(snapshot, db)] = Inr (lent, db') \<Longrightarrow>
    store_step db db'"
| renew_attempt: "renewAttemptLease (store_host env) (sv_now env) renewal db = Inr (l, db') \<Longrightarrow> store_step db db'"
| recover_attempts: "recoverExpiredAttemptLeases (store_host env) cfg recovery [(snapshot, db)] = Inr (views, db') \<Longrightarrow>
    store_step db db'"
| reject_effect: "rejectDispatchFencedUnknownEffect env inbox rejection db = Inr (result, db') \<Longrightarrow> store_step db db'"
| admit_run: "admitPipelineRun env admission e = Inr e' \<Longrightarrow> store_step (ep_kernel e) (ep_kernel e')"
| attach_run: "attachPipelineRun env attachment e = Inr e' \<Longrightarrow> store_step (ep_kernel e) (ep_kernel e')"

text \<open>
  An operation that takes new snapshots reads the database again on each turn.  The turn that answers is the
  one that commits.
\<close>

lemma fresh_turn:
  "with_fresh_snapshots f turns = Inr outcome \<Longrightarrow> \<exists>s d. (s, d) \<in> set turns \<and> f s d = Inr outcome"
  by (induction f turns rule: with_fresh_snapshots.induct) (auto split: sum.splits error.splits)

lemma leasing_turn:
  assumes "leaseNextEligibleAttempt host cfg now request turns = Inr (view, db')"
  shows "\<exists>snapshot db. (snapshot, db) \<in> set turns \<and> leaseWithSnapshot host cfg now request snapshot db = Inr (view, db')"
  using fresh_turn [OF assms [unfolded leaseNextEligibleAttempt_def]] by (auto dest: in_set_takeD)

lemma leasing_is_a_step:
  assumes "leaseNextEligibleAttempt (store_host env) cfg (sv_now env) request turns = Inr (lent, db')"
  shows "\<exists>snapshot db. (snapshot, db) \<in> set turns \<and> store_step db db'"
proof -
  from leasing_turn [OF assms] obtain s d where
    "(s, d) \<in> set turns" "leaseWithSnapshot (store_host env) cfg (sv_now env) request s d = Inr (lent, db')" by blast
  then show ?thesis using lease_attempt [of env cfg request s d] by (auto simp: leaseNextEligibleAttempt_def)
qed

lemma recovering_is_a_step:
  assumes "recoverExpiredAttemptLeases (store_host env) cfg input turns = Inr (views, db')"
  shows "\<exists>snapshot db. (snapshot, db) \<in> set turns \<and> store_step db db'"
proof -
  let ?f = "\<lambda>s. transaction foreign_keys (recoverExpiredAttemptLeases_body (store_host env) cfg input s)"
  from assms have "with_fresh_snapshots ?f (take 3 turns) = Inr (views, db')"
    and same: "recoverExpiredAttemptLeases (store_host env) cfg input [(s, d)] = ?f s d" for s d
    by (auto simp: recoverExpiredAttemptLeases_def split: option.splits if_splits)
  from fresh_turn [OF this(1)] obtain s d where "(s, d) \<in> set turns" "?f s d = Inr (views, db')"
    using in_set_takeD by fast
  then show ?thesis using recover_attempts [of env cfg input s d] same by auto
qed

lemma quarantine_is_a_step:
  assumes "quarantineExhaustedAttemptRecovery env claim diagnostic reason db = Inr (ended, db')"
  shows "store_step\<^sup>*\<^sup>* db db'"
  using assms unfolding quarantineExhaustedAttemptRecovery_def Let_def bindE_eq_Inr
  by (elim exE conjE) (auto simp: bindE_eq_Inr split: option.split_asm if_split_asm intro: apply_bundle)

lemma applied_cases:
  assumes "applyAtomicTransition env b db = Inr (r, db')"
  obtains (replayed) row :: run_row where "r = Replayed (rw_version row)" "db' = db"
  | (applied) row :: run_row and db1 where "runRow (ex_run_id (tb_expected b)) db = Inr row"
      "transitionApplicationDisposition b (observedState b row db) None = Inr ApplyTransition"
      "kr_pipeline_id (tb_run b) = rw_pipeline_id row" "kr_definition_bundle_hash (tb_run b) = rw_bundle_hash row"
      "writeBundle env b (rw_id row) db = Inr db1" "is_ok (assertRunProjections (tb_run b) db1)"
      "updateRun env b (rw_id row) db1 = Inr (db', 1)" "r = Applied (kr_version (tb_run b))"
      "is_ok (preverifyTransitionBlobs env b)" "foreign_keys db'"
proof -
  from assms have pre: "is_ok (preverifyTransitionBlobs env b)" and fk: "foreign_keys db'"
    and body: "applyAtomicTransition_body env b db = Inr (r, db')"
    by (auto simp: applyAtomicTransition_def bindE_unit_eq_Inr transaction_ok)
  from body obtain row existing d where
    row: "runRow (ex_run_id (tb_expected b)) db = Inr row" "storedIdentity b row = Inr existing"
    and d: "transitionApplicationDisposition b (observedState b row db) existing = Inr d"
    by (auto simp: applyAtomicTransition_body_def bindE_eq_Inr)
  show thesis
  proof (cases d)
    case ReplayTransition
    with body row d show thesis by (intro replayed [of row]) (simp_all add: applyAtomicTransition_body_def)
  next
    case ApplyTransition
    then have e: "existing = None"
      using d by (auto simp: transitionApplicationDisposition_def invalid_transition_def bindE_eq_Inr
          split: option.splits if_splits)
    from body row d e ApplyTransition show thesis
      by (auto simp: applyAtomicTransition_body_def bindE_eq_Inr is_ok_iff split: if_splits
          intro!: applied [of row] pre fk)
  qed
qed

section \<open>Runs move forward\<close>

lemma writeBundle_runs:
  assumes "writeBundle env b run db = Inr db'"
  shows "db_runs db' = db_runs db"
proof -
  from assms obtain db1 db2 db3 db4 db5 db6 where
    s: "foldE (\<lambda>r. insertRecord env r (replacement_attempts b)) (tb_append_records b) db = Inr db1"
    "foldE (insertCheckpoint env) (tb_append_checkpoints b) db1 = Inr db2"
    "foldE (writeAttempt env b run) (tb_attempt_writes b) db2 = Inr db3"
    "foldE (insertAttempt env) (tb_create_attempts b) db3 = Inr db4"
    "foldE (insertEffect env) (tb_put_effects b) db4 = Inr db5"
    "foldE (\<lambda>i. cancelEffect env i run) (tb_cancel_effect_ids b) db5 = Inr db6"
    "materializeDependencyReadiness (kr_cursor (tb_run b)) db6 = Inr db'"
    by (auto simp: writeBundle_def bindE_eq_Inr)
  have keep: "db_runs y = db_runs x" if "foldE f xs x = Inr y" "\<And>a s s'. f a s = Inr s' \<Longrightarrow> db_runs s' = db_runs s"
    for f :: "'a \<Rightarrow> database \<Rightarrow> database result" and xs x y
    by (rule foldE_invariant [OF that(1), where I = "\<lambda>s. db_runs s = db_runs x"]) (auto dest: that(2))
  have "db_runs db1 = db_runs db" by (rule keep [OF s(1)]) (simp add: insertRecord_tables)
  moreover have "db_runs db2 = db_runs db1" by (rule keep [OF s(2)]) (simp add: insertCheckpoint_tables)
  moreover have "db_runs db3 = db_runs db2"
    by (rule keep [OF s(3)]) (auto dest: writeAttempt_tables simp: only_attempts_def)
  moreover have "db_runs db4 = db_runs db3"
    by (rule keep [OF s(4)]) (auto dest: insertAttempt_tables simp: only_attempts_def)
  moreover have "db_runs db5 = db_runs db4" by (rule keep [OF s(5)]) (auto elim: insertEffect_tables)
  moreover have "db_runs db6 = db_runs db5"
    by (rule keep [OF s(6)]) (auto simp: cancelEffect_def bindE_eq_Inr split: if_splits)
  moreover have "db_runs db' = db_runs db6"
    using frontier_readiness_tables [OF s(7) [unfolded materializeDependencyReadiness_def]] by (simp add: only_attempts_def)
  ultimately show ?thesis by simp
qed

lemma updateRun_row:
  assumes "updateRun env b run db = Inr (db', 1)"
  shows "\<exists>rows. db' = db\<lparr>db_runs := rows\<rparr> \<and>
    updateE run_schema (\<lambda>r. rw_id r = run \<and> (rw_version r = ex_run_version (tb_expected b) \<and>
        rw_cursor_version r = ex_cursor_version (tb_expected b)))
      (\<lambda>r. (with_run (tb_run b) r)\<lparr>rw_last_transition_id := Some (tb_transition_id b),
         rw_last_transition_hash := Some (tb_content_hash b), rw_updated_at := sv_now env\<rparr>)
      (db_runs db) = Inr (rows, 1)"
  using assms by (auto simp: updateRun_def bindE_eq_Inr)

lemma with_run_simps [simp]:
  "rw_id (with_run run r) = rw_id r" "rw_version (with_run run r) = kr_version run"
  "rw_cursor_version (with_run run r) = cu_version (kr_cursor run)"
  "rw_pipeline_id (with_run run r) = rw_pipeline_id r" "rw_bundle_hash (with_run run r) = rw_bundle_hash r"
  by (simp_all add: with_run_def)

lemma disposition_intact:
  assumes "transitionApplicationDisposition b observed existing = Inr d"
  shows "intact b"
  using assms assertIntegrity_ok [of b] by (auto simp: transitionApplicationDisposition_def bindE_eq_Inr is_ok_iff)

lemma applied_runs:
  assumes "applyAtomicTransition env b db = Inr (Applied v, db')"
  shows "runs_advance (db_runs db) (db_runs db') \<and> v = ex_run_version (tb_expected b) + 1 \<and>
    (\<exists>row \<in> set (db_runs db). rw_id row = ex_run_id (tb_expected b) \<and> rw_version row = ex_run_version (tb_expected b)) \<and>
    (\<exists>row' \<in> set (db_runs db'). rw_id row' = ex_run_id (tb_expected b) \<and> rw_version row' = v \<and>
       rw_last_transition_id row' = Some (tb_transition_id b) \<and> rw_last_transition_hash row' = Some (tb_content_hash b))"
  using assms
proof (cases rule: applied_cases)
  case (applied row db1)
  from disposition_intact [OF applied(2)] have b: "kr_version (tb_run b) = ex_run_version (tb_expected b) + 1"
    by (simp add: intact_def)
  from applied(1) have row: "row \<in> set (db_runs db)" "rw_id row = ex_run_id (tb_expected b)"
    by (auto simp: runRow_def dest: first_row_Some split: option.splits)
  let ?P = "\<lambda>r. rw_id r = rw_id row \<and> (rw_version r = ex_run_version (tb_expected b) \<and>
        rw_cursor_version r = ex_cursor_version (tb_expected b))"
  let ?f = "\<lambda>r. (with_run (tb_run b) r)\<lparr>rw_last_transition_id := Some (tb_transition_id b),
         rw_last_transition_hash := Some (tb_content_hash b), rw_updated_at := sv_now env\<rparr>"
  from updateRun_row [OF applied(7)] writeBundle_runs [OF applied(5)] obtain rows where
    u: "updateE run_schema ?P ?f (db_runs db) = Inr (rows, 1)" and db': "db_runs db' = rows" by auto
  from u have rows: "rows = updated_rows ?P ?f (db_runs db)" and n: "length (filter ?P (db_runs db)) = 1"
    by (auto simp: updateE_ok)
  then have "filter ?P (db_runs db) \<noteq> []" by auto
  then obtain r where r: "r \<in> set (db_runs db)" "?P r" by (auto simp: filter_empty_conv)
  have "runs_advance (db_runs db) rows"
    unfolding rows runs_advance_def updated_rows_def list.rel_map
    by (rule list.rel_refl_strong) (auto simp: b)
  moreover have "?f r \<in> set rows" unfolding rows in_updated_rows using r by auto
  ultimately show ?thesis using r row b applied(8) db' by (intro conjI bexI [of _ r] bexI [of _ "?f r"]) auto
qed simp

lemma step_runs: "store_step db db' \<Longrightarrow> runs_evolve (db_runs db) (db_runs db')"
proof (induction rule: store_step.induct)
  case (apply_bundle env b db r db')
  then show ?case by (cases r) (auto dest: applied_runs elim: applied_cases intro: runs_evolve_advance)
next
  case (lease_effect env request db view db')
  then show ?case by (auto dest: leases.leasing_runs intro: runs_evolve_advance)
next
  case (start_dispatch env effect lease worker db seen db')
  then show ?case by (auto dest: leases.dispatch_runs intro: runs_evolve_advance)
next
  case (complete_effect env effect lease worker reconciliation db u db')
  then show ?case by (auto dest: leases.completing_runs bumped_advance intro: runs_evolve_advance)
qed (auto intro: runs_evolve_advance quiet_runs
    dest: leases.leasing_quiet leases.renewing_quiet leases.recovering_quiet rejecting_advances
      admitting_gains [THEN gains_run_evolve] attaching_gains [THEN gains_run_evolve])

section \<open>Effects over many operations\<close>

lemma step_effects: "store_step db db' \<Longrightarrow> effects_advance db db'"
proof (induction rule: store_step.induct)
  case (apply_bundle env b db r db')
  then show ?case
  proof (cases rule: applied_cases)
    case (applied row db1)
    from updateRun_row [OF applied(7)] have "db_effects db' = db_effects db1" by auto
    with writeBundle_advance [OF applied(5)] show ?thesis by (simp add: effects_advance_def)
  qed (simp add: effects_advance_same)
next
  case (lease_effect env request db view db')
  then show ?case by (auto simp: effects_advance_def dest: leases.leasing_moves intro: effects_evolve_move)
next
  case (start_dispatch env effect lease worker db seen db')
  then show ?case by (auto simp: effects_advance_def dest: leases.dispatch_moves intro: effects_evolve_move)
next
  case (complete_effect env effect lease worker reconciliation db u db')
  then show ?case by (auto simp: effects_advance_def dest: leases.completing_moves intro: effects_evolve_move)
qed (auto dest: leases.leasing_quiet leases.renewing_quiet leases.recovering_quiet rejecting_advances
      admitting_gains attaching_gains intro: quiet_effects gains_run_effects)

lemma steps_effects: "store_step\<^sup>*\<^sup>* db db' \<Longrightarrow> effects_advance db db'"
  by (induction rule: rtranclp_induct) (auto intro: effects_advance_same effects_advance_trans step_effects)

lemma steps_runs: "store_step\<^sup>*\<^sup>* db db' \<Longrightarrow> runs_evolve (db_runs db) (db_runs db')"
  by (induction rule: rtranclp_induct) (auto intro: runs_evolve_trans step_runs)

lemma read_intent_id: "effectIntentFromRow host row = Inr i \<Longrightarrow> ei_id i = ew_id row"
  by (auto simp: effectIntentFromRow_def validateEffectIntent_def record_id_at_def run_ok split: if_splits)

text \<open>C16: an effect is dispatched at most once: once its dispatch fence is written, no sequence of operations of
  the store changes the fence or what the effect is, and every later lease of the effect is for
  reconciliation only and shows that same fence to its worker.  The operations are all those that write to the
  tables of the kernel: bundles, leases on effects and attempts, dispatches, completions, renewals, recoveries,
  the rejection of a dispatched effect by an operator, and the admission and attachment of runs.\<close>

theorem effects_are_dispatched_once:
  assumes "store_step\<^sup>*\<^sup>* db db'" and "effects_ok (db_effects db)"
    and "e \<in> set (db_effects db)" and "effect_fence e = Some fence"
  shows "(\<exists>e' \<in> set (db_effects db'). same_intent e e' \<and> effect_fence e' = Some fence) \<and>
    (\<forall>env request view db''.
       leaseNextEffect (store_host env) (sv_now env) request db' = Inr (Some view, db'') \<and>
       ei_id (lf_intent view) = ew_id e \<longrightarrow>
       lf_mode view = ReconcileOnly \<and> lf_dispatch_fence view = Some fence)"
proof
  from steps_effects [OF assms(1)] assms(2) have ok: "effects_ok (db_effects db')"
    and ev: "effects_evolve (db_effects db) (db_effects db')" by (simp_all add: effects_advance_def)
  from effects_evolve_row [OF ev assms(3)] obtain e' where e': "e' \<in> set (db_effects db')" "effect_moves e e'" by blast
  then have fence: "effect_fence e' = Some fence"
    using fence_written_once [of "phase_of e" "phase_of e'" fence] assms(4) by (simp add: effect_moves_def)
  with e' show "\<exists>e' \<in> set (db_effects db'). same_intent e e' \<and> effect_fence e' = Some fence"
    by (auto simp: effect_moves_def)
  show "\<forall>env request view db''.
       leaseNextEffect (store_host env) (sv_now env) request db' = Inr (Some view, db'') \<and>
       ei_id (lf_intent view) = ew_id e \<longrightarrow>
       lf_mode view = ReconcileOnly \<and> lf_dispatch_fence view = Some fence"
  proof (intro allI impI, elim conjE)
    fix env request view db''
    assume l: "leaseNextEffect (store_host env) (sv_now env) request db' = Inr (Some view, db'')"
      and i: "ei_id (lf_intent view) = ew_id e"
    from leases.leased_view [OF l ok] obtain e2 where
      e2: "e2 \<in> set (db_effects db'')" "replayed_effect (store_host env) request e2 = Inr view" by blast
    from leases.leasing_moves [OF l ok] have ok2: "effects_ok (db_effects db'')"
      and m: "effects_move (db_effects db') (db_effects db'')" by simp_all
    from effects_evolve_row [OF effects_evolve_move [OF m] e'(1)] obtain e3 where
      e3: "e3 \<in> set (db_effects db'')" "effect_moves e' e3" by blast
    from e2(2) i have "ew_id e2 = ew_id e"
      by (auto simp: replayed_effect_def bindE_eq_Inr dest!: read_intent_id split: if_splits)
    with e3 e' have "ew_id e2 = ew_id e3" by (simp add: effect_moves_def same_intent_def)
    with by_key [OF effects_okD(1) [OF ok2] e3(1) e2(1)] have "e2 = e3" by simp
    with e3(2) fence have f: "effect_fence e2 = Some fence"
      using fence_written_once [of "phase_of e'" "phase_of e3" fence] by (simp add: effect_moves_def)
    then have d: "ew_dispatch_lease e2 \<noteq> None" "dispatch_fence e2 = Inr (Some fence)"
      by (cases "ew_dispatch_lease e2"; cases "ew_dispatch_worker e2"; simp add: effect_fence_def dispatch_fence_def cast_def)+
    with effects_okD(3) [OF ok2 e2(1)] have "ew_mode e2 \<noteq> Some DispatchOrReconcile" by (auto simp: dispatch_known_def)
    with d e2(2) show "lf_mode view = ReconcileOnly \<and> lf_dispatch_fence view = Some fence"
      by (cases "ew_mode e2"; cases "the (ew_mode e2)")
        (auto simp: replayed_effect_def bindE_eq_Inr cast_def ill_typed_def split: if_splits)
  qed
qed

section \<open>One bundle per version\<close>

lemma first_by_id:
  assumes "distinct (map rw_id rows)" and "row \<in> set rows" and "rw_id row = i"
  shows "first_row (\<lambda>r. rw_id r = i) rows = Some row"
  by (rule first_row_key [OF assms])

text \<open>C15: bundles exclude each other: when one is applied, the version of its run is raised by exactly one, a
  replay of it is recognised and changes nothing, and no other bundle that was computed from that version
  or an older one is applied after any further sequence of operations of the store: bundles, leases on effects
  and attempts, dispatches, completions, renewals, recoveries, rejections by an operator, and new runs.\<close>

theorem commits_are_exclusive:
  assumes "applyAtomicTransition env b db = Inr (Applied v, db1)" and "distinct (map rw_id (db_runs db))"
    and "store_step\<^sup>*\<^sup>* db1 db2" and "ex_run_id (tb_expected b') = ex_run_id (tb_expected b)"
    and "ex_run_version (tb_expected b') \<le> ex_run_version (tb_expected b)"
  shows "v = ex_run_version (tb_expected b) + 1 \<and> applyAtomicTransition env b db1 = Inr (Replayed v, db1) \<and>
    applyAtomicTransition env' b' db2 \<noteq> Inr (Applied w, db3)"
proof (intro conjI)
  from applied_runs [OF assms(1)] obtain row where adv: "runs_advance (db_runs db) (db_runs db1)"
    and v: "v = ex_run_version (tb_expected b) + 1"
    and row: "row \<in> set (db_runs db1)" "rw_id row = ex_run_id (tb_expected b)" "rw_version row = v"
      "rw_last_transition_id row = Some (tb_transition_id b)" "rw_last_transition_hash row = Some (tb_content_hash b)"
    by auto
  from runs_advance_ids [OF adv] assms(2) have d1: "distinct (map rw_id (db_runs db1))" by simp
  show "v = ex_run_version (tb_expected b) + 1" by (rule v)
  from assms(1) show "applyAtomicTransition env b db1 = Inr (Replayed v, db1)"
  proof (cases rule: applied_cases)
    case (applied row0 db0)
    have "is_ok (assertAtomicTransitionIntegrity b)"
      using disposition_intact [OF applied(2)] by (simp add: assertIntegrity_ok)
    then have "transitionApplicationDisposition b (observedState b row db1)
        (Some \<lparr>si_transition_id = tb_transition_id b, si_content_hash = tb_content_hash b\<rparr>) = Inr ReplayTransition"
      by (auto simp: transitionApplicationDisposition_def is_ok_iff)
    then have "applyAtomicTransition_body env b db1 = Inr (Replayed v, db1)"
      using row by (simp add: applyAtomicTransition_body_def runRow_def first_by_id [OF d1] storedIdentity_def cast_def)
    with applied(9,10) show ?thesis by (auto simp: applyAtomicTransition_def transaction_def is_ok_iff)
  qed simp
  show "applyAtomicTransition env' b' db2 \<noteq> Inr (Applied w, db3)"
  proof
    assume a: "applyAtomicTransition env' b' db2 = Inr (Applied w, db3)"
    from applied_runs [OF a] assms(4,5) obtain r where
      r: "r \<in> set (db_runs db2)" "rw_id r = ex_run_id (tb_expected b)" "rw_version r \<le> ex_run_version (tb_expected b)"
      by auto
    note later = steps_runs [OF assms(3)]
    with d1 have d2: "distinct (map rw_id (db_runs db2))" by (simp add: runs_evolve_def)
    from runs_evolve_row [OF later row(1)] obtain row2 where "row2 \<in> set (db_runs db2)" "rw_id row2 = rw_id row"
      "rw_version row \<le> rw_version row2" by blast
    with by_key [OF d2 r(1), of row2] r row v show False by simp
  qed
qed

end
