(* ===== verification/StoreExamples.thy ===== *)
theory StoreExamples
  imports StoreProperties
begin

text \<open>
  Concrete databases: a bundle of the reducer committed into the store, and an effect whose dispatch began
  before its lease expired.  The witnesses of the properties of the store apply them here.
\<close>

section \<open>Digests are hashes\<close>

lemma hex_word_shape: "length (hex_word w) = 8" "lower_hex (hex_word w)"
proof -
  have "hex_char n \<in> set ''0123456789abcdef''" if "n < 16" for n
  proof -
    have "list_all (\<lambda>n. hex_char n \<in> set ''0123456789abcdef'') [0..<16]" by code_simp
    then show ?thesis
      by (rule list_all_iff [THEN iffD1, rule_format]) (simp only: set_upt atLeastLessThan_iff zero_le that)
  qed
  moreover have "nat (uint w div 16 ^ i mod 16) < 16" for i by simp
  ultimately show "lower_hex (hex_word w)" by (simp add: hex_word_def lower_hex_def list_all_iff)
qed (simp add: hex_word_def)

lemma sha_round_length: "length st = 8 \<Longrightarrow> length (sha_round st kw) = 8"
  by (cases "(st, kw)" rule: sha_round.cases) (simp_all add: Let_def)

lemma sha_rounds_length: "length st = 8 \<Longrightarrow> length (foldl sha_round st kws) = 8"
  by (induction kws arbitrary: st) (simp_all add: sha_round_length)

lemma sha_blocks_length: "length st = 8 \<Longrightarrow> length (sha_blocks n st ws) = 8"
  by (induction n arbitrary: st ws) (simp_all add: sha_block_def sha_rounds_length)

lemma sha_init_length: "length sha_init = 8"
proof -
  let ?P = "\<lambda>n :: int. list_all (\<lambda>d. n mod d \<noteq> 0) [2..n - 1]"
  have "[2..311 :: int] = [2..20 - 1] @ [20..311]" by (rule upto_split1) simp_all
  then have "length sha_primes = length (filter ?P [2..20 - 1]) + length (filter ?P [20..311])"
    unfolding sha_primes_def by (metis filter_append length_append)
  moreover have "length (filter ?P [2..20 - 1]) = 8" by code_simp
  ultimately have "8 \<le> length sha_primes" by linarith
  then show ?thesis by (simp add: sha_init_def)
qed

lemma sql_length_hex: "lower_hex t \<Longrightarrow> sql_length t = length t"
proof -
  assume t: "lower_hex t"
  have "CHR 0x00 \<notin> set ''0123456789abcdef''" by simp
  with t have "takeWhile (\<lambda>c. c \<noteq> CHR 0x00) t = t"
    unfolding lower_hex_def list_all_iff takeWhile_eq_all_conv by metis
  then show ?thesis by (simp only: sql_length_def)
qed

lemma hash_check_sha256: "hash_check (sha256 m)"
proof -
  let ?ws = "words_of_bytes (sha_pad m)"
  let ?st = "sha_blocks (length ?ws div 16) sha_init ?ws"
  have hex: "lower_hex (concat (map hex_word st))" for st
    by (induction st) (use hex_word_shape(2) in \<open>simp_all add: lower_hex_def\<close>)
  have n: "length (concat (map hex_word st)) = 8 * length st" for st
    by (induction st) (simp_all add: hex_word_shape(1))
  show ?thesis
    by (simp add: sha256_def Let_def hash_check_def sql_length_hex hex n sha_blocks_length sha_init_length)
qed

lemma hash_check_digest: "hash_check (digestCanonicalJson v)"
  by (simp add: digestCanonicalJson_def digestNormalized_def hash_check_sha256)

lemma pred_option_code [code]: "pred_option P None \<longleftrightarrow> True" "pred_option P (Some x) \<longleftrightarrow> P x"
  by simp_all

section \<open>A database with a leased attempt\<close>

definition ex_env :: store_env where
  "ex_env = \<lparr>sv_volume = (\<lambda>_. None), sv_registry = [], sv_now = ''2025-01-02T00:00:00.000Z''\<rparr>"

definition ex_run_row :: "kernel_run \<Rightarrow> run_row" where
  "ex_run_row run = with_run run
     \<lparr>rw_id = kr_id run, rw_work_item_id = ''w'', rw_pipeline_id = kr_pipeline_id run,
      rw_bundle_hash = kr_definition_bundle_hash run, rw_bundle_bytes = 1, rw_current_subject = [],
      rw_status = RunPending, rw_terminal_outcome = None, rw_cursor_stage_id = None, rw_cursor_version = 0,
      rw_cursor_reentries = [], rw_cursor_frontier = [], rw_cursor_completed = [], rw_cursor_barrier = None,
      rw_version = 0, rw_work_retry_limit = 0, rw_result_correction_limit = 0, rw_last_transition_id = None,
      rw_last_transition_hash = None, rw_created_at = sv_now ex_env, rw_updated_at = sv_now ex_env\<rparr>"

text \<open>
  Run \<open>r\<close> holds the leased attempt.  Run \<open>q\<close> holds a decision and the effect that it authorised, whose worker
  started to dispatch it and lost its lease.
\<close>

definition ex_other_run :: kernel_run where
  "ex_other_run = (ri_run ex_start)\<lparr>kr_id := ''q''\<rparr>"

definition ex_decision_row :: record_row where
  "ex_decision_row = (new_record_row (DecisionRec ((ex_decision_of ''core/settle@1'' [])\<lparr>rb_pipeline_run_id := ''q'',
       rb_created_at := sv_now ex_env\<rparr>))
     \<lparr>pc_inline = Some ''{}'', pc_algorithm = None, pc_digest = None, pc_bytes = None, pc_encoding = None,
      pc_media_type = None, pc_payload_schema = None\<rparr> 1)\<lparr>cw_hash := ex_hash\<rparr>"

definition ex_effect_row :: effect_row where
  "ex_effect_row = (new_effect_row (ex_effect\<lparr>ei_pipeline_run_id := ''q''\<rparr>)
     \<lparr>pc_inline = Some ''{}'', pc_algorithm = None, pc_digest = None, pc_bytes = None, pc_encoding = None,
      pc_media_type = None, pc_payload_schema = None\<rparr> ex_hash (sv_now ex_env))
     \<lparr>ew_status := EffectUnknown, ew_version := 3, ew_attempt_count := 1, ew_dispatch_lease := Some ''l1'',
      ew_dispatch_worker := Some ''w1'', ew_unknown_detail := Some DISPATCH_MAY_HAVE_STARTED\<rparr>"

definition ex_held :: database where
  "ex_held =
     \<lparr>db_runs = [ex_run_row (ri_run ex_start), ex_run_row ex_other_run],
      db_attempts = [new_attempt_row ex_leased [] [] (sv_now ex_env)],
      db_records = [ex_decision_row], db_effects = [ex_effect_row], db_checkpoints = []\<rparr>"

lemma ex_held_ok: "schema_ok ex_held \<and> foreign_keys ex_held"
  by code_simp

definition ex_written :: database where
  "ex_written = projr (writeBundle ex_env ex_started ''r'' ex_held)"

lemma ex_bundle:
  "reduceKernelCommand ex_start = Inr ex_started \<and>
   tb_expected ex_started = \<lparr>ex_run_id = ''r'', ex_run_version = 3, ex_cursor_version = 0, ex_attempt_versions = [(''a'', 0)]\<rparr> \<and>
   kr_version (tb_run ex_started) = 4 \<and> kr_pipeline_id (tb_run ex_started) = ''p'' \<and>
   kr_definition_bundle_hash (tb_run ex_started) = ex_hash \<and>
   preverifyTransitionBlobs ex_env ex_started = Inr () \<and>
   run_check ((with_run (tb_run ex_started) (ex_run_row (ri_run ex_start)))
     \<lparr>rw_last_transition_id := Some (tb_transition_id ex_started), rw_last_transition_hash := Some ex_hash,
      rw_updated_at := sv_now ex_env\<rparr>) \<and>
   (case writeBundle ex_env ex_started ''r'' ex_held of
      Inl _ \<Rightarrow> False
    | Inr db \<Rightarrow> is_ok (assertRunProjections (tb_run ex_started) db) \<and> foreign_keys db)"
  unfolding ex_started_def by (rule projr_case) code_simp

lemma ex_fields:
  "tb_expected ex_started = \<lparr>ex_run_id = ''r'', ex_run_version = 3, ex_cursor_version = 0, ex_attempt_versions = [(''a'', 0)]\<rparr>"
  "kr_version (tb_run ex_started) = 4" "kr_pipeline_id (tb_run ex_started) = ''p''"
  "kr_definition_bundle_hash (tb_run ex_started) = ex_hash" "preverifyTransitionBlobs ex_env ex_started = Inr ()"
  using ex_bundle by - (elim conjE, assumption)+

lemma ex_written:
  "writeBundle ex_env ex_started ''r'' ex_held = Inr ex_written \<and>
   is_ok (assertRunProjections (tb_run ex_started) ex_written) \<and> foreign_keys ex_written"
  using ex_bundle by (auto simp: ex_written_def split: sum.splits)

definition ex_committed_row :: "string \<Rightarrow> run_row" where
  "ex_committed_row h = (with_run (tb_run ex_started) (ex_run_row (ri_run ex_start)))
     \<lparr>rw_last_transition_id := Some (tb_transition_id ex_started), rw_last_transition_hash := Some h,
      rw_updated_at := sv_now ex_env\<rparr>"

definition ex_committed :: database where
  "ex_committed = ex_written\<lparr>db_runs := [ex_committed_row (tb_content_hash ex_started), ex_run_row ex_other_run]\<rparr>"

lemma ex_committed_row:
  assumes "hash_check h"
  shows "run_check (ex_committed_row h)"
proof -
  have "run_check (ex_committed_row ex_hash)" using ex_bundle by (simp add: ex_committed_row_def)
  with assms show ?thesis by (simp add: run_check_def ex_committed_row_def)
qed

lemma foreign_keys_runs:
  assumes "map rw_id rows = map rw_id (db_runs db)"
  shows "foreign_keys (db\<lparr>db_runs := rows\<rparr>) = foreign_keys db"
proof -
  have "attempt_foreign_keys (db\<lparr>db_runs := rows\<rparr>) = attempt_foreign_keys db"
    "record_foreign_keys (db\<lparr>db_runs := rows\<rparr>) = record_foreign_keys db"
    "effect_foreign_keys (db\<lparr>db_runs := rows\<rparr>) = effect_foreign_keys db"
    "checkpoint_foreign_keys (db\<lparr>db_runs := rows\<rparr>) = checkpoint_foreign_keys db"
    by (simp_all add: fun_eq_iff attempt_foreign_keys_def record_foreign_keys_def effect_foreign_keys_def
        checkpoint_foreign_keys_def assms del: list.map)
  then show ?thesis by (simp add: foreign_keys_def)
qed

lemma ex_runs: "db_runs ex_written = [ex_run_row (ri_run ex_start), ex_run_row ex_other_run]"
  using ex_written by (auto dest!: writeBundle_runs simp: ex_held_def)

lemma ex_current:
  "transitionApplicationDisposition ex_started (observedState ex_started (ex_run_row (ri_run ex_start)) ex_held) None =
     Inr ApplyTransition"
proof -
  have "intact ex_started"
    using reduced_intact [of ex_start] ex_started ex_run_wf by (simp add: run_wf_def)
  moreover have "observedState ex_started (ex_run_row (ri_run ex_start)) ex_held =
      \<lparr>ob_run_id = ''r'', ob_run_version = 3, ob_cursor_version = 0, ob_attempt_versions = [(''a'', 0)]\<rparr>"
    unfolding observedState_def ex_fields by code_simp
  ultimately show ?thesis
    by (simp add: transitionApplicationDisposition_def bindE_unit_eq_Inr assertIntegrity_ok
        if_throw_eq_Inr invalid_transition_def ex_fields)
qed

lemma ex_applied: "applyAtomicTransition ex_env ex_started ex_held = Inr (Applied 4, ex_committed)"
proof -
  have row: "runRow ''r'' ex_held = Inr (ex_run_row (ri_run ex_start))" by code_simp
  have r: "rw_id (ex_run_row (ri_run ex_start)) = ''r'' \<and> rw_version (ex_run_row (ri_run ex_start)) = 3 \<and>
      rw_cursor_version (ex_run_row (ri_run ex_start)) = 0 \<and> rw_pipeline_id (ex_run_row (ri_run ex_start)) = ''p'' \<and>
      rw_bundle_hash (ex_run_row (ri_run ex_start)) = ex_hash \<and>
      rw_last_transition_id (ex_run_row (ri_run ex_start)) = None \<and> rw_id (ex_run_row ex_other_run) = ''q''" by code_simp
  have "intact ex_started" using disposition_intact [OF ex_current] .
  then have "hash_check (tb_content_hash ex_started)" by (simp add: intact_def hash_check_digest)
  from ex_committed_row [OF this]
  have "updateRun ex_env ex_started ''r'' ex_written = Inr (ex_committed, 1)"
    by (simp add: updateRun_def updateE_def updated_rows_def ex_runs ex_fields r run_schema_def ex_committed_def
        ex_committed_row_def with_run_simps)
  moreover have "foreign_keys ex_committed"
    using ex_written unfolding ex_committed_def
    by (subst foreign_keys_runs) (simp_all add: ex_runs ex_committed_row_def)
  ultimately show ?thesis
    using ex_written ex_current
    by (simp add: applyAtomicTransition_def applyAtomicTransition_body_def transaction_def ex_fields row r storedIdentity_def
        is_ok_iff)
qed

text \<open>The same bundle arrives twice, and once more after the replay.\<close>

theorem commits_are_exclusive_witness:
  "applyAtomicTransition ex_env ex_started ex_committed = Inr (Replayed 4, ex_committed) \<and>
   applyAtomicTransition ex_env ex_started ex_committed \<noteq> Inr (Applied 4, ex_held)"
  using commits_are_exclusive [OF ex_applied _ rtranclp.rtrancl_refl refl order_refl, of ex_env 4 ex_held]
  by (simp add: ex_held_def ex_run_row_def ex_other_run_def ex_start_def ex_run_def)

theorem effects_are_dispatched_once_witness:
  "\<exists>e' \<in> set (db_effects ex_committed). same_intent ex_effect_row e' \<and> effect_fence e' = Some (''l1'', ''w1'')"
proof -
  have a: "store_step\<^sup>*\<^sup>* ex_held ex_committed" by (rule r_into_rtranclp) (rule apply_bundle [OF ex_applied])
  have b: "effects_ok (db_effects ex_held)" by code_simp
  have c: "ex_effect_row \<in> set (db_effects ex_held)" "effect_fence ex_effect_row = Some (''l1'', ''w1'')"
    by (simp_all add: ex_held_def ex_effect_row_def new_effect_row_def ex_effect_def effect_fence_def)
  show ?thesis using effects_are_dispatched_once [OF a b c] by blast
qed

end
