(* ===== verification/AttemptLeaseProperties.thy ===== *)
theory AttemptLeaseProperties
  imports StoreExamples AttemptLeaseFacts
begin

text \<open>
  The store hosts leases on attempts as well: every lease that its transactions give keeps the bounds and the
  exclusion of claims, goes to the first attempt that may have it, and ends for good when it is recovered.
\<close>

section \<open>The store is a host\<close>

lemma advanced_pins:
  assumes "advanceRunFence env run t c db = Inr (r, db')"
  shows "db_attempts db' = db_attempts db \<and> same_pins db db'"
proof -
  from assms obtain v and f :: "run_row \<Rightarrow> run_row" and rows n where
    u: "updateE run_schema (\<lambda>r. rw_id r = run \<and> rw_version r = v) f (db_runs db) = Inr (rows, n)"
    and f: "\<And>r. run_pin (f r) = run_pin r" and db': "db' = db\<lparr>db_runs := rows\<rparr>"
    by (auto simp: advanceRunFence_def Let_def bindE_eq_Inr run_pin_def split: if_splits)
  from u have "rows = updated_rows (\<lambda>r. rw_id r = run \<and> rw_version r = v) f (db_runs db)"
    by (auto simp: updateE_def Let_def split: if_splits)
  then show ?thesis
    by (auto simp: db' same_pins_def updated_rows_def list.rel_map f intro!: list.rel_refl_strong)
qed

interpretation attempts: attempt_host "store_host env" for env
proof unfold_locales
  show "db_attempts db' = db_attempts db \<and> same_pins db db'"
    if "lh_advance (store_host env) run t c db = Inr (r, db')" for run t c db r db'
    using advanced_pins [of env run t c db r db'] that by (simp add: store_host_def)
  show "\<exists>row \<in> set (db_attempts db). aw_id row = i \<and> aw_run row = run \<and> attemptFromRow row = Inr a"
    if "lh_attempt (store_host env) i run db = Inr a" for i run db a
    using that
    by (auto simp: store_host_def attemptById_def bindE_eq_Inr dest!: first_row_Some split: option.splits)
qed

lemma schema_okD:
  assumes "schema_ok db"
  shows "distinct (map aw_id (db_attempts db))" "distinct (map rw_id (db_runs db))"
  using assms by (auto simp: schema_ok_def attempt_unique_def)

section \<open>Leasing\<close>

text \<open>C17: leasing an attempt never leaves more live leases than the executor is wide, nor more reserved
  sandboxes than the capacity of the provider, unless there were as many before.\<close>

theorem leases_within_capacity:
  assumes "leaseWithSnapshot (store_host env) cfg now request snapshot db = Inr (view, db')" and "schema_ok db"
  shows "live_leases db' \<le> max (live_leases db) (lc_width cfg) \<and>
    total_reserved (resourceReservations cfg snapshot db') \<le>
      max (total_reserved (resourceReservations cfg snapshot db)) (lc_capacity cfg)"
  using attempts.leasing_bounds [OF assms(1) schema_okD [OF assms(2)]] .

text \<open>C18: leasing keeps the claims of every run exclusive: a run with several claims holds only members of
  one parallel inspection, no more of them than the stage is wide, each in a resource slot of its own.\<close>

theorem claims_stay_exclusive:
  assumes "leaseNextEligibleAttempt (store_host env) cfg now request turns = Inr (view, db')"
    and "list_all (\<lambda>(snapshot, db). schema_ok db \<and> claims_exclude cfg snapshot (claimRows run db)) turns"
  shows "\<exists>(snapshot, db) \<in> set turns. claims_exclude cfg snapshot (claimRows run db')"
proof -
  from leasing_turn [OF assms(1)] obtain snapshot db where t: "(snapshot, db) \<in> set turns"
    and l: "leaseWithSnapshot (store_host env) cfg now request snapshot db = Inr (view, db')" by blast
  from assms(2) t have "schema_ok db" "claims_exclude cfg snapshot (claimRows run db)" by (auto simp: list_all_iff)
  with attempts.leasing_excludes [OF l schema_okD(1)] t show ?thesis by blast
qed

lemma findE_first:
  "findE P rows = Inr (Some row) \<Longrightarrow>
     \<exists>before after. rows = before @ row # after \<and> (\<forall>r \<in> set before. P r = Inr False) \<and> P row = Inr True"
proof (induction rows)
  case (Cons r rows)
  then obtain b where b: "P r = Inr b" by (auto simp: bindE_eq_Inr)
  show ?case
  proof (cases b)
    case True
    with Cons.prems b have "row = r" "P row = Inr True" by auto
    then show ?thesis by (metis append_Nil empty_iff list.set(1))
  next
    case False
    with Cons b obtain before after where
      "rows = before @ row # after" "\<forall>r \<in> set before. P r = Inr False" "P row = Inr True" by auto
    with b False have "r # rows = (r # before) @ row # after \<and> (\<forall>r \<in> set (r # before). P r = Inr False) \<and>
      P row = Inr True" by simp
    then show ?thesis by blast
  qed
qed simp

text \<open>C20: the attempts are leased in the order of their creation: a new lease goes to an attempt such that
  every older one that was eligible had been refused, and the view that the worker gets is that attempt's.\<close>

theorem leases_in_creation_order:
  assumes "leaseWithSnapshot (store_host env) cfg now request snapshot db = Inr (Some view, db')" and "schema_ok db"
    and "db' \<noteq> db"
  shows "\<exists>before row after.
    ordered_rows (\<lambda>a. (aw_created_at a, aw_id a)) (is_schedulable db) (db_attempts db) = before @ row # after \<and>
    (\<forall>older \<in> set before. candidate_accepted cfg snapshot db older = Inr False) \<and>
    candidate_accepted cfg snapshot db row = Inr True \<and> ka_id (la_attempt view) = aw_id row"
  using assms(1) schema_okD(1) [OF assms(2)]
proof (cases rule: attempts.leasing_cases)
  case (leased row v)
  from leased(6) schema_okD(1) [OF assms(2)] leased(4)
  have "ka_id (la_attempt v) = aw_id row"
    by (rule attempts.leaseAttempt_cases) (auto dest: attempt_of_row)
  with findE_first [OF leased(7)] leased(5) show ?thesis by auto
qed (use assms(3) in simp)

section \<open>Recovery\<close>

lemma matched: "list_all2 P xs ys \<Longrightarrow> y \<in> set ys \<Longrightarrow> \<exists>x \<in> set xs. P x y"
  by (induction rule: list_all2_induct) auto

lemma recovered_rows:
  assumes "recoverExpiredAttemptLeases (store_host env) cfg input turns = Inr (views, db')"
    and "list_all (\<lambda>(snapshot, db). schema_ok db) turns"
  shows "\<exists>snapshot db rows. (snapshot, db) \<in> set turns \<and> schema_ok db \<and>
    recoverAttempts (store_host env) input rows db = Inr (views, db') \<and> int (length rows) \<le> rq_limit input \<and>
    set rows \<subseteq> {a \<in> set (db_attempts db). expired_attempt (rq_observed_at input) a} \<and> distinct (map aw_id rows)"
proof -
  from assms(1) have limit: "rq_limit input \<ge> 1"
    and "with_fresh_snapshots (\<lambda>snapshot. transaction foreign_keys
        (recoverExpiredAttemptLeases_body (store_host env) cfg input snapshot)) (take 3 turns) = Inr (views, db')"
    by (auto simp: recoverExpiredAttemptLeases_def split: option.splits if_splits)
  from fresh_turn [OF this(2)] obtain snapshot db where t: "(snapshot, db) \<in> set turns"
    and b: "recoverExpiredAttemptLeases_body (store_host env) cfg input snapshot db = Inr (views, db')"
    by (auto simp: transaction_ok dest: in_set_takeD)
  from assms(2) t have ok: "schema_ok db" by (auto simp: list_all_iff)
  note d = schema_okD(1) [OF ok]
  let ?due = "ordered_rows expiry_key (expired_attempt (rq_observed_at input)) (db_attempts db)"
  have keys: "distinct (map expiry_key (db_attempts db))"
    using d by (auto simp: distinct_map inj_on_def expiry_key_def)
  from b obtain corrupt where
    rec: "recoverAttempts (store_host env) input
       (take (nat (rq_limit input)) (filter (\<lambda>a. aw_run a \<notin> set corrupt) ?due)) db = Inr (views, db')"
    by (auto simp: recoverExpiredAttemptLeases_body_def bindE_eq_Inr collect_pages_eq [OF keys]
        ATTEMPT_SCHEDULING_BATCH_SIZE_def after_key_def)
  let ?rows = "take (nat (rq_limit input)) (filter (\<lambda>a. aw_run a \<notin> set corrupt) ?due)"
  have "set ?rows \<subseteq> set ?due" by (meson filter_is_subset order_trans set_take_subset)
  then have rows: "set ?rows \<subseteq> {a \<in> set (db_attempts db). expired_attempt (rq_observed_at input) a}"
    by (auto simp: ordered_rows_def)
  have "distinct ?rows" using d by (intro distinct_take distinct_filter) (simp add: ordered_rows_def distinct_map)
  moreover from d rows have "inj_on aw_id (set ?rows)" by (auto simp: distinct_map inj_on_def)
  ultimately have "distinct (map aw_id ?rows)" by (simp only: distinct_map simp_thms)
  moreover have "int (length ?rows) \<le> rq_limit input" using limit by simp
  ultimately show ?thesis using t ok rec rows by blast
qed

text \<open>C19: recovering expired leases gives each of them to its worker again under the next generation, at most
  the requested number of them, and whoever presents another generation of such a lease afterwards is
  refused.\<close>

theorem recovery_fences_out:
  assumes "recoverExpiredAttemptLeases (store_host env) cfg input turns = Inr (views, db')"
    and "list_all (\<lambda>(snapshot, db). schema_ok db) turns"
  shows "int (length views) \<le> rq_limit input \<and>
    (\<exists>snapshot db rows. (snapshot, db) \<in> set turns \<and> set rows \<subseteq> set (db_attempts db) \<and>
       list_all (expired_attempt (rq_observed_at input)) rows \<and> list_all2 (recovered_view input) rows views) \<and>
    (\<forall>view \<in> set views. \<forall>host now renewal.
       rn_attempt_id renewal = ka_id (la_attempt view) \<and> rn_generation renewal \<noteq> le_generation (la_lease view) \<longrightarrow>
       renewAttemptLease host now renewal db' = throwM ''attempt lease fence does not match'')"
proof -
  from recovered_rows [OF assms] obtain snapshot db rows where t: "(snapshot, db) \<in> set turns" and ok: "schema_ok db"
    and rec: "recoverAttempts (store_host env) input rows db = Inr (views, db')" and n: "int (length rows) \<le> rq_limit input"
    and rows: "set rows \<subseteq> {a \<in> set (db_attempts db). expired_attempt (rq_observed_at input) a}"
    and ids: "distinct (map aw_id rows)" by blast
  have "set rows \<subseteq> set (db_attempts db)" using rows by blast
  from attempts.recoverAttempts_views [OF rec schema_okD(1) [OF ok] this ids]
  have v: "list_all2 (recovered_view input) rows views" "recovered_attempt_row input ` set rows \<subseteq> set (db_attempts db')"
    "map aw_id (db_attempts db') = map aw_id (db_attempts db)" by blast+
  have d': "distinct (map aw_id (db_attempts db'))" using schema_okD(1) [OF ok] by (simp add: v(3))
  have "renewAttemptLease host now renewal db' = throwM ''attempt lease fence does not match''"
    if view: "view \<in> set views" and r: "rn_attempt_id renewal = ka_id (la_attempt view)"
      "rn_generation renewal \<noteq> le_generation (la_lease view)" for view host now renewal
  proof -
    from matched [OF v(1) view] obtain row where row: "row \<in> set rows" "recovered_view input row view" by blast
    then have a: "recovered_attempt_row input row \<in> set (db_attempts db')" using v(2) by blast
    show ?thesis
      using row(2) r by (intro attempts.stale_renewal [OF d' a]) (simp_all add: recovered_view_def recovered_attempt_row_def)
  qed
  moreover have "int (length views) \<le> rq_limit input" using list_all2_lengthD [OF v(1)] n by simp
  ultimately show ?thesis using t v(1) rows by (intro conjI exI [of _ snapshot] exI [of _ db] exI [of _ rows])
      (auto simp: list_all_iff)
qed

section \<open>Members of an inspection\<close>

text \<open>
  Three members of a parallel inspection in a pool of two sandboxes: member 0 is leased, and its lease has
  expired; member 2 comes first but needs the slot of member 0; member 1 has a slot of its own.
\<close>

definition ex_inspection :: "string \<Rightarrow> int \<Rightarrow> attempt_lease option \<Rightarrow> attempt_row" where
  "ex_inspection i n lease =
     new_attempt_row ((ex_attempt i (FanoutMemberScope ''build'' ''s'' ''g'' i n))\<lparr>ka_lease := lease\<rparr>)
       [] [] (sv_now ex_env)"

definition ex_member_lease :: attempt_lease where
  "ex_member_lease = ex_lease\<lparr>le_expires_at := ''2025-01-01T00:00:00.000Z''\<rparr>"

definition ex_inspecting :: database where
  "ex_inspecting =
     \<lparr>db_runs = [ex_run_row (ex_run ''build'' [])],
      db_attempts = [new_attempt_row ((ex_attempt ''s'' (StageScope ''plan''))\<lparr>ka_status := Running\<rparr>) [] [] (sv_now ex_env),
        ex_inspection ''m0'' 0 (Some ex_member_lease), ex_inspection ''k2'' 2 None,
        ex_inspection ''m1'' 1 None],
      db_records = [], db_effects = [], db_checkpoints = []\<rparr>"

definition ex_snapshot :: scheduling_snapshot where
  "ex_snapshot = [(ex_hash, ValidManifest \<lparr>ls_pipeline_id = ''p'', ls_pool_size = 2, ls_widths = [(''build'', 3)]\<rparr>)]"

definition ex_lease_config :: lease_config where
  "ex_lease_config = projr (lease_configuration True 2 2)"

definition ex_request :: attempt_lease_request where
  "ex_request = \<lparr>ar_worker_id = ''w2'', ar_lease_id = ''l2'', ar_expires_at = ''2025-01-03T00:00:00.000Z''\<rparr>"

lemma ex_inspecting_ok: "schema_ok ex_inspecting \<and> foreign_keys ex_inspecting"
  by code_simp

lemma ex_body:
  "replayAttemptLease (store_host ex_env) ex_request ex_inspecting = Inr None \<and>
   assertSchedulingSnapshotCoverage ex_snapshot ex_inspecting = Inr () \<and>
   live_leases ex_inspecting < lc_width ex_lease_config \<and>
   scan_pages (\<lambda>a. (aw_created_at a, aw_id a)) ATTEMPT_SCHEDULING_BATCH_SIZE (is_schedulable ex_inspecting)
     (candidate_accepted ex_lease_config ex_snapshot ex_inspecting) (db_attempts ex_inspecting) None =
     Inr (Some (ex_inspection ''m1'' 1 None))"
  by code_simp

definition ex_lent :: "attempt_row list" where
  "ex_lent =
     [new_attempt_row ((ex_attempt ''s'' (StageScope ''plan''))\<lparr>ka_status := Running\<rparr>) [] [] (sv_now ex_env),
      ex_inspection ''m0'' 0 (Some ex_member_lease), ex_inspection ''k2'' 2 None,
      leased_attempt_row (sv_now ex_env) ex_request WorkLease (ex_inspection ''m1'' 1 None)]"

definition ex_fenced :: "string \<Rightarrow> string \<Rightarrow> run_row" where
  "ex_fenced t h = (ex_run_row (ex_run ''build'' []))
     \<lparr>rw_version := 4, rw_last_transition_id := Some t, rw_last_transition_hash := Some h,
      rw_updated_at := sv_now ex_env\<rparr>"

lemma fenced_view:
  "runFromRow (ex_fenced t h) (db\<lparr>db_runs := rows\<rparr>) = runFromRow (ex_fenced t ex_hash) db"
  by (simp add: runFromRow_def ex_fenced_def active_attempts_def active_effects_def attempt_checkpoints_def)

lemma ex_fenced_check:
  assumes "run_check (ex_fenced t ex_hash)"
  shows "run_check (ex_fenced t (digestCanonicalJson c))"
  using assms hash_check_digest [of c] by (simp add: run_check_def ex_fenced_def)

text \<open>Fencing the only run of the database.\<close>

lemma ex_advance:
  assumes "db_runs db = [ex_run_row (ex_run ''build'' [])]" and "run_check (ex_fenced t ex_hash)"
  shows "advanceRunFence ex_env ''r'' t c db =
    bindE (runFromRow (ex_fenced t ex_hash) db) (\<lambda>r. Inr (r, db\<lparr>db_runs := [ex_fenced t (digestCanonicalJson c)]\<rparr>))"
proof -
  have r: "rw_id (ex_run_row (ex_run ''build'' [])) = ''r'' \<and> rw_version (ex_run_row (ex_run ''build'' [])) = 3" by code_simp
  have f: "rw_id (ex_fenced t h) = ''r''" for h using r by (simp add: ex_fenced_def)
  have u: "(ex_run_row (ex_run ''build'' []))\<lparr>rw_version := 4, rw_last_transition_id := Some t,
      rw_last_transition_hash := Some h, rw_updated_at := sv_now ex_env\<rparr> = ex_fenced t h" for h
    by (simp add: ex_fenced_def)
  show ?thesis
    using ex_fenced_check [OF assms(2)]
    by (simp add: advanceRunFence_def runRow_def first_row_def assms(1) r updateE_def updated_rows_def u run_schema_def
        fenced_view f)
qed

lemma ex_lent_ok:
  "attempt_check (leased_attempt_row (sv_now ex_env) ex_request WorkLease (ex_inspection ''m1'' 1 None))"
  by code_simp

lemma ex_lent_keys: "foreign_keys (ex_inspecting\<lparr>db_attempts := ex_lent\<rparr>)"
  by code_simp

lemma ex_lent_run:
  "is_ok (runFromRow (ex_fenced ''attempt-lease:l2'' ex_hash) (ex_inspecting\<lparr>db_attempts := ex_lent\<rparr>)) \<and>
   run_check (ex_fenced ''attempt-lease:l2'' ex_hash)"
  by code_simp

lemma ex_inspection_simps:
  "aw_id (ex_inspection i n lease) = i" "aw_run (ex_inspection i n lease) = ''r''"
  "aw_version (ex_inspection i n lease) = 0" "aw_status (ex_inspection i n lease) = Pending"
  "aw_unmet (ex_inspection i n lease) = 0" "aw_lease_id (ex_inspection i n lease) = map_option le_id lease"
  "aw_parent (ex_inspection i n lease) = Some ''s''"
  by (simp_all add: ex_inspection_def new_attempt_row_def with_attempt_def ex_attempt_def)

lemma ex_lent:
  "updateE attempt_schema
     (\<lambda>a. aw_id a = ''m1'' \<and> (aw_run a = ''r'' \<and> aw_version a = 0 \<and> aw_lease_id a = None \<and> aw_unmet a = 0))
     (leased_attempt_row (sv_now ex_env) ex_request WorkLease) (db_attempts ex_inspecting) = Inr (ex_lent, 1)"
  using ex_lent_ok
  by (simp add: updateE_def updated_rows_def attempt_schema_def ex_inspecting_def ex_inspection_simps ex_lent_def
      attempt_unique_def no_duplicates_def leased_attempt_row_def new_attempt_row_def with_attempt_def ex_attempt_def
      ex_member_lease_def ex_lease_def ex_request_def)

lemma ex_lent_view:
  "is_ok (bindE (attemptById ex_env ''m1'' ''r'' (ex_inspecting\<lparr>db_attempts := ex_lent, db_runs := rows\<rparr>))
     (\<lambda>a. cast ''attempt lease'' (ka_lease a)))"
  unfolding ex_lent_def by code_simp

lemma ex_leasing:
  "\<exists>view db'. leaseWithSnapshot (store_host ex_env) ex_lease_config (sv_now ex_env) ex_request ex_snapshot ex_inspecting =
     Inr (Some view, db') \<and> db' \<noteq> ex_inspecting"
proof -
  let ?db = "ex_inspecting\<lparr>db_attempts := ex_lent\<rparr>"
  let ?c = "JObj [(''attempt_id'', JStr ''m1''), (''lease_id'', JStr ''l2''), (''generation'', json_int 0),
     (''worker_id'', JStr ''w2''), (''expires_at'', JStr ''2025-01-03T00:00:00.000Z'')]"
  let ?db' = "?db\<lparr>db_runs := [ex_fenced ''attempt-lease:l2'' (digestCanonicalJson ?c)]\<rparr>"
  from ex_lent_run obtain run where run: "runFromRow (ex_fenced ''attempt-lease:l2'' ex_hash) ?db = Inr run"
    by (auto simp: is_ok_iff)
  have "advanceRunFence ex_env ''r'' ''attempt-lease:l2'' ?c ?db = Inr (run, ?db')"
    using ex_advance [of ?db "''attempt-lease:l2''" ?c] ex_lent_run run by (simp add: ex_inspecting_def)
  moreover from ex_lent_view [unfolded is_ok_iff bindE_eq_Inr] obtain a l where
    "attemptById ex_env ''m1'' ''r'' ?db' = Inr a" "cast ''attempt lease'' (ka_lease a) = Inr l" by blast
  ultimately have "\<exists>view. leaseAttempt (store_host ex_env) (sv_now ex_env) ex_request (ex_inspection ''m1'' 1 None) ex_inspecting =
      Inr (view, ?db')"
    using ex_lent by (simp add: leaseAttempt_def ex_inspection_simps attempt_view_def store_host_def ex_request_def)
  moreover have "foreign_keys ?db'"
    using ex_lent_keys by (subst foreign_keys_runs) (simp_all add: ex_inspecting_def ex_fenced_def)
  moreover have "?db' \<noteq> ex_inspecting"
  proof
    assume "?db' = ex_inspecting"
    then have "map rw_version (db_runs ?db') = map rw_version (db_runs ex_inspecting)" by simp
    then show False by (simp add: ex_inspecting_def ex_fenced_def ex_run_row_def with_run_def ex_run_def)
  qed
  ultimately show ?thesis
    using ex_body by (auto simp: leaseWithSnapshot_def transaction_def leaseNextEligibleAttempt_body_def)
qed

section \<open>The witnesses\<close>

theorem leases_within_capacity_witness:
  "\<exists>db'. live_leases db' \<le> 2 \<and> total_reserved (resourceReservations ex_lease_config ex_snapshot db') \<le> 2 \<and> db' \<noteq> ex_inspecting"
proof -
  from ex_leasing obtain view db' where l: "leaseWithSnapshot (store_host ex_env) ex_lease_config (sv_now ex_env) ex_request
      ex_snapshot ex_inspecting = Inr (Some view, db')" "db' \<noteq> ex_inspecting" by blast
  have "live_leases ex_inspecting \<le> 2 \<and> lc_width ex_lease_config = 2 \<and> lc_capacity ex_lease_config = 2 \<and>
    total_reserved (resourceReservations ex_lease_config ex_snapshot ex_inspecting) \<le> 2" by code_simp
  with leases_within_capacity [OF l(1)] ex_inspecting_ok l(2) show ?thesis by force
qed

theorem claims_stay_exclusive_witness:
  "\<exists>db'. claims_exclude ex_lease_config ex_snapshot (claimRows ''r'' db') \<and> db' \<noteq> ex_inspecting"
proof -
  from ex_leasing obtain view db' where l: "leaseWithSnapshot (store_host ex_env) ex_lease_config (sv_now ex_env) ex_request
      ex_snapshot ex_inspecting = Inr (Some view, db')" "db' \<noteq> ex_inspecting" by blast
  then have n: "leaseNextEligibleAttempt (store_host ex_env) ex_lease_config (sv_now ex_env) ex_request
      [(ex_snapshot, ex_inspecting)] = Inr (Some view, db')"
    by (simp add: leaseNextEligibleAttempt_def)
  have "claimSetIsValid ex_lease_config ex_snapshot (claimRows ''r'' ex_inspecting) = Inr True" by code_simp
  then have "list_all (\<lambda>(snapshot, db). schema_ok db \<and> claims_exclude ex_lease_config snapshot (claimRows ''r'' db))
      [(ex_snapshot, ex_inspecting)]"
    using ex_inspecting_ok by (simp add: claimSetIsValid_exclude)
  from claims_stay_exclusive [OF n this] l(2) show ?thesis by auto
qed

theorem leases_in_creation_order_witness:
  "\<exists>before row after.
    ordered_rows (\<lambda>a. (aw_created_at a, aw_id a)) (is_schedulable ex_inspecting) (db_attempts ex_inspecting) =
      before @ row # after \<and>
    candidate_accepted ex_lease_config ex_snapshot ex_inspecting row = Inr True"
proof -
  from ex_leasing obtain view db' where l: "leaseWithSnapshot (store_host ex_env) ex_lease_config (sv_now ex_env) ex_request
      ex_snapshot ex_inspecting = Inr (Some view, db')" "db' \<noteq> ex_inspecting" by blast
  from leases_in_creation_order [OF l(1) _ l(2)] ex_inspecting_ok show ?thesis by blast
qed

definition ex_recovery :: recovery_request where
  "ex_recovery = \<lparr>rq_observed_at = sv_now ex_env, rq_expires_at = ''2025-01-03T00:00:00.000Z'', rq_limit = 10\<rparr>"

definition ex_recovered :: "attempt_row list" where
  "ex_recovered =
     [new_attempt_row ((ex_attempt ''s'' (StageScope ''plan''))\<lparr>ka_status := Running\<rparr>) [] [] (sv_now ex_env),
      recovered_attempt_row ex_recovery (ex_inspection ''m0'' 0 (Some ex_member_lease)), ex_inspection ''k2'' 2 None,
      ex_inspection ''m1'' 1 None]"

lemma ex_recovered_ok:
  "attempt_check (recovered_attempt_row ex_recovery (ex_inspection ''m0'' 0 (Some ex_member_lease)))"
  by code_simp

lemma ex_recovered_keys: "foreign_keys (ex_inspecting\<lparr>db_attempts := ex_recovered\<rparr>)"
  by code_simp

lemma ex_recovered_run:
  "is_ok (runFromRow (ex_fenced ''attempt-recover:l:1'' ex_hash) (ex_inspecting\<lparr>db_attempts := ex_recovered\<rparr>)) \<and>
   run_check (ex_fenced ''attempt-recover:l:1'' ex_hash)"
  by code_simp

lemma ex_recovered_view:
  "is_ok (bindE (attemptById ex_env ''m0'' ''r'' (ex_inspecting\<lparr>db_attempts := ex_recovered, db_runs := rows\<rparr>))
     (\<lambda>a. cast ''attempt lease'' (ka_lease a)))"
  unfolding ex_recovered_def by code_simp

lemma ex_recovery_body:
  "(case (canonical_ms (rq_observed_at ex_recovery), canonical_ms (rq_expires_at ex_recovery)) of
      (Some observed, Some expires) \<Rightarrow> observed < expires | _ \<Rightarrow> False) \<and>
   corruptClaimRuns ex_lease_config ex_snapshot ex_inspecting = Inr [] \<and>
   collect_pages expiry_key ATTEMPT_SCHEDULING_BATCH_SIZE (expired_attempt (rq_observed_at ex_recovery))
     (\<lambda>a. aw_run a \<notin> set []) 10 (db_attempts ex_inspecting) [] None = [ex_inspection ''m0'' 0 (Some ex_member_lease)]"
  by code_simp

lemma ex_member_simps:
  "aw_lease_generation (ex_inspection i n (Some ex_member_lease)) = Some 1"
  "aw_lease_worker (ex_inspection i n (Some ex_member_lease)) = Some ''w''"
  "aw_lease_expires (ex_inspection i n (Some ex_member_lease)) = Some ''2025-01-01T00:00:00.000Z''"
  by (simp_all add: ex_inspection_def new_attempt_row_def with_attempt_def ex_attempt_def ex_member_lease_def ex_lease_def)

lemma recovered_columns:
  "aw_id (recovered_attempt_row input a) = aw_id a" "aw_lease_id (recovered_attempt_row input a) = aw_lease_id a"
  by (simp_all add: recovered_attempt_row_def)

lemma new_columns:
  "aw_id (new_attempt_row ((ex_attempt i scope)\<lparr>ka_status := status\<rparr>) records checkpoints now) = i"
  "aw_lease_id (new_attempt_row ((ex_attempt i scope)\<lparr>ka_status := status\<rparr>) records checkpoints now) = None"
  by (simp_all add: new_attempt_row_def with_attempt_def ex_attempt_def split: prod.split)

lemma member_lease: "le_id ex_member_lease = ''l''"
  by (simp add: ex_member_lease_def ex_lease_def)

lemma ex_recovered:
  "\<exists>view db'. recoverAttempt (store_host ex_env) ex_recovery (ex_inspection ''m0'' 0 (Some ex_member_lease)) ex_inspecting =
     Inr (view, db') \<and> foreign_keys db'"
proof -
  let ?m = "ex_inspection ''m0'' 0 (Some ex_member_lease)" and ?db = "ex_inspecting\<lparr>db_attempts := ex_recovered\<rparr>"
  have l: "aw_lease_id ?m = Some ''l''" by (simp add: ex_inspection_simps member_lease)
  have u: "updateE attempt_schema
       (\<lambda>a. aw_id a = ''m0'' \<and> (aw_run a = ''r'' \<and> aw_version a = 0 \<and> aw_lease_id a \<noteq> None \<and> aw_lease_id a = Some ''l'' \<and>
          aw_lease_generation a \<noteq> None \<and> aw_lease_generation a = Some 1 \<and>
          aw_lease_worker a \<noteq> None \<and> aw_lease_worker a = Some ''w'' \<and>
          aw_lease_expires a \<noteq> None \<and> aw_lease_expires a = Some ''2025-01-01T00:00:00.000Z''))
       (recovered_attempt_row ex_recovery) (db_attempts ex_inspecting) = Inr (ex_recovered, 1)"
    using ex_recovered_ok
    by (simp add: updateE_def updated_rows_def attempt_schema_def ex_inspecting_def ex_inspection_simps ex_recovered_def
        attempt_unique_def no_duplicates_def recovered_columns ex_member_simps member_lease new_columns)
  obtain c where c: "JObj [(''attempt_id'', JStr ''m0''), (''lease_id'', JStr ''l''),
      (''prior_generation'', json_int 1), (''generation'', json_int 2), (''worker_id'', JStr ''w''),
      (''prior_expires_at'', JStr ''2025-01-01T00:00:00.000Z''),
      (''expires_at'', JStr (rq_expires_at ex_recovery))] = c" by blast
  let ?db' = "?db\<lparr>db_runs := [ex_fenced ''attempt-recover:l:1'' (digestCanonicalJson c)]\<rparr>"
  from ex_recovered_run obtain run where run: "runFromRow (ex_fenced ''attempt-recover:l:1'' ex_hash) ?db = Inr run"
    by (auto simp: is_ok_iff)
  have "advanceRunFence ex_env ''r'' ''attempt-recover:l:1'' c ?db = Inr (run, ?db')"
    using ex_advance [of ?db "''attempt-recover:l:1''" c] ex_recovered_run run by (simp add: ex_inspecting_def)
  moreover from ex_recovered_view [unfolded is_ok_iff bindE_eq_Inr] obtain a l where
    "attemptById ex_env ''m0'' ''r'' ?db' = Inr a" "cast ''attempt lease'' (ka_lease a) = Inr l" by blast
  moreover have "''attempt-recover:'' @ ''l'' @ '':'' @ string_of_int 1 = ''attempt-recover:l:1''" by code_simp
  ultimately have "\<exists>view. recoverAttempt (store_host ex_env) ex_recovery ?m ex_inspecting = Inr (view, ?db')"
    unfolding recoverAttempt_def ex_inspection_simps(1-4) ex_member_simps l u bindE_simps prod.case
    by (simp add: cast_def [of "''lease generation''"] c attempt_view_def store_host_def ex_inspection_simps)
  moreover have "foreign_keys ?db'"
    using ex_recovered_keys by (subst foreign_keys_runs) (simp_all add: ex_inspecting_def ex_fenced_def)
  ultimately show ?thesis by blast
qed

theorem recovery_fences_out_witness:
  "\<exists>(view :: leased_attempt) db'. le_generation (la_lease view) = 2 \<and>
     renewAttemptLease (store_host ex_env) (sv_now ex_env)
       \<lparr>rn_attempt_id = ''m0'', rn_lease_id = ''l'', rn_generation = 1, rn_worker_id = ''w'',
        rn_expires_at = ''2025-01-03T00:00:00.000Z''\<rparr> db' = throwM ''attempt lease fence does not match''"
proof -
  let ?m = "ex_inspection ''m0'' 0 (Some ex_member_lease)"
  from ex_recovered obtain view db' where r: "recoverAttempt (store_host ex_env) ex_recovery ?m ex_inspecting = Inr (view, db')"
    and k: "foreign_keys db'" by blast
  have d: "distinct (map aw_id (db_attempts ex_inspecting))" using ex_inspecting_ok by (simp add: schema_okD)
  have "?m \<in> set (db_attempts ex_inspecting)" by (simp add: ex_inspecting_def)
  with attempts.recoverAttempt_cases [OF r d] have v: "recovered_view ex_recovery ?m view" by blast
  have "recoverExpiredAttemptLeases (store_host ex_env) ex_lease_config ex_recovery [(ex_snapshot, ex_inspecting)] =
      Inr ([view], db')"
    using ex_recovery_body ex_body r k
    by (auto simp: recoverExpiredAttemptLeases_def transaction_def recoverExpiredAttemptLeases_body_def ex_recovery_def
        isSafeInteger_def MAX_SAFE_INTEGER_def split: option.splits)
  from recovery_fences_out [OF this] ex_inspecting_ok
  have refused: "rn_attempt_id renewal = ka_id (la_attempt view) \<Longrightarrow> rn_generation renewal \<noteq> le_generation (la_lease view) \<Longrightarrow>
      renewAttemptLease (store_host ex_env) (sv_now ex_env) renewal db' = throwM ''attempt lease fence does not match''"
    for renewal by simp
  from v have seen: "ka_id (la_attempt view) = ''m0''" "le_generation (la_lease view) = 2"
    by (simp_all add: recovered_view_def ex_inspection_simps ex_member_simps)
  show ?thesis by (rule exI [of _ view], rule exI [of _ db'], rule conjI [OF seen(2)], rule refused) (simp_all add: seen)
qed

end
