(* ===== verification/CheckpointAncestry.thy ===== *)
theory CheckpointAncestry
  imports Errors CycleSearch "HOL-Library.Multiset"
begin

text \<open>
  The checkpoint ancestry chain: \<open>supervisor/src/pipeline/kernel/checkpoint-ancestry.ts\<close>.  The
  entries of a chain come unordered; the routine rejects duplicates, forks, cycles, gaps and
  leftovers and returns them from the start subject to the end subject.  Its last loop follows
  the subjects with no bound of its own, so it is a partial function here and its termination
  is a theorem.
\<close>

section \<open>Operations\<close>

record ancestry_entry =
  an_checkpoint_id :: string
  an_input_subject :: string
  an_output_subject :: string

abbreviation (input) throwA :: "ancestry_error \<Rightarrow> 'a result" where
  "throwA e \<equiv> Inl (AncestryError e)"

definition KERNEL_CHECKPOINT_ANCESTRY_MAX_ENTRIES :: int where
  "KERNEL_CHECKPOINT_ANCESTRY_MAX_ENTRIES = 64"

text \<open>The first loop: the checkpoint ids, the map by input and the outputs met so far.\<close>

fun scan_entries ::
  "string list \<Rightarrow> ancestry_entry dict \<Rightarrow> string list \<Rightarrow> ancestry_entry list \<Rightarrow>
     (ancestry_entry dict) result" where
  "scan_entries ids byInput outputs [] = Inr byInput"
| "scan_entries ids byInput outputs (entry # rest) =
     (if an_checkpoint_id entry \<in> set ids then throwA AncestryDuplicateId
      else if an_input_subject entry \<in> set (keys byInput) \<or> an_output_subject entry \<in> set outputs
        then throwA AncestryFork
      else scan_entries (ids @ [an_checkpoint_id entry]) (byInput @ [(an_input_subject entry, entry)])
             (outputs @ [an_output_subject entry]) rest)"

definition next_subjects :: "ancestry_entry dict \<Rightarrow> string \<Rightarrow> string list" where
  "next_subjects byInput subject =
     (case map_of byInput subject of None \<Rightarrow> [] | Some entry \<Rightarrow> [an_output_subject entry])"

partial_function (option) follow ::
  "ancestry_entry dict \<Rightarrow> string \<Rightarrow> string \<Rightarrow> ancestry_entry list \<Rightarrow>
     ((ancestry_entry list) result) option" where
  "follow byInput end_subject cursor ordered =
     (if cursor = end_subject then Some (Inr ordered)
      else case map_of byInput cursor of
        None \<Rightarrow> Some (throwA AncestryGap)
      | Some entry \<Rightarrow> follow byInput end_subject (an_output_subject entry) (ordered @ [entry]))"

definition follow_all ::
  "ancestry_entry dict \<Rightarrow> string \<Rightarrow> string \<Rightarrow> nat \<Rightarrow> ((ancestry_entry list) result) option" where
  "follow_all byInput start_subject end_subject n =
     map_option (\<lambda>r. bindE r (\<lambda>ordered.
         if length ordered \<noteq> n then throwA AncestryDisconnected else Inr ordered))
       (follow byInput end_subject start_subject [])"

definition validateKernelCheckpointAncestryChain ::
  "ancestry_entry list \<Rightarrow> string \<Rightarrow> string \<Rightarrow> ((ancestry_entry list) result) option" where
  "validateKernelCheckpointAncestryChain entries start_subject end_subject =
     (if int (length entries) > KERNEL_CHECKPOINT_ANCESTRY_MAX_ENTRIES then Some (throwA AncestryTooLong)
      else case scan_entries [] [] [] entries of
        Inl e \<Rightarrow> Some (Inl e)
      | Inr byInput \<Rightarrow>
          (case visit_all (keys byInput) (next_subjects byInput) (\<lambda>_. AncestryError AncestryCycle)
                  [] [] (keys byInput) of
             Inl e \<Rightarrow> Some (Inl e)
           | Inr _ \<Rightarrow> follow_all byInput start_subject end_subject (length entries)))"

section \<open>Facts\<close>

abbreviation by_input :: "ancestry_entry list \<Rightarrow> ancestry_entry dict" where
  "by_input entries \<equiv> map (\<lambda>x. (an_input_subject x, x)) entries"

lemma scan_entries_ok:
  assumes "distinct (map an_checkpoint_id seen)" and "distinct (map an_input_subject seen)"
    and "distinct (map an_output_subject seen)"
  shows "scan_entries (map an_checkpoint_id seen) (by_input seen) (map an_output_subject seen) entries
           = Inr m \<longleftrightarrow>
         m = by_input (seen @ entries) \<and> distinct (map an_checkpoint_id (seen @ entries)) \<and>
         distinct (map an_input_subject (seen @ entries)) \<and>
         distinct (map an_output_subject (seen @ entries))"
  using assms
proof (induction entries arbitrary: seen)
  case (Cons x xs)
  show ?case
  proof (cases "an_checkpoint_id x \<in> set (map an_checkpoint_id seen) \<or>
      an_input_subject x \<in> set (map an_input_subject seen) \<or>
      an_output_subject x \<in> set (map an_output_subject seen)")
    case True
    then show ?thesis by (auto simp: comp_def)
  next
    case False
    then have "scan_entries (map an_checkpoint_id seen) (by_input seen) (map an_output_subject seen)
        (x # xs) = scan_entries (map an_checkpoint_id (seen @ [x])) (by_input (seen @ [x]))
        (map an_output_subject (seen @ [x])) xs"
      by (auto simp: comp_def)
    moreover have "distinct (map an_checkpoint_id (seen @ [x]))"
      "distinct (map an_input_subject (seen @ [x]))" "distinct (map an_output_subject (seen @ [x]))"
      using False Cons.prems by simp_all
    ultimately show ?thesis using Cons.IH [of "seen @ [x]"] by simp
  qed
qed auto

corollary scan_ok:
  "scan_entries [] [] [] entries = Inr m \<longleftrightarrow>
     m = by_input entries \<and> distinct (map an_checkpoint_id entries) \<and>
     distinct (map an_input_subject entries) \<and> distinct (map an_output_subject entries)"
  using scan_entries_ok [of "[]" entries m] by simp

text \<open>A chain of entries from one subject to another.\<close>

fun chain :: "string \<Rightarrow> ancestry_entry list \<Rightarrow> string \<Rightarrow> bool" where
  "chain s [] e \<longleftrightarrow> s = e"
| "chain s (x # xs) e \<longleftrightarrow> an_input_subject x = s \<and> chain (an_output_subject x) xs e"

definition ancestry_edges :: "ancestry_entry list \<Rightarrow> (string \<times> string) set" where
  "ancestry_edges entries = edges (keys (by_input entries)) (next_subjects (by_input entries))"

lemma map_of_by_input:
  assumes "distinct (map an_input_subject entries)"
  shows "map_of (by_input entries) s = Some x \<longleftrightarrow> x \<in> set entries \<and> an_input_subject x = s"
proof -
  have "dict_ok (by_input entries)" using assms by (simp add: comp_def)
  then show ?thesis by (auto simp: map_of_eq_Some_iff)
qed

lemma ancestry_edges_iff:
  assumes "distinct (map an_input_subject entries)"
  shows "(a, b) \<in> ancestry_edges entries \<longleftrightarrow>
         (\<exists>x \<in> set entries. an_input_subject x = a \<and> an_output_subject x = b)"
proof -
  have "(a, b) \<in> ancestry_edges entries \<longleftrightarrow>
        a \<in> set (map an_input_subject entries) \<and>
        (\<exists>x. map_of (by_input entries) a = Some x \<and> b = an_output_subject x)"
    by (cases "map_of (by_input entries) a")
      (auto simp: ancestry_edges_def edges_def next_subjects_def)
  then show ?thesis unfolding map_of_by_input [OF assms] by auto
qed

text \<open>Every result of the last loop extends the order built so far by a chain of entries.\<close>

lemma follow_result:
  assumes "acyclic (ancestry_edges entries)" and d: "distinct (map an_input_subject entries)"
  shows "\<exists>r. follow (by_input entries) e c acc = Some r \<and>
           (\<forall>ordered. r = Inr ordered \<longrightarrow>
              (\<exists>xs. ordered = acc @ xs \<and> chain c xs e \<and> set xs \<subseteq> set entries))"
proof -
  have "wf ((ancestry_edges entries)\<inverse>)"
    using assms(1) unfolding ancestry_edges_def by (intro finite_acyclic_wf_converse finite_edges)
  then show ?thesis
  proof (induction c arbitrary: acc)
    case (less c)
    consider (stop) "c = e" | (gap) "c \<noteq> e" "map_of (by_input entries) c = None"
      | (step) x where "c \<noteq> e" "map_of (by_input entries) c = Some x" by (cases "map_of (by_input entries) c") auto
    then show ?case
    proof cases
      case stop
      then show ?thesis by (subst follow.simps) auto
    next
      case gap
      then show ?thesis by (subst follow.simps) auto
    next
      case step
      then have x: "x \<in> set entries" "an_input_subject x = c" by (simp_all add: map_of_by_input d)
      then have "(an_output_subject x, c) \<in> (ancestry_edges entries)\<inverse>"
        by (auto simp: ancestry_edges_iff d)
      from less [OF this, of "acc @ [x]"] obtain r where
        r: "follow (by_input entries) e (an_output_subject x) (acc @ [x]) = Some r" and
        p: "\<forall>ordered. r = Inr ordered \<longrightarrow>
              (\<exists>xs. ordered = (acc @ [x]) @ xs \<and> chain (an_output_subject x) xs e \<and> set xs \<subseteq> set entries)"
        by blast
      have "follow (by_input entries) e c acc = Some r" using step r by (subst follow.simps) simp
      moreover have "\<exists>ys. ordered = acc @ ys \<and> chain c ys e \<and> set ys \<subseteq> set entries"
        if "r = Inr ordered" for ordered
      proof -
        from p that obtain xs where "ordered = acc @ (x # xs)" "chain (an_output_subject x) xs e"
          "set xs \<subseteq> set entries" by auto
        with x show ?thesis by (intro exI [of _ "x # xs"]) simp
      qed
      ultimately show ?thesis by blast
    qed
  qed
qed

text \<open>Along a chain in an acyclic graph no subject repeats.\<close>

lemma chain_reaches:
  assumes "distinct (map an_input_subject entries)" and "set xs \<subseteq> set entries" and "chain c xs e"
    and "x \<in> set xs"
  shows "(c, an_output_subject x) \<in> (ancestry_edges entries)\<^sup>+"
  using assms(2-)
proof (induction xs arbitrary: c)
  case (Cons y ys)
  then have edge: "(c, an_output_subject y) \<in> ancestry_edges entries"
    by (auto simp: ancestry_edges_iff assms(1))
  show ?case
  proof (cases "x = y")
    case False
    with Cons have "(an_output_subject y, an_output_subject x) \<in> (ancestry_edges entries)\<^sup>+" by simp
    with edge show ?thesis by (rule trancl_into_trancl2)
  qed (use edge in auto)
qed simp

lemma chain_distinct:
  assumes "acyclic (ancestry_edges entries)" and "distinct (map an_input_subject entries)"
    and "set xs \<subseteq> set entries" and "chain c xs e"
  shows "distinct (c # map an_output_subject xs)"
  using assms(3,4)
proof (induction xs arbitrary: c)
  case (Cons y ys)
  have "an_output_subject x \<noteq> c" if "x \<in> set (y # ys)" for x
    using chain_reaches [OF assms(2) Cons.prems that] assms(1) by (metis acyclic_def)
  then have "c \<notin> set (map an_output_subject (y # ys))" by auto
  moreover have "distinct (an_output_subject y # map an_output_subject ys)"
    using Cons.prems by (intro Cons.IH) simp_all
  ultimately show ?case by simp
qed simp

lemma chain_inputs:
  "chain s xs e \<Longrightarrow> map an_input_subject xs = butlast (s # map an_output_subject xs)"
  by (induction xs arbitrary: s) auto

lemma chain_last: "chain s xs e \<Longrightarrow> last (s # map an_output_subject xs) = e"
  by (induction xs arbitrary: s) auto

text \<open>A chain that repeats no subject gives an acyclic graph: subjects only move to the right.\<close>

lemma chain_edge_index:
  assumes "chain s xs e" and "x \<in> set xs"
  shows "\<exists>i < length xs. (s # map an_output_subject xs) ! i = an_input_subject x \<and>
           (s # map an_output_subject xs) ! Suc i = an_output_subject x"
  using assms
proof (induction xs arbitrary: s)
  case (Cons y ys)
  show ?case
  proof (cases "x = y")
    case False
    with Cons obtain i where "i < length ys"
      "(an_output_subject y # map an_output_subject ys) ! i = an_input_subject x"
      "(an_output_subject y # map an_output_subject ys) ! Suc i = an_output_subject x" by fastforce
    then show ?thesis by (intro exI [of _ "Suc i"]) simp
  qed (use Cons in auto)
qed simp

lemma chain_acyclic:
  assumes "chain s xs e" and d: "distinct (s # map an_output_subject xs)"
    and "set entries = set xs" and i: "distinct (map an_input_subject entries)"
  shows "acyclic (ancestry_edges entries)"
proof -
  let ?l = "s # map an_output_subject xs"
  obtain pos where pos: "pos (?l ! n) = n" if "n < length ?l" for n
  proof
    fix n assume "n < length ?l"
    with d show "(THE i. i < length ?l \<and> ?l ! i = ?l ! n) = n"
      by (intro the_equality) (auto simp only: nth_eq_iff_index_eq)
  qed
  have "pos a < pos b" if "(a, b) \<in> ancestry_edges entries" for a b
  proof -
    from that assms(3) obtain x where "x \<in> set xs" "an_input_subject x = a" "an_output_subject x = b"
      by (auto simp: ancestry_edges_iff [OF i])
    with chain_edge_index [OF assms(1)] obtain n where n: "n < length xs" "?l ! n = a" "?l ! Suc n = b"
      by blast
    have len: "n < length ?l" "Suc n < length ?l" using n(1) by simp_all
    have "pos a = n" using pos [OF len(1)] unfolding n(2) .
    moreover have "pos b = Suc n" using pos [OF len(2)] unfolding n(3) .
    ultimately show ?thesis by (simp only: lessI)
  qed
  then have "ancestry_edges entries \<subseteq> measure pos" by auto
  then have "acyclic ((ancestry_edges entries)\<inverse>)" using wf_acyclic [OF wf_measure [of pos]]
    by (metis acyclic_converse acyclic_subset)
  then show ?thesis by simp
qed

text \<open>On such a chain the last loop returns it.\<close>

lemma follow_chain:
  assumes "chain c xs e" and "distinct (c # map an_output_subject xs)"
    and "set xs \<subseteq> set entries" and "distinct (map an_input_subject entries)"
  shows "follow (by_input entries) e c acc = Some (Inr (acc @ xs))"
  using assms(1-3)
proof (induction xs arbitrary: c acc)
  case Nil
  then show ?case by (subst follow.simps) simp
next
  case (Cons x xs)
  then have "last (map an_output_subject (x # xs)) = e"
    using chain_last [of c "x # xs" e] by simp
  then have "e \<in> set (map an_output_subject (x # xs))"
    using last_in_set [of "map an_output_subject (x # xs)"] by auto
  with Cons.prems(2) have "c \<noteq> e" by auto
  moreover have "map_of (by_input entries) c = Some x"
    using Cons.prems by (simp add: map_of_by_input assms(4))
  moreover have "follow (by_input entries) e (an_output_subject x) (acc @ [x]) =
      Some (Inr ((acc @ [x]) @ xs))"
    using Cons.prems by (intro Cons.IH) simp_all
  ultimately show ?case by (subst follow.simps) simp
qed

lemma ancestry_acyclic_iff:
  "is_ok (visit_all (keys (by_input entries)) (next_subjects (by_input entries))
            (\<lambda>_. AncestryError AncestryCycle) [] [] (keys (by_input entries)))
   \<longleftrightarrow> acyclic (ancestry_edges entries)"
  by (simp only: visit_all_cycle_free walk.check_iff ancestry_edges_def)

lemma validate_ancestry_cases:
  "validateKernelCheckpointAncestryChain entries s e =
     (if int (length entries) > 64 then Some (throwA AncestryTooLong)
      else if \<not> is_ok (scan_entries [] [] [] entries)
        then Some (Inl (projl (scan_entries [] [] [] entries)))
      else if \<not> acyclic (ancestry_edges entries) then Some (throwA AncestryCycle)
      else follow_all (by_input entries) s e (length entries))"
proof (cases "scan_entries [] [] [] entries")
  case (Inl x)
  then show ?thesis
    by (simp add: validateKernelCheckpointAncestryChain_def KERNEL_CHECKPOINT_ANCESTRY_MAX_ENTRIES_def)
next
  case (Inr m)
  then have m: "m = by_input entries" by (simp add: scan_ok)
  let ?walk = "visit_all (keys m) (next_subjects m) (\<lambda>_. AncestryError AncestryCycle) [] [] (keys m)"
  have "is_ok ?walk \<longleftrightarrow> acyclic (ancestry_edges entries)" by (simp only: m ancestry_acyclic_iff)
  moreover have "x = AncestryError AncestryCycle" if "?walk = Inl x" for x
    using visit_all_reports_cycle [OF that] by (auto simp: on_path_def)
  ultimately show ?thesis using Inr m
    by (cases ?walk) (simp_all add: validateKernelCheckpointAncestryChain_def
        KERNEL_CHECKPOINT_ANCESTRY_MAX_ENTRIES_def)
qed

lemma follow_all_Some:
  "follow_all m s e n = Some (Inr ordered) \<longleftrightarrow>
     follow m e s [] = Some (Inr ordered) \<and> length ordered = n"
  by (auto simp: follow_all_def run_ok)

section \<open>Properties\<close>

text \<open>C24: the chain routine always returns: its unbounded last loop ends on every input, because
  the depth-first search before it has rejected every cycle.\<close>

theorem ancestry_terminates: "\<exists>r. validateKernelCheckpointAncestryChain entries s e = Some r"
proof (cases "is_ok (scan_entries [] [] [] entries) \<and> acyclic (ancestry_edges entries)")
  case True
  then have "distinct (map an_input_subject entries)" by (auto simp: is_ok_iff scan_ok)
  with True obtain r where "follow (by_input entries) e s [] = Some r" using follow_result by blast
  with True show ?thesis by (auto simp: validate_ancestry_cases follow_all_def)
qed (auto simp: validate_ancestry_cases)

text \<open>C23: the chain routine accepts exactly the entry sets that form one chain from the start to
  the end subject, without a repeated checkpoint or subject, and it returns them in chain order.\<close>

theorem ancestry_exact:
  "validateKernelCheckpointAncestryChain entries s e = Some (Inr ordered) \<longleftrightarrow>
     length entries \<le> 64 \<and> mset ordered = mset entries \<and> distinct (map an_checkpoint_id entries) \<and>
     chain s ordered e \<and> distinct (s # map an_output_subject ordered)"
  (is "?run \<longleftrightarrow> ?spec")
proof
  assume run: ?run
  then have len: "length entries \<le> 64" and d: "distinct (map an_checkpoint_id entries)"
      "distinct (map an_input_subject entries)" and ac: "acyclic (ancestry_edges entries)"
    and f: "follow (by_input entries) e s [] = Some (Inr ordered)" "length ordered = length entries"
    by (auto simp: validate_ancestry_cases follow_all_Some is_ok_iff scan_ok split: if_splits)
  with follow_result [OF ac d(2), of e s "[]"] have c: "chain s ordered e" "set ordered \<subseteq> set entries"
    by auto
  have outs: "distinct (s # map an_output_subject ordered)" by (rule chain_distinct [OF ac d(2) c(2,1)])
  then have "distinct ordered" by (simp add: distinct_map)
  moreover have de: "distinct entries" using d(1) by (simp add: distinct_map)
  ultimately have "set ordered = set entries"
    using c(2) f(2) by (simp add: card_subset_eq distinct_card [symmetric])
  with \<open>distinct ordered\<close> de have "mset ordered = mset entries" by (simp add: set_eq_iff_mset_eq_distinct)
  with len d c outs show ?spec by simp
next
  assume spec: ?spec
  then have same: "set entries = set ordered" by (metis mset_eq_setD)
  have ins: "distinct (map an_input_subject ordered)"
    using spec chain_inputs [of s ordered e] by (metis distinct_butlast)
  have "mset (map an_input_subject entries) = mset (map an_input_subject ordered)"
    "mset (map an_output_subject entries) = mset (map an_output_subject ordered)"
    using spec by simp_all
  with ins spec have d: "distinct (map an_input_subject entries)" "distinct (map an_output_subject entries)"
    by (metis mset_eq_imp_distinct_iff, metis mset_eq_imp_distinct_iff distinct.simps(2))
  have "acyclic (ancestry_edges entries)"
    using spec same d(1) by (intro chain_acyclic [of s ordered e]) auto
  moreover have "follow (by_input entries) e s [] = Some (Inr ([] @ ordered))"
    using spec same d(1) by (intro follow_chain) auto
  moreover have "length ordered = length entries" using spec by (metis size_mset)
  ultimately show ?run
    using spec d by (auto simp: validate_ancestry_cases follow_all_Some is_ok_iff scan_ok)
qed

end
