(* ===== verification/ExecutionPlan.thy ===== *)
theory ExecutionPlan
  imports JsonParse Postconditions
begin

text \<open>
  Execution plans: \<open>contracts/src/execution-plan-v2.ts\<close>, and the dependency check
  \<open>assertAcyclicDependencies\<close> of \<open>contracts/src/validation.ts\<close>.  A plan that is accepted can be
  scheduled: among any unfinished units one waits only for finished ones.
\<close>

section \<open>Data\<close>

definition EXECUTION_PLAN_SCHEMA_V2 :: string where
  "EXECUTION_PLAN_SCHEMA_V2 = ''openthrottle.execution-plan/v2''"

definition EXECUTION_PLAN_V2_MAX_BYTES :: int where
  "EXECUTION_PLAN_V2_MAX_BYTES = 256 * 1024"

record plan_unit =
  pu_id :: string
  pu_title :: string
  pu_depends_on :: "string list"
  pu_objective :: string
  pu_requirements :: "string list"
  pu_files :: "string list"
  pu_approach :: "string list"
  pu_tests :: "string list"
  pu_acceptance :: "string list"
  pu_verification :: "string list"

record execution_plan =
  ep_pipeline_id :: string
  ep_plan_id :: string
  ep_units :: "plan_unit list"
  ep_commands :: "plan_command list"

section \<open>As JSON\<close>

definition json_texts :: "string list \<Rightarrow> json" where
  "json_texts xs = JArr (map JStr xs)"

definition json_of_unit :: "plan_unit \<Rightarrow> json" where
  "json_of_unit u = JObj
     [(''id'', JStr (pu_id u)), (''title'', JStr (pu_title u)), (''depends_on'', json_texts (pu_depends_on u)),
      (''objective'', JStr (pu_objective u)), (''requirements'', json_texts (pu_requirements u)),
      (''files'', json_texts (pu_files u)), (''approach'', json_texts (pu_approach u)),
      (''tests'', json_texts (pu_tests u)), (''acceptance'', json_texts (pu_acceptance u)),
      (''verification'', json_texts (pu_verification u))]"

definition json_of_plan_command :: "plan_command \<Rightarrow> json" where
  "json_of_plan_command c = JObj
     [(''name'', JStr (pc_name c)), (''unit'', case pc_unit c of None \<Rightarrow> JNull | Some u \<Rightarrow> JStr u)]"

definition json_of_plan :: "execution_plan \<Rightarrow> json" where
  "json_of_plan p = JObj
     [(''schema'', JStr EXECUTION_PLAN_SCHEMA_V2), (''pipeline_id'', JStr (ep_pipeline_id p)),
      (''plan_id'', JStr (ep_plan_id p)), (''units'', JArr (map json_of_unit (ep_units p))),
      (''commands'', JArr (map json_of_plan_command (ep_commands p)))]"

section \<open>Readers\<close>

definition parseTextList :: "json option \<Rightarrow> string \<Rightarrow> int \<Rightarrow> int \<Rightarrow> int \<Rightarrow> (string list) result" where
  "parseTextList value path lo hi itemMax =
     arrayAt value path (\<lambda>entry entryPath. stringAt (Some entry) entryPath itemMax any_format) lo hi"

definition parseUnitV2 :: "json \<Rightarrow> string \<Rightarrow> plan_unit result" where
  "parseUnitV2 value path =
     bindE (objectAt (Some value) path
              [''id'', ''title'', ''depends_on'', ''objective'', ''requirements'', ''files'',
               ''approach'', ''tests'', ''acceptance'', ''verification'']) (\<lambda>input.
     let at = map_of input; p = sub_path path; texts = (\<lambda>f hi m. parseTextList (at f) (p f) 1 hi m) in
     bindE (stringAt (at ''id'') (p ''id'') default_max IDENTIFIER) (\<lambda>ident.
     bindE (stringAt (at ''title'') (p ''title'') 160 any_format) (\<lambda>title.
     bindE (parseIdentifierList (at ''depends_on'') (p ''depends_on'') 0 32) (\<lambda>depends.
     bindE (stringAt (at ''objective'') (p ''objective'') 2000 any_format) (\<lambda>objective.
     bindE (texts ''requirements'' 32 2000) (\<lambda>requirements.
     bindE (texts ''files'' 64 512) (\<lambda>files.
     bindE (texts ''approach'' 32 2000) (\<lambda>approach.
     bindE (texts ''tests'' 32 2000) (\<lambda>tests.
     bindE (texts ''acceptance'' 32 2000) (\<lambda>acceptance.
     bindE (texts ''verification'' 32 2000) (\<lambda>verification.
     Inr \<lparr>pu_id = ident, pu_title = title, pu_depends_on = depends, pu_objective = objective,
          pu_requirements = requirements, pu_files = files, pu_approach = approach, pu_tests = tests,
          pu_acceptance = acceptance, pu_verification = verification\<rparr>)))))))))))"

section \<open>The graph of units\<close>

text \<open>
  \<open>assertAcyclicDependencies\<close> takes anything with an id and dependencies.  The map \<open>byId\<close> keeps the
  last node of an id.  Its callers have checked that every dependency names a node.
\<close>

definition dependencies_of :: "(string \<times> string list) list \<Rightarrow> string \<Rightarrow> string list" where
  "dependencies_of units k = (case map_of (rev units) k of None \<Rightarrow> [] | Some ds \<Rightarrow> ds)"

definition assertAcyclicDependencies :: "(string \<times> string list) list \<Rightarrow> string \<Rightarrow> unit result" where
  "assertAcyclicDependencies units path =
     bindE (visit_all (map fst units) (dependencies_of units)
              (\<lambda>k. ContractValidationError (sub_path (sub_path path k) ''depends_on'') CreatesCycle)
              [] [] (map fst units)) (\<lambda>_.
     Inr ())"

definition unit_edges :: "plan_unit list \<Rightarrow> (string \<times> string list) list" where
  "unit_edges units = map (\<lambda>u. (pu_id u, pu_depends_on u)) units"

definition validatePlanV2 :: "execution_plan \<Rightarrow> string \<Rightarrow> unit result" where
  "validatePlanV2 plan source =
     (let ids = map pu_id (ep_units plan) in
      if length (remdups ids) \<noteq> length ids
        then fail (sub_path source ''units'') (Message ''must not contain duplicate IDs'')
      else
        bindE (forE (\<lambda>u. forE (\<lambda>dependency.
                  if dependency \<notin> set ids
                    then fail (sub_path (sub_path (sub_path source ''units'') (pu_id u)) ''depends_on'')
                           (Message ''references an unknown unit'')
                  else Inr ()) (pu_depends_on u)) (ep_units plan)) (\<lambda>_.
        bindE (forE (\<lambda>command.
                  if pc_unit command \<noteq> None \<and> the (pc_unit command) \<notin> set ids
                    then fail (sub_path (sub_path (sub_path source ''commands'') (pc_name command)) ''unit'')
                           (Message ''references an unknown unit'')
                  else Inr ()) (ep_commands plan)) (\<lambda>_.
        assertAcyclicDependencies (unit_edges (ep_units plan)) (sub_path source ''units''))))"

definition validateExecutionPlanContractV2 :: "json \<Rightarrow> string \<Rightarrow> execution_plan result" where
  "validateExecutionPlanContractV2 value source =
     bindE (objectAt (Some value) source
              [''schema'', ''pipeline_id'', ''plan_id'', ''units'', ''commands'']) (\<lambda>input.
     if map_of input ''schema'' \<noteq> Some (JStr EXECUTION_PLAN_SCHEMA_V2)
       then fail (sub_path source ''schema'') (MustBeSchema EXECUTION_PLAN_SCHEMA_V2)
     else
       bindE (stringAt (map_of input ''pipeline_id'') (sub_path source ''pipeline_id'') default_max IDENTIFIER) (\<lambda>pipeline.
       bindE (stringAt (map_of input ''plan_id'') (sub_path source ''plan_id'') default_max IDENTIFIER) (\<lambda>ident.
       bindE (arrayAt (map_of input ''units'') (sub_path source ''units'') parseUnitV2 1 64) (\<lambda>units.
       bindE (arrayAt (map_of input ''commands'') (sub_path source ''commands'') parsePlanCommand 0 16) (\<lambda>commands.
       let plan = \<lparr>ep_pipeline_id = pipeline, ep_plan_id = ident, ep_units = units, ep_commands = commands\<rparr> in
       bindE (validatePlanV2 plan source) (\<lambda>_.
       if byteLength (canonicalJson (json_of_plan plan)) > EXECUTION_PLAN_V2_MAX_BYTES
         then fail source (Message ''canonical JSON must contain at most 262144 UTF-8 bytes'')
       else Inr plan))))))"

text \<open>\<open>JSON.parse\<close> of a text that is no JSON throws a \<open>SyntaxError\<close>.\<close>

definition parseExecutionPlanContractV2 :: "string \<Rightarrow> string \<Rightarrow> execution_plan result" where
  "parseExecutionPlanContractV2 raw source =
     (if byteLength raw > EXECUTION_PLAN_V2_MAX_BYTES then fail source (Message ''JSON exceeds 256 KiB'')
      else case json_parse raw of
        None \<Rightarrow> throwM ''SyntaxError''
      | Some value \<Rightarrow> validateExecutionPlanContractV2 value source)"

section \<open>What a plan satisfies\<close>

definition plan_graph :: "execution_plan \<Rightarrow> (string \<times> string) set" where
  "plan_graph p = {(pu_id u, d) | u d. u \<in> set (ep_units p) \<and> d \<in> set (pu_depends_on u)}"

definition plan_wf :: "execution_plan \<Rightarrow> bool" where
  "plan_wf p \<longleftrightarrow>
     distinct (map pu_id (ep_units p)) \<and>
     (\<forall>u \<in> set (ep_units p). set (pu_depends_on u) \<subseteq> pu_id ` set (ep_units p)) \<and>
     (\<forall>c \<in> set (ep_commands p). pred_option (\<lambda>u. u \<in> pu_id ` set (ep_units p)) (pc_unit c)) \<and>
     acyclic (plan_graph p)"

lemma dependencies_of_unit:
  assumes "distinct (map pu_id us)" and "u \<in> set us"
  shows "dependencies_of (unit_edges us) (pu_id u) = pu_depends_on u"
proof -
  have "map_of (rev (unit_edges us)) (pu_id u) = Some (pu_depends_on u)"
    using assms by (auto simp: unit_edges_def comp_def rev_map [symmetric] intro!: map_of_is_SomeI)
  then show ?thesis by (simp add: dependencies_of_def)
qed

lemma edges_of_units:
  assumes "distinct (map pu_id us)"
  shows "edges (map pu_id us) (dependencies_of (unit_edges us)) =
    {(pu_id u, d) | u d. u \<in> set us \<and> d \<in> set (pu_depends_on u)}"
  using assms by (auto simp: edges_def dependencies_of_unit)

lemma acyclic_check:
  assumes "distinct (map pu_id us)"
  shows "is_ok (assertAcyclicDependencies (unit_edges us) path) \<longleftrightarrow>
    acyclic {(pu_id u, d) | u d. u \<in> set us \<and> d \<in> set (pu_depends_on u)}"
proof -
  have ids: "map fst (unit_edges us) = map pu_id us" by (simp add: unit_edges_def comp_def)
  show ?thesis
    unfolding assertAcyclicDependencies_def
    by (simp add: run_ok ids visit_all_ok_iff edges_of_units [OF assms])
qed

lemma validatePlanV2_exact: "is_ok (validatePlanV2 p source) \<longleftrightarrow> plan_wf p"
proof (cases "distinct (map pu_id (ep_units p))")
  case True
  have named: "is_ok (if pc_unit c \<noteq> None \<and> the (pc_unit c) \<notin> ids then fail path d else Inr ()) \<longleftrightarrow>
      pred_option (\<lambda>u. u \<in> ids) (pc_unit c)" for c ids path d
    by (cases "pc_unit c") simp_all
  have loop: "is_ok (forE (\<lambda>u. forE (\<lambda>d. if d \<notin> ids then fail (path u) e else Inr ()) (pu_depends_on u)) us) \<longleftrightarrow>
      (\<forall>u \<in> set us. set (pu_depends_on u) \<subseteq> ids)" for ids path e us
    by (auto simp: run_ok)
  show ?thesis
    using True distinct_remdups_id [OF True]
    by (simp only: validatePlanV2_def Let_def plan_wf_def plan_graph_def if_False if_True simp_thms
        is_ok_bindE_unit loop forE_ok [of _ "ep_commands p"] named acyclic_check set_map)
next
  case False
  then show ?thesis by (simp add: validatePlanV2_def plan_wf_def length_remdups_eq)
qed

lemma accepted_plan_wf: "post plan_wf (validateExecutionPlanContractV2 v source)"
  unfolding validateExecutionPlanContractV2_def Let_def
  by (auto simp: posts post_unit validatePlanV2_exact intro: post_mono [OF post_True])

section \<open>Reading back\<close>

lemma texts_again:
  "post (\<lambda>xs. \<forall>q. parseTextList (Some (json_texts xs)) q lo hi m = Inr xs) (parseTextList v path lo hi m)"
  unfolding parseTextList_def json_texts_def by (rule strings_again)

lemma identifiers_again:
  "post (\<lambda>xs. \<forall>q. parseIdentifierList (Some (json_texts xs)) q lo hi = Inr xs) (parseIdentifierList v path lo hi)"
  unfolding parseIdentifierList_def json_texts_def post_bindE
  by (rule post_mono [OF strings_again]) (simp add: posts unique_ok)

lemma unit_again: "post (\<lambda>u. \<forall>q. parseUnitV2 (json_of_unit u) q = Inr u) (parseUnitV2 v path)"
proof -
  have s: "post (\<lambda>s. \<forall>q. stringAt (Some (JStr s)) q m pat = Inr s) (stringAt w p m pat)" for w p m pat
    by (simp add: posts stringAt_ok)
  have r: "post Q (parseUnitV2 v path)" if "\<And>u. \<forall>q. parseUnitV2 (json_of_unit u) q = Inr u \<Longrightarrow> Q u" for Q
    unfolding parseUnitV2_def Let_def
  proof ((rule post_bindI object_again s texts_again identifiers_again post_InrI)+, rule that)
  qed (simp cong: bindE_weak_cong add: parseUnitV2_def Let_def json_of_unit_def objectAt_ok bindE_eq_Inr)
  show ?thesis by (rule r)
qed

lemma plan_command_again:
  "post (\<lambda>c. \<forall>q. parsePlanCommand (json_of_plan_command c) q = Inr c) (parsePlanCommand v path)"
  unfolding parsePlanCommand_def
  by (auto simp: posts json_of_plan_command_def run_ok split: option.splits)

lemma plan_again:
  "post (\<lambda>p. \<forall>q. validateExecutionPlanContractV2 (json_of_plan p) q = Inr p)
     (validateExecutionPlanContractV2 v source)"
proof -
  have s: "post (\<lambda>s. \<forall>q. stringAt (Some (JStr s)) q m pat = Inr s) (stringAt w p m pat)" for w p m pat
    by (simp add: posts stringAt_ok)
  have w: "post (\<lambda>_. \<forall>q. validatePlanV2 p q = Inr ()) (validatePlanV2 p path)" for p path
    using validatePlanV2_exact by (auto simp: post_unit is_ok_iff)
  have r: "post Q (validateExecutionPlanContractV2 v source)"
    if "\<And>p. \<forall>q. validateExecutionPlanContractV2 (json_of_plan p) q = Inr p \<Longrightarrow> Q p" for Q
    unfolding validateExecutionPlanContractV2_def Let_def
  proof ((rule post_bindI post_unlessI object_again s array_again [OF unit_again] array_again [OF plan_command_again]
          w post_InrI)+, rule that)
  qed (simp cong: bindE_weak_cong add: validateExecutionPlanContractV2_def Let_def json_of_plan_def objectAt_ok bindE_eq_Inr)
  show ?thesis by (rule r)
qed

section \<open>Scheduling\<close>

text \<open>C35: a plan that is accepted can always be scheduled to its end: every unit waits only for units of the
  plan, and among any set of unfinished units one waits for none of them.\<close>

theorem accepted_plans_schedulable:
  assumes "validateExecutionPlanContractV2 v source = Inr p"
    and "unfinished \<subseteq> pu_id ` set (ep_units p)" and "unfinished \<noteq> {}"
  shows "\<exists>u \<in> set (ep_units p). pu_id u \<in> unfinished \<and>
    set (pu_depends_on u) \<subseteq> pu_id ` set (ep_units p) - unfinished"
proof -
  let ?us = "ep_units p"
  from postD [OF accepted_plan_wf assms(1)] have wf: "plan_wf p" .
  then have d: "distinct (map pu_id ?us)" and closed: "\<forall>u \<in> set ?us. set (pu_depends_on u) \<subseteq> pu_id ` set ?us"
    by (auto simp: plan_wf_def)
  have "cycle_free (map pu_id ?us) (dependencies_of (unit_edges ?us))"
    using wf by (simp add: walk.check_iff edges_of_units [OF d] plan_wf_def plan_graph_def)
  moreover obtain k where "k \<in> unfinished" using assms(3) by blast
  ultimately have "\<exists>r \<in> unfinished. \<forall>k \<in> set (dependencies_of (unit_edges ?us) r). k \<notin> unfinished"
    using assms(2) by (intro walk.ready_node) auto
  then
  obtain r where "r \<in> unfinished" and "\<forall>k \<in> set (dependencies_of (unit_edges ?us) r). k \<notin> unfinished" ..
  moreover then obtain u where "u \<in> set ?us" "r = pu_id u" using assms(2) by auto
  ultimately show ?thesis using closed dependencies_of_unit [OF d] by (intro bexI [of _ u]) auto
qed

definition ex_unit :: "string \<Rightarrow> string list \<Rightarrow> plan_unit" where
  "ex_unit i ds = \<lparr>pu_id = i, pu_title = ''t'', pu_depends_on = ds, pu_objective = ''o'', pu_requirements = [''r''],
     pu_files = [''f''], pu_approach = [''a''], pu_tests = [''t''], pu_acceptance = [''a''], pu_verification = [''v'']\<rparr>"

definition ex_plan :: execution_plan where
  "ex_plan = \<lparr>ep_pipeline_id = ''core/structured'', ep_plan_id = ''p'',
     ep_units = [ex_unit ''b'' [''a''], ex_unit ''a'' []], ep_commands = [\<lparr>pc_name = ''test'', pc_unit = Some ''b''\<rparr>]\<rparr>"

lemma ex_plan_accepted: "validateExecutionPlanContractV2 (json_of_plan ex_plan) ''plan'' = Inr ex_plan"
  by code_simp

theorem accepted_plans_schedulable_witness: "\<exists>u \<in> set (ep_units ex_plan). pu_id u \<in> {''a'', ''b''}"
  using accepted_plans_schedulable [OF ex_plan_accepted, of "{''a'', ''b''}"] by (auto simp: ex_plan_def ex_unit_def)

end
