(* ===== verification/ResultCandidate.thy ===== *)
theory ResultCandidate
  imports ExecutionPlan
begin

text \<open>
  Semantic results: \<open>contracts/src/result-candidate.ts\<close> and \<open>contracts/src/eval.ts\<close>.  An agent answers with a
  result candidate; its eval names the fields and outcomes it may use, a candidate is validated and
  normalised against them, and the same schema is handed to the provider as a JSON Schema.
\<close>

section \<open>Schemas of semantic results\<close>

definition RESULT_CANDIDATE_SCHEMA :: string where
  "RESULT_CANDIDATE_SCHEMA = ''openthrottle.result-candidate/v1''"

definition SEMANTIC_RESULT_SCHEMA :: string where
  "SEMANTIC_RESULT_SCHEMA = ''openthrottle.semantic-result-schema/v1''"

definition STRING_ARRAY_TO_NEWLINES :: string where
  "STRING_ARRAY_TO_NEWLINES = ''string-array-to-newlines/v1''"

definition RESULT_NORMALIZATIONS :: "string list" where
  "RESULT_NORMALIZATIONS = [STRING_ARRAY_TO_NEWLINES]"

definition RESULT_CANDIDATE_MAX_BYTES :: int where
  "RESULT_CANDIDATE_MAX_BYTES = 64 * 1024"

definition SEMANTIC_EXECUTION_PLAN_MAX_BYTES :: int where
  "SEMANTIC_EXECUTION_PLAN_MAX_BYTES = 56 * 1024"

definition SEMANTIC_FIELD_TYPES :: "string list" where
  "SEMANTIC_FIELD_TYPES =
     [''string'', ''string_list'', ''review_finding_list_v1'', ''boolean'', ''integer'', ''execution_plan_v2'']"

definition REVIEW_FINDING_SEVERITIES :: "string list" where
  "REVIEW_FINDING_SEVERITIES = [''P0'', ''P1'', ''P2'', ''P3'']"

definition REVIEW_FINDING_FIELDS :: "string list" where
  "REVIEW_FINDING_FIELDS = [''anchor'', ''evidence'', ''path'', ''severity'', ''title'']"

definition MAX_NORMALIZED_STRING_ITEMS :: int where
  "MAX_NORMALIZED_STRING_ITEMS = 32"

text \<open>\<open>[a-z][a-z0-9_]*\<close>\<close>

fun FIELD_NAME :: "string \<Rightarrow> bool" where
  "FIELD_NAME [] = False"
| "FIELD_NAME (c # cs) = (is_lower c \<and> all_in (\<lambda>d. is_lower_digit d \<or> d = CHR ''_'') cs)"

text \<open>The one normalisation of a string field is present or absent.\<close>

datatype semantic_field =
    StringField (sf_max_length: int) (sf_normalizes: bool)
  | StringListField (sl_max_length: int) (sl_max_items: int)
  | FindingListField (fl_max_items: int)
  | BooleanField
  | IntegerField
  | PlanField

record semantic_schema =
  ss_id :: string
  ss_outcomes :: "string list"
  ss_payload :: "semantic_field dict"

definition only_for :: "json dict \<Rightarrow> string \<Rightarrow> string \<Rightarrow> string \<Rightarrow> unit result" where
  "only_for input path field text =
     (if map_of input field \<noteq> None then fail (sub_path path field) (Message text) else Inr ())"

definition NOT_MAX_ITEMS :: string where
  "NOT_MAX_ITEMS = ''is valid only for string_list or review_finding_list_v1''"

definition NOT_STRING_FIELD :: string where
  "NOT_STRING_FIELD = ''is valid only for string fields''"

definition parseSemanticField :: "json \<Rightarrow> string \<Rightarrow> semantic_field result" where
  "parseSemanticField value path =
     bindE (objectAt (Some value) path [''type'', ''max_length'', ''max_items'', ''normalize'']) (\<lambda>input.
     bindE (enumAt (map_of input ''type'') (sub_path path ''type'') SEMANTIC_FIELD_TYPES) (\<lambda>type.
     if type = ''string'' then
       bindE (only_for input path ''max_items'' NOT_MAX_ITEMS) (\<lambda>_.
       bindE (integerAt (map_of input ''max_length'') (sub_path path ''max_length'') 1 (64 * 1024)) (\<lambda>max_length.
       if map_of input ''normalize'' = None then Inr (StringField max_length False)
       else
         bindE (enumAt (map_of input ''normalize'') (sub_path path ''normalize'') RESULT_NORMALIZATIONS) (\<lambda>_.
         Inr (StringField max_length True))))
     else if type = ''string_list'' then
       bindE (only_for input path ''normalize'' NOT_STRING_FIELD) (\<lambda>_.
       bindE (integerAt (map_of input ''max_length'') (sub_path path ''max_length'') 1 (64 * 1024)) (\<lambda>max_length.
       bindE (integerAt (map_of input ''max_items'') (sub_path path ''max_items'') 0 1024) (\<lambda>max_items.
       Inr (StringListField max_length max_items))))
     else if type = ''review_finding_list_v1'' then
       bindE (only_for input path ''max_length'' NOT_STRING_FIELD) (\<lambda>_.
       bindE (only_for input path ''normalize'' NOT_STRING_FIELD) (\<lambda>_.
       bindE (integerAt (map_of input ''max_items'') (sub_path path ''max_items'') 0 1024) (\<lambda>max_items.
       Inr (FindingListField max_items))))
     else
       bindE (only_for input path ''max_length'' NOT_STRING_FIELD) (\<lambda>_.
       bindE (only_for input path ''max_items'' NOT_MAX_ITEMS) (\<lambda>_.
       bindE (only_for input path ''normalize'' NOT_STRING_FIELD) (\<lambda>_.
       Inr (if type = ''boolean'' then BooleanField
            else if type = ''integer'' then IntegerField else PlanField))))))"

definition validateSemanticResultSchema :: "json \<Rightarrow> string \<Rightarrow> semantic_schema result" where
  "validateSemanticResultSchema value source =
     bindE (objectAt (Some value) source [''schema'', ''id'', ''outcomes'', ''payload'']) (\<lambda>input.
     if map_of input ''schema'' \<noteq> Some (JStr SEMANTIC_RESULT_SCHEMA)
       then fail (sub_path source ''schema'') (MustBeSchema SEMANTIC_RESULT_SCHEMA)
     else
       bindE (stringAt (map_of input ''id'') (sub_path source ''id'') default_max IDENTIFIER) (\<lambda>ident.
       bindE (arrayAt (map_of input ''outcomes'') (sub_path source ''outcomes'')
                (\<lambda>entry path. stringAt (Some entry) path 80 OUTCOME) 1 32) (\<lambda>listed.
       bindE (unique listed (sub_path source ''outcomes'')) (\<lambda>outcomes.
       bindE (recordAt (map_of input ''payload'') (sub_path source ''payload'') parseSemanticField 64
                (Some 80) FIELD_NAME) (\<lambda>payload.
       if payload = [] then fail (sub_path source ''payload'') (Message ''must contain at least one field'')
       else Inr \<lparr>ss_id = ident, ss_outcomes = outcomes, ss_payload = payload\<rparr>)))))"

fun json_of_semantic_field :: "semantic_field \<Rightarrow> json" where
  "json_of_semantic_field (StringField m n) = JObj
     ([(''type'', JStr ''string''), (''max_length'', JNum (JInt m))] @
      (if n then [(''normalize'', JStr STRING_ARRAY_TO_NEWLINES)] else []))"
| "json_of_semantic_field (StringListField m n) = JObj
     [(''type'', JStr ''string_list''), (''max_length'', JNum (JInt m)), (''max_items'', JNum (JInt n))]"
| "json_of_semantic_field (FindingListField n) = JObj
     [(''type'', JStr ''review_finding_list_v1''), (''max_items'', JNum (JInt n))]"
| "json_of_semantic_field BooleanField = JObj [(''type'', JStr ''boolean'')]"
| "json_of_semantic_field IntegerField = JObj [(''type'', JStr ''integer'')]"
| "json_of_semantic_field PlanField = JObj [(''type'', JStr ''execution_plan_v2'')]"

definition json_of_semantic_schema :: "semantic_schema \<Rightarrow> json" where
  "json_of_semantic_schema s = JObj
     [(''schema'', JStr SEMANTIC_RESULT_SCHEMA), (''id'', JStr (ss_id s)),
      (''outcomes'', json_texts (ss_outcomes s)),
      (''payload'', JObj (map (\<lambda>(k, f). (k, json_of_semantic_field f)) (ss_payload s)))]"

section \<open>Values\<close>

record review_finding =
  vf_severity :: string
  vf_path :: string
  vf_anchor :: string
  vf_title :: string
  vf_evidence :: string

definition parseReviewFinding :: "json \<Rightarrow> string \<Rightarrow> review_finding result" where
  "parseReviewFinding value path =
     bindE (objectAt (Some value) path REVIEW_FINDING_FIELDS) (\<lambda>input.
     bindE (enumAt (map_of input ''severity'') (sub_path path ''severity'') REVIEW_FINDING_SEVERITIES) (\<lambda>severity.
     bindE (stringAt (map_of input ''path'') (sub_path path ''path'') 512 any_format) (\<lambda>file.
     bindE (stringAt (map_of input ''anchor'') (sub_path path ''anchor'') 512 any_format) (\<lambda>anchor.
     bindE (stringAt (map_of input ''title'') (sub_path path ''title'') 300 any_format) (\<lambda>title.
     bindE (stringAt (map_of input ''evidence'') (sub_path path ''evidence'') 2000 any_format) (\<lambda>evidence.
     Inr \<lparr>vf_severity = severity, vf_path = file, vf_anchor = anchor, vf_title = title,
          vf_evidence = evidence\<rparr>))))))"

definition json_of_finding :: "review_finding \<Rightarrow> json" where
  "json_of_finding f = JObj
     [(''severity'', JStr (vf_severity f)), (''path'', JStr (vf_path f)), (''anchor'', JStr (vf_anchor f)),
      (''title'', JStr (vf_title f)), (''evidence'', JStr (vf_evidence f))]"

record normalization_diagnostic =
  nd_id :: string
  nd_path :: string
  nd_input_hash :: string
  nd_output_hash :: string

fun newlines :: "string list \<Rightarrow> string" where
  "newlines [] = []"
| "newlines [x] = x"
| "newlines (x # y # zs) = x @ CHR 0x0A # newlines (y # zs)"

text \<open>The array \<open>transformations\<close> that the source pushes to is the second component.\<close>

definition normalizeString ::
  "json \<Rightarrow> int \<Rightarrow> bool \<Rightarrow> string \<Rightarrow> string \<Rightarrow> normalization_diagnostic list \<Rightarrow>
     (string \<times> normalization_diagnostic list) result" where
  "normalizeString value maxLength normalizes path diagnosticPath transformations =
     (case value of
        JArr vs \<Rightarrow>
          if \<not> normalizes
            then bindE (stringAt (Some value) path maxLength any_format) (\<lambda>s. Inr (s, transformations))
          else
            bindE (arrayAt (Some value) path
                     (\<lambda>entry itemPath. stringAt (Some entry) itemPath maxLength any_format)
                     1 MAX_NORMALIZED_STRING_ITEMS) (\<lambda>items.
            let normalized = newlines items in
            if int (length normalized) > maxLength
              then fail path (Message (''normalized value must be at most '' @ string_of_int maxLength @
                     '' characters''))
            else Inr (normalized, transformations @
                   [\<lparr>nd_id = STRING_ARRAY_TO_NEWLINES, nd_path = diagnosticPath,
                     nd_input_hash = digestCanonicalJson value,
                     nd_output_hash = digestCanonicalJson (JStr normalized)\<rparr>]))
      | _ \<Rightarrow> bindE (stringAt (Some value) path maxLength any_format) (\<lambda>s. Inr (s, transformations)))"

fun validateSemanticValue ::
  "json \<Rightarrow> semantic_field \<Rightarrow> string \<Rightarrow> string \<Rightarrow> normalization_diagnostic list \<Rightarrow>
     (json \<times> normalization_diagnostic list) result" where
  "validateSemanticValue value (StringField maxLength normalizes) path diagnosticPath transformations =
     bindE (normalizeString value maxLength normalizes path diagnosticPath transformations) (\<lambda>(s, ts).
     Inr (JStr s, ts))"
| "validateSemanticValue value (StringListField maxLength maxItems) path diagnosticPath transformations =
     bindE (arrayAt (Some value) path
              (\<lambda>entry itemPath. stringAt (Some entry) itemPath maxLength any_format) 0 maxItems) (\<lambda>xs.
     Inr (json_texts xs, transformations))"
| "validateSemanticValue value (FindingListField maxItems) path diagnosticPath transformations =
     bindE (arrayAt (Some value) path parseReviewFinding 0 maxItems) (\<lambda>fs.
     Inr (JArr (map json_of_finding fs), transformations))"
| "validateSemanticValue value BooleanField path diagnosticPath transformations =
     bindE (booleanAt (Some value) path) (\<lambda>b. Inr (JBool b, transformations))"
| "validateSemanticValue value IntegerField path diagnosticPath transformations =
     bindE (integerAt (Some value) path (- MAX_SAFE_INTEGER) MAX_SAFE_INTEGER) (\<lambda>i.
     Inr (JNum (JInt i), transformations))"
| "validateSemanticValue value PlanField path diagnosticPath transformations =
     (if value = JNull then Inr (JNull, transformations)
      else
        bindE (validateExecutionPlanContractV2 value path) (\<lambda>plan.
        if byteLength (canonicalJson (json_of_plan plan)) > SEMANTIC_EXECUTION_PLAN_MAX_BYTES
          then fail path (Message ''must be at most 57344 canonical JSON bytes'')
        else Inr (json_of_plan plan, transformations)))"

section \<open>Candidates\<close>

record normalized_candidate =
  nc_outcome :: string
  nc_payload :: "json dict"
  nc_original_hash :: string
  nc_normalized_hash :: string
  nc_transformations :: "normalization_diagnostic list"

definition json_of_candidate :: "string \<Rightarrow> json dict \<Rightarrow> json" where
  "json_of_candidate outcome payload = JObj
     [(''schema'', JStr RESULT_CANDIDATE_SCHEMA), (''outcome'', JStr outcome), (''payload'', JObj payload)]"

text \<open>The loop over the fields of the schema.\<close>

fun payload_fields ::
  "json dict \<Rightarrow> string \<Rightarrow> semantic_field dict \<Rightarrow> normalization_diagnostic list \<Rightarrow>
     (json dict \<times> normalization_diagnostic list) result" where
  "payload_fields payloadInput source [] transformations = Inr ([], transformations)"
| "payload_fields payloadInput source ((name, field) # rest) transformations =
     (case map_of payloadInput name of
        None \<Rightarrow> fail (sub_path (sub_path source ''payload'') name) IsRequired
      | Some raw \<Rightarrow>
          bindE (validateSemanticValue raw field (sub_path (sub_path source ''payload'') name)
                   (''/payload/'' @ name) transformations) (\<lambda>(v, ts).
          bindE (payload_fields payloadInput source rest ts) (\<lambda>(vs, ts').
          Inr ((name, v) # vs, ts'))))"

definition validateAndNormalizeResultCandidate ::
  "json \<Rightarrow> json \<Rightarrow> string \<Rightarrow> normalized_candidate result" where
  "validateAndNormalizeResultCandidate value semanticSchema source =
     bindE (objectAt (Some value) source [''schema'', ''outcome'', ''payload'']) (\<lambda>input.
     bindE (jsonAt (Some value) source) (\<lambda>originalValue.
     if byteLength (canonicalJson originalValue) > RESULT_CANDIDATE_MAX_BYTES
       then fail source (Message ''must be at most 65536 canonical JSON bytes'')
     else if map_of input ''schema'' \<noteq> Some (JStr RESULT_CANDIDATE_SCHEMA)
       then fail (sub_path source ''schema'') (MustBeSchema RESULT_CANDIDATE_SCHEMA)
     else
       bindE (validateSemanticResultSchema semanticSchema ''semantic_schema'') (\<lambda>schema.
       bindE (stringAt (map_of input ''outcome'') (sub_path source ''outcome'') 80 OUTCOME) (\<lambda>outcome.
       if outcome \<notin> set (ss_outcomes schema)
         then fail (sub_path source ''outcome'') (MustBeOneOf (ss_outcomes schema))
       else
         bindE (objectAt (map_of input ''payload'') (sub_path source ''payload'')
                  (keys (ss_payload schema))) (\<lambda>payloadInput.
         bindE (payload_fields payloadInput source (ss_payload schema) []) (\<lambda>(payload, transformations).
         Inr \<lparr>nc_outcome = outcome, nc_payload = payload,
              nc_original_hash = digestCanonicalJson originalValue,
              nc_normalized_hash = digestCanonicalJson (json_of_candidate outcome payload),
              nc_transformations = transformations\<rparr>))))))"

section \<open>The JSON Schema for the provider\<close>

definition jn :: "int \<Rightarrow> json" where
  "jn i = JNum (JInt i)"

definition text_schema :: "int \<Rightarrow> json" where
  "text_schema maxLength = JObj
     [(''type'', JStr ''string''), (''minLength'', jn 1), (''maxLength'', jn maxLength)]"

definition stringArraySchema :: "int \<Rightarrow> int \<Rightarrow> int \<Rightarrow> json" where
  "stringArraySchema minItems maxItems maxLength = JObj
     [(''type'', JStr ''array''), (''minItems'', jn minItems), (''maxItems'', jn maxItems),
      (''items'', text_schema maxLength)]"

definition list_schema :: "int \<Rightarrow> json \<Rightarrow> json" where
  "list_schema maxItems items = JObj
     [(''type'', JStr ''array''), (''maxItems'', jn maxItems), (''items'', items)]"

definition object_schema :: "string list \<Rightarrow> json dict \<Rightarrow> json" where
  "object_schema required properties = JObj
     [(''type'', JStr ''object''), (''additionalProperties'', JBool False),
      (''required'', json_texts required), (''properties'', JObj properties)]"

definition finding_schema :: json where
  "finding_schema = object_schema REVIEW_FINDING_FIELDS
     [(''severity'', JObj [(''type'', JStr ''string''), (''enum'', json_texts REVIEW_FINDING_SEVERITIES)]),
      (''path'', text_schema 512), (''anchor'', text_schema 512), (''title'', text_schema 300),
      (''evidence'', text_schema 2000)]"

definition plan_unit_schema :: json where
  "plan_unit_schema = object_schema
     [''acceptance'', ''approach'', ''depends_on'', ''files'', ''id'', ''objective'',
      ''requirements'', ''tests'', ''title'', ''verification'']
     [(''id'', text_schema 160), (''title'', text_schema 160),
      (''depends_on'', list_schema 32 (text_schema 160)), (''objective'', text_schema 2000),
      (''requirements'', stringArraySchema 1 32 2000), (''files'', stringArraySchema 1 64 512),
      (''approach'', stringArraySchema 1 32 2000), (''tests'', stringArraySchema 1 32 2000),
      (''acceptance'', stringArraySchema 1 32 2000), (''verification'', stringArraySchema 1 32 2000)]"

definition plan_command_schema :: json where
  "plan_command_schema = object_schema [''name'', ''unit'']
     [(''name'', text_schema 160),
      (''unit'', JObj [(''anyOf'', JArr [JObj [(''type'', JStr ''null'')], text_schema 160])])]"

definition plan_schema :: json where
  "plan_schema = object_schema [''commands'', ''pipeline_id'', ''plan_id'', ''schema'', ''units'']
     [(''schema'', JObj [(''type'', JStr ''string''), (''const'', JStr EXECUTION_PLAN_SCHEMA_V2)]),
      (''pipeline_id'', text_schema 160), (''plan_id'', text_schema 160),
      (''units'', JObj [(''type'', JStr ''array''), (''minItems'', jn 1), (''maxItems'', jn 64),
                        (''items'', plan_unit_schema)]),
      (''commands'', list_schema 16 plan_command_schema)]"

fun providerFieldSchema :: "semantic_field \<Rightarrow> json" where
  "providerFieldSchema (StringField maxLength normalizes) =
     (if normalizes
      then JObj [(''anyOf'', JArr [text_schema maxLength,
             JObj [(''type'', JStr ''array''), (''minItems'', jn 1), (''maxItems'', jn MAX_NORMALIZED_STRING_ITEMS),
                   (''items'', text_schema maxLength)]])]
      else text_schema maxLength)"
| "providerFieldSchema (StringListField maxLength maxItems) = list_schema maxItems (text_schema maxLength)"
| "providerFieldSchema (FindingListField maxItems) = list_schema maxItems finding_schema"
| "providerFieldSchema BooleanField = JObj [(''type'', JStr ''boolean'')]"
| "providerFieldSchema IntegerField = JObj [(''type'', JStr ''integer'')]"
| "providerFieldSchema PlanField = JObj [(''anyOf'', JArr [JObj [(''type'', JStr ''null'')], plan_schema])]"

definition provider_schema_of :: "semantic_schema \<Rightarrow> json" where
  "provider_schema_of schema =
     (let names = sort (keys (ss_payload schema)) in JObj
       [(''$schema'', JStr ''https://json-schema.org/draft/2020-12/schema''), (''type'', JStr ''object''),
        (''additionalProperties'', JBool False), (''required'', json_texts [''outcome'', ''payload'', ''schema'']),
        (''properties'', JObj
           [(''schema'', JObj [(''type'', JStr ''string''), (''const'', JStr RESULT_CANDIDATE_SCHEMA)]),
            (''outcome'', JObj [(''type'', JStr ''string''), (''enum'', json_texts (ss_outcomes schema))]),
            (''payload'', object_schema names
               (map (\<lambda>name. (name, providerFieldSchema (the (map_of (ss_payload schema) name)))) names))])])"

definition providerJsonSchemaForResultCandidate :: "json \<Rightarrow> json result" where
  "providerJsonSchemaForResultCandidate semanticSchema =
     bindE (validateSemanticResultSchema semanticSchema ''semantic_schema'') (\<lambda>schema.
     Inr (provider_schema_of schema))"

section \<open>Evals\<close>

definition EVAL_DEFINITION_SCHEMA :: string where
  "EVAL_DEFINITION_SCHEMA = ''openthrottle.eval-definition/v1''"

record eval_definition =
  ed_id :: string
  ed_evaluator :: string
  ed_result :: semantic_schema

definition validateEvalDefinition :: "json \<Rightarrow> string \<Rightarrow> eval_definition result" where
  "validateEvalDefinition value source =
     bindE (objectAt (Some value) source [''schema'', ''id'', ''evaluator'', ''result'']) (\<lambda>input.
     if map_of input ''schema'' \<noteq> Some (JStr EVAL_DEFINITION_SCHEMA)
       then fail (sub_path source ''schema'') (MustBeSchema EVAL_DEFINITION_SCHEMA)
     else
       bindE (case map_of input ''result'' of
                None \<Rightarrow> fail (sub_path source ''result'') MustBeObject
              | Some v \<Rightarrow> validateSemanticResultSchema v (sub_path source ''result'')) (\<lambda>result.
       bindE (stringAt (map_of input ''id'') (sub_path source ''id'') 160 IDENTIFIER) (\<lambda>ident.
       if ss_id result \<noteq> ident
         then fail (sub_path source ''result.id'') (Message ''must match the eval definition id'')
       else
         bindE (stringAt (map_of input ''evaluator'') (sub_path source ''evaluator'') 200
                  EVALUATOR_PRIMITIVE_REFERENCE) (\<lambda>evaluator.
         Inr \<lparr>ed_id = ident, ed_evaluator = evaluator, ed_result = result\<rparr>))))"

end
