(* ===== verification/Evaluators.thy ===== *)
theory Evaluators
  imports ResultCandidate EvidencePayloads SandboxRecovery
begin

text \<open>
  The evaluator registry: \<open>pipeline/kernel/evaluator-registry.ts\<close>.  It turns the staged answer of an agent or the
  result of a command into a result record, and evaluates a result record to the outcome on which the
  pipeline branches.
\<close>

section \<open>Payload contracts\<close>

definition SEMANTIC_RESULT_RECORD_PAYLOAD_SCHEMA :: string where
  "SEMANTIC_RESULT_RECORD_PAYLOAD_SCHEMA = ''openthrottle.semantic-result-record/v1''"

definition COMMAND_RESULT_RECORD_PAYLOAD_SCHEMA :: string where
  "COMMAND_RESULT_RECORD_PAYLOAD_SCHEMA = ''openthrottle.command-result-record/v1''"

definition BLOCKING_REVIEW_FINDING_SEVERITIES :: "string list" where
  "BLOCKING_REVIEW_FINDING_SEVERITIES = take 2 REVIEW_FINDING_SEVERITIES"

record semantic_payload =
  sp_semantic_schema_id :: string
  sp_outcome :: string
  sp_payload :: json
  sp_transformations :: "json list"

text \<open>The outcome of a command payload is any value whose text is one of the four outcomes.\<close>

record command_payload =
  cp_command_id :: string
  cp_outcome :: json
  cp_exit_code :: int
  cp_summary :: string

record evaluated_result =
  er_evaluator :: string
  er_outcome :: json
  er_reason :: string

definition exactObject :: "json \<Rightarrow> string \<Rightarrow> string list \<Rightarrow> (json dict) result" where
  "exactObject value label ks =
     (case value of
        JObj es \<Rightarrow>
          bindE (forE (\<lambda>k. if k \<in> set ks then Inr () else throwM (label @ ''.'' @ k @ '' is unknown'')) (keys es))
            (\<lambda>_. Inr es)
      | _ \<Rightarrow> throwM (label @ '' must be an object''))"

fun as_string :: "json option \<Rightarrow> string option" where
  "as_string (Some (JStr s)) = Some s"
| "as_string _ = None"

definition semanticPayload :: "json \<Rightarrow> semantic_payload result" where
  "semanticPayload value =
     bindE (exactObject value ''semantic result payload''
              [''schema'', ''semantic_schema_id'', ''outcome'', ''payload'', ''transformations'']) (\<lambda>input.
     if map_of input ''schema'' \<noteq> Some (JStr SEMANTIC_RESULT_RECORD_PAYLOAD_SCHEMA)
       then throwM ''semantic result payload schema is unsupported''
     else case (as_string (map_of input ''semantic_schema_id''), as_string (map_of input ''outcome'')) of
       (Some schemaId, Some outcome) \<Rightarrow>
         bindE (jsonAt (map_of input ''transformations'') ''semantic_result.transformations'') (\<lambda>transformations.
         case transformations of
           JArr ts \<Rightarrow>
             bindE (jsonAt (map_of input ''payload'') ''semantic_result.payload'') (\<lambda>payload.
             Inr \<lparr>sp_semantic_schema_id = schemaId, sp_outcome = outcome, sp_payload = payload,
                  sp_transformations = ts\<rparr>)
         | _ \<Rightarrow> throwM ''semantic result transformations must be an array'')
     | _ \<Rightarrow> throwM ''semantic result payload identity is invalid'')"

text \<open>
  \<open>String(v)\<close>: an array is joined with commas, with \<open>null\<close> as the empty text.  Objects give a text that is no
  outcome.
\<close>

fun js_String :: "json \<Rightarrow> string" where
  "js_String JNull = ''null''"
| "js_String (JBool b) = (if b then ''true'' else ''false'')"
| "js_String (JNum n) = stringify_number n"
| "js_String (JStr s) = s"
| "js_String (JArr vs) = commas (map (\<lambda>v. if v = JNull then [] else js_String v) vs)"
| "js_String (JObj es) = ''[object Object]''"

definition COMMAND_OUTCOMES :: "string list" where
  "COMMAND_OUTCOMES = [''success'', ''no_change'', ''retryable_infrastructure_failure'', ''failure'']"

definition commandPayload :: "json \<Rightarrow> command_payload result" where
  "commandPayload value =
     bindE (exactObject value ''command result payload''
              [''schema'', ''command_id'', ''outcome'', ''exit_code'', ''summary'']) (\<lambda>input.
     case (as_string (map_of input ''command_id''), map_of input ''outcome'', map_of input ''exit_code'',
           as_string (map_of input ''summary'')) of
       (Some command, Some outcome, Some (JNum (JInt code)), Some summary) \<Rightarrow>
         (if map_of input ''schema'' \<noteq> Some (JStr COMMAND_RESULT_RECORD_PAYLOAD_SCHEMA) \<or>
             js_String outcome \<notin> set COMMAND_OUTCOMES \<or> \<not> isSafeInteger code
            then throwM ''command result payload is invalid''
          else Inr \<lparr>cp_command_id = command, cp_outcome = outcome, cp_exit_code = code, cp_summary = summary\<rparr>)
     | _ \<Rightarrow> throwM ''command result payload is invalid'')"

record decision_payload =
  dp_stage_id :: string
  dp_evaluator :: string
  dp_outcome :: json
  dp_reason :: string

definition decisionPayload :: "json \<Rightarrow> decision_payload result" where
  "decisionPayload value =
     bindE (exactObject value ''pipeline decision payload''
              [''schema'', ''stage_id'', ''evaluator'', ''outcome'', ''reason'']) (\<lambda>input.
     case (as_string (map_of input ''stage_id''), as_string (map_of input ''evaluator''),
           as_string (map_of input ''outcome''), as_string (map_of input ''reason'')) of
       (Some stage, Some evaluator, Some outcome, Some reason) \<Rightarrow>
         (if map_of input ''schema'' \<noteq> Some (JStr PIPELINE_DECISION_RECORD_PAYLOAD_SCHEMA)
            then throwM ''pipeline decision payload is invalid''
          else Inr \<lparr>dp_stage_id = stage, dp_evaluator = evaluator, dp_outcome = JStr outcome, dp_reason = reason\<rparr>)
     | _ \<Rightarrow> throwM ''pipeline decision payload is invalid'')"

definition json_of_semantic :: "semantic_payload \<Rightarrow> json" where
  "json_of_semantic p = JObj
     [(''schema'', JStr SEMANTIC_RESULT_RECORD_PAYLOAD_SCHEMA),
      (''semantic_schema_id'', JStr (sp_semantic_schema_id p)), (''outcome'', JStr (sp_outcome p)),
      (''payload'', sp_payload p), (''transformations'', JArr (sp_transformations p))]"

definition json_of_command :: "command_payload \<Rightarrow> json" where
  "json_of_command p = JObj
     [(''schema'', JStr COMMAND_RESULT_RECORD_PAYLOAD_SCHEMA), (''command_id'', JStr (cp_command_id p)),
      (''outcome'', cp_outcome p), (''exit_code'', json_int (cp_exit_code p)), (''summary'', JStr (cp_summary p))]"

definition json_of_decision_payload :: "decision_payload \<Rightarrow> json" where
  "json_of_decision_payload p = JObj
     [(''schema'', JStr PIPELINE_DECISION_RECORD_PAYLOAD_SCHEMA), (''stage_id'', JStr (dp_stage_id p)),
      (''evaluator'', JStr (dp_evaluator p)), (''outcome'', dp_outcome p), (''reason'', JStr (dp_reason p))]"

text \<open>The command and decision contracts return their input.\<close>

definition payloadContracts :: payload_registry where
  "payloadContracts =
     [(SEMANTIC_RESULT_RECORD_PAYLOAD_SCHEMA,
        (ResultKind, \<lambda>v path. bindE (semanticPayload v) (\<lambda>p. Inr (json_of_semantic p)))),
      (COMMAND_RESULT_RECORD_PAYLOAD_SCHEMA, (ResultKind, \<lambda>v path. bindE (commandPayload v) (\<lambda>_. Inr v))),
      (PIPELINE_DECISION_RECORD_PAYLOAD_SCHEMA, (DecisionKind, \<lambda>v path. bindE (decisionPayload v) (\<lambda>_. Inr v))),
      (ATTEMPT_FORENSICS_PAYLOAD_SCHEMA, ATTEMPT_FORENSICS_PAYLOAD_CONTRACT),
      (INVALID_RESULT_EVIDENCE_PAYLOAD_SCHEMA, INVALID_RESULT_EVIDENCE_PAYLOAD_CONTRACT)]"

definition ordinaryKernelPayloadSchemas :: payload_registry where
  "ordinaryKernelPayloadSchemas = payloadContracts"

section \<open>Result records\<close>

record staged_candidate =
  sg_schema :: string
  sg_semantic_schema_id :: string
  sg_original :: json
  sg_original_hash :: string
  sg_candidate :: json
  sg_normalized_hash :: string
  sg_transformations :: json

record command_result =
  cr_outcome :: string
  cr_command_id :: string
  cr_exit_code :: int
  cr_summary :: string

definition json_of_transformation :: "normalization_diagnostic \<Rightarrow> json" where
  "json_of_transformation d = JObj
     [(''id'', JStr (nd_id d)), (''path'', JStr (nd_path d)), (''input_hash'', JStr (nd_input_hash d)),
      (''output_hash'', JStr (nd_output_hash d))]"

definition evaluator_record_id :: "string \<Rightarrow> json \<Rightarrow> string" where
  "evaluator_record_id kind identity = kind @ ''-'' @ take 48 (digestCanonicalJson identity)"

definition assertCandidateReplay :: "staged_candidate \<Rightarrow> eval_definition \<Rightarrow> semantic_payload result" where
  "assertCandidateReplay staged evaluation =
     (if sg_schema staged \<noteq> ''openthrottle.staged-result-candidate/v1'' \<or>
         sg_semantic_schema_id staged \<noteq> ss_id (ed_result evaluation)
        then throwM ''staged candidate does not use the action's sealed eval schema''
      else
        bindE (validateAndNormalizeResultCandidate (sg_original staged)
                 (json_of_semantic_schema (ed_result evaluation)) ''staged_candidate.original'') (\<lambda>normalized.
        let transformations = map json_of_transformation (nc_transformations normalized) in
        if sg_original_hash staged \<noteq> nc_original_hash normalized \<or>
           sg_normalized_hash staged \<noteq> nc_normalized_hash normalized \<or>
           canonicalJson (sg_candidate staged) \<noteq>
             canonicalJson (json_of_candidate (nc_outcome normalized) (nc_payload normalized)) \<or>
           canonicalJson (sg_transformations staged) \<noteq> canonicalJson (JArr transformations)
          then throwM ''staged candidate does not match deterministic validation and normalization''
        else
          bindE (jsonAt (Some (JObj (nc_payload normalized))) ''normalized_candidate.payload'') (\<lambda>payload.
          Inr \<lparr>sp_semantic_schema_id = ss_id (ed_result evaluation), sp_outcome = nc_outcome normalized,
               sp_payload = payload, sp_transformations = transformations\<rparr>)))"

definition resultRecordBase ::
  "kernel_attempt \<Rightarrow> string \<Rightarrow> string \<Rightarrow> string \<Rightarrow> json \<Rightarrow> string \<Rightarrow> result_record" where
  "resultRecordBase attempt original_hash normalized_hash payload_schema payload created_at =
     \<lparr>rb_id = evaluator_record_id ''result'' (JObj
        [(''attempt_id'', JStr (ka_id attempt)), (''request_hash'', JStr (ka_request_hash attempt)),
         (''normalized_candidate_hash'', JStr normalized_hash)]),
      rb_pipeline_run_id = ka_pipeline_run_id attempt, rb_payload_schema = payload_schema,
      rb_payload = Inline payload, rb_created_at = created_at, rr_attempt_id = ka_id attempt,
      rr_request_hash = ka_request_hash attempt, rr_definition_bundle_hash = ka_definition_bundle_hash attempt,
      rr_input_subject = ka_input_subject attempt, rr_output_subject = ka_output_subject attempt,
      rr_original_candidate_hash = original_hash, rr_normalized_candidate_hash = normalized_hash\<rparr>"

definition createSemanticResultRecord ::
  "kernel_attempt \<Rightarrow> staged_candidate \<Rightarrow> eval_definition \<Rightarrow> string \<Rightarrow> result_record result" where
  "createSemanticResultRecord attempt staged evaluation created_at =
     (if ka_status attempt \<noteq> WorkComplete \<and> ka_status attempt \<noteq> ResultPending
        then throwM (''attempt '' @ ka_id attempt @ '' is not ready for an authoritative ResultRecord'')
      else
        bindE (assertCandidateReplay staged evaluation) (\<lambda>payload.
        Inr (resultRecordBase attempt (sg_original_hash staged) (sg_normalized_hash staged)
               SEMANTIC_RESULT_RECORD_PAYLOAD_SCHEMA (json_of_semantic payload) created_at)))"

definition createCommandResultRecord ::
  "kernel_attempt \<Rightarrow> command_result \<Rightarrow> string \<Rightarrow> string \<Rightarrow> result_record result" where
  "createCommandResultRecord attempt r expected_command_id created_at =
     (if cr_command_id r \<noteq> expected_command_id
        then throwM ''command result does not match the sealed command identity''
      else if \<not> isSafeInteger (cr_exit_code r) \<or> length (cr_summary r) > 4000
        then throwM ''command result is outside its executor-owned bounds''
      else
        (let payload = json_of_command \<lparr>cp_command_id = cr_command_id r, cp_outcome = JStr (cr_outcome r),
               cp_exit_code = cr_exit_code r, cp_summary = cr_summary r\<rparr>;
             digest = digestCanonicalJson payload in
         Inr (resultRecordBase attempt digest digest COMMAND_RESULT_RECORD_PAYLOAD_SCHEMA payload created_at)))"

section \<open>Evaluation\<close>

text \<open>
  \<open>findings.some (({ severity }) => ...)\<close>: it stops at the first blocking finding, and destructuring \<open>null\<close> throws
  a \<open>TypeError\<close>.
\<close>

fun hasBlockingReviewFinding :: "json list \<Rightarrow> bool result" where
  "hasBlockingReviewFinding [] = Inr False"
| "hasBlockingReviewFinding (JNull # rest) = throwM ''TypeError''"
| "hasBlockingReviewFinding (f # rest) =
     (case as_string (jfield f ''severity'') of
        Some severity \<Rightarrow>
          (if severity \<in> set BLOCKING_REVIEW_FINDING_SEVERITIES then Inr True else hasBlockingReviewFinding rest)
      | None \<Rightarrow> hasBlockingReviewFinding rest)"

definition semanticObject :: "json \<Rightarrow> string \<Rightarrow> (json dict) result" where
  "semanticObject value label =
     (case value of JObj es \<Rightarrow> Inr es | _ \<Rightarrow> throwM (label @ '' must be an object''))"

fun is_empty_array :: "json option \<Rightarrow> bool" where
  "is_empty_array (Some (JArr vs)) = (vs = [])"
| "is_empty_array _ = False"

fun is_filled_array :: "json option \<Rightarrow> bool" where
  "is_filled_array (Some (JArr vs)) = (vs \<noteq> [])"
| "is_filled_array _ = False"

definition route_result :: "string \<Rightarrow> bool \<Rightarrow> string \<Rightarrow> string \<Rightarrow> string \<Rightarrow> evaluated_result" where
  "route_result evaluator exact outcome good bad =
     \<lparr>er_evaluator = evaluator, er_outcome = JStr (if exact then outcome else ''semantic_repair_required''),
      er_reason = (if exact then good else bad)\<rparr>"

definition admissionOutcome :: "semantic_payload \<Rightarrow> evaluated_result result" where
  "admissionOutcome payload =
     bindE (semanticObject (sp_payload payload) ''admission result payload'') (\<lambda>value.
     let plan = map_of value ''execution_plan''; questions = map_of value ''questions'';
         exact =
           (sp_outcome payload = ''simple'' \<and> plan = Some JNull \<and> is_empty_array questions) \<or>
           (sp_outcome payload = ''structured'' \<and>
              (\<exists>p \<in> set_option plan. is_obj p \<and> jfield p ''pipeline_id'' = Some (JStr ''core/structured'')) \<and>
              is_empty_array questions) \<or>
           (sp_outcome payload = ''needs_human'' \<and> plan = Some JNull \<and> is_filled_array questions) in
     Inr (route_result ''core/admission-outcome@1'' exact (sp_outcome payload)
            ''validated_admission_route'' ''admission_route_payload_mismatch''))"

definition admissionReviewOutcome :: "semantic_payload \<Rightarrow> evaluated_result result" where
  "admissionReviewOutcome payload =
     bindE (semanticObject (sp_payload payload) ''admission review result payload'') (\<lambda>value.
     let findings = map_of value ''findings''; questions = map_of value ''questions'';
         exact =
           (sp_outcome payload = ''approved'' \<and> is_empty_array findings \<and> is_empty_array questions) \<or>
           (sp_outcome payload = ''rejected'' \<and> is_filled_array findings \<and> is_empty_array questions) \<or>
           (sp_outcome payload = ''needs_human'' \<and> is_filled_array questions) in
     Inr (route_result ''core/admission-review-outcome@1'' exact (sp_outcome payload)
            ''validated_admission_review'' ''admission_review_payload_mismatch''))"

definition reviewOutcome :: "semantic_payload \<Rightarrow> evaluated_result result" where
  "reviewOutcome payload =
     bindE (semanticObject (sp_payload payload) ''review result payload'') (\<lambda>value.
     case map_of value ''findings'' of
       Some (JArr findings) \<Rightarrow>
         bindE (hasBlockingReviewFinding findings) (\<lambda>blocking.
         Inr (if blocking
                then \<lparr>er_evaluator = ''core/review-outcome@1'', er_outcome = JStr ''semantic_repair_required'',
                      er_reason = ''blocking_review_finding''\<rparr>
              else if sp_outcome payload = ''failure'' \<and> findings \<noteq> []
                then \<lparr>er_evaluator = ''core/review-outcome@1'', er_outcome = JStr ''success'',
                      er_reason = ''advisory_review_failure_downgraded''\<rparr>
              else \<lparr>er_evaluator = ''core/review-outcome@1'', er_outcome = JStr (sp_outcome payload),
                    er_reason = ''validated_semantic_result''\<rparr>))
     | _ \<Rightarrow> throwM ''review result payload findings must be an array'')"

datatype live_payload = SemanticLive semantic_payload | CommandLive command_payload

definition inlineResultPayload :: "result_record \<Rightarrow> live_payload result" where
  "inlineResultPayload rec =
     (case rb_payload rec of
        Blob _ \<Rightarrow> throwM (''result '' @ rb_id rec @ '' must be materialized before live evaluation'')
      | Inline v \<Rightarrow>
          if rb_payload_schema rec = SEMANTIC_RESULT_RECORD_PAYLOAD_SCHEMA
            then bindE (semanticPayload v) (\<lambda>p. Inr (SemanticLive p))
          else if rb_payload_schema rec = COMMAND_RESULT_RECORD_PAYLOAD_SCHEMA
            then bindE (commandPayload v) (\<lambda>p. Inr (CommandLive p))
          else throwM (''result '' @ rb_id rec @ '' has no live evaluator payload contract''))"

definition EVALUATOR_PRIMITIVES :: "string list" where
  "EVALUATOR_PRIMITIVES =
     [''core/action-outcome@1'', ''core/admission-outcome@1'', ''core/admission-review-outcome@1'',
      ''core/review-outcome@1'', ''core/unit-outcome@1'']"

definition evaluateSemantic ::
  "string \<Rightarrow> agent_fields \<Rightarrow> eval_definition \<Rightarrow> result_record \<Rightarrow> evaluated_result result" where
  "evaluateSemantic stageId stage evaluation rec =
     (if af_eval stage \<noteq> ed_id evaluation
        then throwM (''stage '' @ stageId @ '' is not bound to eval '' @ ed_id evaluation)
      else
        bindE (inlineResultPayload rec) (\<lambda>live.
        case live of
          CommandLive _ \<Rightarrow> throwM (''agent stage '' @ stageId @ '' did not produce a semantic result'')
        | SemanticLive payload \<Rightarrow>
            if sp_semantic_schema_id payload \<noteq> ss_id (ed_result evaluation) \<or>
               sp_outcome payload \<notin> set (ss_outcomes (ed_result evaluation))
              then throwM (''result '' @ rb_id rec @ '' does not satisfy eval '' @ ed_id evaluation)
            else if ed_evaluator evaluation \<notin> set EVALUATOR_PRIMITIVES
              then throwM (''evaluator primitive '' @ ed_evaluator evaluation @ '' is not registered'')
            else if ed_evaluator evaluation = ''core/admission-outcome@1'' then admissionOutcome payload
            else if ed_evaluator evaluation = ''core/admission-review-outcome@1'' then admissionReviewOutcome payload
            else if ed_evaluator evaluation = ''core/review-outcome@1'' then reviewOutcome payload
            else Inr \<lparr>er_evaluator = ed_evaluator evaluation, er_outcome = JStr (sp_outcome payload),
                      er_reason = ''validated_semantic_result''\<rparr>))"

definition evaluateCommand :: "string \<Rightarrow> string \<Rightarrow> result_record \<Rightarrow> evaluated_result result" where
  "evaluateCommand stageId command rec =
     bindE (inlineResultPayload rec) (\<lambda>live.
     case live of
       CommandLive payload \<Rightarrow>
         (if cp_command_id payload \<noteq> command
            then throwM (''command stage '' @ stageId @ '' received another command's result'')
          else Inr \<lparr>er_evaluator = ''core/command-outcome@1'', er_outcome = cp_outcome payload,
                    er_reason = ''executor_command_result''\<rparr>)
     | SemanticLive _ \<Rightarrow> throwM (''command stage '' @ stageId @ '' received another command's result''))"

section \<open>Decision records\<close>

definition createPipelineDecisionRecord ::
  "kernel_attempt \<Rightarrow> result_record option \<Rightarrow> execution_record list \<Rightarrow> evaluated_result \<Rightarrow> string \<Rightarrow> decision_record" where
  "createPipelineDecisionRecord attempt r additional evaluated created_at =
     (let payload = json_of_decision_payload
            \<lparr>dp_stage_id = scope_stage_id (ka_scope attempt), dp_evaluator = er_evaluator evaluated,
             dp_outcome = er_outcome evaluated, dp_reason = er_reason evaluated\<rparr>;
          inputRecordIds = sortedUnique ((case r of None \<Rightarrow> [] | Some rec \<Rightarrow> [rb_id rec]) @ map rec_id additional) in
      \<lparr>rb_id = evaluator_record_id ''decision'' (JObj
         [(''attempt_id'', JStr (ka_id attempt)), (''input_record_ids'', json_strs inputRecordIds),
          (''payload'', payload)]),
       rb_pipeline_run_id = ka_pipeline_run_id attempt,
       rb_payload_schema = PIPELINE_DECISION_RECORD_PAYLOAD_SCHEMA, rb_payload = Inline payload,
       rb_created_at = created_at, dr_reducer = er_evaluator evaluated, dr_input_record_ids = inputRecordIds\<rparr>)"

end
