(* ===== verification/JsonRoundTrip.thy ===== *)
theory JsonRoundTrip
  imports JsonParse "HOL-Library.Multiset"
begin

text \<open>
  What is printed is parsed back: \<open>JSON.parse (JSON.stringify v)\<close> is \<open>v\<close> on the values whose numbers
  are integers, and the canonical text of a value determines it up to the order of keys.
\<close>

section \<open>Strings\<close>

lemma is_digit_nat: "is_digit c \<longleftrightarrow> 48 \<le> (of_char c :: nat) \<and> (of_char c :: nat) \<le> 57"
  by (simp add: is_digit_def less_eq_char_def)

lemma hex_val_char: "d < 16 \<Longrightarrow> hex_val (hex_char d) = Some d"
  by (auto simp: hex_val_def hex_char_def is_digit_nat)

lemma char_halves: "char_of (16 * (of_char c div 16) + of_char c mod 16 :: nat) = c"
  by simp

lemma str_body_escape: "str_body (escape_char c @ cs) = map_option (apfst ((#) c)) (str_body cs)"
proof -
  let ?named = "{CHR 0x22, CHR 0x5C, CHR 0x08, CHR 0x0C, CHR 0x0A, CHR 0x0D, CHR 0x09}"
  consider "c \<in> ?named" | "c \<notin> ?named" "(of_char c :: nat) < 32" | "c \<notin> ?named" "\<not> (of_char c :: nat) < 32"
    by blast
  then show ?thesis
  proof cases
    case 1
    then show ?thesis
      unfolding insert_iff empty_iff
      by (elim disjE) (simp_all add: escape_char_def unescape_def)
  next
    case 2
    then have "escape_char c = [CHR 0x5C, CHR ''u'', CHR ''0'', CHR ''0'',
        hex_char (of_char c div 16), hex_char (of_char c mod 16)]"
      by (simp add: escape_char_def)
    moreover have "(of_char c :: nat) div 16 < 16" "(of_char c :: nat) mod 16 < 16" using 2(2) by simp_all
    moreover have "hex_val (CHR ''0'') = Some 0" by (simp add: hex_val_def is_digit_nat)
    ultimately show ?thesis by (simp add: hex_val_char char_halves)
  next
    case 3
    then show ?thesis by (simp add: escape_char_def)
  qed
qed

lemma str_body_quoted: "str_body (concat (map escape_char s) @ CHR 0x22 # r) = Some (s, r)"
  by (induction s) (simp_all add: str_body_escape)

section \<open>Numbers\<close>

lemma nat_digits_no_zero: "10 \<le> n \<Longrightarrow> hd (nat_digits n) \<noteq> 0"
proof (induction n rule: nat_digits.induct)
  case (1 n)
  then show ?case
    by (cases "n div 10 < 10") (simp_all add: nat_digits.simps [of n] nat_digits.simps [of "n div 10"])
qed

text \<open>What may follow a value.\<close>

definition ends_value :: "string \<Rightarrow> bool" where
  "ends_value r \<longleftrightarrow> r = [] \<or> hd r \<in> set '',]}''"

lemma digits_of_nat:
  assumes "ends_value r"
  shows "digits_of (string_of_nat n @ r) = (string_of_nat n, r)"
proof -
  have a: "\<forall>c \<in> set (string_of_nat n). is_digit c" by (simp add: string_of_nat_digits)
  from assms have b: "r = [] \<or> \<not> is_digit (hd r)" by (auto simp: ends_value_def is_digit_nat)
  then have "takeWhile is_digit r = []" "dropWhile is_digit r = r" by (cases r; simp)+
  with a show ?thesis by (simp add: digits_of_def)
qed

lemma int_part_nat:
  assumes "ends_value r"
  shows "int_part (string_of_nat n @ r) = Some (string_of_nat n, r)"
proof -
  have "hd (string_of_nat n) \<noteq> CHR ''0''" if "1 < length (string_of_nat n)"
  proof -
    from that have "10 \<le> n" by (cases "n < 10") (simp_all add: string_of_nat_def nat_digits.simps [of n])
    then have "hd (nat_digits n) \<noteq> 0" by (rule nat_digits_no_zero)
    moreover have "hd (nat_digits n) < 10" by (rule nat_digits_lt [OF hd_in_set]) simp
    ultimately have "(of_char (hd (string_of_nat n)) :: nat) \<noteq> 48"
      by (simp add: string_of_nat_def hd_map digit_char_def)
    then show ?thesis by auto
  qed
  with digits_of_nat [OF assms] show ?thesis by (auto simp: int_part_def)
qed

lemma no_fraction: "ends_value r \<Longrightarrow> frac_part r = Some ([], r) \<and> exp_part r = Some ([], r)"
  by (cases r) (auto simp: ends_value_def frac_part_def exp_part_def)

lemma nat_head: "\<exists>c cs. string_of_nat n = c # cs \<and> is_digit c"
  using string_of_nat_digits [of _ n] by (cases "string_of_nat n") auto

lemma parse_number_int:
  assumes "ends_value r"
  shows "parse_number (string_of_int i @ r) = Some (JInt i, r)"
proof (cases "i < 0")
  case True
  then show ?thesis
    using int_part_nat [OF assms] no_fraction [OF assms] by (simp add: parse_number_def string_of_int_def)
next
  case False
  obtain c cs where c: "string_of_nat (nat i) = c # cs" "is_digit c" using nat_head by blast
  then have "c \<noteq> CHR ''-''" by auto
  moreover have "int (nat_of_string (c # cs)) = i"
    using False nat_of_string_of_nat [of "nat i"] c(1) by simp
  moreover have "int_part (c # cs @ r) = Some (c # cs, r)"
    using int_part_nat [OF assms, of "nat i"] c(1) by simp
  ultimately show ?thesis
    using False no_fraction [OF assms] c(1) by (simp add: parse_number_def string_of_int_def)
qed

section \<open>Values\<close>

text \<open>The values of the program: integral numbers, and objects in enumeration order with distinct keys.\<close>

fun plain :: "json \<Rightarrow> bool" where
  "plain (JNum n) \<longleftrightarrow> (\<exists>i. n = JInt i)"
| "plain (JArr vs) \<longleftrightarrow> (\<forall>v \<in> set vs. plain v)"
| "plain (JObj es) \<longleftrightarrow> distinct (keys es) \<and> fromEntries es = es \<and> (\<forall>(k, v) \<in> set es. plain v)"
| "plain _ \<longleftrightarrow> True"

lemma not_ws [simp]:
  "\<not> is_ws (CHR 0x22)" "\<not> is_ws (CHR ''{'')" "\<not> is_ws (CHR ''['')" "\<not> is_ws (CHR ''}'')" "\<not> is_ws (CHR '']'')"
  "\<not> is_ws (CHR '','')" "\<not> is_ws (CHR '':'')" "\<not> is_ws (CHR ''n'')" "\<not> is_ws (CHR ''t'')" "\<not> is_ws (CHR ''f'')"
  "\<not> is_ws (CHR ''-'')"
  by (simp_all add: is_ws_def)

lemma digit_not_ws: "is_digit c \<Longrightarrow> \<not> is_ws c"
  by (auto simp: is_ws_def is_digit_nat)

lemma skip_ws_Cons [simp]: "\<not> is_ws c \<Longrightarrow> skip_ws (c # cs) = c # cs"
  by (simp add: skip_ws_def)

lemma ends_value_simps [simp]:
  "ends_value []" "ends_value (CHR '','' # r)" "ends_value (CHR ''}'' # r)" "ends_value (CHR '']'' # r)"
  by (simp_all add: ends_value_def)

lemma int_head:
  "\<exists>c cs. string_of_int i = c # cs \<and> \<not> is_ws c \<and> c \<notin> set ''{[ntf}]'' \<and> c \<noteq> CHR 0x22"
proof (cases "i < 0")
  case True
  then show ?thesis by (simp add: string_of_int_def)
next
  case False
  obtain c cs where "string_of_nat (nat i) = c # cs" "is_digit c" using nat_head by blast
  with False show ?thesis
    by (auto simp: string_of_int_def digit_not_ws) (auto simp: is_digit_nat)
qed

definition parses :: "json \<Rightarrow> bool" where
  "parses v \<longleftrightarrow> (\<forall>n r. 2 * length (stringify v) \<le> n \<longrightarrow> ends_value r \<longrightarrow>
     parse_value n (stringify v @ r) = Some (v, r))"

lemma parses_int: "parses (JNum (JInt i))"
  unfolding parses_def
proof (intro allI impI)
  fix n r assume n: "2 * length (stringify (JNum (JInt i))) \<le> n" and r: "ends_value r"
  obtain c cs where c: "string_of_int i = c # cs" "\<not> is_ws c" "c \<notin> set ''{[ntf}]''" "c \<noteq> CHR 0x22"
    using int_head by blast
  with n obtain m where "n = Suc m" by (cases n) auto
  with c parse_number_int [OF r, of i] show "parse_value n (stringify (JNum (JInt i)) @ r) = Some (JNum (JInt i), r)"
    by simp
qed

lemma stringify_head: "plain v \<Longrightarrow> \<exists>c cs. stringify v = c # cs \<and> \<not> is_ws c \<and> c \<noteq> CHR '']''"
  using int_head by (cases v) (auto simp: quote_def, fastforce)

lemma commas_Cons: "commas (x # xs) = (if xs = [] then x else x @ CHR '','' # commas xs)"
  by (cases xs) simp_all

lemma parses_elems:
  assumes "\<forall>v \<in> set vs. parses v" and "vs \<noteq> []" and "2 * length (commas (map stringify vs)) < n"
  shows "parse_elems n (commas (map stringify vs) @ CHR '']'' # r) = Some (vs, r)"
  using assms
proof (induction vs arbitrary: n)
  case (Cons v vs)
  then obtain m where m: "n = Suc m" by (cases n) auto
  show ?case
  proof (cases "vs = []")
    case True
    with Cons.prems m show ?thesis by (simp add: parses_def)
  next
    case False
    with Cons.prems m have "parse_value m (stringify v @ CHR '','' # commas (map stringify vs) @ CHR '']'' # r) =
        Some (v, CHR '','' # commas (map stringify vs) @ CHR '']'' # r)"
      by (simp add: parses_def commas_Cons)
    moreover have "parse_elems m (commas (map stringify vs) @ CHR '']'' # r) = Some (vs, r)"
      using Cons.prems False m by (intro Cons.IH) (simp_all add: commas_Cons)
    ultimately show ?thesis using False m by (simp add: commas_Cons)
  qed
qed simp

definition member_text :: "string \<times> json \<Rightarrow> string" where
  "member_text e = quote (fst e) @ CHR '':'' # stringify (snd e)"

lemma member_text_pair: "member_text (k, v) = quote k @ CHR '':'' # stringify v"
  by (simp add: member_text_def)

lemma member_text_fun: "member_text = (\<lambda>(k, v). quote k @ CHR '':'' # stringify v)"
  by (simp add: fun_eq_iff member_text_def)

lemma update_fresh: "k \<notin> set (keys d) \<Longrightarrow> AList.update k v d = d @ [(k, v)]"
  by (induction d) auto

lemma quote_append: "quote k @ r = CHR 0x22 # concat (map escape_char k) @ CHR 0x22 # r"
  by (simp add: quote_def)

lemma parses_members:
  assumes "\<forall>e \<in> set es. parses (snd e)" and "es \<noteq> []" and "2 * length (commas (map member_text es)) < n"
    and "distinct (keys acc @ keys es)"
  shows "parse_members n acc (commas (map member_text es) @ CHR ''}'' # r) = Some (acc @ es, r)"
  using assms
proof (induction es arbitrary: n acc)
  case (Cons e es)
  then obtain m where m: "n = Suc m" by (cases n) auto
  obtain k v where e: "e = (k, v)" by (cases e)
  have u: "AList.update k v acc = acc @ [(k, v)]" using Cons.prems(4) e by (intro update_fresh) auto
  show ?case
  proof (cases "es = []")
    case True
    with Cons.prems m e u show ?thesis
      by (simp add: parses_def member_text_def quote_append str_body_quoted)
  next
    case False
    let ?rest = "commas (map member_text es) @ CHR ''}'' # r"
    have "parses v" and "2 * length (stringify v) \<le> m"
      using Cons.prems m e False by (simp_all add: commas_Cons member_text_def)
    then have "parse_value m (stringify v @ CHR '','' # ?rest) = Some (v, CHR '','' # ?rest)"
      by (simp add: parses_def)
    moreover have "parse_members m (acc @ [(k, v)]) ?rest = Some ((acc @ [(k, v)]) @ es, r)"
      using Cons.prems False m e by (intro Cons.IH) (simp_all add: commas_Cons member_text_def)
    ultimately show ?thesis
      using False m e u by (simp add: commas_Cons member_text_pair quote_append str_body_quoted)
  qed
qed simp

lemma parses_array:
  assumes "\<forall>v \<in> set vs. parses v \<and> plain v"
  shows "parses (JArr vs)"
  unfolding parses_def
proof (intro allI impI)
  fix n r assume n: "2 * length (stringify (JArr vs)) \<le> n"
  then obtain m where m: "n = Suc m" by (cases n) auto
  show "parse_value n (stringify (JArr vs) @ r) = Some (JArr vs, r)"
  proof (cases vs)
    case Nil
    with m show ?thesis by simp
  next
    case (Cons v ws)
    with assms obtain c cs where c: "stringify v = c # cs" "\<not> is_ws c" "c \<noteq> CHR '']''"
      using stringify_head by force
    have "parse_elems m (commas (map stringify vs) @ CHR '']'' # r) = Some (vs, r)"
      using assms n m Cons by (intro parses_elems) simp_all
    with c Cons m show ?thesis by (simp add: commas_Cons split: if_splits)
  qed
qed

lemma parses_object:
  assumes "\<forall>e \<in> set es. parses (snd e)" and "distinct (keys es)" and "fromEntries es = es"
  shows "parses (JObj es)"
  unfolding parses_def
proof (intro allI impI)
  have shape: "stringify (JObj es) = CHR ''{'' # commas (map member_text es) @ ''}''"
    unfolding stringify.simps member_text_fun [symmetric] by simp
  fix n r assume n: "2 * length (stringify (JObj es)) \<le> n"
  with shape obtain m where m: "n = Suc m" by (cases n) auto
  show "parse_value n (stringify (JObj es) @ r) = Some (JObj es, r)"
  proof (cases es)
    case Nil
    with m show ?thesis by simp
  next
    case (Cons e ws)
    have "parse_members m [] (commas (map member_text es) @ CHR ''}'' # r) = Some (es, r)"
      using assms n m Cons shape parses_members [of es m "[]" r] by simp
    with Cons m assms(3) show ?thesis
      unfolding shape by (simp add: commas_Cons member_text_def quote_append split: if_splits)
  qed
qed

lemma plain_parses: "plain v \<Longrightarrow> parses v"
proof (induction v)
  case (JNum n)
  then show ?case using parses_int by auto
next
  case (JArr vs)
  then show ?case by (intro parses_array) auto
next
  case (JObj es)
  have "parses (snd e)" if "e \<in> set es" for e
    using JObj that by (cases e) force
  with JObj.prems show ?case by (intro parses_object) simp_all
next
  case (JStr s)
  show ?case unfolding parses_def
  proof (intro allI impI)
    fix n r assume "2 * length (stringify (JStr s)) \<le> n"
    then obtain m where "n = Suc m" by (cases n) (auto simp: quote_def)
    then show "parse_value n (stringify (JStr s) @ r) = Some (JStr s, r)"
      by (simp add: quote_append str_body_quoted)
  qed
next
  case (JBool b)
  show ?case unfolding parses_def
  proof (intro allI impI)
    fix n r assume "2 * length (stringify (JBool b)) \<le> n"
    then obtain m where "n = Suc m" by (cases n) (auto split: if_splits)
    then show "parse_value n (stringify (JBool b) @ r) = Some (JBool b, r)"
      by (simp add: literal_def)
  qed
next
  case JNull
  show ?case unfolding parses_def
  proof (intro allI impI)
    fix n r assume "2 * length (stringify JNull) \<le> n"
    then obtain m where "n = Suc m" by (cases n) auto
    then show "parse_value n (stringify JNull @ r) = Some (JNull, r)"
      by (simp add: literal_def)
  qed
qed

lemma parse_stringify_aux:
  assumes "plain v"
  shows "json_parse (stringify v) = Some v"
proof -
  from plain_parses [OF assms] have "parse_value (2 * length (stringify v) + 2) (stringify v @ []) = Some (v, [])"
    unfolding parses_def by (meson ends_value_simps(1) le_add1)
  then show ?thesis by (simp add: json_parse_def skip_ws_def)
qed

section \<open>Canonical text\<close>

text \<open>The values that the program hashes: integral numbers and objects with distinct keys.\<close>

fun keyed :: "json \<Rightarrow> bool" where
  "keyed (JNum n) \<longleftrightarrow> (\<exists>i. n = JInt i)"
| "keyed (JArr vs) \<longleftrightarrow> (\<forall>v \<in> set vs. keyed v)"
| "keyed (JObj es) \<longleftrightarrow> distinct (keys es) \<and> (\<forall>(k, v) \<in> set es. keyed v)"
| "keyed _ \<longleftrightarrow> True"

lemma fromEntries_set: "mset (fromEntries es) = mset es"
proof -
  have "mset (filter (is_index_key \<circ> fst) es) + mset (filter (Not \<circ> is_index_key \<circ> fst) es) = mset es"
    using multiset_partition [of "mset es" "is_index_key \<circ> fst"] by (simp add: comp_def)
  then show ?thesis by (simp add: fromEntries_def)
qed

lemma fromEntries_idem: "fromEntries (fromEntries es) = fromEntries es"
proof -
  let ?f = "\<lambda>e :: string \<times> 'a. (length (fst e), fst e)"
  let ?i = "sort_key ?f (filter (is_index_key \<circ> fst) es)"
  have "filter (is_index_key \<circ> fst) ?i = ?i" "filter (Not \<circ> is_index_key \<circ> fst) ?i = []"
    by (auto simp: filter_id_conv filter_empty_conv comp_def)
  then show ?thesis by (simp add: fromEntries_def sort_key_id_if_sorted comp_def)
qed

definition canonical_entries :: "json dict \<Rightarrow> json dict" where
  "canonical_entries es = fromEntries (sort_key fst (map (\<lambda>(k, v). (k, canonicalValue v)) es))"

lemma canonical_entries_mset: "mset (canonical_entries es) = mset (map (\<lambda>(k, v). (k, canonicalValue v)) es)"
  by (simp add: canonical_entries_def fromEntries_set)

lemma mset_keys: "mset d = mset e \<Longrightarrow> distinct (keys d) \<longleftrightarrow> distinct (keys e)"
  by (metis mset_eq_imp_distinct_iff mset_map)

lemma map_of_canonical:
  assumes "distinct (keys es)"
  shows "map_of (canonical_entries es) k = map_option canonicalValue (map_of es k)"
proof -
  let ?m = "map (\<lambda>(k, v). (k, canonicalValue v)) es"
  have k: "distinct (keys ?m)" using assms by (simp add: comp_def split_beta)
  moreover have "distinct (keys (canonical_entries es))"
    using mset_keys [OF canonical_entries_mset] k by blast
  moreover have "set (canonical_entries es) = set ?m"
    using canonical_entries_mset by (rule mset_eq_setD)
  ultimately have "map_of (canonical_entries es) = map_of ?m" by (simp add: map_of_inject_set)
  then show ?thesis by (simp add: map_of_map)
qed

lemma keyed_canonical: "keyed v \<Longrightarrow> plain (canonicalValue v)"
proof (induction v)
  case (JObj es)
  have "distinct (keys (canonical_entries es))"
    using JObj.prems mset_keys [OF canonical_entries_mset, of es] by (simp add: comp_def split_beta)
  moreover have "fromEntries (canonical_entries es) = canonical_entries es"
    by (simp add: canonical_entries_def fromEntries_idem)
  moreover have "plain v" if "(k, v) \<in> set (canonical_entries es)" for k v
  proof -
    from that have "(k, v) \<in> set (map (\<lambda>(k, v). (k, canonicalValue v)) es)"
      using mset_eq_setD [OF canonical_entries_mset] by blast
    then obtain w where "(k, w) \<in> set es" "v = canonicalValue w" by auto
    with JObj show ?thesis by force
  qed
  ultimately show ?case by (auto simp: canonical_entries_def [symmetric])
qed auto

text \<open>C36: canonical text is faithful: parsing it gives the canonical value back.\<close>

theorem parse_canonicalJson:
  assumes "keyed v"
  shows "json_parse (canonicalJson v) = Some (canonicalValue v)"
  using parse_stringify_aux [OF keyed_canonical [OF assms]] by (simp add: canonicalJson_def)

lemma canonicalJson_inj:
  assumes "keyed v" and "keyed w"
  shows "canonicalJson v = canonicalJson w \<longleftrightarrow> canonicalValue v = canonicalValue w"
  by (metis assms canonicalJson_def keyed_canonical option.inject parse_stringify_aux)

lemma canonical_entries_eq:
  assumes "distinct (keys es)" and "distinct (keys fs)"
    and "\<And>k. map_option canonicalValue (map_of es k) = map_option canonicalValue (map_of fs k)"
  shows "canonical_entries es = canonical_entries fs"
proof -
  let ?m = "map (\<lambda>(k, v). (k, canonicalValue v))"
  have d: "distinct (keys (?m es))" "distinct (keys (?m fs))"
    using assms(1,2) by (simp_all add: comp_def split_beta)
  have "map_of (?m es) = map_of (?m fs)" using assms(3) by (auto simp: map_of_map fun_eq_iff)
  with d have "set (?m es) = set (?m fs)" by (simp only: map_of_inject_set)
  with d have "mset (?m es) = mset (?m fs)"
    by (meson distinct_map set_eq_iff_mset_eq_distinct)
  moreover have "inj_on fst (set (?m es))" using d(1) by (simp only: distinct_map)
  ultimately have "sort_key fst (?m es) = sort_key fst (?m fs)"
    by (intro sort_key_inj_key_eq) simp_all
  then show ?thesis by (simp add: canonical_entries_def)
qed

text \<open>C37: the canonical text of an object, and with it its digest, does not depend on the order of the
  entries, and determines the canonical text of every field.\<close>

theorem canonical_objects_exact:
  assumes "keyed (JObj es)" and "keyed (JObj fs)"
  shows "canonicalJson (JObj es) = canonicalJson (JObj fs) \<longleftrightarrow>
     (\<forall>k. map_option canonicalJson (map_of es k) = map_option canonicalJson (map_of fs k))"
proof -
  have f: "map_option canonicalJson (map_of es k) = map_option canonicalJson (map_of fs k) \<longleftrightarrow>
      map_option canonicalValue (map_of es k) = map_option canonicalValue (map_of fs k)" for k
  proof (cases "map_of es k"; cases "map_of fs k")
    fix v w assume "map_of es k = Some v" "map_of fs k = Some w"
    moreover from this have "keyed v" "keyed w" using assms by (auto dest!: map_of_SomeD)
    ultimately show ?thesis by (simp add: canonicalJson_inj)
  qed simp_all
  have "canonicalJson (JObj es) = canonicalJson (JObj fs) \<longleftrightarrow> canonical_entries es = canonical_entries fs"
    using canonicalJson_inj [OF assms] by (simp add: canonical_entries_def)
  also have "\<dots> \<longleftrightarrow> (\<forall>k. map_option canonicalValue (map_of es k) = map_option canonicalValue (map_of fs k))"
    using assms map_of_canonical canonical_entries_eq [of es fs] by (metis keyed.simps(3))
  finally show ?thesis by (simp add: f)
qed

theorem parse_canonicalJson_witness:
  "json_parse ''{\"a\":[1,null],\"b\":\"x\"}'' = Some (JObj [(''a'', JArr [JNum (JInt 1), JNull]), (''b'', JStr ''x'')])"
proof -
  have "canonicalJson (JObj [(''b'', JStr ''x''), (''a'', JArr [JNum (JInt 1), JNull])]) = ''{\"a\":[1,null],\"b\":\"x\"}''"
    by code_simp
  then show ?thesis
    using parse_canonicalJson [of "JObj [(''b'', JStr ''x''), (''a'', JArr [JNum (JInt 1), JNull])]"]
    by (simp add: fromEntries_def is_index_key_def all_in_def is_digit_nat)
qed

theorem canonical_objects_exact_witness:
  "canonicalJson (JObj [(''b'', JNull), (''a'', JBool True)]) = canonicalJson (JObj [(''a'', JBool True), (''b'', JNull)])"
  by (subst canonical_objects_exact) auto

end
