(* ===== verification/JsonSize.thy ===== *)
theory JsonSize
  imports JsonRoundTrip
begin

text \<open>
  The byte length of JSON text, as a function of the value: it does not depend on the order of the
  entries of objects, so the canonical text of a value has the length of any text of it.  The limits
  that the program puts on canonical text are compared with these facts.
\<close>

definition json_size :: "json \<Rightarrow> int" where
  "json_size v = byteLength (stringify v)"

lemma byteLength_simps [simp]:
  "byteLength [] = 0" "byteLength (s @ t) = byteLength s + byteLength t"
  "byteLength (c # s) = (if (of_char c :: nat) < 128 then 1 else 2) + byteLength s"
proof -
  have "(of_char c < (128 :: int)) = (of_char c < (128 :: nat))" for c :: char
  proof -
    have "(of_char c :: int) = of_nat (of_char c)" by (simp add: of_char_def)
    then show ?thesis by (simp only: of_nat_less_numeral_iff)
  qed
  then show "byteLength (c # s) = (if (of_char c :: nat) < 128 then 1 else 2) + byteLength s"
    by (simp add: byteLength_def utf8_def utf8_char_def Let_def)
qed (simp_all add: byteLength_def utf8_def)

lemma byteLength_nonneg [simp]: "0 \<le> byteLength s"
  by (simp add: byteLength_def)

lemma byteLength_commas: "byteLength (commas xs) = (\<Sum>x \<leftarrow> xs. byteLength x + 1) - (if xs = [] then 0 else 1)"
  by (induction xs rule: commas.induct) simp_all

lemma member_sum_nonneg: "0 \<le> (\<Sum>x \<leftarrow> xs. f x)" if "\<And>x. 0 \<le> f x" for f :: "'a \<Rightarrow> int"
  using that by (induction xs) (simp_all add: add_nonneg_nonneg)

definition entry_size :: "string \<times> json \<Rightarrow> int" where
  "entry_size e = byteLength (quote (fst e)) + json_size (snd e) + 2"

lemma json_size_nonneg [simp]: "0 \<le> json_size v"
  by (simp add: json_size_def)

lemma entry_size_pos: "0 < entry_size e"
  by (simp add: entry_size_def add_nonneg_pos)

lemma json_size_arr:
  "json_size (JArr vs) = (if vs = [] then 2 else 1 + (\<Sum>v \<leftarrow> vs. json_size v + 1))"
  by (simp add: json_size_def byteLength_commas comp_def)

lemma json_size_obj:
  "json_size (JObj es) = (if es = [] then 2 else 1 + (\<Sum>e \<leftarrow> es. entry_size e))"
proof -
  have "(\<Sum>e \<leftarrow> es. byteLength (case e of (k, v) \<Rightarrow> quote k @ CHR '':'' # stringify v) + 1) = (\<Sum>e \<leftarrow> es. entry_size e)"
    by (rule arg_cong [of _ _ sum_list]) (simp add: entry_size_def json_size_def split_beta)
  then show ?thesis by (simp add: json_size_def byteLength_commas comp_def)
qed

text \<open>Objects with the same entries in another order.\<close>

lemma json_size_mset: "mset es = mset fs \<Longrightarrow> json_size (JObj es) = json_size (JObj fs)"
proof -
  assume m: "mset es = mset fs"
  then have "(\<Sum>e \<leftarrow> es. entry_size e) = (\<Sum>e \<leftarrow> fs. entry_size e)"
    by (metis mset_map sum_mset_sum_list)
  moreover from m have "es = [] \<longleftrightarrow> fs = []" by auto
  ultimately show ?thesis by (simp add: json_size_obj)
qed

lemma json_size_canonical: "json_size (canonicalValue v) = json_size v"
proof (induction v rule: canonicalValue.induct)
  case (1 vs)
  then show ?case by (simp add: json_size_arr comp_def cong: map_cong)
next
  case (2 es)
  have "json_size (canonicalValue (JObj es)) = json_size (JObj (canonical_entries es))"
    by (simp add: canonical_entries_def)
  also have "\<dots> = json_size (JObj (map (\<lambda>(k, v). (k, canonicalValue v)) es))"
    by (rule json_size_mset) (rule canonical_entries_mset)
  also have "\<dots> = json_size (JObj es)"
  proof -
    have "map (entry_size \<circ> (\<lambda>(k, v). (k, canonicalValue v))) es = map entry_size es"
      using 2 by (auto simp: entry_size_def)
    then show ?thesis by (simp add: json_size_obj del: map_eq_conv)
  qed
  finally show ?case .
qed simp_all

lemma byteLength_canonicalJson: "byteLength (canonicalJson v) = json_size v"
  using json_size_canonical [of v] by (simp add: canonicalJson_def json_size_def)

section \<open>Comparing sizes\<close>

lemma json_size_arr_mono:
  assumes "list_all2 (\<lambda>v w. json_size v \<le> json_size w) vs ws"
  shows "json_size (JArr vs) \<le> json_size (JArr ws)"
proof -
  have "(\<Sum>v \<leftarrow> vs. json_size v + 1) \<le> (\<Sum>w \<leftarrow> ws. json_size w + 1)" and "vs = [] \<longleftrightarrow> ws = []"
    using assms by (induction rule: list_all2_induct) auto
  then show ?thesis by (simp add: json_size_arr)
qed

lemma entries_le:
  assumes "distinct (keys ns)"
    and "\<forall>(k, v) \<in> set ns. \<exists>w. map_of es k = Some w \<and> json_size v \<le> json_size w"
  shows "(\<Sum>e \<leftarrow> ns. entry_size e) \<le> (\<Sum>e \<leftarrow> es. entry_size e)"
  using assms
proof (induction ns arbitrary: es)
  case Nil
  show ?case by (simp add: member_sum_nonneg less_imp_le [OF entry_size_pos])
next
  case (Cons n ns)
  obtain k v where n: "n = (k, v)" by (cases n)
  with Cons.prems(2) obtain w where w: "map_of es k = Some w" "json_size v \<le> json_size w" by auto
  from split_list [OF map_of_SomeD [OF w(1)]] obtain pre post where es: "es = pre @ (k, w) # post" by blast
  have "\<forall>(k', v') \<in> set ns. \<exists>w'. map_of (pre @ post) k' = Some w' \<and> json_size v' \<le> json_size w'"
  proof clarify
    fix k' v' assume m: "(k', v') \<in> set ns"
    with Cons.prems(1) n have "k' \<noteq> k" by (auto simp: rev_image_eqI)
    with Cons.prems(2) m es show "\<exists>w'. map_of (pre @ post) k' = Some w' \<and> json_size v' \<le> json_size w'"
      by (fastforce simp: map_add_def split: option.splits)
  qed
  with Cons.IH [of "pre @ post"] Cons.prems(1)
  have "(\<Sum>e \<leftarrow> ns. entry_size e) \<le> (\<Sum>e \<leftarrow> pre @ post. entry_size e)" by simp
  with w(2) show ?case by (simp add: n es entry_size_def)
qed

lemma json_size_obj_le:
  assumes "distinct (keys ns)"
    and "\<forall>(k, v) \<in> set ns. \<exists>w. map_of es k = Some w \<and> json_size v \<le> json_size w"
  shows "json_size (JObj ns) \<le> json_size (JObj es)"
proof (cases "ns = []")
  case True
  have "1 \<le> (\<Sum>e \<leftarrow> es. entry_size e)" if "es \<noteq> []"
    using that entry_size_pos [of "hd es"] member_sum_nonneg [of entry_size "tl es", OF less_imp_le [OF entry_size_pos]]
    by (cases es) simp_all
  with True show ?thesis by (auto simp: json_size_obj)
next
  case False
  with assms(2) have "es \<noteq> []" by (cases ns) auto
  with False entries_le [OF assms] show ?thesis by (simp add: json_size_obj)
qed

end
