(* ===== verification/SemanticResults.thy ===== *)
theory SemanticResults
  imports ResultCandidate JsonSize
begin

text \<open>
  Properties of semantic results: normalising is idempotent and never enlarges a candidate, and the
  JSON Schema handed to the provider admits what the validator accepts.
\<close>

section \<open>Values that shrink\<close>

text \<open>What \<open>jsonValueAt\<close> admits at a depth, with the default limits.\<close>

fun fits :: "int \<Rightarrow> json \<Rightarrow> bool" where
  "fits d (JNum n) \<longleftrightarrow> d \<le> 16 \<and> n \<noteq> JNonFinite"
| "fits d (JArr vs) \<longleftrightarrow> d \<le> 16 \<and> length vs \<le> 1024 \<and> (\<forall>v \<in> set vs. fits (d + 1) v)"
| "fits d (JObj es) \<longleftrightarrow> d \<le> 16 \<and> length es \<le> 1024 \<and>
     (\<forall>(k, v) \<in> set es. k \<noteq> [] \<and> length k \<le> 200 \<and> fits (d + 1) v)"
| "fits d v \<longleftrightarrow> d \<le> 16"

lemma is_ok_mapiE_nth: "is_ok (mapiE f i xs) \<longleftrightarrow> (\<forall>k < length xs. is_ok (f (i + k) (xs ! k)))"
proof (induction xs arbitrary: i)
  case (Cons x xs)
  have "is_ok (mapiE f i (x # xs)) \<longleftrightarrow> is_ok (f i x) \<and> is_ok (mapiE f (Suc i) xs)"
    by (auto simp: is_ok_iff bindE_eq_Inr)
  with Cons.IH show ?case by (auto simp: less_Suc_eq_0_disj)
qed simp

lemma is_ok_mapE: "is_ok (mapE f xs) \<longleftrightarrow> (\<forall>x \<in> set xs. is_ok (f x))"
  by (induction xs) (auto simp: is_ok_iff bindE_eq_Inr)

lemma default_limits [simp]:
  "jo_maxDepth default_json_options = 16" "jo_maxEntries default_json_options = 1024"
  "jo_maxKeyLength default_json_options = 200" "\<not> jo_rejectCarriageReturns default_json_options"
  by (simp_all add: default_json_options_def)

lemma jsonValueAt_fits:
  "opt = default_json_options \<Longrightarrow> is_ok (jsonValueAt opt d path v) \<longleftrightarrow> fits d v"
proof (induction opt d path v rule: jsonValueAt.induct)
  case (5 opt d path vs)
  show ?case
  proof (cases "d \<le> 16 \<and> length vs \<le> 1024")
    case True
    have "is_ok (jsonValueAt opt (d + 1) (idx_path path k) v) \<longleftrightarrow> fits (d + 1) v" if "v \<in> set vs" for k v
      using 5 True that by simp
    then have "is_ok (mapiE (\<lambda>i v. jsonValueAt opt (d + 1) (idx_path path i) v) 0 vs) \<longleftrightarrow>
        (\<forall>v \<in> set vs. fits (d + 1) v)"
      by (simp add: is_ok_mapiE_nth all_set_conv_all_nth)
    with True "5.prems" show ?thesis by (simp add: is_ok_bindE) (simp add: is_ok_iff)
  next
    case False
    with "5.prems" show ?thesis by auto
  qed
next
  case (6 opt d path es)
  let ?f = "\<lambda>(key, v). if key = [] \<or> int (length key) > jo_maxKeyLength opt then fail (sub_path path key) InvalidKey
      else bindE (jsonValueAt opt (d + 1) (sub_path path key) v) (\<lambda>w. Inr (key, w))"
  show ?case
  proof (cases "d \<le> 16 \<and> length es \<le> 1024")
    case True
    have "is_ok (?f (k, v)) \<longleftrightarrow> k \<noteq> [] \<and> length k \<le> 200 \<and> fits (d + 1) v" if e: "(k, v) \<in> set es" for k v
    proof (cases "k \<noteq> [] \<and> length k \<le> 200")
      case k: True
      then have "\<not> (k = [] \<or> int (length k) > jo_maxKeyLength opt)" using "6.prems" by simp
      with "6.IH" [OF _ _ e refl this "6.prems"] True "6.prems"
      have "is_ok (jsonValueAt opt (d + 1) (sub_path path k) v) \<longleftrightarrow> fits (d + 1) v" by simp
      with k "6.prems" show ?thesis by (simp add: is_ok_bindE) (simp add: is_ok_iff)
    next
      case False
      with "6.prems" show ?thesis by auto
    qed
    then have "is_ok (?f e) \<longleftrightarrow> (case e of (k, v) \<Rightarrow> k \<noteq> [] \<and> length k \<le> 200 \<and> fits (d + 1) v)" if "e \<in> set es" for e
      using that by (cases e) (simp only: prod.case)
    then have "is_ok (mapE ?f es) \<longleftrightarrow> (\<forall>(k, v) \<in> set es. k \<noteq> [] \<and> length k \<le> 200 \<and> fits (d + 1) v)"
      unfolding is_ok_mapE by (rule ball_cong [OF refl])
    with True show ?thesis unfolding "6.prems" by (simp add: is_ok_bindE) (simp add: is_ok_iff)
  next
    case False
    with "6.prems" show ?thesis by auto
  qed
qed simp_all

lemma jsonAt_fits: "jsonAt (Some v) path = Inr w \<longleftrightarrow> w = v \<and> fits 0 v"
  using jsonValueAt_fits [of default_json_options 0 path v] jsonValueAt_identity [of default_json_options 0 path v]
  by (auto simp: jsonAt_def is_ok_iff)

definition smaller :: "json \<Rightarrow> json \<Rightarrow> bool" where
  "smaller v w \<longleftrightarrow> json_size v \<le> json_size w \<and> (\<forall>d. fits d w \<longrightarrow> fits d v)"

lemma smaller_refl [simp]: "smaller v v"
  by (simp add: smaller_def)

lemma smaller_arr: "list_all2 smaller vs ws \<Longrightarrow> smaller (JArr vs) (JArr ws)"
  unfolding smaller_def
  by (auto intro!: json_size_arr_mono simp: list_all2_conv_all_nth all_set_conv_all_nth)

definition read_as :: "json option \<Rightarrow> json \<Rightarrow> bool" where
  "read_as v j \<longleftrightarrow> (\<exists>w. v = Some w \<and> smaller j w)"

lemma read_as_Some [simp]: "read_as (Some w) j \<longleftrightarrow> smaller j w"
  by (simp add: read_as_def)

lemma smaller_obj:
  assumes "distinct (keys ns)" and "\<forall>(k, j) \<in> set ns. read_as (map_of es k) j"
  shows "smaller (JObj ns) (JObj es)"
proof -
  have sub: "set (keys ns) \<subseteq> set (keys es)"
    using assms(2) by (fastforce simp: read_as_def dest: map_of_SomeD intro: rev_image_eqI)
  have "length ns = card (set (keys ns))" using distinct_card [OF assms(1)] by (simp del: set_map)
  also have "\<dots> \<le> card (set (keys es))" using sub by (simp add: card_mono)
  also have "\<dots> \<le> length es" using card_length [of "keys es"] by simp
  finally have len: "length ns \<le> length es" .
  have "json_size (JObj ns) \<le> json_size (JObj es)"
    using assms by (intro json_size_obj_le) (auto simp: read_as_def smaller_def)
  moreover have "fits d (JObj ns)" if "fits d (JObj es)" for d
    using that assms(2) len by (fastforce simp: read_as_def smaller_def dest!: map_of_SomeD)
  ultimately show ?thesis unfolding smaller_def by blast
qed

section \<open>What the readers keep of a value\<close>

lemma read_string: "post (\<lambda>s. read_as v (JStr s)) (stringAt v path m pat)"
  by (simp add: posts)

lemma read_array:
  assumes "\<And>w p. post (\<lambda>x. smaller (print x) w) (parse w p)"
  shows "post (\<lambda>xs. read_as v (JArr (map print xs))) (arrayAt v path parse lo hi)"
proof (rule postI)
  fix xs assume "arrayAt v path parse lo hi = Inr xs"
  then obtain vs where vs: "v = Some (JArr vs)" "mapiE (\<lambda>i entry. parse entry (idx_path path i)) 0 vs = Inr xs"
    by (auto simp: arrayAt_ok)
  have "list_all2 smaller (map print xs) vs"
    using mapiE_length [OF vs(2)] mapiE_nth [OF vs(2)] assms
    by (auto simp: list_all2_conv_all_nth dest: postD)
  with vs(1) show "read_as v (JArr (map print xs))" by (simp add: smaller_arr)
qed

lemma read_strings:
  "post (\<lambda>xs. read_as v (json_texts xs)) (arrayAt v path (\<lambda>e p. stringAt (Some e) p m pat) lo hi)"
  unfolding json_texts_def by (rule read_array) (simp add: posts)

lemma read_texts: "post (\<lambda>xs. read_as v (json_texts xs)) (parseTextList v path lo hi m)"
  unfolding parseTextList_def by (rule read_strings)

lemma read_identifiers: "post (\<lambda>xs. read_as v (json_texts xs)) (parseIdentifierList v path lo hi)"
  unfolding parseIdentifierList_def post_bindE by (rule post_mono [OF read_strings]) (simp add: posts)

lemma read_object: "post (\<lambda>es. v = JObj es) (objectAt (Some v) path allowed)"
  by (simp add: posts)

lemma read_unit: "post (\<lambda>u. smaller (json_of_unit u) v) (parseUnitV2 v path)"
  unfolding parseUnitV2_def Let_def
  by (rule post_bindI read_object read_string read_texts read_identifiers post_InrI)+
    (simp add: json_of_unit_def smaller_obj)

lemma read_plan_command: "post (\<lambda>c. smaller (json_of_plan_command c) v) (parsePlanCommand v path)"
  unfolding parsePlanCommand_def
  by (auto simp: posts json_of_plan_command_def intro!: smaller_obj split: option.splits)

lemma read_plan: "post (\<lambda>p. smaller (json_of_plan p) v) (validateExecutionPlanContractV2 v source)"
  unfolding validateExecutionPlanContractV2_def Let_def
  by (rule post_bindI post_unlessI read_object read_string read_array [OF read_unit] read_array [OF read_plan_command]
      post_True post_InrI)+
    (simp add: json_of_plan_def smaller_obj)

lemma read_finding: "post (\<lambda>f. smaller (json_of_finding f) v) (parseReviewFinding v path)"
  unfolding parseReviewFinding_def
  by (simp add: posts json_of_finding_def smaller_obj)

lemma finding_again: "post (\<lambda>f. \<forall>q. parseReviewFinding (json_of_finding f) q = Inr f) (parseReviewFinding v path)"
  unfolding parseReviewFinding_def
  by (auto simp: posts json_of_finding_def run_ok REVIEW_FINDING_FIELDS_def)

section \<open>Joined lines\<close>

lemma byteLength_escaped: "byteLength (quote s) = 2 + byteLength (concat (map escape_char s))"
  by (simp add: quote_def)

lemma escaped_newlines:
  "byteLength (concat (map escape_char (newlines xs))) =
     (\<Sum>x \<leftarrow> xs. byteLength (concat (map escape_char x)) + 2) - (if xs = [] then 0 else 2)"
  by (induction xs rule: newlines.induct) (simp_all add: escape_char_def)

lemma smaller_newlines:
  assumes "xs \<noteq> []"
  shows "smaller (JStr (newlines xs)) (json_texts xs)"
proof -
  have "(\<Sum>x \<leftarrow> xs. byteLength (concat (map escape_char x)) + 2) \<le> (\<Sum>x \<leftarrow> xs. json_size (JStr x) + 1)"
    by (rule sum_list_mono) (simp add: json_size_def byteLength_escaped)
  then have "json_size (JStr (newlines xs)) \<le> json_size (json_texts xs)"
    using assms by (simp add: json_texts_def json_size_arr comp_def) (simp add: json_size_def byteLength_escaped escaped_newlines)
  then show ?thesis by (simp add: smaller_def json_texts_def)
qed

lemma newlines_nonempty: "xs \<noteq> [] \<Longrightarrow> \<forall>x \<in> set xs. x \<noteq> [] \<Longrightarrow> newlines xs \<noteq> []"
  by (induction xs rule: newlines.induct) simp_all

section \<open>Normalising twice\<close>

definition stable :: "semantic_field \<Rightarrow> json \<Rightarrow> bool" where
  "stable field w \<longleftrightarrow> (\<forall>path dp ts. validateSemanticValue w field path dp ts = Inr (w, ts))"

lemma stable_string: "s \<noteq> [] \<Longrightarrow> int (length s) \<le> m \<Longrightarrow> stable (StringField m b) (JStr s)"
  by (simp add: stable_def normalizeString_def bindE_eq_Inr stringAt_ok)

lemma read_items:
  "post (\<lambda>xs. v = json_texts xs \<and> (\<forall>x \<in> set xs. x \<noteq> []) \<and> lo \<le> int (length xs))
     (arrayAt (Some v) path (\<lambda>e p. stringAt (Some e) p m pat) lo hi)"
proof (rule postI)
  fix xs assume "arrayAt (Some v) path (\<lambda>e p. stringAt (Some e) p m pat) lo hi = Inr xs"
  then obtain vs where v: "v = JArr vs" "lo \<le> int (length vs)"
    and r: "mapiE (\<lambda>i e. stringAt (Some e) (idx_path path i) m pat) 0 vs = Inr xs"
    by (auto simp: arrayAt_ok)
  have k: "vs ! k = JStr (xs ! k) \<and> xs ! k \<noteq> []" if "k < length vs" for k
    using mapiE_nth [OF r that] by (simp add: stringAt_ok)
  have len: "length xs = length vs" using r by (rule mapiE_length)
  have "vs = map JStr xs"
  proof (rule nth_equalityI)
    show "vs ! i = map JStr xs ! i" if "i < length vs" for i using k [OF that] len that by simp
  qed (simp add: len)
  moreover have "x \<noteq> []" if "x \<in> set xs" for x
    using that k len by (metis in_set_conv_nth)
  ultimately show "v = json_texts xs \<and> (\<forall>x \<in> set xs. x \<noteq> []) \<and> lo \<le> int (length xs)"
    using v by (simp add: json_texts_def)
qed

lemma normalized_string:
  "post (\<lambda>(s, ts'). smaller (JStr s) v \<and> stable (StringField m b) (JStr s)) (normalizeString v m b path dp ts)"
proof (cases "\<exists>vs. v = JArr vs \<and> b")
  case True
  then obtain vs where v: "v = JArr vs" "b = True" by blast
  show ?thesis
    unfolding normalizeString_def v json.case Let_def not_True_eq_False if_False post_bindE
  proof (rule post_mono [OF read_items])
    fix xs assume a: "JArr vs = json_texts xs \<and> (\<forall>x \<in> set xs. x \<noteq> []) \<and> 1 \<le> int (length xs)"
    then have "xs \<noteq> []" by (cases xs) simp_all
    then have xs: "newlines xs \<noteq> []" "smaller (JStr (newlines xs)) (JArr vs)"
      using a newlines_nonempty smaller_newlines by metis+
    show "post (\<lambda>(s, ts'). smaller (JStr s) (JArr vs) \<and> stable (StringField m True) (JStr s))
       (if m < int (length (newlines xs)) then fail path t else Inr (newlines xs, ts2))" for t ts2
      using xs by (simp add: post_simps stable_string)
  qed
next
  case False
  then have "normalizeString v m b path dp ts = bindE (stringAt (Some v) path m any_format) (\<lambda>s. Inr (s, ts))"
    by (cases v) (simp_all add: normalizeString_def)
  then show ?thesis by (simp add: posts stable_string)
qed

lemma normalized_value:
  "post (\<lambda>(w, ts'). smaller w v \<and> stable field w) (validateSemanticValue v field path dp ts)"
proof (cases field)
  case (StringField m b)
  then show ?thesis
    by (auto simp: post_bindE post_simps split_beta intro: post_mono [OF normalized_string])
next
  case (StringListField m n)
  have "post (\<lambda>xs. read_as (Some v) (json_texts xs) \<and> stable field (json_texts xs))
      (arrayAt (Some v) path (\<lambda>e p. stringAt (Some e) p m any_format) 0 n)"
  proof (rule postI)
    fix xs assume a: "arrayAt (Some v) path (\<lambda>e p. stringAt (Some e) p m any_format) 0 n = Inr xs"
    show "read_as (Some v) (json_texts xs) \<and> stable field (json_texts xs)"
      using postD [OF read_strings a] postD [OF strings_again a]
      by (simp add: StringListField stable_def json_texts_def)
  qed
  then show ?thesis by (simp add: StringListField post_bindE) (simp add: posts)
next
  case (FindingListField n)
  have "post (\<lambda>fs. read_as (Some v) (JArr (map json_of_finding fs)) \<and> stable field (JArr (map json_of_finding fs)))
      (arrayAt (Some v) path parseReviewFinding 0 n)"
  proof (rule postI)
    fix fs assume a: "arrayAt (Some v) path parseReviewFinding 0 n = Inr fs"
    show "read_as (Some v) (JArr (map json_of_finding fs)) \<and> stable field (JArr (map json_of_finding fs))"
      using postD [OF read_array [OF read_finding] a] postD [OF array_again [OF finding_again] a]
      by (simp add: FindingListField stable_def)
  qed
  then show ?thesis by (simp add: FindingListField post_bindE) (simp add: posts)
next
  case PlanField
  have "post (\<lambda>p. smaller (json_of_plan p) v \<and> (\<forall>q. validateExecutionPlanContractV2 (json_of_plan p) q = Inr p))
      (validateExecutionPlanContractV2 v path)"
    using read_plan plan_again by (auto simp: post_def)
  moreover have "json_of_plan p \<noteq> JNull" for p by (simp add: json_of_plan_def)
  ultimately show ?thesis
    by (auto simp: PlanField post_bindE post_simps stable_def elim!: post_mono)
qed (auto simp: posts post_def booleanAt_def stable_def bindE_eq_Inr integerAt_ok split: option.splits json.splits)

lemma normalized_fields:
  assumes "payload_fields input source fs ts = Inr (vs, ts')"
  shows "keys vs = keys fs" "\<forall>(k, w) \<in> set vs. read_as (map_of input k) w"
    "\<forall>(k, w) \<in> set vs. map_of L k = Some w \<Longrightarrow> payload_fields L source' fs ts0 = Inr (vs, ts0)"
proof -
  have "keys vs = keys fs \<and> (\<forall>(k, w) \<in> set vs. read_as (map_of input k) w) \<and>
      ((\<forall>(k, w) \<in> set vs. map_of L k = Some w) \<longrightarrow> payload_fields L source' fs ts0 = Inr (vs, ts0))"
    using assms
  proof (induction fs arbitrary: ts vs ts')
    case (Cons f fs)
    obtain name field where f: "f = (name, field)" by (cases f)
    from Cons.prems f obtain raw w ts1 ws where
      raw: "map_of input name = Some raw"
      and w: "validateSemanticValue raw field (sub_path (sub_path source ''payload'') name) (''/payload/'' @ name) ts = Inr (w, ts1)"
      and ws: "payload_fields input source fs ts1 = Inr (ws, ts')" and vs: "vs = (name, w) # ws"
      by (auto simp: bindE_eq_Inr split: option.splits)
    from postD [OF normalized_value w] have "smaller w raw" "stable field w" by simp_all
    with Cons.IH [OF ws] raw f vs show ?case by (auto simp: stable_def)
  qed simp
  then show "keys vs = keys fs" "\<forall>(k, w) \<in> set vs. read_as (map_of input k) w"
    "\<forall>(k, w) \<in> set vs. map_of L k = Some w \<Longrightarrow> payload_fields L source' fs ts0 = Inr (vs, ts0)"
    by blast+
qed

section \<open>Schemas\<close>

lemma recordEntries_keys: "recordEntries parse path m km kp n es = Inr xs \<Longrightarrow> keys xs = keys es"
  by (induction es arbitrary: n xs) (auto simp: recordEntries_Cons simp del: recordEntries.simps(2))

lemma recordAt_keys: "recordAt v path parse m km kp = Inr xs \<Longrightarrow> \<exists>es. v = Some (JObj es) \<and> keys xs = keys es"
  by (auto simp: recordAt_def split: option.splits json.splits dest: recordEntries_keys)

lemma schema_fields_distinct:
  assumes "validateSemanticResultSchema w source = Inr s" and "keyed w"
  shows "distinct (keys (ss_payload s))"
proof -
  from assms(1) obtain es where w: "w = JObj es"
    and r: "recordAt (map_of es ''payload'') (sub_path source ''payload'') parseSemanticField 64 (Some 80) FIELD_NAME =
      Inr (ss_payload s)"
    unfolding validateSemanticResultSchema_def by (auto simp: run_ok)
  from recordAt_keys [OF r] obtain fs where fs: "map_of es ''payload'' = Some (JObj fs)" "keys (ss_payload s) = keys fs"
    by blast
  moreover have "\<forall>(k, v) \<in> set es. keyed v" using assms(2) by (simp add: w)
  ultimately have "keyed (JObj fs)" by (blast dest: map_of_SomeD)
  with fs(2) show ?thesis by simp
qed

text \<open>C33: normalising a result candidate is idempotent: the normalised candidate is accepted under the same
  schema, unchanged and with no further transformation, so its original and normalised digests agree; and its
  canonical text is never longer than that of the candidate it came from.\<close>

theorem normalization_idempotent:
  assumes "validateAndNormalizeResultCandidate v schema source = Inr n" and "keyed schema"
  shows "validateAndNormalizeResultCandidate (json_of_candidate (nc_outcome n) (nc_payload n)) schema source =
    Inr (n\<lparr>nc_original_hash := nc_normalized_hash n, nc_transformations := []\<rparr>) \<and>
    byteLength (canonicalJson (json_of_candidate (nc_outcome n) (nc_payload n))) \<le> byteLength (canonicalJson v)"
proof -
  from assms(1) obtain es s payloadInput ts where
    v: "v = JObj es" and val: "fits 0 v"
    and size: "byteLength (canonicalJson v) \<le> RESULT_CANDIDATE_MAX_BYTES"
    and es: "map_of es ''schema'' = Some (JStr RESULT_CANDIDATE_SCHEMA)"
      "map_of es ''outcome'' = Some (JStr (nc_outcome n))" "map_of es ''payload'' = Some (JObj payloadInput)"
    and s: "validateSemanticResultSchema schema ''semantic_schema'' = Inr s"
    and outcome: "stringAt (Some (JStr (nc_outcome n))) (sub_path source ''outcome'') 80 OUTCOME = Inr (nc_outcome n)"
      "nc_outcome n \<in> set (ss_outcomes s)"
    and payload: "payload_fields payloadInput source (ss_payload s) [] = Inr (nc_payload n, ts)"
    and hash: "nc_normalized_hash n = digestCanonicalJson (json_of_candidate (nc_outcome n) (nc_payload n))"
    unfolding validateAndNormalizeResultCandidate_def
    by (auto simp: run_ok not_less jsonAt_fits)
  note f = normalized_fields [OF payload]
  let ?p = "nc_payload n"
  have d: "distinct (keys ?p)" using schema_fields_distinct [OF s assms(2)] f(1) by simp
  have "smaller (JObj ?p) (JObj payloadInput)" by (rule smaller_obj [OF d f(2)])
  with es have small: "smaller (json_of_candidate (nc_outcome n) ?p) v"
    unfolding json_of_candidate_def v by (intro smaller_obj) simp_all
  have again: "payload_fields ?p source (ss_payload s) [] = Inr (?p, [])"
    by (rule f(3)) (use d in auto)
  have "jsonAt (Some (json_of_candidate (nc_outcome n) ?p)) source = Inr (json_of_candidate (nc_outcome n) ?p)"
    using small val by (simp add: jsonAt_fits smaller_def)
  moreover have le: "byteLength (canonicalJson (json_of_candidate (nc_outcome n) ?p)) \<le> byteLength (canonicalJson v)"
    using small by (simp add: byteLength_canonicalJson smaller_def)
  moreover from le size have "byteLength (canonicalJson (json_of_candidate (nc_outcome n) ?p)) \<le> RESULT_CANDIDATE_MAX_BYTES"
    by simp
  moreover have "fst ` set ?p \<subseteq> fst ` set (ss_payload s)" using f(1) by (metis set_map subset_refl)
  ultimately show ?thesis
    using s outcome again hash
    unfolding validateAndNormalizeResultCandidate_def json_of_candidate_def
    by (simp add: bindE_eq_Inr objectAt_ok)
qed

end
