(* ===== verification/ContractRoundTrip.thy ===== *)
theory ContractRoundTrip
  imports EvidencePayloads Postconditions
begin

text \<open>
  Reading a document that was accepted before gives the same document: the readers of effect intents,
  records, checkpoints and evidence are inverse to printing on everything they accept.
\<close>

section \<open>Postconditions of more readers\<close>

lemmas field_readers = record_id_at_def digest_at_def subject_at_def evidence_id_at_def evidence_digest_at_def

lemma boundedText_ok [run_ok]:
  "boundedText v path m = Inr s \<longleftrightarrow> v = Some (JStr s) \<and> int (length s) \<le> m \<and> CHR 0x00 \<notin> set s"
  by (auto simp: boundedText_def split: option.splits json.splits)

lemma post_boundedText [posts]:
  "post Q (boundedText v path m) \<longleftrightarrow>
     (\<forall>s. v = Some (JStr s) \<longrightarrow> int (length s) \<le> m \<longrightarrow> CHR 0x00 \<notin> set s \<longrightarrow> Q s)"
  by (auto simp: post_def run_ok)

section \<open>Effect intents\<close>

lemma effect_again:
  "post (\<lambda>e. validateEffectIntent (json_of_effect e) source = Inr e) (validateEffectIntent v source)"
  unfolding validateEffectIntent_def
  by (simp add: posts field_readers json_of_effect_def run_ok EFFECT_INTENT_SCHEMA_def)

section \<open>Payloads\<close>

lemma encoding_names [simp]: "encoding_name e \<in> {''utf-8'', ''binary''}" "(encoding_name e = ''binary'') = (e = Binary)"
  by (cases e; simp)+

lemma blob_again: "post (\<lambda>b. parseBlobPointer (json_of_blob b) path = Inr b) (parseBlobPointer v path)"
  unfolding parseBlobPointer_def
  by (auto simp: posts field_readers json_of_blob_def run_ok)

lemma payload_again:
  assumes "idempotent parse"
  shows "post (\<lambda>p. parsePayload (Some (json_of_payload p)) path schema parse = Inr p)
    (parsePayload v path schema parse)"
proof (rule postI)
  fix p assume p: "parsePayload v path schema parse = Inr p"
  then obtain es where es: "v = Some (JObj es)" "set (keys es) \<subseteq> {''inline'', ''blob''}"
    by (auto simp: parsePayload_def run_ok)
  from p es consider
    (inline) w parsed r where "parse w (sub_path path ''inline'') = Inr parsed"
      "jsonAt (Some parsed) (sub_path path ''inline'') = Inr r"
      "\<not> byteLength (canonicalJson r) > INLINE_RECORD_PAYLOAD_MAX_BYTES" "p = Inline r"
  | (blob) w b where "parseBlobPointer w (sub_path path ''blob'') = Inr b" "bp_payload_schema b = schema" "p = Blob b"
    by (auto simp: parsePayload_def run_ok not_less split: option.splits)
  then show "parsePayload (Some (json_of_payload p)) path schema parse = Inr p"
  proof cases
    case inline
    then have "r = parsed" by (auto dest: jsonAt_ok)
    with inline assms show ?thesis by (auto simp: parsePayload_def run_ok idempotent_def)
  next
    case blob
    with postD [OF blob_again blob(1)] show ?thesis by (auto simp: parsePayload_def run_ok)
  qed
qed

section \<open>Checkpoints\<close>

lemma checkpoint_again:
  "post (\<lambda>c. validateAttemptCheckpoint (json_of_checkpoint c) source = Inr c) (validateAttemptCheckpoint v source)"
proof -
  have "idempotent (\<lambda>v path. Inr v)" by (simp add: idempotent_def)
  note p = post_mono [OF payload_again [OF this]]
  show ?thesis
    unfolding validateAttemptCheckpoint_def
    by (auto simp: posts field_readers json_of_checkpoint_def run_ok intro!: p)
qed

section \<open>Evidence\<close>

lemma forensics_again:
  "post (\<lambda>f. validateAttemptForensicsPayload (json_of_forensics f) source = Inr f)
     (validateAttemptForensicsPayload v source)"
  unfolding validateAttemptForensicsPayload_def Let_def
  by (auto simp: posts field_readers json_of_forensics_def run_ok)

lemma diagnostic_again:
  "post (\<lambda>d. \<forall>path. evidence_diagnostic (json_of_diagnostic d) path = Inr d) (evidence_diagnostic v path)"
  unfolding evidence_diagnostic_def
  by (auto simp: posts json_of_diagnostic_def run_ok)

lemma diagnostics_again:
  "post (\<lambda>ds. arrayAt (Some (JArr (map json_of_diagnostic (sort_diagnostics ds)))) path evidence_diagnostic 0 100 =
       Inr (sort_diagnostics ds))
     (arrayAt v path evidence_diagnostic 0 100)"
proof (rule post_mono [OF post_arrayAt [OF diagnostic_again]])
  fix ds assume ds: "list_all (\<lambda>d. \<forall>path. evidence_diagnostic (json_of_diagnostic d) path = Inr d) ds \<and>
    0 \<le> int (length ds) \<and> int (length ds) \<le> 100"
  have "mapiE (\<lambda>i v. evidence_diagnostic v (idx_path path i)) 0 (map json_of_diagnostic (sort_diagnostics ds)) =
      Inr (sort_diagnostics ds)"
    using ds by (intro mapiE_printed) (simp add: list_all_iff sort_diagnostics_def)
  with ds show "arrayAt (Some (JArr (map json_of_diagnostic (sort_diagnostics ds)))) path evidence_diagnostic 0 100 =
      Inr (sort_diagnostics ds)"
    by (simp add: run_ok) (simp add: sort_diagnostics_def)
qed

lemma sort_diagnostics_idem [simp]: "sort_diagnostics (sort_diagnostics ds) = sort_diagnostics ds"
  unfolding sort_diagnostics_def by (rule sort_key_id_if_sorted) (rule sorted_sort_key)

lemma optional_digest_again:
  "post (\<lambda>x. nullable (Some (json_opt x)) (\<lambda>v. evidence_digest_at v path) = Inr x)
     (nullable v (\<lambda>v. evidence_digest_at v path))"
  by (simp add: posts field_readers nullable_ok stringAt_ok)

lemma optional_json_again:
  "post (\<lambda>x. nullable (Some (case x of None \<Rightarrow> JNull | Some w \<Rightarrow> w)) (\<lambda>v. jsonAt v path) = Inr x)
     (nullable v (\<lambda>v. jsonAt v path))"
  by (auto simp: posts nullable_ok)

lemma purpose_again:
  "enumAt (Some (JStr (purpose_name p))) path [''work'', ''result_correction''] = Inr (purpose_name p)"
  "(if purpose_name p = ''work'' then WorkLease else CorrectionLease) = p"
  by (cases p; simp add: enumAt_ok)+

lemma text_again: "post (\<lambda>s. boundedText (Some (JStr s)) path m = Inr s) (boundedText v path m)"
  by (simp add: posts run_ok)

definition fields_read_back :: "string \<Rightarrow> invalid_result_evidence \<Rightarrow> bool" where
  "fields_read_back source e \<longleftrightarrow>
     evidence_id_at (Some (JStr (ie_pipeline_run_id e))) (sub_path source ''pipeline_run_id'') = Inr (ie_pipeline_run_id e) \<and>
     evidence_id_at (Some (JStr (ie_attempt_id e))) (sub_path source ''attempt_id'') = Inr (ie_attempt_id e) \<and>
     evidence_digest_at (Some (JStr (ie_request_hash e))) (sub_path source ''request_hash'') = Inr (ie_request_hash e) \<and>
     evidence_digest_at (Some (JStr (ie_definition_bundle_hash e))) (sub_path source ''definition_bundle_hash'') =
       Inr (ie_definition_bundle_hash e) \<and>
     nullable (Some (json_opt (ie_candidate_hash e))) (\<lambda>v. evidence_digest_at v (sub_path source ''candidate_hash'')) =
       Inr (ie_candidate_hash e) \<and>
     nullable (Some (case ie_rejected_candidate e of None \<Rightarrow> JNull | Some w \<Rightarrow> w))
         (\<lambda>v. jsonAt v (sub_path source ''rejected_candidate'')) = Inr (ie_rejected_candidate e) \<and>
     arrayAt (Some (JArr (map json_of_diagnostic (ie_diagnostics e)))) (sub_path source ''diagnostics'')
         evidence_diagnostic 0 100 = Inr (ie_diagnostics e) \<and> sort_diagnostics (ie_diagnostics e) = ie_diagnostics e \<and>
     boundedText (Some (JStr (ie_runner_stdout_tail e))) (sub_path source ''runner_stdout_tail'')
         EVIDENCE_TAIL_MAX_CHARACTERS = Inr (ie_runner_stdout_tail e) \<and>
     boundedText (Some (JStr (ie_runner_stderr_tail e))) (sub_path source ''runner_stderr_tail'')
         EVIDENCE_TAIL_MAX_CHARACTERS = Inr (ie_runner_stderr_tail e) \<and>
     timestampAt (Some (JStr (ie_observed_at e))) (sub_path source ''observed_at'') = Inr (ie_observed_at e)"

lemma invalid_result_fields: "post (fields_read_back source) (validateInvalidResultEvidencePayload v source)"
proof -
  have "post Q (validateInvalidResultEvidencePayload v source)" if "\<And>e. fields_read_back source e \<Longrightarrow> Q e" for Q
    unfolding validateInvalidResultEvidencePayload_def Let_def evidence_id_at_def evidence_digest_at_def
    by ((rule post_bindI post_unlessI object_again string_again enum_any text_again time_again
          optional_digest_again [unfolded evidence_digest_at_def] optional_json_again diagnostics_again post_InrI)+,
        rule that, simp add: fields_read_back_def evidence_id_at_def evidence_digest_at_def)
  then show ?thesis by blast
qed

lemma invalid_result_printed:
  "fields_read_back source e \<Longrightarrow> validateInvalidResultEvidencePayload (json_of_invalid_result e) source = Inr e"
  by (simp add: fields_read_back_def validateInvalidResultEvidencePayload_def Let_def json_of_invalid_result_def
      objectAt_ok bindE_eq_Inr if_throw_eq_Inr purpose_again del: if_split)

lemma invalid_result_again:
  "post (\<lambda>e. validateInvalidResultEvidencePayload (json_of_invalid_result e) source = Inr e)
     (validateInvalidResultEvidencePayload v source)"
  by (rule post_mono [OF invalid_result_fields invalid_result_printed])

lemma evidence_schemas:
  "is_obj (json_of_forensics f)" "is_obj (json_of_invalid_result e)"
  "enumAt (jfield (json_of_forensics f) ''schema'') path ATTEMPT_EVIDENCE_PAYLOAD_SCHEMAS =
     Inr ATTEMPT_FORENSICS_PAYLOAD_SCHEMA"
  "enumAt (jfield (json_of_invalid_result e) ''schema'') path ATTEMPT_EVIDENCE_PAYLOAD_SCHEMAS =
     Inr INVALID_RESULT_EVIDENCE_PAYLOAD_SCHEMA"
  "INVALID_RESULT_EVIDENCE_PAYLOAD_SCHEMA \<noteq> ATTEMPT_FORENSICS_PAYLOAD_SCHEMA"
  by (simp_all add: enumAt_ok ATTEMPT_EVIDENCE_PAYLOAD_SCHEMAS_def json_of_forensics_def json_of_invalid_result_def
      ATTEMPT_FORENSICS_PAYLOAD_SCHEMA_def INVALID_RESULT_EVIDENCE_PAYLOAD_SCHEMA_def)

text \<open>C32: evidence is normalised once: what a reader of evidence payloads accepts is printed to a document that
  it reads back unchanged, with the diagnostics in their sorted order.\<close>

theorem evidence_round_trip:
  assumes "validateAttemptEvidencePayload v source = Inr e"
  shows "validateAttemptEvidencePayload
    (case e of Forensics f \<Rightarrow> json_of_forensics f | InvalidResult r \<Rightarrow> json_of_invalid_result r) source = Inr e"
proof (cases e)
  case (Forensics f)
  with assms have "validateAttemptForensicsPayload v source = Inr f"
    by (auto simp: validateAttemptEvidencePayload_def bindE_eq_Inr if_throw_eq_Inr split: if_splits)
  from postD [OF forensics_again this] Forensics show ?thesis
    by (simp add: validateAttemptEvidencePayload_def evidence_schemas)
next
  case (InvalidResult r)
  with assms have "validateInvalidResultEvidencePayload v source = Inr r"
    by (auto simp: validateAttemptEvidencePayload_def bindE_eq_Inr if_throw_eq_Inr split: if_splits)
  from postD [OF invalid_result_again this] InvalidResult show ?thesis
    by (simp add: validateAttemptEvidencePayload_def evidence_schemas)
qed

definition ex_forensics :: attempt_forensics where
  "ex_forensics = \<lparr>fo_pipeline_run_id = ''r'', fo_attempt_id = ''a'', fo_request_hash = replicate 64 CHR ''a'',
     fo_definition_bundle_hash = replicate 64 CHR ''b'', fo_lease_id = ''l'', fo_work_retry_ordinal = 1,
     fo_operational_signature = replicate 64 CHR ''c'', fo_exit_code = 137, fo_runner_stdout_tail = ''out'',
     fo_runner_stderr_tail = [], fo_result_path_state = JObj [(''present'', JBool False)],
     fo_session_event_state = JNull, fo_workspace_git_status = JArr [JStr ''M''],
     fo_observed_at = ''2024-02-29T00:00:00Z''\<rparr>"

lemma ex_forensics_accepted:
  "validateAttemptEvidencePayload (json_of_forensics ex_forensics) ''evidence'' = Inr (Forensics ex_forensics)"
  by code_simp

theorem evidence_round_trip_witness:
  "validateAttemptEvidencePayload (json_of_forensics ex_forensics) ''evidence'' = Inr (Forensics ex_forensics)"
  using evidence_round_trip [OF ex_forensics_accepted] by simp

section \<open>Records\<close>

definition registry_ok :: "payload_registry \<Rightarrow> bool" where
  "registry_ok registry \<longleftrightarrow> (\<forall>schema kind parse. map_of registry schema = Some (kind, parse) \<longrightarrow> idempotent parse)"

lemma registry_idem: "registry_ok registry \<Longrightarrow> map_of registry s = Some (k, p) \<Longrightarrow> idempotent p"
  by (auto simp: registry_ok_def)

lemma registered_payload_again:
  assumes "parsePayload v path schema parse = Inr p" and "map_of registry s = Some (k, parse)"
    and "registry_ok registry"
  shows "parsePayload (Some (json_of_payload p)) path schema parse = Inr p"
  using postD [OF payload_again [OF registry_idem [OF assms(3,2)]] assms(1)] .

lemma base_again:
  assumes "registry_ok registry"
  shows "post (\<lambda>b. \<forall>rest. parse_base registry kind (base_fields (kind_name kind) b @ rest) source = Inr b)
    (parse_base registry kind input source)"
proof (rule postI, rule allI)
  fix b rest assume "parse_base registry kind input source = Inr b"
  then show "parse_base registry kind (base_fields (kind_name kind) b @ rest) source = Inr b"
    unfolding parse_base_def base_fields_def
    by (auto simp: run_ok field_readers split: if_splits option.splits)
      (erule registered_payload_again [OF _ _ assms], assumption)
qed

definition reads_back :: "payload_registry \<Rightarrow> string \<Rightarrow> execution_record \<Rightarrow> bool" where
  "reads_back registry source r \<longleftrightarrow> validateExecutionRecord registry (json_of_record r) source = Inr r"

lemma base_lookup: "f \<notin> set common_fields \<Longrightarrow> (m ++ map_of (base_fields k r)) f = m f"
  by (simp add: base_fields_def common_fields_def map_add_def)

lemma base_keys: "fst ` set (base_fields k r) = set common_fields"
  by (simp add: base_fields_def common_fields_def)

lemma base_kind: "(m ++ map_of (base_fields k r)) ''kind'' = Some (JStr k)"
  by (simp add: base_fields_def map_add_def)

lemma base_extended:
  "base_fields k \<lparr>rb_id = rb_id x, rb_pipeline_run_id = rb_pipeline_run_id x,
     rb_payload_schema = rb_payload_schema x, rb_payload = rb_payload x, rb_created_at = rb_created_at x,
     \<dots> = m\<rparr> = base_fields k (x :: execution_record_base)"
  by (simp add: base_fields_def)

lemma ids_again:
  "post (\<lambda>ids. arrayAt (Some (json_strs ids)) path (\<lambda>entry p. record_id_at (Some entry) p) 0 256 = Inr ids)
     (arrayAt v path (\<lambda>entry p. record_id_at (Some entry) p) 0 256)"
proof (rule post_mono [OF post_arrayAt])
  show "post (\<lambda>s. \<forall>p. record_id_at (Some (JStr s)) p = Inr s) (record_id_at (Some w) q)" for w q
    by (simp add: posts field_readers run_ok)
next
  fix ids assume ids: "list_all (\<lambda>s. \<forall>p. record_id_at (Some (JStr s)) p = Inr s) ids \<and>
    0 \<le> int (length ids) \<and> int (length ids) \<le> 256"
  have "mapiE (\<lambda>i entry. record_id_at (Some entry) (idx_path path i)) 0 (map JStr ids) = Inr ids"
    using ids by (intro mapiE_printed) (simp add: list_all_iff)
  with ids show "arrayAt (Some (json_strs ids)) path (\<lambda>entry p. record_id_at (Some entry) p) 0 256 = Inr ids"
    by (simp add: run_ok)
qed

lemma record_again:
  assumes "registry_ok registry"
  shows "post (reads_back registry source) (validateExecutionRecord registry v source)"
proof -
  note b = post_mono [OF base_again [OF assms]] post_mono [OF ids_again]
  show ?thesis
    unfolding validateExecutionRecord_def Let_def
    by (simp add: posts)
      (intro allI impI conjI b; simp add: posts field_readers; (intro allI impI conjI b)?;
       simp add: posts reads_back_def validateExecutionRecord_def Let_def base_extended base_kind base_lookup base_keys
         record_id_at_def [abs_def] json_of_decision_def bindE_eq_Inr if_throw_eq_Inr enumAt_ok objectAt_ok stringAt_ok nullable_ok unique_ok
         field_readers common_fields_def)
qed


section \<open>The evidence contracts as a registry\<close>

definition evidence_registry :: payload_registry where
  "evidence_registry =
     [(ATTEMPT_FORENSICS_PAYLOAD_SCHEMA, ATTEMPT_FORENSICS_PAYLOAD_CONTRACT),
      (INVALID_RESULT_EVIDENCE_PAYLOAD_SCHEMA, INVALID_RESULT_EVIDENCE_PAYLOAD_CONTRACT)]"

lemma contract_idempotent:
  assumes "\<And>v path. post (\<lambda>x. parse (print x) path = Inr x) (parse v path)"
  shows "idempotent (\<lambda>v path. bindE (parse v path) (\<lambda>x. Inr (print x)))"
  using assms by (auto simp: idempotent_def bindE_eq_Inr post_def)

lemma forensics_idempotent: "ATTEMPT_FORENSICS_PAYLOAD_CONTRACT = (k, p) \<Longrightarrow> idempotent p"
  by (auto simp: ATTEMPT_FORENSICS_PAYLOAD_CONTRACT_def intro!: contract_idempotent forensics_again)

lemma invalid_result_idempotent: "INVALID_RESULT_EVIDENCE_PAYLOAD_CONTRACT = (k, p) \<Longrightarrow> idempotent p"
  by (auto simp: INVALID_RESULT_EVIDENCE_PAYLOAD_CONTRACT_def intro!: contract_idempotent invalid_result_again)

lemma evidence_registry_ok: "registry_ok evidence_registry"
  unfolding registry_ok_def evidence_registry_def
  by (auto split: if_splits dest: forensics_idempotent invalid_result_idempotent)

section \<open>Round trips of records, checkpoints and effect intents\<close>

text \<open>C30: an execution record that was accepted reads back unchanged from its printed form, whatever the
  payload contracts of the registry are, as long as each of them reads back its own output.\<close>

theorem record_round_trip:
  assumes "registry_ok registry" and "validateExecutionRecord registry v source = Inr r"
  shows "validateExecutionRecord registry (json_of_record r) source = Inr r"
  using postD [OF record_again [OF assms(1)] assms(2)] by (simp add: reads_back_def)

definition ex_decision :: decision_record where
  "ex_decision = \<lparr>rb_id = ''d-1'', rb_pipeline_run_id = ''r'', rb_payload_schema = ATTEMPT_FORENSICS_PAYLOAD_SCHEMA,
     rb_payload = Blob \<lparr>bp_digest = replicate 64 CHR ''a'', bp_bytes = 10, bp_encoding = Utf8,
       bp_media_type = ''application/json'', bp_payload_schema = ATTEMPT_FORENSICS_PAYLOAD_SCHEMA\<rparr>,
     rb_created_at = ''2024-02-29T00:00:00Z'', dr_reducer = ATTEMPT_FORENSICS_REDUCER, dr_input_record_ids = [''a'']\<rparr>"

lemma ex_decision_accepted:
  "validateExecutionRecord evidence_registry (json_of_decision ex_decision) ''record'' = Inr (DecisionRec ex_decision)"
  by code_simp

theorem record_round_trip_witness:
  "validateExecutionRecord evidence_registry (json_of_record (DecisionRec ex_decision)) ''record'' =
     Inr (DecisionRec ex_decision)"
  by (rule record_round_trip [OF evidence_registry_ok ex_decision_accepted])

text \<open>C31: checkpoints and effect intents read back unchanged from their printed forms.\<close>

theorem checkpoint_and_effect_round_trip:
  assumes "validateAttemptCheckpoint v source = Inr c" and "validateEffectIntent w path = Inr e"
  shows "validateAttemptCheckpoint (json_of_checkpoint c) source = Inr c \<and>
    validateEffectIntent (json_of_effect e) path = Inr e"
  using postD [OF checkpoint_again assms(1)] postD [OF effect_again assms(2)] by simp

definition ex_checkpoint_read :: attempt_checkpoint where
  "ex_checkpoint_read = \<lparr>ck_id = ''c'', ck_pipeline_run_id = ''r'', ck_attempt_id = ''a'',
     ck_request_hash = replicate 64 CHR ''a'', ck_definition_bundle_hash = replicate 64 CHR ''b'',
     ck_input_subject = replicate 40 CHR ''c'', ck_output_subject = None, ck_native_session_id = None,
     ck_payload_schema = ''openthrottle.checkpoint/v1'', ck_payload = Inline (JObj [(''ok'', JBool True)]),
     ck_captured_at = ''2024-02-29T00:00:00Z''\<rparr>"

definition ex_effect_read :: effect_intent where
  "ex_effect_read = \<lparr>ei_id = ''e'', ei_pipeline_run_id = ''r'', ei_decision_record_id = ''d'',
     ei_kind = ''core/sandbox-stop@1'', ei_idempotency_key = ''k'', ei_target = ''t'', ei_subject = None,
     ei_payload = JObj []\<rparr>"

lemma ex_documents_accepted:
  "validateAttemptCheckpoint (json_of_checkpoint ex_checkpoint_read) ''c'' = Inr ex_checkpoint_read"
  "validateEffectIntent (json_of_effect ex_effect_read) ''e'' = Inr ex_effect_read"
  by code_simp+

theorem checkpoint_and_effect_round_trip_witness:
  "validateAttemptCheckpoint (json_of_checkpoint ex_checkpoint_read) ''c'' = Inr ex_checkpoint_read"
  using checkpoint_and_effect_round_trip [OF ex_documents_accepted] by simp

end
