(* ===== verification/EvaluatorProperties.thy ===== *)
theory EvaluatorProperties
  imports Evaluators SemanticResults ContractRoundTrip
begin

text \<open>
  Properties of the evaluator registry: its payload contracts read back their own output, a validated
  answer can always be evaluated, and an evaluation never hides a blocking finding.
\<close>

section \<open>The payload contracts\<close>

lemma exactObject_ok [run_ok]:
  "exactObject v label ks = Inr es \<longleftrightarrow> v = JObj es \<and> set (keys es) \<subseteq> set ks"
  by (auto simp: exactObject_def run_ok subset_iff split: json.splits)

lemma as_string_Some [simp]: "as_string v = Some s \<longleftrightarrow> v = Some (JStr s)"
  by (cases v rule: as_string.cases) auto

lemma case_two_eq_Inr [run_cases]:
  "(case (x, y) of (Some a, Some b) \<Rightarrow> f a b | _ \<Rightarrow> Inl e) = Inr z \<longleftrightarrow> (\<exists>a b. x = Some a \<and> y = Some b \<and> f a b = Inr z)"
  by (auto split: option.splits)

lemma case_arr_eq_Inr [run_cases]:
  "(case v of JArr vs \<Rightarrow> f vs | _ \<Rightarrow> Inl e) = Inr z \<longleftrightarrow> (\<exists>vs. v = JArr vs \<and> f vs = Inr z)"
  by (auto split: json.splits)

lemma case_live_eq_Inr [run_cases]:
  "(case x of SemanticLive p \<Rightarrow> f p | CommandLive _ \<Rightarrow> Inl e) = Inr z \<longleftrightarrow> (\<exists>p. x = SemanticLive p \<and> f p = Inr z)"
  "(case x of SemanticLive _ \<Rightarrow> Inl e | CommandLive c \<Rightarrow> g c) = Inr z \<longleftrightarrow> (\<exists>c. x = CommandLive c \<and> g c = Inr z)"
  by (cases x; simp)+

lemma jsonAt_iff: "jsonAt v path = Inr w \<longleftrightarrow> v = Some w \<and> fits 0 w"
  by (cases v) (auto simp: jsonAt_fits, simp add: jsonAt_def)

lemma semanticPayload_ok:
  "semanticPayload v = Inr p \<longleftrightarrow> (\<exists>es. v = JObj es \<and>
     set (keys es) \<subseteq> {''schema'', ''semantic_schema_id'', ''outcome'', ''payload'', ''transformations''} \<and>
     map_of es ''schema'' = Some (JStr SEMANTIC_RESULT_RECORD_PAYLOAD_SCHEMA) \<and>
     map_of es ''semantic_schema_id'' = Some (JStr (sp_semantic_schema_id p)) \<and>
     map_of es ''outcome'' = Some (JStr (sp_outcome p)) \<and>
     map_of es ''transformations'' = Some (JArr (sp_transformations p)) \<and> fits 0 (JArr (sp_transformations p)) \<and>
     map_of es ''payload'' = Some (sp_payload p) \<and> fits 0 (sp_payload p))"
  unfolding semanticPayload_def
  by (cases p) (auto simp: run_ok run_cases jsonAt_iff simp del: fits.simps)

lemma semantic_again: "semanticPayload v = Inr p \<Longrightarrow> semanticPayload (json_of_semantic p) = Inr p"
  by (auto simp: semanticPayload_ok json_of_semantic_def simp del: fits.simps)

lemma read_through_idempotent: "idempotent (\<lambda>v path. bindE (read v) (\<lambda>_. Inr v))"
  by (auto simp: idempotent_def run_ok)

lemma ordinary_registry_ok: "registry_ok ordinaryKernelPayloadSchemas"
proof -
  have "idempotent (\<lambda>v path. bindE (semanticPayload v) (\<lambda>p. Inr (json_of_semantic p)))"
    by (rule contract_idempotent) (simp add: post_def semantic_again)
  then show ?thesis
    unfolding registry_ok_def ordinaryKernelPayloadSchemas_def payloadContracts_def
    by (auto split: if_splits intro: read_through_idempotent dest: forensics_idempotent invalid_result_idempotent)
qed

section \<open>What an evaluation says\<close>

definition blocking_finding :: "json \<Rightarrow> bool" where
  "blocking_finding f \<longleftrightarrow> (\<exists>s \<in> {''P0'', ''P1''}. jfield f ''severity'' = Some (JStr s))"

lemma blocking_ok:
  "hasBlockingReviewFinding fs = Inr b \<Longrightarrow> b \<longleftrightarrow> list_ex blocking_finding fs"
proof (induction fs arbitrary: b)
  case (Cons f fs)
  then show ?case
    by (cases f) (auto simp: blocking_finding_def BLOCKING_REVIEW_FINDING_SEVERITIES_def REVIEW_FINDING_SEVERITIES_def
        split: option.splits if_splits)
qed simp

lemma empty_array: "is_empty_array q \<Longrightarrow> q = Some (JArr [])"
  by (cases q rule: is_empty_array.cases) auto

lemma outcome_evaluators:
  "admissionOutcome p = Inr e \<Longrightarrow> er_evaluator e = ''core/admission-outcome@1''"
  "admissionReviewOutcome p = Inr e \<Longrightarrow> er_evaluator e = ''core/admission-review-outcome@1''"
  "reviewOutcome p = Inr e \<Longrightarrow> er_evaluator e = ''core/review-outcome@1''"
  unfolding admissionOutcome_def admissionReviewOutcome_def reviewOutcome_def route_result_def semanticObject_def Let_def
  by (auto simp: run_ok split: json.splits option.splits if_splits)

lemma admission_outcome:
  assumes "admissionOutcome p = Inr e"
  shows "er_outcome e = JStr (sp_outcome p) \<or> er_outcome e = JStr ''semantic_repair_required''"
    and "er_outcome e = JStr ''structured'' \<Longrightarrow>
      (\<exists>plan. jfield (sp_payload p) ''execution_plan'' = Some plan \<and>
         jfield plan ''pipeline_id'' = Some (JStr ''core/structured'')) \<and>
      jfield (sp_payload p) ''questions'' = Some (JArr [])"
  using assms unfolding admissionOutcome_def route_result_def semanticObject_def Let_def
  by (auto simp: run_ok split: json.splits if_splits dest: empty_array)

lemma admission_review_outcome:
  "admissionReviewOutcome p = Inr e \<Longrightarrow>
     er_outcome e = JStr (sp_outcome p) \<or> er_outcome e = JStr ''semantic_repair_required''"
  unfolding admissionReviewOutcome_def route_result_def semanticObject_def Let_def
  by (auto simp: run_ok split: json.splits)

lemma review_outcome:
  assumes "reviewOutcome p = Inr e"
  shows "(er_outcome e = JStr (sp_outcome p) \<or> er_outcome e = JStr ''semantic_repair_required'' \<or>
      sp_outcome p = ''failure'' \<and> er_outcome e = JStr ''success'') \<and>
    (\<exists>fs. jfield (sp_payload p) ''findings'' = Some (JArr fs) \<and>
       (list_ex blocking_finding fs \<longrightarrow> er_outcome e = JStr ''semantic_repair_required''))"
proof -
  from assms obtain fs b where f: "jfield (sp_payload p) ''findings'' = Some (JArr fs)"
    and b: "hasBlockingReviewFinding fs = Inr b"
    and e: "er_outcome e = JStr (if b then ''semantic_repair_required''
        else if sp_outcome p = ''failure'' \<and> fs \<noteq> [] then ''success'' else sp_outcome p)"
    unfolding reviewOutcome_def semanticObject_def
    by (auto simp: run_ok split: json.splits option.splits)
  with blocking_ok [OF b] show ?thesis by simp
qed

text \<open>The evaluators that look into the payload.\<close>

definition PAYLOAD_EVALUATORS :: "string set" where
  "PAYLOAD_EVALUATORS = {''core/admission-outcome@1'', ''core/admission-review-outcome@1'', ''core/review-outcome@1''}"

lemma semantic_live_schema:
  assumes "inlineResultPayload rec = Inr (SemanticLive p)"
  shows "rb_payload_schema rec = SEMANTIC_RESULT_RECORD_PAYLOAD_SCHEMA"
  using assms unfolding inlineResultPayload_def
  by (auto simp: run_ok split: record_payload.splits if_splits)

text \<open>C39: an evaluation answers for a result of its own eval and stays inside it.  The stage is bound to the eval,
  its evaluator is registered and is the one that the evaluation names, and the result is a semantic one under the
  schema of the eval with an outcome that the eval declares.  The outcome of the evaluation is that outcome, or, for
  the three evaluators that look into the payload, a request for repair, or, for a review without blocking findings,
  an advisory failure that counts as success.  A review with a blocking finding always asks for repair, and an
  admission is only routed to the structured pipeline with a plan for that pipeline and no open question.\<close>

theorem evaluations_stay_inside_their_eval:
  assumes "evaluateSemantic stageId stage evaluation rec = Inr e"
  shows "af_eval stage = ed_id evaluation \<and> ed_evaluator evaluation \<in> set EVALUATOR_PRIMITIVES \<and>
    er_evaluator e = ed_evaluator evaluation \<and>
    (\<exists>p. inlineResultPayload rec = Inr (SemanticLive p) \<and>
    rb_payload_schema rec = SEMANTIC_RESULT_RECORD_PAYLOAD_SCHEMA \<and>
    sp_semantic_schema_id p = ss_id (ed_result evaluation) \<and>
    sp_outcome p \<in> set (ss_outcomes (ed_result evaluation)) \<and>
    (er_outcome e = JStr (sp_outcome p) \<or>
     ed_evaluator evaluation \<in> PAYLOAD_EVALUATORS \<and> er_outcome e = JStr ''semantic_repair_required'' \<or>
     ed_evaluator evaluation = ''core/review-outcome@1'' \<and> sp_outcome p = ''failure'' \<and> er_outcome e = JStr ''success'') \<and>
    (ed_evaluator evaluation = ''core/review-outcome@1'' \<longrightarrow>
       (\<exists>fs. jfield (sp_payload p) ''findings'' = Some (JArr fs) \<and>
         (list_ex blocking_finding fs \<longrightarrow> er_outcome e = JStr ''semantic_repair_required''))) \<and>
    (ed_evaluator evaluation = ''core/admission-outcome@1'' \<longrightarrow> er_outcome e = JStr ''structured'' \<longrightarrow>
       (\<exists>plan. jfield (sp_payload p) ''execution_plan'' = Some plan \<and>
         jfield plan ''pipeline_id'' = Some (JStr ''core/structured'')) \<and>
       jfield (sp_payload p) ''questions'' = Some (JArr [])))"
proof -
  let ?ev = "ed_evaluator evaluation"
  from assms have bound: "af_eval stage = ed_id evaluation" "?ev \<in> set EVALUATOR_PRIMITIVES"
    unfolding evaluateSemantic_def by (auto simp: run_ok run_cases)
  from assms obtain p where p: "inlineResultPayload rec = Inr (SemanticLive p)"
    "sp_semantic_schema_id p = ss_id (ed_result evaluation)" "sp_outcome p \<in> set (ss_outcomes (ed_result evaluation))"
    and e: "(if ?ev = ''core/admission-outcome@1'' then admissionOutcome p
       else if ?ev = ''core/admission-review-outcome@1'' then admissionReviewOutcome p
       else if ?ev = ''core/review-outcome@1'' then reviewOutcome p
       else Inr \<lparr>er_evaluator = ?ev, er_outcome = JStr (sp_outcome p),
                 er_reason = ''validated_semantic_result''\<rparr>) = Inr e"
    unfolding evaluateSemantic_def by (auto simp: run_ok run_cases)
  have rec: "rb_payload_schema rec = SEMANTIC_RESULT_RECORD_PAYLOAD_SCHEMA" by (rule semantic_live_schema [OF p(1)])
  consider (admission) "?ev = ''core/admission-outcome@1''" "admissionOutcome p = Inr e"
    | (admission_review) "?ev = ''core/admission-review-outcome@1''" "admissionReviewOutcome p = Inr e"
    | (review) "?ev = ''core/review-outcome@1''" "reviewOutcome p = Inr e"
    | (other) "?ev \<notin> PAYLOAD_EVALUATORS" "er_outcome e = JStr (sp_outcome p)" "er_evaluator e = ?ev"
    using e by (auto simp: PAYLOAD_EVALUATORS_def split: if_splits)
  then show ?thesis
  proof cases
    case admission
    with bound p rec admission_outcome [OF admission(2)] outcome_evaluators(1) [OF admission(2)] show ?thesis
      by (auto simp: PAYLOAD_EVALUATORS_def)
  next
    case admission_review
    with bound p rec admission_review_outcome [OF admission_review(2)] outcome_evaluators(2) [OF admission_review(2)]
    show ?thesis by (auto simp: PAYLOAD_EVALUATORS_def)
  next
    case review
    with bound p rec review_outcome [OF review(2)] outcome_evaluators(3) [OF review(2)] show ?thesis
      by (auto simp: PAYLOAD_EVALUATORS_def)
  next
    case other
    with bound p rec show ?thesis by (auto simp: PAYLOAD_EVALUATORS_def)
  qed
qed

section \<open>Answers can be evaluated\<close>

lemma transformations_count:
  "post (\<lambda>(w, ts'). length ts' \<le> length ts + 1) (validateSemanticValue v field path dp ts)"
  by (cases field)
    (auto simp: posts normalizeString_def Let_def split: json.splits intro!: post_mono [OF post_True] split_beta)

lemma transformations_bounded:
  "payload_fields input source fs ts = Inr (vs, ts') \<Longrightarrow> length ts' \<le> length ts + length fs"
proof (induction fs arbitrary: ts vs ts')
  case (Cons f fs)
  obtain name field where f: "f = (name, field)" by (cases f)
  from Cons.prems f obtain raw w ts1 ws where
    w: "validateSemanticValue raw field (sub_path (sub_path source ''payload'') name) (''/payload/'' @ name) ts = Inr (w, ts1)"
    and ws: "payload_fields input source fs ts1 = Inr (ws, ts')"
    by (auto simp: bindE_eq_Inr split: option.splits)
  from postD [OF transformations_count w] Cons.IH [OF ws] show ?case by simp
qed simp

lemma fields_read_back:
  "recordEntries parseSemanticField path m km kp n (map (\<lambda>(k, f). (k, json_of_semantic_field f)) fs) = Inr gs \<Longrightarrow> gs = fs"
proof (induction fs arbitrary: n gs)
  case (Cons f fs)
  have field: "parseSemanticField (json_of_semantic_field g) q = Inr h \<Longrightarrow> h = g" for g h q
    by (cases g) (auto simp: parseSemanticField_def only_for_def run_ok split: if_splits)
  obtain k g where f: "f = (k, g)" by (cases f)
  with Cons show ?case by (auto simp: recordEntries_Cons simp del: recordEntries.simps(2) dest: field)
qed simp

lemma schema_reads_back:
  assumes "validateSemanticResultSchema (json_of_semantic_schema r) source = Inr s"
  shows "s = r"
proof -
  have strings: "mapiE (\<lambda>i entry. stringAt (Some entry) (idx_path path i) m pat) k (map JStr xs) = Inr ys \<Longrightarrow> ys = xs" for path m pat k xs ys
    by (induction xs arbitrary: k ys) (auto simp: run_ok)
  show ?thesis
    using assms unfolding validateSemanticResultSchema_def json_of_semantic_schema_def json_texts_def
    by (auto simp: run_ok recordAt_def dest!: strings fields_read_back)
qed

lemma objects_have_no_null: "list_all is_obj fs \<Longrightarrow> is_ok (hasBlockingReviewFinding fs)"
proof (induction fs)
  case (Cons f fs)
  then obtain es where "f = JObj es" by (cases f) auto
  with Cons show ?case by (auto split: option.splits)
qed simp

lemma finding_lists_are_objects:
  assumes "payload_fields input source fs ts = Inr (vs, ts')" and "map_of fs k = Some (FindingListField n)"
  shows "\<exists>ws. map_of vs k = Some (JArr ws) \<and> list_all is_obj ws"
  using assms
proof (induction fs arbitrary: ts vs ts')
  case (Cons f fs)
  obtain name field where f: "f = (name, field)" by (cases f)
  from Cons.prems f obtain raw w ts1 ws where
    w: "validateSemanticValue raw field (sub_path (sub_path source ''payload'') name) (''/payload/'' @ name) ts = Inr (w, ts1)"
    and ws: "payload_fields input source fs ts1 = Inr (ws, ts')" and vs: "vs = (name, w) # ws"
    by (auto simp: bindE_eq_Inr split: option.splits)
  show ?case
  proof (cases "name = k")
    case True
    with Cons.prems(2) f w obtain ds where "w = JArr (map json_of_finding ds)" by (auto simp: bindE_eq_Inr)
    then show ?thesis by (simp add: vs True list_all_iff json_of_finding_def)
  next
    case False
    with Cons.IH [OF ws] Cons.prems(2) f show ?thesis by (simp add: vs)
  qed
qed simp

lemma replayed_payload:
  assumes "assertCandidateReplay staged evaluation = Inr p"
  obtains vs ts where "sp_payload p = JObj vs" and "sp_semantic_schema_id p = ss_id (ed_result evaluation)"
    and "sp_outcome p \<in> set (ss_outcomes (ed_result evaluation))"
    and "fits 0 (JObj vs)" and "sp_transformations p = map json_of_transformation ts" and "length ts \<le> 64"
    and "\<exists>input source. payload_fields input source (ss_payload (ed_result evaluation)) [] = Inr (vs, ts)"
proof -
  from assms obtain n where
    n: "validateAndNormalizeResultCandidate (sg_original staged) (json_of_semantic_schema (ed_result evaluation))
          ''staged_candidate.original'' = Inr n"
    and p: "fits 0 (JObj (nc_payload n))"
      "p = \<lparr>sp_semantic_schema_id = ss_id (ed_result evaluation), sp_outcome = nc_outcome n,
        sp_payload = JObj (nc_payload n), sp_transformations = map json_of_transformation (nc_transformations n)\<rparr>"
    unfolding assertCandidateReplay_def Let_def by (auto simp: run_ok jsonAt_iff simp del: fits.simps)
  from n obtain s input where
    s: "validateSemanticResultSchema (json_of_semantic_schema (ed_result evaluation)) ''semantic_schema'' = Inr s"
    and out: "nc_outcome n \<in> set (ss_outcomes s)"
    and fs: "payload_fields input ''staged_candidate.original'' (ss_payload s) [] = Inr (nc_payload n, nc_transformations n)"
    unfolding validateAndNormalizeResultCandidate_def by (auto simp: run_ok)
  from schema_reads_back [OF s] have s_eq: "s = ed_result evaluation" .
  have "length (ss_payload s) \<le> 64"
  proof -
    from s obtain es where "recordAt (map_of es ''payload'') (sub_path ''semantic_schema'' ''payload'') parseSemanticField 64
        (Some 80) FIELD_NAME = Inr (ss_payload s)"
      unfolding validateSemanticResultSchema_def by (auto simp: run_ok)
    from postD [OF post_recordAt [OF post_True] this] show ?thesis by simp
  qed
  with transformations_bounded [OF fs] have "length (nc_transformations n) \<le> 64" by simp
  with p out fs s_eq that show thesis by auto
qed

text \<open>C40: an answer that became a result record under an eval can be evaluated: the evaluation returns, for every
  stage that is bound to the eval, provided that the evaluator of the eval is one of the registered primitives and, when
  it is the review evaluator, that the schema of the eval declares \<open>findings\<close> as a list of review findings.  The eval
  contract checks neither (an evaluator reference only has to be well formed), so both are conditions on the eval.\<close>

theorem validated_answers_can_be_evaluated:
  assumes "createSemanticResultRecord attempt staged evaluation created_at = Inr rec"
    and "af_eval stage = ed_id evaluation" and "ed_evaluator evaluation \<in> set EVALUATOR_PRIMITIVES"
    and "ed_evaluator evaluation = ''core/review-outcome@1'' \<Longrightarrow>
      \<exists>n. map_of (ss_payload (ed_result evaluation)) ''findings'' = Some (FindingListField n)"
  shows "\<exists>e. evaluateSemantic stageId stage evaluation rec = Inr e"
proof -
  from assms(1) obtain p where r: "assertCandidateReplay staged evaluation = Inr p"
    and rec: "rb_payload rec = Inline (json_of_semantic p)" "rb_payload_schema rec = SEMANTIC_RESULT_RECORD_PAYLOAD_SCHEMA"
    unfolding createSemanticResultRecord_def resultRecordBase_def by (auto simp: run_ok)
  from r obtain vs ts where p: "sp_payload p = JObj vs" "sp_semantic_schema_id p = ss_id (ed_result evaluation)"
      "sp_outcome p \<in> set (ss_outcomes (ed_result evaluation))" "fits 0 (JObj vs)"
      "sp_transformations p = map json_of_transformation ts" "length ts \<le> 64"
    and pf: "\<exists>input source. payload_fields input source (ss_payload (ed_result evaluation)) [] = Inr (vs, ts)"
    by (rule replayed_payload)
  have "fits 0 (JArr (sp_transformations p))"
    using p(5,6) by (auto simp: json_of_transformation_def)
  then have "semanticPayload (json_of_semantic p) = Inr p"
    using p(1,4) by (simp add: semanticPayload_ok json_of_semantic_def del: fits.simps)
  with rec have live: "inlineResultPayload rec = Inr (SemanticLive p)"
    by (simp add: inlineResultPayload_def)
  have review: "\<exists>e. reviewOutcome p = Inr e" if "ed_evaluator evaluation = ''core/review-outcome@1''"
  proof -
    from assms(4) [OF that] pf obtain ws where ws: "map_of vs ''findings'' = Some (JArr ws)" "list_all is_obj ws"
      by (blast dest: finding_lists_are_objects)
    from objects_have_no_null [OF ws(2)] obtain b where "hasBlockingReviewFinding ws = Inr b" by (auto simp: is_ok_iff)
    with ws(1) p(1) show ?thesis by (simp add: reviewOutcome_def semanticObject_def)
  qed
  show ?thesis
    using live p(1-3) assms(2,3) review
    by (auto simp: evaluateSemantic_def admissionOutcome_def admissionReviewOutcome_def semanticObject_def Let_def)
qed

section \<open>A review\<close>

declare digestCanonicalJson_def [code del]

definition ex_review_eval :: eval_definition where
  "ex_review_eval = \<lparr>ed_id = ''review'', ed_evaluator = ''core/review-outcome@1'',
     ed_result = \<lparr>ss_id = ''review'', ss_outcomes = [''success'', ''failure''],
       ss_payload = [(''findings'', FindingListField 5)]\<rparr>\<rparr>"

definition ex_review_answer :: json where
  "ex_review_answer = json_of_candidate ''success''
     [(''findings'', JArr [json_of_finding \<lparr>vf_severity = ''P1'', vf_path = ''f'', vf_anchor = ''a'', vf_title = ''t'',
         vf_evidence = ''e''\<rparr>])]"

definition ex_staged :: staged_candidate where
  "ex_staged = \<lparr>sg_schema = ''openthrottle.staged-result-candidate/v1'', sg_semantic_schema_id = ''review'',
     sg_original = ex_review_answer, sg_original_hash = digestCanonicalJson ex_review_answer,
     sg_candidate = ex_review_answer, sg_normalized_hash = digestCanonicalJson ex_review_answer,
     sg_transformations = JArr []\<rparr>"

definition ex_reviewer :: agent_fields where
  "ex_reviewer = \<lparr>af_agent_id = ''reviewer'', af_repository_authority = InspectAuthority, af_skills = [],
     af_entry_skill = None, af_eval = ''review'', af_engine = None\<rparr>"

definition ex_reviewing :: kernel_attempt where
  "ex_reviewing = \<lparr>ka_id = ''a'', ka_pipeline_run_id = ''r'', ka_scope = StageScope ''review'',
     ka_repository_authority = InspectAuthority, ka_request_hash = [], ka_definition_bundle_hash = [],
     ka_input_subject = [], ka_context_record_ids = [], ka_context_checkpoint_ids = [], ka_output_subject = None,
     ka_native_session_id = None, ka_status = WorkComplete, ka_version = 3, ka_work_retry_ordinal = 0,
     ka_result_correction_count = 0, ka_result_correction_deadline = None, ka_lease = None,
     ka_checkpoint_id = Some ''c'', ka_result_record_id = None, ka_decision_record_id = None, ka_pending_result = None\<rparr>"

definition ex_review_record :: result_record where
  "ex_review_record = projr (createSemanticResultRecord ex_reviewing ex_staged ex_review_eval ''t'')"

lemma ex_review_created: "createSemanticResultRecord ex_reviewing ex_staged ex_review_eval ''t'' = Inr ex_review_record"
  unfolding ex_review_record_def by (rule conjunct1, rule projr_case [where P = "\<lambda>_. True"]) code_simp

theorem validated_answers_can_be_evaluated_witness:
  "\<exists>e. evaluateSemantic ''review'' ex_reviewer ex_review_eval ex_review_record = Inr e"
  by (rule validated_answers_can_be_evaluated [OF ex_review_created])
    (simp_all add: ex_reviewer_def ex_review_eval_def EVALUATOR_PRIMITIVES_def)

definition ex_review_result :: evaluated_result where
  "ex_review_result = \<lparr>er_evaluator = ''core/review-outcome@1'', er_outcome = JStr ''semantic_repair_required'',
     er_reason = ''blocking_review_finding''\<rparr>"

lemma ex_review_evaluated:
  "evaluateSemantic ''review'' ex_reviewer ex_review_eval ex_review_record = Inr ex_review_result"
  unfolding ex_review_record_def by code_simp

theorem evaluations_stay_inside_their_eval_witness:
  "\<exists>p. inlineResultPayload ex_review_record = Inr (SemanticLive p) \<and> sp_outcome p \<in> {''success'', ''failure''}"
  using evaluations_stay_inside_their_eval [OF ex_review_evaluated] by (auto simp: ex_review_eval_def)

section \<open>An outcome that is no text\<close>

text \<open>
  \<open>commandPayload\<close> compares \<open>String(input.outcome)\<close>, so an array of one outcome passes, and evaluating it gives an
  outcome that is no string; the contract of the decision that records it rejects that outcome.
\<close>

definition ex_array_payload :: json where
  "ex_array_payload = JObj
     [(''schema'', JStr COMMAND_RESULT_RECORD_PAYLOAD_SCHEMA), (''command_id'', JStr ''test''),
      (''outcome'', JArr [JStr ''success'']), (''exit_code'', JNum (JInt 0)), (''summary'', JStr [])]"

lemma command_outcome_coerced:
  "commandPayload ex_array_payload =
     Inr \<lparr>cp_command_id = ''test'', cp_outcome = JArr [JStr ''success''], cp_exit_code = 0, cp_summary = []\<rparr>"
  "\<not> is_ok (decisionPayload (json_of_decision_payload
     \<lparr>dp_stage_id = ''s'', dp_evaluator = ''core/command-outcome@1'', dp_outcome = JArr [JStr ''success''],
      dp_reason = ''executor_command_result''\<rparr>))"
  by code_simp+

end
