(* ===== verification/PipelineGraph.thy ===== *)
theory PipelineGraph
  imports Pipeline CycleSearch
begin

text \<open>
  What \<open>validateStages\<close> establishes, stated on the graph of the pipeline: every reference is known,
  every stage is reachable from the entry, and every cycle has an edge with a re-entry bound.
\<close>

section \<open>The graph of a pipeline\<close>

abbreviation stage_ids :: "pipeline_stage list \<Rightarrow> string list" where
  "stage_ids stages \<equiv> map st_id stages"

definition all_targets :: "pipeline_stage \<Rightarrow> string list" where
  "all_targets s = stage_targets s @ stage_body s"

definition stage_graph :: "(pipeline_stage \<Rightarrow> string list) \<Rightarrow> pipeline_stage list \<Rightarrow> (string \<times> string) set" where
  "stage_graph f stages = {(st_id s, t) | s t. s \<in> set stages \<and> t \<in> set (f s)}"

lemma find_stage_Some:
  "find_stage stages i = Some s \<Longrightarrow> s \<in> set stages \<and> st_id s = i"
  by (auto simp: find_stage_def find_Some_iff)

lemma find_stage_None: "find_stage stages i = None \<longleftrightarrow> i \<notin> set (stage_ids stages)"
  by (auto simp: find_stage_def find_None_iff)

lemma find_stage_distinct:
  assumes "distinct (stage_ids stages)" and "s \<in> set stages"
  shows "find_stage stages (st_id s) = Some s"
proof -
  obtain s' where s': "find_stage stages (st_id s) = Some s'"
    using assms(2) find_stage_None [of stages "st_id s"] by (cases "find_stage stages (st_id s)") auto
  from find_stage_Some [OF s'] assms have "s' = s" by (auto simp: distinct_map inj_on_def)
  with s' show ?thesis by simp
qed

lemma stage_succs_graph:
  assumes "distinct (stage_ids stages)"
  shows "edges (stage_ids stages) (stage_succs f stages) = stage_graph f stages"
  by (auto simp: edges_def stage_graph_def stage_succs_def find_stage_distinct [OF assms])

lemma stage_targets_iff:
  "t \<in> set (stage_targets s) \<longleftrightarrow> (\<exists>o1 next. (o1, next) \<in> set (st_on s) \<and> tr_to next = Some t)"
  by (force simp: stage_targets_def List.map_filter_def)

lemma unbounded_targets_iff:
  "t \<in> set (unbounded_targets s) \<longleftrightarrow>
     (\<exists>o1 next. (o1, next) \<in> set (st_on s) \<and> tr_to next = Some t \<and> tr_max_reentries next = None)"
  by (force simp: unbounded_targets_def List.map_filter_def split: if_splits)

lemma next_stages:
  assumes "distinct (stage_ids stages)" and "i \<in> set (stage_ids stages)"
  shows "set (stage_succs (\<lambda>s. stage_targets s @ stage_body s) stages i) = stage_graph all_targets stages `` {i}"
proof -
  have "all_targets = (\<lambda>s. stage_targets s @ stage_body s)" by (rule ext) (simp add: all_targets_def)
  with assms(2) show ?thesis
    unfolding stage_succs_graph [OF assms(1), of all_targets, symmetric] by (simp add: edges_def Image_def)
qed

section \<open>The reachability loop\<close>

definition closed_up_to :: "(string \<times> string) set \<Rightarrow> string set \<Rightarrow> string set \<Rightarrow> bool" where
  "closed_up_to E reached waiting \<longleftrightarrow> E `` reached \<subseteq> reached \<union> waiting"

lemma reach_loop_sound:
  assumes "distinct (stage_ids stages)"
  shows "set (reach_loop stages reachable pending) \<subseteq>
    (stage_graph all_targets stages)\<^sup>* `` (set reachable \<union> set pending)"
  using assms
proof (induction stages reachable pending rule: reach_loop.induct)
  case (1 stages reachable pending)
  let ?E = "stage_graph all_targets stages"
  show ?case
  proof (cases "pending = []")
    case True
    then show ?thesis by (subst reach_loop.simps) auto
  next
    case False
    define i rest where "i = last pending" and "rest = butlast pending"
    with False have pend: "set pending = insert i (set rest)"
      by (metis append_butlast_last_id list.set(1) list.simps(15) set_append Un_insert_right sup_bot_right)
    let ?n = "stage_succs (\<lambda>s. stage_targets s @ stage_body s) stages i"
    consider (seen) "i \<in> set reachable" | (known) "i \<notin> set reachable" "i \<in> set (stage_ids stages)"
      | (unknown) "i \<notin> set reachable" "i \<notin> set (stage_ids stages)" by blast
    then show ?thesis
    proof cases
      case seen
      from 1(1) [OF False i_def rest_def seen 1(4)] seen pend False show ?thesis
        by (subst reach_loop.simps) (auto simp: Let_def simp flip: i_def rest_def)
    next
      case known
      have "?E\<^sup>* `` (set (i # reachable) \<union> set (rest @ ?n)) \<subseteq> ?E\<^sup>* `` (set reachable \<union> set pending)"
        using next_stages [OF 1(4) known(2)] pend by (auto intro: converse_rtrancl_into_rtrancl)
      with 1(2) [OF False i_def rest_def known 1(4)]
      have "set (reach_loop stages (i # reachable) (rest @ ?n)) \<subseteq> ?E\<^sup>* `` (set reachable \<union> set pending)"
        by (rule subset_trans)
      with known False show ?thesis
        by (subst reach_loop.simps) (simp add: Let_def flip: i_def rest_def)
    next
      case unknown
      from 1(3) [OF False i_def rest_def unknown 1(4)] unknown pend False show ?thesis
        by (subst reach_loop.simps) (auto simp: Let_def simp flip: i_def rest_def)
    qed
  qed
qed

lemma reach_loop_complete:
  assumes "distinct (stage_ids stages)"
    and "closed_up_to (stage_graph all_targets stages) (set reachable) (set pending)"
  shows "set reachable \<union> set pending \<subseteq> set (reach_loop stages reachable pending) \<and>
    closed_up_to (stage_graph all_targets stages) (set (reach_loop stages reachable pending)) {}"
  using assms
proof (induction stages reachable pending rule: reach_loop.induct)
  case (1 stages reachable pending)
  let ?E = "stage_graph all_targets stages"
  show ?case
  proof (cases "pending = []")
    case True
    with 1(5) show ?thesis by (simp add: reach_loop.simps [of stages reachable "[]"])
  next
    case False
    define i rest where "i = last pending" and "rest = butlast pending"
    with False have pend: "set pending = insert i (set rest)"
      by (metis append_butlast_last_id list.set(1) list.simps(15) set_append Un_insert_right sup_bot_right)
    let ?n = "stage_succs (\<lambda>s. stage_targets s @ stage_body s) stages i"
    have n: "set ?n = ?E `` {i}" if "i \<in> set (stage_ids stages)"
      by (rule next_stages [OF 1(4) that])
    have none: "?E `` {i} = {}" if "i \<notin> set (stage_ids stages)"
      using that by (auto simp: stage_graph_def)
    consider (seen) "i \<in> set reachable" | (known) "i \<notin> set reachable" "i \<in> set (stage_ids stages)"
      | (unknown) "i \<notin> set reachable" "i \<notin> set (stage_ids stages)" by blast
    then show ?thesis
    proof cases
      case seen
      with 1(5) pend have "closed_up_to ?E (set reachable) (set rest)" by (auto simp: closed_up_to_def)
      with 1(1) [OF False i_def rest_def seen 1(4)] seen pend False show ?thesis
        by (subst (1 2) reach_loop.simps) (auto simp: Let_def simp flip: i_def rest_def)
    next
      case known
      with 1(5) pend n have "closed_up_to ?E (set (i # reachable)) (set (rest @ ?n))"
        by (auto simp: closed_up_to_def)
      with 1(2) [OF False i_def rest_def known 1(4)] known pend False show ?thesis
        by (subst (1 2) reach_loop.simps) (auto simp: Let_def simp flip: i_def rest_def)
    next
      case unknown
      with 1(5) pend none have "closed_up_to ?E (set (i # reachable)) (set rest)"
        by (auto simp: closed_up_to_def)
      with 1(3) [OF False i_def rest_def unknown 1(4)] unknown pend False show ?thesis
        by (subst (1 2) reach_loop.simps) (auto simp: Let_def simp flip: i_def rest_def)
    qed
  qed
qed

lemma closed_rtrancl:
  assumes "closed_up_to E R {}" and "(a, b) \<in> E\<^sup>*" and "a \<in> R"
  shows "b \<in> R"
  using assms(2,3,1) by induction (auto simp: closed_up_to_def)

lemma reach_loop_exact:
  assumes "distinct (stage_ids stages)"
  shows "set (reach_loop stages [] [entry]) = {i. (entry, i) \<in> (stage_graph all_targets stages)\<^sup>*}"
proof -
  have "closed_up_to (stage_graph all_targets stages) (set []) (set [entry])"
    by (simp add: closed_up_to_def)
  from reach_loop_complete [OF assms this] closed_rtrancl
  have "{i. (entry, i) \<in> (stage_graph all_targets stages)\<^sup>*} \<subseteq> set (reach_loop stages [] [entry])"
    by auto
  with reach_loop_sound [OF assms, of "[]" "[entry]"] show ?thesis by auto
qed

section \<open>The graph checks, exactly\<close>

definition references_known :: "pipeline_stage list \<Rightarrow> bool" where
  "references_known stages \<longleftrightarrow> (\<forall>s \<in> set stages. set (all_targets s) \<subseteq> set (stage_ids stages))"

definition valid_pipeline :: "pipeline_stage list \<Rightarrow> string \<Rightarrow> bool \<Rightarrow> bool" where
  "valid_pipeline stages entry deferred \<longleftrightarrow>
     distinct (stage_ids stages) \<and> entry \<in> set (stage_ids stages) \<and> references_known stages \<and>
     (deferred \<or> (\<forall>s \<in> set stages. (entry, st_id s) \<in> (stage_graph all_targets stages)\<^sup>*)) \<and>
     acyclic (stage_graph unbounded_targets stages)"

lemma is_ok_mapiE:
  assumes "\<And>i x. is_ok (f i x) \<longleftrightarrow> P x"
  shows "is_ok (mapiE f i xs) \<longleftrightarrow> (\<forall>x \<in> set xs. P x)"
proof (induction xs arbitrary: i)
  case (Cons x xs)
  have "is_ok (mapiE f i (x # xs)) \<longleftrightarrow> is_ok (f i x) \<and> is_ok (mapiE f (Suc i) xs)"
    by (cases "f i x"; cases "mapiE f (Suc i) xs") simp_all
  with Cons.IH assms show ?case by simp
qed simp

lemma is_ok_option: "is_ok (case x of None \<Rightarrow> Inr () | Some t \<Rightarrow> if P t then Inr () else Inl e) \<longleftrightarrow>
    (\<forall>t. x = Some t \<longrightarrow> P t)"
  by (cases x) auto

lemma check_references_ok:
  "is_ok (check_references known source i s) \<longleftrightarrow> set (all_targets s) \<subseteq> set known"
proof -
  have "is_ok (forE (\<lambda>(outcome, next). case tr_to next of None \<Rightarrow> Inr ()
        | Some t \<Rightarrow> if t \<in> set known then Inr () else Inl (err outcome)) (st_on s)) \<longleftrightarrow>
      set (stage_targets s) \<subseteq> set known" for err :: "string \<Rightarrow> error"
    by (force simp: run_ok is_ok_option subset_iff stage_targets_iff split_beta)
  moreover have "is_ok (mapiE (\<lambda>j b. if b \<in> set known then Inr () else Inl (err j)) 0 (stage_body s)) \<longleftrightarrow>
      set (stage_body s) \<subseteq> set known" for err :: "nat \<Rightarrow> error"
    by (subst is_ok_mapiE [where P = "\<lambda>b. b \<in> set known"]) auto
  ultimately show ?thesis
    unfolding check_references_def all_targets_def by (simp add: run_ok)
qed

lemma length_remdups_ids: "length (remdups (stage_ids stages)) = length stages \<longleftrightarrow> distinct (stage_ids stages)"
  using length_remdups_eq [of "stage_ids stages"] by simp

lemma validateStages_ok:
  "is_ok (validateStages stages entry source deferred) \<longleftrightarrow> valid_pipeline stages entry deferred"
proof (cases "distinct (stage_ids stages)")
  case False
  then show ?thesis by (simp add: validateStages_def valid_pipeline_def Let_def run_ok length_remdups_eq)
next
  case True
  have refs: "is_ok (mapiE (check_references (stage_ids stages) source) 0 stages) \<longleftrightarrow> references_known stages"
    unfolding references_known_def by (rule is_ok_mapiE) (rule check_references_ok)
  have walk: "is_ok (visit_all (stage_ids stages) (stage_succs unbounded_targets stages)
      (\<lambda>i. PipelineError (sub_path source ''stages'') (UnboundedCycle i)) [] [] (stage_ids stages)) \<longleftrightarrow>
      acyclic (stage_graph unbounded_targets stages)"
    by (simp only: visit_all_cycle_free walk.check_iff stage_succs_graph [OF True])
  show ?thesis
    unfolding validateStages_def valid_pipeline_def Let_def
    using True
    by (auto simp: run_ok length_remdups_eq length_remdups_ids refs walk filter_empty_conv reach_loop_exact)
qed

text \<open>C27: the graph checks accept exactly the valid pipelines: distinct stage ids, a known entry, known
  references, every stage reachable from the entry unless that is deferred, and no cycle of
  transitions without a re-entry bound.\<close>

theorem validateStages_exact:
  "is_ok (validateStages stages entry source deferred) \<longleftrightarrow> valid_pipeline stages entry deferred"
  by (rule validateStages_ok)

end
