(* ===== verification/LifecycleProperties.thy ===== *)
theory LifecycleProperties
  imports Lifecycle PipelineGraph
begin

text \<open>
  The expansion of an authored pipeline with its runtime lifecycle: which transitions of the result
  end a run, and that the expansion of a valid pipeline is valid again.  The levels of the stages
  (provisioning, authored, stop, cleanup) order every edge the expansion adds.
\<close>

section \<open>What the expansion returns\<close>

lemma expand_ok:
  "expandCompiledRuntimeLifecycle entry stages = Inr (e, out) \<longleftrightarrow>
     (\<forall>s \<in> set stages. st_id s \<notin> set reserved_ids) \<and> e = RUNTIME_PROVISION_STAGE_ID \<and>
     out = lifecycle_stages entry @ map rewrite_stage stages"
proof (cases "find (\<lambda>s. st_id s \<in> set reserved_ids) stages")
  case None
  then have "\<forall>s \<in> set stages. st_id s \<notin> set reserved_ids" by (simp add: find_None_iff)
  with None show ?thesis by (auto simp: expandCompiledRuntimeLifecycle_def)
next
  case (Some s)
  then have "\<not> (\<forall>s \<in> set stages. st_id s \<notin> set reserved_ids)"
    by (metis find_None_iff option.distinct(1))
  with Some show ?thesis by (simp add: expandCompiledRuntimeLifecycle_def)
qed

lemma rewrite_terminal [simp]: "tr_terminal (rewrite_transition t) = None"
  by (simp add: rewrite_transition_def go_to_def split: option.splits)

lemma rewrite_stage_on:
  "(o1, t) \<in> set (st_on (rewrite_stage s)) \<longleftrightarrow> (\<exists>t0. (o1, t0) \<in> set (st_on s) \<and> t = rewrite_transition t0)"
  by (force simp: rewrite_stage_def)

lemma go_to_simps [simp]:
  "tr_to (go_to d) = Some d" "tr_terminal (go_to d) = None" "tr_max_reentries (go_to d) = None"
  "tr_to (end_with o1) = None" "tr_terminal (end_with o1) = Some o1" "tr_max_reentries (end_with o1) = None"
  "tr_to (retry_at d) = Some d" "tr_terminal (retry_at d) = None" "tr_max_reentries (retry_at d) = Some 2"
  "tr_on_exhausted (retry_at d) = Some ExhaustFailed"
  by (simp_all add: go_to_def end_with_def retry_at_def)

lemma provision_terminal:
  "(o1, t) \<in> set (st_on (provision_stage entry)) \<Longrightarrow> tr_terminal t = Some x \<Longrightarrow> o1 = ''no_resource'' \<and> x = Failed"
  unfolding provision_stage_def by (auto simp del: outcomes_complete)

lemma stop_terminal: "(o1, t) \<in> set (st_on (stop_stage a)) \<Longrightarrow> tr_terminal t = None"
  unfolding stop_stage_def by auto

lemma cleanup_terminal:
  "(o1, t) \<in> set (st_on (cleanup_stage a)) \<Longrightarrow> tr_terminal t = Some x \<Longrightarrow> x = a \<or> x = Failed"
  unfolding cleanup_stage_def by auto

text \<open>C28: in an expanded pipeline only the cleanup stages end a run, apart from the \<open>no_resource\<close>
  outcome of the provisioning stage, which proves that there is nothing to clean up.\<close>

theorem only_cleanup_ends_runs:
  assumes "expandCompiledRuntimeLifecycle entry stages = Inr (e, out)"
    and "s \<in> set out" and "(outcome, t) \<in> set (st_on s)" and "tr_terminal t = Some terminal"
  shows "runtimeCleanupOutcome s = Some terminal \<or> runtimeCleanupOutcome s \<noteq> None \<and> terminal = Failed \<or>
         is_provision_stage s \<and> outcome = ''no_resource'' \<and> terminal = Failed"
proof -
  from assms(1,2) consider "s = provision_stage entry" | a where "s = stop_stage a"
    | a where "s = cleanup_stage a" | s0 where "s = rewrite_stage s0"
    unfolding expand_ok by (auto simp: lifecycle_stages_iff)
  then show ?thesis
  proof cases
    case 1
    from provision_terminal [OF assms(3) [unfolded 1] assms(4)] 1
    show ?thesis by (simp add: is_provision_stage_def provision_stage_def)
  next
    case 2
    from stop_terminal [OF assms(3) [unfolded 2]] assms(4) show ?thesis by simp
  next
    case (3 a)
    from cleanup_terminal [OF assms(3) [unfolded 3] assms(4)] 3 show ?thesis by auto
  next
    case (4 s0)
    from assms(3) obtain t0 where "t = rewrite_transition t0" unfolding 4 rewrite_stage_on by blast
    with assms(4) show ?thesis by simp
  qed
qed

section \<open>Levels\<close>

definition stage_level :: "string \<Rightarrow> nat" where
  "stage_level i =
     (if i = RUNTIME_PROVISION_STAGE_ID then 3
      else if \<exists>a. i = runtimeStopStageId a then 1
      else if \<exists>a. i = runtimeCleanupStageId a then 0
      else 2)"

lemma stage_level_simps [simp]:
  "stage_level RUNTIME_PROVISION_STAGE_ID = 3"
  "stage_level (runtimeStopStageId a) = 1"
  "stage_level (runtimeCleanupStageId a) = 0"
  by (auto simp: stage_level_def)

lemma stage_level_authored: "i \<notin> set reserved_ids \<Longrightarrow> stage_level i = 2"
  by (auto simp: stage_level_def reserved_ids_iff)

lemma reserved_levels:
  "RUNTIME_PROVISION_STAGE_ID \<in> set reserved_ids" "runtimeStopStageId a \<in> set reserved_ids"
  "runtimeCleanupStageId a \<in> set reserved_ids"
  by (auto simp: reserved_ids_iff)

text \<open>What the parser of transitions guarantees of every stage.\<close>

definition exclusive_transitions :: "pipeline_stage list \<Rightarrow> bool" where
  "exclusive_transitions stages \<longleftrightarrow>
     (\<forall>s \<in> set stages. \<forall>(o1, t) \<in> set (st_on s). tr_terminal t \<noteq> None \<longrightarrow> tr_to t = None)"

lemma rewrite_to:
  "tr_to (rewrite_transition t) =
     (case tr_terminal t of None \<Rightarrow> tr_to t | Some o1 \<Rightarrow> Some (runtimeStopStageId o1))"
  "tr_max_reentries (rewrite_transition t) =
     (case tr_terminal t of None \<Rightarrow> tr_max_reentries t | Some _ \<Rightarrow> None)"
  by (simp_all add: rewrite_transition_def split: option.splits)

lemma rewrite_keeps_targets:
  assumes "exclusive_transitions stages" and "s \<in> set stages"
  shows "set (all_targets s) \<subseteq> set (all_targets (rewrite_stage s))"
proof -
  have "stage_body (rewrite_stage s) = stage_body s" by (simp add: stage_body_def rewrite_stage_def)
  moreover have "set (stage_targets s) \<subseteq> set (stage_targets (rewrite_stage s))"
  proof
    fix i assume "i \<in> set (stage_targets s)"
    then obtain o1 t where t: "(o1, t) \<in> set (st_on s)" "tr_to t = Some i"
      by (auto simp: stage_targets_iff)
    with assms have "tr_terminal t = None" by (force simp: exclusive_transitions_def)
    with t show "i \<in> set (stage_targets (rewrite_stage s))"
      by (force simp: stage_targets_iff rewrite_stage_on rewrite_to)
  qed
  ultimately show ?thesis by (auto simp: all_targets_def)
qed

lemma rewrite_targets:
  "set (all_targets (rewrite_stage s)) \<subseteq> set (all_targets s) \<union> range runtimeStopStageId"
proof -
  have "stage_body (rewrite_stage s) = stage_body s" by (simp add: stage_body_def rewrite_stage_def)
  moreover have "set (stage_targets (rewrite_stage s)) \<subseteq> set (stage_targets s) \<union> range runtimeStopStageId"
    by (force simp: stage_targets_iff rewrite_stage_on rewrite_to split: option.splits)
  ultimately show ?thesis by (auto simp: all_targets_def)
qed

lemma rewrite_unbounded:
  "i \<in> set (unbounded_targets (rewrite_stage s)) \<Longrightarrow>
     i \<in> set (unbounded_targets s) \<or> i \<in> range runtimeStopStageId"
  by (force simp: unbounded_targets_iff rewrite_stage_on rewrite_to split: option.splits)

lemma lifecycle_target_lists:
  "stage_targets (provision_stage entry) =
     map runtimeStopStageId PIPELINE_TERMINAL_OUTCOMES @
     [entry, entry, RUNTIME_PROVISION_STAGE_ID, runtimeStopStageId Failed]"
  "stage_targets (stop_stage a) =
     [runtimeCleanupStageId a, runtimeCleanupStageId a, runtimeStopStageId a, runtimeCleanupStageId a]"
  "stage_targets (cleanup_stage a) = [runtimeCleanupStageId a]"
  "unbounded_targets (provision_stage entry) =
     map runtimeStopStageId PIPELINE_TERMINAL_OUTCOMES @ [entry, entry, runtimeStopStageId Failed]"
  "unbounded_targets (stop_stage a) =
     [runtimeCleanupStageId a, runtimeCleanupStageId a, runtimeCleanupStageId a]"
  "unbounded_targets (cleanup_stage a) = []"
  by (simp_all add: stage_targets_def unbounded_targets_def List.map_filter_def comp_def
      provision_stage_def stop_stage_def cleanup_stage_def PIPELINE_TERMINAL_OUTCOMES_def)

lemma stop_ids: "set (map runtimeStopStageId PIPELINE_TERMINAL_OUTCOMES) = range runtimeStopStageId"
  by auto

lemma lifecycle_targets:
  "set (all_targets (provision_stage entry)) = {RUNTIME_PROVISION_STAGE_ID, entry} \<union> range runtimeStopStageId"
  "set (all_targets (stop_stage a)) = {runtimeStopStageId a, runtimeCleanupStageId a}"
  "set (all_targets (cleanup_stage a)) = {runtimeCleanupStageId a}"
proof -
  have "stage_body (provision_stage entry) = []" "stage_body (stop_stage a) = []" "stage_body (cleanup_stage a) = []"
    by (simp_all add: stage_body_def provision_stage_def stop_stage_def cleanup_stage_def)
  then show "set (all_targets (provision_stage entry)) = {RUNTIME_PROVISION_STAGE_ID, entry} \<union> range runtimeStopStageId"
    "set (all_targets (stop_stage a)) = {runtimeStopStageId a, runtimeCleanupStageId a}"
    "set (all_targets (cleanup_stage a)) = {runtimeCleanupStageId a}"
    by (auto simp: all_targets_def lifecycle_target_lists)
qed

section \<open>The expansion of a valid pipeline is valid\<close>

lemma lifecycle_own_ids: "stage_ids (lifecycle_stages entry) = reserved_ids"
  by (simp add: lifecycle_stages_def reserved_ids_def PIPELINE_TERMINAL_OUTCOMES_def)

lemma lifecycle_ids:
  "set (stage_ids (lifecycle_stages entry @ map rewrite_stage stages)) = set reserved_ids \<union> set (stage_ids stages)"
  using arg_cong [OF lifecycle_own_ids, of set] by (simp add: image_image)

lemma lifecycle_distinct: "distinct (stage_ids (lifecycle_stages entry))"
  by (simp add: lifecycle_stages_def PIPELINE_TERMINAL_OUTCOMES_def)

lemma expanded_distinct:
  assumes "distinct (stage_ids stages)" and "\<forall>s \<in> set stages. st_id s \<notin> set reserved_ids"
  shows "distinct (stage_ids (lifecycle_stages entry @ map rewrite_stage stages))"
proof -
  have "set (stage_ids (lifecycle_stages entry)) \<subseteq> set reserved_ids"
    by (auto simp: lifecycle_stages_iff reserved_ids_iff)
  with assms lifecycle_distinct show ?thesis by (auto simp: comp_def)
qed

lemma expanded_references:
  assumes "references_known stages" and "entry \<in> set (stage_ids stages)"
  shows "references_known (lifecycle_stages entry @ map rewrite_stage stages)"
  unfolding references_known_def
proof
  fix s assume "s \<in> set (lifecycle_stages entry @ map rewrite_stage stages)"
  then consider "s = provision_stage entry" | a where "s = stop_stage a"
    | a where "s = cleanup_stage a" | s0 where "s = rewrite_stage s0" "s0 \<in> set stages"
    by (auto simp: lifecycle_stages_iff)
  then show "set (all_targets s) \<subseteq> set (stage_ids (lifecycle_stages entry @ map rewrite_stage stages))"
    unfolding lifecycle_ids
  proof cases
    case 4
    with assms(1) rewrite_targets [of s0] reserved_levels(2)
    show "set (all_targets s) \<subseteq> set reserved_ids \<union> set (stage_ids stages)"
      unfolding references_known_def by blast
  qed (use assms(2) reserved_levels in \<open>auto simp: lifecycle_targets\<close>)
qed

lemma graph_edgeI: "s \<in> set stages \<Longrightarrow> t \<in> set (f s) \<Longrightarrow> (st_id s, t) \<in> stage_graph f stages"
  by (auto simp: stage_graph_def)

lemma expanded_reachable:
  assumes "exclusive_transitions stages" and "\<forall>s \<in> set stages. (entry, st_id s) \<in> (stage_graph all_targets stages)\<^sup>*"
    and "s \<in> set (lifecycle_stages entry @ map rewrite_stage stages)"
  shows "(RUNTIME_PROVISION_STAGE_ID, st_id s) \<in>
    (stage_graph all_targets (lifecycle_stages entry @ map rewrite_stage stages))\<^sup>*"
proof -
  let ?out = "lifecycle_stages entry @ map rewrite_stage stages"
  let ?E = "stage_graph all_targets ?out"
  have p: "provision_stage entry \<in> set ?out" and st: "stop_stage a \<in> set ?out" for a
    by (auto simp: lifecycle_stages_iff)
  have start: "(RUNTIME_PROVISION_STAGE_ID, entry) \<in> ?E" "(RUNTIME_PROVISION_STAGE_ID, runtimeStopStageId a) \<in> ?E"
    and stop: "(runtimeStopStageId a, runtimeCleanupStageId a) \<in> ?E" for a
    using graph_edgeI [OF p, of _ all_targets] graph_edgeI [OF st, of _ all_targets a]
    by (auto simp: lifecycle_targets)
  have "stage_graph all_targets stages \<subseteq> ?E"
  proof
    fix x assume "x \<in> stage_graph all_targets stages"
    then obtain s t where x: "x = (st_id s, t)" "s \<in> set stages" "t \<in> set (all_targets s)"
      by (auto simp: stage_graph_def)
    with rewrite_keeps_targets [OF assms(1) x(2)] have "t \<in> set (all_targets (rewrite_stage s))" by blast
    with x graph_edgeI [of "rewrite_stage s" ?out t all_targets] show "x \<in> ?E" by simp
  qed
  then have authored: "(entry, i) \<in> (stage_graph all_targets stages)\<^sup>* \<Longrightarrow> (entry, i) \<in> ?E\<^sup>*" for i
    using rtrancl_mono by blast
  from assms(3) consider "s = provision_stage entry" | a where "s = stop_stage a"
    | a where "s = cleanup_stage a" | s0 where "s = rewrite_stage s0" "s0 \<in> set stages"
    by (auto simp: lifecycle_stages_iff)
  then show ?thesis
  proof cases
    case (3 a)
    with start(2) [of a] stop [of a] show ?thesis by (simp add: rtrancl.rtrancl_into_rtrancl [OF r_into_rtrancl])
  next
    case (4 s0)
    with assms(2) authored have "(entry, st_id s) \<in> ?E\<^sup>*" by simp
    with start(1) show ?thesis by (rule converse_rtrancl_into_rtrancl)
  qed (use start in auto)
qed

lemma expanded_levels:
  assumes "(i, j) \<in> stage_graph unbounded_targets (lifecycle_stages entry @ map rewrite_stage stages)"
    and "\<forall>s \<in> set stages. st_id s \<notin> set reserved_ids" and "entry \<notin> set reserved_ids"
  shows "stage_level j < stage_level i \<or> (i, j) \<in> stage_graph unbounded_targets stages"
proof -
  from assms(1) obtain s where s: "s \<in> set (lifecycle_stages entry @ map rewrite_stage stages)" "i = st_id s"
    "j \<in> set (unbounded_targets s)" by (auto simp: stage_graph_def)
  from s(1) consider "s = provision_stage entry" | a where "s = stop_stage a"
    | a where "s = cleanup_stage a" | s0 where "s = rewrite_stage s0" "s0 \<in> set stages"
    by (auto simp: lifecycle_stages_iff)
  then show ?thesis
  proof cases
    case (4 s0)
    with rewrite_unbounded s(3) have "j \<in> set (unbounded_targets s0) \<or> j \<in> range runtimeStopStageId" by blast
    with 4 s(2) assms(2) show ?thesis by (auto simp: stage_graph_def stage_level_authored)
  qed (use s stage_level_authored [OF assms(3)] in \<open>auto simp: lifecycle_target_lists\<close>)
qed

lemma authored_levels:
  assumes "references_known stages" and "\<forall>s \<in> set stages. st_id s \<notin> set reserved_ids"
    and "(i, j) \<in> stage_graph unbounded_targets stages"
  shows "stage_level i = 2 \<and> stage_level j = 2"
proof -
  from assms(3) obtain s where s: "s \<in> set stages" "i = st_id s" "j \<in> set (unbounded_targets s)"
    by (auto simp: stage_graph_def)
  then have "j \<in> set (all_targets s)" by (auto simp: all_targets_def stage_targets_iff unbounded_targets_iff)
  with assms(1) s(1) have "j \<in> set (stage_ids stages)" by (auto simp: references_known_def)
  with assms(2) s show ?thesis by (auto intro!: stage_level_authored)
qed

lemma wf_levels:
  assumes "wf (R\<inverse>)" and "\<And>i j. (i, j) \<in> E \<Longrightarrow> level j < (level i :: nat) \<or> level j = level i \<and> (i, j) \<in> R"
  shows "wf (E\<inverse>)"
proof (rule wf_subset)
  show "wf (inv_image (less_than <*lex*> R\<inverse>) (\<lambda>x. (level x, x)))"
    using assms(1) by auto
  show "E\<inverse> \<subseteq> inv_image (less_than <*lex*> R\<inverse>) (\<lambda>x. (level x, x))"
    using assms(2) by fastforce
qed

text \<open>C29: the lifecycle keeps pipelines valid: when an authored pipeline passes the graph checks and
  none of its transitions both ends the run and names a next stage, its expansion passes them
  too, from the provisioning stage and without deferring reachability.\<close>

theorem expansion_stays_valid:
  assumes "expandCompiledRuntimeLifecycle entry stages = Inr (e, out)"
    and "exclusive_transitions stages" and "is_ok (validateStages stages entry source False)"
  shows "is_ok (validateStages out e source' False)"
proof -
  from assms(1) have out: "out = lifecycle_stages entry @ map rewrite_stage stages"
    and e: "e = RUNTIME_PROVISION_STAGE_ID" and fresh: "\<forall>s \<in> set stages. st_id s \<notin> set reserved_ids"
    by (simp_all add: expand_ok)
  from assms(3) have v: "distinct (stage_ids stages)" "entry \<in> set (stage_ids stages)" "references_known stages"
    "\<forall>s \<in> set stages. (entry, st_id s) \<in> (stage_graph all_targets stages)\<^sup>*"
    "acyclic (stage_graph unbounded_targets stages)"
    by (simp_all add: validateStages_ok valid_pipeline_def)
  have entry: "entry \<notin> set reserved_ids" using v(2) fresh by auto
  have R: "wf ((stage_graph unbounded_targets stages)\<inverse>)"
    using v(5) stage_succs_graph [OF v(1), of unbounded_targets] finite_edges
    by (metis finite_acyclic_wf_converse)
  have "wf ((stage_graph unbounded_targets out)\<inverse>)"
  proof (rule wf_levels [OF R, where level = stage_level])
    fix i j assume "(i, j) \<in> stage_graph unbounded_targets out"
    with expanded_levels [OF _ fresh entry] out
    have "stage_level j < stage_level i \<or> (i, j) \<in> stage_graph unbounded_targets stages" by blast
    moreover have "stage_level j = stage_level i" if "(i, j) \<in> stage_graph unbounded_targets stages"
      using authored_levels [OF v(3) fresh that] by simp
    ultimately show "stage_level j < stage_level i \<or>
        stage_level j = stage_level i \<and> (i, j) \<in> stage_graph unbounded_targets stages" by blast
  qed
  then have "acyclic (stage_graph unbounded_targets out)"
    using wf_acyclic acyclic_converse by blast
  with expanded_distinct [OF v(1) fresh] expanded_references [OF v(3,2)] expanded_reachable [OF assms(2) v(4)]
  show ?thesis
    unfolding validateStages_ok valid_pipeline_def out e lifecycle_ids using reserved_levels(1) by blast
qed

end
