(* ===== verification/PipelineTermination.thy ===== *)
theory PipelineTermination
  imports LifecycleProperties KernelInvariant
begin

text \<open>
  Why a pipeline run cannot cycle for ever: every advance of the cursor either uses up a re-entry of a
  bounded edge or moves down in the order that the stage levels and the unbounded edges of the
  authored pipeline give.
\<close>

section \<open>Re-entry counters\<close>

lemma map_of_filter_key: "map_of xs k = map_of (filter (\<lambda>e. fst e = k) xs) k"
  by (induction xs) auto

lemma map_of_sort_key: "map_of (sort_key fst xs) k = map_of xs k"
  by (metis map_of_filter_key sort_key_stable)

lemma used_sortedRecord [simp]: "used_reentries (sortedRecord d) = used_reentries d"
  by (rule ext) (simp add: used_reentries_def sortedRecord_def map_of_sort_key)

lemma used_update: "used_reentries (AList.update k v d) = (used_reentries d)(k := v)"
  by (rule ext) (simp add: used_reentries_def update_conv')

text \<open>The bounded edges of a pipeline, with their limits, and the re-entries that are left.\<close>

definition bounded_edges :: "pipeline_stage list \<Rightarrow> (string \<times> int) list" where
  "bounded_edges stages = concat (map (\<lambda>s. List.map_filter (\<lambda>(outcome, t).
     case (tr_max_reentries t, tr_to t) of
       (Some limit, Some dest) \<Rightarrow> Some (edge_key s outcome dest, limit)
     | _ \<Rightarrow> None) (st_on s)) stages)"

definition reentries_left :: "pipeline_stage list \<Rightarrow> (string \<Rightarrow> int) \<Rightarrow> nat" where
  "reentries_left stages used = sum_list (map (\<lambda>(edge, limit). nat (limit - used edge)) (bounded_edges stages))"

lemma bounded_edgesI:
  assumes "s \<in> set stages" and "(outcome, t) \<in> set (st_on s)"
    and "tr_max_reentries t = Some limit" and "tr_to t = Some dest"
  shows "(edge_key s outcome dest, limit) \<in> set (bounded_edges stages)"
proof -
  have "(edge_key s outcome dest, limit) \<in> set (List.map_filter (\<lambda>(outcome, t).
      case (tr_max_reentries t, tr_to t) of
        (Some limit, Some dest) \<Rightarrow> Some (edge_key s outcome dest, limit) | _ \<Rightarrow> None) (st_on s))"
    using assms(2-4) by (force simp: List.map_filter_def)
  with assms(1) show ?thesis by (auto simp: bounded_edges_def)
qed

lemma sum_list_less:
  fixes f g :: "'a \<Rightarrow> nat"
  assumes "x \<in> set xs" and "f x < g x" and "\<And>y. y \<in> set xs \<Longrightarrow> f y \<le> g y"
  shows "sum_list (map f xs) < sum_list (map g xs)"
  using assms
proof (induction xs)
  case (Cons y ys)
  have le: "f y \<le> g y" "sum_list (map f ys) \<le> sum_list (map g ys)"
    using Cons.prems(3) by (auto intro: sum_list_mono)
  show ?case
  proof (cases "x = y")
    case True
    with le Cons.prems(2) show ?thesis by simp
  next
    case False
    with Cons have "sum_list (map f ys) < sum_list (map g ys)" by auto
    with le show ?thesis by simp
  qed
qed simp

lemma reentry_uses_one:
  assumes "(edge, limit) \<in> set (bounded_edges stages)" and "used edge < limit"
  shows "reentries_left stages (used(edge := used edge + 1)) < reentries_left stages used"
  unfolding reentries_left_def
  by (rule sum_list_less [OF assms(1)]) (use assms(2) in auto)

section \<open>Advances of the cursor\<close>

text \<open>One advance: the selected transition names a next stage.  Its state is the stage of the cursor and
  the use of every edge.\<close>

definition declared_advances :: "pipeline_stage list \<Rightarrow> ((string \<times> (string \<Rightarrow> int)) \<times> (string \<times> (string \<Rightarrow> int))) set" where
  "declared_advances stages =
     {((dest, used_reentries (ef_reentries t)), (i, used_reentries (cu_reentries (kr_cursor run)))) |
        dest t i run stage outcome.
        find_stage stages i = Some stage \<and> effectiveTransition run stage outcome = Inr t \<and>
        ef_terminal t = None \<and> ef_to t = Some dest}"

text \<open>What the transition parser guarantees: a bound comes with what happens when it is used up.\<close>

definition paired_bounds :: "pipeline_stage list \<Rightarrow> bool" where
  "paired_bounds stages \<longleftrightarrow>
     (\<forall>s \<in> set stages. \<forall>(outcome, t) \<in> set (st_on s). tr_max_reentries t \<noteq> None \<longrightarrow> tr_on_exhausted t \<noteq> None)"

lemma effectiveTransition_cases:
  assumes "effectiveTransition run stage outcome = Inr t" and "ef_terminal t = None" and "ef_to t = Some dest"
  obtains
    (plain) tr where "(outcome, tr) \<in> set (st_on stage)" "tr_to tr = Some dest" "tr_max_reentries tr = None"
      "ef_reentries t = cu_reentries (kr_cursor run)"
  | (bounded) tr limit where "(outcome, tr) \<in> set (st_on stage)" "tr_to tr = Some dest"
      "tr_max_reentries tr = Some limit"
      "used_reentries (cu_reentries (kr_cursor run)) (edge_key stage outcome dest) < limit"
      "used_reentries (ef_reentries t) = (used_reentries (cu_reentries (kr_cursor run)))
         (edge_key stage outcome dest := used_reentries (cu_reentries (kr_cursor run)) (edge_key stage outcome dest) + 1)"
  | (exhausted) tr where "(outcome, tr) \<in> set (st_on stage)" "tr_max_reentries tr \<noteq> None"
      "runtimeCleanupOutcome stage = None" "ef_reentries t = cu_reentries (kr_cursor run)"
      "dest = (case runtimeExhaustionDestination stage of Some d \<Rightarrow> d
        | None \<Rightarrow> exhausted_stop_id (tr_on_exhausted tr))"
proof -
  from assms(1) obtain tr where tr: "map_of (st_on stage) outcome = Some tr"
    by (auto simp: effectiveTransition_def Let_def split: option.splits)
  then have m: "(outcome, tr) \<in> set (st_on stage)" by (rule map_of_SomeD)
  show thesis
  proof (cases "tr_max_reentries tr")
    case None
    with assms tr m show thesis by (intro plain) (auto simp: effectiveTransition_def Let_def)
  next
    case (Some limit)
    show thesis
    proof (cases "tr_to tr")
      case None
      with assms tr Some show thesis by (auto simp: effectiveTransition_def Let_def)
    next
      case (Some d)
      let ?u = "used_reentries (cu_reentries (kr_cursor run)) (edge_key stage outcome d)"
      show thesis
      proof (cases "?u < limit")
        case True
        with assms tr m Some \<open>tr_max_reentries tr = Some limit\<close> show thesis
          by (intro bounded) (auto simp: effectiveTransition_def Let_def used_update)
      next
        case False
        with assms tr m Some \<open>tr_max_reentries tr = Some limit\<close> show thesis
          by (intro exhausted) (auto simp: effectiveTransition_def Let_def split: if_splits)
      qed
    qed
  qed
qed

lemma authored_recognised:
  assumes "st_id s \<notin> set reserved_ids"
  shows "runtimeExhaustionDestination (rewrite_stage s) = None"
proof -
  have "runtimeStopOutcome (rewrite_stage s) = None"
    using assms by (auto simp: runtimeStopOutcome_def matchingOutcome_def find_None_iff reserved_ids_iff)
  moreover have "\<not> is_provision_stage (rewrite_stage s)"
    using assms by (auto simp: is_provision_stage_def reserved_ids_iff)
  ultimately show ?thesis by (simp add: runtimeExhaustionDestination_def)
qed

lemma exhausted_stop: "\<exists>a. exhausted_stop_id (Some e) = runtimeStopStageId a"
  by (cases e) auto

lemma exhausted_goes_down:
  assumes "s \<in> set (lifecycle_stages entry @ map rewrite_stage stages)"
    and fresh: "\<forall>s \<in> set stages. st_id s \<notin> set reserved_ids" and "paired_bounds stages"
    and "(outcome, tr) \<in> set (st_on s)" and "tr_max_reentries tr \<noteq> None" and "runtimeCleanupOutcome s = None"
  shows "stage_level (case runtimeExhaustionDestination s of Some d \<Rightarrow> d
    | None \<Rightarrow> exhausted_stop_id (tr_on_exhausted tr)) < stage_level (st_id s)"
proof -
  from assms(1) consider "s = provision_stage entry" | a where "s = stop_stage a"
    | a where "s = cleanup_stage a" | s0 where "s = rewrite_stage s0" "s0 \<in> set stages"
    by (auto simp: lifecycle_stages_iff)
  then show ?thesis
  proof cases
    case 1
    then have "is_provision_stage s" by (simp add: is_provision_stage_def provision_stage_def)
    with 1 show ?thesis by (simp add: runtimeExhaustionDestination_def)
  next
    case (2 a)
    moreover have "\<not> is_provision_stage (stop_stage a)" by (simp add: is_provision_stage_def)
    ultimately show ?thesis by (simp add: runtimeExhaustionDestination_def)
  next
    case 3
    with assms(6) show ?thesis by simp
  next
    case (4 s0)
    with assms(4) obtain t0 where t0: "(outcome, t0) \<in> set (st_on s0)" "tr = rewrite_transition t0"
      by (auto simp: rewrite_stage_on)
    with assms(5) have "tr_terminal t0 = None" by (cases "tr_terminal t0") (simp_all add: rewrite_to)
    with t0(2) have "tr = t0" by (simp add: rewrite_transition_def)
    with assms(3,5) t0(1) 4(2) obtain e where "tr_on_exhausted tr = Some e"
      by (fastforce simp: paired_bounds_def)
    moreover from fresh 4(2) have "st_id s0 \<notin> set reserved_ids" by simp
    ultimately show ?thesis
      using 4(1) exhausted_stop [of e] by (auto simp: authored_recognised stage_level_authored)
  qed
qed

lemma advance_goes_down:
  assumes "((j, used'), (i, used)) \<in> declared_advances (lifecycle_stages entry @ map rewrite_stage stages)"
    and fresh: "\<forall>s \<in> set stages. st_id s \<notin> set reserved_ids" and entry: "entry \<notin> set reserved_ids"
    and refs: "references_known stages" and paired: "paired_bounds stages"
  defines "out \<equiv> lifecycle_stages entry @ map rewrite_stage stages"
  shows "reentries_left out used' < reentries_left out used \<or>
         used' = used \<and> (stage_level j < stage_level i \<or>
           stage_level j = stage_level i \<and> (i, j) \<in> stage_graph unbounded_targets stages)"
proof -
  from assms(1) obtain t run stage outcome where
    s: "find_stage out i = Some stage" and t: "effectiveTransition run stage outcome = Inr t"
      "ef_terminal t = None" "ef_to t = Some j" and
    u: "used' = used_reentries (ef_reentries t)" "used = used_reentries (cu_reentries (kr_cursor run))"
    unfolding out_def declared_advances_def by blast
  from find_stage_Some [OF s] have m: "stage \<in> set out" "st_id stage = i" by simp_all
  show ?thesis
  proof (cases rule: effectiveTransition_cases [OF t])
    case (1 tr)
    then have "(i, j) \<in> stage_graph unbounded_targets out"
      using m by (force simp: stage_graph_def unbounded_targets_iff)
    with expanded_levels [OF _ fresh entry] authored_levels [OF refs fresh] out_def u 1(4)
    show ?thesis by metis
  next
    case (2 tr limit)
    from reentry_uses_one [OF bounded_edgesI [OF m(1) 2(1,3,2)],
        of "used_reentries (cu_reentries (kr_cursor run))"] 2(4,5) u
    show ?thesis by simp
  next
    case (3 tr)
    from exhausted_goes_down [OF m(1) [unfolded out_def] fresh paired 3(1-3)] 3(4,5) m(2) u
    show ?thesis by simp
  qed
qed

section \<open>Settlements of committed reductions\<close>

text \<open>
  A routine settlement is a committed \<open>settle\<close> or \<open>correct_and_settle\<close> that names no sandbox recovery; an
  attempt commit is a committed command on one attempt (start, bind, complete, schedule, advance, pend, record,
  retry).  A round is any number of attempt commits and then one routine settlement.
\<close>

definition routine_settlement :: "pipeline_stage list \<Rightarrow> kernel_run \<Rightarrow> kernel_run \<Rightarrow> bool" where
  "routine_settlement stages run run' \<longleftrightarrow>
     (\<exists>input b c. reduceKernelCommand input = Inr b \<and> ri_run input = run \<and> tb_run b = run' \<and>
        cm_stages (ri_manifest input) = stages \<and>
        settlement_command (cmd_body (ri_command input)) = Some c \<and> sf_sandbox_recovery c = None)"

definition attempt_commit :: "kernel_run \<Rightarrow> kernel_run \<Rightarrow> bool" where
  "attempt_commit run run' \<longleftrightarrow>
     (\<exists>input b. reduceKernelCommand input = Inr b \<and> ri_run input = run \<and> tb_run b = run' \<and>
        attempt_command (cmd_body (ri_command input)) \<noteq> None)"

definition settlement_rounds :: "pipeline_stage list \<Rightarrow> (kernel_run \<times> kernel_run) set" where
  "settlement_rounds stages =
     {(run'', run). \<exists>run'. attempt_commit\<^sup>*\<^sup>* run run' \<and> routine_settlement stages run' run''}"

definition run_reentries :: "kernel_run \<Rightarrow> string \<Rightarrow> int" where
  "run_reentries run = used_reentries (cu_reentries (kr_cursor run))"

text \<open>What a round leaves fewer of: whether the run is open, the re-entries, the place in the graph, the members
  that are not complete.\<close>

definition unsettled_count :: "kernel_run \<Rightarrow> nat" where
  "unsettled_count run = length (unsettledAttemptIds (kr_cursor run))"

definition run_stage :: "kernel_run \<Rightarrow> string" where
  "run_stage run = the (cu_stage_id (kr_cursor run))"

lemma attempt_commit_keeps:
  assumes "attempt_commit run run'"
  shows "kr_cursor run' = kr_cursor run \<and> run_ended (kr_status run') = run_ended (kr_status run)"
proof -
  from assms obtain input b i where r: "reduceKernelCommand input = Inr b" "ri_run input = run" "tb_run b = run'"
    and i: "attempt_command (cmd_body (ri_command input)) = Some i"
    by (auto simp: attempt_commit_def)
  from r(1) have "dispatch input (cmd_body (ri_command input)) = Inr b"
    by (auto simp: reduceKernelCommand_def bindE_eq_Inr)
  from attempt_commands.cursor_kept(1,3) [OF this i] r show ?thesis by simp
qed

lemma attempt_commits_keep:
  "attempt_commit\<^sup>*\<^sup>* run run' \<Longrightarrow>
     kr_cursor run' = kr_cursor run \<and> run_ended (kr_status run') = run_ended (kr_status run)"
  by (induction rule: rtranclp_induct) (auto dest: attempt_commit_keeps)

lemma sibling_counts:
  assumes "find (\<lambda>m. fm_attempt_id m = i) (cu_frontier (kr_cursor run)) = Some m"
    and "i \<in> set (unsettledAttemptIds (kr_cursor run))" and "distinct (map fm_attempt_id (cu_frontier (kr_cursor run)))"
  shows "unsettled_count (sibling_run run i (completed_with run m)) < unsettled_count run"
proof -
  let ?c = "kr_cursor run" let ?done = "set (cu_completed_scope_keys ?c)"
  have m: "m \<in> set (cu_frontier ?c)" "fm_attempt_id m = i" using find_member [OF assms(1)] by simp_all
  with assms(2,3) have "fm_scope_key m \<notin> ?done"
    by (auto simp: unsettledAttemptIds_def distinct_map inj_on_def)
  with m have "length (filter (\<lambda>x. fm_scope_key x \<noteq> fm_scope_key m)
      (filter (\<lambda>x. fm_scope_key x \<notin> ?done) (cu_frontier ?c))) <
      length (filter (\<lambda>x. fm_scope_key x \<notin> ?done) (cu_frontier ?c))"
    by (intro length_filter_less [of m]) auto
  then show ?thesis
    by (simp add: unsettled_count_def unsettledAttemptIds_def sibling_run_def completed_with_def conj_commute)
qed

lemma sibling_run_place [simp]:
  "run_reentries (sibling_run run i completed) = run_reentries run"
  "run_stage (sibling_run run i completed) = run_stage run"
  by (simp_all add: run_reentries_def run_stage_def sibling_run_def)

lemma advanced_run_stage:
  "advanced_run run c subject completed transition effects = Inr run' \<Longrightarrow>
     cu_stage_id (kr_cursor run') = Some (the (ef_to transition)) \<and>
     run_reentries run' = used_reentries (ef_reentries transition)"
  by (auto simp: advanced_run_def Let_def run_ok compile_cursor_iff compiled_cursor_def run_reentries_def)

text \<open>Sound bounds: what a settlement costs.\<close>

lemma routine_settlement_goes_down:
  assumes "routine_settlement (lifecycle_stages entry @ map rewrite_stage stages) run run'"
    and fresh: "\<forall>s \<in> set stages. st_id s \<notin> set reserved_ids" and entry: "entry \<notin> set reserved_ids"
    and refs: "references_known stages" and paired: "paired_bounds stages"
  defines "out \<equiv> lifecycle_stages entry @ map rewrite_stage stages"
  shows "\<not> run_ended (kr_status run) \<and> (run_ended (kr_status run') \<or>
     run_reentries run' = run_reentries run \<and> run_stage run' = run_stage run \<and> unsettled_count run' < unsettled_count run \<or>
     ((run_stage run', run_reentries run'), (run_stage run, run_reentries run)) \<in> declared_advances out)"
proof -
  from assms(1) obtain input b c where r: "reduceKernelCommand input = Inr b" "ri_run input = run" "tb_run b = run'"
    and m: "cm_stages (ri_manifest input) = out"
    and c: "settlement_command (cmd_body (ri_command input)) = Some c" "sf_sandbox_recovery c = None"
    unfolding routine_settlement_def out_def by blast
  from r(1) show ?thesis
  proof (cases rule: kernel_cases)
    case (settlement c' a rid auth records)
    with c have c': "c' = c" by simp
    have current: "ri_current_attempt input = Some a" using settlement(3) by (simp add: settling_def)
    note base = base_input_facts [OF settlement(1)] and active = base_current_active [OF settlement(1) current]
    from base(3) have unsettled: "ka_id a \<in> set (unsettledAttemptIds (kr_cursor run))"
      and ids: "distinct (map fm_attempt_id (cu_frontier (kr_cursor run)))"
      using active(2) r(2) by (simp_all add: topology_def Let_def)
    have stage: "run_stage run = scope_stage_id (ka_scope a)" using active(4) r(2) by (simp add: run_stage_def)
    from settlement(4) show ?thesis
    proof (cases rule: settleAuthorized_cases)
      case (sibling m barrier)
      then have "run' = sibling_run run (ka_id a) (completed_with run m)" using r by simp
      with sibling_counts [of "ka_id a" run m] sibling(1) unsettled ids r(2) base(1) show ?thesis by simp
    next
      case (ended m barrier stage' subject t terminal)
      then have "run' = ended_run run subject (completed_with run m) terminal" using r by simp
      with base(1) r(2) show ?thesis by (simp add: ended_run_def terminalRun_def)
    next
      case (advanced m barrier stage' subject t effects)
      from assertSuccessors_facts(1) [OF advanced(9)] obtain dest where dest: "ef_to t = Some dest" by blast
      from advanced(7) c(2) c' r(2) have "effectiveTransition run stage' (sf_outcome c) = Inr t"
        by (simp add: selectTransition_def bindE_eq_Inr)
      with advanced(5,8) m dest advanced_run_stage [OF advanced(11)] stage r base(1) show ?thesis
        by (auto simp: declared_advances_def run_stage_def run_reentries_def)
    qed
  qed (use c in \<open>auto elim: settlement_command.elims\<close>)
qed

text \<open>Pipelines terminate: when an authored pipeline passes the graph checks and its bounds say what
  happens when they are used up, no sequence of settlement rounds on its expansion is infinite.\<close>

lemma pipelines_terminate:
  assumes "expandCompiledRuntimeLifecycle entry stages = Inr (e, out)"
    and "is_ok (validateStages stages entry source deferred)" and "paired_bounds stages"
  shows "wf (settlement_rounds out)"
proof -
  from assms(1) have out: "out = lifecycle_stages entry @ map rewrite_stage stages"
    and fresh: "\<forall>s \<in> set stages. st_id s \<notin> set reserved_ids" by (simp_all add: expand_ok)
  from assms(2) have v: "distinct (stage_ids stages)" "entry \<in> set (stage_ids stages)" "references_known stages"
    "acyclic (stage_graph unbounded_targets stages)"
    by (simp_all add: validateStages_ok valid_pipeline_def)
  have entry: "entry \<notin> set reserved_ids" using v(2) fresh by auto
  have R: "wf ((stage_graph unbounded_targets stages)\<inverse>)"
    using v(4) stage_succs_graph [OF v(1), of unbounded_targets] finite_edges
    by (metis finite_acyclic_wf_converse)
  let ?measure = "\<lambda>run. (if run_ended (kr_status run) then 0 else 1 :: nat, reentries_left out (run_reentries run),
    stage_level (run_stage run), run_stage run, unsettled_count run)"
  let ?order = "less_than <*lex*> less_than <*lex*> less_than <*lex*> (stage_graph unbounded_targets stages)\<inverse> <*lex*> less_than"
  show ?thesis
  proof (rule wf_subset)
    show "wf (inv_image ?order ?measure)" using R by auto
    show "settlement_rounds out \<subseteq> inv_image ?order ?measure"
    proof clarify
      fix run'' run assume "(run'', run) \<in> settlement_rounds out"
      then obtain run' where a: "attempt_commit\<^sup>*\<^sup>* run run'" and s: "routine_settlement out run' run''"
        by (auto simp: settlement_rounds_def)
      from attempt_commits_keep [OF a] have same: "?measure run = ?measure run'"
        by (simp add: run_reentries_def run_stage_def unsettled_count_def)
      have "(?measure run'', ?measure run') \<in> ?order"
        using routine_settlement_goes_down [OF s [unfolded out] fresh entry v(3) assms(3)]
          advance_goes_down [OF _ fresh entry v(3) assms(3)] out by fastforce
      with same show "(run'', run) \<in> inv_image ?order ?measure" by simp
    qed
  qed
qed

text \<open>No command gives a re-entry back: not a recovery and not a terminal command either.\<close>

lemma cleaning_run_reentries: "cleaning_run run s a = Inr run' \<Longrightarrow> run_reentries run' = run_reentries run"
  by (auto simp: cleaning_run_def run_ok compile_cursor_iff compiled_cursor_def run_reentries_def)

lemma terminal_reentries:
  assumes "terminalCommand input outcome c i = Inr b"
  shows "run_reentries (tb_run b) = run_reentries (ri_run input)"
  using assms
proof (cases rule: terminal_cases)
  case (before_provision auth current stage)
  then show ?thesis by (simp add: run_reentries_def) (simp add: terminalRun_def)
next
  case (cleanup auth d)
  show ?thesis by (rule cleaning_run_reentries [OF cleanup(6)])
qed

lemma effective_reentries:
  assumes "effectiveTransition run stage outcome = Inr t" and "stage \<in> set stages"
  shows "reentries_left stages (used_reentries (ef_reentries t)) \<le> reentries_left stages (run_reentries run)"
proof (cases "ef_reentries t = cu_reentries (kr_cursor run)")
  case True
  then show ?thesis by (simp add: run_reentries_def)
next
  case False
  with assms(1) obtain dest where dest: "ef_terminal t = None" "ef_to t = Some dest"
    by (auto simp: effectiveTransition_def Let_def split: option.splits if_splits)
  from assms(1) dest show ?thesis
  proof (cases rule: effectiveTransition_cases)
    case (bounded tr limit)
    from reentry_uses_one [OF bounded_edgesI [OF assms(2) bounded(1,3,2)], of "run_reentries run"] bounded(4,5)
    show ?thesis by (simp add: run_reentries_def)
  qed (use False in simp_all)
qed

lemma reentries_never_return:
  assumes "reduceKernelCommand input = Inr b"
  defines "stages \<equiv> cm_stages (ri_manifest input)"
  shows "reentries_left stages (run_reentries (tb_run b)) \<le> reentries_left stages (run_reentries (ri_run input))"
  using assms(1)
proof (cases rule: kernel_cases)
  case (attempt i)
  then show ?thesis using attempt_commands.cursor_kept(1) [OF attempt(3,2)] by (simp add: run_reentries_def)
next
  case (quarantine c)
  then show ?thesis by (elim quarantine_cases) (simp add: run_reentries_def quarantined_run_def)
next
  case (terminal outcome c i)
  then show ?thesis using terminal_reentries by simp
next
  case (settlement c a rid auth records)
  from settlement(4) show ?thesis
  proof (cases rule: settleAuthorized_cases)
    case (sibling m barrier)
    then show ?thesis by simp
  next
    case (ended m barrier stage subject t terminal)
    then show ?thesis by (simp add: run_reentries_def) (simp add: ended_run_def terminalRun_def)
  next
    case (advanced m barrier stage subject t effects)
    from advanced(7) have "effectiveTransition (ri_run input) stage (sf_outcome c) = Inr t \<or>
        ef_reentries t = cu_reentries (kr_cursor (ri_run input))"
      by (auto simp: selectTransition_def recoveryTransition_def Let_def run_ok split: option.splits)
    moreover have "stage \<in> set stages" using find_stage_Some [OF advanced(5)] by (simp add: stages_def)
    ultimately show ?thesis
      using effective_reentries advanced_run_stage [OF advanced(11)] by (auto simp: run_reentries_def)
  qed
qed

end
