(* ===== verification/PipelineParsing.thy ===== *)
theory PipelineParsing
  imports PipelineTermination Postconditions
begin

text \<open>
  What the parser of stages guarantees: the well-formedness the graph checks, the lifecycle and the
  reducer rely on.
\<close>

section \<open>Well-formed stages\<close>

definition transition_wf :: "transition \<Rightarrow> bool" where
  "transition_wf t \<longleftrightarrow>
     (tr_to t = None) \<noteq> (tr_terminal t = None) \<and>
     (tr_max_reentries t = None) = (tr_on_exhausted t = None) \<and>
     (tr_max_reentries t \<noteq> None \<longrightarrow> tr_terminal t = None) \<and>
     pred_option (\<lambda>n. 1 \<le> n \<and> n \<le> 100) (tr_max_reentries t) \<and> pred_option IDENTIFIER (tr_to t)"

fun kind_wf :: "bool \<Rightarrow> stage_kind \<Rightarrow> bool" where
  "kind_wf compiled (AgentStage a) \<longleftrightarrow>
     IDENTIFIER (af_agent_id a) \<and> distinct (af_skills a) \<and> list_all IDENTIFIER (af_skills a) \<and>
     pred_option (\<lambda>e. e \<in> set (af_skills a)) (af_entry_skill a) \<and> IDENTIFIER (af_eval a) \<and>
     (af_engine a \<noteq> None) = compiled \<and> pred_option (\<lambda>e. e \<in> set ENGINES) (af_engine a)"
| "kind_wf compiled (CommandStage c) \<longleftrightarrow> COMMAND_NAME_PATTERN c \<and> length c \<le> 80"
| "kind_wf compiled (EffectStage e) \<longleftrightarrow> VERSION_REFERENCE e \<and> length e \<le> 200"
| "kind_wf compiled (WaitStage w) \<longleftrightarrow> VERSION_REFERENCE w \<and> length w \<le> 200"

definition loop_wf :: "loop_binding \<Rightarrow> bool" where
  "loop_wf l \<longleftrightarrow>
     1 \<le> lb_max_parallel l \<and> lb_max_parallel l \<le> 64 \<and> 1 \<le> lb_max_rounds l \<and> lb_max_rounds l \<le> 100 \<and>
     (lb_body l = None) \<noteq> (lb_file l = None) \<and> pred_option (\<lambda>b. b \<noteq> [] \<and> distinct b) (lb_body l)"

definition stage_wf :: "bool \<Rightarrow> pipeline_stage \<Rightarrow> bool" where
  "stage_wf compiled s \<longleftrightarrow>
     IDENTIFIER (st_id s) \<and> st_on s \<noteq> [] \<and> length (st_on s) \<le> 32 \<and>
     list_all (\<lambda>(outcome, t). OUTCOME outcome \<and> transition_wf t) (st_on s) \<and>
     pred_option loop_wf (st_loop s) \<and> kind_wf compiled (st_kind s)"

section \<open>The parsers\<close>

lemma parse_transition_wf: "post transition_wf (parse_transition v path)"
  unfolding parse_transition_def by (simp add: posts transition_wf_def)

lemma identifiers_wf:
  "post (\<lambda>xs. list_all IDENTIFIER xs \<and> lo \<le> int (length xs) \<and> int (length xs) \<le> hi)
     (arrayAt v path (\<lambda>entry p. stringAt (Some entry) p m IDENTIFIER) lo hi)"
  by (rule post_arrayAt) (simp add: posts)

lemma loopBinding_wf: "post loop_wf (loopBinding v path)"
  unfolding loopBinding_def
  by (auto simp: posts loop_wf_def intro!: post_mono [OF identifiers_wf])

lemma parse_agent_wf: "post (\<lambda>a. kind_wf compiled (AgentStage a)) (parse_agent es path compiled)"
  unfolding parse_agent_def
  by (cases compiled)
    (auto simp: posts rejectFields_def intro!: post_mono [OF identifiers_wf] split: option.splits)

lemma post_parseStage: "post (stage_wf compiled) (parseStage compiled v path)"
  unfolding parseStage_def Let_def
  by (auto simp: posts stage_wf_def rejectFields_def kind_wf.simps(2-4)
      intro!: post_mono [OF loopBinding_wf] post_mono [OF post_recordAt [where P = transition_wf, OF parse_transition_wf]]
        post_mono [OF parse_agent_wf] split del: if_split simp del: kind_wf.simps(1))

lemma stages_wf:
  assumes "arrayAt v path (parseStage compiled) lo hi = Inr stages"
  shows "list_all (stage_wf compiled) stages"
  using postD [OF post_arrayAt [OF post_parseStage] assms] by simp

text \<open>C38: every stage the parser accepts is well formed: it has transitions, each with exactly one
  destination and with its bound and exhaustion paired, and the fields of its kind, an engine
  exactly when the pipeline is compiled.\<close>

theorem parseStage_wf:
  assumes "parseStage compiled v path = Inr s"
  shows "stage_wf compiled s"
  by (rule postD [OF post_parseStage assms])

lemma wf_exclusive: "list_all (stage_wf compiled) stages \<Longrightarrow> exclusive_transitions stages"
  by (fastforce simp: exclusive_transitions_def stage_wf_def transition_wf_def list_all_iff)

lemma wf_paired: "list_all (stage_wf compiled) stages \<Longrightarrow> paired_bounds stages"
  by (fastforce simp: paired_bounds_def stage_wf_def transition_wf_def list_all_iff)

section \<open>Definitions\<close>

lemma definition_ok:
  assumes "validatePipelineDefinition v source = Inr d"
  shows "list_all (stage_wf False) (pd_stages d) \<and>
    (\<exists>deferred. is_ok (validateStages (pd_stages d) (pd_entry d) source deferred))"
proof (rule postD [OF _ assms])
  show "post (\<lambda>d. list_all (stage_wf False) (pd_stages d) \<and>
    (\<exists>deferred. is_ok (validateStages (pd_stages d) (pd_entry d) source deferred)))
    (validatePipelineDefinition v source)"
    unfolding validatePipelineDefinition_def
    by (auto simp: posts post_unit intro!: post_mono [OF post_arrayAt [OF post_parseStage]])
qed

text \<open>C26: a run on the expansion of a pipeline definition that validates settles only finitely often by
  itself: there is no infinite sequence of committed settlements, with any number of commands on single attempts
  between them, in which no settlement is the move of a sandbox recovery and no terminal command comes between.
  Those two do move the cursor back (a recovery from cleanup to provision and on to a stage, a terminal command to
  the stop stage), so they are not among the rounds; but no command at all, these included, gives back a re-entry of
  a bounded edge.\<close>

theorem definitions_terminate:
  assumes "validatePipelineDefinition v source = Inr d"
    and "expandCompiledRuntimeLifecycle (pd_entry d) (pd_stages d) = Inr (e, out)"
  shows "wf (settlement_rounds out) \<and>
    (\<forall>input b. reduceKernelCommand input = Inr b \<and> cm_stages (ri_manifest input) = out \<longrightarrow>
       reentries_left out (run_reentries (tb_run b)) \<le> reentries_left out (run_reentries (ri_run input)))"
  using definition_ok [OF assms(1)] pipelines_terminate [OF assms(2)] wf_paired reentries_never_return by blast

section \<open>A pipeline with a bounded loop\<close>

definition sample_agent :: "string \<Rightarrow> string \<Rightarrow> (string \<times> json) list \<Rightarrow> json" where
  "sample_agent ident authority on =
     JObj [(''id'', JStr ident), (''kind'', JStr ''agent''), (''agent_id'', JStr ''coder''),
       (''repository_authority'', JStr authority), (''skills'', JArr [JStr ''code'']), (''eval'', JStr ''exact''),
       (''on'', JObj on)]"

definition sample_document :: json where
  "sample_document =
     JObj [(''schema'', JStr PIPELINE_DEFINITION_SCHEMA), (''id'', JStr ''deliver''), (''version'', JNum (JInt 1)),
       (''entry'', JStr ''build''),
       (''stages'', JArr
         [sample_agent ''build'' ''edit'' [(''done'', JObj [(''to'', JStr ''review'')])],
          sample_agent ''review'' ''inspect''
            [(''reject'', JObj [(''to'', JStr ''build''), (''max_reentries'', JNum (JInt 2)),
                (''on_exhausted'', JStr ''failed'')]),
             (''accept'', JObj [(''terminal'', JStr ''completed'')])]])]"

definition sample_stages :: "pipeline_stage list" where
  "sample_stages =
     (case validatePipelineDefinition sample_document ''pipeline'' of Inl _ \<Rightarrow> [] | Inr d \<Rightarrow> pd_stages d)"

lemma sample_valid:
  "validatePipelineDefinition sample_document ''pipeline'' =
     Inr \<lparr>pd_id = ''deliver'', pd_version = 1, pd_entry = ''build'', pd_stages = sample_stages\<rparr>"
  by code_simp

lemma sample_stages_ok: "is_ok (validateStages sample_stages ''build'' ''pipeline'' False)"
  by code_simp

lemma sample_expands:
  "expandCompiledRuntimeLifecycle ''build'' sample_stages =
     Inr (RUNTIME_PROVISION_STAGE_ID, lifecycle_stages ''build'' @ map rewrite_stage sample_stages)"
  by code_simp

theorem definitions_terminate_witness:
  "wf (settlement_rounds (lifecycle_stages ''build'' @ map rewrite_stage sample_stages))"
  by (rule conjunct1, rule definitions_terminate [OF sample_valid]) (simp add: sample_expands)

theorem parseStage_wf_witness:
  "stage_wf False
     \<lparr>st_id = ''check'', st_loop = None,
      st_on = [(''pass'', \<lparr>tr_to = None, tr_terminal = Some Completed, tr_max_reentries = None,
                        tr_on_exhausted = None\<rparr>)],
      st_kind = CommandStage ''test''\<rparr>"
  by (rule parseStage_wf [of False "JObj [(''id'', JStr ''check''), (''kind'', JStr ''command''),
        (''command'', JStr ''test''), (''on'', JObj [(''pass'', JObj [(''terminal'', JStr ''completed'')])])]" "''s''"])
    code_simp

theorem only_cleanup_ends_runs_witness:
  "runtimeCleanupOutcome (provision_stage ''build'') = Some Failed \<or>
   runtimeCleanupOutcome (provision_stage ''build'') \<noteq> None \<and> Failed = Failed \<or>
   is_provision_stage (provision_stage ''build'') \<and> ''no_resource'' = ''no_resource'' \<and> Failed = Failed"
  by (rule only_cleanup_ends_runs [OF sample_expands, where t = "end_with Failed"])
    (simp_all add: lifecycle_stages_iff provision_stage_def)

theorem expansion_stays_valid_witness:
  "is_ok (validateStages (lifecycle_stages ''build'' @ map rewrite_stage sample_stages)
     RUNTIME_PROVISION_STAGE_ID ''manifest'' False)"
  by (rule expansion_stays_valid [OF sample_expands _ sample_stages_ok])
    (rule wf_exclusive [OF conjunct1 [OF definition_ok [OF sample_valid, simplified]]])

end
