(* ===== verification/JsonSchema.thy ===== *)
theory JsonSchema
  imports ResultCandidate
begin

text \<open>
  The meaning of a JSON Schema, written out for the keywords that the program uses, and what the schemas that
  the program builds admit.
\<close>

section \<open>JSON Schema\<close>

fun has_type :: "string \<Rightarrow> json \<Rightarrow> bool" where
  "has_type t JNull \<longleftrightarrow> t = ''null''"
| "has_type t (JBool _) \<longleftrightarrow> t = ''boolean''"
| "has_type t (JStr _) \<longleftrightarrow> t = ''string''"
| "has_type t (JNum (JInt _)) \<longleftrightarrow> t = ''integer'' \<or> t = ''number''"
| "has_type t (JNum _) \<longleftrightarrow> t = ''number''"
| "has_type t (JArr _) \<longleftrightarrow> t = ''array''"
| "has_type t (JObj _) \<longleftrightarrow> t = ''object''"

fun arr_entries :: "json \<Rightarrow> json list" where
  "arr_entries (JArr vs) = vs"
| "arr_entries _ = []"

fun str_length :: "json \<Rightarrow> int option" where
  "str_length (JStr s) = Some (int (length s))"
| "str_length _ = None"

fun arr_length :: "json \<Rightarrow> int option" where
  "arr_length (JArr vs) = Some (int (length vs))"
| "arr_length _ = None"

fun int_of :: "json \<Rightarrow> int" where
  "int_of (JNum (JInt i)) = i"
| "int_of _ = 0"

text \<open>The keywords without subschemas; \<open>es\<close> is the schema that the keyword stands in.\<close>

definition keyword :: "json dict \<Rightarrow> string \<Rightarrow> json \<Rightarrow> json \<Rightarrow> bool" where
  "keyword es k c v \<longleftrightarrow>
     (k = ''type'' \<longrightarrow> (\<exists>t. c = JStr t \<and> has_type t v)) \<and>
     (k = ''const'' \<longrightarrow> v = c) \<and>
     (k = ''enum'' \<longrightarrow> v \<in> set (arr_entries c)) \<and>
     (k = ''minLength'' \<longrightarrow> pred_option (\<lambda>n. int_of c \<le> n) (str_length v)) \<and>
     (k = ''maxLength'' \<longrightarrow> pred_option (\<lambda>n. n \<le> int_of c) (str_length v)) \<and>
     (k = ''minItems'' \<longrightarrow> pred_option (\<lambda>n. int_of c \<le> n) (arr_length v)) \<and>
     (k = ''maxItems'' \<longrightarrow> pred_option (\<lambda>n. n \<le> int_of c) (arr_length v)) \<and>
     (k = ''required'' \<longrightarrow> is_obj v \<longrightarrow> (\<forall>name. JStr name \<in> set (arr_entries c) \<longrightarrow> name \<in> set (keys (obj_entries v)))) \<and>
     (k = ''additionalProperties'' \<longrightarrow> c = JBool False \<longrightarrow>
        set (keys (obj_entries v)) \<subseteq> (case map_of es ''properties'' of None \<Rightarrow> {} | Some p \<Rightarrow> set (keys (obj_entries p))))"

lemma size_entry: "(k, c) \<in> set es \<Longrightarrow> size c < size (JObj es)"
  by (induction es) auto

lemma size_arr_entry: "c \<in> set (arr_entries v) \<Longrightarrow> size c < size v"
proof (cases v)
  case (JArr vs)
  assume "c \<in> set (arr_entries v)"
  with JArr have "c \<in> set vs" by simp
  then have "size c \<le> size_list size vs" by (simp add: size_list_estimation')
  with JArr show ?thesis by simp
qed simp_all

lemma size_obj_entry: "(k, c) \<in> set (obj_entries v) \<Longrightarrow> size c < size v"
  by (cases v) (auto dest: size_entry)

function admits :: "json \<Rightarrow> json \<Rightarrow> bool" where
  "admits schema v \<longleftrightarrow>
     (\<forall>(k, c) \<in> set (obj_entries schema).
        keyword (obj_entries schema) k c v \<and>
        (k = ''items'' \<longrightarrow> (\<forall>x \<in> set (arr_entries v). admits c x)) \<and>
        (k = ''anyOf'' \<longrightarrow> (\<exists>s \<in> set (arr_entries c). admits s v)) \<and>
        (k = ''properties'' \<longrightarrow>
           (\<forall>(name, s) \<in> set (obj_entries c). \<forall>w. map_of (obj_entries v) name = Some w \<longrightarrow> admits s w)))"
  by pat_completeness auto

termination
  by (relation "measure (\<lambda>(schema, _). size schema)")
    (auto dest!: size_obj_entry size_arr_entry intro: less_trans)

declare admits.simps [simp del]

section \<open>The schemas that the program builds\<close>

lemma admits_text: "admits (text_schema m) (JStr s) \<longleftrightarrow> s \<noteq> [] \<and> int (length s) \<le> m"
  by (subst admits.simps) (auto simp: text_schema_def keyword_def jn_def Suc_le_eq)

lemma admits_list:
  "admits (list_schema n s) (JArr vs) \<longleftrightarrow> int (length vs) \<le> n \<and> (\<forall>v \<in> set vs. admits s v)"
  by (subst admits.simps) (auto simp: list_schema_def keyword_def jn_def)

lemma admits_items:
  "admits (JObj [(''type'', JStr ''array''), (''minItems'', jn m), (''maxItems'', jn n), (''items'', s)]) (JArr vs) \<longleftrightarrow>
     m \<le> int (length vs) \<and> int (length vs) \<le> n \<and> (\<forall>v \<in> set vs. admits s v)"
  by (subst admits.simps) (auto simp: keyword_def jn_def)

lemma admits_any: "admits (JObj [(''anyOf'', JArr ss)]) v \<longleftrightarrow> (\<exists>s \<in> set ss. admits s v)"
  by (subst admits.simps) (auto simp: keyword_def)

lemma admits_object:
  "admits (object_schema required properties) (JObj vs) \<longleftrightarrow>
     set required \<subseteq> set (keys vs) \<and> set (keys vs) \<subseteq> set (keys properties) \<and>
     (\<forall>(name, s) \<in> set properties. \<forall>w. map_of vs name = Some w \<longrightarrow> admits s w)"
  by (subst admits.simps) (auto simp: object_schema_def keyword_def json_texts_def)

lemma admits_enum:
  "admits (JObj [(''type'', JStr ''string''), (''enum'', json_texts xs)]) (JStr s) \<longleftrightarrow> s \<in> set xs"
  by (subst admits.simps) (auto simp: keyword_def json_texts_def)

lemma admits_const:
  "admits (JObj [(''type'', JStr ''string''), (''const'', JStr c)]) (JStr s) \<longleftrightarrow> s = c"
  by (subst admits.simps) (auto simp: keyword_def)

lemma admits_type: "admits (JObj [(''type'', JStr t)]) v \<longleftrightarrow> has_type t v"
  by (subst admits.simps) (auto simp: keyword_def)

lemmas admits_rules = admits_text admits_list admits_items admits_any admits_object admits_enum admits_const admits_type

end
