(* ===== verification/PlanSchema.thy ===== *)
theory PlanSchema
  imports JsonSchema
begin

text \<open>
  Execution plans and the JSON Schema that a provider gets for them: the schema admits an accepted plan exactly
  when none of its identifiers is longer than 160 characters.
\<close>

section \<open>Arrays of accepted entries\<close>

lemma array_admitted:
  assumes "\<And>w p. post (\<lambda>_. P w) (parse w p)"
  shows "post (\<lambda>_. \<exists>vs. v = Some (JArr vs) \<and> lo \<le> int (length vs) \<and> int (length vs) \<le> hi \<and> (\<forall>w \<in> set vs. P w))
    (arrayAt v path parse lo hi)"
proof (rule postI)
  fix xs assume "arrayAt v path parse lo hi = Inr xs"
  then obtain vs where vs: "v = Some (JArr vs)" "lo \<le> int (length vs)" "int (length vs) \<le> hi"
    and r: "mapiE (\<lambda>i entry. parse entry (idx_path path i)) 0 vs = Inr xs"
    by (auto simp: arrayAt_ok)
  have "P w" if "w \<in> set vs" for w
  proof -
    from that obtain k where k: "k < length vs" "w = vs ! k" by (auto simp: in_set_conv_nth)
    from mapiE_nth [OF r k(1)] assms k(2) show ?thesis by (auto dest: postD)
  qed
  with vs show "\<exists>vs. v = Some (JArr vs) \<and> lo \<le> int (length vs) \<and> int (length vs) \<le> hi \<and> (\<forall>w \<in> set vs. P w)"
    by blast
qed

lemma text_admitted: "post (\<lambda>_. admits (text_schema m) w) (stringAt (Some w) path m any_format)"
  by (auto simp: posts admits_text)

section \<open>Readers and schemas\<close>

text \<open>An object all of whose required properties are there.\<close>

lemma admits_full_object:
  assumes "set (keys es) \<subseteq> set (keys properties)" and "set required \<subseteq> set (keys properties)"
    and "list_all (\<lambda>(name, s). map_of es name \<noteq> None) properties"
  shows "admits (object_schema required properties) (JObj es) \<longleftrightarrow>
    list_all (\<lambda>(name, s). admits s (the (map_of es name))) properties"
proof -
  have present: "\<exists>w. map_of es name = Some w" if "(name, s) \<in> set properties" for name s
    using assms(3) that by (auto simp: list_all_iff)
  then have "set (keys properties) \<subseteq> set (keys es)" by (force dest: map_of_SomeD)
  with assms(1,2) have "set required \<subseteq> set (keys es)" by blast
  moreover have "(\<forall>w. map_of es (fst x) = Some w \<longrightarrow> admits (snd x) w) \<longleftrightarrow> admits (snd x) (the (map_of es (fst x)))"
    if "x \<in> set properties" for x
    using present [of "fst x" "snd x"] that by auto
  ultimately show ?thesis using assms(1) by (simp add: admits_object list_all_iff split_beta)
qed

lemma text_value:
  assumes "stringAt w path m pat = Inr s"
  shows "w = Some (JStr s)" and "admits (text_schema m') (JStr s) \<longleftrightarrow> int (length s) \<le> m'"
    and "int (length s) \<le> m"
  using assms by (auto simp: stringAt_ok admits_text)

lemma array_values:
  assumes "arrayAt w path parse lo hi = Inr xs"
  shows "\<exists>vs. w = Some (JArr vs) \<and> lo \<le> int (length vs) \<and> int (length vs) \<le> hi \<and>
    list_all2 (\<lambda>v x. \<exists>p. parse v p = Inr x) vs xs"
proof -
  from assms obtain vs where vs: "w = Some (JArr vs)" "lo \<le> int (length vs)" "int (length vs) \<le> hi"
    and r: "mapiE (\<lambda>i entry. parse entry (idx_path path i)) 0 vs = Inr xs"
    by (auto simp: arrayAt_ok)
  have "list_all2 (\<lambda>v x. \<exists>p. parse v p = Inr x) vs xs"
    using mapiE_nth [OF r] mapiE_length [OF r] by (auto simp: list_all2_conv_all_nth)
  with vs show ?thesis by blast
qed

lemma list_all2_all:
  "list_all2 R vs xs \<Longrightarrow> (\<And>v x. R v x \<Longrightarrow> P v \<longleftrightarrow> Q x) \<Longrightarrow> (\<forall>v \<in> set vs. P v) \<longleftrightarrow> (\<forall>x \<in> set xs. Q x)"
  by (induction rule: list_all2_induct) auto

lemma text_list_value:
  assumes "parseTextList w path lo hi m = Inr xs"
  shows "\<exists>x. w = Some x \<and> admits (stringArraySchema lo hi m) x"
  using postD [OF array_admitted [OF text_admitted] assms [unfolded parseTextList_def]]
  by (auto simp: stringArraySchema_def admits_items)

lemma identifier_list_value:
  assumes "parseIdentifierList w path lo hi = Inr xs"
  shows "\<exists>x. w = Some x \<and>
    (admits (list_schema hi (text_schema m)) x \<longleftrightarrow> (\<forall>i \<in> set xs. int (length i) \<le> m))"
proof -
  from assms have "arrayAt w path (\<lambda>e p. stringAt (Some e) p default_max IDENTIFIER) lo hi = Inr xs"
    by (auto simp: parseIdentifierList_def bindE_eq_Inr unique_ok)
  from array_values [OF this] obtain vs where vs: "w = Some (JArr vs)" "int (length vs) \<le> hi"
    and r: "list_all2 (\<lambda>v x. \<exists>p. stringAt (Some v) p default_max IDENTIFIER = Inr x) vs xs" by blast
  have "(\<forall>v \<in> set vs. admits (text_schema m) v) \<longleftrightarrow> (\<forall>i \<in> set xs. int (length i) \<le> m)"
    by (rule list_all2_all [OF r]) (auto simp: stringAt_ok admits_text)
  with vs show ?thesis by (simp add: admits_list)
qed

section \<open>Plans\<close>

text \<open>
  The reader of a plan takes identifiers of up to 512 characters (the default of \<open>stringAt\<close>), the JSON Schema of the
  provider allows 160.
\<close>

definition short :: "string \<Rightarrow> bool" where
  "short s \<longleftrightarrow> int (length s) \<le> 160"

definition plan_ids :: "execution_plan \<Rightarrow> string list" where
  "plan_ids p = ep_pipeline_id p # ep_plan_id p # map pu_id (ep_units p)"

lemma unit_admitted:
  assumes "parseUnitV2 v path = Inr u"
  shows "admits plan_unit_schema v \<longleftrightarrow> short (pu_id u) \<and> (\<forall>d \<in> set (pu_depends_on u). short d)"
proof -
  from assms obtain es where v: "v = JObj es" and ks: "set (keys es) \<subseteq> set
      [''id'', ''title'', ''depends_on'', ''objective'', ''requirements'', ''files'', ''approach'', ''tests'',
       ''acceptance'', ''verification'']"
    and i: "stringAt (map_of es ''id'') (sub_path path ''id'') default_max IDENTIFIER = Inr (pu_id u)"
    and t: "stringAt (map_of es ''title'') (sub_path path ''title'') 160 any_format = Inr (pu_title u)"
    and d: "parseIdentifierList (map_of es ''depends_on'') (sub_path path ''depends_on'') 0 32 = Inr (pu_depends_on u)"
    and o: "stringAt (map_of es ''objective'') (sub_path path ''objective'') 2000 any_format = Inr (pu_objective u)"
    and l: "parseTextList (map_of es ''requirements'') (sub_path path ''requirements'') 1 32 2000 = Inr (pu_requirements u)"
      "parseTextList (map_of es ''files'') (sub_path path ''files'') 1 64 512 = Inr (pu_files u)"
      "parseTextList (map_of es ''approach'') (sub_path path ''approach'') 1 32 2000 = Inr (pu_approach u)"
      "parseTextList (map_of es ''tests'') (sub_path path ''tests'') 1 32 2000 = Inr (pu_tests u)"
      "parseTextList (map_of es ''acceptance'') (sub_path path ''acceptance'') 1 32 2000 = Inr (pu_acceptance u)"
      "parseTextList (map_of es ''verification'') (sub_path path ''verification'') 1 32 2000 = Inr (pu_verification u)"
    unfolding parseUnitV2_def Let_def by (fastforce simp: bindE_eq_Inr objectAt_ok simp del: set_simps)
  from l [THEN text_list_value]
  obtain requirements files approach tests acceptance verification where
    lists: "map_of es ''requirements'' = Some requirements" "admits (stringArraySchema 1 32 2000) requirements"
      "map_of es ''files'' = Some files" "admits (stringArraySchema 1 64 512) files"
      "map_of es ''approach'' = Some approach" "admits (stringArraySchema 1 32 2000) approach"
      "map_of es ''tests'' = Some tests" "admits (stringArraySchema 1 32 2000) tests"
      "map_of es ''acceptance'' = Some acceptance" "admits (stringArraySchema 1 32 2000) acceptance"
      "map_of es ''verification'' = Some verification" "admits (stringArraySchema 1 32 2000) verification"
    by blast
  from identifier_list_value [OF d, of 160] obtain depends where
    depends: "map_of es ''depends_on'' = Some depends"
      "admits (list_schema 32 (text_schema 160)) depends \<longleftrightarrow> (\<forall>d \<in> set (pu_depends_on u). short d)"
    unfolding short_def by blast
  show ?thesis
    unfolding v plan_unit_schema_def
    by (subst admits_full_object)
      (use ks i t o lists depends in \<open>auto simp: stringAt_ok admits_text short_def\<close>)
qed

lemma command_admitted:
  assumes "parsePlanCommand v path = Inr c"
  shows "admits plan_command_schema v \<longleftrightarrow> pred_option short (pc_unit c)"
proof -
  from assms obtain es where v: "v = JObj es" and ks: "set (keys es) \<subseteq> set [''name'', ''unit'']"
    and n: "stringAt (map_of es ''name'') (sub_path path ''name'') 80 COMMAND_NAME_PATTERN = Inr (pc_name c)"
    and p: "map_of es ''unit'' \<noteq> None"
    and u: "nullable (map_of es ''unit'') (\<lambda>v. stringAt v (sub_path path ''unit'') default_max IDENTIFIER) = Inr (pc_unit c)"
    unfolding parsePlanCommand_def by (fastforce simp: bindE_eq_Inr objectAt_ok if_throw_eq_Inr simp del: set_simps)
  from u p obtain w where w: "map_of es ''unit'' = Some w"
    "admits (JObj [(''anyOf'', JArr [JObj [(''type'', JStr ''null'')], text_schema 160])]) w \<longleftrightarrow>
       pred_option short (pc_unit c)"
    by (auto simp: nullable_ok stringAt_ok admits_any admits_type admits_text short_def)
  show ?thesis
    unfolding v plan_command_schema_def
    by (subst admits_full_object)
      (use ks n w in \<open>auto simp: stringAt_ok admits_text\<close>)
qed

lemma plan_admitted:
  assumes "validateExecutionPlanContractV2 v path = Inr p"
  shows "admits plan_schema v \<longleftrightarrow> (\<forall>i \<in> set (plan_ids p). short i)"
proof -
  from assms obtain es where v: "v = JObj es"
    and ks: "set (keys es) \<subseteq> set [''schema'', ''pipeline_id'', ''plan_id'', ''units'', ''commands'']"
    and s: "map_of es ''schema'' = Some (JStr EXECUTION_PLAN_SCHEMA_V2)"
    and i: "stringAt (map_of es ''pipeline_id'') (sub_path path ''pipeline_id'') default_max IDENTIFIER = Inr (ep_pipeline_id p)"
      "stringAt (map_of es ''plan_id'') (sub_path path ''plan_id'') default_max IDENTIFIER = Inr (ep_plan_id p)"
    and us: "arrayAt (map_of es ''units'') (sub_path path ''units'') parseUnitV2 1 64 = Inr (ep_units p)"
    and cs: "arrayAt (map_of es ''commands'') (sub_path path ''commands'') parsePlanCommand 0 16 = Inr (ep_commands p)"
    unfolding validateExecutionPlanContractV2_def Let_def
    by (fastforce simp: bindE_eq_Inr objectAt_ok if_throw_eq_Inr simp del: set_simps)
  from array_values [OF us] obtain units where
    units: "map_of es ''units'' = Some (JArr units)" "1 \<le> length units" "length units \<le> 64"
      "(\<forall>v \<in> set units. admits plan_unit_schema v) \<longleftrightarrow>
         (\<forall>u \<in> set (ep_units p). short (pu_id u) \<and> (\<forall>d \<in> set (pu_depends_on u). short d))"
    by (auto dest!: list_all2_all [where P = "admits plan_unit_schema" and
          Q = "\<lambda>u. short (pu_id u) \<and> (\<forall>d \<in> set (pu_depends_on u). short d)"] simp: unit_admitted)
  from array_values [OF cs] obtain commands where
    commands: "map_of es ''commands'' = Some (JArr commands)" "length commands \<le> 16"
      "(\<forall>v \<in> set commands. admits plan_command_schema v) \<longleftrightarrow>
         (\<forall>c \<in> set (ep_commands p). pred_option short (pc_unit c))"
    by (auto dest!: list_all2_all [where P = "admits plan_command_schema" and
          Q = "\<lambda>c. pred_option short (pc_unit c)"] simp: command_admitted)
  from postD [OF accepted_plan_wf assms]
  have wf: "d \<in> set (pu_depends_on u) \<Longrightarrow> u \<in> set (ep_units p) \<Longrightarrow> d \<in> pu_id ` set (ep_units p)"
    "c \<in> set (ep_commands p) \<Longrightarrow> pred_option (\<lambda>u. u \<in> pu_id ` set (ep_units p)) (pc_unit c)" for u d c
    by (auto simp: plan_wf_def)
  have "(\<forall>u \<in> set (ep_units p). short (pu_id u) \<and> (\<forall>d \<in> set (pu_depends_on u). short d)) \<and>
      (\<forall>c \<in> set (ep_commands p). pred_option short (pc_unit c)) \<longleftrightarrow> (\<forall>u \<in> set (ep_units p). short (pu_id u))"
    using wf by (fastforce simp: pred_option_def)
  then have parts: "(\<forall>v \<in> set units. admits plan_unit_schema v) \<and> (\<forall>v \<in> set commands. admits plan_command_schema v) \<longleftrightarrow>
      (\<forall>u \<in> set (ep_units p). short (pu_id u))"
    using units(4) commands(3) by blast
  have "admits plan_schema v \<longleftrightarrow> short (ep_pipeline_id p) \<and> short (ep_plan_id p) \<and>
      (\<forall>v \<in> set units. admits plan_unit_schema v) \<and> (\<forall>v \<in> set commands. admits plan_command_schema v)"
    unfolding v plan_schema_def
    by (subst admits_full_object)
      (use ks s i units commands in \<open>auto simp: stringAt_ok admits_text admits_const admits_items admits_list short_def\<close>)
  with parts show ?thesis by (auto simp: plan_ids_def)
qed

lemma json_of_unit_id: "json_of_unit u = json_of_unit u' \<Longrightarrow> pu_id u = pu_id u'"
  by (simp add: json_of_unit_def)

lemma plan_ids_json:
  assumes "json_of_plan p = json_of_plan q"
  shows "plan_ids p = plan_ids q"
proof -
  from assms have i: "ep_pipeline_id p = ep_pipeline_id q" "ep_plan_id p = ep_plan_id q"
    and u: "map json_of_unit (ep_units p) = map json_of_unit (ep_units q)"
    by (simp_all add: json_of_plan_def)
  from u have "list_all2 (\<lambda>a b. json_of_unit a = json_of_unit b) (ep_units p) (ep_units q)"
    by (simp add: list.rel_eq [symmetric] list.rel_map)
  then have "list_all2 (\<lambda>a b. pu_id a = pu_id b) (ep_units p) (ep_units q)"
    by (rule list_all2_mono) (rule json_of_unit_id)
  then have "map pu_id (ep_units p) = map pu_id (ep_units q)"
    by (simp add: list.rel_eq [symmetric] list.rel_map)
  with i show ?thesis by (simp add: plan_ids_def)
qed

text \<open>The identifiers in a value that is a plan are short.\<close>

definition short_plan :: "json \<Rightarrow> bool" where
  "short_plan v \<longleftrightarrow> (\<forall>p. v = json_of_plan p \<longrightarrow> (\<forall>i \<in> set (plan_ids p). short i))"

lemma short_plan_json: "short_plan (json_of_plan p) \<longleftrightarrow> (\<forall>i \<in> set (plan_ids p). short i)"
  unfolding short_plan_def using plan_ids_json by metis

lemma short_plan_null: "short_plan JNull"
  by (simp add: short_plan_def json_of_plan_def)

lemma has_type_null: "has_type ''null'' v \<longleftrightarrow> v = JNull"
  by (induction "''null''" v rule: has_type.induct) auto

lemma plan_value_admitted:
  "post (\<lambda>(w, _). admits (providerFieldSchema PlanField) v \<longleftrightarrow> short_plan w) (validateSemanticValue v PlanField path dp ts)"
proof (cases "v = JNull")
  case True
  then show ?thesis by (simp add: posts short_plan_null admits_any admits_type)
next
  case False
  have "post (\<lambda>p. admits plan_schema v \<longleftrightarrow> (\<forall>i \<in> set (plan_ids p). short i)) (validateExecutionPlanContractV2 v path)"
    by (rule postI) (rule plan_admitted)
  moreover have "\<not> has_type ''null'' v" using False by (simp add: has_type_null)
  ultimately show ?thesis
    using False by (auto simp: posts admits_any admits_type short_plan_json elim!: post_mono)
qed

text \<open>A plan that the validator accepts and the schema of the provider refuses: one identifier has 161 characters.\<close>

definition ex_long_plan :: execution_plan where
  "ex_long_plan = ex_plan\<lparr>ep_plan_id := replicate 161 CHR ''a''\<rparr>"

lemma ex_long_plan_accepted: "validateExecutionPlanContractV2 (json_of_plan ex_long_plan) ''plan'' = Inr ex_long_plan"
  by code_simp

theorem long_identifiers_are_refused:
  "\<exists>p. validateExecutionPlanContractV2 (json_of_plan p) ''plan'' = Inr p \<and> \<not> admits plan_schema (json_of_plan p)"
proof -
  have "\<not> admits plan_schema (json_of_plan ex_long_plan)"
    unfolding plan_admitted [OF ex_long_plan_accepted] by (simp add: plan_ids_def short_def ex_long_plan_def)
  with ex_long_plan_accepted show ?thesis by blast
qed

end
