(* ===== verification/ProviderSchema.thy ===== *)
theory ProviderSchema
  imports PlanSchema SemanticResults
begin

text \<open>
  The JSON Schema that a provider gets for an eval admits every candidate that the validator accepts, apart from
  plans with an identifier of more than 160 characters.
\<close>

section \<open>Fields\<close>

lemma finding_admitted: "post (\<lambda>_. admits finding_schema v) (parseReviewFinding v path)"
  unfolding parseReviewFinding_def
  by (auto simp: posts finding_schema_def admits_rules REVIEW_FINDING_FIELDS_def dest!: map_of_SomeD intro: rev_image_eqI)

lemma string_admitted: "post (\<lambda>_. admits (providerFieldSchema (StringField m b)) v) (normalizeString v m b path dp ts)"
proof (cases "\<exists>vs. v = JArr vs \<and> b")
  case True
  then obtain vs where v: "v = JArr vs" "b = True" by blast
  show ?thesis
    unfolding normalizeString_def v json.case Let_def not_True_eq_False if_False post_bindE
    by (rule post_mono [OF array_admitted [OF text_admitted]])
      (auto simp: admits_rules MAX_NORMALIZED_STRING_ITEMS_def post_simps intro: post_True)
next
  case False
  then have "normalizeString v m b path dp ts = bindE (stringAt (Some v) path m any_format) (\<lambda>s. Inr (s, ts))"
    by (cases v) (simp_all add: normalizeString_def)
  then show ?thesis by (auto simp: posts admits_rules)
qed

lemma plain_value_admitted:
  assumes "field \<noteq> PlanField"
  shows "post (\<lambda>_. admits (providerFieldSchema field) v) (validateSemanticValue v field path dp ts)"
proof (cases field)
  case (StringField m b)
  then show ?thesis
    by (auto simp only: validateSemanticValue.simps post_bindE split_beta post_simps intro!: string_admitted)
next
  case (StringListField m n)
  have "post (\<lambda>_. admits (list_schema n (text_schema m)) v)
      (arrayAt (Some v) path (\<lambda>e p. stringAt (Some e) p m any_format) 0 n)"
    by (rule post_mono [OF array_admitted [OF text_admitted]]) (auto simp: admits_list)
  then show ?thesis by (simp add: StringListField post_bindE post_simps)
next
  case (FindingListField n)
  have "post (\<lambda>_. admits (list_schema n finding_schema) v) (arrayAt (Some v) path parseReviewFinding 0 n)"
    by (rule post_mono [OF array_admitted [OF finding_admitted]]) (auto simp: admits_list)
  then show ?thesis by (simp add: FindingListField post_bindE post_simps)
qed (use assms in \<open>auto simp: posts admits_type booleanAt_def split: option.splits json.splits\<close>)

lemma value_admitted:
  "post (\<lambda>(w, _). admits (providerFieldSchema field) v \<longleftrightarrow> (field = PlanField \<longrightarrow> short_plan w))
     (validateSemanticValue v field path dp ts)"
proof (cases "field = PlanField")
  case True
  with plan_value_admitted show ?thesis by simp
next
  case False
  from plain_value_admitted [OF this] show ?thesis by (rule post_mono) (use False in auto)
qed

lemma fields_admitted:
  assumes "payload_fields input source fs ts = Inr (vs, ts')" and "distinct (keys fs)" and "(k, f) \<in> set fs"
  shows "\<exists>w x. map_of input k = Some w \<and> map_of vs k = Some x \<and>
    (admits (providerFieldSchema f) w \<longleftrightarrow> (f = PlanField \<longrightarrow> short_plan x))"
  using assms
proof (induction fs arbitrary: ts vs ts')
  case (Cons g fs)
  obtain name field where g: "g = (name, field)" by (cases g)
  from Cons.prems(1) g obtain raw w ts1 ws where raw: "map_of input name = Some raw"
    and w: "validateSemanticValue raw field (sub_path (sub_path source ''payload'') name) (''/payload/'' @ name) ts = Inr (w, ts1)"
    and ws: "payload_fields input source fs ts1 = Inr (ws, ts')" and vs: "vs = (name, w) # ws"
    by (auto simp: bindE_eq_Inr split: option.splits)
  show ?case
  proof (cases "k = name")
    case True
    with Cons.prems(2,3) g have "f = field" by force
    with True raw vs postD [OF value_admitted w] show ?thesis by simp
  next
    case False
    with Cons.prems(2,3) g have "distinct (keys fs)" "(k, f) \<in> set fs" by auto
    from Cons.IH [OF ws this] False vs show ?thesis by simp
  qed
qed simp

lemma sorted_entries_all:
  assumes "distinct (keys fs)"
  shows "list_all (\<lambda>(name, s). Q name s) (map (\<lambda>name. (name, g (the (map_of fs name)))) (sort (keys fs))) \<longleftrightarrow>
    (\<forall>(k, f) \<in> set fs. Q k (g f))"
  using assms by (auto simp: list_all_iff)

section \<open>The schema of a candidate\<close>

lemma provider_schema_shape:
  "provider_schema_of s = JObj ((''$schema'', JStr ''https://json-schema.org/draft/2020-12/schema'') #
     obj_entries (object_schema [''outcome'', ''payload'', ''schema'']
       [(''schema'', JObj [(''type'', JStr ''string''), (''const'', JStr RESULT_CANDIDATE_SCHEMA)]),
        (''outcome'', JObj [(''type'', JStr ''string''), (''enum'', json_texts (ss_outcomes s))]),
        (''payload'', object_schema (sort (keys (ss_payload s)))
           (map (\<lambda>name. (name, providerFieldSchema (the (map_of (ss_payload s) name)))) (sort (keys (ss_payload s)))))]))"
  by (simp add: provider_schema_of_def object_schema_def Let_def)

lemma admits_skip: "admits (JObj ((''$schema'', c) # obj_entries (object_schema r p))) (JObj vs) \<longleftrightarrow> admits (object_schema r p) (JObj vs)"
  by (subst (1 2) admits.simps) (auto simp: keyword_def object_schema_def)

text \<open>C34: the JSON Schema that a provider gets for an eval admits a candidate that the validator of the same eval
  accepts exactly when every identifier of the plans in it has at most 160 characters; in particular it admits every
  accepted candidate of an eval without a plan field.  (The validator itself takes identifiers of up to 512.)\<close>

theorem accepted_candidates_fit_provider_schema:
  assumes "validateAndNormalizeResultCandidate v schema source = Inr n" and "keyed schema"
  shows "\<exists>s provided. validateSemanticResultSchema schema ''semantic_schema'' = Inr s \<and>
    providerJsonSchemaForResultCandidate schema = Inr provided \<and>
    (admits provided v \<longleftrightarrow>
       (\<forall>(k, f) \<in> set (ss_payload s). f = PlanField \<longrightarrow> short_plan (the (map_of (nc_payload n) k))))"
proof -
  from assms(1) obtain es payloadInput ts s where
    v: "v = JObj es" "set (keys es) \<subseteq> {''schema'', ''outcome'', ''payload''}"
    and es: "map_of es ''schema'' = Some (JStr RESULT_CANDIDATE_SCHEMA)"
      "map_of es ''outcome'' = Some (JStr (nc_outcome n))" "map_of es ''payload'' = Some (JObj payloadInput)"
    and s: "validateSemanticResultSchema schema ''semantic_schema'' = Inr s"
    and outcome: "nc_outcome n \<in> set (ss_outcomes s)"
    and allowed: "set (keys payloadInput) \<subseteq> set (keys (ss_payload s))"
    and payload: "payload_fields payloadInput source (ss_payload s) [] = Inr (nc_payload n, ts)"
    unfolding validateAndNormalizeResultCandidate_def by (auto simp: run_ok)
  let ?fields = "ss_payload s"
  have d: "distinct (keys ?fields)" by (rule schema_fields_distinct [OF s assms(2)])
  note field = fields_admitted [OF payload d]
  define P where "P = object_schema (sort (keys ?fields))
      (map (\<lambda>name. (name, providerFieldSchema (the (map_of ?fields name)))) (sort (keys ?fields)))"
  have named: "list_all (\<lambda>(name, s). Q name s) (map (\<lambda>name. (name, providerFieldSchema (the (map_of ?fields name)))) (sort (keys ?fields)))
      \<longleftrightarrow> (\<forall>(k, f) \<in> set ?fields. Q k (providerFieldSchema f))" for Q
    by (rule sorted_entries_all [OF d])
  have "\<forall>(k, f) \<in> set ?fields. map_of payloadInput k \<noteq> None" using field by fastforce
  then have "admits P (JObj payloadInput) \<longleftrightarrow> (\<forall>(k, f) \<in> set ?fields. admits (providerFieldSchema f) (the (map_of payloadInput k)))"
    unfolding P_def using allowed
    by (subst admits_full_object) (simp_all only: named, simp_all add: comp_def)
  also have "\<dots> \<longleftrightarrow> (\<forall>(k, f) \<in> set ?fields. f = PlanField \<longrightarrow> short_plan (the (map_of (nc_payload n) k)))"
    using field by fastforce
  moreover have "{''outcome'', ''payload'', ''schema''} \<subseteq> set (keys es)" using es by (force dest: map_of_SomeD)
  moreover have "admits (provider_schema_of s) v \<longleftrightarrow> admits P (JObj payloadInput)" if "{''outcome'', ''payload'', ''schema''} \<subseteq> set (keys es)"
    using v(2) es outcome that unfolding provider_schema_shape v(1) admits_skip P_def [symmetric]
    by (simp add: admits_object admits_const admits_enum)
  ultimately show ?thesis using s by (simp add: providerJsonSchemaForResultCandidate_def)
qed

section \<open>A candidate\<close>

definition ex_semantic_schema :: json where
  "ex_semantic_schema = JObj
     [(''schema'', JStr SEMANTIC_RESULT_SCHEMA), (''id'', JStr ''review''),
      (''outcomes'', json_texts [''success'', ''failure'']),
      (''payload'', JObj
         [(''summary'', JObj [(''type'', JStr ''string''), (''max_length'', jn 20),
                             (''normalize'', JStr STRING_ARRAY_TO_NEWLINES)]),
          (''done'', JObj [(''type'', JStr ''boolean'')]),
          (''plan'', JObj [(''type'', JStr ''execution_plan_v2'')])])]"

definition ex_candidate :: json where
  "ex_candidate = json_of_candidate ''success''
     [(''done'', JBool True), (''plan'', json_of_plan ex_plan), (''summary'', json_texts [''ab'', ''c''])]"

declare digestCanonicalJson_def [code del]

definition ex_normalized :: normalized_candidate where
  "ex_normalized = projr (validateAndNormalizeResultCandidate ex_candidate ex_semantic_schema ''c'')"

lemma ex_normalized:
  "validateAndNormalizeResultCandidate ex_candidate ex_semantic_schema ''c'' = Inr ex_normalized \<and>
   nc_outcome ex_normalized = ''success'' \<and>
   nc_payload ex_normalized = [(''summary'', JStr [CHR ''a'', CHR ''b'', CHR 0x0A, CHR ''c'']), (''done'', JBool True),
     (''plan'', json_of_plan ex_plan)]"
  unfolding ex_normalized_def by (rule projr_case) code_simp

lemma ex_schema:
  "validateSemanticResultSchema ex_semantic_schema ''semantic_schema'' =
     Inr \<lparr>ss_id = ''review'', ss_outcomes = [''success'', ''failure''],
          ss_payload = [(''summary'', StringField 20 True), (''done'', BooleanField), (''plan'', PlanField)]\<rparr>"
  by code_simp

lemma ex_schema_keyed: "keyed ex_semantic_schema"
  by (simp add: ex_semantic_schema_def json_texts_def jn_def)

theorem normalization_idempotent_witness:
  "\<exists>m. validateAndNormalizeResultCandidate
     (json_of_candidate ''success'' [(''summary'', JStr [CHR ''a'', CHR ''b'', CHR 0x0A, CHR ''c'']), (''done'', JBool True),
        (''plan'', json_of_plan ex_plan)])
     ex_semantic_schema ''c'' = Inr m \<and> nc_transformations m = []"
  using normalization_idempotent [OF conjunct1 [OF ex_normalized] ex_schema_keyed] ex_normalized by auto

theorem accepted_candidates_fit_provider_schema_witness:
  "\<exists>provided. providerJsonSchemaForResultCandidate ex_semantic_schema = Inr provided \<and> admits provided ex_candidate"
proof -
  have "\<forall>i \<in> set (plan_ids ex_plan). short i" by (simp add: plan_ids_def ex_plan_def ex_unit_def short_def)
  with accepted_candidates_fit_provider_schema [OF conjunct1 [OF ex_normalized] ex_schema_keyed] ex_normalized
  show ?thesis by (auto simp: ex_schema short_plan_json)
qed

end
