(* ===== verification/Steering.thy ===== *)
theory Steering
  imports KernelTransactions
begin

text \<open>
  Steering: \<open>pipeline/kernel/steering.ts\<close>.  A human or an operator sends a message to the native session of an
  attempt.  The message is sealed in an envelope that names the session exactly, and it is delivered only
  when the session is still the same, with the tools that its phase allows.
\<close>

section \<open>Data\<close>

definition KERNEL_STEERING_ENVELOPE_SCHEMA :: string where
  "KERNEL_STEERING_ENVELOPE_SCHEMA = ''openthrottle.kernel-steering-envelope/v1''"

text \<open>\<open>/^(?:[a-f0-9]{40}|[a-f0-9]{64})$/\<close>\<close>

definition SESSION_SUBJECT :: "string \<Rightarrow> bool" where
  "SESSION_SUBJECT s \<longleftrightarrow> (length s = 40 \<or> length s = 64) \<and> all_in is_hex s"

definition MAX_STEERING_BODY_BYTES :: int where
  "MAX_STEERING_BODY_BYTES = 32 * 1024"

record session_binding =
  sb_pipeline_run_id :: string
  sb_attempt_id :: string
  sb_request_hash :: string
  sb_definition_bundle_hash :: string
  sb_input_subject :: string
  sb_native_session_id :: string
  sb_scope :: attempt_scope
  sb_generation :: int
  sb_attempt_status :: attempt_state
  sb_repository_authority :: repository_authority
  sb_lease_id :: string
  sb_lease_generation :: int
  sb_lease_worker_id :: string
  sb_lease_purpose :: lease_purpose
  sb_lease_expires_at :: string
  sb_lease_started :: bool

record session_bind_request =
  br_pipeline_run_id :: string
  br_attempt_id :: string
  br_request_hash :: string
  br_definition_bundle_hash :: string
  br_input_subject :: string
  br_lease_id :: string
  br_lease_generation :: int
  br_worker_id :: string
  br_lease_purpose :: lease_purpose
  br_work_retry_ordinal :: int
  br_result_correction_count :: int
  br_native_session_id :: string

record generation_source =
  gs_attempt_version :: int
  gs_work_retry_ordinal :: int
  gs_result_correction_count :: int
  gs_lease_purpose :: lease_purpose

record envelope_binding =
  eb_pipeline_run_id :: string
  eb_attempt_id :: string
  eb_request_hash :: string
  eb_definition_bundle_hash :: string
  eb_input_subject :: string
  eb_native_session_id :: string
  eb_generation :: int
  eb_lease_id :: string
  eb_lease_generation :: int
  eb_lease_purpose :: lease_purpose

record steering_envelope =
  en_schema :: string
  en_message_id :: string
  en_source :: string
  en_body :: string
  en_binding :: envelope_binding

datatype tool_policy = AttemptProfile | ResultTools "string list"

datatype access_policy = ProfileAccess | NoAccess

record steering_policy =
  po_phase :: lease_purpose
  po_repository_authority :: repository_authority
  po_result_only :: bool
  po_allowed_tools :: tool_policy
  po_mcp :: access_policy
  po_provider_access :: access_policy

record authorized_steering =
  au_message_id :: string
  au_source :: string
  au_body :: string
  au_binding :: envelope_binding
  au_scope :: attempt_scope
  au_policy :: steering_policy

section \<open>Text\<close>

text \<open>\<open>replace(/\r\n?/g, "\n")\<close>\<close>

fun lf_only :: "string \<Rightarrow> string" where
  "lf_only [] = []"
| "lf_only [c] = [if c = CHR 0x0D then CHR 0x0A else c]"
| "lf_only (c # d # cs) =
     (if c = CHR 0x0D then CHR 0x0A # (if d = CHR 0x0A then lf_only cs else lf_only (d # cs))
      else c # lf_only (d # cs))"

section \<open>Generations\<close>

definition deriveKernelSteeringGeneration :: "generation_source \<Rightarrow> int result" where
  "deriveKernelSteeringGeneration input =
     bindE (forE (\<lambda>(name, value). if \<not> isSafeInteger value \<or> value < 0
           then throwM (''steering '' @ name @ '' is invalid'') else Inr ())
         [(''attempt_version'', gs_attempt_version input),
          (''work_retry_ordinal'', gs_work_retry_ordinal input),
          (''result_correction_count'', gs_result_correction_count input)]) (\<lambda>_.
     if gs_lease_purpose input = CorrectionLease then
       (if gs_result_correction_count input < 1
          then throwM ''a result-correction session requires a consumed correction ordinal''
        else Inr (gs_result_correction_count input))
     else Inr (gs_work_retry_ordinal input))"

section \<open>Bindings\<close>

definition nonEmptyId :: "string \<Rightarrow> string \<Rightarrow> unit result" where
  "nonEmptyId value name = (if \<not> RECORD_ID value then throwM (name @ '' is invalid'') else Inr ())"

definition index_check :: "int \<Rightarrow> string \<Rightarrow> unit result" where
  "index_check n name =
     (if \<not> isSafeInteger n \<or> n < 0 then throwM (''steering scope '' @ name @ '' is invalid'') else Inr ())"

text \<open>The scope is typed here, so the two branches that reject other kinds of values are not reached.\<close>

definition assertScope :: "attempt_scope \<Rightarrow> unit result" where
  "assertScope scope =
     bindE (nonEmptyId (scope_stage_id scope) ''steering scope stage_id'') (\<lambda>_.
     case scope of
       StageScope _ \<Rightarrow> Inr ()
     | LoopItemScope _ parent loop item n \<Rightarrow>
         bindE (nonEmptyId parent ''steering scope parent_attempt_id'') (\<lambda>_.
         bindE (nonEmptyId loop ''steering scope loop_id'') (\<lambda>_.
         bindE (nonEmptyId item ''steering scope item_id'') (\<lambda>_.
         index_check n ''item_index'')))
     | FanoutMemberScope _ parent fanout member n \<Rightarrow>
         bindE (nonEmptyId parent ''steering scope parent_attempt_id'') (\<lambda>_.
         bindE (nonEmptyId fanout ''steering scope fanout_id'') (\<lambda>_.
         bindE (nonEmptyId member ''steering scope member_id'') (\<lambda>_.
         index_check n ''member_index''))))"

definition live_phase :: "lease_purpose \<Rightarrow> attempt_state \<Rightarrow> bool" where
  "live_phase purpose status \<longleftrightarrow>
     \<not> (purpose = WorkLease \<and> status \<noteq> Running \<or> purpose = CorrectionLease \<and> status \<noteq> ResultPending)"

definition assertBinding :: "session_binding \<Rightarrow> unit result" where
  "assertBinding b =
     bindE (nonEmptyId (sb_pipeline_run_id b) ''steering pipeline_run_id'') (\<lambda>_.
     bindE (nonEmptyId (sb_attempt_id b) ''steering attempt_id'') (\<lambda>_.
     bindE (nonEmptyId (sb_native_session_id b) ''steering native_session_id'') (\<lambda>_.
     bindE (nonEmptyId (sb_lease_id b) ''steering lease_id'') (\<lambda>_.
     bindE (nonEmptyId (sb_lease_worker_id b) ''steering lease_worker_id'') (\<lambda>_.
     bindE (assertScope (sb_scope b)) (\<lambda>_.
     if \<not> SHA256 (sb_request_hash b) \<or> \<not> SHA256 (sb_definition_bundle_hash b)
       then throwM ''steering request or bundle hash is invalid''
     else if \<not> SESSION_SUBJECT (sb_input_subject b) then throwM ''steering input subject is invalid''
     else if \<not> isSafeInteger (sb_generation b) \<or> sb_generation b < 0 then throwM ''steering generation is invalid''
     else if \<not> isSafeInteger (sb_lease_generation b) \<or> sb_lease_generation b < 0
       then throwM ''steering lease_generation is invalid''
     else if canonical_ms (sb_lease_expires_at b) = None then throwM ''steering lease expiry is invalid''
     else if \<not> sb_lease_started b then throwM ''steering requires a started attempt lease''
     else if \<not> live_phase (sb_lease_purpose b) (sb_attempt_status b)
       then throwM ''steering target is not in its bound live phase''
     else Inr ()))))))"

section \<open>Envelopes\<close>

definition sealed_binding :: "session_binding \<Rightarrow> envelope_binding" where
  "sealed_binding b =
     \<lparr>eb_pipeline_run_id = sb_pipeline_run_id b, eb_attempt_id = sb_attempt_id b,
      eb_request_hash = sb_request_hash b, eb_definition_bundle_hash = sb_definition_bundle_hash b,
      eb_input_subject = sb_input_subject b, eb_native_session_id = sb_native_session_id b,
      eb_generation = sb_generation b, eb_lease_id = sb_lease_id b,
      eb_lease_generation = sb_lease_generation b, eb_lease_purpose = sb_lease_purpose b\<rparr>"

definition createKernelSteeringEnvelope ::
  "string \<Rightarrow> string \<Rightarrow> string \<Rightarrow> session_binding \<Rightarrow> steering_envelope result" where
  "createKernelSteeringEnvelope message_id source body binding =
     bindE (assertBinding binding) (\<lambda>_.
     bindE (nonEmptyId message_id ''steering message_id'') (\<lambda>_.
     if trim body = [] \<or> CHR 0x00 \<in> set body \<or> byteLength body > MAX_STEERING_BODY_BYTES
       then throwM (''steering body must contain at most '' @ string_of_int MAX_STEERING_BODY_BYTES @ '' UTF-8 bytes'')
     else if source \<notin> set [''human'', ''operator''] then throwM ''steering source is invalid''
     else Inr \<lparr>en_schema = KERNEL_STEERING_ENVELOPE_SCHEMA, en_message_id = message_id, en_source = source,
       en_body = lf_only body, en_binding = sealed_binding binding\<rparr>))"

definition exactEnvelope :: "steering_envelope \<Rightarrow> steering_envelope result" where
  "exactEnvelope value =
     (if en_schema value \<noteq> KERNEL_STEERING_ENVELOPE_SCHEMA then throwM ''steering envelope is malformed''
      else Inr value)"

section \<open>Delivery\<close>

text \<open>The fields in the order in which they are compared; each is compared as text.\<close>

definition fence_fields :: "envelope_binding \<Rightarrow> string dict" where
  "fence_fields b =
     [(''pipeline_run_id'', eb_pipeline_run_id b), (''attempt_id'', eb_attempt_id b),
      (''request_hash'', eb_request_hash b), (''definition_bundle_hash'', eb_definition_bundle_hash b),
      (''input_subject'', eb_input_subject b), (''native_session_id'', eb_native_session_id b),
      (''generation'', string_of_int (eb_generation b)), (''lease_id'', eb_lease_id b),
      (''lease_generation'', string_of_int (eb_lease_generation b)),
      (''lease_purpose'', purpose_name (eb_lease_purpose b))]"

definition fence_mismatch :: "envelope_binding \<Rightarrow> envelope_binding \<Rightarrow> string option" where
  "fence_mismatch a b =
     map_option (fst \<circ> fst) (List.find (\<lambda>(x, y). snd x \<noteq> snd y) (zip (fence_fields a) (fence_fields b)))"

definition steering_policy_of :: "session_binding \<Rightarrow> steering_policy" where
  "steering_policy_of current =
     (if sb_lease_purpose current = CorrectionLease
        then \<lparr>po_phase = CorrectionLease, po_repository_authority = InspectAuthority, po_result_only = True,
          po_allowed_tools = ResultTools [''ot-result''], po_mcp = NoAccess, po_provider_access = NoAccess\<rparr>
      else \<lparr>po_phase = WorkLease, po_repository_authority = sb_repository_authority current,
          po_result_only = False, po_allowed_tools = AttemptProfile, po_mcp = ProfileAccess,
          po_provider_access = ProfileAccess\<rparr>)"

definition authorizeKernelSteeringDelivery ::
  "steering_envelope \<Rightarrow> session_binding option \<Rightarrow> authorized_steering result" where
  "authorizeKernelSteeringDelivery input current_binding =
     bindE (exactEnvelope input) (\<lambda>envelope.
     case current_binding of
       None \<Rightarrow> throwM ''steering target has no durable runtime session binding''
     | Some current \<Rightarrow>
         bindE (assertBinding current) (\<lambda>_.
         bindE (createKernelSteeringEnvelope (en_message_id envelope) (en_source envelope) (en_body envelope)
                  current) (\<lambda>expected.
         case fence_mismatch (en_binding envelope) (en_binding expected) of
           Some name \<Rightarrow> throwM (''steering '' @ name @ '' binding is stale or mismatched'')
         | None \<Rightarrow>
             Inr \<lparr>au_message_id = en_message_id envelope, au_source = en_source envelope,
               au_body = en_body envelope, au_binding = sealed_binding current, au_scope = sb_scope current,
               au_policy = steering_policy_of current\<rparr>)))"

section \<open>Facts\<close>

lemma fence_mismatch_None: "fence_mismatch a b = None \<longleftrightarrow> a = b"
proof -
  have "purpose_name p = purpose_name q \<longleftrightarrow> p = q" for p q by (cases p; cases q) simp_all
  then show ?thesis
    by (cases a; cases b) (auto simp: fence_mismatch_def fence_fields_def)
qed

lemma lf_only_chars: "set (lf_only s) \<subseteq> set s \<union> {CHR 0x0A} \<and> CHR 0x0D \<notin> set (lf_only s)"
  by (induction s rule: lf_only.induct) auto

lemma lf_only_stable: "CHR 0x0D \<notin> set s \<Longrightarrow> lf_only s = s"
  by (induction s rule: lf_only.induct) auto

lemma utf8_Cons: "utf8 (c # s) = utf8_char c @ utf8 s"
  by (simp add: utf8_def)

lemma lf_only_bytes: "byteLength (lf_only s) \<le> byteLength s"
proof (induction s rule: lf_only.induct)
  case (3 c d cs)
  then show ?case
    by (cases "c = CHR 0x0D"; cases "d = CHR 0x0A") (simp_all add: byteLength_def utf8_Cons utf8_char_def [of "CHR 0x0A"]
        utf8_char_def [of "CHR 0x0D"])
qed (simp_all add: byteLength_def utf8_def utf8_char_def)

lemma trim_blank: "trim s = [] \<longleftrightarrow> (\<forall>c \<in> set s. is_space c)"
proof -
  have "trim s = [] \<longleftrightarrow> (\<forall>c \<in> set (dropWhile is_space s). is_space c)" by (simp add: trim_def dropWhile_eq_Nil_conv)
  also have "\<dots> \<longleftrightarrow> (\<forall>c \<in> set s. is_space c)"
  proof
    assume a: "\<forall>c \<in> set (dropWhile is_space s). is_space c"
    have "set s = set (takeWhile is_space s) \<union> set (dropWhile is_space s)"
      by (metis set_append takeWhile_dropWhile_id)
    with a show "\<forall>c \<in> set s. is_space c" by (auto dest: set_takeWhileD)
  qed (auto dest: set_dropWhileD)
  finally show ?thesis .
qed

lemma lf_only_blank: "(\<forall>c \<in> set (lf_only s). is_space c) \<longleftrightarrow> (\<forall>c \<in> set s. is_space c)"
  by (induction s rule: lf_only.induct) (auto simp: is_space_def)

text \<open>A sealed body is accepted again as it is.\<close>

lemma lf_only_body:
  assumes "trim s \<noteq> []" and "CHR 0x00 \<notin> set s" and "byteLength s \<le> m"
  shows "trim (lf_only s) \<noteq> [] \<and> CHR 0x00 \<notin> set (lf_only s) \<and> byteLength (lf_only s) \<le> m \<and>
    lf_only (lf_only s) = lf_only s"
  using assms lf_only_chars [of s] lf_only_bytes [of s] lf_only_stable [of "lf_only s"]
  by (auto simp: trim_blank lf_only_blank)

end
