(* ===== verification/RuntimeSession.thy ===== *)
theory RuntimeSession
  imports Steering
begin

text \<open>
  Runtime sessions: \<open>app/kernel-runtime-session.ts\<close>.  A worker that has launched a native session binds it to its
  attempt through the reducer and the store; the binding that steering is sealed against is read from the
  same state.
\<close>

section \<open>Requests\<close>

definition validId :: "string \<Rightarrow> string \<Rightarrow> unit result" where
  "validId value name = (if \<not> RECORD_ID value then throwM (''runtime session '' @ name @ '' is invalid'') else Inr ())"

definition validOrdinal :: "int \<Rightarrow> string \<Rightarrow> unit result" where
  "validOrdinal value name =
     (if \<not> isSafeInteger value \<or> value < 0 then throwM (''runtime session '' @ name @ '' is invalid'') else Inr ())"

definition canonicalTimestamp :: "string \<Rightarrow> string \<Rightarrow> int result" where
  "canonicalTimestamp value name =
     (case canonical_ms value of
        None \<Rightarrow> throwM (''runtime session '' @ name @ '' is invalid'')
      | Some ms \<Rightarrow> Inr ms)"

definition assertRequestShape :: "session_bind_request \<Rightarrow> unit result" where
  "assertRequestShape request =
     bindE (validId (br_pipeline_run_id request) ''pipeline_run_id'') (\<lambda>_.
     bindE (validId (br_attempt_id request) ''attempt_id'') (\<lambda>_.
     bindE (validId (br_lease_id request) ''lease_id'') (\<lambda>_.
     bindE (validId (br_worker_id request) ''worker_id'') (\<lambda>_.
     bindE (validOrdinal (br_lease_generation request) ''lease generation'') (\<lambda>_.
     if \<not> NATIVE_SESSION_ID (br_native_session_id request)
       then throwM ''runtime session native_session_id is invalid''
     else if \<not> SHA256 (br_request_hash request) \<or> \<not> SHA256 (br_definition_bundle_hash request)
       then throwM ''runtime session request or definition-bundle identity is invalid''
     else if \<not> SESSION_SUBJECT (br_input_subject request) then throwM ''runtime session input subject is invalid''
     else
       bindE (validOrdinal (br_work_retry_ordinal request) ''work retry ordinal'') (\<lambda>_.
       validOrdinal (br_result_correction_count request) ''result correction count''))))))"

section \<open>Fences\<close>

definition exactAttempt :: "reduction_view \<Rightarrow> string \<Rightarrow> kernel_attempt result" where
  "exactAttempt view attemptId =
     (case rv_current_attempt view of
        None \<Rightarrow> throwM ''runtime session attempt fence does not match its exact run aggregate''
      | Some attempt \<Rightarrow>
          if ka_id attempt \<noteq> attemptId \<or> ka_pipeline_run_id attempt \<noteq> kr_id (rv_run view)
            then throwM ''runtime session attempt fence does not match its exact run aggregate''
          else Inr attempt)"

definition request_lease_matches :: "session_bind_request \<Rightarrow> attempt_lease \<Rightarrow> bool" where
  "request_lease_matches request lease \<longleftrightarrow>
     le_id lease = br_lease_id request \<and> le_generation lease = br_lease_generation request \<and>
     le_worker_id lease = br_worker_id request \<and> le_purpose lease = br_lease_purpose request"

definition assertBindFences :: "reduction_view \<Rightarrow> session_bind_request \<Rightarrow> string \<Rightarrow> kernel_attempt result" where
  "assertBindFences view request now =
     bindE (exactAttempt view (br_attempt_id request)) (\<lambda>attempt.
     if kr_id (rv_run view) \<noteq> br_pipeline_run_id request then throwM ''runtime session run fence does not match''
     else if kr_definition_bundle_hash (rv_run view) \<noteq> br_definition_bundle_hash request \<or>
         ka_request_hash attempt \<noteq> br_request_hash request \<or>
         ka_definition_bundle_hash attempt \<noteq> br_definition_bundle_hash request \<or>
         ka_input_subject attempt \<noteq> br_input_subject request
       then throwM ''runtime session immutable action identity fence does not match''
     else if ka_work_retry_ordinal attempt \<noteq> br_work_retry_ordinal request \<or>
         ka_result_correction_count attempt \<noteq> br_result_correction_count request
       then throwM ''runtime session retry ordinal fence does not match''
     else
       (case ka_lease attempt of
          None \<Rightarrow> throwM ''runtime session lease fence does not match''
        | Some lease \<Rightarrow>
            if \<not> request_lease_matches request lease then throwM ''runtime session lease fence does not match''
            else if \<not> le_started lease then throwM ''runtime session requires a started lease''
            else
              bindE (canonicalTimestamp (le_expires_at lease) ''lease expiry'') (\<lambda>expiry.
              bindE (canonicalTimestamp now ''clock'') (\<lambda>clock.
              if expiry \<le> clock then throwM ''runtime session lease is expired''
              else if \<not> live_phase (le_purpose lease) (ka_status attempt)
                then throwM ''runtime session attempt is not in its bound live phase''
              else if le_purpose lease = CorrectionLease \<and> ka_native_session_id attempt = None
                then throwM ''result correction cannot create the attempt's first native session binding''
              else Inr attempt))))"

text \<open>The binding of an attempt, when it is live.\<close>

definition liveBinding :: "kernel_run \<Rightarrow> kernel_attempt \<Rightarrow> string \<Rightarrow> session_binding option result" where
  "liveBinding run attempt now =
     (case (ka_native_session_id attempt, ka_lease attempt) of
        (Some session, Some lease) \<Rightarrow>
          if \<not> le_started lease \<or> \<not> live_phase (le_purpose lease) (ka_status attempt) then Inr None
          else if ka_pipeline_run_id attempt \<noteq> kr_id run \<or>
              ka_definition_bundle_hash attempt \<noteq> kr_definition_bundle_hash run
            then throwM ''persisted runtime session binding changed its run identity''
          else
            bindE (canonicalTimestamp (le_expires_at lease) ''lease expiry'') (\<lambda>expiry.
            bindE (canonicalTimestamp now ''clock'') (\<lambda>clock.
            if expiry \<le> clock then Inr None
            else
              bindE (deriveKernelSteeringGeneration
                  \<lparr>gs_attempt_version = ka_version attempt, gs_work_retry_ordinal = ka_work_retry_ordinal attempt,
                   gs_result_correction_count = ka_result_correction_count attempt,
                   gs_lease_purpose = le_purpose lease\<rparr>) (\<lambda>generation.
              Inr (Some
                \<lparr>sb_pipeline_run_id = kr_id run, sb_attempt_id = ka_id attempt,
                 sb_request_hash = ka_request_hash attempt,
                 sb_definition_bundle_hash = ka_definition_bundle_hash attempt,
                 sb_input_subject = ka_input_subject attempt, sb_native_session_id = session,
                 sb_scope = ka_scope attempt, sb_generation = generation, sb_attempt_status = ka_status attempt,
                 sb_repository_authority = ka_repository_authority attempt, sb_lease_id = le_id lease,
                 sb_lease_generation = le_generation lease, sb_lease_worker_id = le_worker_id lease,
                 sb_lease_purpose = le_purpose lease, sb_lease_expires_at = le_expires_at lease,
                 sb_lease_started = True\<rparr>))))
      | _ \<Rightarrow> Inr None)"

section \<open>Binding\<close>

definition json_of_bind_request :: "session_bind_request \<Rightarrow> json" where
  "json_of_bind_request r =
     JObj [(''schema'', JStr ''openthrottle.bind-runtime-session/v1''),
       (''pipeline_run_id'', JStr (br_pipeline_run_id r)), (''attempt_id'', JStr (br_attempt_id r)),
       (''request_hash'', JStr (br_request_hash r)),
       (''definition_bundle_hash'', JStr (br_definition_bundle_hash r)),
       (''input_subject'', JStr (br_input_subject r)), (''lease_id'', JStr (br_lease_id r)),
       (''lease_generation'', json_int (br_lease_generation r)), (''worker_id'', JStr (br_worker_id r)),
       (''lease_purpose'', JStr (purpose_name (br_lease_purpose r))),
       (''work_retry_ordinal'', json_int (br_work_retry_ordinal r)),
       (''result_correction_count'', json_int (br_result_correction_count r)),
       (''native_session_id'', JStr (br_native_session_id r))]"

definition bindCommand :: "reduction_view \<Rightarrow> kernel_attempt \<Rightarrow> session_bind_request \<Rightarrow> kernel_command" where
  "bindCommand view attempt request =
     \<lparr>cmd_id = ''bind-runtime-session:'' @ digestCanonicalJson (json_of_bind_request request),
      cmd_body = BindRuntimeSession
        \<lparr>bs_attempt_id = ka_id attempt, bs_expected_run_version = kr_version (rv_run view),
         bs_expected_cursor_version = cu_version (kr_cursor (rv_run view)),
         bs_expected_attempt_version = ka_version attempt, bs_request_hash = br_request_hash request,
         bs_definition_bundle_hash = br_definition_bundle_hash request,
         bs_input_subject = br_input_subject request, bs_lease_id = br_lease_id request,
         bs_worker_id = br_worker_id request, bs_lease_purpose = br_lease_purpose request,
         bs_expected_lease_expires_at = (case ka_lease attempt of None \<Rightarrow> [] | Some l \<Rightarrow> le_expires_at l),
         bs_expected_work_retry_ordinal = br_work_retry_ordinal request,
         bs_expected_result_correction_count = br_result_correction_count request,
         bs_native_session_id = br_native_session_id request\<rparr>\<rparr>"

definition boundAttempt :: "transition_bundle \<Rightarrow> string \<Rightarrow> kernel_attempt result" where
  "boundAttempt bundle attemptId =
     (case (filter (\<lambda>w. case w of ReplaceWrite a \<Rightarrow> ka_id a = attemptId | _ \<Rightarrow> False) (tb_attempt_writes bundle),
            tb_attempt_writes bundle) of
        ([ReplaceWrite a], [_]) \<Rightarrow> Inr a
      | _ \<Rightarrow> throwM ''runtime session transition did not replace exactly one attempt'')"

text \<open>
  \<open>/stale (?:run|cursor|attempt)|compare-and-set/\<close> on the message of an error.  The messages that the model
  keeps as constructors contain neither text.
\<close>

definition staleTransition :: "error \<Rightarrow> bool" where
  "staleTransition e =
     (case e of
        Thrown t \<Rightarrow> has_infix (\<lambda>s. list_ex (startsWith s)
          [''stale run'', ''stale cursor'', ''stale attempt'', ''compare-and-set'']) t
      | _ \<Rightarrow> False)"

text \<open>
  What happens around one turn of the loop: the readings of the clock, the database that the transaction
  finds, and the database that is loaded when the transaction was stale.
\<close>

record bind_turn =
  bt_fence_now :: string
  bt_live_now :: string
  bt_env :: store_env
  bt_found :: database
  bt_reloaded :: database

type_synonym manifest_resolver = "string \<Rightarrow> string \<Rightarrow> int list \<Rightarrow> compiled_manifest result"

definition load_session ::
  "store_env \<Rightarrow> manifest_resolver \<Rightarrow> string \<Rightarrow> string \<Rightarrow> database \<Rightarrow> reduction_view result" where
  "load_session env resolve run attempt db = loadExactReductionView env resolve run (Some attempt) [] [] db"

definition bind_input :: "reduction_view \<Rightarrow> kernel_attempt \<Rightarrow> session_bind_request \<Rightarrow> reducer_input" where
  "bind_input view attempt request =
     \<lparr>ri_manifest = rv_manifest view, ri_run = rv_run view, ri_current_attempt = Some attempt,
      ri_records = rv_records view, ri_checkpoints = rv_checkpoints view,
      ri_command = bindCommand view attempt request\<rparr>"

definition replayed_session ::
  "session_bind_request \<Rightarrow> reduction_view \<Rightarrow> kernel_attempt \<Rightarrow> string \<Rightarrow> string \<Rightarrow> session_binding result" where
  "replayed_session request view attempt session now =
     (if session \<noteq> br_native_session_id request
        then throwM (''attempt '' @ ka_id attempt @ '' has a conflicting native session binding'')
      else
        bindE (liveBinding (rv_run view) attempt now) (\<lambda>replay.
        case replay of None \<Rightarrow> throwM ''runtime session replay is no longer live'' | Some b \<Rightarrow> Inr b))"

definition committed_session :: "transition_bundle \<Rightarrow> string \<Rightarrow> string \<Rightarrow> session_binding result" where
  "committed_session bundle attemptId now =
     bindE (boundAttempt bundle attemptId) (\<lambda>attempt.
     bindE (liveBinding (tb_run bundle) attempt now) (\<lambda>binding.
     case binding of
       None \<Rightarrow> throwM ''runtime session transition did not produce a live binding''
     | Some b \<Rightarrow> Inr b))"

text \<open>
  The loop.  Its answer has the database that its transaction committed, if it ran one.  Nothing in the code
  bounds it, so it may not return.
\<close>

partial_function (option) bind_loop ::
  "manifest_resolver \<Rightarrow> session_bind_request \<Rightarrow> (nat \<Rightarrow> bind_turn) \<Rightarrow> nat \<Rightarrow> reduction_view \<Rightarrow>
   (session_binding \<times> database option) result option" where
  "bind_loop resolve request turns n view =
     (case assertBindFences view request (bt_fence_now (turns n)) of
        Inl e \<Rightarrow> Some (Inl e)
      | Inr attempt \<Rightarrow>
          (case ka_native_session_id attempt of
             Some session \<Rightarrow>
               Some (bindE (replayed_session request view attempt session (bt_live_now (turns n))) (\<lambda>b. Inr (b, None)))
           | None \<Rightarrow>
               (case reduceKernelCommand (bind_input view attempt request) of
                  Inl e \<Rightarrow> Some (Inl e)
                | Inr bundle \<Rightarrow>
                    (case applyAtomicTransition (bt_env (turns n)) bundle (bt_found (turns n)) of
                       Inr (_, db) \<Rightarrow>
                         Some (bindE (committed_session bundle (ka_id attempt) (bt_live_now (turns n)))
                                (\<lambda>b. Inr (b, Some db)))
                     | Inl e \<Rightarrow>
                         if \<not> staleTransition e then Some (Inl e)
                         else (case load_session (bt_env (turns n)) resolve (br_pipeline_run_id request)
                                    (br_attempt_id request) (bt_reloaded (turns n)) of
                             Inl e' \<Rightarrow> Some (Inl e')
                           | Inr refreshed \<Rightarrow>
                               if kr_version (rv_run refreshed) \<le> kr_version (rv_run view) then Some (Inl e)
                               else bind_loop resolve request turns (Suc n) refreshed)))))"

definition bindRuntimeSession_service ::
  "store_env \<Rightarrow> manifest_resolver \<Rightarrow> session_bind_request \<Rightarrow> (nat \<Rightarrow> bind_turn) \<Rightarrow> database \<Rightarrow>
   (session_binding \<times> database option) result option" where
  "bindRuntimeSession_service env resolve request turns db =
     (case assertRequestShape request of
        Inl e \<Rightarrow> Some (Inl e)
      | Inr _ \<Rightarrow>
          (case load_session env resolve (br_pipeline_run_id request) (br_attempt_id request) db of
             Inl e \<Rightarrow> Some (Inl e)
           | Inr view \<Rightarrow> bind_loop resolve request turns 0 view))"

definition loadCurrentRuntimeSession ::
  "store_env \<Rightarrow> manifest_resolver \<Rightarrow> string \<Rightarrow> string \<Rightarrow> database \<Rightarrow> session_binding option result" where
  "loadCurrentRuntimeSession env resolve pipeline_run_id attempt_id db =
     bindE (validId pipeline_run_id ''pipeline_run_id'') (\<lambda>_.
     bindE (validId attempt_id ''attempt_id'') (\<lambda>_.
     bindE (load_session env resolve pipeline_run_id attempt_id db) (\<lambda>view.
     bindE (exactAttempt view attempt_id) (\<lambda>attempt.
     liveBinding (rv_run view) attempt (sv_now env)))))"

section \<open>The loop returns\<close>

text \<open>
  The loop goes on only with a run that is newer than the last one, so it returns when the versions that its
  turns can load are bounded, as they are when only finitely many transitions are committed meanwhile.
\<close>

lemma bind_loop_returns:
  assumes "\<And>n v. load_session (bt_env (turns n)) resolve (br_pipeline_run_id request) (br_attempt_id request)
      (bt_reloaded (turns n)) = Inr v \<Longrightarrow> kr_version (rv_run v) \<le> bound"
  shows "\<exists>answer. bind_loop resolve request turns n view = Some answer"
proof (induction "nat (bound + 1 - kr_version (rv_run view))" arbitrary: n view rule: less_induct)
  case less
  have again: "\<exists>answer. bind_loop resolve request turns (Suc n) v = Some answer"
    if l: "load_session (bt_env (turns n)) resolve (br_pipeline_run_id request) (br_attempt_id request)
        (bt_reloaded (turns n)) = Inr v" and newer: "\<not> kr_version (rv_run v) \<le> kr_version (rv_run view)" for v
    using assms [OF l] newer by (intro less) simp
  then show ?case
    by (subst bind_loop.simps) (auto split: sum.splits option.splits)
qed

end
