(* ===== verification/Control.thy ===== *)
theory Control
  imports Inbox RuntimeSession
begin

text \<open>
  The control service: \<open>app/kernel-control.ts\<close>.  It closes and opens the ingress, puts steering messages into
  the inbox, sealed against the current runtime session, and authorises them when a worker has leased
  them from there.
\<close>

section \<open>Ingress\<close>

definition DEFAULT_RETRY_AFTER_SECONDS :: int where
  "DEFAULT_RETRY_AFTER_SECONDS = 30"

datatype ingress_response =
    IngressAccepted inbox_event bool
      \<comment> \<open>the event, and whether it is a duplicate\<close>
  | IngressMaintenance int int
      \<comment> \<open>\<open>status_code\<close>, \<open>retry_after_seconds\<close>\<close>

definition ingressResponse :: "ingest_result \<Rightarrow> ingress_response" where
  "ingressResponse r =
     (case r of
        MaintenanceClosed \<Rightarrow> IngressMaintenance 503 DEFAULT_RETRY_AFTER_SECONDS
      | Inserted event \<Rightarrow> IngressAccepted event False
      | Duplicate event \<Rightarrow> IngressAccepted event True
      | Reordered event \<Rightarrow> IngressAccepted event True)"

definition ingestMutation ::
  "inbox_env \<Rightarrow> volume \<Rightarrow> inbox_input \<Rightarrow> inbox_database \<Rightarrow> (ingress_response \<times> inbox_database) result \<times> volume" where
  "ingestMutation env vol input db =
     (let (outcome, vol') = ingest env vol input db in
      (bindE outcome (\<lambda>(r, db'). Inr (ingressResponse r, db')), vol'))"

definition closeMutatingIngress ::
  "inbox_env \<Rightarrow> int option \<Rightarrow> inbox_database \<Rightarrow> (maintenance_fence \<times> inbox_database) result" where
  "closeMutatingIngress env expectedVersion = setMaintenanceFence env True expectedVersion"

definition openMutatingIngress ::
  "inbox_env \<Rightarrow> int option \<Rightarrow> inbox_database \<Rightarrow> (maintenance_fence \<times> inbox_database) result" where
  "openMutatingIngress env expectedVersion = setMaintenanceFence env False expectedVersion"

section \<open>Envelopes as payloads\<close>

definition json_of_envelope :: "steering_envelope \<Rightarrow> json" where
  "json_of_envelope e =
     (let b = en_binding e in
      JObj [(''schema'', JStr (en_schema e)), (''message_id'', JStr (en_message_id e)),
        (''source'', JStr (en_source e)), (''body'', JStr (en_body e)),
        (''binding'', JObj
          [(''pipeline_run_id'', JStr (eb_pipeline_run_id b)), (''attempt_id'', JStr (eb_attempt_id b)),
           (''request_hash'', JStr (eb_request_hash b)),
           (''definition_bundle_hash'', JStr (eb_definition_bundle_hash b)),
           (''input_subject'', JStr (eb_input_subject b)),
           (''native_session_id'', JStr (eb_native_session_id b)),
           (''generation'', json_int (eb_generation b)), (''lease_id'', JStr (eb_lease_id b)),
           (''lease_generation'', json_int (eb_lease_generation b)),
           (''lease_purpose'', JStr (purpose_name (eb_lease_purpose b)))])])"

fun as_purpose :: "json \<Rightarrow> lease_purpose option" where
  "as_purpose (JStr s) =
     (if s = ''work'' then Some WorkLease else if s = ''result_correction'' then Some CorrectionLease else None)"
| "as_purpose _ = None"

definition as_envelope_binding :: "json \<Rightarrow> envelope_binding option" where
  "as_envelope_binding v =
     (let text = (\<lambda>k. field v k as_str) in
      Option.bind (text ''pipeline_run_id'') (\<lambda>run. Option.bind (text ''attempt_id'') (\<lambda>attempt.
      Option.bind (text ''request_hash'') (\<lambda>request. Option.bind (text ''definition_bundle_hash'') (\<lambda>bundle.
      Option.bind (text ''input_subject'') (\<lambda>subject. Option.bind (text ''native_session_id'') (\<lambda>session.
      Option.bind (field v ''generation'' as_int) (\<lambda>generation. Option.bind (text ''lease_id'') (\<lambda>lease.
      Option.bind (field v ''lease_generation'' as_int) (\<lambda>lease_generation.
      Option.bind (field v ''lease_purpose'' as_purpose) (\<lambda>purpose.
      Some \<lparr>eb_pipeline_run_id = run, eb_attempt_id = attempt, eb_request_hash = request,
        eb_definition_bundle_hash = bundle, eb_input_subject = subject, eb_native_session_id = session,
        eb_generation = generation, eb_lease_id = lease, eb_lease_generation = lease_generation,
        eb_lease_purpose = purpose\<rparr>)))))))))))"

text \<open>The source casts the payload after the check of its schema; a field of another type is an error here.\<close>

definition steeringEnvelope :: "json \<Rightarrow> steering_envelope result" where
  "steeringEnvelope value =
     (case value of
        JObj es \<Rightarrow>
          if map_of es ''schema'' \<noteq> Some (JStr KERNEL_STEERING_ENVELOPE_SCHEMA)
            then throwM ''steering inbox payload schema is unsupported''
          else
            bindE (cast ''steering envelope'' (field value ''message_id'' as_str)) (\<lambda>message.
            bindE (cast ''steering envelope'' (field value ''source'' as_str)) (\<lambda>source.
            bindE (cast ''steering envelope'' (field value ''body'' as_str)) (\<lambda>body.
            bindE (cast ''steering envelope'' (field value ''binding'' as_envelope_binding)) (\<lambda>binding.
            Inr \<lparr>en_schema = KERNEL_STEERING_ENVELOPE_SCHEMA, en_message_id = message, en_source = source,
              en_body = body, en_binding = binding\<rparr>))))
      | _ \<Rightarrow> throwM ''steering inbox payload is not an envelope'')"

section \<open>Steering\<close>

record steering_message =
  sm_message_id :: string
  sm_source :: string
  sm_body :: string
  sm_source_provider :: string
  sm_delivery_id :: string
  sm_delivery_attempt :: int
  sm_pipeline_run_id :: string
  sm_attempt_id :: string

definition steering_event :: "steering_message \<Rightarrow> session_binding \<Rightarrow> steering_envelope \<Rightarrow> inbox_input" where
  "steering_event m binding envelope =
     \<lparr>in_id = Some (''steering-'' @ sm_message_id m), in_source_provider = sm_source_provider m,
      in_delivery_id = sm_delivery_id m, in_kind = ''steering/message@1'', in_work_item_id = None,
      in_pipeline_run_id = Some (sb_pipeline_run_id binding), in_attempt_id = Some (sb_attempt_id binding),
      in_generation = sb_generation binding, in_event_group_key = ''steering:'' @ sm_message_id m,
      in_delivery_attempt = sm_delivery_attempt m, in_subject = Some (sb_input_subject binding),
      in_payload_schema = KERNEL_STEERING_ENVELOPE_SCHEMA, in_payload = json_of_envelope envelope,
      in_available_at = None\<rparr>"

text \<open>The session is the one that \<open>loadCurrentRuntimeSession\<close> finds in the kernel database \<open>kdb\<close>.\<close>

definition seal_message ::
  "store_env \<Rightarrow> manifest_resolver \<Rightarrow> steering_message \<Rightarrow> database \<Rightarrow> (session_binding \<times> steering_envelope) result" where
  "seal_message env resolve m kdb =
     bindE (loadCurrentRuntimeSession env resolve (sm_pipeline_run_id m) (sm_attempt_id m) kdb) (\<lambda>current.
     case current of
       None \<Rightarrow> throwM ''cannot enqueue steering before a durable runtime session is bound''
     | Some binding \<Rightarrow>
         bindE (createKernelSteeringEnvelope (sm_message_id m) (sm_source m) (sm_body m) binding) (\<lambda>envelope.
         Inr (binding, envelope)))"

definition enqueueSteering ::
  "store_env \<Rightarrow> manifest_resolver \<Rightarrow> inbox_env \<Rightarrow> volume \<Rightarrow> steering_message \<Rightarrow> database \<Rightarrow> inbox_database \<Rightarrow>
   (ingress_response \<times> inbox_database) result \<times> volume" where
  "enqueueSteering kenv resolve env vol m kdb db =
     (case getMaintenanceFence db of
        Inl e \<Rightarrow> (Inl e, vol)
      | Inr fence \<Rightarrow>
          if mf_closed fence then (Inr (ingressResponse MaintenanceClosed, db), vol)
          else (case seal_message kenv resolve m kdb of
              Inl e \<Rightarrow> (Inl e, vol)
            | Inr (binding, envelope) \<Rightarrow> ingestMutation env vol (steering_event m binding envelope) db))"

definition authorizeLeasedSteering ::
  "store_env \<Rightarrow> manifest_resolver \<Rightarrow> inbox_event \<Rightarrow> database \<Rightarrow> authorized_steering result" where
  "authorizeLeasedSteering env resolve event kdb =
     (let row = ev_row event; i = ir_intent row in
      if ii_kind i \<noteq> ''steering/message@1'' \<or> ii_payload_schema i \<noteq> KERNEL_STEERING_ENVELOPE_SCHEMA \<or>
         ir_status row \<noteq> InboxProcessing \<or> ir_lease_id row \<in> {None, Some []} \<or>
         ii_pipeline_run_id i \<in> {None, Some []} \<or> ii_attempt_id i \<in> {None, Some []}
        then throwM ''steering event does not hold an exact processing lease''
      else
        bindE (steeringEnvelope (ev_payload event)) (\<lambda>envelope.
        let b = en_binding envelope in
        if Some (eb_pipeline_run_id b) \<noteq> ii_pipeline_run_id i \<or> Some (eb_attempt_id b) \<noteq> ii_attempt_id i \<or>
           eb_generation b \<noteq> ii_generation i \<or> Some (eb_input_subject b) \<noteq> ii_subject i
          then throwM ''steering inbox columns do not match its sealed envelope''
        else
          bindE (loadCurrentRuntimeSession env resolve (eb_pipeline_run_id b) (eb_attempt_id b) kdb) (\<lambda>current.
          authorizeKernelSteeringDelivery envelope current)))"

section \<open>Facts\<close>

lemma purpose_read [simp]: "as_purpose (JStr (purpose_name p)) = Some p"
  by (cases p) simp_all

end
