(* ===== verification/InboxFacts.thy ===== *)
theory InboxFacts
  imports Control AttemptLeaseFacts
begin

text \<open>
  What the operations of the inbox do to its rows: what an event says never changes, a settled event stays
  as it is, and of the deliveries of a group at most one is not stale.
\<close>

section \<open>Rows evolve\<close>

definition settled_event :: "inbox_row \<Rightarrow> bool" where
  "settled_event r \<longleftrightarrow> ir_status r \<in> {InboxConsumed, InboxStale, InboxDead}"

definition lease_ok :: "inbox_row \<Rightarrow> bool" where
  "lease_ok r \<longleftrightarrow> (ir_lease_id r \<noteq> None \<longrightarrow> ir_status r = InboxProcessing)"

definition event_moves :: "inbox_row \<Rightarrow> inbox_row \<Rightarrow> bool" where
  "event_moves r r' \<longleftrightarrow>
     ir_id r' = ir_id r \<and> ir_intent r' = ir_intent r \<and> ir_payload r' = ir_payload r \<and>
     ir_created_at r' = ir_created_at r \<and> ir_version r \<le> ir_version r' \<and> (settled_event r \<longrightarrow> r' = r) \<and>
     (lease_ok r \<longrightarrow> lease_ok r')"

definition events_evolve :: "inbox_row list \<Rightarrow> inbox_row list \<Rightarrow> bool" where
  "events_evolve rows rows' \<longleftrightarrow> (\<exists>ys new. rows' = ys @ new \<and> list_all2 event_moves rows ys)"

lemma event_moves_refl [simp]: "event_moves r r"
  by (simp add: event_moves_def)

lemma event_moves_trans: "event_moves a b \<Longrightarrow> event_moves b c \<Longrightarrow> event_moves a c"
  by (auto simp: event_moves_def)

lemma events_evolve_refl [simp]: "events_evolve rows rows"
  unfolding events_evolve_def by (rule exI [of _ rows]) (simp add: list_all2_same)

lemma events_evolve_trans:
  assumes "events_evolve a b" and "events_evolve b c"
  shows "events_evolve a c"
proof -
  from assms obtain ys new zs new' where 1: "b = ys @ new" "list_all2 event_moves a ys"
    and 2: "c = zs @ new'" "list_all2 event_moves b zs" by (auto simp: events_evolve_def)
  from 2(2) 1(1) obtain us vs where z: "zs = us @ vs" "list_all2 event_moves ys us" by (auto simp: list_all2_append1)
  from list_all2_trans [OF event_moves_trans 1(2) z(2)] have "list_all2 event_moves a us" .
  with 2(1) z(1) show ?thesis unfolding events_evolve_def by (intro exI [of _ us] exI [of _ "vs @ new'"]) simp
qed

lemma list_all2_left: "list_all2 P xs ys \<Longrightarrow> x \<in> set xs \<Longrightarrow> \<exists>y \<in> set ys. P x y"
  by (induction rule: list_all2_induct) auto

lemma list_all2_right: "list_all2 P xs ys \<Longrightarrow> y \<in> set ys \<Longrightarrow> \<exists>x \<in> set xs. P x y"
  by (induction rule: list_all2_induct) auto

lemma events_evolve_row:
  assumes "events_evolve rows rows'" and "r \<in> set rows"
  shows "\<exists>r' \<in> set rows'. event_moves r r'"
proof -
  from assms(1) obtain ys new where "rows' = ys @ new" "list_all2 event_moves rows ys" by (auto simp: events_evolve_def)
  with list_all2_left [OF this(2) assms(2)] show ?thesis by auto
qed

lemma update_evolves:
  assumes "updateE inbox_schema P f rows = Inr (rows', n)"
    and "\<And>r. P r \<Longrightarrow> event_moves r (f r)"
  shows "list_all2 event_moves rows rows'"
proof -
  from assms(1) have "rows' = updated_rows P f rows" by (auto simp: updateE_def Let_def split: if_splits)
  with assms(2) show ?thesis by (auto simp: updated_rows_def list.rel_map intro!: list.rel_refl_strong)
qed

lemma moves_evolve: "list_all2 event_moves rows rows' \<Longrightarrow> events_evolve rows rows'"
  unfolding events_evolve_def by (rule exI [of _ rows'], rule exI [of _ "[]"]) simp

section \<open>The invariant\<close>

text \<open>Behind the first delivery of a group, every other one is stale.\<close>

definition behind :: "inbox_row \<Rightarrow> inbox_row \<Rightarrow> bool" where
  "behind a b \<longleftrightarrow> (event_group a = event_group b \<longrightarrow> ir_status b = InboxStale)"

definition inbox_ok :: "inbox_row list \<Rightarrow> bool" where
  "inbox_ok rows \<longleftrightarrow>
     distinct (map ir_id rows) \<and> distinct (map delivery_key rows) \<and> sorted_wrt behind rows \<and>
     list_all lease_ok rows \<and>
     (\<forall>a \<in> set rows. \<forall>b \<in> set rows. event_group a = event_group b \<longrightarrow> sameSemanticEvent (ir_intent a) (ir_intent b))"

lemma moved_behind: "event_moves a a' \<Longrightarrow> event_moves b b' \<Longrightarrow> behind a b \<Longrightarrow> behind a' b'"
  by (auto simp: behind_def event_moves_def event_group_def settled_event_def)

lemma moved_groups: "list_all2 event_moves rows ys \<Longrightarrow> sorted_wrt behind rows \<Longrightarrow> sorted_wrt behind ys"
proof (induction rule: list_all2_induct)
  case (Cons r rows r' ys)
  from Cons.prems have "behind r x" if "x \<in> set rows" for x using that by simp
  with list_all2_right [OF Cons.hyps(2)] have "behind r' y" if "y \<in> set ys" for y
    using that moved_behind [OF Cons.hyps(1)] by blast
  with Cons.IH Cons.prems show ?case by simp
qed simp

lemma moved_ok:
  assumes m: "list_all2 event_moves rows ys" and ok: "inbox_ok rows"
  shows "inbox_ok ys"
proof -
  from m have e: "map ir_id ys = map ir_id rows" "map delivery_key ys = map delivery_key rows"
    by (induction rule: list_all2_induct) (auto simp: event_moves_def delivery_key_def)
  have from_row: "\<exists>a \<in> set rows. event_moves a b" if "b \<in> set ys" for b
    using list_all2_right [OF m that] .
  have "lease_ok b" if "b \<in> set ys" for b
    using from_row [OF that] ok by (auto simp: inbox_ok_def event_moves_def list_all_iff)
  moreover from from_row have "sameSemanticEvent (ir_intent a) (ir_intent b)"
    if "a \<in> set ys" "b \<in> set ys" "event_group a = event_group b" for a b
    using that ok unfolding inbox_ok_def event_moves_def event_group_def by metis
  ultimately show ?thesis using e ok moved_groups [OF m] by (simp add: inbox_ok_def list_all_iff)
qed

text \<open>A delivery that is not stale stays the only one of its group that can be handed out.\<close>

lemma live_row:
  assumes ok: "inbox_ok rows" "inbox_ok rows'" and e: "events_evolve rows rows'"
    and r: "r \<in> set rows" "ir_status r \<noteq> InboxStale"
    and s: "s \<in> set rows'" "ir_status s \<noteq> InboxStale" "event_group s = event_group r"
  shows "event_moves r s"
proof -
  from e obtain ys new where ys: "rows' = ys @ new" "list_all2 event_moves rows ys" by (auto simp: events_evolve_def)
  from r(1) obtain i where i: "i < length rows" "r = rows ! i" by (auto simp: in_set_conv_nth)
  from s(1) obtain j where j: "j < length rows'" "s = rows' ! j" by (auto simp: in_set_conv_nth)
  from ys i have n: "length ys = length rows" and m: "event_moves r (rows' ! i)"
    by (auto simp: list_all2_conv_all_nth nth_append)
  then have g: "event_group (rows' ! i) = event_group r" by (simp add: event_moves_def event_group_def)
  have "j = i"
  proof (rule linorder_cases [of j i])
    assume a: "j < i"
    with ys i n have "event_moves (rows ! j) s" by (auto simp: list_all2_conv_all_nth nth_append j(2))
    then have "event_group (rows ! j) = event_group r" using s(3) by (simp add: event_moves_def event_group_def)
    with ok(1) a i have "ir_status r = InboxStale" by (simp add: inbox_ok_def sorted_wrt_iff_nth_less behind_def)
    with r(2) show ?thesis by simp
  next
    assume a: "i < j"
    with ok(2) j g s(3) have "ir_status s = InboxStale" by (simp add: inbox_ok_def sorted_wrt_iff_nth_less behind_def)
    with s(2) show ?thesis by simp
  qed simp
  with m j(2) show ?thesis by simp
qed

section \<open>Ingesting\<close>

lemma ingest_new_rows:
  assumes "ingest_new env vol n prepared db = Inr (result, db')"
  obtains row columns where "ib_events db' = ib_events db @ [row]" "ib_settings db' = ib_settings db"
    "ir_id row = ni_id n" "ir_intent row = intended n prepared" "ir_payload row = columns"
    "payloadColumns vol prepared = Inr columns"
    "inbox_check row" "distinct (map ir_id (ib_events db'))" "distinct (map delivery_key (ib_events db'))"
    "lease_ok row"
    "\<exists>e. readEvent vol row = Inr e \<and> ev_row e = row \<and>
       (result = Inserted e \<and> ir_status row = InboxPending \<and> (\<forall>r \<in> set (ib_events db). event_group r \<noteq> event_group row) \<or>
        result = Reordered e \<and> ir_status row = InboxStale \<and>
        (\<exists>r \<in> set (ib_events db). event_group r = event_group row \<and> sameSemanticEvent (ir_intent r) (ir_intent row)))"
proof -
  let ?i = "intended n prepared"
  let ?group = "ordered_rows (\<lambda>r. (ii_delivery_attempt (ir_intent r), ir_created_at r, ir_id r))
             (\<lambda>r. event_group r = (ii_source_provider ?i, ii_event_group_key ?i)) (ib_events db)"
  have members: "r \<in> set ?group \<longleftrightarrow> r \<in> set (ib_events db) \<and> event_group r = (ii_source_provider ?i, ii_event_group_key ?i)" for r
    by (simp add: ordered_rows_def)
  from assms obtain status columns timestamp rows e where
    s: "(case ?group of [] \<Rightarrow> Inr InboxPending
        | first # _ \<Rightarrow> if \<not> sameSemanticEvent (ir_intent first) ?i
            then throwM (''inbox group '' @ ii_source_provider ?i @ '':'' @ ii_event_group_key ?i @ '' changed intent'')
            else Inr InboxStale) = Inr status"
    and c: "payloadColumns vol prepared = Inr columns"
    and ins: "insertE inbox_schema (new_event_row n ?i columns status timestamp) (ib_events db) = Inr rows"
    and e: "readEvent vol (new_event_row n ?i columns status timestamp) = Inr e"
    and r: "result = (if status = InboxStale then Reordered e else Inserted e)" "db' = db\<lparr>ib_events := rows\<rparr>"
    unfolding ingest_new_def Let_def by (auto simp: bindE_eq_Inr)
  obtain row where row: "row = new_event_row n ?i columns status timestamp" by blast
  have cols: "ir_id row = ni_id n" "ir_intent row = ?i" "ir_payload row = columns" "ir_status row = status" "lease_ok row"
    by (simp_all add: lease_ok_def row new_event_row_def)
  have g: "event_group row = (ii_source_provider ?i, ii_event_group_key ?i)" by (simp add: event_group_def cols)
  have ev: "ev_row e = row" using e unfolding row [symmetric]
    by (auto simp: readEvent_def bindE_eq_Inr split: option.splits if_splits)
  have "status = InboxPending \<and> (\<forall>r \<in> set (ib_events db). event_group r \<noteq> event_group row) \<or>
      status = InboxStale \<and> (\<exists>r \<in> set (ib_events db). event_group r = event_group row \<and> sameSemanticEvent (ir_intent r) (ir_intent row))"
  proof (cases ?group)
    case Nil
    with s members show ?thesis unfolding g by auto
  next
    case (Cons first rest)
    with s members [of first] show ?thesis unfolding g cols(1-4) by (auto split: if_splits)
  qed
  then have "result = Inserted e \<and> ir_status row = InboxPending \<and> (\<forall>r \<in> set (ib_events db). event_group r \<noteq> event_group row) \<or>
      result = Reordered e \<and> ir_status row = InboxStale \<and>
        (\<exists>r \<in> set (ib_events db). event_group r = event_group row \<and> sameSemanticEvent (ir_intent r) (ir_intent row))"
    unfolding cols(4) r(1) by (elim disjE) simp_all
  moreover from ins have "rows = ib_events db @ [row]" "inbox_check row" "distinct (map ir_id rows)" "distinct (map delivery_key rows)"
    by (auto simp: insertE_def inbox_schema_def row split: if_splits)
  ultimately show thesis using cols c r(2) e ev unfolding row [symmetric]
    by (intro that [of row columns]) auto
qed

lemma ingest_cases:
  assumes "ingest env vol input db = (Inr (result, db'), vol')"
  obtains (closed) "result = MaintenanceClosed" "db' = db"
  | (duplicate) e where "result = Duplicate e" "db' = db"
  | (new) n prepared where "normalizeInput env input = Inr n"
      "preparePayload env vol (ni_payload n) (in_payload_schema input) = Inr (prepared, vol')"
      "ingest_new env vol' n prepared db = Inr (result, db')" "inbox_keys env db'"
proof (cases "prepare_ingest env vol input db")
  case (Inl e)
  with assms show thesis by (simp add: ingest_def)
next
  case (Inr turn)
  show thesis
  proof (cases turn)
    case None
    with assms Inr show thesis by (intro closed) (simp_all add: ingest_def)
  next
    case (Some t)
    obtain n prepared vol1 where t: "t = (n, prepared, vol1)" by (cases t)
    from Inr have p: "normalizeInput env input = Inr n"
      "preparePayload env vol (ni_payload n) (in_payload_schema input) = Inr (prepared, vol1)"
      unfolding Some t by (auto simp: prepare_ingest_def bindE_eq_Inr split: if_splits)
    from assms Inr Some t have "transaction (inbox_keys env) (ingest_body env vol1 n prepared) db = Inr (result, db')"
      and v: "vol1 = vol'" by (auto simp: ingest_def)
    then have b: "ingest_body env vol1 n prepared db = Inr (result, db')" and k: "inbox_keys env db'"
      by (simp_all add: transaction_ok)
    from b consider "result = MaintenanceClosed" "db' = db" | e where "result = Duplicate e" "db' = db"
      | "ingest_new env vol1 n prepared db = Inr (result, db')"
      unfolding ingest_body_def Let_def by (auto simp: bindE_eq_Inr split: if_splits option.splits)
    then show thesis
    proof cases
      case 1 then show thesis by (rule closed)
    next
      case 2 then show thesis by (rule duplicate)
    next
      case 3 with p v k show thesis by (intro new) simp_all
    qed
  qed
qed

lemma ingest_step:
  assumes i: "ingest env vol input db = (Inr (result, db'), vol')" and ok: "inbox_ok (ib_events db)"
  shows "events_evolve (ib_events db) (ib_events db') \<and> inbox_ok (ib_events db')"
  using i
proof (cases rule: ingest_cases)
  case (new n prepared)
  from new(3) show ?thesis
  proof (rule ingest_new_rows)
    fix row columns
    assume rows: "ib_events db' = ib_events db @ [row]" and l: "lease_ok row" and d: "distinct (map ir_id (ib_events db'))"
      "distinct (map delivery_key (ib_events db'))"
      and e: "\<exists>e. readEvent vol' row = Inr e \<and> ev_row e = row \<and>
       (result = Inserted e \<and> ir_status row = InboxPending \<and> (\<forall>r \<in> set (ib_events db). event_group r \<noteq> event_group row) \<or>
        result = Reordered e \<and> ir_status row = InboxStale \<and>
        (\<exists>r \<in> set (ib_events db). event_group r = event_group row \<and> sameSemanticEvent (ir_intent r) (ir_intent row)))"
    have evolves: "events_evolve (ib_events db) (ib_events db')"
      unfolding events_evolve_def rows by (rule exI [of _ "ib_events db"]) (simp add: list_all2_same)
    have groups: "sorted_wrt behind (ib_events db')"
      using ok e by (auto simp: inbox_ok_def behind_def rows sorted_wrt_append)
    have both: "sameSemanticEvent (ir_intent r) (ir_intent row) \<and> sameSemanticEvent (ir_intent row) (ir_intent r)"
      if "r \<in> set (ib_events db)" "event_group r = event_group row" for r
    proof -
      from e that obtain r0 where r0: "r0 \<in> set (ib_events db)" "event_group r0 = event_group row"
        "sameSemanticEvent (ir_intent r0) (ir_intent row)" by auto
      with ok that have "sameSemanticEvent (ir_intent r) (ir_intent r0)" by (auto simp: inbox_ok_def)
      with r0(3) show ?thesis by (simp add: sameSemanticEvent_def)
    qed
    have "sameSemanticEvent (ir_intent row) (ir_intent row)" by (simp add: sameSemanticEvent_def)
    then have "\<forall>a \<in> set (ib_events db'). \<forall>b \<in> set (ib_events db').
        event_group a = event_group b \<longrightarrow> sameSemanticEvent (ir_intent a) (ir_intent b)"
      using ok both unfolding rows inbox_ok_def by (auto simp del: split_paired_All)
    with d evolves groups l ok show ?thesis by (simp add: inbox_ok_def rows)
  qed
qed (use ok in simp_all)

section \<open>Delivering\<close>

lemma released_moves:
  "\<not> settled_event r \<Longrightarrow> event_moves r ((released r)\<lparr>ir_status := s, ir_consumed_at := c\<rparr>)"
  "\<not> settled_event r \<Longrightarrow> event_moves r ((released r)\<lparr>ir_status := s\<rparr>)"
  "\<not> settled_event r \<Longrightarrow> event_moves r ((released r)\<lparr>ir_status := s, ir_available_at := t, ir_consumed_at := c\<rparr>)"
  "\<not> settled_event r \<Longrightarrow> event_moves r (leased_event_row l r)"
  by (simp_all add: event_moves_def released_def leased_event_row_def lease_ok_def)

abbreviation inbox_advances :: "inbox_database \<Rightarrow> inbox_database \<Rightarrow> bool" where
  "inbox_advances db db' \<equiv> events_evolve (ib_events db) (ib_events db') \<and> inbox_ok (ib_events db')"

lemma updated_advances:
  assumes "updateE inbox_schema P f (ib_events db) = Inr (rows, n)" and "inbox_ok (ib_events db)"
    and "\<And>r. P r \<Longrightarrow> event_moves r (f r)"
  shows "inbox_advances db (db\<lparr>ib_events := rows\<rparr>)"
  using update_evolves [OF assms(1,3)] assms(2) by (auto intro: moves_evolve moved_ok)

lemma advances_trans:
  "inbox_advances a b \<Longrightarrow> inbox_advances b c \<Longrightarrow> inbox_advances a c"
  by (blast intro: events_evolve_trans)

lemma readEvent_row: "readEvent vol row = Inr e \<Longrightarrow> ev_row e = row"
  by (auto simp: readEvent_def bindE_eq_Inr split: option.splits if_splits)

lemma hand_out_step:
  assumes "hand_out vol now row db = Inr (event, db')" and ok: "inbox_ok (ib_events db)"
  shows "inbox_advances db db' \<and> (\<forall>e. event = Some e \<longrightarrow> db' = db \<and> ev_row e = row \<and> readEvent vol row = Inr e)"
proof (cases "readEvent vol row")
  case (Inr e)
  with assms show ?thesis by (auto simp: hand_out_def dest: readEvent_row)
next
  case (Inl err)
  with assms(1) have "deadLetterUnreadable row now db = Inr db'" and e: "event = None"
    by (auto simp: hand_out_def bindE_eq_Inr split: error.splits)
  then obtain rows where u: "updateE inbox_schema
         (\<lambda>r. ir_id r = ir_id row \<and> (ir_version r = ir_version row \<and> ir_status r = InboxProcessing))
         (\<lambda>r. (released r)\<lparr>ir_status := InboxDead, ir_consumed_at := Some now\<rparr>) (ib_events db) = Inr (rows, 1)"
    and db': "db' = db\<lparr>ib_events := rows\<rparr>"
    by (auto simp: deadLetterUnreadable_def bindE_eq_Inr split: if_splits)
  have "inbox_advances db db'" unfolding db'
    by (rule updated_advances [OF u ok]) (auto simp: settled_event_def intro: released_moves)
  then show ?thesis unfolding e by simp
qed

lemma lease_loop_step:
  assumes "lease_loop n vol l now db = Inr (event, db')" and "inbox_ok (ib_events db)"
  shows "inbox_advances db db' \<and>
    (\<forall>e. event = Some e \<longrightarrow> ev_row e \<in> set (ib_events db') \<and> ir_status (ev_row e) = InboxProcessing \<and>
       ir_lease_id (ev_row e) = Some (il_lease_id l) \<and> readEvent vol (ev_row e) = Inr e)"
  using assms
proof (induction n arbitrary: db)
  case (Suc n)
  have go_on: ?case if h: "hand_out vol now row db1 = Inr (event1, db2)" and a: "inbox_advances db db1"
    and row: "row \<in> set (ib_events db1)" "ir_lease_id row = Some (il_lease_id l)"
    and rest: "(case event1 of Some e \<Rightarrow> Inr (Some e, db2) | None \<Rightarrow> lease_loop n vol l now db2) = Inr (event, db')"
    for row db1 event1 db2
  proof -
    from a have ok1: "inbox_ok (ib_events db1)" by simp
    note step = hand_out_step [OF h ok1]
    from ok1 row have p: "ir_status row = InboxProcessing" by (auto simp: inbox_ok_def list_all_iff lease_ok_def)
    show ?case
    proof (cases event1)
      case None
      with rest have "lease_loop n vol l now db2 = Inr (event, db')" by simp
      from Suc.IH [OF this] step a show ?thesis by (blast intro: events_evolve_trans)
    next
      case (Some e)
      from rest Some have e: "event = Some e" "db' = db2" by simp_all
      from step Some have h: "db2 = db1" "ev_row e = row" "readEvent vol row = Inr e" by simp_all
      from a row p h(3) show ?thesis unfolding e h(1) by (simp add: h(2))
    qed
  qed
  show ?case
  proof (cases "first_row (\<lambda>r. ir_lease_id r = Some (il_lease_id l)) (ib_events db)")
    case (Some replay)
    from first_row_Some [OF Some] have r: "replay \<in> set (ib_events db)" "ir_lease_id replay = Some (il_lease_id l)" by auto
    from Suc.prems(1) Some obtain event1 db2 where "hand_out vol now replay db = Inr (event1, db2)"
      "(case event1 of Some e \<Rightarrow> Inr (Some e, db2) | None \<Rightarrow> lease_loop n vol l now db2) = Inr (event, db')"
      by (auto simp: bindE_eq_Inr split: if_splits)
    from go_on [OF this(1) _ r this(2)] Suc.prems(2) show ?thesis by simp
  next
    case None
    show ?thesis
    proof (cases "due_events now db")
      case Nil
      with Suc.prems None show ?thesis by simp
    next
      case (Cons row rest)
      from Suc.prems(1) None Cons obtain rows leased event1 db2 where
        u: "updateE inbox_schema
             (\<lambda>r. ir_id r = ir_id row \<and> (ir_version r = ir_version row \<and> ir_status r = InboxPending \<and> ir_lease_id r = None))
             (leased_event_row l) (ib_events db) = Inr (rows, 1)"
        and f: "inboxRow (ir_id row) (db\<lparr>ib_events := rows\<rparr>) = Some leased"
        and h: "hand_out vol now leased (db\<lparr>ib_events := rows\<rparr>) = Inr (event1, db2)"
          "(case event1 of Some e \<Rightarrow> Inr (Some e, db2) | None \<Rightarrow> lease_loop n vol l now db2) = Inr (event, db')"
        by (auto simp: bindE_eq_Inr Let_def cast_def ill_typed_def split: if_splits option.splits)
      have a: "inbox_advances db (db\<lparr>ib_events := rows\<rparr>)"
        by (rule updated_advances [OF u Suc.prems(2)]) (auto simp: settled_event_def intro: released_moves)
      have d: "distinct (map ir_id (ib_events db))" using Suc.prems(2) by (simp add: inbox_ok_def)
      from first_row_Some [OF f [unfolded inboxRow_def]] have m: "leased \<in> set rows" "ir_id leased = ir_id row" by auto
      from Cons have "row \<in> set (due_events now db)" by simp
      then have row: "row \<in> set (ib_events db)" by (simp add: due_events_def ordered_rows_def)
      from single_update [OF u d row] obtain xs ys where
        s: "rows = xs @ leased_event_row l row # ys" "\<forall>r \<in> set xs \<union> set ys. ir_id r \<noteq> ir_id row" by auto
      with m have "leased = leased_event_row l row" by auto
      then have "ir_lease_id leased = Some (il_lease_id l)" by (simp add: leased_event_row_def)
      from go_on [OF h(1) a _ this h(2)] m show ?thesis by simp
    qed
  qed
qed simp

lemma leaseNext_step:
  assumes "leaseNext env vol l db = Inr (event, db')" and ok: "inbox_ok (ib_events db)"
  shows "inbox_advances db db' \<and>
    (\<forall>e. event = Some e \<longrightarrow> ev_row e \<in> set (ib_events db') \<and> ir_status (ev_row e) = InboxProcessing \<and>
       ir_lease_id (ev_row e) = Some (il_lease_id l) \<and> readEvent vol (ev_row e) = Inr e)"
proof -
  from assms(1) obtain now rows k where
    u: "updateE inbox_schema (expired_event now) (\<lambda>r. (released r)\<lparr>ir_status := InboxPending\<rparr>) (ib_events db) = Inr (rows, k)"
    and l: "lease_loop KERNEL_INBOX_UNREADABLE_HEAD_LIMIT vol l now (db\<lparr>ib_events := rows\<rparr>) = Inr (event, db')"
    by (auto simp: leaseNext_def leaseNext_body_def bindE_eq_Inr transaction_ok)
  have a: "inbox_advances db (db\<lparr>ib_events := rows\<rparr>)"
    by (rule updated_advances [OF u ok]) (auto simp: expired_event_def settled_event_def intro: released_moves)
  from lease_loop_step [OF l] a show ?thesis by (blast intro: events_evolve_trans)
qed

section \<open>Settling\<close>

lemma complete_step:
  assumes "complete_event env c outcome db = Inr (u, db')" and ok: "inbox_ok (ib_events db)"
  shows "inbox_advances db db'"
proof -
  from assms(1) obtain t rows n where
    u: "updateE inbox_schema (\<lambda>r. ir_id r = ic_event_id c \<and> claims_event c r)
         (\<lambda>r. (released r)\<lparr>ir_status := outcome, ir_consumed_at := Some t\<rparr>) (ib_events db) = Inr (rows, n)"
    and db': "db' = db\<lparr>ib_events := rows\<rparr>"
    by (auto simp: complete_event_def complete_body_def bindE_eq_Inr transaction_ok Let_def split: if_splits option.splits)
  show ?thesis unfolding db'
    by (rule updated_advances [OF u ok]) (auto simp: claims_event_def settled_event_def intro: released_moves)
qed

lemma retry_step:
  assumes "retry_event env c available db = Inr db'" and ok: "inbox_ok (ib_events db)"
  shows "inbox_advances db db'"
proof -
  from assms(1) obtain t rows n where
    u: "updateE inbox_schema (\<lambda>r. ir_id r = ic_event_id c \<and> claims_event c r)
         (\<lambda>r. (released r)\<lparr>ir_status := InboxPending, ir_available_at := t, ir_consumed_at := None\<rparr>) (ib_events db) = Inr (rows, n)"
    and db': "db' = db\<lparr>ib_events := rows\<rparr>"
    by (auto simp: retry_event_def bindE_eq_Inr split: if_splits)
  show ?thesis unfolding db'
    by (rule updated_advances [OF u ok]) (auto simp: claims_event_def settled_event_def intro: released_moves)
qed

lemma fence_step:
  assumes "setMaintenanceFence env closed expected db = Inr (fence, db')"
  shows "ib_events db' = ib_events db"
  using assms
  by (auto simp: setMaintenanceFence_def setMaintenanceFence_body_def transaction_ok bindE_eq_Inr Let_def split: if_splits)

section \<open>Sequences of operations\<close>

inductive inbox_step :: "inbox_database \<Rightarrow> inbox_database \<Rightarrow> bool" where
  ingested: "ingest env vol input db = (Inr (result, db'), vol') \<Longrightarrow> inbox_step db db'"
| leased: "leaseNext env vol l db = Inr (event, db') \<Longrightarrow> inbox_step db db'"
| completed: "complete_event env c outcome db = Inr (u, db') \<Longrightarrow> inbox_step db db'"
| retried: "retry_event env c available db = Inr db' \<Longrightarrow> inbox_step db db'"
| fenced: "setMaintenanceFence env closed expected db = Inr (fence, db') \<Longrightarrow> inbox_step db db'"

lemma step_advances: "inbox_step db db' \<Longrightarrow> inbox_ok (ib_events db) \<Longrightarrow> inbox_advances db db'"
  by (induction rule: inbox_step.induct)
    (auto dest: ingest_step leaseNext_step complete_step retry_step fence_step)

lemma steps_advance: "inbox_step\<^sup>*\<^sup>* db db' \<Longrightarrow> inbox_ok (ib_events db) \<Longrightarrow> inbox_advances db db'"
  by (induction rule: rtranclp_induct) (auto dest: step_advances intro: events_evolve_trans)

end
