(* ===== verification/SteeringProperties.thy ===== *)
theory SteeringProperties
  imports InboxFacts JsonRoundTrip
begin

text \<open>
  The inbox and steering together: the deliveries of one event are handed out as one row, and a message that
  was accepted reaches the session that it was sent to, or none.
\<close>

section \<open>One row for a group\<close>

text \<open>C22: of all deliveries of one event, the workers are only ever given one row, and not after it was
  settled: when an event of the group has been leased and, after any operations on the inbox, a lease
  returns an event of the same group, then it is the same row with the same content, and it had not been
  settled in between.\<close>

theorem one_event_per_group:
  assumes ok: "inbox_ok (ib_events db)" and first: "leaseNext env vol l db = Inr (Some e1, db1)"
    and steps: "inbox_step\<^sup>*\<^sup>* db1 db2" and second: "leaseNext env' vol' l' db2 = Inr (Some e2, db3)"
    and group: "event_group (ev_row e2) = event_group (ev_row e1)"
  shows "ir_id (ev_row e2) = ir_id (ev_row e1) \<and> ir_intent (ev_row e2) = ir_intent (ev_row e1) \<and>
    ir_payload (ev_row e2) = ir_payload (ev_row e1) \<and>
    (\<exists>r \<in> set (ib_events db2). ir_id r = ir_id (ev_row e1) \<and> \<not> settled_event r)"
proof -
  from leaseNext_step [OF first ok] have ok1: "inbox_ok (ib_events db1)"
    and e1: "ev_row e1 \<in> set (ib_events db1)" "ir_status (ev_row e1) = InboxProcessing" by auto
  from steps_advance [OF steps ok1] have a: "events_evolve (ib_events db1) (ib_events db2)" and ok2: "inbox_ok (ib_events db2)" by auto
  from leaseNext_step [OF second ok2] have b: "events_evolve (ib_events db2) (ib_events db3)" and ok3: "inbox_ok (ib_events db3)"
    and e2: "ev_row e2 \<in> set (ib_events db3)" "ir_status (ev_row e2) = InboxProcessing" by auto
  from live_row [OF ok1 ok3 events_evolve_trans [OF a b] e1(1) _ e2(1)] e1(2) e2(2) group
  have m: "event_moves (ev_row e1) (ev_row e2)" by simp
  from events_evolve_row [OF a e1(1)] obtain r where r: "r \<in> set (ib_events db2)" "event_moves (ev_row e1) r" by blast
  from events_evolve_row [OF b r(1)] obtain s where s: "s \<in> set (ib_events db3)" "event_moves r s" by blast
  have "ir_id s = ir_id (ev_row e2)" using m r(2) s(2) by (simp add: event_moves_def)
  with ok3 s(1) e2(1) have "s = ev_row e2" by (auto simp: inbox_ok_def distinct_map dest: inj_onD)
  with s(2) e2(2) have "\<not> settled_event r" by (auto simp: event_moves_def settled_event_def)
  with r m show ?thesis by (auto simp: event_moves_def)
qed

section \<open>Envelopes as payloads\<close>

lemma canonical_object: "canonicalValue (JObj es) = JObj (canonical_entries es)"
  by (simp add: canonical_entries_def)

lemma field_canonical:
  assumes "distinct (keys es)"
  shows "field (JObj (canonical_entries es)) k f = Option.bind (map_option canonicalValue (map_of es k)) f"
  using map_of_canonical [OF assms] by (simp add: field_def)

lemma binding_read:
  fixes b :: envelope_binding
  shows "as_envelope_binding (canonicalValue (JObj
    [(''pipeline_run_id'', JStr (eb_pipeline_run_id b)), (''attempt_id'', JStr (eb_attempt_id b)),
     (''request_hash'', JStr (eb_request_hash b)), (''definition_bundle_hash'', JStr (eb_definition_bundle_hash b)),
     (''input_subject'', JStr (eb_input_subject b)), (''native_session_id'', JStr (eb_native_session_id b)),
     (''generation'', json_int (eb_generation b)), (''lease_id'', JStr (eb_lease_id b)),
     (''lease_generation'', json_int (eb_lease_generation b)),
     (''lease_purpose'', JStr (purpose_name (eb_lease_purpose b)))])) = Some b"
  unfolding as_envelope_binding_def Let_def canonical_object
  by (simp add: field_canonical del: canonicalValue.simps(2) as_purpose.simps)

lemma envelope_read:
  assumes "en_schema e = KERNEL_STEERING_ENVELOPE_SCHEMA"
  shows "steeringEnvelope (canonicalValue (json_of_envelope e)) = Inr e"
proof -
  obtain es where es: "json_of_envelope e = JObj es" and d: "distinct (keys es)"
    and s: "map_of es ''schema'' = Some (JStr (en_schema e))"
    "map_of es ''message_id'' = Some (JStr (en_message_id e))" "map_of es ''source'' = Some (JStr (en_source e))"
    "map_of es ''body'' = Some (JStr (en_body e))"
    "Option.bind (map_option canonicalValue (map_of es ''binding'')) as_envelope_binding = Some (en_binding e)"
    by (rule that [of "obj_entries (json_of_envelope e)"])
      (simp_all add: json_of_envelope_def Let_def binding_read del: canonicalValue.simps(2))
  have "map_of (canonical_entries es) ''schema'' = Some (JStr KERNEL_STEERING_ENVELOPE_SCHEMA)"
    using map_of_canonical [OF d] s(1) assms by simp
  then show ?thesis using assms s
    by (simp add: steeringEnvelope_def es canonical_object cast_def field_canonical [OF d] del: canonicalValue.simps(2))
qed

lemma envelope_keyed: "keyed (json_of_envelope e)"
  by (simp add: json_of_envelope_def Let_def)

text \<open>An event whose payload is stored in its row reads the same from every volume.\<close>

lemma inline_event:
  assumes "readEvent vol row = Inr e" and "pc_inline (ir_payload row) = Some (canonicalJson v)" and "keyed v"
    and "payloadPointer (ir_payload row) = Inr None"
  shows "ev_payload e = canonicalValue v"
proof -
  have "json_parse (canonicalJson v) = Some (canonicalValue v)"
    unfolding canonicalJson_def by (rule parse_stringify_aux [OF keyed_canonical [OF assms(3)]])
  with assms(1,2,4) show ?thesis
    by (auto simp: readEvent_def inbox_raw_def inbox_pointer_def bindE_eq_Inr dest!: jsonAt_ok split: option.splits if_splits sum.splits)
qed

section \<open>Messages\<close>

lemma accepted_event:
  assumes i: "ingest env vol input db = (Inr (Inserted e, db1), vol1)"
    and inline: "pc_inline (ir_payload (ev_row e)) \<noteq> None"
  shows "ev_row e \<in> set (ib_events db1) \<and> ii_generation (ir_intent (ev_row e)) = in_generation input \<and>
    payloadPointer (ir_payload (ev_row e)) = Inr None \<and>
    pc_inline (ir_payload (ev_row e)) = Some (canonicalJson (in_payload input))"
  using i
proof (cases rule: ingest_cases)
  case (new n prepared)
  from new(3) show ?thesis
  proof (rule ingest_new_rows)
    fix row columns
    assume rows: "ib_events db1 = ib_events db @ [row]" and row: "ir_intent row = intended n prepared" "ir_payload row = columns"
      "payloadColumns vol1 prepared = Inr columns"
      and ev: "\<exists>f. readEvent vol1 row = Inr f \<and> ev_row f = row \<and>
       (Inserted e = Inserted f \<and> ir_status row = InboxPending \<and> (\<forall>r \<in> set (ib_events db). event_group r \<noteq> event_group row) \<or>
        Inserted e = Reordered f \<and> ir_status row = InboxStale \<and>
        (\<exists>r \<in> set (ib_events db). event_group r = event_group row \<and> sameSemanticEvent (ir_intent r) (ir_intent row)))"
    from ev have e: "ev_row e = row" by auto
    from inline have "pc_inline columns \<noteq> None" unfolding e row(2) .
    with row(3) have t: "pp_token prepared = None" and c: "columns = \<lparr>pc_inline = pp_inline prepared, pc_algorithm = None,
        pc_digest = None, pc_bytes = None, pc_encoding = None, pc_media_type = None, pc_payload_schema = None\<rparr>"
      by (auto simp: payloadColumns_def bindE_eq_Inr split: option.splits)
    from new(2) t have p: "pp_inline prepared = Some (canonicalJson (ni_payload n))"
      by (auto simp: preparePayload_def Let_def bindE_eq_Inr split: if_splits)
    from new(1) have n: "ni_payload n = in_payload input" "ni_input n = input"
      by (auto simp: normalizeInput_def Let_def bindE_eq_Inr dest!: jsonAt_ok split: if_splits)
    from rows row(1,2) c p n show ?thesis
      unfolding e by (simp add: intended_def payloadPointer_def)
  qed
qed simp_all

lemma enqueued:
  assumes "enqueueSteering kenv resolve env vol m kdb db = (Inr (IngressAccepted e False, db1), vol1)"
  obtains b envelope where
    "loadCurrentRuntimeSession kenv resolve (sm_pipeline_run_id m) (sm_attempt_id m) kdb = Inr (Some b)"
    "createKernelSteeringEnvelope (sm_message_id m) (sm_source m) (sm_body m) b = Inr envelope"
    "ingest env vol (steering_event m b envelope) db = (Inr (Inserted e, db1), vol1)"
proof -
  from assms obtain b envelope where s: "seal_message kenv resolve m kdb = Inr (b, envelope)"
    and i: "ingestMutation env vol (steering_event m b envelope) db = (Inr (IngressAccepted e False, db1), vol1)"
    by (auto simp: enqueueSteering_def ingressResponse_def split: sum.splits if_splits)
  obtain outcome where o: "ingest env vol (steering_event m b envelope) db = (outcome, vol1)"
    and r: "bindE outcome (\<lambda>(r, db'). Inr (ingressResponse r, db')) = Inr (IngressAccepted e False, db1)"
    using i by (auto simp: ingestMutation_def Let_def split: prod.splits)
  from r obtain result where "outcome = Inr (result, db1)" "ingressResponse result = IngressAccepted e False"
    by (auto simp: bindE_eq_Inr)
  then have "outcome = Inr (Inserted e, db1)" by (cases result) (simp_all add: ingressResponse_def)
  with s o show thesis
    by (intro that [of b envelope]) (auto simp: seal_message_def bindE_eq_Inr split: option.splits)
qed

lemma sealed:
  assumes "createKernelSteeringEnvelope mid source body b = Inr e"
  shows "en_schema e = KERNEL_STEERING_ENVELOPE_SCHEMA \<and> en_message_id e = mid \<and> en_source e = source \<and> en_body e = lf_only body \<and>
    en_binding e = sealed_binding b \<and> assertBinding b = Inr ()"
  using assms by (auto simp: createKernelSteeringEnvelope_def bindE_eq_Inr split: if_splits)

lemma authorized:
  assumes "authorizeKernelSteeringDelivery e current = Inr a"
  obtains c where "current = Some c" "assertBinding c = Inr ()" "en_binding e = sealed_binding c"
    "au_message_id a = en_message_id e" "au_source a = en_source e" "au_body a = en_body e"
    "au_binding a = sealed_binding c" "au_scope a = sb_scope c" "au_policy a = steering_policy_of c"
proof -
  from assms obtain c x where "current = Some c" "assertBinding c = Inr ()"
    "createKernelSteeringEnvelope (en_message_id e) (en_source e) (en_body e) c = Inr x"
    "fence_mismatch (en_binding e) (en_binding x) = None"
    "au_message_id a = en_message_id e" "au_source a = en_source e" "au_body a = en_body e"
    "au_binding a = sealed_binding c" "au_scope a = sb_scope c" "au_policy a = steering_policy_of c"
    by (auto simp: authorizeKernelSteeringDelivery_def exactEnvelope_def bindE_eq_Inr split: if_splits option.splits)
  with that show thesis by (auto simp: fence_mismatch_None dest: sealed)
qed

lemma live_binding:
  "assertBinding c = Inr () \<Longrightarrow> sb_lease_started c \<and> live_phase (sb_lease_purpose c) (sb_attempt_status c)"
  by (auto simp: assertBinding_def bindE_eq_Inr split: if_splits)

text \<open>C21: a message that was accepted, and whose payload is short enough to stand in its inbox row (64 KiB of
  canonical text; a longer one goes to a blob), is delivered to the very session that it was sent to, or not at
  all: when its event comes back from a lease after any operations on the inbox and its delivery is authorised
  against a later state of the kernel, then the session bound there has the run, the attempt, the request, the
  bundle, the input subject, the native session, the generation and the lease of the session that it was sealed for;
  it is live; the message, its source and its body are the ones that were sent, with the line ends of the body
  normalised.  The policy of the delivery is fixed by the lease: in a result correction it is the result phase with
  inspection authority, the result tool alone, no MCP and no provider; in work it is the authority of the session
  and the profile of the attempt.\<close>

theorem steering_reaches_its_session:
  assumes sent: "enqueueSteering kenv resolve env vol m kdb db = (Inr (IngressAccepted e False, db1), vol1)"
    and inline: "pc_inline (ir_payload (ev_row e)) \<noteq> None" and ok: "inbox_ok (ib_events db)"
    and steps: "inbox_step\<^sup>*\<^sup>* db1 db2" and leased: "leaseNext env' vol2 l db2 = Inr (Some f, db3)"
    and same: "ir_id (ev_row f) = ir_id (ev_row e)"
    and delivered: "authorizeLeasedSteering kenv' resolve' f kdb' = Inr a"
  shows "\<exists>b c. loadCurrentRuntimeSession kenv resolve (sm_pipeline_run_id m) (sm_attempt_id m) kdb = Inr (Some b) \<and>
    loadCurrentRuntimeSession kenv' resolve' (sb_pipeline_run_id b) (sb_attempt_id b) kdb' = Inr (Some c) \<and>
    sealed_binding c = sealed_binding b \<and>
    sb_lease_started c \<and> live_phase (sb_lease_purpose c) (sb_attempt_status c) \<and>
    au_message_id a = sm_message_id m \<and> au_source a = sm_source m \<and> au_body a = lf_only (sm_body m) \<and>
    au_binding a = sealed_binding b \<and> au_scope a = sb_scope c \<and>
    au_policy a =
      (if sb_lease_purpose b = CorrectionLease
         then \<lparr>po_phase = CorrectionLease, po_repository_authority = InspectAuthority, po_result_only = True,
           po_allowed_tools = ResultTools [''ot-result''], po_mcp = NoAccess, po_provider_access = NoAccess\<rparr>
       else \<lparr>po_phase = WorkLease, po_repository_authority = sb_repository_authority c, po_result_only = False,
           po_allowed_tools = AttemptProfile, po_mcp = ProfileAccess, po_provider_access = ProfileAccess\<rparr>)"
proof -
  from sent obtain b x where b: "loadCurrentRuntimeSession kenv resolve (sm_pipeline_run_id m) (sm_attempt_id m) kdb = Inr (Some b)"
    and x: "createKernelSteeringEnvelope (sm_message_id m) (sm_source m) (sm_body m) b = Inr x"
    and i: "ingest env vol (steering_event m b x) db = (Inr (Inserted e, db1), vol1)" by (rule enqueued)
  from accepted_event [OF i inline] have e: "ev_row e \<in> set (ib_events db1)"
    "payloadPointer (ir_payload (ev_row e)) = Inr None"
    "pc_inline (ir_payload (ev_row e)) = Some (canonicalJson (json_of_envelope x))" by (simp_all add: steering_event_def)
  from ingest_step [OF i ok] have ok1: "inbox_ok (ib_events db1)" by simp
  from steps_advance [OF steps ok1] have m12: "events_evolve (ib_events db1) (ib_events db2)"
    and ok2: "inbox_ok (ib_events db2)" by auto
  from leaseNext_step [OF leased ok2] have m23: "events_evolve (ib_events db2) (ib_events db3)"
    and ok3: "inbox_ok (ib_events db3)" and f: "ev_row f \<in> set (ib_events db3)" "readEvent vol2 (ev_row f) = Inr f" by auto
  from events_evolve_row [OF events_evolve_trans [OF m12 m23] e(1)] obtain r where
    r: "r \<in> set (ib_events db3)" "event_moves (ev_row e) r" by blast
  with same have "ir_id r = ir_id (ev_row f)" by (simp add: event_moves_def)
  with ok3 r(1) f(1) have "r = ev_row f" by (auto simp: inbox_ok_def distinct_map dest: inj_onD)
  with r(2) have p: "ir_payload (ev_row f) = ir_payload (ev_row e)" by (simp add: event_moves_def)
  note sealed = sealed [OF x]
  have "steeringEnvelope (ev_payload f) = Inr x"
    using inline_event [OF f(2) _ envelope_keyed] e(2,3) envelope_read sealed unfolding p by simp
  with delivered obtain current where
    current: "loadCurrentRuntimeSession kenv' resolve' (sb_pipeline_run_id b) (sb_attempt_id b) kdb' = Inr current"
    and a: "authorizeKernelSteeringDelivery x current = Inr a"
    by (auto simp: authorizeLeasedSteering_def Let_def bindE_eq_Inr sealed sealed_binding_def split: if_splits)
  from a obtain c where c: "current = Some c" "assertBinding c = Inr ()" "sealed_binding c = sealed_binding b"
    "au_message_id a = sm_message_id m" "au_source a = sm_source m" "au_body a = lf_only (sm_body m)"
    "au_binding a = sealed_binding c" "au_scope a = sb_scope c" "au_policy a = steering_policy_of c"
    by (rule authorized) (use sealed in simp)
  then have "sb_lease_purpose c = sb_lease_purpose b" by (simp add: sealed_binding_def)
  with b current c live_binding [OF c(2)] show ?thesis
    by (intro exI [of _ b] exI [of _ c]) (simp add: steering_policy_of_def)
qed

end
