(* ===== verification/SteeringExamples.thy ===== *)
theory SteeringExamples
  imports SteeringProperties StoreExamples JsonSize
begin

text \<open>
  Concrete inboxes: a live session in the kernel database, a message sealed for it, and the leases of its event.
  The witnesses of the properties of steering apply them here.
\<close>

section \<open>Leasing a single event\<close>

lemma leased_check: "inbox_check r \<Longrightarrow> inbox_check (leased_event_row l r)"
  by (simp add: inbox_check_def leased_event_row_def Let_def)

lemma released_check: "inbox_check r \<Longrightarrow> inbox_check ((released r)\<lparr>ir_status := s\<rparr>)"
  by (simp add: inbox_check_def released_def Let_def)

lemma read_again:
  assumes "readEvent vol r = Inr e" and "ir_id r' = ir_id r" "ir_payload r' = ir_payload r" "ir_intent r' = ir_intent r"
  shows "readEvent vol r' = Inr (e\<lparr>ev_row := r'\<rparr>)"
proof -
  have "inbox_raw vol r' = inbox_raw vol r" by (simp only: inbox_raw_def inbox_pointer_def assms(2-4))
  with assms(1) show ?thesis
    by (cases "inbox_raw vol r") (auto simp: readEvent_def assms(2,4) split: option.splits if_splits)
qed

definition lease_ready :: "inbox_env \<Rightarrow> inbox_lease \<Rightarrow> bool" where
  "lease_ready env l \<longleftrightarrow>
     bounded (il_owner_id l) ''inbox lease owner'' 200 RECORD_ID = Inr () \<and>
     bounded (il_lease_id l) ''inbox lease ID'' 200 RECORD_ID = Inr () \<and>
     iso (il_expires_at l) ''inbox lease expiry'' = Inr (il_expires_at l) \<and>
     iso (ie_now env) ''inbox lease timestamp'' = Inr (ie_now env)"

lemma lease_single:
  assumes l: "lease_ready env l" and db: "ib_events db = [r]" "inbox_check r" "ie_refers env = (\<lambda>_. True)"
    and r: "ir_status r = InboxPending \<or> expired_event (ie_now env) r" "ir_lease_id r = None \<or> expired_event (ie_now env) r"
      "ir_available_at r \<le> ie_now env"
    and e: "readEvent vol r = Inr e"
  obtains r' where "leaseNext env vol l db = Inr (Some (e\<lparr>ev_row := r'\<rparr>), db\<lparr>ib_events := [r']\<rparr>)"
    "ir_id r' = ir_id r" "ir_intent r' = ir_intent r" "ir_payload r' = ir_payload r" "inbox_check r'"
    "ir_status r' = InboxProcessing" "ir_lease_id r' = Some (il_lease_id l)" "ir_lease_expires r' = Some (il_expires_at l)"
    "ir_available_at r' = ir_available_at r"
proof -
  define q where "q = (if expired_event (ie_now env) r then (released r)\<lparr>ir_status := InboxPending\<rparr> else r)"
  have q: "inbox_check q" "ir_status q = InboxPending" "ir_lease_id q = None" "ir_available_at q \<le> ie_now env"
    "ir_available_at q = ir_available_at r"
    "ir_id q = ir_id r" "ir_intent q = ir_intent r" "ir_payload q = ir_payload r"
    using db r released_check [OF db(2)] unfolding q_def
    by (cases "expired_event (ie_now env) r"; simp; simp add: released_def)+
  let ?r = "leased_event_row l q"
  have c: "inbox_check ?r" by (rule leased_check [OF q(1)])
  have f: "ir_id ?r = ir_id r" "ir_intent ?r = ir_intent r" "ir_payload ?r = ir_payload r" "ir_lease_id ?r = Some (il_lease_id l)"
    using q by (simp_all add: leased_event_row_def)
  have read: "readEvent vol ?r = Inr (e\<lparr>ev_row := ?r\<rparr>)" by (rule read_again [OF e f(1,3,2)])
  have upd: "updateE inbox_schema (expired_event (ie_now env)) (\<lambda>r. (released r)\<lparr>ir_status := InboxPending\<rparr>) [r] =
      Inr ([q], if expired_event (ie_now env) r then 1 else 0)"
    using q(1) db(2) by (cases "expired_event (ie_now env) r") (simp_all add: updateE_def updated_rows_def inbox_schema_def q_def)
  have loop: "lease_loop (Suc n) vol l (ie_now env) (db\<lparr>ib_events := [q]\<rparr>) =
      Inr (Some (e\<lparr>ev_row := ?r\<rparr>), db\<lparr>ib_events := [?r]\<rparr>)" for n
    using q c f read by (simp add: first_row_def due_events_def ordered_rows_def updateE_def updated_rows_def
        inbox_schema_def inboxRow_def cast_def hand_out_def)
  have "lease_loop KERNEL_INBOX_UNREADABLE_HEAD_LIMIT vol l (ie_now env) (db\<lparr>ib_events := [q]\<rparr>) =
      Inr (Some (e\<lparr>ev_row := ?r\<rparr>), db\<lparr>ib_events := [?r]\<rparr>)"
    using loop [of 99] by (simp add: KERNEL_INBOX_UNREADABLE_HEAD_LIMIT_def del: lease_loop.simps)
  with upd have "leaseNext env vol l db = Inr (Some (e\<lparr>ev_row := ?r\<rparr>), db\<lparr>ib_events := [?r]\<rparr>)"
    using l db(1,3) unfolding leaseNext_def lease_ready_def leaseNext_body_def
    by (simp add: transaction_ok inbox_keys_def del: lease_loop.simps)
  with q c f show thesis by (intro that [of ?r]) (simp_all add: leased_event_row_def)
qed

section \<open>A live session\<close>

lemma all_members: "\<forall>c \<in> D. P c \<Longrightarrow> \<forall>c \<in> S. c \<in> D \<Longrightarrow> \<forall>c \<in> S. P c"
  by blast

lemma SHA256_sha256: "SHA256 (sha256 m)"
proof -
  have h: "hash_check (sha256 m)" by (rule hash_check_sha256)
  then have "length (sha256 m) = 64" using sql_length_hex [of "sha256 m"] by (simp add: hash_check_def)
  moreover have a: "\<forall>c \<in> set ''0123456789abcdef''. is_hex c" by code_simp
  from h have "\<forall>c \<in> set (sha256 m). c \<in> set ''0123456789abcdef''"
    unfolding hash_check_def lower_hex_def list_all_iff by (rule conjunct2)
  from all_members [OF a this] have "all_in is_hex (sha256 m)" unfolding all_in_def list_all_iff .
  ultimately show ?thesis by (simp only: SHA256_def)
qed

definition ex_live :: "string \<Rightarrow> kernel_attempt" where
  "ex_live h = (ex_attempt ''a'' (StageScope ''build''))
     \<lparr>ka_definition_bundle_hash := h, ka_status := Running, ka_native_session_id := Some ''s'',
      ka_lease := Some \<lparr>le_id = ''l'', le_generation = 1, le_worker_id = ''w'', le_purpose = WorkLease,
        le_expires_at = ''2025-01-03T00:00:00.000Z'', le_started = True\<rparr>\<rparr>"

definition ex_live_run :: "string \<Rightarrow> kernel_run" where
  "ex_live_run h = (ex_run ''build'' [ex_live h])\<lparr>kr_definition_bundle_hash := h\<rparr>"

definition ex_live_db :: "string \<Rightarrow> database" where
  "ex_live_db h =
     \<lparr>db_runs = [ex_run_row (ex_live_run h)], db_attempts = [new_attempt_row (ex_live h) [] [] (sv_now ex_env)],
      db_records = [], db_effects = [], db_checkpoints = []\<rparr>"

definition ex_blob_env :: store_env where
  "ex_blob_env = ex_env\<lparr>sv_volume := [sha256 [120] \<mapsto> \<lparr>bo_bytes = [120], bo_text = ''x'', bo_identity = (0, 0)\<rparr>]\<rparr>"

definition ex_resolver :: manifest_resolver where
  "ex_resolver p h bytes = Inr (ex_manifest\<lparr>cm_pipeline_id := p, cm_definition_bundle_hash := h\<rparr>)"

lemma ex_live_rows:
  "runRow ''r'' (ex_live_db h) = Inr (ex_run_row (ex_live_run h)) \<and>
   runFromRow (ex_run_row (ex_live_run h)) (ex_live_db h) = Inr (ex_live_run h)"
  by code_simp

lemma ex_live_attempt: "attemptById env ''a'' ''r'' (ex_live_db h) = Inr (ex_live h)"
  by code_simp

definition ex_session :: "string \<Rightarrow> session_binding" where
  "ex_session h =
     \<lparr>sb_pipeline_run_id = ''r'', sb_attempt_id = ''a'', sb_request_hash = ex_hash, sb_definition_bundle_hash = h,
      sb_input_subject = ex_subject, sb_native_session_id = ''s'', sb_scope = StageScope ''build'', sb_generation = 0,
      sb_attempt_status = Running, sb_repository_authority = InspectAuthority, sb_lease_id = ''l'',
      sb_lease_generation = 1, sb_lease_worker_id = ''w'', sb_lease_purpose = WorkLease,
      sb_lease_expires_at = ''2025-01-03T00:00:00.000Z'', sb_lease_started = True\<rparr>"

lemma ex_live_binding: "liveBinding (ex_live_run h) (ex_live h) (sv_now ex_env) = Inr (Some (ex_session h))"
  by code_simp

lemma ex_live_fields:
  "kr_id (ex_live_run h) = ''r'' \<and> kr_definition_bundle_hash (ex_live_run h) = h \<and> kr_pipeline_id (ex_live_run h) = ''p'' \<and>
   ka_id (ex_live h) = ''a'' \<and> ka_pipeline_run_id (ex_live h) = ''r'' \<and>
   rw_id (ex_run_row (ex_live_run h)) = ''r'' \<and> rw_bundle_hash (ex_run_row (ex_live_run h)) = h \<and>
   rw_bundle_bytes (ex_run_row (ex_live_run h)) = 1"
  by code_simp

lemma ex_session_valid: "SHA256 h \<Longrightarrow> assertBinding (ex_session h) = Inr ()"
proof -
  assume h: "SHA256 h"
  have "nonEmptyId ''r'' x = Inr ()" "nonEmptyId ''a'' x = Inr ()" "nonEmptyId ''s'' x = Inr ()"
    "nonEmptyId ''l'' x = Inr ()" "nonEmptyId ''w'' x = Inr ()" "assertScope (StageScope ''build'') = Inr ()"
    "SHA256 ex_hash" "SESSION_SUBJECT ex_subject" "canonical_ms ''2025-01-03T00:00:00.000Z'' \<noteq> None"
    "isSafeInteger 0" "isSafeInteger 1" for x by code_simp+
  with h show ?thesis by (simp add: assertBinding_def ex_session_def live_phase_def)
qed

lemma ex_bundle_blob:
  "store_readBlob ex_blob_env db ''r'' ''definition_bundle'' (sha256 [120])
     \<lparr>bp_digest = sha256 [120], bp_bytes = 1, bp_encoding = Utf8, bp_media_type = ''application/json'',
      bp_payload_schema = DEFINITION_BUNDLE_SCHEMA\<rparr> status =
   Inr \<lparr>bo_bytes = [120], bo_text = ''x'', bo_identity = (0, 0)\<rparr>"
proof -
  let ?p = "\<lambda>h. \<lparr>bp_digest = h, bp_bytes = 1, bp_encoding = Utf8, bp_media_type = ''application/json'',
      bp_payload_schema = DEFINITION_BUNDLE_SCHEMA\<rparr>"
  have "MEDIA_TYPE ''application/json''" "PAYLOAD_SCHEMA DEFINITION_BUNDLE_SCHEMA" "isSafeInteger 1"
    "length DEFINITION_BUNDLE_SCHEMA = 33" by code_simp+
  moreover from this(4) have "DEFINITION_BUNDLE_SCHEMA \<noteq> []" by auto
  ultimately have "validateBlobPointer (?p h) = Inr (?p h)" if "SHA256 h" for h
    using that by (auto simp: validateBlobPointer_def parseBlobPointer_def json_of_blob_def objectAt_def enumAt_def
        digest_at_def stringAt_def integerAt_def SHA256_def MAX_SAFE_INTEGER_def)
  from this [OF SHA256_sha256] have "validateBlobPointer (?p (sha256 [120])) = Inr (?p (sha256 [120]))" .
  then show ?thesis by (simp add: store_readBlob_def verifyObject_def blob_read_def blob_verify_def ex_blob_env_def)
qed

lemma ex_live_session:
  "loadCurrentRuntimeSession ex_blob_env ex_resolver ''r'' ''a'' (ex_live_db (sha256 [120])) =
     Inr (Some (ex_session (sha256 [120])))"
proof -
  have "validId ''r'' x = Inr ()" "validId ''a'' x = Inr ()" for x by code_simp+
  moreover have "materializeExactRecords env ''r'' [] s (ex_live_db h) = Inr []"
    "materializeExactCheckpoints env ''r'' [] s (ex_live_db h) = Inr []" for env s h
    by (simp_all add: materializeExactRecords_def materializeExactCheckpoints_def)
  ultimately show ?thesis
    using ex_live_rows ex_live_attempt ex_live_fields ex_live_binding
    by (simp add: loadCurrentRuntimeSession_def load_session_def loadExactReductionView_def
        loadExactDefinitionBundleBytes_def ex_bundle_blob ex_resolver_def exactAttempt_def)
       (simp add: ex_blob_env_def)
qed

section \<open>A message\<close>

definition ex_message :: steering_message where
  "ex_message = \<lparr>sm_message_id = ''m'', sm_source = ''human'', sm_body = ''go'', sm_source_provider = ''chat'',
     sm_delivery_id = ''d'', sm_delivery_attempt = 1, sm_pipeline_run_id = ''r'', sm_attempt_id = ''a''\<rparr>"

definition ex_envelope :: "string \<Rightarrow> steering_envelope" where
  "ex_envelope h = \<lparr>en_schema = KERNEL_STEERING_ENVELOPE_SCHEMA, en_message_id = ''m'', en_source = ''human'',
     en_body = ''go'', en_binding = sealed_binding (ex_session h)\<rparr>"

lemma ex_sealed:
  assumes "SHA256 h"
  shows "createKernelSteeringEnvelope ''m'' ''human'' ''go'' (ex_session h) = Inr (ex_envelope h)"
proof -
  have "nonEmptyId ''m'' x = Inr ()" "trim ''go'' \<noteq> []" "byteLength ''go'' = 2" "lf_only ''go'' = ''go''" for x by code_simp+
  with ex_session_valid [OF assms] show ?thesis
    by (simp add: createKernelSteeringEnvelope_def ex_envelope_def MAX_STEERING_BODY_BYTES_def)
qed

definition ex_inbox_env :: "string \<Rightarrow> inbox_env" where
  "ex_inbox_env now = \<lparr>ie_now = now, ie_identity = (0, 0), ie_refers = (\<lambda>_. True)\<rparr>"

definition ex_normalized :: "string \<Rightarrow> normalized_input" where
  "ex_normalized h =
     (let i = steering_event ex_message (ex_session h) (ex_envelope h) in
      \<lparr>ni_id = ''steering-m'', ni_input = i, ni_payload = json_of_envelope (ex_envelope h),
       ni_available_at = ''2025-01-02T00:00:00.000Z''\<rparr>)"

lemma ex_normalize:
  "normalizeInput (ex_inbox_env ''2025-01-02T00:00:00.000Z'') (steering_event ex_message (ex_session h) (ex_envelope h)) =
     Inr (ex_normalized h)"
  by code_simp

lemma escape_bytes: "byteLength (escape_char c) \<le> 8"
  by (simp add: escape_char_def)

lemma quote_bytes: "byteLength (quote s) \<le> 8 * int (length s) + 2"
proof -
  have "byteLength (concat (map escape_char s)) \<le> 8 * int (length s)"
  proof (induction s)
    case (Cons c s)
    with escape_bytes [of c] show ?case by simp
  qed simp
  then show ?thesis by (simp add: quote_def)
qed

lemma ex_small:
  assumes "SHA256 h"
  shows "json_size (json_of_envelope (ex_envelope h)) \<le> 4000"
proof -
  have e: "json_size (json_of_envelope (ex_envelope h)) + byteLength (quote []) =
      json_size (json_of_envelope (ex_envelope [])) + byteLength (quote h)"
    by (simp add: json_of_envelope_def ex_envelope_def sealed_binding_def ex_session_def Let_def json_size_obj
        entry_size_def json_size_def)
  have "json_size (json_of_envelope (ex_envelope [])) \<le> 3000" by code_simp
  with e quote_bytes [of h] assms show ?thesis by (simp add: SHA256_def quote_def)
qed

lemma ex_prepared:
  assumes "SHA256 h"
  shows "preparePayload env vol (json_of_envelope (ex_envelope h)) schema = Inr
    (\<lparr>pp_hash = digestCanonicalJson (json_of_envelope (ex_envelope h)),
      pp_inline = Some (canonicalJson (json_of_envelope (ex_envelope h))), pp_token = None\<rparr>, vol)"
  using ex_small [OF assms]
  by (simp add: preparePayload_def Let_def byteLength_canonicalJson KERNEL_INBOX_MAX_PAYLOAD_BYTES_def
      KERNEL_INBOX_INLINE_PAYLOAD_MAX_BYTES_def)

definition ex_event_row :: "string \<Rightarrow> string \<Rightarrow> string \<Rightarrow> inbox_row" where
  "ex_event_row h hash canonical =
     new_event_row (ex_normalized h) (intended (ex_normalized h) \<lparr>pp_hash = hash, pp_inline = Some canonical, pp_token = None\<rparr>)
       \<lparr>pc_inline = Some canonical, pc_algorithm = None, pc_digest = None, pc_bytes = None, pc_encoding = None,
        pc_media_type = None, pc_payload_schema = None\<rparr> InboxPending ''2025-01-02T00:00:00.000Z''"

lemma ex_event_check:
  assumes "hash_check hash" and "json_valid canonical" and "byteLength canonical \<le> 65536"
  shows "inbox_check (ex_event_row h hash canonical)"
proof -
  have "inbox_check (ex_event_row h ex_hash ''{}'')" by code_simp
  with assms show ?thesis
    by (simp add: inbox_check_def ex_event_row_def new_event_row_def intended_def payload_check_def Let_def)
qed

lemma ex_payload:
  "canonicalValue (canonicalValue (json_of_envelope (ex_envelope h))) = canonicalValue (json_of_envelope (ex_envelope h)) \<and>
   jsonAt (Some (canonicalValue (json_of_envelope (ex_envelope h)))) ''payload'' = Inr (canonicalValue (json_of_envelope (ex_envelope h)))"
  by code_simp

definition ex_sent :: "string \<Rightarrow> inbox_row" where
  "ex_sent h = ex_event_row h (digestCanonicalJson (json_of_envelope (ex_envelope h)))
     (canonicalJson (json_of_envelope (ex_envelope h)))"

lemma ex_sent_parse:
  "json_parse (canonicalJson (json_of_envelope (ex_envelope h))) = Some (canonicalValue (json_of_envelope (ex_envelope h)))"
  unfolding canonicalJson_def by (rule parse_stringify_aux [OF keyed_canonical [OF envelope_keyed]])

lemma ex_sent_check: "SHA256 h \<Longrightarrow> inbox_check (ex_sent h)"
  unfolding ex_sent_def using ex_small [of h]
  by (intro ex_event_check) (simp_all add: hash_check_digest json_valid_def ex_sent_parse byteLength_canonicalJson)

lemma ex_sent_read:
  "readEvent vol (ex_sent h) = Inr \<lparr>ev_row = ex_sent h, ev_payload = canonicalValue (json_of_envelope (ex_envelope h))\<rparr>"
proof -
  have c: "ir_payload (ex_sent h) = \<lparr>pc_inline = Some (canonicalJson (json_of_envelope (ex_envelope h))), pc_algorithm = None,
      pc_digest = None, pc_bytes = None, pc_encoding = None, pc_media_type = None, pc_payload_schema = None\<rparr>"
    "ii_payload_hash (ir_intent (ex_sent h)) = digestCanonicalJson (json_of_envelope (ex_envelope h))"
    by (simp_all add: ex_sent_def ex_event_row_def new_event_row_def intended_def Let_def)
  obtain v w where v: "v = json_of_envelope (ex_envelope h)" "w = canonicalValue v" by blast
  note p = ex_payload [of h, folded v] and q = ex_sent_parse [of h, folded v]
  from p have j: "canonicalJson w = canonicalJson v" by (simp add: canonicalJson_def v(2))
  then have d: "digestCanonicalJson w = digestCanonicalJson v" by (simp add: digestCanonicalJson_def)
  have "inbox_raw vol (ex_sent h) = Inr (canonicalJson v)"
    by (simp add: inbox_raw_def inbox_pointer_def payloadPointer_def c(1) v(1))
  then show ?thesis using p q j d c(2) unfolding readEvent_def v(1) [symmetric] v(2) [symmetric] by simp
qed

section \<open>The message is sent and leased\<close>

definition ex_inbox :: "inbox_row list \<Rightarrow> inbox_database" where
  "ex_inbox rows = \<lparr>ib_events = rows, ib_settings = []\<rparr>"

lemma ex_open: "getMaintenanceFence (ex_inbox rows) = Inr \<lparr>mf_closed = False, mf_version = 0, mf_updated_at = None\<rparr>"
  by (simp add: getMaintenanceFence_def ex_inbox_def first_row_def)

lemma ex_ingested:
  assumes h: "SHA256 h"
  shows "ingest (ex_inbox_env ''2025-01-02T00:00:00.000Z'') vol (steering_event ex_message (ex_session h) (ex_envelope h)) (ex_inbox []) =
    (Inr (Inserted \<lparr>ev_row = ex_sent h, ev_payload = canonicalValue (json_of_envelope (ex_envelope h))\<rparr>, ex_inbox [ex_sent h]), vol)"
proof -
  let ?env = "ex_inbox_env ''2025-01-02T00:00:00.000Z''" and ?v = "json_of_envelope (ex_envelope h)"
  let ?p = "\<lparr>pp_hash = digestCanonicalJson ?v, pp_inline = Some (canonicalJson ?v), pp_token = None\<rparr>"
  have n: "ni_payload (ex_normalized h) = ?v" by (simp add: ex_normalized_def Let_def)
  have "prepare_ingest ?env vol (steering_event ex_message (ex_session h) (ex_envelope h)) (ex_inbox []) =
      Inr (Some (ex_normalized h, ?p, vol))"
    by (simp add: prepare_ingest_def ex_open ex_normalize n ex_prepared [OF h])
  moreover have "iso (ie_now ?env) ''inbox created_at'' = Inr ''2025-01-02T00:00:00.000Z''" by code_simp
  then have "ingest_new ?env vol (ex_normalized h) ?p (ex_inbox []) =
      Inr (Inserted \<lparr>ev_row = ex_sent h, ev_payload = canonicalValue ?v\<rparr>, ex_inbox [ex_sent h])"
    using ex_sent_check [OF h] ex_sent_read [of vol h] unfolding ex_sent_def ex_event_row_def
    by (simp add: ingest_new_def Let_def ex_inbox_def ordered_rows_def payloadColumns_def insertE_def inbox_schema_def)
  ultimately show ?thesis
    by (simp add: ingest_def ingest_body_def ex_open transaction_def inbox_keys_def ex_inbox_env_def)
       (simp add: ex_inbox_def first_row_def Let_def)
qed

lemma ex_sent_pending:
  "ir_status (ex_sent h) = InboxPending" "ir_lease_id (ex_sent h) = None" "ir_lease_expires (ex_sent h) = None"
  "ir_available_at (ex_sent h) = ''2025-01-02T00:00:00.000Z''"
  by (simp_all add: ex_sent_def ex_event_row_def new_event_row_def ex_normalized_def Let_def)

lemma ex_enqueued:
  "enqueueSteering ex_blob_env ex_resolver (ex_inbox_env ''2025-01-02T00:00:00.000Z'') vol ex_message
     (ex_live_db (sha256 [120])) (ex_inbox []) =
   (Inr (IngressAccepted \<lparr>ev_row = ex_sent (sha256 [120]),
       ev_payload = canonicalValue (json_of_envelope (ex_envelope (sha256 [120])))\<rparr> False,
     ex_inbox [ex_sent (sha256 [120])]), vol)"
  using ex_live_session ex_sealed [OF SHA256_sha256] ex_ingested [OF SHA256_sha256]
  by (simp add: enqueueSteering_def ex_open seal_message_def ex_message_def ingestMutation_def ingressResponse_def)

definition ex_take :: "string \<Rightarrow> string \<Rightarrow> inbox_lease" where
  "ex_take i until = \<lparr>il_owner_id = ''w'', il_lease_id = i, il_expires_at = until\<rparr>"

lemma ex_ready:
  "lease_ready (ex_inbox_env ''2025-01-02T00:00:01.000Z'') (ex_take ''l1'' ''2025-01-02T00:00:02.000Z'')"
  "lease_ready (ex_inbox_env ''2025-01-02T00:00:03.000Z'') (ex_take ''l2'' ''2025-01-02T00:00:04.000Z'')"
  by code_simp+

lemma ex_first_lease:
  assumes "SHA256 h"
  obtains r where "leaseNext (ex_inbox_env ''2025-01-02T00:00:01.000Z'') vol (ex_take ''l1'' ''2025-01-02T00:00:02.000Z'') (ex_inbox [ex_sent h]) =
      Inr (Some \<lparr>ev_row = r, ev_payload = canonicalValue (json_of_envelope (ex_envelope h))\<rparr>, ex_inbox [r])"
    "ir_id r = ir_id (ex_sent h)" "ir_intent r = ir_intent (ex_sent h)" "ir_payload r = ir_payload (ex_sent h)" "inbox_check r"
    "ir_status r = InboxProcessing" "ir_lease_id r = Some ''l1''" "ir_lease_expires r = Some ''2025-01-02T00:00:02.000Z''"
    "ir_available_at r = ''2025-01-02T00:00:00.000Z''"
proof (rule lease_single [OF ex_ready(1) _ ex_sent_check [OF assms] _ _ _ _ ex_sent_read])
  show "ib_events (ex_inbox [ex_sent h]) = [ex_sent h]" by (simp add: ex_inbox_def)
  show "ir_available_at (ex_sent h) \<le> ie_now (ex_inbox_env ''2025-01-02T00:00:01.000Z'')"
    unfolding ex_sent_pending by code_simp
qed (use that in \<open>auto simp: ex_sent_pending ex_inbox_env_def ex_take_def ex_inbox_def\<close>)

lemma ex_second_lease:
  assumes "inbox_check r" and "readEvent vol r = Inr e" and "ir_status r = InboxProcessing"
    and "ir_lease_expires r = Some ''2025-01-02T00:00:02.000Z''" and "ir_available_at r = ''2025-01-02T00:00:00.000Z''"
  obtains s where "leaseNext (ex_inbox_env ''2025-01-02T00:00:03.000Z'') vol (ex_take ''l2'' ''2025-01-02T00:00:04.000Z'') (ex_inbox [r]) =
      Inr (Some (e\<lparr>ev_row := s\<rparr>), ex_inbox [s])" "ir_intent s = ir_intent r"
proof -
  let ?now = "ie_now (ex_inbox_env ''2025-01-02T00:00:03.000Z'')"
  have "''2025-01-02T00:00:02.000Z'' \<le> ?now" and a: "''2025-01-02T00:00:00.000Z'' \<le> ?now" by code_simp+
  then have x: "expired_event ?now r" using assms(3,4) by (simp add: expired_event_def)
  show thesis
    by (rule lease_single [OF ex_ready(2) _ assms(1) _ _ _ _ assms(2), of "ex_inbox [r]"])
      (use x a assms(5) that in \<open>auto simp: ex_inbox_def ex_inbox_env_def\<close>)
qed

lemma ex_inbox_ok: "SHA256 h \<Longrightarrow> inbox_ok (ib_events (ex_inbox [ex_sent h]))"
  by (simp add: inbox_ok_def ex_inbox_def lease_ok_def ex_sent_pending sameSemanticEvent_def)

section \<open>Witnesses\<close>

theorem one_event_per_group_witness:
  "\<exists>(e1 :: inbox_event) e2 db1 db2.
     leaseNext (ex_inbox_env ''2025-01-02T00:00:01.000Z'') Map.empty (ex_take ''l1'' ''2025-01-02T00:00:02.000Z'')
       (ex_inbox [ex_sent (sha256 [120])]) = Inr (Some e1, db1) \<and>
     leaseNext (ex_inbox_env ''2025-01-02T00:00:03.000Z'') Map.empty (ex_take ''l2'' ''2025-01-02T00:00:04.000Z'') db1 =
       Inr (Some e2, db2) \<and>
     ir_id (ev_row e2) = ir_id (ev_row e1) \<and> ir_payload (ev_row e2) = ir_payload (ev_row e1)"
proof -
  from SHA256_sha256 obtain r where one: "leaseNext (ex_inbox_env ''2025-01-02T00:00:01.000Z'') Map.empty
        (ex_take ''l1'' ''2025-01-02T00:00:02.000Z'') (ex_inbox [ex_sent (sha256 [120])]) =
      Inr (Some \<lparr>ev_row = r, ev_payload = canonicalValue (json_of_envelope (ex_envelope (sha256 [120])))\<rparr>, ex_inbox [r])"
    and r: "ir_id r = ir_id (ex_sent (sha256 [120]))" "ir_intent r = ir_intent (ex_sent (sha256 [120]))"
      "ir_payload r = ir_payload (ex_sent (sha256 [120]))" "inbox_check r" "ir_status r = InboxProcessing"
      "ir_lease_expires r = Some ''2025-01-02T00:00:02.000Z''" "ir_available_at r = ''2025-01-02T00:00:00.000Z''"
    by (rule ex_first_lease)
  from ex_second_lease [OF r(4) read_again [OF ex_sent_read r(1,3,2)] r(5-7)] obtain s where
    two: "leaseNext (ex_inbox_env ''2025-01-02T00:00:03.000Z'') Map.empty (ex_take ''l2'' ''2025-01-02T00:00:04.000Z'') (ex_inbox [r]) =
      Inr (Some \<lparr>ev_row = s, ev_payload = canonicalValue (json_of_envelope (ex_envelope (sha256 [120])))\<rparr>, ex_inbox [s])"
      and s: "ir_intent s = ir_intent r" by auto
  have "event_group s = event_group r" using s by (simp add: event_group_def)
  with one_event_per_group [OF ex_inbox_ok [OF SHA256_sha256] one rtranclp.rtrancl_refl two] one two
  show ?thesis by auto
qed

theorem steering_reaches_its_session_witness:
  "\<exists>e f db1 db2 (a :: authorized_steering).
     enqueueSteering ex_blob_env ex_resolver (ex_inbox_env ''2025-01-02T00:00:00.000Z'') Map.empty ex_message
       (ex_live_db (sha256 [120])) (ex_inbox []) = (Inr (IngressAccepted e False, db1), Map.empty) \<and>
     leaseNext (ex_inbox_env ''2025-01-02T00:00:01.000Z'') Map.empty (ex_take ''l1'' ''2025-01-02T00:00:02.000Z'') db1 =
       Inr (Some f, db2) \<and>
     authorizeLeasedSteering ex_blob_env ex_resolver f (ex_live_db (sha256 [120])) = Inr a \<and>
     au_body a = lf_only (sm_body ex_message)"
proof -
  let ?h = "sha256 [120]"
  let ?w = "canonicalValue (json_of_envelope (ex_envelope (sha256 [120])))"
  from SHA256_sha256 obtain r where one: "leaseNext (ex_inbox_env ''2025-01-02T00:00:01.000Z'') Map.empty
        (ex_take ''l1'' ''2025-01-02T00:00:02.000Z'') (ex_inbox [ex_sent ?h]) = Inr (Some \<lparr>ev_row = r, ev_payload = ?w\<rparr>, ex_inbox [r])"
    and r: "ir_id r = ir_id (ex_sent ?h)" "ir_intent r = ir_intent (ex_sent ?h)"
      "ir_status r = InboxProcessing" "ir_lease_id r = Some ''l1''"
    by (rule ex_first_lease)
  have "authorizeKernelSteeringDelivery (ex_envelope ?h) (Some (ex_session ?h)) =
      Inr \<lparr>au_message_id = ''m'', au_source = ''human'', au_body = ''go'', au_binding = sealed_binding (ex_session ?h),
        au_scope = sb_scope (ex_session ?h), au_policy = steering_policy_of (ex_session ?h)\<rparr>"
  proof -
    have "fence_mismatch b b = None" for b by (simp add: fence_mismatch_None)
    with ex_session_valid [OF SHA256_sha256] ex_sealed [OF SHA256_sha256] show ?thesis
      by (simp add: authorizeKernelSteeringDelivery_def exactEnvelope_def ex_envelope_def)
  qed
  moreover have "ii_kind (ir_intent r) = ''steering/message@1'' \<and> ii_payload_schema (ir_intent r) = KERNEL_STEERING_ENVELOPE_SCHEMA \<and>
      ii_pipeline_run_id (ir_intent r) = Some ''r'' \<and> ii_attempt_id (ir_intent r) = Some ''a'' \<and>
      ii_generation (ir_intent r) = 0 \<and> ii_subject (ir_intent r) = Some ex_subject"
    unfolding r(2) by (simp add: ex_sent_def ex_event_row_def new_event_row_def intended_def ex_normalized_def
        steering_event_def ex_session_def Let_def)
  moreover have "steeringEnvelope ?w = Inr (ex_envelope ?h)" by (rule envelope_read) (simp add: ex_envelope_def)
  ultimately obtain a where a: "authorizeLeasedSteering ex_blob_env ex_resolver \<lparr>ev_row = r, ev_payload = ?w\<rparr> (ex_live_db ?h) = Inr a"
    using r(3,4) ex_live_session
    by (simp add: authorizeLeasedSteering_def Let_def ex_envelope_def sealed_binding_def ex_session_def)
  have inline: "pc_inline (ir_payload (ex_sent ?h)) \<noteq> None" by (simp add: ex_sent_def ex_event_row_def new_event_row_def)
  have "inbox_ok (ib_events (ex_inbox []))" by (simp add: inbox_ok_def ex_inbox_def)
  from steering_reaches_its_session [OF ex_enqueued _ this rtranclp.rtrancl_refl one _ a] inline r(1)
  have "au_body a = lf_only (sm_body ex_message)" by auto
  with a one ex_enqueued show ?thesis by blast
qed

end
