(* ===== verification/Spec2Isabelle.thy ===== *)
theory Spec2Isabelle
  imports AttemptLeaseProperties CheckpointAncestry EvaluatorProperties PipelineParsing
    ProviderSchema SteeringExamples
begin

text \<open>
  A verification development for openthrottle.  The program runs software pipelines with coding agents:
  a supervisor admits work, compiles a pipeline definition, and then moves one run at a time through
  the stages of its pipeline.  Every step of a run is decided by the kernel, a pure function from the
  current state and one command to an atomic bundle of writes, which a store commits.  This development
  models that core and the contracts it rests on.

  \<^bold>\<open>The parts and how they call each other\<close>

  \<^item> \<open>contracts/src\<close> holds the documents that cross every boundary.  Their readers take any JSON value and
    either return a normal form or throw; their canonical text and SHA-256 digest identify them.
  \<^item> \<open>supervisor/src/pipeline/kernel\<close> holds the reducer: guards, cursor, settlement of attempts, effects,
    ending of runs.  It calls the readers of the contracts, and returns a bundle whose content is hashed.
  \<^item> \<open>supervisor/src/pipeline/kernel/store.ts\<close> holds the commit protocol: whether a bundle is applied, is a
    replay of one already committed, or is rejected.
  \<^item> \<open>supervisor/src/pipeline/kernel/evaluator-registry.ts\<close> turns the answer of an agent or the payload of a
    command into the records and the outcome that the reducer consumes.
  \<^item> \<open>supervisor/src/persistence\<close> holds the SQL store that commits the bundles (\<open>kernel-store.ts\<close>, with the codecs
    of its rows), and the leases under which workers execute attempts and dispatch effects
    (\<open>kernel-store-leases.ts\<close>).  Leases advance the version of their run, so that a bundle computed before a
    lease is no longer current.
  \<^item> Events from outside enter through the inbox (\<open>kernel-inbox-store.ts\<close>), from which workers lease them.  A
    worker that has launched a native session binds it to its attempt (\<open>app/kernel-runtime-session.ts\<close>), through
    the reducer and the store.  The control service (\<open>app/kernel-control.ts\<close>) puts steering messages into the
    inbox, sealed for the session that is bound (\<open>steering.ts\<close>), and authorises them when they are leased.

  \<^bold>\<open>Theories\<close>

  \<^item> Prelude: results with errors (\<open>bindE\<close>, \<open>mapE\<close>, \<open>forE\<close>), association lists for dictionaries, sorted sets of
    strings (\<open>sortedUnique\<close>, \<open>sortedRecord\<close> of \<open>reducer-support.ts\<close>), and the collections \<open>run_ok\<close>, \<open>run_cases\<close>
    that decompose a successful computation.  Errors: the error values of every module, one constructor
    per message.  Strings: the regular expressions of the readers as predicates.  Postconditions: \<open>post Q m\<close>,
    rewritten backwards through a computation.
  \<^item> Json, JsonParse, Sha256: \<open>canonical.ts\<close>; \<open>JSON.stringify\<close> and \<open>JSON.parse\<close> as the standard library has them.
  \<^item> JsonRoundTrip: canonical text parses back to the canonical value, and identifies objects up to the order
    of entries.
  \<^item> Validation: the field readers of \<open>validation.ts\<close>.  Records: \<open>records.ts\<close> and \<open>effects.ts\<close>.  EvidencePayloads:
    \<open>attempt-evidence.ts\<close> of the contracts.  ContractRoundTrip: what these readers accept reads back.
  \<^item> Pipeline: parsing of definitions and compiled manifests (\<open>pipeline.ts\<close>).  CycleSearch: the depth-first
    search for cycles, as a locale over a successor function, interpreted on the stages of a pipeline and
    on the members of a frontier.  PipelineGraph: the graph checks against their declarative meaning.
    PipelineTermination: the bound on re-entries as a lexicographic measure, and the rounds of settlements that
    descend in it (\<open>settlement_rounds\<close>); the move of a sandbox recovery and a terminal command also move the
    cursor and are no rounds.  PipelineParsing: the types of parsed definitions and the properties of validated ones.
  \<^item> Lifecycle: the provisioning and cleanup stages that the compiler adds (\<open>runtime-lifecycle.ts\<close> of the
    contracts and of the kernel).  LifecycleProperties: what the expansion keeps.
  \<^item> KernelTypes, KernelJson: \<open>types.ts\<close>, and its values as JSON, for the hashes.
  \<^item> ReducerSupport, ReducerBase, ReducerWork, ReducerTerminal, ReducerSettle: \<open>reducer-support.ts\<close> and
    \<open>reducer.ts\<close>, one definition per handler, composed by \<open>reduceKernelCommand\<close>.
  \<^item> AttemptEvidence: \<open>attempt-evidence.ts\<close> and \<open>effect-intent.ts\<close> of the kernel.  RuntimeResource:
    \<open>runtime-resource.ts\<close>.  SandboxRecovery: \<open>sandbox-recovery.ts\<close>.  CheckpointAncestry: \<open>checkpoint-ancestry.ts\<close>.
  \<^item> Cursor, AttemptHandlers, KernelFacts, KernelInvariant: the lemmas on the cursor, on the handlers that
    replace one attempt, on all handlers, and the invariant \<open>run_wf\<close> with the step relation \<open>kernel_step\<close>.
    One kind of step leaves the invariant (\<open>careless_step\<close>): its command names the empty string as a dependency,
    which \<open>compileKernelCursor\<close> lets pass, or creates an attempt whose key is already complete.  The topology
    check then refuses every later command on the run, and the properties say so.
  \<^item> KernelProperties: the properties of the kernel.  RecordOrder: the order of appended records.
    TransitionStore: \<open>store.ts\<close>, and the bundles of the reducer under it.  Examples: the concrete runs on
    which the witnesses evaluate.

  \<^item> ExecutionPlan: \<open>execution-plan-v2.ts\<close>, and that an accepted plan can be scheduled.  ResultCandidate:
    \<open>result-candidate.ts\<close> and \<open>eval.ts\<close>.  JsonSize: the length of JSON text, which the size limits of candidates
    are about.  SemanticResults: normalisation is idempotent and never lengthens a candidate.  JsonSchema: the
    meaning of the part of JSON Schema that is used (\<open>admits\<close>).  PlanSchema, ProviderSchema: the schema that the
    provider was given admits an accepted candidate exactly when the identifiers of its plans are short.
  \<^item> Evaluators: \<open>evaluator-registry.ts\<close>.  EvaluatorProperties: evaluations stay inside their eval.
  \<^item> SqlTables: tables as lists of rows with their checks and unique keys, \<open>SELECT\<close>, \<open>INSERT\<close> and \<open>UPDATE\<close>, and
    transactions.  StoreRows: the rows and constraints of the five tables of the kernel (\<open>epoch-schema.ts\<close>).
    StoreCodecs: \<open>kernel-store-codecs.ts\<close>.  BlobStore: the verified reads of \<open>blob-store.ts\<close>, and the
    publication of a text.
  \<^item> KernelStore, KernelTransactions: \<open>kernel-store.ts\<close>, from the single writes to \<open>applyAtomicTransition\<close>,
    \<open>#advanceRunFence\<close> and \<open>loadExactReductionView\<close>.  StoreFacts: what each of them changes.
  \<^item> Admission: how runs are admitted and attached, over the database of an epoch.  OperatorRejection:
    \<open>operator-effect-rejection.ts\<close> and \<open>rejectDispatchFencedUnknownEffect\<close>.  RecoveryQuarantine: the quarantine of
    an attempt whose recoveries are exhausted.  StoreOperations: what these and the leases on attempts change.
  \<^item> Paging: the loops that read a table page by page, proved equal to one ordered scan.  EffectLeases,
    AttemptLeases: \<open>kernel-store-leases.ts\<close>, over a record \<open>lease_host\<close> of the callbacks that the class gets
    from the store.  EffectLeaseFacts, AttemptLeaseFacts: the locales \<open>effect_host\<close> and \<open>attempt_host\<close> state what
    the leases expect of these callbacks, and hold the facts about leases.
  \<^item> StoreProperties, AttemptLeaseProperties: the store is interpreted as that host (\<open>store_host\<close>); the
    properties of the store and of the leases.  StoreExamples: the databases of the witnesses.
  \<^item> Inbox: \<open>kernel-inbox-store.ts\<close>.  Steering: \<open>steering.ts\<close>.  RuntimeSession: \<open>kernel-runtime-session.ts\<close>.
    Control: \<open>kernel-control.ts\<close>.  InboxFacts: how the rows of the inbox evolve under its operations
    (\<open>events_evolve\<close>), the invariant \<open>inbox_ok\<close>, in which every delivery behind the first of its group is stale,
    and the step relation \<open>inbox_step\<close>.  SteeringProperties: one row is handed out for a group, and a message
    reaches the session that it was sealed for.  SteeringExamples: a live session, its message and its leases.

  \<^bold>\<open>State and operations\<close>

  A run is the record \<open>kernel_run\<close> (\<open>KernelRun\<close>), with its cursor (\<open>KernelCursor\<close>) and the versions of the
  attempts and effects that are active; an attempt is \<open>kernel_attempt\<close>.  A command is a constructor of
  \<open>kernel_command\<close>.  \<open>reduceKernelCommand\<close> returns \<open>Inr bundle\<close> or \<open>Inl error\<close>: every \<open>throw\<close> of the source is
  a branch.  A step of \<open>kernel_step\<close> replaces the run by the run of a bundle that the reducer returned on
  it, with no condition on the command or on the bundle; a run is reachable when a sequence of such steps leads
  to it.

  The state of the store is the record \<open>database\<close> of five tables.  An operation of the store takes it and
  returns \<open>Inr (answer, database')\<close>, or \<open>Inl error\<close>, after which the database is the one from before
  (\<open>transaction\<close>, \<open>database_after\<close>).  \<open>store_step\<close> is the step relation of committed
  operations: bundles, leases on effects and attempts with their dispatches, completions, renewals and recoveries,
  rejections by an operator, and the admission and attachment of runs, which are all the statements of the program
  on these tables.  Admission and rejection also use tables outside the kernel: \<open>epoch\<close> joins them.
  The inbox is a record \<open>inbox_database\<close> of its own, with the events and the settings: the control service reads
  the kernel and writes the inbox in separate transactions, so its operations take both.

  \<^bold>\<open>Conventions\<close>

  Objects and \<open>Map\<close>s are association lists in insertion order with distinct keys where the code builds
  them (\<open>dict_ok\<close>).  Strings are lists of characters below 256; the source has UTF-16 code units, so text
  outside Latin-1 is outside the model, and lengths agree on what is inside.  Numbers are integers where
  the source checks for safe integers.  Dictionaries do not inherit names from \<open>Object.prototype\<close>.

  In the store, a reading of the clock is an argument (\<open>sv_now\<close>, \<open>now\<close>), a column that may be \<open>NULL\<close> is an
  option, and a \<open>CHECK\<close> is the condition that is not false, since SQL lets an unknown one pass.  Texts order
  byte by byte, as the \<open>BINARY\<close> collation does.  Foreign keys are deferred: they are checked when a
  transaction ends; those to work items and registrations are checked by the statement (\<open>requires_key\<close>).  The five tables have no triggers.  What the source casts without a check (the parsed
  text of a JSON column, \<open>attempt.lease!\<close>) is an error when it is of another type.  The files of the blob
  store are a function from digests to their content, the resolver of manifests and the snapshot of the
  manifests for scheduling are arguments, and the retries on a stale snapshot run over a list of turns,
  each with the snapshot taken and the database found then.  When a blob cannot be read, \<open>lh_read\<close> gives the
  error of the volume without the context that \<open>#readBlob\<close> adds to its text.

  Four points where a definition is coarser than JavaScript.  \<open>timestampAt\<close> has no test for \<open>NaN\<close> after the check
  of its grammar, since \<open>Date.parse\<close> reads every text of that grammar.  \<open>sortedRecord\<close> keeps integer-like keys in
  the order of their text, where an object lists them first.  \<open>json_parse\<close> keeps a number with a fraction or an
  exponent as text and does not round integers above \<open>2 ^ 53\<close>; canonical text of safe integers has neither.
  Messages of errors carry what the theorems need, and texts that differ only in wording are shared.

  \<^bold>\<open>Bounds and fuel\<close>

  The parser of JSON takes fuel: \<open>json_parse\<close> starts with twice the length of its input plus two, each
  call consumes one, and \<open>parse_canonicalJson\<close> shows that this is enough for all canonical text.  The last
  loop of \<open>validateKernelCheckpointAncestryChain\<close> has no bound in the source: it is a \<open>partial_function\<close>,
  and \<open>ancestry_terminates\<close> shows that it returns on every input.  The loop of \<open>bindRuntimeSession\<close> has none
  either: \<open>bind_loop\<close> is a \<open>partial_function\<close> over the turns that it may take, and
  \<open>bind_loop_returns\<close> shows that it returns when the versions of the runs that it can load are bounded.
  \<open>lease_loop\<close> counts the unreadable rows that \<open>leaseNext\<close> skips, at most 100, as the source does.  The loops over pages end because each page
  starts after the last one (\<open>after_key_decreases\<close>).  All other loops are total functions.

  \<^bold>\<open>Not modelled\<close>

  The conversion of a timestamp with an offset to UTC (no reader of the kernel asks for it), the
  classification of thrown JavaScript exceptions in \<open>sandbox-recovery.ts\<close> (it inspects exception objects).
  Of the store: the projections, the views for coordinators, forensics and integrity reports, the construction of
  the scheduling snapshot, the fault injector of the tests, the temporary files and the synchronisation of the
  blob store and the migration of the database, which are readers and administration around the transactions
  modelled here.  The report of active work, which joins the projections with the inventory of the providers.
  The definition compiler, whose input is a tree of files read from a repository, and the action requests and
  successor attempts that are sealed from its result.  And everything that talks to the outside:
  coordinators, providers, HTTP, the command line, and the sandbox runner, which drive asynchronous clients
  of services that are not under \<open>src/\<close>.
\<close>

end
